(* ===== verification/Prelude.thy ===== *)
theory Prelude
  imports Complex_Main "HOL-Library.AList" "HOL-Library.Sublist" "HOL-Library.Multiset"
begin

text \<open>
  What the TypeScript sources use of the language and of its standard library, and the lemmas
  about it that the components share.

  \<^item> Strings are lists of code units (\<open>string\<close>, so code units below 256); \<open>js_trim\<close> is
    \<open>String.prototype.trim\<close> on them, \<open>js_join\<close> is \<open>Array.prototype.join\<close>.
  \<^item> \<open>null\<close> and \<open>undefined\<close> are both \<open>None\<close>: the modelled code reads optional values only
    with \<open>??\<close>, \<open>?.\<close> and truthiness tests, which do not tell them apart.
  \<^item> A number that is compared is a \<open>js_number\<close>: a finite value or one of the three non-finite
    ones, with the subtraction and the truthiness that comparators rely on.
  \<^item> \<open>Array.prototype.sort\<close> is the stable insertion sort \<open>js_sort\<close>; the language fixes its result
    only for a consistent comparator, which is the contract \<open>js_comparator\<close>.
  \<^item> A \<open>Map\<close> is an association list in insertion order: \<open>set\<close> is \<open>AList.update\<close>, \<open>get\<close> is
    \<open>map_of\<close>. A \<open>Set\<close> whose order matters is a distinct list, \<open>add\<close> is \<open>js_set_add\<close>.
\<close>

named_theorems js_defs "definitions of the language helpers, for evaluation"

section \<open>Strings and optional values\<close>

definition js_whitespace :: "char \<Rightarrow> bool" where
  "js_whitespace c \<longleftrightarrow> (let n = of_char c in n = (32::nat) \<or> (9 \<le> n \<and> n \<le> 13) \<or> n = 160)"

definition js_trim :: "string \<Rightarrow> string" where
  "js_trim s = rev (dropWhile js_whitespace (rev (dropWhile js_whitespace s)))"

definition js_blank :: "string \<Rightarrow> bool" where
  "js_blank s \<longleftrightarrow> js_trim s = []"

fun js_join :: "string \<Rightarrow> string list \<Rightarrow> string" where
  "js_join sep [] = []"
| "js_join sep [x] = x"
| "js_join sep (x # y # xs) = x @ sep @ js_join sep (y # xs)"

definition js_lower_char :: "char \<Rightarrow> char" where
  "js_lower_char c = (let n = of_char c :: nat in
     if (65 \<le> n \<and> n \<le> 90) \<or> (192 \<le> n \<and> n \<le> 222 \<and> n \<noteq> 215) then char_of (n + 32) else c)"

definition js_lower :: "string \<Rightarrow> string" where
  "js_lower s = map js_lower_char s"

text \<open>\<open>replace(/[class]+/g, "c")\<close>: every run of characters of the class becomes one \<open>c\<close>.\<close>

function js_collapse_runs :: "(char \<Rightarrow> bool) \<Rightarrow> char \<Rightarrow> string \<Rightarrow> string" where
  "js_collapse_runs P r [] = []"
| "js_collapse_runs P r (c # cs) =
     (if P c then r # js_collapse_runs P r (dropWhile P cs) else c # js_collapse_runs P r cs)"
  by pat_completeness auto
termination
  by (relation "measure (\<lambda>(P, r, s). length s)") (auto simp: less_Suc_eq_le length_dropWhile_le)

definition js_collapse_spaces :: "string \<Rightarrow> string" where
  "js_collapse_spaces = js_collapse_runs js_whitespace (CHR '' '')"

text \<open>\<open>replace(/^c+|c+$/g, "")\<close>: the run of \<open>c\<close> at either end is removed.\<close>

definition js_strip :: "char \<Rightarrow> string \<Rightarrow> string" where
  "js_strip c s = rev (dropWhile (\<lambda>x. x = c) (rev (dropWhile (\<lambda>x. x = c) s)))"

text \<open>\<open>s.slice(-n)\<close>.\<close>

definition js_slice_last :: "nat \<Rightarrow> 'a list \<Rightarrow> 'a list" where
  "js_slice_last n s = drop (length s - n) s"

text \<open>\<open>s || t\<close> on strings, \<open>a ?? b\<close> on optional values, and the truthiness of an optional string.\<close>

definition js_or_str :: "string \<Rightarrow> string \<Rightarrow> string" where
  "js_or_str s t = (if s = [] then t else s)"

definition js_coalesce :: "'a option \<Rightarrow> 'a option \<Rightarrow> 'a option" where
  "js_coalesce a b = (case a of None \<Rightarrow> b | Some x \<Rightarrow> Some x)"

definition js_default :: "'a \<Rightarrow> 'a option \<Rightarrow> 'a" where
  "js_default d a = (case a of None \<Rightarrow> d | Some x \<Rightarrow> x)"

definition js_truthy_str :: "string option \<Rightarrow> bool" where
  "js_truthy_str a = (case a of None \<Rightarrow> False | Some s \<Rightarrow> s \<noteq> [])"

text \<open>\<open>value?.trim()\<close> tested for truthiness.\<close>

definition js_has_text :: "string option \<Rightarrow> bool" where
  "js_has_text a = (case a of None \<Rightarrow> False | Some s \<Rightarrow> \<not> js_blank s)"

text \<open>The decimal digits of a natural number, as \<open>toString()\<close> prints them.\<close>

fun js_nat_string :: "nat \<Rightarrow> string" where
  "js_nat_string n =
     (if n < 10 then [char_of (48 + n)] else js_nat_string (n div 10) @ [char_of (48 + n mod 10)])"

declare js_nat_string.simps [simp del]

lemmas [js_defs] = js_whitespace_def js_trim_def js_blank_def js_or_str_def js_coalesce_def
  js_default_def js_truthy_str_def js_has_text_def js_lower_def js_lower_char_def
  js_collapse_spaces_def js_strip_def js_slice_last_def

lemma js_coalesce_simps [simp]:
  "js_coalesce None b = b" "js_coalesce (Some x) b = Some x" "js_coalesce a None = a"
  by (simp_all add: js_coalesce_def split: option.split)

lemma js_default_simps [simp]: "js_default d None = d" "js_default d (Some x) = x"
  by (simp_all add: js_default_def)

lemma js_truthy_str_iff: "js_truthy_str a \<longleftrightarrow> (\<exists>s. a = Some s \<and> s \<noteq> [])"
  by (auto simp: js_truthy_str_def split: option.split)

lemma js_truthy_str_simps [simp]: "\<not> js_truthy_str None" "js_truthy_str (Some s) \<longleftrightarrow> s \<noteq> []"
  by (simp_all add: js_truthy_str_def)

lemma js_has_text_simps [simp]: "\<not> js_has_text None" "js_has_text (Some s) \<longleftrightarrow> \<not> js_blank s"
  by (simp_all add: js_has_text_def)

lemma js_or_str_empty_iff [simp]: "js_or_str s t = [] \<longleftrightarrow> s = [] \<and> t = []"
  by (simp add: js_or_str_def)

lemma js_trim_Nil [simp]: "js_trim [] = []"
  by (simp add: js_trim_def)

lemma dropWhile_rev_dropWhile:
  "dropWhile P (rev (dropWhile P (rev (dropWhile P xs)))) = rev (dropWhile P (rev (dropWhile P xs)))"
proof (cases "dropWhile P xs")
  case Nil
  show ?thesis by (simp only: Nil rev.simps dropWhile.simps)
next
  case (Cons y ys)
  then have "\<not> P y" by (metis hd_dropWhile list.discI list.sel(1))
  then have "dropWhile P (rev ys @ [y]) = dropWhile P (rev ys) @ [y]"
    by (induction ys rule: rev_induct) auto
  with Cons \<open>\<not> P y\<close> show ?thesis by simp
qed

lemma js_trim_idem [simp]: "js_trim (js_trim s) = js_trim s"
  unfolding js_trim_def by (simp add: dropWhile_rev_dropWhile dropWhile_idem)

lemma js_blank_trim [simp]: "js_blank (js_trim s) \<longleftrightarrow> js_blank s"
  by (simp add: js_blank_def)

section \<open>Numbers as comparators see them\<close>

datatype js_number = Fin rat | PosInf | NegInf | NaN

fun js_sub :: "js_number \<Rightarrow> js_number \<Rightarrow> js_number" where
  "js_sub (Fin a) (Fin b) = Fin (a - b)"
| "js_sub NaN b = NaN"
| "js_sub a NaN = NaN"
| "js_sub PosInf PosInf = NaN"
| "js_sub NegInf NegInf = NaN"
| "js_sub PosInf b = PosInf"
| "js_sub NegInf b = NegInf"
| "js_sub a PosInf = NegInf"
| "js_sub a NegInf = PosInf"

fun js_pos :: "js_number \<Rightarrow> bool" where
  "js_pos (Fin a) \<longleftrightarrow> 0 < a"
| "js_pos PosInf \<longleftrightarrow> True"
| "js_pos NegInf \<longleftrightarrow> False"
| "js_pos NaN \<longleftrightarrow> False"

fun js_neg :: "js_number \<Rightarrow> bool" where
  "js_neg (Fin a) \<longleftrightarrow> a < 0"
| "js_neg PosInf \<longleftrightarrow> False"
| "js_neg NegInf \<longleftrightarrow> True"
| "js_neg NaN \<longleftrightarrow> False"

text \<open>\<open>a || b\<close>: the first operand when it is truthy (neither zero nor \<open>NaN\<close>).\<close>

definition js_or :: "js_number \<Rightarrow> js_number \<Rightarrow> js_number" where
  "js_or a b = (if js_pos a \<or> js_neg a then a else b)"

lemmas [js_defs] = js_or_def

lemma js_pos_or: "js_pos (js_or a b) \<longleftrightarrow> js_pos a \<or> (\<not> js_neg a \<and> js_pos b)"
  by (cases a) (auto simp: js_or_def)

lemma js_neg_or: "js_neg (js_or a b) \<longleftrightarrow> js_neg a \<or> (\<not> js_pos a \<and> js_neg b)"
  by (cases a) (auto simp: js_or_def)

lemma js_pos_neg_excl: "js_pos a \<Longrightarrow> \<not> js_neg a"
  by (cases a) auto

section \<open>Sorting with a comparator\<close>

fun js_insert :: "('a \<Rightarrow> 'a \<Rightarrow> js_number) \<Rightarrow> 'a \<Rightarrow> 'a list \<Rightarrow> 'a list" where
  "js_insert cmp x [] = [x]"
| "js_insert cmp x (y # ys) =
     (if js_pos (cmp x y) then y # js_insert cmp x ys else x # y # ys)"

fun js_sort :: "('a \<Rightarrow> 'a \<Rightarrow> js_number) \<Rightarrow> 'a list \<Rightarrow> 'a list" where
  "js_sort cmp [] = []"
| "js_sort cmp (x # xs) = js_insert cmp x (js_sort cmp xs)"

lemma mset_js_insert: "mset (js_insert cmp x xs) = add_mset x (mset xs)"
  by (induction xs) auto

lemma mset_js_sort: "mset (js_sort cmp xs) = mset xs"
  by (induction xs) (auto simp: mset_js_insert)

lemma set_js_sort [simp]: "set (js_sort cmp xs) = set xs"
  using mset_js_sort by (metis set_mset_mset)

lemma length_js_sort [simp]: "length (js_sort cmp xs) = length xs"
  using mset_js_sort by (metis size_mset)

lemma js_sort_Nil_iff [simp]: "js_sort cmp xs = [] \<longleftrightarrow> xs = []"
  by (metis length_0_conv length_js_sort)

lemma set_js_insert [simp]: "set (js_insert cmp x xs) = insert x (set xs)"
  by (induction xs) auto

text \<open>
  The contract between a comparator and the sort: the language calls such a comparator
  consistent and defines the result of \<open>sort\<close> only for it.
\<close>

locale js_comparator =
  fixes cmp :: "'a \<Rightarrow> 'a \<Rightarrow> js_number"
  assumes flip: "js_pos (cmp x y) \<longleftrightarrow> js_neg (cmp y x)"
    and not_pos_trans: "\<not> js_pos (cmp x y) \<Longrightarrow> \<not> js_pos (cmp y z) \<Longrightarrow> \<not> js_pos (cmp x z)"
begin

lemma refl: "\<not> js_pos (cmp x x)"
  using flip js_pos_neg_excl by blast

lemma total: "js_pos (cmp x y) \<Longrightarrow> \<not> js_pos (cmp y x)"
  using flip js_pos_neg_excl by blast

lemma sorted_insert:
  "sorted_wrt (\<lambda>x y. \<not> js_pos (cmp x y)) ys \<Longrightarrow>
   sorted_wrt (\<lambda>x y. \<not> js_pos (cmp x y)) (js_insert cmp x ys)"
proof (induction ys)
  case Nil
  then show ?case by simp
next
  case (Cons y ys)
  then show ?case by (auto dest: total) (use not_pos_trans in blast)
qed

lemma sorted_sort: "sorted_wrt (\<lambda>x y. \<not> js_pos (cmp x y)) (js_sort cmp xs)"
  by (induction xs) (auto intro: sorted_insert)

lemma hd_sort_least:
  assumes "js_sort cmp xs = y # ys" and "x \<in> set xs"
  shows "\<not> js_pos (cmp y x)"
proof -
  have "x \<in> set (y # ys)" using assms by (metis set_js_sort)
  moreover have "sorted_wrt (\<lambda>x y. \<not> js_pos (cmp x y)) (y # ys)"
    using assms(1) sorted_sort by metis
  ultimately show ?thesis using refl by auto
qed

text \<open>A strictly ordered rearrangement of the input is the result.\<close>

lemma sorted_unique:
  "mset zs = mset ys \<Longrightarrow> sorted_wrt (\<lambda>x y. js_neg (cmp x y)) ys \<Longrightarrow>
   sorted_wrt (\<lambda>x y. \<not> js_pos (cmp x y)) zs \<Longrightarrow> zs = ys"
proof (induction ys arbitrary: zs)
  case Nil
  then show ?case by simp
next
  case (Cons y ys)
  then obtain z zs' where zs: "zs = z # zs'" by (cases zs) auto
  have "set zs = set (y # ys)" using Cons.prems(1) by (metis set_mset_mset)
  then have mem: "z \<in> set (y # ys)" "y \<in> set (z # zs')" using zs by auto
  have "z = y"
  proof (rule ccontr)
    assume "z \<noteq> y"
    then have "js_neg (cmp y z)" "\<not> js_pos (cmp z y)"
      using mem Cons.prems(2,3) zs by auto
    then show False using flip by blast
  qed
  with Cons zs show ?case by auto
qed

lemma sort_eqI:
  "mset xs = mset ys \<Longrightarrow> sorted_wrt (\<lambda>x y. js_neg (cmp x y)) ys \<Longrightarrow> js_sort cmp xs = ys"
  by (rule sorted_unique) (auto simp: mset_js_sort sorted_sort)

text \<open>Elements the comparator does not separate keep their order.\<close>

lemma filter_insert_equal:
  assumes "\<not> js_pos (cmp x k)" and "\<not> js_pos (cmp k x)"
  shows "filter (\<lambda>y. \<not> js_pos (cmp y k) \<and> \<not> js_pos (cmp k y)) (js_insert cmp x ys)
       = x # filter (\<lambda>y. \<not> js_pos (cmp y k) \<and> \<not> js_pos (cmp k y)) ys"
proof (induction ys)
  case Nil
  then show ?case using assms by simp
next
  case (Cons y ys)
  show ?case
  proof (cases "js_pos (cmp x y)")
    case True
    then have "js_pos (cmp y k) \<or> js_pos (cmp k y)"
      using assms not_pos_trans by blast
    with True Cons show ?thesis by auto
  next
    case False
    with assms show ?thesis by simp
  qed
qed

lemma filter_insert_other:
  assumes "\<not> (\<not> js_pos (cmp x k) \<and> \<not> js_pos (cmp k x))"
  shows "filter (\<lambda>y. \<not> js_pos (cmp y k) \<and> \<not> js_pos (cmp k y)) (js_insert cmp x ys)
       = filter (\<lambda>y. \<not> js_pos (cmp y k) \<and> \<not> js_pos (cmp k y)) ys"
  using assms by (induction ys) auto

lemma sort_stable:
  "filter (\<lambda>y. \<not> js_pos (cmp y k) \<and> \<not> js_pos (cmp k y)) (js_sort cmp xs)
   = filter (\<lambda>y. \<not> js_pos (cmp y k) \<and> \<not> js_pos (cmp k y)) xs"
proof (induction xs)
  case Nil
  then show ?case by simp
next
  case (Cons x xs)
  then show ?case
    by (cases "\<not> js_pos (cmp x k) \<and> \<not> js_pos (cmp k x)")
       (simp_all add: filter_insert_equal filter_insert_other)
qed

end

text \<open>Comparators compose lexicographically with \<open>||\<close>, and lift along a key.\<close>

lemma js_comparator_lex:
  assumes c: "js_comparator c" and d: "js_comparator d"
  shows "js_comparator (\<lambda>x y. js_or (c x y) (d x y))"
proof
  fix x y
  show "js_pos (js_or (c x y) (d x y)) \<longleftrightarrow> js_neg (js_or (c y x) (d y x))"
    using js_comparator.flip [OF c] js_comparator.flip [OF d] by (auto simp: js_pos_or js_neg_or)
next
  fix x y z
  note cf = js_comparator.flip [OF c] and ct = js_comparator.not_pos_trans [OF c]
    and dt = js_comparator.not_pos_trans [OF d]
  assume xy: "\<not> js_pos (js_or (c x y) (d x y))" and yz: "\<not> js_pos (js_or (c y z) (d y z))"
  have c1: "\<not> js_pos (c x y)" "\<not> js_pos (c y z)" using xy yz by (auto simp: js_pos_or)
  have c2: "\<not> js_pos (c x z)" using ct [OF c1] .
  show "\<not> js_pos (js_or (c x z) (d x z))"
  proof (cases "js_neg (c x z)")
    case True
    with c2 show ?thesis by (auto simp: js_pos_or)
  next
    case False
    then have zx: "\<not> js_pos (c z x)" using cf by blast
    have "\<not> js_pos (c y x)" using ct [OF c1(2) zx] .
    moreover have "\<not> js_pos (c z y)" using ct [OF zx c1(1)] .
    ultimately have "\<not> js_neg (c x y)" "\<not> js_neg (c y z)" using cf by blast+
    then have "\<not> js_pos (d x y)" "\<not> js_pos (d y z)" using xy yz by (auto simp: js_pos_or)
    then have "\<not> js_pos (d x z)" by (rule dt)
    with c2 show ?thesis by (auto simp: js_pos_or)
  qed
qed

lemma js_comparator_on: "js_comparator c \<Longrightarrow> js_comparator (\<lambda>x y. c (f x) (f y))"
  by (auto simp: js_comparator_def)

lemma js_comparator_swap: "js_comparator c \<Longrightarrow> js_comparator (\<lambda>x y. c y x)"
  by (auto simp: js_comparator_def)

definition subtract_numbers :: "rat \<Rightarrow> rat \<Rightarrow> js_number" where
  "subtract_numbers a b = Fin (a - b)"

text \<open>An optional order index, with \<open>Number.POSITIVE_INFINITY\<close> when it is missing.\<close>

definition index_or_infinity :: "rat option \<Rightarrow> js_number" where
  "index_or_infinity a = (case a of None \<Rightarrow> PosInf | Some n \<Rightarrow> Fin n)"

lemmas [js_defs] = subtract_numbers_def index_or_infinity_def

lemma js_comparator_subtract: "js_comparator subtract_numbers"
  by unfold_locales (auto simp: subtract_numbers_def)

lemma js_comparator_index:
  "js_comparator (\<lambda>a b. js_sub (index_or_infinity a) (index_or_infinity b))"
  by unfold_locales (auto simp: index_or_infinity_def split: option.splits)

interpretation numeric: js_comparator subtract_numbers
  by (rule js_comparator_subtract)

text \<open>
  \<open>localeCompare\<close> depends on the collation data of the host. It is a parameter \<open>lc\<close> of the model,
  and what the language promises of it is that it is a consistent comparator.
\<close>

definition localeCompare :: "(string \<Rightarrow> string \<Rightarrow> int) \<Rightarrow> string \<Rightarrow> string \<Rightarrow> js_number" where
  "localeCompare lc s t = Fin (of_int (lc s t))"

lemmas [js_defs] = localeCompare_def

text \<open>One collation that keeps the promise, to evaluate examples with: order by code unit.\<close>

fun codeUnitCompare :: "string \<Rightarrow> string \<Rightarrow> int" where
  "codeUnitCompare [] [] = 0"
| "codeUnitCompare [] (y # ys) = -1"
| "codeUnitCompare (x # xs) [] = 1"
| "codeUnitCompare (x # xs) (y # ys) =
     (if (of_char x :: nat) < of_char y then -1
      else if (of_char y :: nat) < of_char x then 1 else codeUnitCompare xs ys)"

lemma codeUnitCompare_flip: "codeUnitCompare s t = - codeUnitCompare t s"
  by (induction s t rule: codeUnitCompare.induct) auto

lemma codeUnitCompare_trans:
  "codeUnitCompare s t \<le> 0 \<Longrightarrow> codeUnitCompare t u \<le> 0 \<Longrightarrow> codeUnitCompare s u \<le> 0"
proof (induction s u arbitrary: t rule: codeUnitCompare.induct)
  case (3 x xs)
  then show ?case by (cases t) auto
next
  case (4 x xs y ys)
  then show ?case by (cases t) (auto split: if_splits)
qed auto

lemma codeUnitCompare_comparator: "js_comparator (localeCompare codeUnitCompare)"
proof
  fix s t
  show "js_pos (localeCompare codeUnitCompare s t) \<longleftrightarrow> js_neg (localeCompare codeUnitCompare t s)"
    using codeUnitCompare_flip [of s t] by (simp add: localeCompare_def)
next
  fix s t u
  assume "\<not> js_pos (localeCompare codeUnitCompare s t)" "\<not> js_pos (localeCompare codeUnitCompare t u)"
  then show "\<not> js_pos (localeCompare codeUnitCompare s u)"
    using codeUnitCompare_trans [of s t u] by (simp add: localeCompare_def)
qed

section \<open>Mapping with an index, splicing\<close>

text \<open>\<open>xs.map((x, i) => f(x, i))\<close>.\<close>

definition mapWithIndex :: "('a \<Rightarrow> nat \<Rightarrow> 'b) \<Rightarrow> 'a list \<Rightarrow> 'b list" where
  "mapWithIndex f xs = map (\<lambda>(x, i). f x i) (zip xs [0..<length xs])"

lemma length_mapWithIndex [simp]: "length (mapWithIndex f xs) = length xs"
  by (simp add: mapWithIndex_def)

lemma nth_mapWithIndex [simp]: "i < length xs \<Longrightarrow> mapWithIndex f xs ! i = f (xs ! i) i"
  by (simp add: mapWithIndex_def)

lemma set_mapWithIndex: "set (mapWithIndex f xs) = {f (xs ! i) i |i. i < length xs}"
  by (force simp: mapWithIndex_def set_zip)

lemma map_mapWithIndex: "map g (mapWithIndex f xs) = mapWithIndex (\<lambda>x i. g (f x i)) xs"
  by (simp add: mapWithIndex_def case_prod_beta comp_def)

lemma mapWithIndex_const [simp]: "mapWithIndex (\<lambda>x i. f x) xs = map f xs"
  by (rule nth_equalityI) auto

text \<open>\<open>const [m] = xs.splice(i, 1); xs.splice(j, 0, m)\<close>.\<close>

definition moveElement :: "nat \<Rightarrow> nat \<Rightarrow> 'a list \<Rightarrow> 'a list" where
  "moveElement i j xs =
     (let rest = take i xs @ drop (Suc i) xs in take j rest @ [xs ! i] @ drop j rest)"

lemma mset_moveElement [simp]:
  assumes "i < length xs" shows "mset (moveElement i j xs) = mset xs"
proof -
  let ?r = "take i xs @ drop (Suc i) xs"
  have "xs = take i xs @ xs ! i # drop (Suc i) xs" using assms by (rule id_take_nth_drop)
  then have "mset xs = mset (take i xs @ xs ! i # drop (Suc i) xs)" by (rule arg_cong)
  then have "mset xs = add_mset (xs ! i) (mset ?r)" by simp
  moreover have "mset (take j ?r) + mset (drop j ?r) = mset ?r"
    by (metis append_take_drop_id mset_append)
  ultimately show ?thesis unfolding moveElement_def Let_def mset_append by simp
qed

lemma map_moveElement: "i < length xs \<Longrightarrow> map f (moveElement i j xs) = moveElement i j (map f xs)"
  by (simp add: moveElement_def Let_def take_map drop_map)

section \<open>Sets and maps in insertion order\<close>

definition js_set_add :: "'a \<Rightarrow> 'a list \<Rightarrow> 'a list" where
  "js_set_add x xs = (if x \<in> set xs then xs else xs @ [x])"

text \<open>\<open>Array.from(new Set(xs))\<close>: first occurrences, in order.\<close>

definition js_unique :: "'a list \<Rightarrow> 'a list" where
  "js_unique xs = fold js_set_add xs []"

lemma set_js_set_add [simp]: "set (js_set_add x xs) = insert x (set xs)"
  by (auto simp: js_set_add_def)

lemma distinct_js_set_add [simp]: "distinct (js_set_add x xs) \<longleftrightarrow> distinct xs"
  by (auto simp: js_set_add_def)

lemma fold_js_set_add:
  "set (fold js_set_add xs acc) = set acc \<union> set xs"
  "distinct (fold js_set_add xs acc) \<longleftrightarrow> distinct acc"
  by (induction xs arbitrary: acc) auto

lemma set_js_unique [simp]: "set (js_unique xs) = set xs"
  by (simp add: js_unique_def fold_js_set_add)

lemma distinct_js_unique [simp]: "distinct (js_unique xs)"
  by (simp add: js_unique_def fold_js_set_add)

text \<open>\<open>new Map(entries)\<close>: a later entry overwrites an earlier one with its key.\<close>

definition js_map_of_entries :: "('k \<times> 'v) list \<Rightarrow> ('k \<times> 'v) list" where
  "js_map_of_entries es = fold (\<lambda>(k, v). AList.update k v) es []"

lemma map_of_fold_update:
  "map_of (fold (\<lambda>(k, v). AList.update k v) es m) k
   = (case map_of (rev es) k of None \<Rightarrow> map_of m k | Some v \<Rightarrow> Some v)"
  by (induction es arbitrary: m) (auto simp: update_conv' split: option.split)

lemma map_of_js_map_of_entries: "map_of (js_map_of_entries es) = map_of (rev es)"
  by (auto simp: js_map_of_entries_def map_of_fold_update split: option.split)

lemma js_map_of_entries_distinct:
  "distinct (map fst es) \<Longrightarrow> map_of (js_map_of_entries es) = map_of es"
  by (simp add: map_of_js_map_of_entries map_of_inject_set rev_map [symmetric])

text \<open>\<open>xs.find(p)\<close>.\<close>

lemma find_Some_iff_mem: "List.find P xs = Some x \<Longrightarrow> x \<in> set xs \<and> P x"
  by (auto simp: find_Some_iff)

text \<open>\<open>xs[0]\<close>, which is \<open>undefined\<close> on an empty array.\<close>

definition js_first :: "'a list \<Rightarrow> 'a option" where
  "js_first xs = (case xs of [] \<Rightarrow> None | x # _ \<Rightarrow> Some x)"

lemma js_first_Some_iff: "js_first xs = Some x \<longleftrightarrow> (\<exists>ys. xs = x # ys)"
  by (auto simp: js_first_def split: list.splits)

lemma js_first_None_iff [simp]: "js_first xs = None \<longleftrightarrow> xs = []"
  by (auto simp: js_first_def split: list.splits)

end
