(* ===== verification/Queue_Task.thy ===== *)
theory Queue_Task
  imports Prelude
begin

text \<open>
  The queue task and its status vocabulary: \<open>workspace/types/agentQueue.ts\<close> and
  \<open>workbench/agentQueueStatusLabels.ts\<close>. Statuses arrive as raw strings and the code normalises
  them before it switches on them, so a raw status is a \<open>string\<close> and a normalised one is a value
  of the enumeration's datatype.
\<close>

section \<open>Status vocabularies\<close>

datatype QueueTaskStatus =
  StDraft | StQueued | StReady | StRunning | StCompleted | StFailed | StCancelled | StReviewNeeded

fun taskStatusName :: "QueueTaskStatus \<Rightarrow> string" where
  "taskStatusName StDraft = ''draft''"
| "taskStatusName StQueued = ''queued''"
| "taskStatusName StReady = ''ready''"
| "taskStatusName StRunning = ''running''"
| "taskStatusName StCompleted = ''completed''"
| "taskStatusName StFailed = ''failed''"
| "taskStatusName StCancelled = ''cancelled''"
| "taskStatusName StReviewNeeded = ''review_needed''"

definition TASK_STATUSES :: "QueueTaskStatus list" where
  "TASK_STATUSES = [StDraft, StQueued, StReady, StRunning, StCompleted, StFailed, StCancelled,
     StReviewNeeded]"

datatype QueueValidationStatus = ValNotStarted | ValValidating | ValPassed | ValFailed | ValNeedsReview

fun validationStatusName :: "QueueValidationStatus \<Rightarrow> string" where
  "validationStatusName ValNotStarted = ''not_started''"
| "validationStatusName ValValidating = ''validating''"
| "validationStatusName ValPassed = ''passed''"
| "validationStatusName ValFailed = ''failed''"
| "validationStatusName ValNeedsReview = ''needs_review''"

definition VALIDATION_STATUS_OPTIONS :: "QueueValidationStatus list" where
  "VALIDATION_STATUS_OPTIONS = [ValNotStarted, ValValidating, ValPassed, ValFailed, ValNeedsReview]"

datatype QueueCoordinatorStatus =
  CoNotReported | CoWorkerReported | CoAwaitingValidation | CoAwaitingReview
| CoReadyForFinalization | CoFinalized | CoNeedsChanges | CoFollowUpRequired | CoBlocked | CoFailed
| CoRollbackRequired

fun coordinatorStatusName :: "QueueCoordinatorStatus \<Rightarrow> string" where
  "coordinatorStatusName CoNotReported = ''not_reported''"
| "coordinatorStatusName CoWorkerReported = ''worker_reported''"
| "coordinatorStatusName CoAwaitingValidation = ''awaiting_validation''"
| "coordinatorStatusName CoAwaitingReview = ''awaiting_coordinator_review''"
| "coordinatorStatusName CoReadyForFinalization = ''ready_for_finalization''"
| "coordinatorStatusName CoFinalized = ''finalized''"
| "coordinatorStatusName CoNeedsChanges = ''needs_changes''"
| "coordinatorStatusName CoFollowUpRequired = ''follow_up_required''"
| "coordinatorStatusName CoBlocked = ''blocked''"
| "coordinatorStatusName CoFailed = ''failed''"
| "coordinatorStatusName CoRollbackRequired = ''rollback_required''"

definition COORDINATOR_STATUSES :: "QueueCoordinatorStatus list" where
  "COORDINATOR_STATUSES = [CoNotReported, CoWorkerReported, CoAwaitingValidation, CoAwaitingReview,
     CoReadyForFinalization, CoFinalized, CoNeedsChanges, CoFollowUpRequired, CoBlocked, CoFailed,
     CoRollbackRequired]"

datatype QueueExecutionPolicy = PolManual | PolAuto | PolAfterPreviousSuccess

fun executionPolicyName :: "QueueExecutionPolicy \<Rightarrow> string" where
  "executionPolicyName PolManual = ''manual''"
| "executionPolicyName PolAuto = ''auto''"
| "executionPolicyName PolAfterPreviousSuccess = ''after_previous_success''"

definition EXECUTION_POLICY_OPTIONS :: "QueueExecutionPolicy list" where
  "EXECUTION_POLICY_OPTIONS = [PolManual, PolAuto, PolAfterPreviousSuccess]"

datatype QueueItemType = ItImplementation | ItDiffReview | ItFollowUp | ItValidation

fun itemTypeName :: "QueueItemType \<Rightarrow> string" where
  "itemTypeName ItImplementation = ''implementation''"
| "itemTypeName ItDiffReview = ''diff_review''"
| "itemTypeName ItFollowUp = ''follow_up''"
| "itemTypeName ItValidation = ''validation''"

definition ITEM_TYPE_OPTIONS :: "QueueItemType list" where
  "ITEM_TYPE_OPTIONS = [ItImplementation, ItDiffReview, ItFollowUp, ItValidation]"

datatype QueueGlobalStatus = QueueStarted | QueueStopped | QueueStopKillRequested

section \<open>Records\<close>

record AgentQueueWorkerExecutionReport =
  report_reportId :: string
  report_itemId :: string
  report_workerId :: string
  report_createdAt :: string
  report_reportStatus :: string
  report_summary :: string
  report_changedFiles :: "string list"
  report_commandsRun :: "string list"
  report_validationCommandsSuggested :: "string list"
  report_validationCommandsRun :: "string list option"
  report_validationResult :: "string option"
  report_commitHash :: "string option"
  report_warnings :: "string list"
  report_errors :: "string list"
  report_rawReportPreview :: "string option"

record AgentQueueTask =
  task_queueItemId :: string
  task_workspaceId :: string
  task_title :: string
  task_description :: string
  task_prompt :: string
  task_status :: string
  task_priority :: js_number
  task_orderIndex :: "js_number option"
  task_dependsOn :: "string list option"
  task_executionPolicy :: "string option"
  task_executionWorkspace :: "string option"
  task_codexExecutable :: "string option"
  task_sandbox :: "string option"
  task_approvalPolicy :: "string option"
  task_itemType :: "string option"
  task_queueTagId :: "string option"
  task_queueTagName :: "string option"
  task_validationStatus :: "string option"
  task_assignedWorkerId :: "string option"
  task_workerExecutionReports :: "AgentQueueWorkerExecutionReport list option"
  task_coordinatorStatus :: "string option"
  task_assignedExecutorWidgetId :: "string option"
  task_createdAt :: string
  task_updatedAt :: string

record TaskDraft =
  draft_dependsOn :: "string list"
  draft_approvalPolicy :: string
  draft_codexExecutable :: string
  draft_description :: string
  draft_executionPolicy :: QueueExecutionPolicy
  draft_executionWorkspace :: string
  draft_itemType :: QueueItemType
  draft_priority :: js_number
  draft_prompt :: string
  draft_queueTagName :: string
  draft_sandbox :: string
  draft_status :: string
  draft_title :: string
  draft_validationStatus :: QueueValidationStatus

text \<open>The task the controller's self-test builds its queue from.\<close>

definition fakeQueueTask :: AgentQueueTask where
  "fakeQueueTask = \<lparr>task_queueItemId = ''task'', task_workspaceId = ''workspace-1'',
     task_title = ''Task'', task_description = [], task_prompt = ''Run task.'',
     task_status = ''queued'', task_priority = Fin 0, task_orderIndex = None,
     task_dependsOn = Some [], task_executionPolicy = Some ''manual'',
     task_executionWorkspace = None, task_codexExecutable = None, task_sandbox = None,
     task_approvalPolicy = None, task_itemType = None, task_queueTagId = None,
     task_queueTagName = None, task_validationStatus = None, task_assignedWorkerId = None,
     task_workerExecutionReports = None, task_coordinatorStatus = None,
     task_assignedExecutorWidgetId = None, task_createdAt = ''2026-06-16T00:00:00.000Z'',
     task_updatedAt = ''2026-06-16T00:00:00.000Z''\<rparr>"

section \<open>Operations of agentQueueStatusLabels.ts\<close>

definition DEFAULT_TASK_TITLE :: string where "DEFAULT_TASK_TITLE = ''New task''"
definition DEFAULT_QUEUE_TAG_ID :: string where "DEFAULT_QUEUE_TAG_ID = ''default''"
definition DEFAULT_QUEUE_TAG_NAME :: string where "DEFAULT_QUEUE_TAG_NAME = ''Default''"
definition MIN_PRIORITY :: rat where "MIN_PRIORITY = 0"
definition MAX_PRIORITY :: rat where "MAX_PRIORITY = 5"

fun queueGlobalExecutionStateLabel :: "QueueGlobalStatus \<Rightarrow> string" where
  "queueGlobalExecutionStateLabel QueueStarted = ''Active''"
| "queueGlobalExecutionStateLabel QueueStopKillRequested = ''STOP + KILL RUNNING''"
| "queueGlobalExecutionStateLabel QueueStopped = ''Disabled''"

definition queueGlobalExecutionStateAllowsScheduling :: "QueueGlobalStatus \<Rightarrow> bool" where
  "queueGlobalExecutionStateAllowsScheduling s \<longleftrightarrow> s = QueueStarted"

definition queueGlobalExecutionStateBlocksNewWork :: "QueueGlobalStatus \<Rightarrow> bool" where
  "queueGlobalExecutionStateBlocksNewWork s \<longleftrightarrow> s \<noteq> QueueStarted"

definition emptyDraft :: TaskDraft where
  "emptyDraft = \<lparr>draft_dependsOn = [], draft_approvalPolicy = [], draft_codexExecutable = [],
     draft_description = [], draft_executionPolicy = PolManual, draft_executionWorkspace = [],
     draft_itemType = ItImplementation, draft_priority = Fin 0, draft_prompt = [],
     draft_queueTagName = DEFAULT_QUEUE_TAG_NAME, draft_sandbox = [], draft_status = ''draft'',
     draft_title = [], draft_validationStatus = ValNotStarted\<rparr>"

definition clampNumber :: "rat \<Rightarrow> rat \<Rightarrow> rat \<Rightarrow> rat" where
  "clampNumber v lo hi = min hi (max lo v)"

fun normalizeTaskPriority :: "js_number option \<Rightarrow> rat" where
  "normalizeTaskPriority (Some (Fin p)) = clampNumber p MIN_PRIORITY MAX_PRIORITY"
| "normalizeTaskPriority _ = MIN_PRIORITY"

definition isQueueTaskStatus :: "string \<Rightarrow> bool" where
  "isQueueTaskStatus s \<longleftrightarrow> s \<in> set (map taskStatusName TASK_STATUSES)"

definition validateDraft :: "TaskDraft \<Rightarrow> string option" where
  "validateDraft d =
     (if js_blank (draft_title d) then Some ''Title is required before saving.''
      else if js_neg (js_sub (draft_priority d) (Fin MIN_PRIORITY))
              \<or> js_pos (js_sub (draft_priority d) (Fin MAX_PRIORITY))
        then Some ''Priority must be between 0 and 5.''
      else if \<not> isQueueTaskStatus (draft_status d) then Some ''Status is not supported.''
      else if js_blank (draft_queueTagName d) then Some ''Queue tag is required before saving.''
      else if draft_status d \<noteq> ''draft'' \<and> js_blank (draft_prompt d)
        then Some ''Prompt is required unless the task is a draft.''
      else None)"

definition isAgentQueueTaskExecutionPolicy :: "string \<Rightarrow> bool" where
  "isAgentQueueTaskExecutionPolicy s \<longleftrightarrow> s \<in> set (map executionPolicyName EXECUTION_POLICY_OPTIONS)"

text \<open>A raw status looked up among the options, with the default where it is not one of them.\<close>

definition normalizeTaskExecutionPolicy :: "string option \<Rightarrow> QueueExecutionPolicy" where
  "normalizeTaskExecutionPolicy s =
     js_default PolManual (List.find (\<lambda>v. s = Some (executionPolicyName v)) EXECUTION_POLICY_OPTIONS)"

definition normalizeValidationStatus :: "string option \<Rightarrow> QueueValidationStatus" where
  "normalizeValidationStatus s =
     js_default ValNotStarted
       (List.find (\<lambda>v. s = Some (validationStatusName v)) VALIDATION_STATUS_OPTIONS)"

definition normalizeItemType :: "string option \<Rightarrow> QueueItemType" where
  "normalizeItemType s =
     js_default ItImplementation (List.find (\<lambda>v. s = Some (itemTypeName v)) ITEM_TYPE_OPTIONS)"

definition normalizeTaskStatus :: "string \<Rightarrow> QueueTaskStatus" where
  "normalizeTaskStatus s = js_default StDraft (List.find (\<lambda>v. s = taskStatusName v) TASK_STATUSES)"

definition normalizeCoordinatorStatus :: "string option \<Rightarrow> QueueCoordinatorStatus" where
  "normalizeCoordinatorStatus s =
     js_default CoNotReported
       (List.find (\<lambda>v. s = Some (coordinatorStatusName v)) COORDINATOR_STATUSES)"

fun coordinatorStatusLabel' :: "QueueCoordinatorStatus \<Rightarrow> string" where
  "coordinatorStatusLabel' CoWorkerReported = ''Worker reported''"
| "coordinatorStatusLabel' CoAwaitingValidation = ''Awaiting validation''"
| "coordinatorStatusLabel' CoAwaitingReview = ''Awaiting coordinator review''"
| "coordinatorStatusLabel' CoReadyForFinalization = ''Ready for finalization''"
| "coordinatorStatusLabel' CoFinalized = ''Finalized / accepted''"
| "coordinatorStatusLabel' CoNeedsChanges = ''Needs changes''"
| "coordinatorStatusLabel' CoFollowUpRequired = ''Follow-up required''"
| "coordinatorStatusLabel' CoBlocked = ''Blocked''"
| "coordinatorStatusLabel' CoFailed = ''Failed / rejected''"
| "coordinatorStatusLabel' CoRollbackRequired = ''Rollback required''"
| "coordinatorStatusLabel' CoNotReported = ''Not ready''"

definition coordinatorStatusLabel :: "string option \<Rightarrow> string" where
  "coordinatorStatusLabel s = coordinatorStatusLabel' (normalizeCoordinatorStatus s)"

definition coordinatorStatusBlocksNewWork :: "string option \<Rightarrow> bool" where
  "coordinatorStatusBlocksNewWork s =
     (case normalizeCoordinatorStatus s of
        CoAwaitingValidation \<Rightarrow> True | CoAwaitingReview \<Rightarrow> True | CoReadyForFinalization \<Rightarrow> True
      | CoWorkerReported \<Rightarrow> True | CoNeedsChanges \<Rightarrow> True | CoFollowUpRequired \<Rightarrow> True
      | CoBlocked \<Rightarrow> True | CoFailed \<Rightarrow> True | CoRollbackRequired \<Rightarrow> True
      | CoFinalized \<Rightarrow> False | CoNotReported \<Rightarrow> False)"

definition displayTaskTitle :: "AgentQueueTask \<Rightarrow> string" where
  "displayTaskTitle t = js_or_str (js_trim (task_title t)) DEFAULT_TASK_TITLE"

definition taskPreview :: "AgentQueueTask \<Rightarrow> string" where
  "taskPreview t =
     js_or_str (js_trim (js_collapse_spaces (js_or_str (task_description t) (task_prompt t))))
       ''No description or prompt yet.''"

definition isFinalQueueTaskStatus :: "string \<Rightarrow> bool" where
  "isFinalQueueTaskStatus s \<longleftrightarrow> s = ''completed'' \<or> s = ''failed'' \<or> s = ''cancelled''"

definition isAssignmentLockedQueueTaskStatus :: "string \<Rightarrow> bool" where
  "isAssignmentLockedQueueTaskStatus s \<longleftrightarrow> isFinalQueueTaskStatus s \<or> s = ''running''"

section \<open>Properties of the vocabularies\<close>

lemma normalizeTaskStatus_name [simp]: "normalizeTaskStatus (taskStatusName v) = v"
  by (cases v) (simp_all add: normalizeTaskStatus_def TASK_STATUSES_def)

lemma normalizeValidationStatus_name [simp]:
  "normalizeValidationStatus (Some (validationStatusName v)) = v"
  by (cases v) (simp_all add: normalizeValidationStatus_def VALIDATION_STATUS_OPTIONS_def)

lemma normalizeCoordinatorStatus_name [simp]:
  "normalizeCoordinatorStatus (Some (coordinatorStatusName v)) = v"
  by (cases v) (simp_all add: normalizeCoordinatorStatus_def COORDINATOR_STATUSES_def)

lemma normalizeTaskExecutionPolicy_name [simp]:
  "normalizeTaskExecutionPolicy (Some (executionPolicyName v)) = v"
  by (cases v) (simp_all add: normalizeTaskExecutionPolicy_def EXECUTION_POLICY_OPTIONS_def)

lemma normalizeItemType_name [simp]: "normalizeItemType (Some (itemTypeName v)) = v"
  by (cases v) (simp_all add: normalizeItemType_def ITEM_TYPE_OPTIONS_def)

lemma normalize_None [simp]:
  "normalizeValidationStatus None = ValNotStarted"
  "normalizeCoordinatorStatus None = CoNotReported"
  "normalizeTaskExecutionPolicy None = PolManual"
  "normalizeItemType None = ItImplementation"
  by (simp_all add: normalizeValidationStatus_def normalizeCoordinatorStatus_def
      normalizeTaskExecutionPolicy_def normalizeItemType_def VALIDATION_STATUS_OPTIONS_def
      COORDINATOR_STATUSES_def EXECUTION_POLICY_OPTIONS_def ITEM_TYPE_OPTIONS_def)

lemma taskStatusName_inj [simp]: "taskStatusName v = taskStatusName w \<longleftrightarrow> v = w"
  by (metis normalizeTaskStatus_name)

lemma coordinatorStatusName_inj [simp]: "coordinatorStatusName v = coordinatorStatusName w \<longleftrightarrow> v = w"
  by (metis normalizeCoordinatorStatus_name option.inject)

lemma normalizeTaskStatus_unknown: "\<not> isQueueTaskStatus s \<Longrightarrow> normalizeTaskStatus s = StDraft"
  by (simp add: normalizeTaskStatus_def isQueueTaskStatus_def TASK_STATUSES_def)

lemma taskStatusName_normalize:
  "taskStatusName (normalizeTaskStatus s) = s \<longleftrightarrow> isQueueTaskStatus s"
  by (auto simp: normalizeTaskStatus_def isQueueTaskStatus_def TASK_STATUSES_def)

lemma normalizeTaskPriority_range:
  "MIN_PRIORITY \<le> normalizeTaskPriority p \<and> normalizeTaskPriority p \<le> MAX_PRIORITY"
  by (cases p rule: normalizeTaskPriority.cases)
     (auto simp: clampNumber_def MIN_PRIORITY_def MAX_PRIORITY_def)

lemma normalizeTaskPriority_idem:
  "normalizeTaskPriority (Some (Fin (normalizeTaskPriority p))) = normalizeTaskPriority p"
  using normalizeTaskPriority_range [of p] by (simp add: clampNumber_def)

lemma coordinatorStatusBlocksNewWork_iff:
  "coordinatorStatusBlocksNewWork s \<longleftrightarrow>
   normalizeCoordinatorStatus s \<noteq> CoFinalized \<and> normalizeCoordinatorStatus s \<noteq> CoNotReported"
  by (auto simp: coordinatorStatusBlocksNewWork_def split: QueueCoordinatorStatus.splits)

lemma displayTaskTitle_nonempty [simp]: "displayTaskTitle t \<noteq> []"
  by (simp add: displayTaskTitle_def DEFAULT_TASK_TITLE_def)

end
