(* ===== verification/Dependencies.thy ===== *)
theory Dependencies
  imports Queue_Task
begin

text \<open>
  Queue task dependencies, \<open>workbench/agentQueueDependencyUi.ts\<close>: the dependency state of a task
  and the depth-first search for a dependency cycle.

  The search keeps two mutable sets, the nodes on the current path (\<open>visiting\<close>) and the nodes that
  are finished (\<open>visited\<close>); the model threads both. Its recursion is bounded by fuel, and
  \<open>visitDep_enough\<close> shows that one unit more than the number of graph entries is enough, so the
  search always answers. \<open>hasQueueDependencyCycle_iff\<close> states what the answer means.
\<close>

section \<open>Model\<close>

datatype DependencyStatus = DepReady | DepBlocked | DepInvalid

datatype DependencyBlockReason = BlkCycle | BlkMissing | BlkNotCompleted | BlkNotFinalized | BlkSelf

record DependencyBlocker =
  blocker_queueItemId :: string
  blocker_reason :: DependencyBlockReason
  blocker_title :: string

record DependencyState =
  dep_blockedBy :: "DependencyBlocker list"
  dep_dependsOn :: "string list"
  dep_status :: DependencyStatus

fun normalizeLoop :: "string list \<Rightarrow> string list \<Rightarrow> string list \<Rightarrow> string list" where
  "normalizeLoop [] seen normalized = normalized"
| "normalizeLoop (d # ds) seen normalized =
     (let t = js_trim d in
      if t = [] \<or> t \<in> set seen then normalizeLoop ds seen normalized
      else normalizeLoop ds (t # seen) (normalized @ [t]))"

definition normalizeTaskDependencies :: "string list option \<Rightarrow> string list" where
  "normalizeTaskDependencies dependsOn = normalizeLoop (js_default [] dependsOn) [] []"

type_synonym dependency_graph = "(string \<times> string list) list"

definition buildQueueDependencyGraph :: "AgentQueueTask list \<Rightarrow> dependency_graph" where
  "buildQueueDependencyGraph tasks =
     js_map_of_entries
       (map (\<lambda>t. (task_queueItemId t, normalizeTaskDependencies (task_dependsOn t))) tasks)"

definition graphDeps :: "dependency_graph \<Rightarrow> string \<Rightarrow> string list" where
  "graphDeps g n = js_default [] (map_of g n)"

fun visitDep :: "nat \<Rightarrow> dependency_graph \<Rightarrow> string set \<Rightarrow> string set \<Rightarrow> string
       \<Rightarrow> (bool \<times> string set \<times> string set) option"
  and visitDeps :: "nat \<Rightarrow> dependency_graph \<Rightarrow> string set \<Rightarrow> string set \<Rightarrow> string list
       \<Rightarrow> (bool \<times> string set \<times> string set) option" where
  "visitDep 0 g visiting visited n = None"
| "visitDep (Suc fuel) g visiting visited n =
     (if n \<in> visiting then Some (True, visiting, visited)
      else if n \<in> visited then Some (False, visiting, visited)
      else case visitDeps fuel g (insert n visiting) visited (graphDeps g n) of
             None \<Rightarrow> None
           | Some (found, visiting', visited') \<Rightarrow>
               if found then Some (True, visiting', visited')
               else Some (False, visiting' - {n}, insert n visited'))"
| "visitDeps fuel g visiting visited [] = Some (False, visiting, visited)"
| "visitDeps fuel g visiting visited (d # ds) =
     (case visitDep fuel g visiting visited d of
        None \<Rightarrow> None
      | Some (found, visiting', visited') \<Rightarrow>
          if found then Some (True, visiting', visited')
          else visitDeps fuel g visiting' visited' ds)"

definition hasQueueDependencyCycle :: "dependency_graph \<Rightarrow> string \<Rightarrow> bool" where
  "hasQueueDependencyCycle g queueItemId =
     (case visitDep (Suc (length g)) g {} {} queueItemId of
        None \<Rightarrow> False
      | Some (found, _, _) \<Rightarrow> found)"

definition dependencyBlocker :: "string \<Rightarrow> DependencyBlockReason \<Rightarrow> string \<Rightarrow> DependencyBlocker" where
  "dependencyBlocker i r t = \<lparr>blocker_queueItemId = i, blocker_reason = r, blocker_title = t\<rparr>"

definition tasksById :: "AgentQueueTask list \<Rightarrow> string \<Rightarrow> AgentQueueTask option" where
  "tasksById tasks = map_of (js_map_of_entries (map (\<lambda>t. (task_queueItemId t, t)) tasks))"

text \<open>The graph the cycle search of one task runs on: the other tasks and the task itself.\<close>

definition dependencyGraphFor :: "AgentQueueTask \<Rightarrow> AgentQueueTask list \<Rightarrow> dependency_graph" where
  "dependencyGraphFor task tasks =
     buildQueueDependencyGraph
       (filter (\<lambda>c. task_queueItemId c \<noteq> task_queueItemId task) tasks
        @ [task\<lparr>task_dependsOn := Some (normalizeTaskDependencies (task_dependsOn task))\<rparr>])"

text \<open>One round of the loop over the dependencies: the blockers it pushes (at most one).\<close>

definition dependencyBlockersOf ::
    "AgentQueueTask \<Rightarrow> AgentQueueTask list \<Rightarrow> string \<Rightarrow> DependencyBlocker list" where
  "dependencyBlockersOf task tasks dependencyId =
     (if dependencyId = task_queueItemId task
      then [dependencyBlocker dependencyId BlkSelf (displayTaskTitle task)]
      else case tasksById tasks dependencyId of
        None \<Rightarrow> [dependencyBlocker dependencyId BlkMissing dependencyId]
      | Some dependency \<Rightarrow>
          if hasQueueDependencyCycle (dependencyGraphFor task tasks) (task_queueItemId task)
          then [dependencyBlocker dependencyId BlkCycle (displayTaskTitle dependency)]
          else if task_status dependency \<noteq> ''completed''
          then [dependencyBlocker dependencyId BlkNotCompleted (displayTaskTitle dependency)]
          else if task_coordinatorStatus dependency \<noteq> Some ''finalized''
          then [dependencyBlocker dependencyId BlkNotFinalized (displayTaskTitle dependency)]
          else [])"

definition invalidBlocker :: "DependencyBlocker \<Rightarrow> bool" where
  "invalidBlocker b \<longleftrightarrow> blocker_reason b = BlkCycle \<or> blocker_reason b = BlkMissing
      \<or> blocker_reason b = BlkSelf"

definition getQueueTaskDependencyState ::
    "AgentQueueTask \<Rightarrow> AgentQueueTask list \<Rightarrow> DependencyState" where
  "getQueueTaskDependencyState task tasks =
     (let dependsOn = normalizeTaskDependencies (task_dependsOn task);
          blockers = concat (map (dependencyBlockersOf task tasks) dependsOn)
      in \<lparr>dep_blockedBy = blockers, dep_dependsOn = dependsOn,
          dep_status = (if blockers = [] then DepReady
                        else if list_ex invalidBlocker blockers then DepInvalid else DepBlocked)\<rparr>)"

definition queueDependencyStatesByTask ::
    "AgentQueueTask list \<Rightarrow> (string \<times> DependencyState) list" where
  "queueDependencyStatesByTask tasks =
     js_map_of_entries
       (map (\<lambda>t. (task_queueItemId t, getQueueTaskDependencyState t tasks)) tasks)"

fun queueDependencyBlockerLabel :: "DependencyBlocker \<Rightarrow> string" where
  "queueDependencyBlockerLabel b =
     (case blocker_reason b of
        BlkCycle \<Rightarrow> blocker_title b @ '' creates a dependency cycle.''
      | BlkMissing \<Rightarrow> blocker_title b @ '' is missing.''
      | BlkNotCompleted \<Rightarrow> blocker_title b @ '' is not completed.''
      | BlkNotFinalized \<Rightarrow> blocker_title b @ '' is not coordinator accepted.''
      | BlkSelf \<Rightarrow> ''A task cannot depend on itself.'')"

definition queueDependencyBlockedSummary :: "DependencyState \<Rightarrow> string" where
  "queueDependencyBlockedSummary s =
     (if dep_status s = DepReady then ''Dependencies ready.''
      else let blockedBy = js_join '', '' (map blocker_title (dep_blockedBy s)) in
        if blockedBy \<noteq> [] then ''Blocked by: '' @ blockedBy else ''Dependencies are blocked.'')"

definition queueDependencyReadinessMessage :: "DependencyState \<Rightarrow> string option" where
  "queueDependencyReadinessMessage s =
     (if dep_status s = DepReady then None
      else if dep_status s = DepInvalid
      then Some (''Fix dependency errors before running. '' @ queueDependencyBlockedSummary s)
      else Some (''Resolve dependencies before running. '' @ queueDependencyBlockedSummary s))"

definition validateQueueTaskDependencies ::
    "AgentQueueTask \<Rightarrow> AgentQueueTask list \<Rightarrow> string option" where
  "validateQueueTaskDependencies task tasks =
     map_option queueDependencyBlockerLabel
       (List.find invalidBlocker (dep_blockedBy (getQueueTaskDependencyState task tasks)))"

definition dependentTasksForQueueItem ::
    "AgentQueueTask list \<Rightarrow> string \<Rightarrow> AgentQueueTask list" where
  "dependentTasksForQueueItem tasks queueItemId =
     filter (\<lambda>t. queueItemId \<in> set (normalizeTaskDependencies (task_dependsOn t))) tasks"

section \<open>Normalised dependency lists\<close>

lemma normalizeLoop_spec:
  "set seen = set normalized \<Longrightarrow>
   set (normalizeLoop ds seen normalized) = set normalized \<union> (js_trim ` set ds - {[]})"
  by (induction ds seen normalized rule: normalizeLoop.induct) (auto simp: Let_def)

lemma normalizeLoop_distinct:
  "set seen = set normalized \<Longrightarrow> distinct normalized \<Longrightarrow> distinct (normalizeLoop ds seen normalized)"
  by (induction ds seen normalized rule: normalizeLoop.induct) (auto simp: Let_def)

lemma set_normalizeTaskDependencies:
  "set (normalizeTaskDependencies d) = js_trim ` set (js_default [] d) - {[]}"
  by (simp add: normalizeTaskDependencies_def normalizeLoop_spec)

lemma distinct_normalizeTaskDependencies: "distinct (normalizeTaskDependencies d)"
  by (simp add: normalizeTaskDependencies_def normalizeLoop_distinct)

lemma normalizeLoop_fixed:
  "set seen = set normalized \<Longrightarrow> distinct (normalized @ ds) \<Longrightarrow> [] \<notin> set ds \<Longrightarrow>
   (\<forall>d \<in> set ds. js_trim d = d) \<Longrightarrow> normalizeLoop ds seen normalized = normalized @ ds"
  by (induction ds seen normalized rule: normalizeLoop.induct) (auto simp: Let_def)

lemma normalizeTaskDependencies_idem:
  "normalizeTaskDependencies (Some (normalizeTaskDependencies d)) = normalizeTaskDependencies d"
proof -
  have "\<forall>x \<in> set (normalizeTaskDependencies d). js_trim x = x"
    by (auto simp: set_normalizeTaskDependencies)
  moreover have "[] \<notin> set (normalizeTaskDependencies d)"
    by (simp add: set_normalizeTaskDependencies)
  ultimately show ?thesis
    using normalizeLoop_fixed [of "[]" "[]" "normalizeTaskDependencies d"]
      distinct_normalizeTaskDependencies [of d]
    by (simp add: normalizeTaskDependencies_def [of "Some _"])
qed

section \<open>Correctness of the cycle search\<close>

definition graphEdges :: "dependency_graph \<Rightarrow> (string \<times> string) set" where
  "graphEdges g = {(x, y). y \<in> set (graphDeps g x)}"

definition graphKeys :: "dependency_graph \<Rightarrow> string set" where
  "graphKeys g = fst ` set g"

lemma graphDeps_nokey: "n \<notin> graphKeys g \<Longrightarrow> graphDeps g n = []"
  by (simp add: graphDeps_def graphKeys_def map_of_eq_None_iff [THEN iffD2] js_default_def)

lemma card_graphKeys: "card (graphKeys g) \<le> length g"
  unfolding graphKeys_def by (metis card_length list.set_map length_map)

lemma finite_graphKeys [simp]: "finite (graphKeys g)"
  by (simp add: graphKeys_def)

lemma visitDep_False_iff:
  "visitDep (Suc fuel) g visiting visited n = Some (False, visiting', visited') \<longleftrightarrow>
     n \<notin> visiting \<and>
     (if n \<in> visited then visiting' = visiting \<and> visited' = visited
      else \<exists>vi vd. visitDeps fuel g (insert n visiting) visited (graphDeps g n) = Some (False, vi, vd)
             \<and> visiting' = vi - {n} \<and> visited' = insert n vd)"
  by (auto split: option.splits)

lemma visitDeps_False_iff:
  "visitDeps fuel g visiting visited (d # ds) = Some (False, visiting', visited') \<longleftrightarrow>
     (\<exists>vi vd. visitDep fuel g visiting visited d = Some (False, vi, vd)
        \<and> visitDeps fuel g vi vd ds = Some (False, visiting', visited'))"
  by (auto split: option.splits)

lemma visitDep_True_iff:
  "visitDep (Suc fuel) g visiting visited n = Some (True, visiting', visited') \<longleftrightarrow>
     (if n \<in> visiting then visiting' = visiting \<and> visited' = visited
      else n \<notin> visited \<and>
           visitDeps fuel g (insert n visiting) visited (graphDeps g n) = Some (True, visiting', visited'))"
  by (auto split: option.splits)

lemmas visit_iffs = visitDep_False_iff visitDeps_False_iff visitDep_True_iff

declare visitDep.simps(2) [simp del] visitDeps.simps(2) [simp del]

text \<open>A round that finds nothing restores \<open>visiting\<close> and only adds to \<open>visited\<close>.\<close>

lemma visit_restores:
  "visitDep fuel g visiting visited n = Some (False, visiting', visited') \<Longrightarrow>
     visiting' = visiting \<and> visited \<subseteq> visited' \<and> n \<in> visited'"
  "visitDeps fuel g visiting visited ds = Some (False, visiting', visited') \<Longrightarrow>
     visiting' = visiting \<and> visited \<subseteq> visited' \<and> set ds \<subseteq> visited'"
proof (induction fuel g visiting visited n and fuel g visiting visited ds
    arbitrary: visiting' visited' and visiting' visited' rule: visitDep_visitDeps.induct)
  case (2 fuel g visiting visited n)
  show ?case
  proof (cases "n \<in> visited")
    case True
    with "2.prems" show ?thesis by (simp add: visit_iffs)
  next
    case False
    with "2.prems" obtain vi vd where "n \<notin> visiting"
      "visitDeps fuel g (insert n visiting) visited (graphDeps g n) = Some (False, vi, vd)"
      "visiting' = vi - {n}" "visited' = insert n vd"
      by (auto simp: visit_iffs)
    with "2.IH" False show ?thesis by auto
  qed
next
  case (4 fuel g visiting visited d ds)
  from "4.prems" obtain vi vd where
    first: "visitDep fuel g visiting visited d = Some (False, vi, vd)"
    and rest: "visitDeps fuel g vi vd ds = Some (False, visiting', visited')"
    by (auto simp: visit_iffs)
  then show ?case using "4.IH"(1) [OF first] "4.IH"(2) [OF first refl refl _ rest] by auto
qed auto

text \<open>Enough fuel: every call that recurses puts a new key of the graph on the path.\<close>

lemma visitDep_enough':
  "card (graphKeys g - visiting) < fuel \<Longrightarrow> visitDep fuel g visiting visited n \<noteq> None"
proof (induction fuel arbitrary: visiting visited n)
  case 0
  then show ?case by simp
next
  case (Suc fuel)
  have children: "visitDeps fuel g (insert n visiting) visited' ds \<noteq> None"
    if "card (graphKeys g - insert n visiting) < fuel" for visited' ds
    using that
  proof (induction ds arbitrary: visited')
    case Nil
    then show ?case by simp
  next
    case (Cons d ds)
    then have "visitDep fuel g (insert n visiting) visited' d \<noteq> None"
      using Suc.IH by blast
    then obtain found vi vd where
      first: "visitDep fuel g (insert n visiting) visited' d = Some (found, vi, vd)"
      by (auto simp: not_None_eq)
    show ?case
    proof (cases found)
      case True
      with first show ?thesis by (simp add: visitDeps.simps)
    next
      case False
      with first have "visitDep fuel g (insert n visiting) visited' d = Some (False, vi, vd)" by simp
      from visit_restores(1) [OF this] first False Cons show ?thesis
        by (simp add: visitDeps.simps)
    qed
  qed
  show ?case
  proof (cases "n \<in> graphKeys g - visiting")
    case True
    then have "card (graphKeys g - insert n visiting) < card (graphKeys g - visiting)"
      by (intro psubset_card_mono) auto
    then have "visitDeps fuel g (insert n visiting) visited (graphDeps g n) \<noteq> None"
      using Suc.prems children by simp
    then show ?thesis by (auto simp: visitDep.simps)
  next
    case False
    then show ?thesis by (auto simp: graphDeps_nokey visitDep.simps)
  qed
qed

lemma visitDep_enough: "visitDep (Suc (length g)) g {} {} n \<noteq> None"
  using card_graphKeys [of g] by (intro visitDep_enough') simp

text \<open>Soundness: a node found on the path closes a cycle that the start node reaches.\<close>

definition reachesCycle :: "dependency_graph \<Rightarrow> string \<Rightarrow> bool" where
  "reachesCycle g n \<longleftrightarrow> (\<exists>z. (n, z) \<in> (graphEdges g)\<^sup>* \<and> (z, z) \<in> (graphEdges g)\<^sup>+)"

lemma reachesCycle_edge: "(n, m) \<in> graphEdges g \<Longrightarrow> reachesCycle g m \<Longrightarrow> reachesCycle g n"
  unfolding reachesCycle_def by (meson converse_rtrancl_into_rtrancl)

lemma visit_sound:
  "visitDep fuel g visiting visited n = Some (True, visiting', visited') \<Longrightarrow>
     (\<forall>v \<in> visiting. (v, n) \<in> (graphEdges g)\<^sup>+) \<Longrightarrow> reachesCycle g n"
  "visitDeps fuel g visiting visited ds = Some (True, visiting', visited') \<Longrightarrow>
     (\<forall>v \<in> visiting. \<forall>d \<in> set ds. (v, d) \<in> (graphEdges g)\<^sup>+) \<Longrightarrow> \<exists>d \<in> set ds. reachesCycle g d"
proof (induction fuel g visiting visited n and fuel g visiting visited ds
    arbitrary: visiting' visited' and visiting' visited' rule: visitDep_visitDeps.induct)
  case (2 fuel g visiting visited n)
  show ?case
  proof (cases "n \<in> visiting")
    case True
    with 2 have "(n, n) \<in> (graphEdges g)\<^sup>+" by blast
    then show ?thesis by (auto simp: reachesCycle_def)
  next
    case False
    with "2.prems"(1) obtain vi vd where
      call: "n \<notin> visited" "visitDeps fuel g (insert n visiting) visited (graphDeps g n) = Some (True, vi, vd)"
      by (auto simp: visit_iffs)
    have "\<forall>v \<in> insert n visiting. \<forall>d \<in> set (graphDeps g n). (v, d) \<in> (graphEdges g)\<^sup>+"
      using "2.prems"(2) by (auto simp: graphEdges_def intro: trancl_into_trancl)
    with "2.IH" [OF False call(1,2)] obtain d where "d \<in> set (graphDeps g n)" "reachesCycle g d"
      by blast
    then show ?thesis by (auto simp: graphEdges_def intro: reachesCycle_edge)
  qed
next
  case (4 fuel g visiting visited d ds)
  show ?case
  proof (cases "\<exists>vi vd. visitDep fuel g visiting visited d = Some (True, vi, vd)")
    case True
    then show ?thesis using "4.IH"(1) "4.prems"(2) by auto
  next
    case False
    with "4.prems"(1) obtain vi vd where
      first: "visitDep fuel g visiting visited d = Some (False, vi, vd)"
      and rest: "visitDeps fuel g vi vd ds = Some (True, visiting', visited')"
      by (auto simp: visitDeps.simps split: option.splits if_splits)
    have "vi = visiting" using visit_restores(1) [OF first] by simp
    then show ?thesis using "4.IH"(2) [OF first refl refl _ rest] "4.prems"(2) by auto
  qed
qed auto

text \<open>
  Completeness: the finished nodes are closed under the edges and none of them lies on a cycle,
  and no node is on the path and finished at once.
\<close>

definition finishedOk :: "dependency_graph \<Rightarrow> string set \<Rightarrow> bool" where
  "finishedOk g visited \<longleftrightarrow>
     (\<forall>x \<in> visited. set (graphDeps g x) \<subseteq> visited \<and> (x, x) \<notin> (graphEdges g)\<^sup>+)"

lemma finishedOk_closed:
  "(x, y) \<in> (graphEdges g)\<^sup>* \<Longrightarrow> finishedOk g visited \<Longrightarrow> x \<in> visited \<Longrightarrow> y \<in> visited"
  by (induction rule: rtrancl_induct) (auto simp: finishedOk_def graphEdges_def)

lemma finishedOk_insert:
  assumes ok: "finishedOk g visited" and deps: "set (graphDeps g n) \<subseteq> visited" and new: "n \<notin> visited"
  shows "finishedOk g (insert n visited)"
proof -
  have "(n, n) \<notin> (graphEdges g)\<^sup>+"
  proof
    assume "(n, n) \<in> (graphEdges g)\<^sup>+"
    then obtain m where "(n, m) \<in> graphEdges g" "(m, n) \<in> (graphEdges g)\<^sup>*"
      by (meson tranclD)
    then have "n \<in> visited" using deps finishedOk_closed [OF _ ok] by (auto simp: graphEdges_def)
    with new show False by simp
  qed
  with ok deps show ?thesis by (auto simp: finishedOk_def)
qed

lemma visit_complete:
  "visitDep fuel g visiting visited n = Some (False, visiting', visited') \<Longrightarrow>
     finishedOk g visited \<Longrightarrow> visiting \<inter> visited = {} \<Longrightarrow>
     finishedOk g visited' \<and> visiting' \<inter> visited' = {}"
  "visitDeps fuel g visiting visited ds = Some (False, visiting', visited') \<Longrightarrow>
     finishedOk g visited \<Longrightarrow> visiting \<inter> visited = {} \<Longrightarrow>
     finishedOk g visited' \<and> visiting' \<inter> visited' = {}"
proof (induction fuel g visiting visited n and fuel g visiting visited ds
    arbitrary: visiting' visited' and visiting' visited' rule: visitDep_visitDeps.induct)
  case (2 fuel g visiting visited n)
  show ?case
  proof (cases "n \<in> visited \<or> n \<in> visiting")
    case True
    with "2.prems" show ?thesis by (auto simp: visit_iffs)
  next
    case False
    with "2.prems"(1) obtain vi vd where
      call: "visitDeps fuel g (insert n visiting) visited (graphDeps g n) = Some (False, vi, vd)"
      and res: "visiting' = vi - {n}" "visited' = insert n vd"
      by (auto simp: visit_iffs)
    have vi: "vi = insert n visiting" using visit_restores(2) [OF call] by simp
    have "finishedOk g vd \<and> insert n visiting \<inter> vd = {}"
      using "2.IH" [OF _ _ call] False "2.prems"(2,3) vi by auto
    moreover have "set (graphDeps g n) \<subseteq> vd" using visit_restores(2) [OF call] by simp
    ultimately show ?thesis using finishedOk_insert False res vi by auto
  qed
next
  case (4 fuel g visiting visited d ds)
  from "4.prems"(1) obtain vi vd where
    first: "visitDep fuel g visiting visited d = Some (False, vi, vd)"
    and rest: "visitDeps fuel g vi vd ds = Some (False, visiting', visited')"
    by (auto simp: visit_iffs)
  have "finishedOk g vd \<and> vi \<inter> vd = {}" using "4.IH"(1) [OF first "4.prems"(2,3)] .
  then show ?case using "4.IH"(2) [OF first refl refl _ rest] by simp
qed auto

lemma hasQueueDependencyCycle_iff_reaches:
  "hasQueueDependencyCycle g n \<longleftrightarrow> reachesCycle g n"
proof -
  obtain found vi vd where r: "visitDep (Suc (length g)) g {} {} n = Some (found, vi, vd)"
    using visitDep_enough by fastforce
  show ?thesis
  proof (cases found)
    case True
    with r have "visitDep (Suc (length g)) g {} {} n = Some (True, vi, vd)" by simp
    then have "reachesCycle g n" by (rule visit_sound(1)) simp
    with r True show ?thesis by (simp add: hasQueueDependencyCycle_def)
  next
    case False
    with r have r': "visitDep (Suc (length g)) g {} {} n = Some (False, vi, vd)" by simp
    have ok: "finishedOk g vd" using visit_complete(1) [OF r'] by (simp add: finishedOk_def)
    have n: "n \<in> vd" using visit_restores(1) [OF r'] by blast
    have "(z, z) \<notin> (graphEdges g)\<^sup>+" if "(n, z) \<in> (graphEdges g)\<^sup>*" for z
      using finishedOk_closed [OF that ok n] ok by (auto simp: finishedOk_def)
    then have "\<not> reachesCycle g n" by (auto simp: reachesCycle_def)
    with r False show ?thesis by (simp add: hasQueueDependencyCycle_def)
  qed
qed

section \<open>Properties\<close>

text \<open>
  C17. The depth-first search of \<open>hasQueueDependencyCycle\<close>, with its mutable sets and its early
  returns, answers true exactly when the queue item reaches, along dependency edges, an item that
  lies on a dependency cycle. The search always returns (its fuel is enough for every graph).
\<close>

theorem hasQueueDependencyCycle_correct:
  "visitDep (Suc (length g)) g {} {} n \<noteq> None \<and>
   (hasQueueDependencyCycle g n \<longleftrightarrow>
     (\<exists>z. (n, z) \<in> {(x, y). y \<in> set (graphDeps g x)}\<^sup>*
        \<and> (z, z) \<in> {(x, y). y \<in> set (graphDeps g x)}\<^sup>+))"
  using visitDep_enough hasQueueDependencyCycle_iff_reaches
  by (simp add: reachesCycle_def graphEdges_def)

text \<open>What one dependency must be like not to block the task.\<close>

definition dependencySatisfied :: "AgentQueueTask \<Rightarrow> AgentQueueTask list \<Rightarrow> string \<Rightarrow> bool" where
  "dependencySatisfied task tasks d \<longleftrightarrow>
     d \<noteq> task_queueItemId task \<and>
     \<not> reachesCycle (dependencyGraphFor task tasks) (task_queueItemId task) \<and>
     (\<exists>u. tasksById tasks d = Some u \<and> task_status u = ''completed''
        \<and> task_coordinatorStatus u = Some ''finalized'')"

definition dependencyBroken :: "AgentQueueTask \<Rightarrow> AgentQueueTask list \<Rightarrow> string \<Rightarrow> bool" where
  "dependencyBroken task tasks d \<longleftrightarrow>
     d = task_queueItemId task \<or> tasksById tasks d = None \<or>
     reachesCycle (dependencyGraphFor task tasks) (task_queueItemId task)"

lemma dependencyBlockersOf_empty_iff:
  "dependencyBlockersOf task tasks d = [] \<longleftrightarrow> dependencySatisfied task tasks d"
  by (auto simp: dependencyBlockersOf_def dependencySatisfied_def hasQueueDependencyCycle_iff_reaches
      split: option.splits)

lemma dependencyBlockersOf_invalid_iff:
  "(\<exists>b \<in> set (dependencyBlockersOf task tasks d). invalidBlocker b) \<longleftrightarrow> dependencyBroken task tasks d"
  by (auto simp: dependencyBlockersOf_def dependencyBroken_def hasQueueDependencyCycle_iff_reaches
      invalidBlocker_def dependencyBlocker_def split: option.splits)

lemma dependencyBroken_not_satisfied:
  "dependencyBroken task tasks d \<Longrightarrow> \<not> dependencySatisfied task tasks d"
  by (auto simp: dependencyBroken_def dependencySatisfied_def)

lemma dep_dependsOn_state [simp]:
  "dep_dependsOn (getQueueTaskDependencyState task tasks) = normalizeTaskDependencies (task_dependsOn task)"
  by (simp add: getQueueTaskDependencyState_def Let_def)

lemma dep_status_ready_iff:
  "dep_status (getQueueTaskDependencyState task tasks) = DepReady \<longleftrightarrow>
     (\<forall>d \<in> set (normalizeTaskDependencies (task_dependsOn task)). dependencySatisfied task tasks d)"
  by (auto simp: getQueueTaskDependencyState_def Let_def dependencyBlockersOf_empty_iff)

lemma dep_status_invalid_iff:
  "dep_status (getQueueTaskDependencyState task tasks) = DepInvalid \<longleftrightarrow>
     (\<exists>d \<in> set (normalizeTaskDependencies (task_dependsOn task)). dependencyBroken task tasks d)"
proof -
  let ?bs = "concat (map (dependencyBlockersOf task tasks) (normalizeTaskDependencies (task_dependsOn task)))"
  have "list_ex invalidBlocker ?bs \<longleftrightarrow>
     (\<exists>d \<in> set (normalizeTaskDependencies (task_dependsOn task)). dependencyBroken task tasks d)"
    unfolding list_ex_iff by (simp add: dependencyBlockersOf_invalid_iff)
  moreover have "list_ex invalidBlocker bs \<Longrightarrow> bs \<noteq> []" for bs by (cases bs) auto
  ultimately show ?thesis
    by (auto simp: getQueueTaskDependencyState_def Let_def simp del: concat_eq_Nil_conv)
qed

text \<open>
  The dependency state of a task is \<open>ready\<close> exactly when every one of its (trimmed, non-empty)
  dependencies is another task of the queue that is completed and coordinator-finalised and no
  dependency cycle is reachable from the task; it is \<open>invalid\<close> exactly when some dependency is the
  task itself, is missing, or a cycle is reachable; it is \<open>blocked\<close> in the remaining cases.
\<close>

theorem getQueueTaskDependencyState_status:
  "dep_status (getQueueTaskDependencyState task tasks) =
     (if \<exists>d \<in> set (normalizeTaskDependencies (task_dependsOn task)). dependencyBroken task tasks d
      then DepInvalid
      else if \<exists>d \<in> set (normalizeTaskDependencies (task_dependsOn task)).
                 \<not> dependencySatisfied task tasks d
      then DepBlocked else DepReady)"
proof -
  let ?ds = "set (normalizeTaskDependencies (task_dependsOn task))"
  let ?st = "dep_status (getQueueTaskDependencyState task tasks)"
  have inv: "(\<exists>d \<in> ?ds. dependencyBroken task tasks d) \<longleftrightarrow> ?st = DepInvalid"
    by (simp add: dep_status_invalid_iff)
  have blk: "(\<exists>d \<in> ?ds. \<not> dependencySatisfied task tasks d) \<longleftrightarrow> ?st \<noteq> DepReady"
    by (simp add: dep_status_ready_iff)
  show ?thesis unfolding inv blk by (cases ?st) simp_all
qed

text \<open>A task is refused by the validation exactly when its state is invalid.\<close>

lemma validateQueueTaskDependencies_iff:
  "validateQueueTaskDependencies task tasks \<noteq> None \<longleftrightarrow>
     dep_status (getQueueTaskDependencyState task tasks) = DepInvalid"
proof -
  have "List.find invalidBlocker bs \<noteq> None \<longleftrightarrow> list_ex invalidBlocker bs" for bs
    by (induction bs) auto
  moreover have "dep_status (getQueueTaskDependencyState task tasks) = DepInvalid \<longleftrightarrow>
      list_ex invalidBlocker (dep_blockedBy (getQueueTaskDependencyState task tasks))"
  proof -
    have "list_ex invalidBlocker bs \<Longrightarrow> bs \<noteq> []" for bs by (cases bs) auto
    then show ?thesis by (simp add: getQueueTaskDependencyState_def Let_def del: concat_eq_Nil_conv)
  qed
  ultimately show ?thesis by (simp add: validateQueueTaskDependencies_def)
qed

lemma dependentTasksForQueueItem_iff:
  "t \<in> set (dependentTasksForQueueItem tasks i) \<longleftrightarrow>
     t \<in> set tasks \<and> i \<noteq> [] \<and> (\<exists>d \<in> set (js_default [] (task_dependsOn t)). js_trim d = i)"
  by (auto simp: dependentTasksForQueueItem_def set_normalizeTaskDependencies)

end
