(* ===== verification/Workers.thy ===== *)
theory Workers
  imports Dependencies "HOL-Library.Word"
begin

text \<open>
  Queue tags, executor workers and the display order: \<open>workbench/agentQueueWorkerUi.ts\<close>,
  \<open>workbench/queue/agentQueueTagColors.ts\<close>.

  Display orders are finite numbers (\<open>rat\<close>); order indices and priorities may be anything a
  JavaScript number is, and the comparators normalise them first. The collation used by
  \<open>localeCompare\<close> is the parameter \<open>lc\<close>.
\<close>

section \<open>Queue tags\<close>

record QueueTag =
  tag_queueTagId :: string
  tag_queueTagName :: string

definition tagIdChar :: "char \<Rightarrow> bool" where
  "tagIdChar c \<longleftrightarrow> (let n = of_char c in (97::nat) \<le> n \<and> n \<le> 122 \<or> 48 \<le> n \<and> n \<le> 57)"

definition queueTagNameToId :: "string \<Rightarrow> string" where
  "queueTagNameToId name =
     js_or_str
       (js_strip (CHR ''-'')
         (js_collapse_runs (\<lambda>c. \<not> tagIdChar c) (CHR ''-'') (js_lower (js_trim name))))
       DEFAULT_QUEUE_TAG_ID"

definition normalizeQueueTagOf :: "string option \<Rightarrow> string option \<Rightarrow> QueueTag" where
  "normalizeQueueTagOf tagId tagName =
     (let name = js_or_str (js_trim (js_default [] tagName)) DEFAULT_QUEUE_TAG_NAME
      in \<lparr>tag_queueTagId = js_or_str (js_trim (js_default [] tagId))
             (js_or_str (queueTagNameToId name) DEFAULT_QUEUE_TAG_ID),
          tag_queueTagName = name\<rparr>)"

definition normalizeQueueTag :: "AgentQueueTask \<Rightarrow> QueueTag" where
  "normalizeQueueTag t = normalizeQueueTagOf (task_queueTagId t) (task_queueTagName t)"

definition normalizeQueueTagName :: "string \<Rightarrow> string" where
  "normalizeQueueTagName name = js_collapse_spaces (js_trim name)"

definition queueTagDisplayNameKey :: "string \<Rightarrow> string" where
  "queueTagDisplayNameKey name = js_lower (normalizeQueueTagName name)"

definition validateQueueTagName :: "string \<Rightarrow> QueueTag list \<Rightarrow> string option \<Rightarrow> string option" where
  "validateQueueTagName name existingTags allowQueueTagId =
     (let normalizedName = normalizeQueueTagName name in
      if normalizedName = [] then Some ''Queue tag name is required.''
      else map_option (\<lambda>t. ''Queue tag \"'' @ tag_queueTagName t @ ''\" already exists.'')
        (List.find (\<lambda>t. Some (tag_queueTagId t) \<noteq> allowQueueTagId \<and>
            (tag_queueTagId t = queueTagNameToId normalizedName \<or>
             queueTagDisplayNameKey (tag_queueTagName t) = queueTagDisplayNameKey normalizedName))
          existingTags))"

text \<open>\<open>queueTagColorToken\<close>: a 32-bit hash of the tag id picks one of six colours.\<close>

definition queueTagHash :: "string \<Rightarrow> 32 word" where
  "queueTagHash s = foldl (\<lambda>hash c. hash * 31 + of_nat (of_char c)) 0 s"

definition QUEUE_TAG_COLOR_OPTIONS :: "string list" where
  "QUEUE_TAG_COLOR_OPTIONS = [''queue-flow-tag-1'', ''queue-flow-tag-2'', ''queue-flow-tag-3'',
     ''queue-flow-tag-4'', ''queue-flow-tag-5'', ''queue-flow-tag-6'']"

definition isQueueTagColorToken :: "string \<Rightarrow> bool" where
  "isQueueTagColorToken v \<longleftrightarrow> v \<in> set QUEUE_TAG_COLOR_OPTIONS"

definition queueTagColorToken :: "string \<Rightarrow> string" where
  "queueTagColorToken s =
     (let i = unat (queueTagHash s) mod length QUEUE_TAG_COLOR_OPTIONS in
      if i < length QUEUE_TAG_COLOR_OPTIONS then QUEUE_TAG_COLOR_OPTIONS ! i
      else ''queue-flow-tag-1'')"

section \<open>Display order\<close>

definition queueTaskOrderIndex :: "AgentQueueTask \<Rightarrow> rat option" where
  "queueTaskOrderIndex t =
     (case task_orderIndex t of Some (Fin n) \<Rightarrow> Some n | _ \<Rightarrow> None)"

definition compareQueueTasksForOrder ::
    "(string \<Rightarrow> string \<Rightarrow> int) \<Rightarrow> AgentQueueTask \<Rightarrow> AgentQueueTask \<Rightarrow> js_number" where
  "compareQueueTasksForOrder lc a b =
     js_or (localeCompare lc (tag_queueTagName (normalizeQueueTag a)) (tag_queueTagName (normalizeQueueTag b)))
    (js_or (localeCompare lc (tag_queueTagId (normalizeQueueTag a)) (tag_queueTagId (normalizeQueueTag b)))
    (js_or (subtract_numbers (normalizeTaskPriority (Some (task_priority b)))
              (normalizeTaskPriority (Some (task_priority a))))
    (js_or (js_sub (index_or_infinity (queueTaskOrderIndex a)) (index_or_infinity (queueTaskOrderIndex b)))
    (js_or (localeCompare lc (task_createdAt a) (task_createdAt b))
           (localeCompare lc (task_queueItemId a) (task_queueItemId b))))))"

definition sortQueueTasksForDisplay ::
    "(string \<Rightarrow> string \<Rightarrow> int) \<Rightarrow> AgentQueueTask list \<Rightarrow> AgentQueueTask list" where
  "sortQueueTasksForDisplay lc tasks = js_sort (compareQueueTasksForOrder lc) tasks"

section \<open>Workers\<close>

datatype WorkerStatus = WkIdle | WkRunning | WkPaused | WkFailed

datatype WorkerScope = ScopeAll | ScopeTag (scope_tagId: string) (scope_tagName: string)

datatype PauseReason = PauseManual | PauseEditReview

record QueueTagPauseState =
  pause_paused :: bool
  pause_reason :: PauseReason

record AgentWorkerSummary =
  worker_workerId :: string
  worker_name :: string
  worker_enabled :: bool
  worker_status :: WorkerStatus
  worker_scope :: WorkerScope
  worker_currentItemId :: "string option"
  worker_lastReportSummary :: "string option"
  worker_displayOrder :: rat

datatype SlotOwner = OwnerAgentExecutor | OwnerAgentQueue

record AgentExecutorSlot =
  slot_label :: string
  slot_ownerKind :: "SlotOwner option"
  slot_widgetInstanceId :: string

record AgentQueueWorkerConfig =
  config_workerId :: string
  config_workspaceId :: string
  config_name :: string
  config_enabled :: bool
  config_scopeKind :: string
  config_queueTagId :: "string option"
  config_queueTagName :: "string option"
  config_displayOrder :: rat
  config_createdAt :: string
  config_updatedAt :: string

definition asciiAlnum :: "char \<Rightarrow> bool" where
  "asciiAlnum c \<longleftrightarrow> (let n = of_char c in (97::nat) \<le> n \<and> n \<le> 122 \<or> 65 \<le> n \<and> n \<le> 90 \<or> 48 \<le> n \<and> n \<le> 57)"

definition shortWidgetInstanceId :: "string \<Rightarrow> string" where
  "shortWidgetInstanceId widgetInstanceId =
     js_or_str (js_slice_last 6 (filter asciiAlnum widgetInstanceId))
       (js_or_str (js_slice_last 6 widgetInstanceId) ''unknown'')"

definition agentExecutorSlotLabel :: "string \<Rightarrow> string" where
  "agentExecutorSlotLabel w = ''Local executor '' @ shortWidgetInstanceId w"

definition defaultConfigForSlot :: "AgentExecutorSlot \<Rightarrow> rat \<Rightarrow> AgentQueueWorkerConfig" where
  "defaultConfigForSlot slot order =
     \<lparr>config_workerId = slot_widgetInstanceId slot, config_workspaceId = [],
      config_name = slot_label slot, config_enabled = True, config_scopeKind = ''all'',
      config_queueTagId = None, config_queueTagName = None, config_displayOrder = order,
      config_createdAt = [], config_updatedAt = []\<rparr>"

definition workerConfigsWithVisibleExecutorSlots ::
    "AgentQueueWorkerConfig list \<Rightarrow> AgentExecutorSlot list \<Rightarrow> AgentQueueWorkerConfig list" where
  "workerConfigsWithVisibleExecutorSlots workerConfigs slots =
     (let configuredWorkerIds = set (map config_workerId workerConfigs);
          maxDisplayOrder = foldl (\<lambda>m w. max m (config_displayOrder w)) (-1) workerConfigs
      in workerConfigs @
         mapWithIndex (\<lambda>slot i. defaultConfigForSlot slot (maxDisplayOrder + of_nat i + 1))
           (filter (\<lambda>slot. slot_widgetInstanceId slot \<notin> configuredWorkerIds) slots))"

definition workerCurrentTask ::
    "AgentExecutorSlot list \<Rightarrow> AgentQueueTask list \<Rightarrow> AgentQueueWorkerConfig \<Rightarrow> AgentQueueTask option" where
  "workerCurrentTask slots tasks config =
     js_coalesce
       (List.find (\<lambda>t. task_assignedWorkerId t = Some (config_workerId config)
            \<or> task_assignedExecutorWidgetId t = Some (config_workerId config)) tasks)
       (case List.find (\<lambda>s. slot_widgetInstanceId s = config_workerId config) slots of
          None \<Rightarrow> None
        | Some slot \<Rightarrow>
            if slot_ownerKind slot = Some OwnerAgentQueue
            then List.find (\<lambda>t. task_status t = ''running'' \<and> \<not> js_truthy_str (task_assignedWorkerId t)
                   \<and> \<not> js_truthy_str (task_assignedExecutorWidgetId t)) tasks
            else None)"

definition persistedScope :: "AgentQueueWorkerConfig \<Rightarrow> WorkerScope" where
  "persistedScope config =
     (if config_scopeKind config = ''queue_tag'' \<and> js_truthy_str (config_queueTagId config)
         \<and> js_truthy_str (config_queueTagName config)
      then ScopeTag (the (config_queueTagId config)) (the (config_queueTagName config))
      else ScopeAll)"

definition workerScopePaused :: "(string \<rightharpoonup> QueueTagPauseState) \<Rightarrow> WorkerScope \<Rightarrow> bool" where
  "workerScopePaused pauseStates scope =
     (case scope of
        ScopeAll \<Rightarrow> False
      | ScopeTag i _ \<Rightarrow> i \<noteq> [] \<and> (case pauseStates i of None \<Rightarrow> False | Some p \<Rightarrow> pause_paused p))"

definition workerSummaryOf ::
    "(string \<rightharpoonup> QueueTagPauseState) \<Rightarrow> AgentExecutorSlot list \<Rightarrow> AgentQueueTask list
     \<Rightarrow> (string \<rightharpoonup> WorkerScope) \<Rightarrow> AgentQueueWorkerConfig \<Rightarrow> AgentWorkerSummary" where
  "workerSummaryOf pauseStates slots tasks workerScopes config =
     (let currentTask = workerCurrentTask slots tasks config;
          scope = js_default (persistedScope config) (workerScopes (config_workerId config))
      in \<lparr>worker_workerId = config_workerId config,
          worker_name = config_name config,
          worker_enabled = config_enabled config,
          worker_status =
            (if \<not> config_enabled config then WkPaused
             else if workerScopePaused pauseStates scope then WkPaused
             else if map_option task_status currentTask = Some ''running'' then WkRunning
             else WkIdle),
          worker_scope = scope,
          worker_currentItemId = map_option task_queueItemId currentTask,
          worker_lastReportSummary =
            map_option (\<lambda>t.
              (if js_default [] (task_workerExecutionReports t) \<noteq> []
               then ''Latest report: '' else ''Latest linked item: '') @ displayTaskTitle t) currentTask,
          worker_displayOrder = config_displayOrder config\<rparr>)"

definition workersFromExecutorSlots ::
    "(string \<rightharpoonup> QueueTagPauseState) \<Rightarrow> AgentExecutorSlot list \<Rightarrow> AgentQueueTask list
     \<Rightarrow> AgentQueueWorkerConfig list option \<Rightarrow> (string \<rightharpoonup> WorkerScope) \<Rightarrow> AgentWorkerSummary list" where
  "workersFromExecutorSlots pauseStates slots tasks workerConfigs workerScopes =
     (let configs =
            (if js_default [] workerConfigs \<noteq> []
             then workerConfigsWithVisibleExecutorSlots (js_default [] workerConfigs) slots
             else mapWithIndex (\<lambda>slot i. defaultConfigForSlot slot (of_nat i)) slots)
      in map (workerSummaryOf pauseStates slots tasks workerScopes)
           (js_sort (\<lambda>a b. subtract_numbers (config_displayOrder a) (config_displayOrder b)) configs))"

section \<open>Executor selection\<close>

datatype SelectionSource = SelAssigned | SelAutomatic | SelManual

record AgentQueueExecutorSelection =
  sel_executorWidgetId :: "string option"
  sel_label :: "string option"
  sel_source :: "SelectionSource option"

fun executorScopeRank :: "WorkerScope \<Rightarrow> rat" where
  "executorScopeRank ScopeAll = 0"
| "executorScopeRank (ScopeTag _ _) = 1"

definition compareExecutorCandidates ::
    "(string \<Rightarrow> string \<Rightarrow> int) \<Rightarrow> AgentWorkerSummary \<Rightarrow> AgentWorkerSummary \<Rightarrow> js_number" where
  "compareExecutorCandidates lc a b =
     js_or (subtract_numbers (executorScopeRank (worker_scope a)) (executorScopeRank (worker_scope b)))
    (js_or (subtract_numbers (worker_displayOrder a) (worker_displayOrder b))
    (js_or (localeCompare lc (worker_name a) (worker_name b))
           (localeCompare lc (worker_workerId a) (worker_workerId b))))"

definition executorLabelForWorker :: "AgentWorkerSummary \<Rightarrow> AgentExecutorSlot list \<Rightarrow> string" where
  "executorLabelForWorker worker executorSlots =
     (case List.find (\<lambda>s. slot_widgetInstanceId s = worker_workerId worker) executorSlots of
        None \<Rightarrow> worker_name worker | Some s \<Rightarrow> slot_label s)"

definition noSelection :: AgentQueueExecutorSelection where
  "noSelection = \<lparr>sel_executorWidgetId = None, sel_label = None, sel_source = None\<rparr>"

definition selectionOf ::
    "AgentExecutorSlot list \<Rightarrow> SelectionSource \<Rightarrow> AgentWorkerSummary \<Rightarrow> AgentQueueExecutorSelection" where
  "selectionOf executorSlots src w =
     \<lparr>sel_executorWidgetId = Some (worker_workerId w),
      sel_label = Some (executorLabelForWorker w executorSlots), sel_source = Some src\<rparr>"

definition executorCandidates ::
    "AgentExecutorSlot list \<Rightarrow> AgentQueueTask \<Rightarrow> AgentWorkerSummary list \<Rightarrow> AgentWorkerSummary list" where
  "executorCandidates executorSlots task workers =
     filter (\<lambda>w. worker_workerId w \<in> set (map slot_widgetInstanceId executorSlots)
        \<and> worker_enabled w \<and> worker_status w = WkIdle
        \<and> (case worker_scope w of ScopeAll \<Rightarrow> True
             | ScopeTag i _ \<Rightarrow> i = tag_queueTagId (normalizeQueueTag task))) workers"

definition selectBestAvailableExecutorForTask ::
    "(string \<Rightarrow> string \<Rightarrow> int) \<Rightarrow> string option \<Rightarrow> AgentExecutorSlot list \<Rightarrow> bool
     \<Rightarrow> AgentQueueTask option \<Rightarrow> AgentWorkerSummary list \<Rightarrow> AgentQueueExecutorSelection" where
  "selectBestAvailableExecutorForTask lc currentSelection executorSlots manualOverride task workers =
     (case task of
        None \<Rightarrow> noSelection
      | Some t \<Rightarrow>
          let candidates = executorCandidates executorSlots t workers;
              manualCandidate =
                (if manualOverride \<and> js_truthy_str currentSelection
                 then List.find (\<lambda>w. Some (worker_workerId w) = currentSelection) candidates else None);
              assignedCandidate =
                List.find (\<lambda>w. Some (worker_workerId w) = task_assignedExecutorWidgetId t) candidates
          in case manualCandidate of
               Some w \<Rightarrow> selectionOf executorSlots SelManual w
             | None \<Rightarrow> (case assignedCandidate of
                 Some w \<Rightarrow> selectionOf executorSlots SelAssigned w
               | None \<Rightarrow> (case js_sort (compareExecutorCandidates lc) candidates of
                   [] \<Rightarrow> noSelection
                 | w # _ \<Rightarrow> selectionOf executorSlots SelAutomatic w)))"

section \<open>Tag identifiers\<close>

text \<open>A slug: tag characters and single inner dashes.\<close>

fun singleDashes :: "string \<Rightarrow> bool" where
  "singleDashes (x # y # zs) \<longleftrightarrow> (tagIdChar x \<or> tagIdChar y) \<and> singleDashes (y # zs)"
| "singleDashes _ \<longleftrightarrow> True"

definition slug :: "string \<Rightarrow> bool" where
  "slug s \<longleftrightarrow> s \<noteq> [] \<and> (\<forall>c \<in> set s. tagIdChar c \<or> c = CHR ''-'') \<and> singleDashes s
      \<and> hd s \<noteq> CHR ''-'' \<and> last s \<noteq> CHR ''-''"

lemma tagIdChar_dash: "\<not> tagIdChar (CHR ''-'')"
  by (simp add: tagIdChar_def)

lemma set_collapse:
  "set (js_collapse_runs P r s) \<subseteq> insert r {c \<in> set s. \<not> P c}"
  by (induction P r s rule: js_collapse_runs.induct) (auto dest: set_dropWhileD)

lemma hd_collapse_tag:
  "js_collapse_runs (\<lambda>c. \<not> tagIdChar c) r (dropWhile (\<lambda>c. \<not> tagIdChar c) s) \<noteq> [] \<Longrightarrow>
   tagIdChar (hd (js_collapse_runs (\<lambda>c. \<not> tagIdChar c) r (dropWhile (\<lambda>c. \<not> tagIdChar c) s)))"
  by (induction s) (auto split: if_splits)

lemma singleDashes_Cons:
  "singleDashes (x # s) \<longleftrightarrow> singleDashes s \<and> (s = [] \<or> tagIdChar x \<or> tagIdChar (hd s))"
  by (cases s) auto

lemma singleDashes_collapse:
  "singleDashes (js_collapse_runs (\<lambda>c. \<not> tagIdChar c) r s)"
proof (induction "\<lambda>c. \<not> tagIdChar c" r s rule: js_collapse_runs.induct)
  case (2 r c cs)
  then show ?case
    using hd_collapse_tag [of r cs] by (auto simp: singleDashes_Cons)
qed simp

lemma collapse_slug:
  "singleDashes s \<Longrightarrow> \<forall>c \<in> set s. tagIdChar c \<or> c = r \<Longrightarrow>
   js_collapse_runs (\<lambda>c. \<not> tagIdChar c) r s = s"
proof (induction s)
  case (Cons x s)
  have "dropWhile (\<lambda>c. \<not> tagIdChar c) s = s" if "\<not> tagIdChar x"
    using Cons.prems(1) that by (cases s) auto
  then show ?case using Cons by (auto simp: singleDashes_Cons)
qed simp

lemma singleDashes_append: "singleDashes (s @ t) \<Longrightarrow> singleDashes s \<and> singleDashes t"
  by (induction s) (auto simp: singleDashes_Cons split: if_splits)

lemma strip_spec:
  "\<exists>pre post. s = pre @ js_strip c s @ post"
  "js_strip c s \<noteq> [] \<Longrightarrow> hd (js_strip c s) \<noteq> c \<and> last (js_strip c s) \<noteq> c"
proof -
  define t where "t = dropWhile (\<lambda>x. x = c) s"
  have pre: "s = takeWhile (\<lambda>x. x = c) s @ t" by (simp add: t_def)
  have "rev t = takeWhile (\<lambda>x. x = c) (rev t) @ dropWhile (\<lambda>x. x = c) (rev t)" by simp
  then have post: "t = js_strip c s @ rev (takeWhile (\<lambda>x. x = c) (rev t))"
    unfolding js_strip_def t_def [symmetric] by (metis rev_append rev_rev_ident)
  show "\<exists>pre post. s = pre @ js_strip c s @ post" using pre post by metis
  assume ne: "js_strip c s \<noteq> []"
  have "last (js_strip c s) = hd (dropWhile (\<lambda>x. x = c) (rev t))"
    by (simp add: js_strip_def t_def last_rev)
  moreover have "hd (dropWhile (\<lambda>x. x = c) (rev t)) \<noteq> c"
    using ne hd_dropWhile [of "\<lambda>x. x = c" "rev t"] by (simp add: js_strip_def t_def)
  moreover have "hd (js_strip c s) = hd t" using ne post by (metis hd_append2)
  moreover have "hd t \<noteq> c" using ne hd_dropWhile [of "\<lambda>x. x = c" s] post
    by (metis append_is_Nil_conv t_def)
  ultimately show "hd (js_strip c s) \<noteq> c \<and> last (js_strip c s) \<noteq> c" by simp
qed

lemma slug_queueTagNameToId: "slug (queueTagNameToId name)"
proof -
  define s where "s = js_collapse_runs (\<lambda>c. \<not> tagIdChar c) (CHR ''-'') (js_lower (js_trim name))"
  define t where "t = js_strip (CHR ''-'') s"
  have s: "singleDashes s" "\<forall>c \<in> set s. tagIdChar c \<or> c = CHR ''-''"
    using singleDashes_collapse
      set_collapse [of "\<lambda>c. \<not> tagIdChar c" "CHR ''-''" "js_lower (js_trim name)"]
    by (auto simp: s_def)
  obtain pre post where st: "s = pre @ t @ post" using strip_spec(1) unfolding t_def by metis
  have t: "singleDashes t" "\<forall>c \<in> set t. tagIdChar c \<or> c = CHR ''-''"
  proof -
    from s(1) st have "singleDashes (pre @ t @ post)" by simp
    then show "singleDashes t" by (metis singleDashes_append)
    from s(2) st show "\<forall>c \<in> set t. tagIdChar c \<or> c = CHR ''-''" by simp
  qed
  have "slug DEFAULT_QUEUE_TAG_ID" by (simp add: slug_def DEFAULT_QUEUE_TAG_ID_def tagIdChar_def)
  moreover have "t \<noteq> [] \<Longrightarrow> slug t" using t strip_spec(2) [of "CHR ''-''" s] by (simp add: slug_def t_def)
  ultimately show ?thesis
    by (simp add: queueTagNameToId_def js_or_str_def s_def t_def)
qed

lemma slug_char_trim: "tagIdChar c \<or> c = CHR ''-'' \<Longrightarrow> \<not> js_whitespace c \<and> js_lower_char c = c"
  by (auto simp: tagIdChar_def js_whitespace_def js_lower_char_def Let_def)

lemma dropWhile_hd: "s \<noteq> [] \<Longrightarrow> \<not> P (hd s) \<Longrightarrow> dropWhile P s = s"
  by (cases s) auto

lemma slug_fixed:
  assumes "slug s" shows "queueTagNameToId s = s"
proof -
  have chars: "\<forall>c \<in> set s. tagIdChar c \<or> c = CHR ''-''" and ne: "s \<noteq> []" using assms by (auto simp: slug_def)
  have ws: "\<not> js_whitespace (hd s)" "\<not> js_whitespace (last s)"
    using chars ne slug_char_trim by auto
  have "js_trim s = s" using ne ws by (simp add: js_trim_def dropWhile_hd hd_rev)
  moreover have "js_lower s = s"
    unfolding js_lower_def using chars slug_char_trim by (intro map_idI) blast
  moreover have "js_collapse_runs (\<lambda>c. \<not> tagIdChar c) (CHR ''-'') s = s"
    using assms chars by (intro collapse_slug) (auto simp: slug_def)
  moreover have "js_strip (CHR ''-'') s = s"
    using assms by (simp add: js_strip_def dropWhile_hd hd_rev slug_def)
  ultimately show ?thesis using ne by (simp add: queueTagNameToId_def js_or_str_def)
qed

text \<open>
  \<open>queueTagNameToId\<close> always yields a slug: non-empty, made of ASCII lower-case letters, digits
  and single dashes that neither start nor end it. Slugs are its fixed points, so deriving the id of
  an id changes nothing.
\<close>

theorem queueTagNameToId_slug:
  "slug (queueTagNameToId name) \<and> queueTagNameToId (queueTagNameToId name) = queueTagNameToId name"
  using slug_queueTagNameToId slug_fixed by blast

lemma queueTagColorToken_valid: "isQueueTagColorToken (queueTagColorToken s)"
  by (auto simp: isQueueTagColorToken_def queueTagColorToken_def Let_def intro: nth_mem)
     (simp add: QUEUE_TAG_COLOR_OPTIONS_def)

section \<open>The display order is a consistent comparator\<close>

lemma compareQueueTasksForOrder_comparator:
  assumes lc: "js_comparator (localeCompare lc)"
  shows "js_comparator (compareQueueTasksForOrder lc)"
  unfolding compareQueueTasksForOrder_def
  by (intro js_comparator_lex js_comparator_on [OF lc]
      js_comparator_swap [OF js_comparator_on [OF js_comparator_subtract]]
      js_comparator_on [OF js_comparator_index])

lemma compareExecutorCandidates_comparator:
  assumes lc: "js_comparator (localeCompare lc)"
  shows "js_comparator (compareExecutorCandidates lc)"
  unfolding compareExecutorCandidates_def
  by (intro js_comparator_lex js_comparator_on [OF lc] js_comparator_on [OF js_comparator_subtract])

interpretation config_order: js_comparator
  "\<lambda>a b. subtract_numbers (config_displayOrder a) (config_displayOrder b)"
  by (rule js_comparator_on [OF js_comparator_subtract])

text \<open>
  \<open>sortQueueTasksForDisplay\<close> rearranges the tasks without losing or adding any, leaves no task
  after one that its comparator ranks higher, and keeps the order of tasks the comparator does not
  separate, for every collation that is a consistent comparator. Missing order indices sort as
  infinity, and two infinities, whose difference is NaN, fall through to the next key.
\<close>

theorem sortQueueTasksForDisplay_correct:
  assumes "js_comparator (localeCompare lc)"
  shows "mset (sortQueueTasksForDisplay lc tasks) = mset tasks \<and>
    sorted_wrt (\<lambda>a b. \<not> js_pos (compareQueueTasksForOrder lc a b)) (sortQueueTasksForDisplay lc tasks) \<and>
    filter (\<lambda>t. \<not> js_pos (compareQueueTasksForOrder lc t k) \<and> \<not> js_pos (compareQueueTasksForOrder lc k t))
      (sortQueueTasksForDisplay lc tasks) =
    filter (\<lambda>t. \<not> js_pos (compareQueueTasksForOrder lc t k) \<and> \<not> js_pos (compareQueueTasksForOrder lc k t))
      tasks"
  unfolding sortQueueTasksForDisplay_def
  using js_comparator.sorted_sort [OF compareQueueTasksForOrder_comparator [OF assms]]
    js_comparator.sort_stable [OF compareQueueTasksForOrder_comparator [OF assms]]
  by (simp add: mset_js_sort)

lemma sortQueueTasksForDisplay_correct_witness:
  "mset (sortQueueTasksForDisplay codeUnitCompare
      [fakeQueueTask\<lparr>task_queueItemId := ''b''\<rparr>, fakeQueueTask\<lparr>task_queueItemId := ''a''\<rparr>])
   = mset [fakeQueueTask\<lparr>task_queueItemId := ''b''\<rparr>, fakeQueueTask\<lparr>task_queueItemId := ''a''\<rparr>]"
  using sortQueueTasksForDisplay_correct [OF codeUnitCompare_comparator] by blast

section \<open>Workers derived from the executor slots\<close>

lemma worker_id_summary [simp]:
  "worker_workerId (workerSummaryOf ps slots tasks scopes c) = config_workerId c"
  by (simp add: workerSummaryOf_def Let_def)

lemma config_id_default [simp]: "config_workerId (defaultConfigForSlot s n) = slot_widgetInstanceId s"
  by (simp add: defaultConfigForSlot_def)

lemma config_order_default [simp]: "config_displayOrder (defaultConfigForSlot s n) = n"
  by (simp add: defaultConfigForSlot_def)

lemma workerConfigs_ids:
  "map config_workerId (workerConfigsWithVisibleExecutorSlots cs slots) =
     map config_workerId cs @
     filter (\<lambda>i. i \<notin> set (map config_workerId cs)) (map slot_widgetInstanceId slots)"
  by (simp add: workerConfigsWithVisibleExecutorSlots_def Let_def map_mapWithIndex
      filter_map comp_def)

lemma mset_map_js_sort: "mset (map f (js_sort cmp xs)) = mset (map f xs)"
  by (simp add: mset_js_sort)

lemma worker_ids_mset:
  "mset (map worker_workerId (workersFromExecutorSlots ps slots tasks cfgs scopes)) =
     mset (map config_workerId (js_default [] cfgs) @
       filter (\<lambda>i. i \<notin> set (map config_workerId (js_default [] cfgs))) (map slot_widgetInstanceId slots))"
proof (cases "js_default [] cfgs = []")
  case True
  then show ?thesis
    by (simp add: workersFromExecutorSlots_def comp_def mset_map_js_sort map_mapWithIndex
        del: mset_map)
next
  case False
  then show ?thesis
    unfolding workerConfigs_ids [symmetric]
    by (simp add: workersFromExecutorSlots_def comp_def mset_js_sort)
qed

lemma maxOrder_ge:
  "m \<le> foldl (\<lambda>m w. max m (f w)) m cs \<and> (\<forall>c \<in> set cs. f c \<le> foldl (\<lambda>m w. max m (f w)) m cs)"
  for m :: rat
proof (induction cs arbitrary: m)
  case (Cons c cs)
  have "max m (f c) \<le> foldl (\<lambda>m w. max m (f w)) (max m (f c)) cs" using Cons by blast
  then show ?case using Cons [of "max m (f c)"] by auto
qed simp

text \<open>
  \<open>workersFromExecutorSlots\<close> lists every configured worker once and, after them, one worker for
  each visible executor slot that has no configuration; the list is ordered by display order, and
  a slot without configuration never comes before a configured worker.
\<close>

theorem workersFromExecutorSlots_workers:
  "mset (map worker_workerId (workersFromExecutorSlots ps slots tasks cfgs scopes)) =
     mset (map config_workerId (js_default [] cfgs)) +
     mset (filter (\<lambda>i. i \<notin> set (map config_workerId (js_default [] cfgs)))
             (map slot_widgetInstanceId slots)) \<and>
   sorted (map worker_displayOrder (workersFromExecutorSlots ps slots tasks cfgs scopes))"
proof -
  have ord: "worker_displayOrder (workerSummaryOf ps slots tasks scopes c) = config_displayOrder c" for c
    by (simp add: workerSummaryOf_def Let_def)
  have srt: "sorted (map config_displayOrder
      (js_sort (\<lambda>a b. subtract_numbers (config_displayOrder a) (config_displayOrder b)) cs))" for cs
    using config_order.sorted_sort [of cs]
    by (simp add: sorted_wrt_map subtract_numbers_def not_less)
  have "sorted (map worker_displayOrder (workersFromExecutorSlots ps slots tasks cfgs scopes))"
    by (simp add: workersFromExecutorSlots_def Let_def comp_def ord srt)
  then show ?thesis
    using worker_ids_mset [of ps slots tasks cfgs scopes] by simp
qed

lemma unconfigured_after_configured:
  assumes "c \<in> set cs" and "d \<in> set (workerConfigsWithVisibleExecutorSlots cs slots)" and "d \<notin> set cs"
  shows "config_displayOrder c < config_displayOrder d"
proof -
  let ?m = "foldl (\<lambda>m w. max m (config_displayOrder w)) (-1) cs"
  have "config_displayOrder c \<le> ?m" using maxOrder_ge [of "-1" config_displayOrder cs] assms(1) by blast
  moreover obtain i where "config_displayOrder d = ?m + of_nat i + 1"
    using assms(2,3) by (auto simp: workerConfigsWithVisibleExecutorSlots_def Let_def set_mapWithIndex)
  ultimately show ?thesis by (simp add: add.assoc [symmetric])
qed

text \<open>A worker that is reported idle or running is enabled and its tag is not paused.\<close>

lemma workerSummaryOf_active:
  "worker_status (workerSummaryOf ps slots tasks scopes c) \<noteq> WkPaused \<Longrightarrow>
     worker_enabled (workerSummaryOf ps slots tasks scopes c) \<and>
     \<not> workerScopePaused ps (worker_scope (workerSummaryOf ps slots tasks scopes c))"
  by (auto simp: workerSummaryOf_def Let_def split: if_splits)

section \<open>Executor selection\<close>

lemma executorCandidates_iff:
  "w \<in> set (executorCandidates slots t workers) \<longleftrightarrow>
     w \<in> set workers \<and> worker_enabled w \<and> worker_status w = WkIdle \<and>
     worker_workerId w \<in> set (map slot_widgetInstanceId slots) \<and>
     (worker_scope w = ScopeAll \<or> scope_tagId (worker_scope w) = tag_queueTagId (normalizeQueueTag t)
        \<and> worker_scope w \<noteq> ScopeAll)"
  by (cases "worker_scope w") (auto simp: executorCandidates_def)

lemma find_None_None: "List.find P xs = None \<longleftrightarrow> (\<forall>x \<in> set xs. \<not> P x)"
  by (induction xs) auto

text \<open>
  \<open>selectBestAvailableExecutorForTask\<close> selects a worker exactly when some enabled, idle worker
  has a visible slot and a scope that covers the task's tag; the worker it selects is one of those,
  and an automatic selection is one that no other candidate outranks.
\<close>

theorem selectBestAvailableExecutorForTask_correct:
  assumes "js_comparator (localeCompare lc)"
    and sel: "selectBestAvailableExecutorForTask lc current slots manual (Some t) workers = sel"
  shows "(sel_source sel = None \<longleftrightarrow> executorCandidates slots t workers = []) \<and>
    (sel_executorWidgetId sel = None \<longleftrightarrow> sel_source sel = None) \<and>
    (\<forall>i. sel_executorWidgetId sel = Some i \<longrightarrow>
       (\<exists>w \<in> set (executorCandidates slots t workers). worker_workerId w = i \<and>
          (sel_source sel = Some SelManual \<longrightarrow> manual \<and> current = Some i) \<and>
          (sel_source sel = Some SelAssigned \<longrightarrow> task_assignedExecutorWidgetId t = Some i) \<and>
          (sel_source sel = Some SelAutomatic \<longrightarrow>
             (\<forall>c \<in> set (executorCandidates slots t workers).
                \<not> js_pos (compareExecutorCandidates lc w c)))))"
proof -
  note cmp = compareExecutorCandidates_comparator [OF assms(1)]
  let ?cs = "executorCandidates slots t workers"
  have auto_case: "sel = (case js_sort (compareExecutorCandidates lc) ?cs of
      [] \<Rightarrow> noSelection | w # _ \<Rightarrow> selectionOf slots SelAutomatic w)
    \<or> (\<exists>w \<in> set ?cs. sel = selectionOf slots SelManual w \<and> manual \<and> current = Some (worker_workerId w))
    \<or> (\<exists>w \<in> set ?cs. sel = selectionOf slots SelAssigned w
          \<and> task_assignedExecutorWidgetId t = Some (worker_workerId w))"
    using sel unfolding selectBestAvailableExecutorForTask_def
    by (fastforce simp: Let_def split: option.splits if_splits dest: find_Some_iff_mem)
  then consider (auto) "sel = (case js_sort (compareExecutorCandidates lc) ?cs of
      [] \<Rightarrow> noSelection | w # _ \<Rightarrow> selectionOf slots SelAutomatic w)"
    | (other) w src where "w \<in> set ?cs" "sel = selectionOf slots src w" "src \<noteq> SelAutomatic"
        "src = SelManual \<longrightarrow> manual \<and> current = Some (worker_workerId w)"
        "src = SelAssigned \<longrightarrow> task_assignedExecutorWidgetId t = Some (worker_workerId w)"
    by blast
  then show ?thesis
  proof cases
    case auto
    show ?thesis
    proof (cases "js_sort (compareExecutorCandidates lc) ?cs")
      case Nil
      with auto show ?thesis by (simp add: noSelection_def)
    next
      case (Cons w ws)
      have "w \<in> set ?cs" using Cons by (metis list.set_intros(1) set_js_sort)
      moreover have "\<forall>c \<in> set ?cs. \<not> js_pos (compareExecutorCandidates lc w c)"
        using js_comparator.hd_sort_least [OF cmp Cons] by blast
      ultimately show ?thesis using auto Cons by (auto simp: selectionOf_def)
    qed
  next
    case (other w src)
    then have "?cs \<noteq> []" by auto
    with other show ?thesis by (auto simp: selectionOf_def)
  qed
qed

definition exampleWorker :: "string \<Rightarrow> AgentWorkerSummary" where
  "exampleWorker i = \<lparr>worker_workerId = i, worker_name = i, worker_enabled = True,
     worker_status = WkIdle, worker_scope = ScopeAll, worker_currentItemId = None,
     worker_lastReportSummary = None, worker_displayOrder = 0\<rparr>"

definition exampleSlot :: "string \<Rightarrow> AgentExecutorSlot" where
  "exampleSlot i = \<lparr>slot_label = i, slot_ownerKind = None, slot_widgetInstanceId = i\<rparr>"

lemma selectBestAvailableExecutorForTask_correct_witness:
  "\<exists>w \<in> set (executorCandidates [exampleSlot ''w1''] fakeQueueTask [exampleWorker ''w1'']).
     worker_workerId w = ''w1''"
proof -
  let ?sel = "selectBestAvailableExecutorForTask codeUnitCompare None [exampleSlot ''w1''] False
     (Some fakeQueueTask) [exampleWorker ''w1'']"
  have "sel_executorWidgetId ?sel = Some ''w1''"
    by (simp add: selectBestAvailableExecutorForTask_def executorCandidates_def exampleSlot_def
        exampleWorker_def selectionOf_def fakeQueueTask_def)
  then show ?thesis
    using selectBestAvailableExecutorForTask_correct [OF codeUnitCompare_comparator refl,
        of None "[exampleSlot ''w1'']" False fakeQueueTask "[exampleWorker ''w1'']"] by blast
qed

end
