(* ===== verification/Ordering.thy ===== *)
theory Ordering
  imports Workers
begin

text \<open>
  Manual ordering of queue tasks, \<open>workbench/queue/agentQueueOrderingActions.ts\<close>: moving a task
  among its peers (same queue tag id, same priority), the order index of a new task, and the
  indices given to tasks that have none.

  \<open>manualOrderGroupKey\<close> joins the tag id and the printed priority with a colon; a printed number
  has no colon, so the key is the pair of the two.
\<close>

section \<open>Model\<close>

datatype InsertPosition = InsertTop | InsertBottom

datatype ReorderPosition = ReorderUp | ReorderDown | ReorderTop | ReorderBottom

record OrderingControls =
  ctl_canMoveDown :: bool
  ctl_canMoveToBottom :: bool
  ctl_canMoveToTop :: bool
  ctl_canMoveUp :: bool
  ctl_orderLabel :: "string option"

record ReorderResult =
  reorder_changed :: bool
  reorder_updatedTasks :: "AgentQueueTask list"

definition isReorderPeer :: "AgentQueueTask \<Rightarrow> AgentQueueTask \<Rightarrow> bool" where
  "isReorderPeer selectedTask t \<longleftrightarrow>
     tag_queueTagId (normalizeQueueTag t) = tag_queueTagId (normalizeQueueTag selectedTask) \<and>
     normalizeTaskPriority (Some (task_priority t)) = normalizeTaskPriority (Some (task_priority selectedTask))"

definition orderedManualReorderPeers ::
    "(string \<Rightarrow> string \<Rightarrow> int) \<Rightarrow> AgentQueueTask list \<Rightarrow> AgentQueueTask \<Rightarrow> AgentQueueTask list" where
  "orderedManualReorderPeers lc tasks selectedTask =
     sortQueueTasksForDisplay lc (filter (isReorderPeer selectedTask) tasks)"

text \<open>\<open>xs.findIndex(p)\<close>, with \<open>None\<close> for -1.\<close>

fun js_findIndex :: "('a \<Rightarrow> bool) \<Rightarrow> 'a list \<Rightarrow> nat option" where
  "js_findIndex P [] = None"
| "js_findIndex P (x # xs) = (if P x then Some 0 else map_option Suc (js_findIndex P xs))"

definition queueTaskOrderingControls ::
    "(string \<Rightarrow> string \<Rightarrow> int) \<Rightarrow> AgentQueueTask option \<Rightarrow> AgentQueueTask list \<Rightarrow> OrderingControls" where
  "queueTaskOrderingControls lc selectedTask tasks =
     (case selectedTask of
        None \<Rightarrow> \<lparr>ctl_canMoveDown = False, ctl_canMoveToBottom = False, ctl_canMoveToTop = False,
                 ctl_canMoveUp = False, ctl_orderLabel = None\<rparr>
      | Some sel \<Rightarrow>
          let peers = orderedManualReorderPeers lc tasks sel;
              selectedIndex = js_findIndex (\<lambda>t. task_queueItemId t = task_queueItemId sel) peers;
              total = length peers;
              notLast = (case selectedIndex of None \<Rightarrow> False | Some i \<Rightarrow> int i < int total - 1);
              notFirst = (case selectedIndex of None \<Rightarrow> False | Some i \<Rightarrow> 0 < i)
          in \<lparr>ctl_canMoveDown = notLast, ctl_canMoveToBottom = notLast, ctl_canMoveToTop = notFirst,
              ctl_canMoveUp = notFirst,
              ctl_orderLabel = map_option
                (\<lambda>i. js_nat_string (i + 1) @ '' of '' @ js_nat_string total) selectedIndex\<rparr>)"

fun reorderTarget :: "ReorderPosition \<Rightarrow> nat \<Rightarrow> nat \<Rightarrow> int" where
  "reorderTarget ReorderTop current n = 0"
| "reorderTarget ReorderBottom current n = int n - 1"
| "reorderTarget ReorderUp current n = int current - 1"
| "reorderTarget ReorderDown current n = int current + 1"

definition withOrder :: "(string \<times> nat) list \<Rightarrow> AgentQueueTask \<Rightarrow> AgentQueueTask" where
  "withOrder orderById t =
     (case map_of orderById (task_queueItemId t) of
        None \<Rightarrow> t
      | Some i \<Rightarrow> t\<lparr>task_orderIndex := Some (Fin (of_nat i))\<rparr>)"

definition reorderQueueTask ::
    "(string \<Rightarrow> string \<Rightarrow> int) \<Rightarrow> ReorderPosition \<Rightarrow> string \<Rightarrow> AgentQueueTask list \<Rightarrow> ReorderResult" where
  "reorderQueueTask lc position queueItemId tasks =
     (case List.find (\<lambda>t. task_queueItemId t = queueItemId) tasks of
        None \<Rightarrow> \<lparr>reorder_changed = False, reorder_updatedTasks = tasks\<rparr>
      | Some selectedTask \<Rightarrow>
          let peers = orderedManualReorderPeers lc tasks selectedTask in
          case js_findIndex (\<lambda>t. task_queueItemId t = queueItemId) peers of
            None \<Rightarrow> \<lparr>reorder_changed = False, reorder_updatedTasks = tasks\<rparr>
          | Some currentIndex \<Rightarrow>
              let nextIndex = reorderTarget position currentIndex (length peers) in
              if nextIndex < 0 \<or> int (length peers) \<le> nextIndex \<or> nextIndex = int currentIndex
              then \<lparr>reorder_changed = False, reorder_updatedTasks = tasks\<rparr>
              else let reorderedPeers = moveElement currentIndex (nat nextIndex) peers;
                       orderById = js_map_of_entries
                         (mapWithIndex (\<lambda>t i. (task_queueItemId t, i)) reorderedPeers)
                   in \<lparr>reorder_changed = True,
                       reorder_updatedTasks =
                         sortQueueTasksForDisplay lc (map (withOrder orderById) tasks)\<rparr>)"

definition nextOrderIndexForQueueTag ::
    "InsertPosition \<Rightarrow> string \<Rightarrow> AgentQueueTask list \<Rightarrow> rat" where
  "nextOrderIndexForQueueTag insertPosition queueTagId tasks =
     (let orderIndexes = List.map_filter queueTaskOrderIndex
            (filter (\<lambda>t. tag_queueTagId (normalizeQueueTag t) = queueTagId) tasks)
      in case orderIndexes of
           [] \<Rightarrow> 0
         | n # ns \<Rightarrow> (case insertPosition of
             InsertTop \<Rightarrow> fold min ns n - 1
           | InsertBottom \<Rightarrow> fold max ns n + 1))"

definition manualOrderGroupKey :: "AgentQueueTask \<Rightarrow> string \<times> rat" where
  "manualOrderGroupKey t =
     (tag_queueTagId (normalizeQueueTag t), normalizeTaskPriority (Some (task_priority t)))"

fun fillOrderIndexes ::
    "((string \<times> rat) \<times> nat) list \<Rightarrow> AgentQueueTask list \<Rightarrow> AgentQueueTask list" where
  "fillOrderIndexes nextOrderByGroup [] = []"
| "fillOrderIndexes nextOrderByGroup (t # ts) =
     (case queueTaskOrderIndex t of
        Some n \<Rightarrow> t # fillOrderIndexes nextOrderByGroup ts
      | None \<Rightarrow>
          let groupKey = manualOrderGroupKey t;
              nextOrderIndex = js_default 0 (map_of nextOrderByGroup groupKey)
          in t\<lparr>task_orderIndex := Some (Fin (of_nat nextOrderIndex))\<rparr>
             # fillOrderIndexes (AList.update groupKey (nextOrderIndex + 1) nextOrderByGroup) ts)"

definition withQueueOrderIndexes ::
    "(string \<Rightarrow> string \<Rightarrow> int) \<Rightarrow> AgentQueueTask list \<Rightarrow> AgentQueueTask list" where
  "withQueueOrderIndexes lc tasks =
     sortQueueTasksForDisplay lc (fillOrderIndexes [] (sortQueueTasksForDisplay lc tasks))"

section \<open>Moving a task among its peers\<close>

lemma js_findIndex_Some:
  "js_findIndex P xs = Some i \<Longrightarrow> i < length xs \<and> P (xs ! i)"
  by (induction xs arbitrary: i) (auto split: if_splits simp: nth_Cons')

lemma set_sortQueueTasksForDisplay [simp]: "set (sortQueueTasksForDisplay lc ts) = set ts"
  by (simp add: sortQueueTasksForDisplay_def)

lemma mset_sortQueueTasksForDisplay [simp]: "mset (sortQueueTasksForDisplay lc ts) = mset ts"
  by (simp add: sortQueueTasksForDisplay_def mset_js_sort)

lemma withOrder_fields [simp]:
  "task_queueItemId (withOrder m t) = task_queueItemId t"
  "normalizeQueueTag (withOrder m t) = normalizeQueueTag t"
  "task_priority (withOrder m t) = task_priority t"
  by (simp_all add: withOrder_def normalizeQueueTag_def split: option.split)

lemma isReorderPeer_withOrder [simp]: "isReorderPeer sel (withOrder m t) = isReorderPeer sel t"
  by (simp add: isReorderPeer_def)

lemma filter_withOrder: "filter (isReorderPeer sel) (map (withOrder m) ts) = map (withOrder m) (filter (isReorderPeer sel) ts)"
  by (simp add: filter_map comp_def)

text \<open>Peers that share the tag name are separated by their order index alone.\<close>

lemma localeCompare_self:
  assumes "js_comparator (localeCompare lc)" shows "lc s s = 0"
  using js_comparator.refl [OF assms, of s] js_comparator.flip [OF assms, of s s]
  by (auto simp: localeCompare_def)

lemma compare_peers:
  assumes lc: "js_comparator (localeCompare lc)"
    and tag: "normalizeQueueTag a = normalizeQueueTag b"
    and prio: "normalizeTaskPriority (Some (task_priority a)) = normalizeTaskPriority (Some (task_priority b))"
    and idx: "task_orderIndex a = Some (Fin i)" "task_orderIndex b = Some (Fin j)" "i < j"
  shows "js_neg (compareQueueTasksForOrder lc a b)"
  using idx tag prio localeCompare_self [OF lc]
  by (simp add: compareQueueTasksForOrder_def js_or_def localeCompare_def subtract_numbers_def
      queueTaskOrderIndex_def index_or_infinity_def)

lemma orderById_lookup:
  assumes "distinct (map task_queueItemId ps)" and "i < length ps"
  shows "map_of (js_map_of_entries (mapWithIndex (\<lambda>t i. (task_queueItemId t, i)) ps))
           (task_queueItemId (ps ! i)) = Some i"
proof -
  let ?es = "mapWithIndex (\<lambda>t i. (task_queueItemId t, i)) ps"
  have "map fst ?es = map task_queueItemId ps" by (simp add: map_mapWithIndex)
  then have d: "distinct (map fst ?es)" using assms(1) by simp
  have "?es ! i \<in> set ?es" using assms(2) by (intro nth_mem) simp
  then have "(task_queueItemId (ps ! i), i) \<in> set ?es" using assms(2) by simp
  with d show ?thesis by (simp add: js_map_of_entries_distinct)
qed

text \<open>
  Giving the rearranged peers their positions as order indices makes the sort produce exactly
  that arrangement.
\<close>

lemma sort_withOrder:
  assumes lc: "js_comparator (localeCompare lc)"
    and d: "distinct (map task_queueItemId ps)"
    and same: "\<And>p. p \<in> set ps \<Longrightarrow> normalizeQueueTag p = tag \<and>
        normalizeTaskPriority (Some (task_priority p)) = prio"
    and perm: "mset qs =
      mset (map (withOrder (js_map_of_entries (mapWithIndex (\<lambda>t i. (task_queueItemId t, i)) ps))) ps)"
  shows "sortQueueTasksForDisplay lc qs
    = map (withOrder (js_map_of_entries (mapWithIndex (\<lambda>t i. (task_queueItemId t, i)) ps))) ps"
    (is "_ = map ?w ps")
proof -
  have idx: "task_orderIndex (?w (ps ! i)) = Some (Fin (of_nat i))" if "i < length ps" for i
    using orderById_lookup [OF d that] by (simp add: withOrder_def)
  have "sorted_wrt (\<lambda>x y. js_neg (compareQueueTasksForOrder lc x y)) (map ?w ps)"
    unfolding sorted_wrt_iff_nth_less
  proof (intro allI impI)
    fix i j assume ij: "i < j" "j < length (map ?w ps)"
    then have "i < length ps" "j < length ps" by simp_all
    moreover have "ps ! i \<in> set ps" "ps ! j \<in> set ps" using ij by simp_all
    ultimately show "js_neg (compareQueueTasksForOrder lc (map ?w ps ! i) (map ?w ps ! j))"
      using ij same by (simp add: compare_peers [OF lc _ _ idx idx])
  qed
  then show ?thesis
    unfolding sortQueueTasksForDisplay_def
    by (rule js_comparator.sort_eqI [OF compareQueueTasksForOrder_comparator [OF lc] perm])
qed

lemma filter_mset_eq: "mset xs = mset ys \<Longrightarrow> mset (filter P xs) = mset (filter P ys)"
  by simp

definition samePeerTags :: "AgentQueueTask list \<Rightarrow> AgentQueueTask \<Rightarrow> bool" where
  "samePeerTags tasks sel \<longleftrightarrow>
     list_all (\<lambda>t. isReorderPeer sel t \<longrightarrow>
        tag_queueTagName (normalizeQueueTag t) = tag_queueTagName (normalizeQueueTag sel)) tasks"

lemma reorder_peers:
  fixes i j :: nat
  assumes lc: "js_comparator (localeCompare lc)"
    and d: "distinct (map task_queueItemId tasks)"
    and same: "samePeerTags tasks sel"
    and cur: "i < length (orderedManualReorderPeers lc tasks sel)"
  defines "peers \<equiv> orderedManualReorderPeers lc tasks sel"
  defines "m \<equiv> js_map_of_entries (mapWithIndex (\<lambda>t k. (task_queueItemId t, k)) (moveElement i j peers))"
  shows "map task_queueItemId
      (orderedManualReorderPeers lc (sortQueueTasksForDisplay lc (map (withOrder m) tasks)) sel)
    = moveElement i j (map task_queueItemId peers)"
proof -
  let ?ps = "moveElement i j peers"
  have perm: "mset ?ps = mset (filter (isReorderPeer sel) tasks)"
    using cur by (simp add: peers_def orderedManualReorderPeers_def)
  then have set_ps: "set ?ps = set (filter (isReorderPeer sel) tasks)" by (metis set_mset_mset)
  have "mset (map task_queueItemId ?ps) = mset (map task_queueItemId (filter (isReorderPeer sel) tasks))"
    using perm by simp
  then have d': "distinct (map task_queueItemId ?ps)"
    using d distinct_map_filter by (metis mset_eq_imp_distinct_iff)
  have same': "normalizeQueueTag p = normalizeQueueTag sel \<and>
      normalizeTaskPriority (Some (task_priority p)) = normalizeTaskPriority (Some (task_priority sel))"
    if "p \<in> set ?ps" for p
    using that same set_ps by (auto simp: samePeerTags_def list_all_iff isReorderPeer_def)
  define qs where "qs = filter (isReorderPeer sel) (sortQueueTasksForDisplay lc (map (withOrder m) tasks))"
  have "mset qs = mset (filter (isReorderPeer sel) (map (withOrder m) tasks))"
    unfolding qs_def by (rule filter_mset_eq) simp
  also have "\<dots> = mset (map (withOrder m) ?ps)"
    unfolding filter_withOrder using perm by simp
  finally have "sortQueueTasksForDisplay lc qs = map (withOrder m) ?ps"
    unfolding m_def using lc d' same' by (intro sort_withOrder)
  then show ?thesis
    using cur by (simp add: orderedManualReorderPeers_def qs_def peers_def map_moveElement comp_def)
qed

text \<open>
  \<open>reorderQueueTask\<close> never loses or adds a task, and when it reports a change in a queue with
  distinct ids whose peers carry one tag name, the peers come out in exactly the requested
  arrangement: the old arrangement with the selected task moved to its target index.
\<close>

theorem reorderQueueTask_moves:
  assumes "js_comparator (localeCompare lc)"
    and "distinct (map task_queueItemId tasks)"
    and "List.find (\<lambda>t. task_queueItemId t = i) tasks = Some sel"
    and "samePeerTags tasks sel"
    and "reorder_changed (reorderQueueTask lc pos i tasks)"
  shows "\<exists>current. current < length (orderedManualReorderPeers lc tasks sel) \<and>
     task_queueItemId (orderedManualReorderPeers lc tasks sel ! current) = i \<and>
     map task_queueItemId
       (orderedManualReorderPeers lc (reorder_updatedTasks (reorderQueueTask lc pos i tasks)) sel) =
     moveElement current
       (nat (reorderTarget pos current (length (orderedManualReorderPeers lc tasks sel))))
       (map task_queueItemId (orderedManualReorderPeers lc tasks sel)) \<and>
     mset (map task_queueItemId (reorder_updatedTasks (reorderQueueTask lc pos i tasks))) =
     mset (map task_queueItemId tasks)"
proof -
  let ?peers = "orderedManualReorderPeers lc tasks sel"
  from assms(3,5) obtain current where
    cur: "js_findIndex (\<lambda>t. task_queueItemId t = i) ?peers = Some current"
    and moved: "\<not> (reorderTarget pos current (length ?peers) < 0
        \<or> int (length ?peers) \<le> reorderTarget pos current (length ?peers)
        \<or> reorderTarget pos current (length ?peers) = int current)"
    by (auto simp: reorderQueueTask_def Let_def split: option.splits if_splits)
  have res: "reorder_updatedTasks (reorderQueueTask lc pos i tasks) =
      sortQueueTasksForDisplay lc (map (withOrder (js_map_of_entries
        (mapWithIndex (\<lambda>t k. (task_queueItemId t, k))
          (moveElement current (nat (reorderTarget pos current (length ?peers))) ?peers)))) tasks)"
    using assms(3) cur moved by (simp add: reorderQueueTask_def Let_def)
  have c: "current < length ?peers" "task_queueItemId (?peers ! current) = i"
    using js_findIndex_Some [OF cur] by auto
  have "mset (map task_queueItemId (sortQueueTasksForDisplay lc (map (withOrder m) tasks))) =
      mset (map task_queueItemId tasks)" for m
    by (simp add: image_mset.compositionality comp_def)
  with c reorder_peers [OF assms(1,2,4) c(1)] res show ?thesis by auto
qed

definition exampleTask :: "string \<Rightarrow> AgentQueueTask" where
  "exampleTask i = fakeQueueTask\<lparr>task_queueItemId := i\<rparr>"

lemma reorderQueueTask_moves_witness:
  "\<exists>current. map task_queueItemId
       (orderedManualReorderPeers codeUnitCompare
         (reorder_updatedTasks (reorderQueueTask codeUnitCompare ReorderDown ''a''
            [exampleTask ''a'', exampleTask ''b''])) (exampleTask ''a'')) =
     moveElement current (nat (reorderTarget ReorderDown current 2)) [''a'', ''b'']"
proof -
  let ?ts = "[exampleTask ''a'', exampleTask ''b'']"
  have 1: "distinct (map task_queueItemId ?ts)" by (simp add: exampleTask_def)
  have 2: "List.find (\<lambda>t. task_queueItemId t = ''a'') ?ts = Some (exampleTask ''a'')"
    by (simp add: exampleTask_def)
  have 3: "samePeerTags ?ts (exampleTask ''a'')" by code_simp
  have 4: "reorder_changed (reorderQueueTask codeUnitCompare ReorderDown ''a'' ?ts)" by code_simp
  have 5: "map task_queueItemId (orderedManualReorderPeers codeUnitCompare ?ts (exampleTask ''a''))
      = [''a'', ''b'']" by code_simp
  from reorderQueueTask_moves [OF codeUnitCompare_comparator 1 2 3 4] 5 show ?thesis
    by (auto dest: arg_cong [where f = length])
qed

text \<open>
  Peers are chosen by tag id, but the display order looks at the tag name first: for two tasks that
  share the id and carry different names, moving the second one up is reported as a change and
  leaves the order as it was.
\<close>

definition mixedTagTasks :: "AgentQueueTask list" where
  "mixedTagTasks =
     [fakeQueueTask\<lparr>task_queueItemId := ''a'', task_queueTagId := Some ''x'', task_queueTagName := Some ''A''\<rparr>,
      fakeQueueTask\<lparr>task_queueItemId := ''b'', task_queueTagId := Some ''x'', task_queueTagName := Some ''B''\<rparr>]"

lemma reorder_mixed_tag_names_ineffective:
  "reorder_changed (reorderQueueTask codeUnitCompare ReorderUp ''b'' mixedTagTasks) \<and>
   map task_queueItemId (reorder_updatedTasks (reorderQueueTask codeUnitCompare ReorderUp ''b'' mixedTagTasks))
     = [''a'', ''b'']"
  by code_simp

section \<open>Order indices for new and unordered tasks\<close>

lemma fold_min_le: "fold min ns n \<le> n \<and> (\<forall>k \<in> set ns. fold min ns n \<le> k)" for n :: rat
proof (induction ns arbitrary: n)
  case (Cons k ns)
  have "fold min ns (min k n) \<le> min k n" using Cons.IH by blast
  then show ?case using Cons.IH [of "min k n"] by auto
qed simp

lemma fold_max_ge: "n \<le> fold max ns n \<and> (\<forall>k \<in> set ns. k \<le> fold max ns n)" for n :: rat
proof (induction ns arbitrary: n)
  case (Cons k ns)
  have "max k n \<le> fold max ns (max k n)" using Cons.IH by blast
  then show ?case using Cons.IH [of "max k n"] by auto
qed simp

lemma set_map_filter_index: "set (List.map_filter f xs) = {y. \<exists>x \<in> set xs. f x = Some y}"
  by (force simp: List.map_filter_def)

text \<open>
  A new task's order index is below the index of every task of its tag when it is inserted at
  the top, and above all of them at the bottom; the indices are read from finite values only.
\<close>

theorem nextOrderIndexForQueueTag_bounds:
  assumes "t \<in> set tasks" and "tag_queueTagId (normalizeQueueTag t) = tagId"
    and "queueTaskOrderIndex t = Some n"
  shows "nextOrderIndexForQueueTag InsertTop tagId tasks < n \<and>
         n < nextOrderIndexForQueueTag InsertBottom tagId tasks"
proof -
  let ?is = "List.map_filter queueTaskOrderIndex
      (filter (\<lambda>t. tag_queueTagId (normalizeQueueTag t) = tagId) tasks)"
  have mem: "n \<in> set ?is" using assms by (auto simp: set_map_filter_index)
  then obtain k ks where ks: "?is = k # ks" by (cases ?is) auto
  have "fold min ks k \<le> n" "n \<le> fold max ks k"
    using mem fold_min_le [of ks k] fold_max_ge [of k ks] unfolding ks by auto
  with ks show ?thesis by (simp add: nextOrderIndexForQueueTag_def)
qed

lemma nextOrderIndexForQueueTag_bounds_witness:
  "nextOrderIndexForQueueTag InsertTop ''default'' [fakeQueueTask\<lparr>task_orderIndex := Some (Fin 3)\<rparr>] < 3"
  using nextOrderIndexForQueueTag_bounds
    [of "fakeQueueTask\<lparr>task_orderIndex := Some (Fin 3)\<rparr>"
        "[fakeQueueTask\<lparr>task_orderIndex := Some (Fin 3)\<rparr>]" "''default''" 3]
  by (auto simp: queueTaskOrderIndex_def) code_simp

lemma queueTaskOrderIndex_update [simp]:
  "queueTaskOrderIndex (t\<lparr>task_orderIndex := Some (Fin n)\<rparr>) = Some n"
  by (simp add: queueTaskOrderIndex_def)

lemma fillOrderIndexes_spec:
  "map task_queueItemId (fillOrderIndexes m ts) = map task_queueItemId ts"
  "t \<in> set (fillOrderIndexes m ts) \<Longrightarrow> queueTaskOrderIndex t \<noteq> None"
  "length (fillOrderIndexes m ts) = length ts"
proof -
  show "map task_queueItemId (fillOrderIndexes m ts) = map task_queueItemId ts"
    by (induction ts arbitrary: m) (auto simp: Let_def split: option.split)
  then show "length (fillOrderIndexes m ts) = length ts" by (metis length_map)
  show "t \<in> set (fillOrderIndexes m ts) \<Longrightarrow> queueTaskOrderIndex t \<noteq> None"
    by (induction ts arbitrary: m) (auto simp: Let_def split: option.splits)
qed

lemma fillOrderIndexes_keeps:
  "t \<in> set ts \<Longrightarrow> queueTaskOrderIndex t \<noteq> None \<Longrightarrow> t \<in> set (fillOrderIndexes m ts)"
  by (induction ts arbitrary: m) (auto simp: Let_def split: option.splits)

text \<open>Every task comes back, with a finite order index, and indices that were there are kept.\<close>

lemma withQueueOrderIndexes_total:
  "mset (map task_queueItemId (withQueueOrderIndexes lc tasks)) = mset (map task_queueItemId tasks) \<and>
   list_all (\<lambda>t. queueTaskOrderIndex t \<noteq> None) (withQueueOrderIndexes lc tasks)"
proof -
  have "mset (map task_queueItemId (withQueueOrderIndexes lc tasks)) =
      mset (map task_queueItemId (fillOrderIndexes [] (sortQueueTasksForDisplay lc tasks)))"
    by (simp add: withQueueOrderIndexes_def)
  then show ?thesis
    using fillOrderIndexes_spec(2) by (auto simp: fillOrderIndexes_spec(1) withQueueOrderIndexes_def list_all_iff)
qed

end
