(* ===== verification/Routing.thy ===== *)
theory Routing
  imports Dependencies Ordering
begin

text \<open>
  Which worker may take which queue item: \<open>workbench/queue/queueExecutionPolicy.ts\<close> and
  \<open>workbench/queue/agentQueueRoutingModel.ts\<close>. A blocked reason \<open>{code, label}\<close> is its code: the
  label is the function \<open>routingBlockedReasonLabel\<close> of it.
\<close>

section \<open>Execution policy\<close>

datatype PreviousTaskStatus = PrevCompleted | PrevFailed | PrevCancelled | PrevTimedOut

datatype PolicyDecision =
  PdRun | PdStopForManual | PdStopWaitingForPreviousSuccess | PdStopPreviousNotSuccessful
| PdSkipNotRunnable | PdSkipMissingPrompt

definition normalizeQueueExecutionPolicy :: "string option \<Rightarrow> QueueExecutionPolicy" where
  "normalizeQueueExecutionPolicy value =
     js_default PolManual
       (List.find (\<lambda>p. value = Some (executionPolicyName p)) [PolManual, PolAuto, PolAfterPreviousSuccess])"

definition isQueueTaskRunnableStatus :: "string option \<Rightarrow> bool" where
  "isQueueTaskRunnableStatus s \<longleftrightarrow> s \<in> {Some ''queued'', Some ''ready'', Some ''review_needed''}"

definition hasQueueTaskRunnablePrompt :: "string option \<Rightarrow> bool" where
  "hasQueueTaskRunnablePrompt prompt = js_has_text prompt"

definition getQueueRunnerPolicyDecision ::
    "string option \<Rightarrow> PreviousTaskStatus option \<Rightarrow> string option \<Rightarrow> string option \<Rightarrow> PolicyDecision" where
  "getQueueRunnerPolicyDecision executionPolicy previousTaskStatus prompt st =
     (let policy = normalizeQueueExecutionPolicy executionPolicy in
      if policy = PolManual then PdStopForManual
      else if \<not> isQueueTaskRunnableStatus st then PdSkipNotRunnable
      else if \<not> hasQueueTaskRunnablePrompt prompt then PdSkipMissingPrompt
      else if policy = PolAuto then PdRun
      else case previousTaskStatus of
             None \<Rightarrow> PdStopWaitingForPreviousSuccess
           | Some p \<Rightarrow> if p = PrevCompleted then PdRun else PdStopPreviousNotSuccessful)"

section \<open>Routing\<close>

datatype RoutingReason =
  RrAssignedWorkerUnavailable | RrAssignedToAnotherWorker | RrAwaitingCoordinatorReview
| RrDependencyGraphInvalid | RrMissingPrompt | RrNotRunnableStatus | RrValidationInProgress
| RrQueueStopKillRequested | RrQueueStopped | RrQueueTagPaused | RrWorkerDisabled
| RrWorkerScopeMismatch | RrWaitingForDependencies

fun routingReasonName :: "RoutingReason \<Rightarrow> string" where
  "routingReasonName RrAssignedWorkerUnavailable = ''assigned_worker_unavailable''"
| "routingReasonName RrAssignedToAnotherWorker = ''assigned_to_another_worker''"
| "routingReasonName RrAwaitingCoordinatorReview = ''item_awaiting_coordinator_review''"
| "routingReasonName RrDependencyGraphInvalid = ''item_dependency_graph_invalid''"
| "routingReasonName RrMissingPrompt = ''item_missing_prompt''"
| "routingReasonName RrNotRunnableStatus = ''item_not_runnable_status''"
| "routingReasonName RrValidationInProgress = ''item_validation_in_progress''"
| "routingReasonName RrQueueStopKillRequested = ''queue_stop_kill_requested''"
| "routingReasonName RrQueueStopped = ''queue_stopped''"
| "routingReasonName RrQueueTagPaused = ''queue_tag_paused''"
| "routingReasonName RrWorkerDisabled = ''worker_disabled''"
| "routingReasonName RrWorkerScopeMismatch = ''worker_scope_mismatch''"
| "routingReasonName RrWaitingForDependencies = ''waiting_for_dependencies''"

fun routingBlockedReasonLabel :: "RoutingReason \<Rightarrow> string" where
  "routingBlockedReasonLabel RrAssignedWorkerUnavailable = ''Assigned worker is unavailable''"
| "routingBlockedReasonLabel RrAssignedToAnotherWorker = ''Item is assigned to another worker''"
| "routingBlockedReasonLabel RrAwaitingCoordinatorReview = ''Item is awaiting coordinator review''"
| "routingBlockedReasonLabel RrDependencyGraphInvalid = ''Item dependency graph is invalid''"
| "routingBlockedReasonLabel RrMissingPrompt = ''Item prompt is empty''"
| "routingBlockedReasonLabel RrNotRunnableStatus = ''Item is not in a runnable execution state''"
| "routingBlockedReasonLabel RrValidationInProgress = ''Item validation is in progress''"
| "routingBlockedReasonLabel RrQueueStopped = ''Queue is disabled''"
| "routingBlockedReasonLabel RrQueueStopKillRequested = ''Stop + kill running requested''"
| "routingBlockedReasonLabel RrQueueTagPaused = ''Queue tag is paused''"
| "routingBlockedReasonLabel RrWorkerDisabled = ''Worker is disabled''"
| "routingBlockedReasonLabel RrWorkerScopeMismatch = ''Worker is scoped to another queue tag''"
| "routingBlockedReasonLabel RrWaitingForDependencies = ''Item is waiting for dependencies''"

record RoutingContext =
  ctx_dependencyStates :: "(string \<rightharpoonup> DependencyState) option"
  ctx_globalExecutionState :: "QueueGlobalStatus option"
  ctx_pausedQueueTagIds :: "string set option"
  ctx_tasks :: "AgentQueueTask list"

record WorkerRoutingSummary =
  wrs_blockedReasonSummary :: "string option"
  wrs_eligibleItemCount :: nat
  wrs_nextItem :: "AgentQueueTask option"

record AssignedWorkerRoutingState =
  awr_assignedWorker :: "AgentWorkerSummary option"
  awr_blockedReasons :: "RoutingReason list"
  awr_canTake :: bool

definition assignedWorkerIdOf :: "AgentQueueTask \<Rightarrow> string option" where
  "assignedWorkerIdOf item = js_coalesce (task_assignedWorkerId item) (task_assignedExecutorWidgetId item)"

definition contextDependencyState :: "RoutingContext \<Rightarrow> AgentQueueTask \<Rightarrow> DependencyState" where
  "contextDependencyState context item =
     (case Option.bind (ctx_dependencyStates context) (\<lambda>m. m (task_queueItemId item)) of
        Some s \<Rightarrow> s
      | None \<Rightarrow> getQueueTaskDependencyState item (ctx_tasks context))"

definition getWorkerItemBlockedReasons ::
    "AgentWorkerSummary \<Rightarrow> AgentQueueTask \<Rightarrow> RoutingContext \<Rightarrow> RoutingReason list" where
  "getWorkerItemBlockedReasons worker item context =
     (let queueTag = normalizeQueueTag item;
          dependencyState = contextDependencyState context item;
          assignedWorkerId = assignedWorkerIdOf item;
          globalState = js_default QueueStarted (ctx_globalExecutionState context)
      in (if queueGlobalExecutionStateBlocksNewWork globalState
          then [if ctx_globalExecutionState context = Some QueueStopKillRequested
                then RrQueueStopKillRequested else RrQueueStopped] else []) @
         (if \<not> worker_enabled worker then [RrWorkerDisabled] else []) @
         (if \<not> isQueueTaskRunnableStatus (Some (task_status item)) then [RrNotRunnableStatus] else []) @
         (if \<not> hasQueueTaskRunnablePrompt (Some (task_prompt item)) then [RrMissingPrompt] else []) @
         (if task_validationStatus item = Some ''validating'' then [RrValidationInProgress] else []) @
         (if coordinatorStatusBlocksNewWork (task_coordinatorStatus item)
          then [RrAwaitingCoordinatorReview] else []) @
         (if tag_queueTagId queueTag \<in> js_default {} (ctx_pausedQueueTagIds context)
          then [RrQueueTagPaused] else []) @
         (case dep_status dependencyState of
            DepInvalid \<Rightarrow> [RrDependencyGraphInvalid]
          | DepBlocked \<Rightarrow> [RrWaitingForDependencies]
          | DepReady \<Rightarrow> []) @
         (case worker_scope worker of
            ScopeAll \<Rightarrow> []
          | ScopeTag i _ \<Rightarrow> if i \<noteq> tag_queueTagId queueTag then [RrWorkerScopeMismatch] else []) @
         (if js_truthy_str assignedWorkerId \<and> assignedWorkerId \<noteq> Some (worker_workerId worker)
          then [RrAssignedToAnotherWorker] else []))"

definition canWorkerTakeQueueItem ::
    "AgentWorkerSummary \<Rightarrow> AgentQueueTask \<Rightarrow> RoutingContext \<Rightarrow> bool" where
  "canWorkerTakeQueueItem worker item context \<longleftrightarrow> getWorkerItemBlockedReasons worker item context = []"

definition compareQueueRoutingItems ::
    "(string \<Rightarrow> string \<Rightarrow> int) \<Rightarrow> AgentQueueTask \<Rightarrow> AgentQueueTask \<Rightarrow> js_number" where
  "compareQueueRoutingItems lc a b =
     js_or (subtract_numbers (normalizeTaskPriority (Some (task_priority b)))
              (normalizeTaskPriority (Some (task_priority a))))
    (js_or (js_sub (index_or_infinity (queueTaskOrderIndex a)) (index_or_infinity (queueTaskOrderIndex b)))
    (js_or (localeCompare lc (task_createdAt a) (task_createdAt b))
           (localeCompare lc (task_queueItemId a) (task_queueItemId b))))"

definition getEligibleItemsForWorker ::
    "(string \<Rightarrow> string \<Rightarrow> int) \<Rightarrow> AgentWorkerSummary \<Rightarrow> AgentQueueTask list \<Rightarrow> RoutingContext
     \<Rightarrow> AgentQueueTask list" where
  "getEligibleItemsForWorker lc worker items context =
     js_sort (compareQueueRoutingItems lc)
       (filter (\<lambda>item. canWorkerTakeQueueItem worker item context) items)"

definition getBestNextItemForWorker ::
    "(string \<Rightarrow> string \<Rightarrow> int) \<Rightarrow> AgentWorkerSummary \<Rightarrow> AgentQueueTask list \<Rightarrow> RoutingContext
     \<Rightarrow> AgentQueueTask option" where
  "getBestNextItemForWorker lc worker items context =
     js_first (getEligibleItemsForWorker lc worker items context)"

definition blockedReasonSummary :: "RoutingReason list \<Rightarrow> string" where
  "blockedReasonSummary reasons =
     (let uniqueCodes = js_unique reasons in
      if uniqueCodes = [] then ''No queue items are available for this worker.''
      else js_join ''; '' (map routingBlockedReasonLabel (take 2 uniqueCodes)))"

definition getWorkerRoutingSummary ::
    "(string \<Rightarrow> string \<Rightarrow> int) \<Rightarrow> AgentWorkerSummary \<Rightarrow> AgentQueueTask list \<Rightarrow> RoutingContext
     \<Rightarrow> WorkerRoutingSummary" where
  "getWorkerRoutingSummary lc worker items context =
     (let eligibleItems = getEligibleItemsForWorker lc worker items context in
      \<lparr>wrs_blockedReasonSummary =
         (if eligibleItems = []
          then Some (blockedReasonSummary
                 (concat (map (\<lambda>item. getWorkerItemBlockedReasons worker item context) items)))
          else None),
       wrs_eligibleItemCount = length eligibleItems,
       wrs_nextItem = js_first eligibleItems\<rparr>)"

definition getAssignedWorkerRoutingState ::
    "AgentQueueTask \<Rightarrow> AgentWorkerSummary list \<Rightarrow> RoutingContext \<Rightarrow> AssignedWorkerRoutingState" where
  "getAssignedWorkerRoutingState item workers context =
     (if \<not> js_truthy_str (assignedWorkerIdOf item)
      then \<lparr>awr_assignedWorker = None, awr_blockedReasons = [], awr_canTake = False\<rparr>
      else case List.find (\<lambda>w. Some (worker_workerId w) = assignedWorkerIdOf item) workers of
        None \<Rightarrow> \<lparr>awr_assignedWorker = None, awr_blockedReasons = [RrAssignedWorkerUnavailable],
                 awr_canTake = False\<rparr>
      | Some assignedWorker \<Rightarrow>
          let blockedReasons = getWorkerItemBlockedReasons assignedWorker item context in
          \<lparr>awr_assignedWorker = Some assignedWorker, awr_blockedReasons = blockedReasons,
           awr_canTake = (blockedReasons = [])\<rparr>)"

definition getAssignedWorkerRoutingStates ::
    "AgentQueueTask list \<Rightarrow> AgentWorkerSummary list \<Rightarrow> RoutingContext
     \<Rightarrow> (string \<times> AssignedWorkerRoutingState) list" where
  "getAssignedWorkerRoutingStates items workers context =
     js_map_of_entries
       (map (\<lambda>item. (task_queueItemId item, getAssignedWorkerRoutingState item workers context)) items)"

definition firstRoutingBlockedReasonLabel :: "RoutingReason list \<Rightarrow> string option" where
  "firstRoutingBlockedReasonLabel reasons = map_option routingBlockedReasonLabel (js_first reasons)"

section \<open>What routing decides\<close>

lemma normalizeQueueExecutionPolicy_eq:
  "normalizeQueueExecutionPolicy v = normalizeTaskExecutionPolicy v"
  by (simp add: normalizeQueueExecutionPolicy_def normalizeTaskExecutionPolicy_def EXECUTION_POLICY_OPTIONS_def)

lemma policy_run_iff:
  "getQueueRunnerPolicyDecision pol prev prompt st = PdRun \<longleftrightarrow>
     isQueueTaskRunnableStatus st \<and> js_has_text prompt \<and>
     (pol = Some ''auto'' \<or> pol = Some ''after_previous_success'' \<and> prev = Some PrevCompleted)"
  by (auto simp: getQueueRunnerPolicyDecision_def Let_def normalizeQueueExecutionPolicy_def
      hasQueueTaskRunnablePrompt_def split: option.splits)

text \<open>The abstract statement of "this worker may take this item now".\<close>

definition mayTake :: "AgentWorkerSummary \<Rightarrow> AgentQueueTask \<Rightarrow> RoutingContext \<Rightarrow> bool" where
  "mayTake worker item context \<longleftrightarrow>
     js_default QueueStarted (ctx_globalExecutionState context) = QueueStarted \<and>
     worker_enabled worker \<and>
     task_status item \<in> {''queued'', ''ready'', ''review_needed''} \<and>
     \<not> js_blank (task_prompt item) \<and>
     task_validationStatus item \<noteq> Some ''validating'' \<and>
     normalizeCoordinatorStatus (task_coordinatorStatus item) \<in> {CoNotReported, CoFinalized} \<and>
     tag_queueTagId (normalizeQueueTag item) \<notin> js_default {} (ctx_pausedQueueTagIds context) \<and>
     dep_status (contextDependencyState context item) = DepReady \<and>
     (worker_scope worker = ScopeAll \<or>
      (\<exists>n. worker_scope worker = ScopeTag (tag_queueTagId (normalizeQueueTag item)) n)) \<and>
     assignedWorkerIdOf item \<in> {None, Some [], Some (worker_workerId worker)}"

text \<open>
  C34. A worker can take an item exactly when the queue is started, the worker is enabled and its
  scope covers the item's tag, the tag is not paused, the item is runnable, has a prompt, is not
  being validated, is not held by the coordinator, has all dependencies ready, and is not assigned
  to another worker: the reasons list is empty in exactly that case.
\<close>

theorem canWorkerTakeQueueItem_iff:
  "canWorkerTakeQueueItem worker item context \<longleftrightarrow> mayTake worker item context"
  by (auto simp: canWorkerTakeQueueItem_def getWorkerItemBlockedReasons_def mayTake_def Let_def
      queueGlobalExecutionStateBlocksNewWork_def isQueueTaskRunnableStatus_def
      hasQueueTaskRunnablePrompt_def coordinatorStatusBlocksNewWork_iff js_truthy_str_def
      split: DependencyStatus.splits WorkerScope.splits option.splits)

lemma compareQueueRoutingItems_comparator:
  assumes lc: "js_comparator (localeCompare lc)"
  shows "js_comparator (compareQueueRoutingItems lc)"
  unfolding compareQueueRoutingItems_def
  by (intro js_comparator_lex js_comparator_on [OF lc]
      js_comparator_swap [OF js_comparator_on [OF js_comparator_subtract]]
      js_comparator_on [OF js_comparator_index])

lemma set_getEligibleItemsForWorker [simp]:
  "set (getEligibleItemsForWorker lc worker items context) =
     {t \<in> set items. canWorkerTakeQueueItem worker t context}"
  by (auto simp: getEligibleItemsForWorker_def)

lemma getEligibleItemsForWorker_Nil_iff:
  "getEligibleItemsForWorker lc worker items context = [] \<longleftrightarrow>
     (\<forall>t \<in> set items. \<not> canWorkerTakeQueueItem worker t context)"
  by (simp add: getEligibleItemsForWorker_def filter_empty_conv)

text \<open>
  The best next item of a worker is an item of the queue that the worker can take and that no
  item the worker can take outranks (higher clamped priority first, then order index, creation
  time and id); there is none exactly when the worker can take no item.
\<close>

theorem getBestNextItemForWorker_correct:
  assumes "js_comparator (localeCompare lc)"
  shows "(getBestNextItemForWorker lc worker items context = None \<longleftrightarrow>
            (\<forall>t \<in> set items. \<not> mayTake worker t context)) \<and>
         (getBestNextItemForWorker lc worker items context = Some best \<longrightarrow>
            best \<in> set items \<and> mayTake worker best context \<and>
            (\<forall>t \<in> set items. mayTake worker t context \<longrightarrow>
               normalizeTaskPriority (Some (task_priority t)) \<le> normalizeTaskPriority (Some (task_priority best))
               \<and> \<not> js_pos (compareQueueRoutingItems lc best t)))"
proof (intro conjI impI)
  note cmp = compareQueueRoutingItems_comparator [OF assms]
  show "getBestNextItemForWorker lc worker items context = None \<longleftrightarrow>
            (\<forall>t \<in> set items. \<not> mayTake worker t context)"
    by (simp add: getBestNextItemForWorker_def getEligibleItemsForWorker_Nil_iff canWorkerTakeQueueItem_iff)
  assume b: "getBestNextItemForWorker lc worker items context = Some best"
  then obtain ys where
    ys: "js_sort (compareQueueRoutingItems lc)
        (filter (\<lambda>item. canWorkerTakeQueueItem worker item context) items) = best # ys"
    by (auto simp: getBestNextItemForWorker_def getEligibleItemsForWorker_def js_first_Some_iff)
  have "best \<in> set (filter (\<lambda>item. canWorkerTakeQueueItem worker item context) items)"
    using ys by (metis list.set_intros(1) set_js_sort)
  then show "best \<in> set items" "mayTake worker best context"
    by (auto simp: canWorkerTakeQueueItem_iff)
  show "\<forall>t \<in> set items. mayTake worker t context \<longrightarrow>
      normalizeTaskPriority (Some (task_priority t)) \<le> normalizeTaskPriority (Some (task_priority best))
      \<and> \<not> js_pos (compareQueueRoutingItems lc best t)"
  proof (intro ballI impI)
    fix t assume "t \<in> set items" "mayTake worker t context"
    then have np: "\<not> js_pos (compareQueueRoutingItems lc best t)"
      using js_comparator.hd_sort_least [OF cmp ys] by (simp add: canWorkerTakeQueueItem_iff)
    then show "normalizeTaskPriority (Some (task_priority t)) \<le> normalizeTaskPriority (Some (task_priority best))
      \<and> \<not> js_pos (compareQueueRoutingItems lc best t)"
      by (auto simp: compareQueueRoutingItems_def js_pos_or subtract_numbers_def)
  qed
qed

definition exampleContext :: "AgentQueueTask list \<Rightarrow> RoutingContext" where
  "exampleContext tasks = \<lparr>ctx_dependencyStates = None, ctx_globalExecutionState = Some QueueStarted,
     ctx_pausedQueueTagIds = None, ctx_tasks = tasks\<rparr>"

lemma getBestNextItemForWorker_correct_witness:
  "mayTake (exampleWorker ''w'') (exampleTask ''a'') (exampleContext [exampleTask ''a''])"
proof -
  let ?c = "exampleContext [exampleTask ''a'']"
  have "getBestNextItemForWorker codeUnitCompare (exampleWorker ''w'') [exampleTask ''a''] ?c
      = Some (exampleTask ''a'')" by code_simp
  then show ?thesis
    using getBestNextItemForWorker_correct [OF codeUnitCompare_comparator,
        of "exampleWorker ''w''" "[exampleTask ''a'']" ?c "exampleTask ''a''"] by blast
qed

text \<open>An assigned item is routed only by its worker's own verdict.\<close>

lemma getAssignedWorkerRoutingState_canTake:
  "awr_canTake (getAssignedWorkerRoutingState item workers context) \<longleftrightarrow>
     (\<exists>w. List.find (\<lambda>w. Some (worker_workerId w) = assignedWorkerIdOf item) workers = Some w
        \<and> js_truthy_str (assignedWorkerIdOf item) \<and> mayTake w item context)"
  by (auto simp: getAssignedWorkerRoutingState_def Let_def canWorkerTakeQueueItem_iff [symmetric]
      canWorkerTakeQueueItem_def split: option.splits)

end
