(* ===== verification/Scheduler.thy ===== *)
theory Scheduler
  imports Routing
begin

text \<open>
  The dry-run scheduler of \<open>workbench/queue/agentQueueSchedulerModel.ts\<close>: which worker would take
  which item, why an item is blocked, and whether another embedded executor would help. A reason
  \<open>{code, label}\<close> is its code; \<open>schedulerBlockedReasonLabel\<close> is its label.
\<close>

section \<open>Data\<close>

datatype SchedulerReason =
  SrRouting RoutingReason | SrAssignedWorkerDisabled | SrNoAvailableWorker | SrNoWorkerConfigured
| SrWorkerAlreadyRunning

fun schedulerReasonName :: "SchedulerReason \<Rightarrow> string" where
  "schedulerReasonName (SrRouting r) = routingReasonName r"
| "schedulerReasonName SrAssignedWorkerDisabled = ''assigned_worker_disabled''"
| "schedulerReasonName SrNoAvailableWorker = ''no_available_worker''"
| "schedulerReasonName SrNoWorkerConfigured = ''no_worker_configured''"
| "schedulerReasonName SrWorkerAlreadyRunning = ''worker_already_running''"

fun schedulerBlockedReasonLabel :: "SchedulerReason \<Rightarrow> string" where
  "schedulerBlockedReasonLabel SrAssignedWorkerDisabled = ''Assigned worker is disabled''"
| "schedulerBlockedReasonLabel SrNoAvailableWorker = ''No available worker can take this item''"
| "schedulerBlockedReasonLabel SrNoWorkerConfigured = ''No worker configured''"
| "schedulerBlockedReasonLabel SrWorkerAlreadyRunning = ''Worker is already running an item''"
| "schedulerBlockedReasonLabel (SrRouting RrAwaitingCoordinatorReview) = ''Awaiting coordinator review''"
| "schedulerBlockedReasonLabel (SrRouting RrDependencyGraphInvalid) = ''Dependency graph is invalid''"
| "schedulerBlockedReasonLabel (SrRouting RrMissingPrompt) = ''Missing prompt''"
| "schedulerBlockedReasonLabel (SrRouting RrValidationInProgress) = ''Validation is in progress''"
| "schedulerBlockedReasonLabel (SrRouting RrQueueStopped) = ''Queue is disabled''"
| "schedulerBlockedReasonLabel (SrRouting RrQueueStopKillRequested) = ''Stop + kill running requested''"
| "schedulerBlockedReasonLabel (SrRouting RrQueueTagPaused) = ''Tag is paused''"
| "schedulerBlockedReasonLabel (SrRouting RrWorkerDisabled) = ''Worker is disabled''"
| "schedulerBlockedReasonLabel (SrRouting RrWorkerScopeMismatch) = ''Worker scoped to another tag''"
| "schedulerBlockedReasonLabel (SrRouting RrWaitingForDependencies) = ''Waiting for dependencies''"
| "schedulerBlockedReasonLabel (SrRouting r) = routingBlockedReasonLabel r"

record AgentQueueSchedulerGlobalState =
  sgs_affectedRunningItemIds :: "string list"
  sgs_allowsScheduling :: bool
  sgs_code :: QueueGlobalStatus
  sgs_explanation :: string
  sgs_label :: string
  sgs_runningItemCount :: nat

record AgentQueueSchedulerRecommendation =
  rec_explanation :: string
  rec_queueItemId :: string
  rec_title :: string
  rec_workerId :: string
  rec_workerName :: string

record AgentQueueWorkerPlan =
  wplan_bestNextItem :: "AgentQueueSchedulerRecommendation option"
  wplan_blockedReasonSummary :: "string option"
  wplan_eligibleItemCount :: nat
  wplan_idleReason :: "string option"
  wplan_isAvailable :: bool
  wplan_workerId :: string
  wplan_workerName :: string

record AgentQueueItemEligibility =
  elig_blockedReasons :: "SchedulerReason list"
  elig_eligibleWorkerIds :: "string list"
  elig_eligibleWorkerNames :: "string list"
  elig_isSchedulable :: bool
  elig_queueItemId :: string
  elig_title :: string

record AgentQueueBlockedItemSummary =
  blocked_explanation :: string
  blocked_queueItemId :: string
  blocked_reasonCodes :: "SchedulerReason list"
  blocked_reasonLabels :: "string list"
  blocked_title :: string

record TopBlockedReason =
  top_code :: SchedulerReason
  top_count :: nat
  top_label :: string

record AgentQueueSchedulerPlan =
  plan_blockedItems :: "AgentQueueBlockedItemSummary list"
  plan_explanation :: string
  plan_globalState :: AgentQueueSchedulerGlobalState
  plan_itemEligibility :: "AgentQueueItemEligibility list"
  plan_recommendations :: "AgentQueueSchedulerRecommendation list"
  plan_schedulableItemCount :: nat
  plan_topBlockedReasons :: "TopBlockedReason list"
  plan_unassignedEligibleItems :: "AgentQueueItemEligibility list"
  plan_workerPlans :: "AgentQueueWorkerPlan list"

record BuildAgentQueueSchedulerPlanInput =
  in_dependencyStates :: "(string \<rightharpoonup> DependencyState) option"
  in_globalExecutionState :: QueueGlobalStatus
  in_pausedQueueTagIds :: "string set option"
  in_tasks :: "AgentQueueTask list"
  in_workers :: "AgentWorkerSummary list"

section \<open>Operations\<close>

definition schedulerGlobalState ::
    "QueueGlobalStatus \<Rightarrow> AgentQueueTask list \<Rightarrow> AgentQueueSchedulerGlobalState" where
  "schedulerGlobalState globalExecutionState tasks =
     (let affectedRunningItemIds =
            map task_queueItemId (filter (\<lambda>task. task_status task = ''running'') tasks) in
      \<lparr>sgs_affectedRunningItemIds = affectedRunningItemIds,
       sgs_allowsScheduling =
         (globalExecutionState \<noteq> QueueStopKillRequested \<and>
          queueGlobalExecutionStateAllowsScheduling globalExecutionState),
       sgs_code = globalExecutionState,
       sgs_explanation =
         (if globalExecutionState = QueueStopKillRequested
          then ''STOP + KILL RUNNING requested. No new work is recommended; affected running items need local executor and coordinator review.''
          else if \<not> queueGlobalExecutionStateAllowsScheduling globalExecutionState
          then ''Queue is disabled. No new work is recommended.''
          else ''Queue is enabled. Dry-run recommendations show what would run without starting work.''),
       sgs_label = queueGlobalExecutionStateLabel globalExecutionState,
       sgs_runningItemCount = length affectedRunningItemIds\<rparr>)"

definition uniqueSchedulerReasons :: "SchedulerReason list \<Rightarrow> SchedulerReason list" where
  "uniqueSchedulerReasons reasons = js_unique reasons"

definition itemLevelSchedulerReasons ::
    "AgentQueueTask \<Rightarrow> AgentWorkerSummary list \<Rightarrow> SchedulerReason list" where
  "itemLevelSchedulerReasons task workers =
     (if workers = [] then [SrNoWorkerConfigured] else []) @
     (if js_truthy_str (assignedWorkerIdOf task)
      then (case List.find (\<lambda>w. Some (worker_workerId w) = assignedWorkerIdOf task) workers of
              Some assignedWorker \<Rightarrow>
                if \<not> worker_enabled assignedWorker then [SrAssignedWorkerDisabled] else []
            | None \<Rightarrow> [])
      else [])"

definition workerBlockedReasonSummary ::
    "AgentQueueSchedulerGlobalState \<Rightarrow> RoutingContext \<Rightarrow> AgentQueueTask list \<Rightarrow> AgentWorkerSummary
     \<Rightarrow> string" where
  "workerBlockedReasonSummary globalState routingContext tasks worker =
     (if \<not> sgs_allowsScheduling globalState then sgs_explanation globalState
      else if \<not> worker_enabled worker then schedulerBlockedReasonLabel (SrRouting RrWorkerDisabled)
      else if worker_status worker = WkRunning
        then schedulerBlockedReasonLabel SrWorkerAlreadyRunning
      else js_or_str
             (js_join ''; '' (map schedulerBlockedReasonLabel (take 2 (uniqueSchedulerReasons
                (concat (map (\<lambda>task. map SrRouting
                   (getWorkerItemBlockedReasons worker task routingContext)) tasks))))))
             ''No eligible item'')"

definition workerIdleReason ::
    "AgentQueueSchedulerGlobalState \<Rightarrow> RoutingContext \<Rightarrow> AgentQueueTask list \<Rightarrow> AgentWorkerSummary
     \<Rightarrow> string" where
  "workerIdleReason globalState routingContext tasks worker =
     (if \<not> sgs_allowsScheduling globalState
      then if sgs_code globalState = QueueStopKillRequested
           then ''STOP + KILL RUNNING requested'' else ''Queue is disabled''
      else if \<not> worker_enabled worker then ''Worker is disabled''
      else if worker_status worker = WkRunning then ''Worker is already running an item''
      else workerBlockedReasonSummary globalState routingContext tasks worker)"

definition workerPlanFor ::
    "(string \<Rightarrow> string \<Rightarrow> int) \<Rightarrow> AgentQueueSchedulerGlobalState \<Rightarrow> RoutingContext \<Rightarrow> AgentQueueTask list
     \<Rightarrow> AgentWorkerSummary \<Rightarrow> AgentQueueWorkerPlan" where
  "workerPlanFor lc globalState routingContext tasks worker =
     (let isAvailable = (sgs_allowsScheduling globalState \<and> worker_enabled worker
            \<and> worker_status worker \<noteq> WkRunning);
          eligibleItems = (if isAvailable
            then getEligibleItemsForWorker lc worker tasks routingContext else []);
          bestNextItem = map_option (\<lambda>bestNextTask.
            \<lparr>rec_explanation = worker_name worker @ '' would take '' @ displayTaskTitle bestNextTask @ ''.'',
             rec_queueItemId = task_queueItemId bestNextTask,
             rec_title = displayTaskTitle bestNextTask,
             rec_workerId = worker_workerId worker,
             rec_workerName = worker_name worker\<rparr>) (js_first eligibleItems)
      in \<lparr>wplan_bestNextItem = bestNextItem,
          wplan_blockedReasonSummary =
            (if bestNextItem \<noteq> None then None
             else Some (workerBlockedReasonSummary globalState routingContext tasks worker)),
          wplan_eligibleItemCount = length eligibleItems,
          wplan_idleReason =
            (if bestNextItem \<noteq> None then None
             else Some (workerIdleReason globalState routingContext tasks worker)),
          wplan_isAvailable = isAvailable,
          wplan_workerId = worker_workerId worker,
          wplan_workerName = worker_name worker\<rparr>)"

definition workerResultReasons ::
    "RoutingContext \<Rightarrow> AgentQueueTask \<Rightarrow> AgentWorkerSummary \<Rightarrow> SchedulerReason list" where
  "workerResultReasons routingContext task worker =
     map SrRouting (getWorkerItemBlockedReasons worker task routingContext) @
     (if worker_status worker = WkRunning then [SrWorkerAlreadyRunning] else [])"

definition itemEligibilityFor ::
    "AgentQueueSchedulerGlobalState \<Rightarrow> RoutingContext \<Rightarrow> AgentWorkerSummary list \<Rightarrow> AgentQueueTask
     \<Rightarrow> AgentQueueItemEligibility" where
  "itemEligibilityFor globalState routingContext workers task =
     (let eligibleWorkers =
            (if sgs_allowsScheduling globalState
             then filter (\<lambda>worker. worker_enabled worker \<and> worker_status worker \<noteq> WkRunning
                    \<and> workerResultReasons routingContext task worker = []) workers
             else [])
      in \<lparr>elig_blockedReasons = uniqueSchedulerReasons
            (concat (map (workerResultReasons routingContext task) workers) @
             itemLevelSchedulerReasons task workers),
          elig_eligibleWorkerIds = map worker_workerId eligibleWorkers,
          elig_eligibleWorkerNames = map worker_name eligibleWorkers,
          elig_isSchedulable = (0 < length eligibleWorkers),
          elig_queueItemId = task_queueItemId task,
          elig_title = displayTaskTitle task\<rparr>)"

definition blockedItemSummary :: "AgentQueueItemEligibility \<Rightarrow> AgentQueueBlockedItemSummary" where
  "blockedItemSummary eligibility =
     \<lparr>blocked_explanation =
        js_default ''No available worker can take this item''
          (map_option schedulerBlockedReasonLabel (js_first (elig_blockedReasons eligibility))),
      blocked_queueItemId = elig_queueItemId eligibility,
      blocked_reasonCodes = elig_blockedReasons eligibility,
      blocked_reasonLabels = map schedulerBlockedReasonLabel (elig_blockedReasons eligibility),
      blocked_title = elig_title eligibility\<rparr>"

definition countFirstReason ::
    "AgentQueueBlockedItemSummary \<Rightarrow> (SchedulerReason \<times> nat) list \<Rightarrow> (SchedulerReason \<times> nat) list" where
  "countFirstReason item counts =
     (let firstReasonCode = js_default SrNoAvailableWorker (js_first (blocked_reasonCodes item))
      in AList.update firstReasonCode (js_default 0 (map_of counts firstReasonCode) + 1) counts)"

definition compareReasonCounts ::
    "(string \<Rightarrow> string \<Rightarrow> int) \<Rightarrow> SchedulerReason \<times> nat \<Rightarrow> SchedulerReason \<times> nat \<Rightarrow> js_number" where
  "compareReasonCounts lc a b =
     js_or (subtract_numbers (of_nat (snd b)) (of_nat (snd a)))
           (localeCompare lc (schedulerReasonName (fst a)) (schedulerReasonName (fst b)))"

definition topBlockedReasons ::
    "(string \<Rightarrow> string \<Rightarrow> int) \<Rightarrow> AgentQueueBlockedItemSummary list \<Rightarrow> TopBlockedReason list" where
  "topBlockedReasons lc blockedItems =
     map (\<lambda>(code, count). \<lparr>top_code = code, top_count = count, top_label = schedulerBlockedReasonLabel code\<rparr>)
       (take 3 (js_sort (compareReasonCounts lc) (fold countFirstReason blockedItems [])))"

definition planExplanation :: "AgentQueueSchedulerGlobalState \<Rightarrow> nat \<Rightarrow> string" where
  "planExplanation globalState recommendationCount =
     (if \<not> sgs_allowsScheduling globalState
      then sgs_explanation globalState @ '' Dry-run only; no work is started.''
      else if recommendationCount = 0
      then ''Queue is enabled, but no worker has an eligible next item. Dry-run only; no work is started.''
      else ''Queue is enabled. '' @ js_nat_string recommendationCount @ '' worker recommendation'' @
           (if recommendationCount = 1 then '''' else ''s'') @
           '' available. Dry-run only; no work is started.'')"

definition schedulerContext :: "BuildAgentQueueSchedulerPlanInput \<Rightarrow> RoutingContext" where
  "schedulerContext input =
     \<lparr>ctx_dependencyStates = Some (case in_dependencyStates input of
        Some m \<Rightarrow> m | None \<Rightarrow> map_of (queueDependencyStatesByTask (in_tasks input))),
      ctx_globalExecutionState = Some (in_globalExecutionState input),
      ctx_pausedQueueTagIds = Some (js_default {} (in_pausedQueueTagIds input)),
      ctx_tasks = in_tasks input\<rparr>"

definition taskWithId :: "AgentQueueTask list \<Rightarrow> string \<Rightarrow> AgentQueueTask option" where
  "taskWithId tasks i = List.find (\<lambda>candidate. task_queueItemId candidate = i) tasks"

definition buildAgentQueueSchedulerPlan ::
    "(string \<Rightarrow> string \<Rightarrow> int) \<Rightarrow> BuildAgentQueueSchedulerPlanInput \<Rightarrow> AgentQueueSchedulerPlan" where
  "buildAgentQueueSchedulerPlan lc input =
     (let tasks = in_tasks input;
          workers = in_workers input;
          routingContext = schedulerContext input;
          globalState = schedulerGlobalState (in_globalExecutionState input) tasks;
          workerPlans = map (workerPlanFor lc globalState routingContext tasks)
            (js_sort (\<lambda>a b. subtract_numbers (worker_displayOrder a) (worker_displayOrder b)) workers);
          itemEligibility = map (itemEligibilityFor globalState routingContext workers) tasks;
          blockedItems = map blockedItemSummary
            (filter (\<lambda>eligibility. case taskWithId tasks (elig_queueItemId eligibility) of
                 Some task \<Rightarrow> \<not> isFinalQueueTaskStatus (task_status task) \<and> \<not> elig_isSchedulable eligibility
               | None \<Rightarrow> False) itemEligibility);
          recommendations = List.map_filter wplan_bestNextItem workerPlans
      in \<lparr>plan_blockedItems = blockedItems,
          plan_explanation = planExplanation globalState (length recommendations),
          plan_globalState = globalState,
          plan_itemEligibility = itemEligibility,
          plan_recommendations = recommendations,
          plan_schedulableItemCount = length (filter elig_isSchedulable itemEligibility),
          plan_topBlockedReasons = topBlockedReasons lc blockedItems,
          plan_unassignedEligibleItems = filter (\<lambda>eligibility.
            elig_isSchedulable eligibility \<and>
            \<not> js_truthy_str (Option.bind (taskWithId tasks (elig_queueItemId eligibility)) assignedWorkerIdOf))
            itemEligibility,
          plan_workerPlans = workerPlans\<rparr>)"

section \<open>Embedded executor capacity\<close>

datatype CapacityCode =
  CanAddWorker | CapacityAvailable | MaxReached | CapQueueStopped | NoEligibleIndependentWork
| BlockedByTagsOrDependencies

record CapacityRecommendation =
  cap_addableWorkerCount :: int
  cap_canAddWorker :: bool
  cap_code :: CapacityCode
  cap_label :: string

record WorkerScopeLabel =
  scope_scopeLabel :: string
  scope_workerId :: string
  scope_workerName :: string

record AgentQueueEmbeddedExecutorSectionModel =
  section_capacityRecommendation :: CapacityRecommendation
  section_currentConfiguredWorkerCount :: int
  section_maxExecutors :: int
  section_spareExecutorSlots :: int
  section_unconfiguredExecutorSlots :: int
  section_workingExecutorSlots :: int
  section_workerScopes :: "WorkerScopeLabel list"

definition independentEligibleItems ::
    "(string \<rightharpoonup> DependencyState) option \<Rightarrow> AgentQueueSchedulerPlan \<Rightarrow> AgentQueueTask list
     \<Rightarrow> AgentQueueItemEligibility list" where
  "independentEligibleItems dependencyStates schedulerPlan tasks =
     filter (\<lambda>eligibility. elig_isSchedulable eligibility \<and>
         (case taskWithId tasks (elig_queueItemId eligibility) of
            None \<Rightarrow> False
          | Some task \<Rightarrow>
              normalizeTaskDependencies
                (js_coalesce
                  (map_option dep_dependsOn
                     (Option.bind dependencyStates (\<lambda>m. m (elig_queueItemId eligibility))))
                  (task_dependsOn task)) = []))
       (plan_itemEligibility schedulerPlan)"

definition embeddedExecutorCapacityRecommendation ::
    "int \<Rightarrow> (string \<rightharpoonup> DependencyState) option \<Rightarrow> int \<Rightarrow> AgentQueueSchedulerPlan \<Rightarrow> int
     \<Rightarrow> AgentQueueTask list \<Rightarrow> int \<Rightarrow> CapacityRecommendation" where
  "embeddedExecutorCapacityRecommendation currentConfiguredWorkerCount dependencyStates maxExecutors
     schedulerPlan spareExecutorSlots tasks unconfiguredExecutorSlots =
     (if \<not> sgs_allowsScheduling (plan_globalState schedulerPlan)
      then \<lparr>cap_addableWorkerCount = 0, cap_canAddWorker = False, cap_code = CapQueueStopped,
            cap_label = sgs_explanation (plan_globalState schedulerPlan)\<rparr>
      else
       (let independentEligibleItemCount =
              int (length (independentEligibleItems dependencyStates schedulerPlan tasks));
            usefulExtraWorkers = max 0 (independentEligibleItemCount - spareExecutorSlots)
        in if usefulExtraWorkers > 0 \<and> currentConfiguredWorkerCount \<ge> maxExecutors
           then \<lparr>cap_addableWorkerCount = 0, cap_canAddWorker = False, cap_code = MaxReached,
                 cap_label = ''Max executors reached''\<rparr>
           else if usefulExtraWorkers > 0 \<and> unconfiguredExecutorSlots > 0
           then (let addableWorkerCount = min usefulExtraWorkers unconfiguredExecutorSlots in
                 \<lparr>cap_addableWorkerCount = addableWorkerCount, cap_canAddWorker = True,
                  cap_code = CanAddWorker,
                  cap_label = ''Can add '' @ js_nat_string (nat addableWorkerCount) @ '' worker'' @
                    (if addableWorkerCount = 1 then '''' else ''s'')\<rparr>)
           else if independentEligibleItemCount = 0
           then (let hasTagOrDependencyBlocker =
                       list_ex (\<lambda>item. list_ex (\<lambda>code. code \<in> {SrRouting RrQueueTagPaused,
                            SrRouting RrWaitingForDependencies, SrRouting RrDependencyGraphInvalid})
                          (blocked_reasonCodes item)) (plan_blockedItems schedulerPlan) in
                 \<lparr>cap_addableWorkerCount = 0, cap_canAddWorker = False,
                  cap_code = (if hasTagOrDependencyBlocker then BlockedByTagsOrDependencies
                              else NoEligibleIndependentWork),
                  cap_label = (if hasTagOrDependencyBlocker then ''Tags or dependencies block work''
                               else ''No eligible work'')\<rparr>)
           else \<lparr>cap_addableWorkerCount = 0, cap_canAddWorker = False, cap_code = CapacityAvailable,
                 cap_label = ''Capacity available: '' @ js_nat_string (nat spareExecutorSlots) @ '' spare''\<rparr>))"

definition buildAgentQueueEmbeddedExecutorSection ::
    "(string \<rightharpoonup> DependencyState) option \<Rightarrow> rat \<Rightarrow> AgentQueueSchedulerPlan \<Rightarrow> AgentQueueTask list
     \<Rightarrow> AgentWorkerSummary list \<Rightarrow> AgentQueueEmbeddedExecutorSectionModel" where
  "buildAgentQueueEmbeddedExecutorSection dependencyStates maxExecutors schedulerPlan tasks workers =
     (let normalizedMaxExecutors = max 1 \<lfloor>maxExecutors\<rfloor>;
          currentConfiguredWorkerCount = int (length workers);
          workingExecutorSlots = int (length (filter (\<lambda>worker.
            worker_status worker = WkRunning \<and> js_truthy_str (worker_currentItemId worker)) workers));
          spareExecutorSlots = int (length (filter (\<lambda>worker.
            worker_enabled worker \<and> worker_status worker = WkIdle) workers));
          unconfiguredExecutorSlots = max 0 (normalizedMaxExecutors - currentConfiguredWorkerCount)
      in \<lparr>section_capacityRecommendation =
            embeddedExecutorCapacityRecommendation currentConfiguredWorkerCount dependencyStates
              normalizedMaxExecutors schedulerPlan spareExecutorSlots tasks unconfiguredExecutorSlots,
          section_currentConfiguredWorkerCount = currentConfiguredWorkerCount,
          section_maxExecutors = normalizedMaxExecutors,
          section_spareExecutorSlots = spareExecutorSlots,
          section_unconfiguredExecutorSlots = unconfiguredExecutorSlots,
          section_workingExecutorSlots = workingExecutorSlots,
          section_workerScopes = map (\<lambda>worker.
            \<lparr>scope_scopeLabel = (case worker_scope worker of
                ScopeTag i n \<Rightarrow> ''Scoped to '' @ n | ScopeAll \<Rightarrow> ''All queues''),
             scope_workerId = worker_workerId worker,
             scope_workerName = worker_name worker\<rparr>) workers\<rparr>)"

section \<open>What the plan promises\<close>

text \<open>A worker is ready for work when the queue runs, and it is enabled and not running an item.\<close>

definition readyForWork :: "BuildAgentQueueSchedulerPlanInput \<Rightarrow> AgentWorkerSummary \<Rightarrow> bool" where
  "readyForWork input worker \<longleftrightarrow>
     in_globalExecutionState input = QueueStarted \<and> worker_enabled worker \<and>
     worker_status worker \<noteq> WkRunning"

lemma sgs_allowsScheduling_iff [simp]:
  "sgs_allowsScheduling (schedulerGlobalState g tasks) \<longleftrightarrow> g = QueueStarted"
  by (auto simp: schedulerGlobalState_def Let_def queueGlobalExecutionStateAllowsScheduling_def)

lemma workerResultReasons_Nil_iff:
  "workerResultReasons c task w = [] \<longleftrightarrow> mayTake w task c \<and> worker_status w \<noteq> WkRunning"
  by (simp add: workerResultReasons_def canWorkerTakeQueueItem_iff [symmetric] canWorkerTakeQueueItem_def)

lemma mayTake_enabled: "mayTake w task c \<Longrightarrow> worker_enabled w"
  by (simp add: mayTake_def)

lemma mayTake_started: "mayTake w task (schedulerContext input) \<Longrightarrow> in_globalExecutionState input = QueueStarted"
  by (simp add: mayTake_def schedulerContext_def)

lemma elig_isSchedulable_iff:
  "elig_isSchedulable (itemEligibilityFor (schedulerGlobalState (in_globalExecutionState input) ts)
       (schedulerContext input) workers task) \<longleftrightarrow>
     (\<exists>w \<in> set workers. readyForWork input w \<and> mayTake w task (schedulerContext input))"
  by (auto simp: itemEligibilityFor_def Let_def workerResultReasons_Nil_iff readyForWork_def
      filter_empty_conv)

lemma elig_itemEligibilityFor [simp]:
  "elig_queueItemId (itemEligibilityFor g c workers task) = task_queueItemId task"
  "elig_title (itemEligibilityFor g c workers task) = displayTaskTitle task"
  by (simp_all add: itemEligibilityFor_def Let_def)

lemma wplan_bestNextItem_iff:
  "wplan_bestNextItem (workerPlanFor lc (schedulerGlobalState (in_globalExecutionState input) ts)
       (schedulerContext input) tasks w) = Some r \<longleftrightarrow>
     readyForWork input w \<and>
     (\<exists>t. getBestNextItemForWorker lc w tasks (schedulerContext input) = Some t \<and>
        r = \<lparr>rec_explanation = worker_name w @ '' would take '' @ displayTaskTitle t @ ''.'',
             rec_queueItemId = task_queueItemId t, rec_title = displayTaskTitle t,
             rec_workerId = worker_workerId w, rec_workerName = worker_name w\<rparr>)"
  by (auto simp: workerPlanFor_def Let_def readyForWork_def getBestNextItemForWorker_def js_first_def)

lemma set_map_filter: "set (List.map_filter f xs) = {y. \<exists>x \<in> set xs. f x = Some y}"
  by (force simp: List.map_filter_def)

lemma plan_recommendations_iff:
  "r \<in> set (plan_recommendations (buildAgentQueueSchedulerPlan lc input)) \<longleftrightarrow>
     (\<exists>w \<in> set (in_workers input). \<exists>t. readyForWork input w \<and>
        getBestNextItemForWorker lc w (in_tasks input) (schedulerContext input) = Some t \<and>
        r = \<lparr>rec_explanation = worker_name w @ '' would take '' @ displayTaskTitle t @ ''.'',
             rec_queueItemId = task_queueItemId t, rec_title = displayTaskTitle t,
             rec_workerId = worker_workerId w, rec_workerName = worker_name w\<rparr>)"
  by (simp add: buildAgentQueueSchedulerPlan_def Let_def set_map_filter wplan_bestNextItem_iff)

lemma getBestNextItemForWorker_SomeD:
  "getBestNextItemForWorker lc w items c = Some t \<Longrightarrow> t \<in> set items \<and> mayTake w t c"
proof -
  assume "getBestNextItemForWorker lc w items c = Some t"
  then have "t \<in> set (getEligibleItemsForWorker lc w items c)"
    by (auto simp: getBestNextItemForWorker_def js_first_Some_iff simp del: set_getEligibleItemsForWorker)
  then show ?thesis by (simp add: canWorkerTakeQueueItem_iff)
qed

lemma getBestNextItemForWorker_None_iff:
  "getBestNextItemForWorker lc w items c = None \<longleftrightarrow> (\<forall>t \<in> set items. \<not> mayTake w t c)"
  by (simp add: getBestNextItemForWorker_def getEligibleItemsForWorker_Nil_iff canWorkerTakeQueueItem_iff)


text \<open>
  The dry-run plan recommends to a worker only an item of the queue that this worker may take,
  and it recommends an item to exactly those workers that are ready for work and may take some item
  of the queue: with the queue stopped, nothing is recommended.
\<close>

theorem schedulerPlan_recommendations:
  "(\<lambda>r. (rec_workerId r, rec_queueItemId r)) `
       set (plan_recommendations (buildAgentQueueSchedulerPlan lc input))
     \<subseteq> {(worker_workerId w, task_queueItemId t) |w t. w \<in> set (in_workers input) \<and> t \<in> set (in_tasks input) \<and>
         readyForWork input w \<and> mayTake w t (schedulerContext input)} \<and>
   rec_workerId ` set (plan_recommendations (buildAgentQueueSchedulerPlan lc input))
     = {worker_workerId w |w. w \<in> set (in_workers input) \<and> readyForWork input w \<and>
         (\<exists>t \<in> set (in_tasks input). mayTake w t (schedulerContext input))}"
  (is "?sub \<and> ?l = ?r")
proof (intro conjI)
  show ?sub
    by (clarsimp simp: plan_recommendations_iff) (blast dest: getBestNextItemForWorker_SomeD)
next
  show "?l = ?r"
  proof (intro equalityI subsetI)
  fix i assume "i \<in> ?l"
  then show "i \<in> ?r"
    by (clarsimp simp: plan_recommendations_iff) (blast dest: getBestNextItemForWorker_SomeD)
next
  fix i assume "i \<in> ?r"
  then obtain w t where w: "w \<in> set (in_workers input)" "i = worker_workerId w" "readyForWork input w"
    "t \<in> set (in_tasks input)" "mayTake w t (schedulerContext input)" by blast
  then have "getBestNextItemForWorker lc w (in_tasks input) (schedulerContext input) \<noteq> None"
    by (auto simp: getBestNextItemForWorker_None_iff)
  then obtain u where
    u: "getBestNextItemForWorker lc w (in_tasks input) (schedulerContext input) = Some u" by blast
  show "i \<in> ?l"
    by (rule image_eqI [where x = "\<lparr>rec_explanation = worker_name w @ '' would take '' @ displayTaskTitle u @ ''.'',
         rec_queueItemId = task_queueItemId u, rec_title = displayTaskTitle u,
         rec_workerId = worker_workerId w, rec_workerName = worker_name w\<rparr>"])
       (use w u in \<open>auto simp: plan_recommendations_iff\<close>)
  qed
qed

text \<open>The tasks a plan calls schedulable.\<close>

definition schedulable :: "BuildAgentQueueSchedulerPlanInput \<Rightarrow> AgentQueueTask \<Rightarrow> bool" where
  "schedulable input t \<longleftrightarrow>
     (\<exists>w \<in> set (in_workers input). readyForWork input w \<and> mayTake w t (schedulerContext input))"

lemma plan_itemEligibility_eq:
  "plan_itemEligibility (buildAgentQueueSchedulerPlan lc input) =
     map (itemEligibilityFor (schedulerGlobalState (in_globalExecutionState input) (in_tasks input))
       (schedulerContext input) (in_workers input)) (in_tasks input)"
  by (simp add: buildAgentQueueSchedulerPlan_def Let_def)

lemma elig_isSchedulable_schedulable [simp]:
  "elig_isSchedulable (itemEligibilityFor (schedulerGlobalState (in_globalExecutionState input) ts)
       (schedulerContext input) (in_workers input) task) \<longleftrightarrow> schedulable input task"
  by (simp add: elig_isSchedulable_iff schedulable_def)

lemma taskWithId_distinct:
  "distinct (map task_queueItemId tasks) \<Longrightarrow> t \<in> set tasks \<Longrightarrow>
   taskWithId tasks (task_queueItemId t) = Some t"
  by (induction tasks) (auto simp: taskWithId_def)

lemma mem_not_Nil: "x \<in> set xs \<Longrightarrow> xs \<noteq> []"
  by auto

lemma set_elig_blockedReasons:
  "set (elig_blockedReasons (itemEligibilityFor g c workers task)) =
     (\<Union>w \<in> set workers. set (workerResultReasons c task w)) \<union> set (itemLevelSchedulerReasons task workers)"
  by (simp add: itemEligibilityFor_def Let_def uniqueSchedulerReasons_def)

text \<open>An item that cannot be scheduled has a reason, whatever the workers are.\<close>

lemma blockedReasons_nonempty:
  assumes "\<not> schedulable input t"
  shows "elig_blockedReasons (itemEligibilityFor (schedulerGlobalState (in_globalExecutionState input) ts)
       (schedulerContext input) (in_workers input) t) \<noteq> []"
proof (cases "in_workers input = []")
  case True
  have "itemLevelSchedulerReasons t [] = [SrNoWorkerConfigured]"
    by (simp add: itemLevelSchedulerReasons_def)
  with True have "SrNoWorkerConfigured \<in> set (itemLevelSchedulerReasons t (in_workers input))"
    by simp
  then have "SrNoWorkerConfigured \<in> set (elig_blockedReasons (itemEligibilityFor
      (schedulerGlobalState (in_globalExecutionState input) ts) (schedulerContext input) (in_workers input) t))"
    unfolding set_elig_blockedReasons by blast
  then show ?thesis by (rule mem_not_Nil)
next
  case False
  then obtain w ws where Cons: "in_workers input = w # ws" by (cases "in_workers input") auto
  have "workerResultReasons (schedulerContext input) t w \<noteq> []"
  proof
    assume nil: "workerResultReasons (schedulerContext input) t w = []"
    then have "mayTake w t (schedulerContext input)" "readyForWork input w"
      by (auto simp: workerResultReasons_Nil_iff readyForWork_def mayTake_started mayTake_enabled)
    then show False using assms Cons by (auto simp: schedulable_def)
  qed
  then obtain r where "r \<in> set (workerResultReasons (schedulerContext input) t w)"
    by (metis hd_in_set)
  then have "r \<in> set (elig_blockedReasons (itemEligibilityFor
      (schedulerGlobalState (in_globalExecutionState input) ts) (schedulerContext input) (in_workers input) t))"
    using Cons by (auto simp: set_elig_blockedReasons)
  then show ?thesis by (rule mem_not_Nil)
qed

text \<open>
  Every task of the queue is classified: its eligibility entry says schedulable exactly when some
  ready worker may take it, the blocked items are, in queue order, the tasks that are neither final
  nor schedulable, and each blocked item carries at least one reason.
\<close>

theorem schedulerPlan_classifies:
  assumes "distinct (map task_queueItemId (in_tasks input))"
  shows "map elig_isSchedulable (plan_itemEligibility (buildAgentQueueSchedulerPlan lc input))
           = map (schedulable input) (in_tasks input) \<and>
         map blocked_queueItemId (plan_blockedItems (buildAgentQueueSchedulerPlan lc input))
           = map task_queueItemId (filter (\<lambda>t. \<not> isFinalQueueTaskStatus (task_status t) \<and> \<not> schedulable input t)
               (in_tasks input)) \<and>
         [] \<notin> blocked_reasonCodes ` set (plan_blockedItems (buildAgentQueueSchedulerPlan lc input))"
proof -
  let ?e = "itemEligibilityFor (schedulerGlobalState (in_globalExecutionState input) (in_tasks input))
      (schedulerContext input) (in_workers input)"
  let ?P = "\<lambda>t. \<not> isFinalQueueTaskStatus (task_status t) \<and> \<not> schedulable input t"
  have "filter (\<lambda>t. case taskWithId (in_tasks input) (task_queueItemId t) of
        Some task \<Rightarrow> \<not> isFinalQueueTaskStatus (task_status task) \<and> \<not> schedulable input t
      | None \<Rightarrow> False) (in_tasks input) = filter ?P (in_tasks input)"
    by (rule filter_cong) (use assms in \<open>auto simp: taskWithId_distinct\<close>)
  then have b: "plan_blockedItems (buildAgentQueueSchedulerPlan lc input)
      = map (blockedItemSummary \<circ> ?e) (filter ?P (in_tasks input))"
    by (simp add: buildAgentQueueSchedulerPlan_def Let_def filter_map comp_def cong: option.case_cong)
  show ?thesis
    unfolding b plan_itemEligibility_eq
    by (auto simp: blockedItemSummary_def blockedReasons_nonempty dest!: sym [of "[]"])
qed

definition exampleInput :: BuildAgentQueueSchedulerPlanInput where
  "exampleInput = \<lparr>in_dependencyStates = None, in_globalExecutionState = QueueStarted,
     in_pausedQueueTagIds = None, in_tasks = [exampleTask ''a'', exampleTask ''b''],
     in_workers = [exampleWorker ''w'']\<rparr>"

lemma schedulerPlan_classifies_witness:
  "map elig_isSchedulable (plan_itemEligibility (buildAgentQueueSchedulerPlan codeUnitCompare exampleInput))
     = map (schedulable exampleInput) (in_tasks exampleInput)"
proof -
  have "distinct (map task_queueItemId (in_tasks exampleInput))"
    by (simp add: exampleInput_def exampleTask_def)
  from schedulerPlan_classifies [OF this] show ?thesis by blast
qed


section \<open>Capacity and the top reasons\<close>

text \<open>
  The capacity advice is safe: it offers to add workers exactly when it names a positive number
  of them, never more than the configured maximum leaves free, and never while the queue is
  stopped; "maximum reached" is reported only when no slot is left.
\<close>

theorem embeddedExecutorSection_capacity:
  "let model = buildAgentQueueEmbeddedExecutorSection dependencyStates maxExecutors schedulerPlan tasks workers;
       cap = section_capacityRecommendation model in
     0 \<le> cap_addableWorkerCount cap \<and>
     (cap_canAddWorker cap = (0 < cap_addableWorkerCount cap)) \<and>
     (cap_canAddWorker cap = (cap_code cap = CanAddWorker)) \<and>
     cap_addableWorkerCount cap \<le> section_unconfiguredExecutorSlots model \<and>
     int (length workers) + section_unconfiguredExecutorSlots model
       = max (section_maxExecutors model) (int (length workers)) \<and>
     ((cap_code cap = CapQueueStopped) = (\<not> sgs_allowsScheduling (plan_globalState schedulerPlan))) \<and>
     cap_code cap \<in> (if section_unconfiguredExecutorSlots model = 0 then UNIV else - {MaxReached})"
  by (auto simp: buildAgentQueueEmbeddedExecutorSection_def embeddedExecutorCapacityRecommendation_def
      Let_def)

text \<open>How many blocked items give a reason first.\<close>

definition firstReasonCount :: "AgentQueueBlockedItemSummary list \<Rightarrow> SchedulerReason \<Rightarrow> nat" where
  "firstReasonCount items c =
     length (filter (\<lambda>b. js_default SrNoAvailableWorker (js_first (blocked_reasonCodes b)) = c) items)"

lemma map_of_countFirstReason:
  "js_default 0 (map_of (countFirstReason item counts) c) =
     js_default 0 (map_of counts c) +
     (if js_default SrNoAvailableWorker (js_first (blocked_reasonCodes item)) = c then 1 else 0)"
  by (simp add: countFirstReason_def Let_def update_conv')

lemma map_of_fold_countFirstReason:
  "js_default 0 (map_of (fold countFirstReason items counts) c) =
     js_default 0 (map_of counts c) +
     length (filter (\<lambda>b. js_default SrNoAvailableWorker (js_first (blocked_reasonCodes b)) = c) items)"
  by (induction items arbitrary: counts) (simp_all add: map_of_countFirstReason)

lemma distinct_fold_countFirstReason:
  "distinct (map fst counts) \<Longrightarrow> distinct (map fst (fold countFirstReason items counts))"
  by (induction items arbitrary: counts) (simp_all add: countFirstReason_def Let_def distinct_update)

lemma fst_fold_countFirstReason:
  "fst ` set (fold countFirstReason items counts) =
     fst ` set counts \<union> (\<lambda>b. js_default SrNoAvailableWorker (js_first (blocked_reasonCodes b))) ` set items"
  by (induction items arbitrary: counts) (auto simp: countFirstReason_def Let_def dom_update)

lemma compareReasonCounts_comparator:
  assumes "js_comparator (localeCompare lc)"
  shows "js_comparator (compareReasonCounts lc)"
  unfolding compareReasonCounts_def
  by (intro js_comparator_lex js_comparator_on [OF assms]
      js_comparator_swap [OF js_comparator_on [OF js_comparator_subtract]])


text \<open>
  The top blocked reasons are honest: at most three, each counts exactly the blocked items that
  give it as their first reason, no reason appears twice, and a reason that is left out has a count
  no larger than every reason shown.
\<close>

theorem topBlockedReasons_correct:
  assumes "js_comparator (localeCompare lc)"
  shows "length (topBlockedReasons lc items) \<le> 3 \<and>
         distinct (map top_code (topBlockedReasons lc items)) \<and>
         (\<forall>e \<in> set (topBlockedReasons lc items).
            top_count e = firstReasonCount items (top_code e) \<and> 0 < top_count e) \<and>
         (\<forall>e \<in> set (topBlockedReasons lc items). \<forall>c. c \<notin> top_code ` set (topBlockedReasons lc items) \<longrightarrow>
            firstReasonCount items c \<le> top_count e)"
proof -
  define counts where "counts = fold countFirstReason items []"
  define s where "s = js_sort (compareReasonCounts lc) counts"
  note cmp = compareReasonCounts_comparator [OF assms]
  have mem: "set s = set counts" and len: "mset s = mset counts"
    by (simp_all add: s_def mset_js_sort)
  have d0: "distinct (map fst counts)" by (simp add: counts_def distinct_fold_countFirstReason)
  then have d: "distinct (map fst s)"
    by (metis len mset_map mset_eq_imp_distinct_iff)
  have cnt: "n = firstReasonCount items c \<and> 0 < n" if "(c, n) \<in> set s" for c n
  proof -
    have "map_of counts c = Some n" using that d0 mem by simp
    then have n: "n = firstReasonCount items c"
      using map_of_fold_countFirstReason [of items "[]" c] by (simp add: counts_def firstReasonCount_def)
    have "c \<in> fst ` set counts" using that mem by force
    then have "0 < firstReasonCount items c"
      by (auto simp: counts_def fst_fold_countFirstReason firstReasonCount_def filter_empty_conv)
    with n show ?thesis by simp
  qed
  have srt: "sorted_wrt (\<lambda>x y. \<not> js_pos (compareReasonCounts lc x y)) s"
    unfolding s_def by (rule js_comparator.sorted_sort [OF cmp])
  have top: "topBlockedReasons lc items =
      map (\<lambda>(code, count). \<lparr>top_code = code, top_count = count, top_label = schedulerBlockedReasonLabel code\<rparr>)
       (take 3 s)" by (simp add: topBlockedReasons_def s_def counts_def)
  have codes: "map top_code (topBlockedReasons lc items) = map fst (take 3 s)"
    by (simp add: top comp_def case_prod_beta)
  have out: "firstReasonCount items c \<le> n"
    if e: "(c', n) \<in> set (take 3 s)" and c: "c \<notin> fst ` set (take 3 s)" for c c' n
  proof (cases "c \<in> fst ` set counts")
    case False
    then have "firstReasonCount items c = 0"
      by (auto simp: counts_def fst_fold_countFirstReason firstReasonCount_def filter_empty_conv)
    then show ?thesis by simp
  next
    case True
    then obtain m where m: "(c, m) \<in> set s" using mem by force
    then have "(c, m) \<in> set (take 3 s) \<union> set (drop 3 s)" by (metis append_take_drop_id set_append)
    with c have "(c, m) \<in> set (drop 3 s)" by force
    moreover have "sorted_wrt (\<lambda>x y. \<not> js_pos (compareReasonCounts lc x y)) (take 3 s @ drop 3 s)"
      using srt by simp
    ultimately have "\<not> js_pos (compareReasonCounts lc (c', n) (c, m))"
      using e by (simp only: sorted_wrt_append) blast
    then have "m \<le> n" by (auto simp: compareReasonCounts_def js_pos_or subtract_numbers_def)
    with cnt [OF m] show ?thesis by simp
  qed
  show ?thesis
  proof (intro conjI ballI allI impI)
    show "length (topBlockedReasons lc items) \<le> 3" by (simp add: top)
    show "distinct (map top_code (topBlockedReasons lc items))"
      using d by (simp add: codes take_map [symmetric] distinct_take)
    fix e assume e: "e \<in> set (topBlockedReasons lc items)"
    then obtain c n where cn: "(c, n) \<in> set (take 3 s)" "top_code e = c" "top_count e = n"
      by (auto simp: top)
    then have "(c, n) \<in> set s" by (meson in_set_takeD)
    from cnt [OF this] cn show "top_count e = firstReasonCount items (top_code e)" "0 < top_count e"
      by simp_all
    fix c' assume "c' \<notin> top_code ` set (topBlockedReasons lc items)"
    then have "c' \<notin> fst ` set (take 3 s)" using codes by (metis list.set_map)
    with out cn show "firstReasonCount items c' \<le> top_count e" by simp
  qed
qed

definition exampleBlocked :: "SchedulerReason list \<Rightarrow> AgentQueueBlockedItemSummary" where
  "exampleBlocked rs = \<lparr>blocked_explanation = [], blocked_queueItemId = ''a'', blocked_reasonCodes = rs,
     blocked_reasonLabels = [], blocked_title = ''a''\<rparr>"

lemma topBlockedReasons_correct_witness:
  "length (topBlockedReasons codeUnitCompare
     [exampleBlocked [SrNoWorkerConfigured], exampleBlocked [SrRouting RrMissingPrompt]]) \<le> 3"
  using topBlockedReasons_correct [OF codeUnitCompare_comparator] by blast

end
