(* ===== verification/Runner.thy ===== *)
theory Runner
  imports Routing
begin

text \<open>
  The sequential queue runner of \<open>workbench/queue/queueRunner.ts\<close>: which task the current pass starts
  next, where it stops and why. The loop over the sorted tasks is \<open>runnerLoop\<close>; what it does for one
  task is \<open>runnerDecisionFor\<close>, with \<open>None\<close> for \<open>continue\<close>.
\<close>

section \<open>Decisions\<close>

datatype RunnerStopReason =
  StopAssignedToDifferentExecutor | StopDependencyBlocked | StopManual | StopPausedQueueTag
| StopPreviousSuccessRequired | StopPreviousTaskNotSuccessful | StopRoutingBlocked

datatype QueueRunnerTaskDecision =
  RunnerStart (start_requiresAssignment: bool) (start_skippedTaskCount: nat) (start_task: AgentQueueTask)
| RunnerStop (stop_reason: RunnerStopReason) (stop_blockedReasons: "RoutingReason list option")
    (stop_dependencyState: "DependencyState option") (stop_skippedTaskCount: nat) (stop_task: AgentQueueTask)
| RunnerCompleted (completed_skippedTaskCount: nat)

record QueueRunnerTaskDecisionInput =
  run_previousTaskStatus :: "PreviousTaskStatus option"
  run_pausedQueueTagIds :: "string set option"
  run_selectedExecutorWidgetId :: string
  run_startedQueueItemIds :: "string set option"
  run_tasks :: "AgentQueueTask list"
  run_globalExecutionState :: "QueueGlobalStatus option"
  run_workers :: "AgentWorkerSummary list option"

definition defaultWorkerForExecutor :: "string \<Rightarrow> AgentWorkerSummary" where
  "defaultWorkerForExecutor workerId =
     \<lparr>worker_workerId = workerId, worker_name = agentExecutorSlotLabel workerId,
      worker_enabled = True, worker_status = WkIdle, worker_scope = ScopeAll,
      worker_currentItemId = None, worker_lastReportSummary = None, worker_displayOrder = 0\<rparr>"

definition runnerWorker :: "QueueRunnerTaskDecisionInput \<Rightarrow> AgentWorkerSummary" where
  "runnerWorker input =
     js_default (defaultWorkerForExecutor (run_selectedExecutorWidgetId input))
       (Option.bind (run_workers input)
          (List.find (\<lambda>worker. worker_workerId worker = run_selectedExecutorWidgetId input)))"

definition runnerContext :: "QueueRunnerTaskDecisionInput \<Rightarrow> RoutingContext" where
  "runnerContext input =
     \<lparr>ctx_dependencyStates = None,
      ctx_globalExecutionState = Some (js_default QueueStarted (run_globalExecutionState input)),
      ctx_pausedQueueTagIds = run_pausedQueueTagIds input,
      ctx_tasks = run_tasks input\<rparr>"

definition runnerDecisionFor ::
    "QueueRunnerTaskDecisionInput \<Rightarrow> nat \<Rightarrow> AgentQueueTask \<Rightarrow> QueueRunnerTaskDecision option" where
  "runnerDecisionFor input skippedTaskCount task =
     (if task_queueItemId task \<in> js_default {} (run_startedQueueItemIds input) then None
      else case getQueueRunnerPolicyDecision (task_executionPolicy task) (run_previousTaskStatus input)
             (Some (task_prompt task)) (Some (task_status task)) of
        PdSkipMissingPrompt \<Rightarrow> None
      | PdSkipNotRunnable \<Rightarrow> None
      | PdStopForManual \<Rightarrow> Some (RunnerStop StopManual None None skippedTaskCount task)
      | PdStopWaitingForPreviousSuccess \<Rightarrow>
          Some (RunnerStop StopPreviousSuccessRequired None None skippedTaskCount task)
      | PdStopPreviousNotSuccessful \<Rightarrow>
          Some (RunnerStop StopPreviousTaskNotSuccessful None None skippedTaskCount task)
      | PdRun \<Rightarrow>
          (let blockedReasons = getWorkerItemBlockedReasons (runnerWorker input) task (runnerContext input) in
           if RrAssignedToAnotherWorker \<in> set blockedReasons
           then Some (RunnerStop StopAssignedToDifferentExecutor None None skippedTaskCount task)
           else if RrDependencyGraphInvalid \<in> set blockedReasons
                \<or> RrWaitingForDependencies \<in> set blockedReasons
           then Some (RunnerStop StopDependencyBlocked (Some blockedReasons)
                  (Some (getQueueTaskDependencyState task (run_tasks input))) skippedTaskCount task)
           else if RrQueueTagPaused \<in> set blockedReasons
           then Some (RunnerStop StopPausedQueueTag (Some blockedReasons) None skippedTaskCount task)
           else if 0 < length blockedReasons
           then Some (RunnerStop StopRoutingBlocked (Some blockedReasons) None skippedTaskCount task)
           else Some (RunnerStart (\<not> js_truthy_str (task_assignedExecutorWidgetId task)) skippedTaskCount task)))"

fun runnerLoop ::
    "QueueRunnerTaskDecisionInput \<Rightarrow> nat \<Rightarrow> AgentQueueTask list \<Rightarrow> QueueRunnerTaskDecision" where
  "runnerLoop input skippedTaskCount [] = RunnerCompleted skippedTaskCount"
| "runnerLoop input skippedTaskCount (task # tasks) =
     (case runnerDecisionFor input skippedTaskCount task of
        Some decision \<Rightarrow> decision
      | None \<Rightarrow> runnerLoop input (skippedTaskCount + 1) tasks)"

definition getNextQueueRunnerTaskDecision ::
    "(string \<Rightarrow> string \<Rightarrow> int) \<Rightarrow> QueueRunnerTaskDecisionInput \<Rightarrow> QueueRunnerTaskDecision" where
  "getNextQueueRunnerTaskDecision lc input =
     runnerLoop input 0 (sortQueueTasksForDisplay lc (run_tasks input))"

definition queueRunnerFinalStatus :: "string option \<Rightarrow> PreviousTaskStatus" where
  "queueRunnerFinalStatus finalStatus =
     (if finalStatus = Some ''completed'' then PrevCompleted
      else if finalStatus = Some ''cancelled'' then PrevCancelled
      else if finalStatus = Some ''timed_out'' then PrevTimedOut
      else PrevFailed)"

section \<open>Where the pass gets to\<close>

text \<open>A task the pass steps over: already started in this pass, or not manual and not runnable.\<close>

definition runnerSkips :: "QueueRunnerTaskDecisionInput \<Rightarrow> AgentQueueTask \<Rightarrow> bool" where
  "runnerSkips input task \<longleftrightarrow>
     task_queueItemId task \<in> js_default {} (run_startedQueueItemIds input) \<or>
     normalizeQueueExecutionPolicy (task_executionPolicy task) \<noteq> PolManual \<and>
     (\<not> isQueueTaskRunnableStatus (Some (task_status task)) \<or> js_blank (task_prompt task))"

text \<open>A task that may be started in this pass.\<close>

definition runnerMayStart :: "QueueRunnerTaskDecisionInput \<Rightarrow> AgentQueueTask \<Rightarrow> bool" where
  "runnerMayStart input task \<longleftrightarrow>
     task_queueItemId task \<notin> js_default {} (run_startedQueueItemIds input) \<and>
     (task_executionPolicy task = Some ''auto'' \<or>
      task_executionPolicy task = Some ''after_previous_success'' \<and>
      run_previousTaskStatus input = Some PrevCompleted) \<and>
     mayTake (runnerWorker input) task (runnerContext input)"

lemma runnerDecisionFor_None_iff: "runnerDecisionFor input n task = None \<longleftrightarrow> runnerSkips input task"
  by (auto simp: runnerDecisionFor_def runnerSkips_def getQueueRunnerPolicyDecision_def Let_def
      hasQueueTaskRunnablePrompt_def split: option.splits)

lemma runnerDecisionFor_Start_iff:
  "runnerDecisionFor input n task = Some (RunnerStart ra m t) \<longleftrightarrow>
     runnerMayStart input task \<and> t = task \<and> m = n \<and>
     ra = (\<not> js_truthy_str (task_assignedExecutorWidgetId task))"
proof -
  have nil: "getWorkerItemBlockedReasons (runnerWorker input) task (runnerContext input) = [] \<longleftrightarrow>
      mayTake (runnerWorker input) task (runnerContext input)"
    by (simp add: canWorkerTakeQueueItem_iff [symmetric] canWorkerTakeQueueItem_def)
  have run: "mayTake (runnerWorker input) task (runnerContext input) \<Longrightarrow>
      isQueueTaskRunnableStatus (Some (task_status task)) \<and> js_has_text (Some (task_prompt task))"
    by (auto simp: mayTake_def isQueueTaskRunnableStatus_def)
  show ?thesis
    unfolding runnerDecisionFor_def runnerMayStart_def
    using run policy_run_iff [of "task_executionPolicy task" "run_previousTaskStatus input"
        "Some (task_prompt task)" "Some (task_status task)"]
    by (auto simp: nil [symmetric] Let_def split: PolicyDecision.splits if_splits)
qed

lemma runnerLoop_Start_iff:
  "runnerLoop input n tasks = RunnerStart ra m t \<longleftrightarrow>
     (\<exists>pre post. tasks = pre @ t # post \<and> (\<forall>s \<in> set pre. runnerSkips input s) \<and>
        runnerMayStart input t \<and> m = n + length pre \<and>
        ra = (\<not> js_truthy_str (task_assignedExecutorWidgetId t)))"
proof (induction tasks arbitrary: n)
  case Nil
  then show ?case by simp
next
  case (Cons u us)
  show ?case
  proof (cases "runnerSkips input u")
    case True
    then have d: "runnerDecisionFor input n u = None" by (simp add: runnerDecisionFor_None_iff)
    then have ns: "\<not> runnerMayStart input u"
      using runnerDecisionFor_Start_iff [of input n u "\<not> js_truthy_str (task_assignedExecutorWidgetId u)" n u] by simp
    have split: "(\<exists>pre post. u # us = pre @ t # post \<and> (\<forall>s \<in> set pre. runnerSkips input s) \<and>
          runnerMayStart input t \<and> P (length pre)) \<longleftrightarrow>
        (\<exists>pre post. us = pre @ t # post \<and> (\<forall>s \<in> set pre. runnerSkips input s) \<and>
          runnerMayStart input t \<and> P (Suc (length pre)))" (is "?l = ?r") for P
    proof
      assume ?l
      then obtain pre post where p: "u # us = pre @ t # post" "\<forall>s \<in> set pre. runnerSkips input s"
        "runnerMayStart input t" "P (length pre)" by blast
      with ns obtain pre' where "pre = u # pre'" by (cases pre) auto
      with p show ?r by auto
    next
      assume ?r
      then obtain pre post where p: "us = pre @ t # post" "\<forall>s \<in> set pre. runnerSkips input s"
        "runnerMayStart input t" "P (Suc (length pre))" by blast
      with True show ?l by (intro exI [of _ "u # pre"] exI [of _ post]) auto
    qed
    show ?thesis
      using split [of "\<lambda>k. m = n + k \<and> ra = (\<not> js_truthy_str (task_assignedExecutorWidgetId t))"]
      by (simp add: d Cons.IH)
  next
    case False
    then obtain d where d: "runnerDecisionFor input n u = Some d"
      using runnerDecisionFor_None_iff by blast
    show ?thesis
      using False d runnerDecisionFor_Start_iff [of input n u ra m t]
      by (auto simp: Cons_eq_append_conv)
  qed
qed

lemma runnerDecisionFor_not_completed: "runnerDecisionFor input n task \<noteq> Some (RunnerCompleted m)"
  by (auto simp: runnerDecisionFor_def Let_def split: PolicyDecision.splits)

lemma runnerLoop_Completed_iff:
  "runnerLoop input n tasks = RunnerCompleted m \<longleftrightarrow>
     (\<forall>s \<in> set tasks. runnerSkips input s) \<and> m = n + length tasks"
proof (induction tasks arbitrary: n)
  case Nil
  then show ?case by auto
next
  case (Cons u us)
  show ?case
    using runnerDecisionFor_None_iff [of input n u] runnerDecisionFor_not_completed [of input n u m]
    by (cases "runnerDecisionFor input n u") (auto simp: Cons.IH)
qed

text \<open>
  The runner starts a task exactly when it is the first task of the display order that the pass does not
  step over and it may be started; the pass is complete exactly when every task is stepped over.
\<close>

theorem getNextQueueRunnerTaskDecision_correct:
  "(getNextQueueRunnerTaskDecision lc input = RunnerStart ra n t \<longleftrightarrow>
      (\<exists>pre post. sortQueueTasksForDisplay lc (run_tasks input) = pre @ t # post \<and>
         (\<forall>s \<in> set pre. runnerSkips input s) \<and> runnerMayStart input t \<and> n = length pre \<and>
         ra = (\<not> js_truthy_str (task_assignedExecutorWidgetId t)))) \<and>
   (getNextQueueRunnerTaskDecision lc input = RunnerCompleted n \<longleftrightarrow>
      (\<forall>s \<in> set (run_tasks input). runnerSkips input s) \<and> n = length (run_tasks input))"
  unfolding getNextQueueRunnerTaskDecision_def runnerLoop_Start_iff runnerLoop_Completed_iff
  by (simp add: sortQueueTasksForDisplay_def)

lemma skipped_not_startable: "runnerSkips input task \<Longrightarrow> \<not> runnerMayStart input task"
  using runnerDecisionFor_None_iff [of input 0 task]
    runnerDecisionFor_Start_iff [of input 0 task "\<not> js_truthy_str (task_assignedExecutorWidgetId task)" 0 task]
  by auto

lemma runnerLoop_Stop:
  "runnerLoop input n tasks = RunnerStop reason blocked dependency m t \<Longrightarrow>
     t \<in> set tasks \<and> \<not> runnerMayStart input t"
proof (induction tasks arbitrary: n)
  case (Cons u us)
  then show ?case
    using runnerDecisionFor_Start_iff [of input n u "\<not> js_truthy_str (task_assignedExecutorWidgetId u)" n u]
    by (cases "runnerDecisionFor input n u")
       (auto simp: runnerDecisionFor_def Let_def split: PolicyDecision.splits if_splits)
qed simp

text \<open>
  C33. The order of the queue only chooses among the tasks that may be started: a task the runner starts
  may be started in this pass (it is not started yet, its policy allows it, and the selected executor's
  worker may take it), and no task before it in the display order may. A pass is reported complete only when
  no task of the queue may be started, and a task the runner stops at is one that may not be started.
  (That the pass then stops instead of looking further is a divergence from the documentation:
  \<open>runner_stops_before_startable\<close>.)
\<close>

theorem runner_starts_first_eligible:
  "case getNextQueueRunnerTaskDecision lc input of
     RunnerStart requiresAssignment skippedCount t \<Rightarrow>
       runnerMayStart input t
       \<and> List.find (runnerMayStart input) (sortQueueTasksForDisplay lc (run_tasks input)) = Some t
       \<and> requiresAssignment = (\<not> js_truthy_str (task_assignedExecutorWidgetId t))
   | RunnerStop reason blocked dependency skippedCount t \<Rightarrow> t \<in> set (run_tasks input) \<and> \<not> runnerMayStart input t
   | RunnerCompleted skippedCount \<Rightarrow>
       filter (runnerMayStart input) (run_tasks input) = [] \<and> skippedCount = length (run_tasks input)"
proof (cases "getNextQueueRunnerTaskDecision lc input")
  case (RunnerStart ra n t)
  then obtain pre post where p: "sortQueueTasksForDisplay lc (run_tasks input) = pre @ t # post"
      "\<forall>s \<in> set pre. runnerSkips input s" "runnerMayStart input t" "ra = (\<not> js_truthy_str (task_assignedExecutorWidgetId t))"
    using getNextQueueRunnerTaskDecision_correct by blast
  have "List.find (runnerMayStart input) (pre @ t # post) = Some t"
    using p(2,3) by (induction pre) (auto dest: skipped_not_startable)
  with RunnerStart p show ?thesis by simp
next
  case (RunnerStop reason blocked dependency n t)
  then show ?thesis
    using runnerLoop_Stop [of input 0 "sortQueueTasksForDisplay lc (run_tasks input)"]
    by (simp add: getNextQueueRunnerTaskDecision_def sortQueueTasksForDisplay_def)
next
  case (RunnerCompleted n)
  then have "\<forall>s \<in> set (run_tasks input). runnerSkips input s" "n = length (run_tasks input)"
    using getNextQueueRunnerTaskDecision_correct by blast+
  with RunnerCompleted show ?thesis by (auto simp: filter_empty_conv dest: skipped_not_startable)
qed

definition exampleRun :: "AgentQueueTask list \<Rightarrow> QueueRunnerTaskDecisionInput" where
  "exampleRun tasks = \<lparr>run_previousTaskStatus = None, run_pausedQueueTagIds = None,
     run_selectedExecutorWidgetId = ''w'', run_startedQueueItemIds = None, run_tasks = tasks,
     run_globalExecutionState = None, run_workers = None\<rparr>"

definition autoTask :: "string \<Rightarrow> AgentQueueTask" where
  "autoTask i = (exampleTask i)\<lparr>task_executionPolicy := Some ''auto''\<rparr>"

lemma runner_starts_example:
  "runnerMayStart (exampleRun [autoTask ''a'']) (autoTask ''a'')"
proof -
  have "getNextQueueRunnerTaskDecision codeUnitCompare (exampleRun [autoTask ''a''])
      = RunnerStart True 0 (autoTask ''a'')" by code_simp
  then show ?thesis
    using getNextQueueRunnerTaskDecision_correct
      [of codeUnitCompare "exampleRun [autoTask ''a'']" True 0 "autoTask ''a''"] by blast
qed

text \<open>The pass stops at a task that waits for a dependency, even when a later one could start.\<close>

lemma runner_stops_before_startable:
  "stop_reason (getNextQueueRunnerTaskDecision codeUnitCompare
     (exampleRun [(autoTask ''a'')\<lparr>task_dependsOn := Some [''b'']\<rparr>, autoTask ''b''])) = StopDependencyBlocked \<and>
   runnerMayStart (exampleRun [(autoTask ''a'')\<lparr>task_dependsOn := Some [''b'']\<rparr>, autoTask ''b'']) (autoTask ''b'')"
proof
  let ?a = "(autoTask ''a'')\<lparr>task_dependsOn := Some [''b'']\<rparr>"
  show "stop_reason (getNextQueueRunnerTaskDecision codeUnitCompare (exampleRun [?a, autoTask ''b'']))
      = StopDependencyBlocked" by code_simp
  have "runnerDecisionFor (exampleRun [?a, autoTask ''b'']) 0 (autoTask ''b'')
      = Some (RunnerStart True 0 (autoTask ''b''))" by code_simp
  then show "runnerMayStart (exampleRun [?a, autoTask ''b'']) (autoTask ''b'')"
    by (simp add: runnerDecisionFor_Start_iff)
qed

text \<open>Only a reported completion lets a task that waits for its predecessor start.\<close>

lemma queueRunnerFinalStatus_completed_iff:
  "queueRunnerFinalStatus s = PrevCompleted \<longleftrightarrow> s = Some ''completed''"
  by (simp add: queueRunnerFinalStatus_def)

end
