(* ===== verification/Lifecycle.thy ===== *)
theory Lifecycle
  imports Prelude
begin

text \<open>
  The review lifecycle of a queue item: \<open>workbench/queue/smartQueueDogfoodLifecycleTypes.ts\<close>,
  \<open>...Internal.ts\<close>, \<open>...Item.ts\<close>, \<open>...Review.ts\<close>, \<open>...Decision.ts\<close> and \<open>...Labels.ts\<close>. Every
  operation takes an item and an input and returns a result that holds either the new item and a
  value, or the unchanged item and an error. The worker evidence of
  \<open>smartQueueWorkerEvidenceBundle.ts\<close> is carried as data: the record has its flat fields, and leaves
  out the nested references that repeat them and the fields with a constant type.
\<close>

section \<open>Worker evidence\<close>

record QueueWorkerEvidenceSummary =
  evs_changedFileCount :: nat
  evs_changedFilesLabel :: string
  evs_changedFilesOmittedCount :: nat
  evs_finalReportLabel :: string
  evs_frontendOnlyLabel :: string
  evs_humanSummary :: string
  evs_logsLabel :: string
  evs_outcomeLabel :: string
  evs_validationLabel :: string

datatype SmartQueueDogfoodReviewOutcome = OutCompleted | OutNotCompleted | OutFailed

datatype QueueWorkerValidationStatus = EvPassed | EvFailed | EvNotRun | EvUnknown

record QueueWorkerChangedFileEvidence =
  evf_additions :: "int option"
  evf_deletions :: "int option"
  evf_path :: string
  evf_status :: "string option"
  evf_truncated :: bool

record QueueWorkerEvidenceBundle =
  ev_attemptId :: "string option"
  ev_changedFiles :: "QueueWorkerChangedFileEvidence list"
  ev_changedFilesSummary :: "string option"
  ev_completedAt :: "string option"
  ev_failureReason :: "string option"
  ev_finalAgentMessage :: "string option"
  ev_logReference :: "string option"
  ev_outcome :: SmartQueueDogfoodReviewOutcome
  ev_providerId :: "string option"
  ev_rawProviderSummary :: "string option"
  ev_runId :: "string option"
  ev_startedAt :: "string option"
  ev_stuckReason :: "string option"
  ev_summary :: QueueWorkerEvidenceSummary
  ev_taskId :: string
  ev_threadId :: "string option"
  ev_validationExitCode :: "int option"
  ev_validationOutputPreview :: "string option"
  ev_validationStatus :: QueueWorkerValidationStatus
  ev_validationSummary :: "string option"
  ev_workerId :: "string option"

section \<open>Data\<close>

datatype SmartQueueDogfoodTicketState =
  TkDraft | TkQueued | TkBlocked | TkRunning | TkAwaitingReview | TkInReview | TkDone | TkFailure

datatype SmartQueueDogfoodAgentPromptState =
  ApIdle | ApRunning | ApCompleted | ApNotCompleted | ApFailed | ApAdditionalPromptRunning

datatype SmartQueueCoordinatorReviewDecisionKind =
  DkApproveValidation | DkRequestCommit | DkAttachCommitResult | DkMarkDone | DkAddFollowUpPrompt
| DkReturnToRunningAddedPrompt | DkBlockTask | DkFailTask

datatype SmartQueueCommitResultStatus = CommitSuccess | CommitFailed

record SideEffectFlags =
  wouldCallCodex :: bool
  wouldCallShell :: bool
  wouldCallWorkspaceApi :: bool
  wouldExecuteCommit :: bool
  wouldExecuteRollback :: bool
  wouldLaunchTerminal :: bool
  wouldMutateGit :: bool
  wouldPersist :: bool
  wouldStartWorker :: bool

record SmartQueueReviewMessage =
  msg_messageId :: string
  msg_taskId :: string
  msg_attemptId :: "string option"
  msg_fromQueueItemId :: string
  msg_toCoordinatorAgentId :: string
  msg_reviewOutcome :: SmartQueueDogfoodReviewOutcome
  msg_finalAgentMessage :: string
  msg_evidenceSummary :: "string option"
  msg_validationSummary :: "string option"
  msg_changedFilesSummary :: "string option"
  msg_workerEvidenceBundle :: "QueueWorkerEvidenceBundle option"
  msg_createdAt :: string
  msg_productSummary :: string

record SmartQueueReviewAck =
  ack_ackId :: string
  ack_messageId :: string
  ack_coordinatorAgentId :: string
  ack_receivedAt :: string

record SmartQueueCoordinatorReviewDecision =
  dec_decisionId :: string
  dec_taskId :: string
  dec_kind :: SmartQueueCoordinatorReviewDecisionKind
  dec_createdAt :: string
  dec_coordinatorAgentId :: "string option"
  dec_reason :: string
  dec_reviewMessageId :: "string option"
  dec_validationApprovalId :: "string option"
  dec_commitRequestId :: "string option"
  dec_commitResultId :: "string option"
  dec_followUpPromptId :: "string option"

record SmartQueueFollowUpPrompt =
  fup_followUpPromptId :: string
  fup_taskId :: string
  fup_parentAttemptId :: "string option"
  fup_threadId :: "string option"
  fup_prompt :: string
  fup_createdByCoordinatorAgentId :: string
  fup_createdAt :: string

record SmartQueueCommitRequest =
  creq_commitRequestId :: string
  creq_taskId :: string
  creq_requestedByCoordinatorAgentId :: string
  creq_reason :: string
  creq_createdAt :: string
  creq_modelOnly :: bool

record SmartQueueCommitResult =
  cres_commitResultId :: string
  cres_taskId :: string
  cres_commitRequestId :: "string option"
  cres_status :: SmartQueueCommitResultStatus
  cres_commitHash :: "string option"
  cres_summary :: string
  cres_attachedAt :: string
  cres_modelOnly :: bool
  cres_noGitMutationPerformed :: bool

record SmartQueueValidationApproval =
  appr_validationApprovalId :: string
  appr_taskId :: string
  appr_approvedByCoordinatorAgentId :: string
  appr_summary :: string
  appr_approvedAt :: string
  appr_modelOnly :: bool

record SmartQueueDogfoodLifecycleItem =
  item_taskId :: string
  item_title :: "string option"
  item_originalPrompt :: "string option"
  item_currentRunnablePrompt :: "string option"
  item_ticketState :: SmartQueueDogfoodTicketState
  item_agentPromptState :: SmartQueueDogfoodAgentPromptState
  item_reviewOutcome :: "SmartQueueDogfoodReviewOutcome option"
  item_additionalPromptCount :: nat
  item_currentAttemptId :: "string option"
  item_currentThreadId :: "string option"
  item_finalAgentMessage :: "string option"
  item_validationSummary :: "string option"
  item_changedFilesSummary :: "string option"
  item_workerEvidenceBundle :: "QueueWorkerEvidenceBundle option"
  item_workerEvidenceSummary :: "QueueWorkerEvidenceSummary option"
  item_blockedReason :: "string option"
  item_failureReason :: "string option"
  item_followUpPrompts :: "SmartQueueFollowUpPrompt list"
  item_reviewMessages :: "SmartQueueReviewMessage list"
  item_reviewAcks :: "SmartQueueReviewAck list"
  item_coordinatorDecisions :: "SmartQueueCoordinatorReviewDecision list"
  item_validationApprovals :: "SmartQueueValidationApproval list"
  item_commitRequests :: "SmartQueueCommitRequest list"
  item_commitResults :: "SmartQueueCommitResult list"
  item_sideEffects :: SideEffectFlags
  item_createdAt :: string
  item_updatedAt :: string

datatype TransitionErrorCode =
  ErrEmptyPrompt | ErrInvalidCommitResult | ErrInvalidFollowUpPrompt | ErrInvalidState
| ErrMissingCommitRequest | ErrMissingCommitResult | ErrMissingFinalAgentMessage
| ErrMissingReviewMessage | ErrMissingReviewOutcome | ErrMissingValidationApproval
| ErrTerminalState | ErrWrongReviewAckTarget

record SmartQueueLifecycleTransitionError =
  err_code :: TransitionErrorCode
  err_action :: string
  err_message :: string
  err_currentTicketState :: SmartQueueDogfoodTicketState
  err_currentAgentPromptState :: SmartQueueDogfoodAgentPromptState
  err_expectedTicketStates :: "SmartQueueDogfoodTicketState list option"

record 'v SmartQueueLifecycleTransitionResult =
  res_ok :: bool
  res_item :: SmartQueueDogfoodLifecycleItem
  res_value :: "'v option"
  res_error :: "SmartQueueLifecycleTransitionError option"

section \<open>Labels\<close>

fun ticketStateLabel :: "SmartQueueDogfoodTicketState \<Rightarrow> string" where
  "ticketStateLabel TkDraft = ''Draft''"
| "ticketStateLabel TkQueued = ''Queued''"
| "ticketStateLabel TkBlocked = ''Blocked''"
| "ticketStateLabel TkRunning = ''Running''"
| "ticketStateLabel TkAwaitingReview = ''Awaiting review''"
| "ticketStateLabel TkInReview = ''In review''"
| "ticketStateLabel TkDone = ''Done''"
| "ticketStateLabel TkFailure = ''Failure''"

fun agentPromptStateLabel :: "SmartQueueDogfoodAgentPromptState \<Rightarrow> string" where
  "agentPromptStateLabel ApIdle = ''Idle''"
| "agentPromptStateLabel ApRunning = ''Running''"
| "agentPromptStateLabel ApCompleted = ''Agent completed''"
| "agentPromptStateLabel ApNotCompleted = ''Agent not completed''"
| "agentPromptStateLabel ApFailed = ''Agent failed''"
| "agentPromptStateLabel ApAdditionalPromptRunning = ''Follow-up prompt running''"

fun reviewOutcomeLabel :: "SmartQueueDogfoodReviewOutcome \<Rightarrow> string" where
  "reviewOutcomeLabel OutCompleted = ''Agent completed''"
| "reviewOutcomeLabel OutNotCompleted = ''Agent not completed''"
| "reviewOutcomeLabel OutFailed = ''Agent failed''"

definition reviewStatusLabel :: "SmartQueueDogfoodLifecycleItem \<Rightarrow> string option" where
  "reviewStatusLabel item =
     (if item_ticketState item = TkAwaitingReview then Some ''Waiting for coordinator review''
      else if item_ticketState item = TkInReview \<and> 0 < length (item_reviewAcks item)
        then Some ''Review acknowledged''
      else map_option reviewOutcomeLabel (item_reviewOutcome item))"

record SmartQueueLifecycleHumanStatus =
  lhs_ticketLabel :: string
  lhs_agentPromptLabel :: string
  lhs_reviewLabel :: "string option"
  lhs_text :: string

definition getLifecycleHumanStatus ::
    "SmartQueueDogfoodLifecycleItem \<Rightarrow> SmartQueueLifecycleHumanStatus" where
  "getLifecycleHumanStatus item =
     (let ticketLabel = ticketStateLabel (item_ticketState item);
          agentPromptLabel = agentPromptStateLabel (item_agentPromptState item);
          reviewLabel = reviewStatusLabel item
      in \<lparr>lhs_ticketLabel = ticketLabel, lhs_agentPromptLabel = agentPromptLabel,
          lhs_reviewLabel = reviewLabel,
          lhs_text = js_join '' - ''
            (filter (\<lambda>s. s \<noteq> []) [ticketLabel, agentPromptLabel, js_default [] reviewLabel])\<rparr>)"

section \<open>The shared steps\<close>

definition NO_DOGFOOD_LIFECYCLE_SIDE_EFFECTS :: SideEffectFlags where
  "NO_DOGFOOD_LIFECYCLE_SIDE_EFFECTS =
     \<lparr>wouldCallCodex = False, wouldCallShell = False, wouldCallWorkspaceApi = False,
      wouldExecuteCommit = False, wouldExecuteRollback = False, wouldLaunchTerminal = False,
      wouldMutateGit = False, wouldPersist = False, wouldStartWorker = False\<rparr>"

definition isTerminalTicketState :: "SmartQueueDogfoodTicketState \<Rightarrow> bool" where
  "isTerminalTicketState s \<longleftrightarrow> s = TkDone \<or> s = TkFailure"

definition cleanText :: "string option \<Rightarrow> string" where
  "cleanText value = js_default [] (map_option js_trim value)"

definition cleanOptionalText :: "string option \<Rightarrow> string option" where
  "cleanOptionalText value = (let cleaned = cleanText value in if cleaned = [] then None else Some cleaned)"

definition transitionError ::
    "string \<Rightarrow> TransitionErrorCode \<Rightarrow> SmartQueueDogfoodTicketState list option
     \<Rightarrow> SmartQueueDogfoodLifecycleItem \<Rightarrow> string \<Rightarrow> SmartQueueLifecycleTransitionError" where
  "transitionError action code expectedTicketStates item message =
     \<lparr>err_code = code, err_action = action, err_message = message,
      err_currentTicketState = item_ticketState item,
      err_currentAgentPromptState = item_agentPromptState item,
      err_expectedTicketStates = expectedTicketStates\<rparr>"

definition assertTicketState ::
    "SmartQueueDogfoodLifecycleItem \<Rightarrow> string \<Rightarrow> SmartQueueDogfoodTicketState list
     \<Rightarrow> SmartQueueLifecycleTransitionError option" where
  "assertTicketState item action expectedTicketStates =
     (if isTerminalTicketState (item_ticketState item)
      then Some (transitionError action ErrTerminalState (Some expectedTicketStates) item
             (ticketStateLabel (item_ticketState item) @ '' is terminal in the MVP lifecycle model.''))
      else if item_ticketState item \<notin> set expectedTicketStates
      then Some (transitionError action ErrInvalidState (Some expectedTicketStates) item
             (action @ '' cannot run from '' @ ticketStateLabel (item_ticketState item) @ ''.''))
      else None)"

fun decisionReason :: "SmartQueueCoordinatorReviewDecisionKind \<Rightarrow> string" where
  "decisionReason DkApproveValidation = ''Validation approved.''"
| "decisionReason DkRequestCommit = ''Commit requested.''"
| "decisionReason DkAttachCommitResult = ''Commit result attached.''"
| "decisionReason DkMarkDone = ''Marked done.''"
| "decisionReason DkAddFollowUpPrompt = ''Follow-up prompt added.''"
| "decisionReason DkReturnToRunningAddedPrompt = ''Returned to running with added prompt.''"
| "decisionReason DkBlockTask = ''Blocked by coordinator decision.''"
| "decisionReason DkFailTask = ''Failed by coordinator decision.''"

text \<open>A decision of a kind with its required fields; the optional ones are set by the caller.\<close>

definition coordinatorDecision ::
    "SmartQueueCoordinatorReviewDecisionKind \<Rightarrow> string \<Rightarrow> string \<Rightarrow> string option \<Rightarrow> string \<Rightarrow> string
     \<Rightarrow> SmartQueueCoordinatorReviewDecision" where
  "coordinatorDecision kind decisionId taskId coordinatorAgentId createdAt reason =
     \<lparr>dec_decisionId = decisionId, dec_taskId = taskId, dec_kind = kind, dec_createdAt = createdAt,
      dec_coordinatorAgentId = coordinatorAgentId,
      dec_reason = js_or_str (cleanText (Some reason)) (decisionReason kind),
      dec_reviewMessageId = None, dec_validationApprovalId = None, dec_commitRequestId = None,
      dec_commitResultId = None, dec_followUpPromptId = None\<rparr>"

definition lifecycleSuccess ::
    "SmartQueueDogfoodLifecycleItem \<Rightarrow> 'v option \<Rightarrow> 'v SmartQueueLifecycleTransitionResult" where
  "lifecycleSuccess item value = \<lparr>res_ok = True, res_item = item, res_value = value, res_error = None\<rparr>"

definition lifecycleFailure ::
    "SmartQueueDogfoodLifecycleItem \<Rightarrow> SmartQueueLifecycleTransitionError
     \<Rightarrow> 'v SmartQueueLifecycleTransitionResult" where
  "lifecycleFailure item error = \<lparr>res_ok = False, res_item = item, res_value = None, res_error = Some error\<rparr>"

text \<open>\<open>mustTransition\<close>: a failed result throws, here \<open>Inl\<close> with the message.\<close>

definition mustTransition ::
    "'v SmartQueueLifecycleTransitionResult \<Rightarrow> string + SmartQueueDogfoodLifecycleItem" where
  "mustTransition result =
     (if \<not> res_ok result
      then Inl (case res_error result of Some e \<Rightarrow> err_message e | None \<Rightarrow> ''Expected dogfood transition success.'')
      else Inr (res_item result))"

section \<open>Creating, queueing and running\<close>

record CreateDogfoodLifecycleItemInput =
  ci_taskId :: string
  ci_title :: "string option"
  ci_originalPrompt :: "string option"
  ci_createdAt :: string

record StartQueueItemRunInput =
  sr_attemptId :: "string option"
  sr_threadId :: "string option"
  sr_runnablePrompt :: "string option"
  sr_startedAt :: string

definition createDogfoodLifecycleItem ::
    "CreateDogfoodLifecycleItemInput \<Rightarrow> SmartQueueDogfoodLifecycleItem" where
  "createDogfoodLifecycleItem input =
     \<lparr>item_taskId = ci_taskId input, item_title = ci_title input,
      item_originalPrompt = ci_originalPrompt input,
      item_currentRunnablePrompt = ci_originalPrompt input,
      item_ticketState = TkDraft, item_agentPromptState = ApIdle, item_reviewOutcome = None,
      item_additionalPromptCount = 0, item_currentAttemptId = None, item_currentThreadId = None,
      item_finalAgentMessage = None, item_validationSummary = None,
      item_changedFilesSummary = None, item_workerEvidenceBundle = None,
      item_workerEvidenceSummary = None, item_blockedReason = None, item_failureReason = None,
      item_followUpPrompts = [], item_reviewMessages = [], item_reviewAcks = [],
      item_coordinatorDecisions = [], item_validationApprovals = [], item_commitRequests = [],
      item_commitResults = [], item_sideEffects = NO_DOGFOOD_LIFECYCLE_SIDE_EFFECTS,
      item_createdAt = ci_createdAt input, item_updatedAt = ci_createdAt input\<rparr>"

definition queueDogfoodLifecycleItem ::
    "SmartQueueDogfoodLifecycleItem \<Rightarrow> string \<Rightarrow> unit SmartQueueLifecycleTransitionResult" where
  "queueDogfoodLifecycleItem item queuedAt =
     (case assertTicketState item ''queueDogfoodLifecycleItem'' [TkDraft] of
        Some stateError \<Rightarrow> lifecycleFailure item stateError
      | None \<Rightarrow> lifecycleSuccess (item\<lparr>item_ticketState := TkQueued, item_updatedAt := queuedAt\<rparr>) None)"

definition startQueueItemRun ::
    "SmartQueueDogfoodLifecycleItem \<Rightarrow> StartQueueItemRunInput \<Rightarrow> unit SmartQueueLifecycleTransitionResult" where
  "startQueueItemRun item input =
     (case assertTicketState item ''startQueueItemRun'' [TkQueued] of
        Some stateError \<Rightarrow> lifecycleFailure item stateError
      | None \<Rightarrow>
          (let runnablePrompt = cleanText
             (js_coalesce (js_coalesce (sr_runnablePrompt input) (item_currentRunnablePrompt item))
                (item_originalPrompt item))
           in if runnablePrompt = []
              then lifecycleFailure item
                (transitionError ''startQueueItemRun'' ErrEmptyPrompt None item
                   ''A queued item needs a runnable prompt before it can enter Running.'')
              else lifecycleSuccess
                (item\<lparr>item_agentPromptState := ApRunning,
                      item_currentAttemptId := js_coalesce (sr_attemptId input) (item_currentAttemptId item),
                      item_currentRunnablePrompt := Some runnablePrompt,
                      item_currentThreadId := js_coalesce (sr_threadId input) (item_currentThreadId item),
                      item_ticketState := TkRunning, item_updatedAt := sr_startedAt input\<rparr>) None))"

record FinishAgentPromptInput =
  fa_agentPromptState :: SmartQueueDogfoodAgentPromptState
  fa_attemptId :: "string option"
  fa_changedFilesSummary :: "string option"
  fa_finalAgentMessage :: string
  fa_finishedAt :: string
  fa_reviewOutcome :: SmartQueueDogfoodReviewOutcome
  fa_threadId :: "string option"
  fa_transitionAction :: string
  fa_validationSummary :: "string option"
  fa_workerEvidenceBundle :: "QueueWorkerEvidenceBundle option"

definition finishAgentPrompt ::
    "SmartQueueDogfoodLifecycleItem \<Rightarrow> FinishAgentPromptInput \<Rightarrow> unit SmartQueueLifecycleTransitionResult" where
  "finishAgentPrompt item input =
     (case assertTicketState item (fa_transitionAction input) [TkRunning] of
        Some stateError \<Rightarrow> lifecycleFailure item stateError
      | None \<Rightarrow>
          (let finalAgentMessage = cleanText (Some (fa_finalAgentMessage input)) in
           if finalAgentMessage = []
           then lifecycleFailure item
             (transitionError (fa_transitionAction input) ErrMissingFinalAgentMessage None item
                ''Agent prompt completion needs a final agent message.'')
           else lifecycleSuccess
             (item\<lparr>item_agentPromptState := fa_agentPromptState input,
                   item_changedFilesSummary := cleanOptionalText (fa_changedFilesSummary input),
                   item_currentAttemptId := js_coalesce (fa_attemptId input) (item_currentAttemptId item),
                   item_currentThreadId := js_coalesce (fa_threadId input) (item_currentThreadId item),
                   item_finalAgentMessage := Some finalAgentMessage,
                   item_reviewOutcome := Some (fa_reviewOutcome input),
                   item_ticketState := TkAwaitingReview,
                   item_updatedAt := fa_finishedAt input,
                   item_validationSummary := cleanOptionalText (fa_validationSummary input),
                   item_workerEvidenceBundle := fa_workerEvidenceBundle input,
                   item_workerEvidenceSummary := map_option ev_summary (fa_workerEvidenceBundle input)\<rparr>) None))"

text \<open>The inputs of \<open>completeAgentPrompt\<close> and of \<open>failAgentPrompt\<close> differ in the name of the time field.\<close>

record CompleteAgentPromptInput =
  ca_attemptId :: "string option"
  ca_threadId :: "string option"
  ca_finalAgentMessage :: string
  ca_validationSummary :: "string option"
  ca_changedFilesSummary :: "string option"
  ca_completedAt :: string
  ca_workerEvidenceBundle :: "QueueWorkerEvidenceBundle option"

definition finishInput ::
    "SmartQueueDogfoodAgentPromptState \<Rightarrow> SmartQueueDogfoodReviewOutcome \<Rightarrow> string
     \<Rightarrow> CompleteAgentPromptInput \<Rightarrow> FinishAgentPromptInput" where
  "finishInput st outcome action input =
     \<lparr>fa_agentPromptState = st, fa_attemptId = ca_attemptId input,
      fa_changedFilesSummary = ca_changedFilesSummary input,
      fa_finalAgentMessage = ca_finalAgentMessage input, fa_finishedAt = ca_completedAt input,
      fa_reviewOutcome = outcome, fa_threadId = ca_threadId input, fa_transitionAction = action,
      fa_validationSummary = ca_validationSummary input,
      fa_workerEvidenceBundle = ca_workerEvidenceBundle input\<rparr>"

definition completeAgentPrompt ::
    "SmartQueueDogfoodLifecycleItem \<Rightarrow> CompleteAgentPromptInput \<Rightarrow> unit SmartQueueLifecycleTransitionResult" where
  "completeAgentPrompt item input =
     finishAgentPrompt item (finishInput ApCompleted OutCompleted ''completeAgentPrompt'' input)"

definition markAgentPromptNotCompleted ::
    "SmartQueueDogfoodLifecycleItem \<Rightarrow> CompleteAgentPromptInput \<Rightarrow> unit SmartQueueLifecycleTransitionResult" where
  "markAgentPromptNotCompleted item input =
     finishAgentPrompt item (finishInput ApNotCompleted OutNotCompleted ''markAgentPromptNotCompleted'' input)"

definition failAgentPrompt ::
    "SmartQueueDogfoodLifecycleItem \<Rightarrow> CompleteAgentPromptInput \<Rightarrow> unit SmartQueueLifecycleTransitionResult" where
  "failAgentPrompt item input =
     finishAgentPrompt item (finishInput ApFailed OutFailed ''failAgentPrompt'' input)"

definition canStartDependentAfterReviewGate :: "SmartQueueDogfoodLifecycleItem \<Rightarrow> bool" where
  "canStartDependentAfterReviewGate upstream \<longleftrightarrow> item_ticketState upstream = TkDone"

section \<open>Review\<close>

record CreateReviewMessageInput =
  crm_messageId :: string
  crm_toCoordinatorAgentId :: string
  crm_createdAt :: string
  crm_attemptId :: "string option"
  crm_evidenceSummary :: "string option"
  crm_finalAgentMessage :: "string option"
  crm_validationSummary :: "string option"
  crm_changedFilesSummary :: "string option"
  crm_workerEvidenceBundle :: "QueueWorkerEvidenceBundle option"

record AcknowledgeReviewMessageInput =
  arm_ackId :: string
  arm_messageId :: string
  arm_coordinatorAgentId :: string
  arm_receivedAt :: string

definition productSummaryForReviewMessage ::
    "string option \<Rightarrow> string \<Rightarrow> SmartQueueDogfoodReviewOutcome \<Rightarrow> string" where
  "productSummaryForReviewMessage evidenceSummary finalAgentMessage reviewOutcome =
     (let base = reviewOutcomeLabel reviewOutcome @ '': '' @ finalAgentMessage in
      if js_truthy_str evidenceSummary then base @ ''. Evidence: '' @ js_default [] evidenceSummary else base)"

definition createReviewMessage ::
    "SmartQueueDogfoodLifecycleItem \<Rightarrow> CreateReviewMessageInput
     \<Rightarrow> SmartQueueReviewMessage SmartQueueLifecycleTransitionResult" where
  "createReviewMessage item input =
     (case assertTicketState item ''createReviewMessage'' [TkAwaitingReview] of
        Some stateError \<Rightarrow> lifecycleFailure item stateError
      | None \<Rightarrow>
        (case item_reviewOutcome item of
           None \<Rightarrow> lifecycleFailure item
             (transitionError ''createReviewMessage'' ErrMissingReviewOutcome None item
                ''A review message needs the agent review outcome.'')
         | Some reviewOutcome \<Rightarrow>
             (let finalAgentMessage = cleanText
                    (js_coalesce (crm_finalAgentMessage input) (item_finalAgentMessage item));
                  evidenceSummary = cleanOptionalText
                    (js_coalesce (crm_evidenceSummary input)
                      (map_option evs_humanSummary (item_workerEvidenceSummary item)))
              in if finalAgentMessage = []
                 then lifecycleFailure item
                   (transitionError ''createReviewMessage'' ErrMissingFinalAgentMessage None item
                      ''A review message needs the final agent message.'')
                 else let message =
                   \<lparr>msg_messageId = crm_messageId input, msg_taskId = item_taskId item,
                    msg_attemptId = js_coalesce (crm_attemptId input) (item_currentAttemptId item),
                    msg_fromQueueItemId = item_taskId item,
                    msg_toCoordinatorAgentId = crm_toCoordinatorAgentId input,
                    msg_reviewOutcome = reviewOutcome,
                    msg_finalAgentMessage = finalAgentMessage,
                    msg_evidenceSummary = evidenceSummary,
                    msg_validationSummary = cleanOptionalText
                      (js_coalesce (crm_validationSummary input) (item_validationSummary item)),
                    msg_changedFilesSummary = cleanOptionalText
                      (js_coalesce (crm_changedFilesSummary input) (item_changedFilesSummary item)),
                    msg_workerEvidenceBundle =
                      js_coalesce (crm_workerEvidenceBundle input) (item_workerEvidenceBundle item),
                    msg_createdAt = crm_createdAt input,
                    msg_productSummary =
                      productSummaryForReviewMessage evidenceSummary finalAgentMessage reviewOutcome\<rparr>
                 in lifecycleSuccess
                   (item\<lparr>item_reviewMessages := item_reviewMessages item @ [message],
                         item_updatedAt := crm_createdAt input\<rparr>) (Some message))))"

definition acknowledgeReviewMessage ::
    "SmartQueueDogfoodLifecycleItem \<Rightarrow> AcknowledgeReviewMessageInput
     \<Rightarrow> SmartQueueReviewAck SmartQueueLifecycleTransitionResult" where
  "acknowledgeReviewMessage item input =
     (case assertTicketState item ''acknowledgeReviewMessage'' [TkAwaitingReview] of
        Some stateError \<Rightarrow> lifecycleFailure item stateError
      | None \<Rightarrow>
        (case List.find (\<lambda>candidate. msg_messageId candidate = arm_messageId input) (item_reviewMessages item) of
           None \<Rightarrow> lifecycleFailure item
             (transitionError ''acknowledgeReviewMessage'' ErrMissingReviewMessage None item
                ''Review ACK failed because the review message was not found.'')
         | Some message \<Rightarrow>
             if msg_taskId message \<noteq> item_taskId item \<or> msg_fromQueueItemId message \<noteq> item_taskId item
                \<or> msg_toCoordinatorAgentId message \<noteq> arm_coordinatorAgentId input
             then lifecycleFailure item
               (transitionError ''acknowledgeReviewMessage'' ErrWrongReviewAckTarget None item
                  ''Review ACK failed because the message target does not match this task and coordinator.'')
             else let ack =
               \<lparr>ack_ackId = arm_ackId input, ack_messageId = arm_messageId input,
                ack_coordinatorAgentId = arm_coordinatorAgentId input,
                ack_receivedAt = arm_receivedAt input\<rparr>
             in lifecycleSuccess
               (item\<lparr>item_reviewAcks := item_reviewAcks item @ [ack], item_ticketState := TkInReview,
                     item_updatedAt := arm_receivedAt input\<rparr>) (Some ack)))"

section \<open>Decisions of the coordinator\<close>

record ApproveValidationInput =
  av_validationApprovalId :: string
  av_approvedByCoordinatorAgentId :: string
  av_summary :: string
  av_approvedAt :: string
  av_decisionId :: "string option"

record RequestCommitInput =
  rc_commitRequestId :: string
  rc_requestedByCoordinatorAgentId :: string
  rc_reason :: string
  rc_createdAt :: string
  rc_decisionId :: "string option"

record AttachCommitResultInput =
  ac_commitResultId :: string
  ac_commitRequestId :: "string option"
  ac_status :: SmartQueueCommitResultStatus
  ac_commitHash :: "string option"
  ac_summary :: string
  ac_attachedAt :: string
  ac_coordinatorAgentId :: "string option"
  ac_decisionId :: "string option"

record MarkDoneInput =
  md_decisionId :: string
  md_coordinatorAgentId :: string
  md_reason :: string
  md_completedAt :: string

record AddFollowUpPromptInput =
  af_followUpPromptId :: string
  af_prompt :: string
  af_createdByCoordinatorAgentId :: string
  af_createdAt :: string
  af_parentAttemptId :: "string option"
  af_threadId :: "string option"
  af_decisionId :: "string option"

record BlockQueueItemInput =
  bq_decisionId :: string
  bq_coordinatorAgentId :: string
  bq_reason :: string
  bq_blockedAt :: string

record FailQueueItemInput =
  fq_decisionId :: string
  fq_coordinatorAgentId :: string
  fq_reason :: string
  fq_failedAt :: string

definition approveValidation ::
    "SmartQueueDogfoodLifecycleItem \<Rightarrow> ApproveValidationInput
     \<Rightarrow> SmartQueueValidationApproval SmartQueueLifecycleTransitionResult" where
  "approveValidation item input =
     (case assertTicketState item ''approveValidation'' [TkInReview] of
        Some stateError \<Rightarrow> lifecycleFailure item stateError
      | None \<Rightarrow>
        (let validationApproval =
           \<lparr>appr_validationApprovalId = av_validationApprovalId input, appr_taskId = item_taskId item,
            appr_approvedByCoordinatorAgentId = av_approvedByCoordinatorAgentId input,
            appr_summary = js_or_str (cleanText (Some (av_summary input))) ''Validation approved.'',
            appr_approvedAt = av_approvedAt input, appr_modelOnly = True\<rparr>;
             decision = (coordinatorDecision DkApproveValidation
               (js_default (''decision:'' @ av_validationApprovalId input) (av_decisionId input))
               (item_taskId item) (Some (av_approvedByCoordinatorAgentId input)) (av_approvedAt input)
               (appr_summary validationApproval))
               \<lparr>dec_validationApprovalId := Some (appr_validationApprovalId validationApproval)\<rparr>
         in lifecycleSuccess
           (item\<lparr>item_coordinatorDecisions := item_coordinatorDecisions item @ [decision],
                 item_updatedAt := av_approvedAt input,
                 item_validationApprovals := item_validationApprovals item @ [validationApproval]\<rparr>)
           (Some validationApproval)))"

definition requestCommit ::
    "SmartQueueDogfoodLifecycleItem \<Rightarrow> RequestCommitInput
     \<Rightarrow> SmartQueueCommitRequest SmartQueueLifecycleTransitionResult" where
  "requestCommit item input =
     (case assertTicketState item ''requestCommit'' [TkInReview] of
        Some stateError \<Rightarrow> lifecycleFailure item stateError
      | None \<Rightarrow>
        if length (item_validationApprovals item) = 0
        then lifecycleFailure item
          (transitionError ''requestCommit'' ErrMissingValidationApproval None item
             ''Commit request requires an explicit validation approval record.'')
        else let commitRequest =
           \<lparr>creq_commitRequestId = rc_commitRequestId input, creq_taskId = item_taskId item,
            creq_requestedByCoordinatorAgentId = rc_requestedByCoordinatorAgentId input,
            creq_reason = js_or_str (cleanText (Some (rc_reason input))) ''Commit requested.'',
            creq_createdAt = rc_createdAt input, creq_modelOnly = True\<rparr>;
             decision = (coordinatorDecision DkRequestCommit
               (js_default (''decision:'' @ rc_commitRequestId input) (rc_decisionId input))
               (item_taskId item) (Some (rc_requestedByCoordinatorAgentId input)) (rc_createdAt input)
               (creq_reason commitRequest))
               \<lparr>dec_commitRequestId := Some (creq_commitRequestId commitRequest)\<rparr>
         in lifecycleSuccess
           (item\<lparr>item_commitRequests := item_commitRequests item @ [commitRequest],
                 item_coordinatorDecisions := item_coordinatorDecisions item @ [decision],
                 item_updatedAt := rc_createdAt input\<rparr>)
           (Some commitRequest))"

fun defaultCommitResultSummary :: "SmartQueueCommitResultStatus \<Rightarrow> string" where
  "defaultCommitResultSummary CommitSuccess = ''Fake commit result succeeded.''"
| "defaultCommitResultSummary CommitFailed = ''Fake commit result failed.''"

definition attachCommitResult ::
    "SmartQueueDogfoodLifecycleItem \<Rightarrow> AttachCommitResultInput
     \<Rightarrow> SmartQueueCommitResult SmartQueueLifecycleTransitionResult" where
  "attachCommitResult item input =
     (case assertTicketState item ''attachCommitResult'' [TkInReview] of
        Some stateError \<Rightarrow> lifecycleFailure item stateError
      | None \<Rightarrow>
        if length (item_commitRequests item) = 0
        then lifecycleFailure item
          (transitionError ''attachCommitResult'' ErrMissingCommitRequest None item
             ''A fake commit result can be attached only after a commit request record exists.'')
        else let commitRequestId = js_coalesce (ac_commitRequestId input)
                   (Some (creq_commitRequestId (last (item_commitRequests item))))
        in if js_truthy_str commitRequestId \<and>
              \<not> list_ex (\<lambda>request. Some (creq_commitRequestId request) = commitRequestId)
                  (item_commitRequests item)
           then lifecycleFailure item
             (transitionError ''attachCommitResult'' ErrInvalidCommitResult None item
                ''Commit result references an unknown commit request.'')
           else let commitResult =
             \<lparr>cres_commitResultId = ac_commitResultId input, cres_taskId = item_taskId item,
              cres_commitRequestId = commitRequestId, cres_status = ac_status input,
              cres_commitHash = cleanOptionalText (ac_commitHash input),
              cres_summary = js_or_str (cleanText (Some (ac_summary input)))
                (defaultCommitResultSummary (ac_status input)),
              cres_attachedAt = ac_attachedAt input, cres_modelOnly = True,
              cres_noGitMutationPerformed = True\<rparr>;
               decision = (coordinatorDecision DkAttachCommitResult
                 (js_default (''decision:'' @ ac_commitResultId input) (ac_decisionId input))
                 (item_taskId item) (ac_coordinatorAgentId input) (ac_attachedAt input)
                 (cres_summary commitResult))
                 \<lparr>dec_commitRequestId := commitRequestId,
                  dec_commitResultId := Some (cres_commitResultId commitResult)\<rparr>
           in lifecycleSuccess
             (item\<lparr>item_commitResults := item_commitResults item @ [commitResult],
                   item_coordinatorDecisions := item_coordinatorDecisions item @ [decision],
                   item_updatedAt := ac_attachedAt input\<rparr>)
             (Some commitResult))"

definition markQueueItemDone ::
    "SmartQueueDogfoodLifecycleItem \<Rightarrow> MarkDoneInput \<Rightarrow> unit SmartQueueLifecycleTransitionResult" where
  "markQueueItemDone item input =
     (case assertTicketState item ''markQueueItemDone'' [TkInReview] of
        Some stateError \<Rightarrow> lifecycleFailure item stateError
      | None \<Rightarrow>
        if item_reviewOutcome item \<noteq> Some OutCompleted
        then lifecycleFailure item
          (transitionError ''markQueueItemDone'' ErrMissingReviewOutcome None item
             ''Done requires a completed agent review outcome.'')
        else if length (item_validationApprovals item) = 0
        then lifecycleFailure item
          (transitionError ''markQueueItemDone'' ErrMissingValidationApproval None item
             ''Done requires an explicit validation approval record.'')
        else if \<not> list_ex (\<lambda>result. cres_status result = CommitSuccess) (item_commitResults item)
        then lifecycleFailure item
          (transitionError ''markQueueItemDone'' ErrMissingCommitResult None item
             ''Done requires a successful commit result placeholder in this MVP model.'')
        else lifecycleSuccess
          (item\<lparr>item_coordinatorDecisions := item_coordinatorDecisions item @
                  [coordinatorDecision DkMarkDone (md_decisionId input) (item_taskId item)
                     (Some (md_coordinatorAgentId input)) (md_completedAt input)
                     (js_or_str (cleanText (Some (md_reason input))) ''Queue item done.'')],
                item_ticketState := TkDone, item_updatedAt := md_completedAt input\<rparr>) None)"

record FollowUpOptions =
  fo_decisionId :: "string option"
  fo_coordinatorAgentId :: "string option"

definition returnToRunningWithAddedPrompt ::
    "SmartQueueDogfoodLifecycleItem \<Rightarrow> SmartQueueFollowUpPrompt \<Rightarrow> FollowUpOptions option
     \<Rightarrow> SmartQueueFollowUpPrompt SmartQueueLifecycleTransitionResult" where
  "returnToRunningWithAddedPrompt item followUpPrompt options =
     (case assertTicketState item ''returnToRunningWithAddedPrompt'' [TkInReview] of
        Some stateError \<Rightarrow> lifecycleFailure item stateError
      | None \<Rightarrow>
        if fup_taskId followUpPrompt \<noteq> item_taskId item \<or> cleanText (Some (fup_prompt followUpPrompt)) = []
        then lifecycleFailure item
          (transitionError ''returnToRunningWithAddedPrompt'' ErrInvalidFollowUpPrompt None item
             ''Follow-up prompt must target this Queue item and include runnable prompt text.'')
        else let agentId = js_coalesce (Option.bind options fo_coordinatorAgentId)
                   (Some (fup_createdByCoordinatorAgentId followUpPrompt));
                 decision = (coordinatorDecision DkAddFollowUpPrompt
                   (js_default (''decision:'' @ fup_followUpPromptId followUpPrompt)
                      (Option.bind options fo_decisionId))
                   (item_taskId item) agentId (fup_createdAt followUpPrompt) ''Follow-up prompt added.'')
                   \<lparr>dec_followUpPromptId := Some (fup_followUpPromptId followUpPrompt)\<rparr>;
                 runningDecision = (coordinatorDecision DkReturnToRunningAddedPrompt
                   (dec_decisionId decision @ '':return-to-running'')
                   (item_taskId item) agentId (fup_createdAt followUpPrompt)
                   ''Returned to running with added prompt.'')
                   \<lparr>dec_followUpPromptId := Some (fup_followUpPromptId followUpPrompt)\<rparr>
        in lifecycleSuccess
          (item\<lparr>item_additionalPromptCount := item_additionalPromptCount item + 1,
                item_agentPromptState := ApAdditionalPromptRunning,
                item_coordinatorDecisions := item_coordinatorDecisions item @ [decision, runningDecision],
                item_currentRunnablePrompt := Some (fup_prompt followUpPrompt),
                item_currentThreadId := js_coalesce (fup_threadId followUpPrompt) (item_currentThreadId item),
                item_followUpPrompts := item_followUpPrompts item @ [followUpPrompt],
                item_ticketState := TkRunning, item_updatedAt := fup_createdAt followUpPrompt\<rparr>)
          (Some followUpPrompt))"

definition addFollowUpPrompt ::
    "SmartQueueDogfoodLifecycleItem \<Rightarrow> AddFollowUpPromptInput
     \<Rightarrow> SmartQueueFollowUpPrompt SmartQueueLifecycleTransitionResult" where
  "addFollowUpPrompt item input =
     returnToRunningWithAddedPrompt item
       \<lparr>fup_followUpPromptId = af_followUpPromptId input, fup_taskId = item_taskId item,
        fup_parentAttemptId = js_coalesce (af_parentAttemptId input) (item_currentAttemptId item),
        fup_threadId = js_coalesce (af_threadId input) (item_currentThreadId item),
        fup_prompt = cleanText (Some (af_prompt input)),
        fup_createdByCoordinatorAgentId = af_createdByCoordinatorAgentId input,
        fup_createdAt = af_createdAt input\<rparr>
       (Some \<lparr>fo_decisionId =
                Some (js_default (''decision:'' @ af_followUpPromptId input) (af_decisionId input)),
              fo_coordinatorAgentId = Some (af_createdByCoordinatorAgentId input)\<rparr>)"

definition blockQueueItem ::
    "SmartQueueDogfoodLifecycleItem \<Rightarrow> BlockQueueItemInput \<Rightarrow> unit SmartQueueLifecycleTransitionResult" where
  "blockQueueItem item input =
     (case assertTicketState item ''blockQueueItem'' [TkInReview] of
        Some stateError \<Rightarrow> lifecycleFailure item stateError
      | None \<Rightarrow>
        (let reason = js_or_str (cleanText (Some (bq_reason input))) ''Blocked by coordinator decision.'' in
         lifecycleSuccess
           (item\<lparr>item_blockedReason := Some reason,
                 item_coordinatorDecisions := item_coordinatorDecisions item @
                   [coordinatorDecision DkBlockTask (bq_decisionId input) (item_taskId item)
                      (Some (bq_coordinatorAgentId input)) (bq_blockedAt input) reason],
                 item_ticketState := TkBlocked, item_updatedAt := bq_blockedAt input\<rparr>) None))"

definition failQueueItem ::
    "SmartQueueDogfoodLifecycleItem \<Rightarrow> FailQueueItemInput \<Rightarrow> unit SmartQueueLifecycleTransitionResult" where
  "failQueueItem item input =
     (case assertTicketState item ''failQueueItem'' [TkInReview] of
        Some stateError \<Rightarrow> lifecycleFailure item stateError
      | None \<Rightarrow>
        (let reason = js_or_str (cleanText (Some (fq_reason input))) ''Failed by coordinator decision.'' in
         lifecycleSuccess
           (item\<lparr>item_coordinatorDecisions := item_coordinatorDecisions item @
                   [coordinatorDecision DkFailTask (fq_decisionId input) (item_taskId item)
                      (Some (fq_coordinatorAgentId input)) (fq_failedAt input) reason],
                 item_failureReason := Some reason,
                 item_ticketState := TkFailure, item_updatedAt := fq_failedAt input\<rparr>) None))"

end
