(* ===== verification/Lifecycle_Machine.thy ===== *)
theory Lifecycle_Machine
  imports Lifecycle
begin

text \<open>
  The lifecycle as a state machine: the transitions of
  \<open>workbench/queue/smartQueueDogfoodLifecycleController.ts\<close> (\<open>applyDogfoodLifecycleTransition\<close> and what
  it calls), the contract every operation of the lifecycle meets (\<open>lifecycle_operation\<close>), the items
  reachable from a new one and the invariant they have.
\<close>

section \<open>Transitions\<close>

record ApplyAgentFinishedInput =
  aaf_attemptId :: "string option"
  aaf_changedFilesSummary :: "string option"
  aaf_finalAgentMessage :: string
  aaf_finishedAt :: string
  aaf_outcome :: SmartQueueDogfoodReviewOutcome
  aaf_threadId :: "string option"
  aaf_validationSummary :: "string option"
  aaf_workerEvidenceBundle :: "QueueWorkerEvidenceBundle option"

record ApplyDoneDecisionInput =
  add_commitAttachedAt :: string
  add_commitHash :: "string option"
  add_commitRequestCreatedAt :: string
  add_commitRequestId :: string
  add_commitRequestReason :: string
  add_commitResultId :: string
  add_commitResultSummary :: string
  add_completedAt :: string
  add_coordinatorAgentId :: string
  add_decisionId :: string
  add_reason :: string
  add_validationApprovedAt :: string
  add_validationApprovalId :: string
  add_validationSummary :: string

datatype QueueDogfoodLifecycleTransition =
  TrQueue string
| TrStartRun StartQueueItemRunInput
| TrAgentFinished ApplyAgentFinishedInput
| TrCreateReviewMessage CreateReviewMessageInput
| TrCoordinatorAck AcknowledgeReviewMessageInput
| TrApproveValidation ApproveValidationInput
| TrRequestCommit RequestCommitInput
| TrAttachFakeCommitResult AttachCommitResultInput
| TrMarkDone ApplyDoneDecisionInput
| TrFollowUpPrompt AddFollowUpPromptInput
| TrBlock BlockQueueItemInput
| TrFail FailQueueItemInput

datatype TransitionValue =
  VNothing | VReviewMessage SmartQueueReviewMessage | VAck SmartQueueReviewAck
| VApproval SmartQueueValidationApproval | VCommitRequest SmartQueueCommitRequest
| VCommitResult SmartQueueCommitResult | VFollowUp SmartQueueFollowUpPrompt

text \<open>The result type is \<open>TransitionResult<unknown>\<close>: the value keeps its type in a sum.\<close>

definition mapResult ::
    "('v \<Rightarrow> 'w) \<Rightarrow> 'v SmartQueueLifecycleTransitionResult \<Rightarrow> 'w SmartQueueLifecycleTransitionResult" where
  "mapResult f r = \<lparr>res_ok = res_ok r, res_item = res_item r, res_value = map_option f (res_value r),
     res_error = res_error r\<rparr>"

definition applyAgentFinishedToQueueLifecycle ::
    "SmartQueueDogfoodLifecycleItem \<Rightarrow> ApplyAgentFinishedInput \<Rightarrow> unit SmartQueueLifecycleTransitionResult" where
  "applyAgentFinishedToQueueLifecycle item input =
     (let i = \<lparr>ca_attemptId = aaf_attemptId input, ca_threadId = aaf_threadId input,
               ca_finalAgentMessage = aaf_finalAgentMessage input,
               ca_validationSummary = aaf_validationSummary input,
               ca_changedFilesSummary = aaf_changedFilesSummary input,
               ca_completedAt = aaf_finishedAt input,
               ca_workerEvidenceBundle = aaf_workerEvidenceBundle input\<rparr>
      in case aaf_outcome input of
           OutCompleted \<Rightarrow> completeAgentPrompt item i
         | OutNotCompleted \<Rightarrow> markAgentPromptNotCompleted item i
         | OutFailed \<Rightarrow> failAgentPrompt item i)"

definition applyCoordinatorAckToQueueLifecycle ::
    "SmartQueueDogfoodLifecycleItem \<Rightarrow> AcknowledgeReviewMessageInput
     \<Rightarrow> SmartQueueReviewAck SmartQueueLifecycleTransitionResult" where
  "applyCoordinatorAckToQueueLifecycle item input = acknowledgeReviewMessage item input"

definition applyCoordinatorDoneDecisionToQueueLifecycle ::
    "SmartQueueDogfoodLifecycleItem \<Rightarrow> ApplyDoneDecisionInput
     \<Rightarrow> TransitionValue SmartQueueLifecycleTransitionResult" where
  "applyCoordinatorDoneDecisionToQueueLifecycle item input =
     (let approved = approveValidation item
        \<lparr>av_validationApprovalId = add_validationApprovalId input,
         av_approvedByCoordinatorAgentId = add_coordinatorAgentId input,
         av_summary = add_validationSummary input, av_approvedAt = add_validationApprovedAt input,
         av_decisionId = None\<rparr>
      in if \<not> res_ok approved then mapResult VApproval approved
      else let commitRequested = requestCommit (res_item approved)
        \<lparr>rc_commitRequestId = add_commitRequestId input,
         rc_requestedByCoordinatorAgentId = add_coordinatorAgentId input,
         rc_reason = add_commitRequestReason input, rc_createdAt = add_commitRequestCreatedAt input,
         rc_decisionId = None\<rparr>
      in if \<not> res_ok commitRequested then mapResult VCommitRequest commitRequested
      else let commitAttached = attachCommitResult (res_item commitRequested)
        \<lparr>ac_commitResultId = add_commitResultId input, ac_commitRequestId = Some (add_commitRequestId input),
         ac_status = CommitSuccess, ac_commitHash = add_commitHash input,
         ac_summary = add_commitResultSummary input, ac_attachedAt = add_commitAttachedAt input,
         ac_coordinatorAgentId = None, ac_decisionId = None\<rparr>
      in if \<not> res_ok commitAttached then mapResult VCommitResult commitAttached
      else mapResult (\<lambda>_. VNothing) (markQueueItemDone (res_item commitAttached)
        \<lparr>md_decisionId = add_decisionId input, md_coordinatorAgentId = add_coordinatorAgentId input,
         md_reason = add_reason input, md_completedAt = add_completedAt input\<rparr>))"

definition applyCoordinatorFollowUpDecisionToQueueLifecycle ::
    "SmartQueueDogfoodLifecycleItem \<Rightarrow> AddFollowUpPromptInput
     \<Rightarrow> SmartQueueFollowUpPrompt SmartQueueLifecycleTransitionResult" where
  "applyCoordinatorFollowUpDecisionToQueueLifecycle item input = addFollowUpPrompt item input"

fun applyDogfoodLifecycleTransition ::
    "SmartQueueDogfoodLifecycleItem \<Rightarrow> QueueDogfoodLifecycleTransition
     \<Rightarrow> TransitionValue SmartQueueLifecycleTransitionResult" where
  "applyDogfoodLifecycleTransition item (TrQueue queuedAt) =
     mapResult (\<lambda>_. VNothing) (queueDogfoodLifecycleItem item queuedAt)"
| "applyDogfoodLifecycleTransition item (TrStartRun i) =
     mapResult (\<lambda>_. VNothing) (startQueueItemRun item i)"
| "applyDogfoodLifecycleTransition item (TrAgentFinished i) =
     mapResult (\<lambda>_. VNothing) (applyAgentFinishedToQueueLifecycle item i)"
| "applyDogfoodLifecycleTransition item (TrCreateReviewMessage i) =
     mapResult VReviewMessage (createReviewMessage item i)"
| "applyDogfoodLifecycleTransition item (TrCoordinatorAck i) =
     mapResult VAck (applyCoordinatorAckToQueueLifecycle item i)"
| "applyDogfoodLifecycleTransition item (TrApproveValidation i) =
     mapResult VApproval (approveValidation item i)"
| "applyDogfoodLifecycleTransition item (TrRequestCommit i) =
     mapResult VCommitRequest (requestCommit item i)"
| "applyDogfoodLifecycleTransition item (TrAttachFakeCommitResult i) =
     mapResult VCommitResult (attachCommitResult item i)"
| "applyDogfoodLifecycleTransition item (TrMarkDone i) =
     applyCoordinatorDoneDecisionToQueueLifecycle item i"
| "applyDogfoodLifecycleTransition item (TrFollowUpPrompt i) =
     mapResult VFollowUp (applyCoordinatorFollowUpDecisionToQueueLifecycle item i)"
| "applyDogfoodLifecycleTransition item (TrBlock i) = mapResult (\<lambda>_. VNothing) (blockQueueItem item i)"
| "applyDogfoodLifecycleTransition item (TrFail i) = mapResult (\<lambda>_. VNothing) (failQueueItem item i)"

lemma mapResult_simps [simp]:
  "res_ok (mapResult f r) = res_ok r" "res_item (mapResult f r) = res_item r"
  "res_error (mapResult f r) = res_error r"
  by (simp_all add: mapResult_def)

lemma lifecycleSuccess_simps [simp]:
  "res_ok (lifecycleSuccess item v)" "res_item (lifecycleSuccess item v) = item"
  "res_error (lifecycleSuccess item v) = None"
  by (simp_all add: lifecycleSuccess_def)

lemma lifecycleFailure_simps [simp]:
  "\<not> res_ok (lifecycleFailure item e)" "res_item (lifecycleFailure item e) = item"
  "res_error (lifecycleFailure item e) = Some e"
  by (simp_all add: lifecycleFailure_def)

lemma assertTicketState_None_iff [simp]:
  "assertTicketState item action states = None \<longleftrightarrow>
     \<not> isTerminalTicketState (item_ticketState item) \<and> item_ticketState item \<in> set states"
  by (simp add: assertTicketState_def)

section \<open>The contract of an operation\<close>

text \<open>The records an item accumulates are never changed or dropped, and its identity is fixed.\<close>

definition extends ::
    "SmartQueueDogfoodLifecycleItem \<Rightarrow> SmartQueueDogfoodLifecycleItem \<Rightarrow> bool" where
  "extends item item' \<longleftrightarrow>
     item_taskId item' = item_taskId item \<and> item_title item' = item_title item \<and>
     item_originalPrompt item' = item_originalPrompt item \<and> item_createdAt item' = item_createdAt item \<and>
     item_sideEffects item' = item_sideEffects item \<and>
     prefix (item_followUpPrompts item) (item_followUpPrompts item') \<and>
     prefix (item_reviewMessages item) (item_reviewMessages item') \<and>
     prefix (item_reviewAcks item) (item_reviewAcks item') \<and>
     prefix (item_coordinatorDecisions item) (item_coordinatorDecisions item') \<and>
     prefix (item_validationApprovals item) (item_validationApprovals item') \<and>
     prefix (item_commitRequests item) (item_commitRequests item') \<and>
     prefix (item_commitResults item) (item_commitResults item')"

lemma extends_refl [simp]: "extends item item"
  by (simp add: extends_def)

lemma extends_trans: "extends a b \<Longrightarrow> extends b c \<Longrightarrow> extends a c"
  unfolding extends_def by (auto intro: prefix_order.trans)

fun finishedPromptState :: "SmartQueueDogfoodReviewOutcome \<Rightarrow> SmartQueueDogfoodAgentPromptState" where
  "finishedPromptState OutCompleted = ApCompleted"
| "finishedPromptState OutNotCompleted = ApNotCompleted"
| "finishedPromptState OutFailed = ApFailed"

text \<open>The ticket state and the state of the agent's prompt go together.\<close>

fun phaseInv ::
    "SmartQueueDogfoodTicketState \<Rightarrow> SmartQueueDogfoodAgentPromptState
     \<Rightarrow> SmartQueueDogfoodReviewOutcome option \<Rightarrow> string option \<Rightarrow> string option \<Rightarrow> bool" where
  "phaseInv TkDraft p oc msg prompt \<longleftrightarrow> p = ApIdle \<and> oc = None"
| "phaseInv TkQueued p oc msg prompt \<longleftrightarrow> p = ApIdle \<and> oc = None"
| "phaseInv TkRunning p oc msg prompt \<longleftrightarrow>
     (p = ApRunning \<or> p = ApAdditionalPromptRunning) \<and> js_has_text prompt"
| "phaseInv _ p oc msg prompt \<longleftrightarrow> oc \<noteq> None \<and> p = finishedPromptState (the oc) \<and> js_has_text msg"

text \<open>Each record belongs to the item, and refers to what was recorded before it.\<close>

definition ownRecords :: "SmartQueueDogfoodLifecycleItem \<Rightarrow> bool" where
  "ownRecords item \<longleftrightarrow>
     fup_taskId ` set (item_followUpPrompts item) \<subseteq> {item_taskId item} \<and>
     msg_taskId ` set (item_reviewMessages item) \<subseteq> {item_taskId item} \<and>
     dec_taskId ` set (item_coordinatorDecisions item) \<subseteq> {item_taskId item} \<and>
     appr_taskId ` set (item_validationApprovals item) \<subseteq> {item_taskId item} \<and>
     creq_taskId ` set (item_commitRequests item) \<subseteq> {item_taskId item} \<and>
     cres_taskId ` set (item_commitResults item) \<subseteq> {item_taskId item}"

definition linkedRecords :: "SmartQueueDogfoodLifecycleItem \<Rightarrow> bool" where
  "linkedRecords item \<longleftrightarrow>
     item_additionalPromptCount item = length (item_followUpPrompts item) \<and>
     (\<lambda>a. (ack_messageId a, ack_coordinatorAgentId a)) ` set (item_reviewAcks item)
       \<subseteq> (\<lambda>m. (msg_messageId m, msg_toCoordinatorAgentId m)) ` set (item_reviewMessages item) \<and>
     cres_commitRequestId ` set (item_commitResults item)
       \<subseteq> insert (Some []) ((\<lambda>r. Some (creq_commitRequestId r)) ` set (item_commitRequests item)) \<and>
     (item_commitRequests item = [] \<or> item_validationApprovals item \<noteq> []) \<and>
     (item_commitResults item = [] \<or> item_commitRequests item \<noteq> [])"

definition reviewedTicket :: "SmartQueueDogfoodTicketState \<Rightarrow> bool" where
  "reviewedTicket s \<longleftrightarrow> s \<in> {TkInReview, TkDone, TkFailure, TkBlocked}"

definition gateInv :: "SmartQueueDogfoodLifecycleItem \<Rightarrow> bool" where
  "gateInv item \<longleftrightarrow>
     (reviewedTicket (item_ticketState item) \<longrightarrow> item_reviewAcks item \<noteq> []) \<and>
     (item_ticketState item = TkDone \<longrightarrow>
        item_reviewOutcome item = Some OutCompleted \<and> item_validationApprovals item \<noteq> [] \<and>
        CommitSuccess \<in> cres_status ` set (item_commitResults item))"

definition lifecycleInv :: "SmartQueueDogfoodLifecycleItem \<Rightarrow> bool" where
  "lifecycleInv item \<longleftrightarrow>
     phaseInv (item_ticketState item) (item_agentPromptState item) (item_reviewOutcome item)
       (item_finalAgentMessage item) (item_currentRunnablePrompt item) \<and>
     ownRecords item \<and> linkedRecords item \<and> gateInv item \<and>
     item_sideEffects item = NO_DOGFOOD_LIFECYCLE_SIDE_EFFECTS"

lemmas lifecycleInv_defs = lifecycleInv_def ownRecords_def linkedRecords_def gateInv_def reviewedTicket_def

locale lifecycle_operation =
  fixes operate :: "SmartQueueDogfoodLifecycleItem \<Rightarrow> 'i \<Rightarrow> 'v SmartQueueLifecycleTransitionResult"
    and source :: SmartQueueDogfoodTicketState
    and target :: SmartQueueDogfoodTicketState
  assumes refused: "\<not> res_ok (operate item input) \<Longrightarrow>
      res_item (operate item input) = item \<and> res_error (operate item input) \<noteq> None"
    and accepted: "res_ok (operate item input) \<Longrightarrow>
      item_ticketState item = source \<and> item_ticketState (res_item (operate item input)) = target"
    and source_open: "source \<notin> {TkDone, TkFailure, TkBlocked}"
    and extended: "res_ok (operate item input) \<Longrightarrow> extends item (res_item (operate item input))"
    and kept: "res_ok (operate item input) \<Longrightarrow> lifecycleInv item \<Longrightarrow>
      lifecycleInv (res_item (operate item input))"
begin

lemma keeps_inv: "lifecycleInv item \<Longrightarrow> lifecycleInv (res_item (operate item input))"
  using refused kept by (cases "res_ok (operate item input)") auto

lemma keeps_records: "extends item (res_item (operate item input))"
  using refused extended by (cases "res_ok (operate item input)") auto

lemma follows_edge:
  "(item_ticketState item, item_ticketState (res_item (operate item input))) \<in> {(source, target)} \<union> Id"
  using refused accepted by (cases "res_ok (operate item input)") auto

lemma closed_ticket_refused:
  "item_ticketState item \<in> {TkDone, TkFailure, TkBlocked} \<Longrightarrow> \<not> res_ok (operate item input)"
  using accepted source_open by blast

end

section \<open>Every operation meets it\<close>

lemma cleanText_Some [simp]: "cleanText (Some s) = js_trim s"
  by (simp add: cleanText_def)

lemma js_has_text_trim [simp]: "js_has_text (Some (js_trim s)) \<longleftrightarrow> js_trim s \<noteq> []"
  by (simp add: js_blank_def)

lemma js_has_text_cleanText [simp]: "js_has_text (Some (cleanText v)) \<longleftrightarrow> cleanText v \<noteq> []"
  by (cases v) (simp_all add: cleanText_def js_blank_def)

lemma coordinatorDecision_taskId [simp]: "dec_taskId (coordinatorDecision k d t c a r) = t"
  by (simp add: coordinatorDecision_def)

lemma isTerminalTicketState_simps [simp]:
  "isTerminalTicketState TkDone" "isTerminalTicketState TkFailure" "\<not> isTerminalTicketState TkDraft"
  "\<not> isTerminalTicketState TkQueued" "\<not> isTerminalTicketState TkRunning"
  "\<not> isTerminalTicketState TkAwaitingReview" "\<not> isTerminalTicketState TkInReview"
  "\<not> isTerminalTicketState TkBlocked"
  by (simp_all add: isTerminalTicketState_def)

lemma case_assertTicketState [simp]:
  "\<not> isTerminalTicketState s \<Longrightarrow>
   (case assertTicketState item action [s] of None \<Rightarrow> g | Some e \<Rightarrow> f e) =
   (if item_ticketState item = s then g else f (the (assertTicketState item action [s])))"
  by (auto simp: assertTicketState_def)

lemma js_blank_cleanText [simp]: "js_blank (cleanText v) \<longleftrightarrow> cleanText v = []"
  by (cases v) (simp_all add: cleanText_def js_blank_def)

lemma ex_assertTicketState [simp]:
  "(\<exists>e. assertTicketState item action states = Some e) \<longleftrightarrow>
     isTerminalTicketState (item_ticketState item) \<or> item_ticketState item \<notin> set states"
  by (simp add: assertTicketState_def)

interpretation queueing: lifecycle_operation queueDogfoodLifecycleItem TkDraft TkQueued
  by unfold_locales
    (auto simp: queueDogfoodLifecycleItem_def extends_def lifecycleInv_defs split: if_splits)

interpretation starting: lifecycle_operation startQueueItemRun TkQueued TkRunning
  by unfold_locales
    (auto simp: startQueueItemRun_def Let_def extends_def lifecycleInv_defs split: if_splits)

lemma applyAgentFinished_eq:
  "applyAgentFinishedToQueueLifecycle item input =
     finishAgentPrompt item (finishInput (finishedPromptState (aaf_outcome input)) (aaf_outcome input)
       (case aaf_outcome input of OutCompleted \<Rightarrow> ''completeAgentPrompt''
          | OutNotCompleted \<Rightarrow> ''markAgentPromptNotCompleted'' | OutFailed \<Rightarrow> ''failAgentPrompt'')
       \<lparr>ca_attemptId = aaf_attemptId input, ca_threadId = aaf_threadId input,
        ca_finalAgentMessage = aaf_finalAgentMessage input,
        ca_validationSummary = aaf_validationSummary input,
        ca_changedFilesSummary = aaf_changedFilesSummary input,
        ca_completedAt = aaf_finishedAt input,
        ca_workerEvidenceBundle = aaf_workerEvidenceBundle input\<rparr>)"
  by (simp add: applyAgentFinishedToQueueLifecycle_def completeAgentPrompt_def
      markAgentPromptNotCompleted_def failAgentPrompt_def Let_def
      split: SmartQueueDogfoodReviewOutcome.split)

interpretation finishing: lifecycle_operation applyAgentFinishedToQueueLifecycle TkRunning TkAwaitingReview
  by unfold_locales
    (auto simp: applyAgentFinished_eq finishAgentPrompt_def finishInput_def Let_def extends_def
       lifecycleInv_defs js_blank_def split: if_splits)

lemma createReviewMessage_refused:
  "\<not> res_ok (createReviewMessage item input) \<Longrightarrow>
   res_item (createReviewMessage item input) = item \<and> res_error (createReviewMessage item input) \<noteq> None"
  by (cases "item_reviewOutcome item") (auto simp: createReviewMessage_def Let_def split: if_splits)

lemma createReviewMessage_accepted:
  assumes "res_ok (createReviewMessage item input)"
  shows "item_ticketState item = TkAwaitingReview \<and>
    (\<exists>message. res_value (createReviewMessage item input) = Some message \<and>
       msg_taskId message = item_taskId item \<and> msg_fromQueueItemId message = item_taskId item \<and>
       msg_messageId message = crm_messageId input \<and>
       msg_toCoordinatorAgentId message = crm_toCoordinatorAgentId input \<and>
       Some (msg_reviewOutcome message) = item_reviewOutcome item \<and>
       res_item (createReviewMessage item input) =
         item\<lparr>item_reviewMessages := item_reviewMessages item @ [message],
              item_updatedAt := crm_createdAt input\<rparr>)"
  using assms
  by (cases "item_reviewOutcome item")
     (auto simp: createReviewMessage_def Let_def lifecycleSuccess_def lifecycleFailure_def split: if_splits)

interpretation messaging: lifecycle_operation createReviewMessage TkAwaitingReview TkAwaitingReview
proof
  fix item input
  assume ok: "res_ok (createReviewMessage item input)"
  from createReviewMessage_accepted [OF ok] obtain message where
    m: "item_ticketState item = TkAwaitingReview" "msg_taskId message = item_taskId item"
      "res_item (createReviewMessage item input) =
         item\<lparr>item_reviewMessages := item_reviewMessages item @ [message],
              item_updatedAt := crm_createdAt input\<rparr>" by blast
  show "item_ticketState item = TkAwaitingReview \<and>
      item_ticketState (res_item (createReviewMessage item input)) = TkAwaitingReview"
    by (simp add: m)
  show "extends item (res_item (createReviewMessage item input))" by (simp add: m extends_def)
  show "lifecycleInv item \<Longrightarrow> lifecycleInv (res_item (createReviewMessage item input))"
    unfolding m(3) using m(1,2) by (simp add: lifecycleInv_defs) blast
qed (use createReviewMessage_refused in auto)

lemma find_message:
  "List.find (\<lambda>m. msg_messageId m = i) ms = Some m \<Longrightarrow>
   (i, msg_toCoordinatorAgentId m) \<in> (\<lambda>x. (msg_messageId x, msg_toCoordinatorAgentId x)) ` set ms"
  by (drule find_Some_iff_mem) force

interpretation acknowledging:
  lifecycle_operation applyCoordinatorAckToQueueLifecycle TkAwaitingReview TkInReview
  by unfold_locales
    (auto simp: applyCoordinatorAckToQueueLifecycle_def acknowledgeReviewMessage_def Let_def extends_def
       lifecycleInv_defs dest!: find_message split: if_splits option.splits)

interpretation approving: lifecycle_operation approveValidation TkInReview TkInReview
  by unfold_locales
    (auto simp: approveValidation_def Let_def extends_def lifecycleInv_defs split: if_splits)

interpretation committing: lifecycle_operation requestCommit TkInReview TkInReview
  by unfold_locales
    (auto simp: requestCommit_def Let_def extends_def lifecycleInv_defs split: if_splits)

lemma list_ex_image:
  "list_ex (\<lambda>r. f r = v) rs \<longleftrightarrow> v \<in> f ` set rs"
  by (induction rs) auto

lemma js_truthy_coalesce_Some:
  "js_truthy_str (js_coalesce v (Some s)) \<longleftrightarrow> js_coalesce v (Some s) \<noteq> Some []"
  by (cases v) auto

interpretation attaching: lifecycle_operation attachCommitResult TkInReview TkInReview
  by unfold_locales
    (auto simp: attachCommitResult_def Let_def extends_def lifecycleInv_defs list_ex_image
       js_truthy_coalesce_Some split: if_splits)

interpretation completing: lifecycle_operation markQueueItemDone TkInReview TkDone
  by unfold_locales
    (auto simp: markQueueItemDone_def Let_def extends_def lifecycleInv_defs list_ex_image split: if_splits)

interpretation following_up:
  lifecycle_operation applyCoordinatorFollowUpDecisionToQueueLifecycle TkInReview TkRunning
  by unfold_locales
    (auto simp: applyCoordinatorFollowUpDecisionToQueueLifecycle_def addFollowUpPrompt_def
       returnToRunningWithAddedPrompt_def Let_def extends_def lifecycleInv_defs js_blank_def
       split: if_splits)

interpretation blocking: lifecycle_operation blockQueueItem TkInReview TkBlocked
  by unfold_locales
    (auto simp: blockQueueItem_def Let_def extends_def lifecycleInv_defs split: if_splits)

interpretation failing: lifecycle_operation failQueueItem TkInReview TkFailure
  by unfold_locales
    (auto simp: failQueueItem_def Let_def extends_def lifecycleInv_defs split: if_splits)

section \<open>The machine\<close>

text \<open>What the four operations of the composite decision keep, the decision keeps.\<close>

lemma apply_done_closed:
  assumes "P item"
    and "\<And>x i. P x \<Longrightarrow> P (res_item (approveValidation x i))"
    and "\<And>x i. P x \<Longrightarrow> P (res_item (requestCommit x i))"
    and "\<And>x i. P x \<Longrightarrow> P (res_item (attachCommitResult x i))"
    and "\<And>x i. P x \<Longrightarrow> P (res_item (markQueueItemDone x i))"
  shows "P (res_item (applyCoordinatorDoneDecisionToQueueLifecycle item input))"
  unfolding applyCoordinatorDoneDecisionToQueueLifecycle_def Let_def by (simp add: assms)

lemma apply_done_inv:
  "lifecycleInv item \<Longrightarrow> lifecycleInv (res_item (applyCoordinatorDoneDecisionToQueueLifecycle item input))"
  by (rule apply_done_closed) (simp_all add: approving.keeps_inv committing.keeps_inv
      attaching.keeps_inv completing.keeps_inv)

lemma apply_done_records:
  "extends item (res_item (applyCoordinatorDoneDecisionToQueueLifecycle item input))"
  by (rule apply_done_closed [of "extends item"])
     (auto intro: extends_trans approving.keeps_records committing.keeps_records
        attaching.keeps_records completing.keeps_records)

definition ticketEdges :: "(SmartQueueDogfoodTicketState \<times> SmartQueueDogfoodTicketState) set" where
  "ticketEdges = {(TkDraft, TkQueued), (TkQueued, TkRunning), (TkRunning, TkAwaitingReview),
     (TkAwaitingReview, TkInReview), (TkInReview, TkRunning), (TkInReview, TkDone),
     (TkInReview, TkBlocked), (TkInReview, TkFailure)}"

lemma apply_done_refused:
  "item_ticketState item \<noteq> TkInReview \<Longrightarrow>
   \<not> res_ok (applyCoordinatorDoneDecisionToQueueLifecycle item input) \<and>
   res_item (applyCoordinatorDoneDecisionToQueueLifecycle item input) = item"
  by (simp add: applyCoordinatorDoneDecisionToQueueLifecycle_def Let_def approveValidation_def)

lemma approveValidation_InReview:
  "item_ticketState item = TkInReview \<Longrightarrow>
   res_ok (approveValidation item i) \<and>
   item_ticketState (res_item (approveValidation item i)) = TkInReview \<and>
   item_reviewOutcome (res_item (approveValidation item i)) = item_reviewOutcome item \<and>
   item_validationApprovals (res_item (approveValidation item i)) \<noteq> []"
  by (simp add: approveValidation_def Let_def)

lemma requestCommit_InReview:
  "item_ticketState item = TkInReview \<Longrightarrow> item_validationApprovals item \<noteq> [] \<Longrightarrow>
   res_ok (requestCommit item i) \<and>
   item_ticketState (res_item (requestCommit item i)) = TkInReview \<and>
   item_reviewOutcome (res_item (requestCommit item i)) = item_reviewOutcome item \<and>
   item_validationApprovals (res_item (requestCommit item i)) \<noteq> [] \<and>
   Some (rc_commitRequestId i)
     \<in> (\<lambda>r. Some (creq_commitRequestId r)) ` set (item_commitRequests (res_item (requestCommit item i)))"
  by (simp add: requestCommit_def Let_def)

lemma attachCommitResult_InReview:
  assumes "item_ticketState item = TkInReview"
    and "ac_commitRequestId i \<in> (\<lambda>r. Some (creq_commitRequestId r)) ` set (item_commitRequests item)"
    and "ac_status i = CommitSuccess"
  shows "res_ok (attachCommitResult item i) \<and>
   item_ticketState (res_item (attachCommitResult item i)) = TkInReview \<and>
   item_reviewOutcome (res_item (attachCommitResult item i)) = item_reviewOutcome item \<and>
   item_validationApprovals (res_item (attachCommitResult item i)) = item_validationApprovals item \<and>
   CommitSuccess \<in> cres_status ` set (item_commitResults (res_item (attachCommitResult item i)))"
proof -
  obtain r where r: "r \<in> set (item_commitRequests item)" "ac_commitRequestId i = Some (creq_commitRequestId r)"
    using assms(2) by auto
  then have "item_commitRequests item \<noteq> []" by auto
  with assms r show ?thesis
    by (auto simp: attachCommitResult_def Let_def list_ex_iff)
qed

lemma markQueueItemDone_ok_iff:
  "res_ok (markQueueItemDone item i) \<longleftrightarrow>
     item_ticketState item = TkInReview \<and> item_reviewOutcome item = Some OutCompleted \<and>
     item_validationApprovals item \<noteq> [] \<and> CommitSuccess \<in> cres_status ` set (item_commitResults item)"
  by (auto simp: markQueueItemDone_def list_ex_image)

lemma apply_done_InReview:
  assumes "item_ticketState item = TkInReview"
  shows "res_ok (applyCoordinatorDoneDecisionToQueueLifecycle item input) \<longleftrightarrow>
           item_reviewOutcome item = Some OutCompleted"
    and "item_ticketState (res_item (applyCoordinatorDoneDecisionToQueueLifecycle item input)) =
           (if item_reviewOutcome item = Some OutCompleted then TkDone else TkInReview)"
proof -
  define av where "av = \<lparr>av_validationApprovalId = add_validationApprovalId input,
         av_approvedByCoordinatorAgentId = add_coordinatorAgentId input,
         av_summary = add_validationSummary input, av_approvedAt = add_validationApprovedAt input,
         av_decisionId = None\<rparr>"
  define rc where "rc = \<lparr>rc_commitRequestId = add_commitRequestId input,
         rc_requestedByCoordinatorAgentId = add_coordinatorAgentId input,
         rc_reason = add_commitRequestReason input, rc_createdAt = add_commitRequestCreatedAt input,
         rc_decisionId = None\<rparr>"
  define ac where "ac = \<lparr>ac_commitResultId = add_commitResultId input, ac_commitRequestId = Some (add_commitRequestId input),
         ac_status = CommitSuccess, ac_commitHash = add_commitHash input,
         ac_summary = add_commitResultSummary input, ac_attachedAt = add_commitAttachedAt input,
         ac_coordinatorAgentId = None, ac_decisionId = None\<rparr>"
  define md where "md = \<lparr>md_decisionId = add_decisionId input, md_coordinatorAgentId = add_coordinatorAgentId input,
         md_reason = add_reason input, md_completedAt = add_completedAt input\<rparr>"
  define a where "a = res_item (approveValidation item av)"
  define b where "b = res_item (requestCommit a rc)"
  define c where "c = res_item (attachCommitResult b ac)"
  note A = approveValidation_InReview [OF assms, of av, folded a_def]
  then have B: "res_ok (requestCommit a rc) \<and> item_ticketState b = TkInReview \<and>
     item_reviewOutcome b = item_reviewOutcome item \<and> item_validationApprovals b \<noteq> [] \<and>
     Some (rc_commitRequestId rc) \<in> (\<lambda>r. Some (creq_commitRequestId r)) ` set (item_commitRequests b)"
    using requestCommit_InReview [of a rc] by (simp add: b_def)
  have C: "res_ok (attachCommitResult b ac) \<and> item_ticketState c = TkInReview \<and>
     item_reviewOutcome c = item_reviewOutcome item \<and> item_validationApprovals c \<noteq> [] \<and>
     CommitSuccess \<in> cres_status ` set (item_commitResults c)"
    using attachCommitResult_InReview [of b ac] B by (simp add: c_def ac_def rc_def)
  have D: "applyCoordinatorDoneDecisionToQueueLifecycle item input = mapResult (\<lambda>_. VNothing) (markQueueItemDone c md)"
    unfolding applyCoordinatorDoneDecisionToQueueLifecycle_def Let_def av_def [symmetric] rc_def [symmetric]
      ac_def [symmetric] md_def [symmetric] a_def [symmetric] b_def [symmetric] c_def [symmetric]
    using A B C by simp
  show ok: "res_ok (applyCoordinatorDoneDecisionToQueueLifecycle item input) \<longleftrightarrow>
      item_reviewOutcome item = Some OutCompleted"
    using C by (simp add: D markQueueItemDone_ok_iff)
  show "item_ticketState (res_item (applyCoordinatorDoneDecisionToQueueLifecycle item input)) =
      (if item_reviewOutcome item = Some OutCompleted then TkDone else TkInReview)"
    using ok C completing.accepted [of c md] completing.refused [of c md] by (auto simp: D)
qed


lemma apply_transition_closed:
  assumes "P item"
    and "\<And>x i. P x \<Longrightarrow> P (res_item (queueDogfoodLifecycleItem x i))"
    and "\<And>x i. P x \<Longrightarrow> P (res_item (startQueueItemRun x i))"
    and "\<And>x i. P x \<Longrightarrow> P (res_item (applyAgentFinishedToQueueLifecycle x i))"
    and "\<And>x i. P x \<Longrightarrow> P (res_item (createReviewMessage x i))"
    and "\<And>x i. P x \<Longrightarrow> P (res_item (applyCoordinatorAckToQueueLifecycle x i))"
    and "\<And>x i. P x \<Longrightarrow> P (res_item (approveValidation x i))"
    and "\<And>x i. P x \<Longrightarrow> P (res_item (requestCommit x i))"
    and "\<And>x i. P x \<Longrightarrow> P (res_item (attachCommitResult x i))"
    and "\<And>x i. P x \<Longrightarrow> P (res_item (applyCoordinatorDoneDecisionToQueueLifecycle x i))"
    and "\<And>x i. P x \<Longrightarrow> P (res_item (applyCoordinatorFollowUpDecisionToQueueLifecycle x i))"
    and "\<And>x i. P x \<Longrightarrow> P (res_item (blockQueueItem x i))"
    and "\<And>x i. P x \<Longrightarrow> P (res_item (failQueueItem x i))"
  shows "P (res_item (applyDogfoodLifecycleTransition item t))"
  by (cases t) (simp_all add: assms)

lemmas operations_keep_inv =
  queueing.keeps_inv starting.keeps_inv finishing.keeps_inv messaging.keeps_inv acknowledging.keeps_inv
  approving.keeps_inv committing.keeps_inv attaching.keeps_inv apply_done_inv following_up.keeps_inv
  blocking.keeps_inv failing.keeps_inv

lemmas operations_keep_records =
  queueing.keeps_records starting.keeps_records finishing.keeps_records messaging.keeps_records
  acknowledging.keeps_records approving.keeps_records committing.keeps_records attaching.keeps_records
  apply_done_records following_up.keeps_records blocking.keeps_records failing.keeps_records

lemma apply_transition_inv:
  "lifecycleInv item \<Longrightarrow> lifecycleInv (res_item (applyDogfoodLifecycleTransition item t))"
  by (rule apply_transition_closed) (simp_all add: operations_keep_inv)

lemma createDogfoodLifecycleItem_inv: "lifecycleInv (createDogfoodLifecycleItem input)"
  by (simp add: createDogfoodLifecycleItem_def lifecycleInv_defs)

text \<open>The items an application can hold: a new one, and what any transition returns, refused or not.\<close>

inductive reachable :: "SmartQueueDogfoodLifecycleItem \<Rightarrow> bool" where
  reachable_create: "reachable (createDogfoodLifecycleItem input)"
| reachable_step: "reachable item \<Longrightarrow> reachable (res_item (applyDogfoodLifecycleTransition item t))"

lemma reachable_inv: "reachable item \<Longrightarrow> lifecycleInv item"
  by (induction rule: reachable.induct) (simp_all add: createDogfoodLifecycleItem_inv apply_transition_inv)

fun runTransitions ::
    "SmartQueueDogfoodLifecycleItem \<Rightarrow> QueueDogfoodLifecycleTransition list \<Rightarrow> SmartQueueDogfoodLifecycleItem" where
  "runTransitions item [] = item"
| "runTransitions item (t # ts) = runTransitions (res_item (applyDogfoodLifecycleTransition item t)) ts"

lemma runTransitions_append: "runTransitions item (ts @ us) = runTransitions (runTransitions item ts) us"
  by (induction ts arbitrary: item) simp_all

lemma reachable_run: "reachable item \<Longrightarrow> reachable (runTransitions item ts)"
  by (induction ts arbitrary: item) (simp_all add: reachable_step)

lemma runTransitions_inv: "lifecycleInv item \<Longrightarrow> lifecycleInv (runTransitions item ts)"
  by (induction ts arbitrary: item) (simp_all add: apply_transition_inv)

lemma apply_transition_edge:
  "(item_ticketState item, item_ticketState (res_item (applyDogfoodLifecycleTransition item t)))
     \<in> ticketEdges \<union> Id"
proof (cases t)
  case (TrMarkDone i)
  show ?thesis
  proof (cases "item_ticketState item = TkInReview")
    case True
    then show ?thesis using apply_done_InReview(2) [of item i] TrMarkDone by (simp add: ticketEdges_def)
  next
    case False
    then show ?thesis using apply_done_refused [of item i] TrMarkDone by simp
  qed
next
  case (TrQueue i)
  then show ?thesis using queueing.follows_edge [of item i] by (auto simp: ticketEdges_def)
next
  case (TrStartRun i)
  then show ?thesis using starting.follows_edge [of item i] by (auto simp: ticketEdges_def)
next
  case (TrAgentFinished i)
  then show ?thesis using finishing.follows_edge [of item i] by (auto simp: ticketEdges_def)
next
  case (TrCreateReviewMessage i)
  then show ?thesis using messaging.follows_edge [of item i] by (auto simp: ticketEdges_def)
next
  case (TrCoordinatorAck i)
  then show ?thesis using acknowledging.follows_edge [of item i] by (auto simp: ticketEdges_def)
next
  case (TrApproveValidation i)
  then show ?thesis using approving.follows_edge [of item i] by (auto simp: ticketEdges_def)
next
  case (TrRequestCommit i)
  then show ?thesis using committing.follows_edge [of item i] by (auto simp: ticketEdges_def)
next
  case (TrAttachFakeCommitResult i)
  then show ?thesis using attaching.follows_edge [of item i] by (auto simp: ticketEdges_def)
next
  case (TrFollowUpPrompt i)
  then show ?thesis using following_up.follows_edge [of item i] by (auto simp: ticketEdges_def)
next
  case (TrBlock i)
  then show ?thesis using blocking.follows_edge [of item i] by (auto simp: ticketEdges_def)
next
  case (TrFail i)
  then show ?thesis using failing.follows_edge [of item i] by (auto simp: ticketEdges_def)
qed

lemma closed_transition_refused:
  assumes "item_ticketState item \<in> {TkDone, TkFailure, TkBlocked}"
  shows "\<not> res_ok (applyDogfoodLifecycleTransition item t) \<and>
         res_item (applyDogfoodLifecycleTransition item t) = item"
  using assms apply_done_refused [of item]
    queueing.closed_ticket_refused queueing.refused starting.closed_ticket_refused starting.refused
    finishing.closed_ticket_refused finishing.refused messaging.closed_ticket_refused messaging.refused
    acknowledging.closed_ticket_refused acknowledging.refused approving.closed_ticket_refused approving.refused
    committing.closed_ticket_refused committing.refused attaching.closed_ticket_refused attaching.refused
    following_up.closed_ticket_refused following_up.refused blocking.closed_ticket_refused blocking.refused
    failing.closed_ticket_refused failing.refused
  by (cases t) auto

section \<open>What the machine guarantees\<close>

text \<open>
  C2. Whatever transitions are tried on a new item, in any order and whether they succeed or are
  refused, the item keeps the lifecycle invariant: ticket state, prompt state and review outcome
  agree, every record belongs to the item and refers to records made before it, the prompt counter
  counts the follow-up prompts, reviewed tickets were acknowledged, and no side effect is flagged.
\<close>

theorem lifecycle_invariant:
  "lifecycleInv (runTransitions (createDogfoodLifecycleItem input) ts)"
  by (rule runTransitions_inv [OF createDogfoodLifecycleItem_inv])

text \<open>
  C32. The gate for dependent tasks opens only on accepted work: an item that passes it has a completed
  review outcome, an acknowledgement of a review message of this task by the coordinator it was sent
  to, a validation approval, and a successful commit result.
\<close>

theorem dependents_start_after_acceptance:
  assumes "canStartDependentAfterReviewGate (runTransitions (createDogfoodLifecycleItem input) ts)"
  shows "\<exists>ack message result. let item = runTransitions (createDogfoodLifecycleItem input) ts in
    item_reviewOutcome item = Some OutCompleted \<and>
    ack \<in> set (item_reviewAcks item) \<and> message \<in> set (item_reviewMessages item) \<and>
    ack_messageId ack = msg_messageId message \<and>
    ack_coordinatorAgentId ack = msg_toCoordinatorAgentId message \<and>
    msg_taskId message = item_taskId item \<and>
    item_validationApprovals item \<noteq> [] \<and>
    result \<in> set (item_commitResults item) \<and> cres_status result = CommitSuccess"
proof -
  define item where "item = runTransitions (createDogfoodLifecycleItem input) ts"
  have inv: "lifecycleInv item"
    unfolding item_def by (rule runTransitions_inv [OF createDogfoodLifecycleItem_inv])
  have d: "item_ticketState item = TkDone" using assms by (simp add: canStartDependentAfterReviewGate_def item_def)
  have "item_reviewAcks item \<noteq> []" using inv d by (simp add: lifecycleInv_def gateInv_def reviewedTicket_def)
  then have "hd (item_reviewAcks item) \<in> set (item_reviewAcks item)" by simp
  then obtain ack where ack: "ack \<in> set (item_reviewAcks item)" by blast
  have link: "(\<lambda>a. (ack_messageId a, ack_coordinatorAgentId a)) ` set (item_reviewAcks item)
      \<subseteq> (\<lambda>m. (msg_messageId m, msg_toCoordinatorAgentId m)) ` set (item_reviewMessages item)"
    using inv by (simp add: lifecycleInv_def linkedRecords_def)
  obtain message where msg: "message \<in> set (item_reviewMessages item)"
    "ack_messageId ack = msg_messageId message" "ack_coordinatorAgentId ack = msg_toCoordinatorAgentId message"
    using subsetD [OF link imageI [OF ack]] by auto
  have own: "msg_taskId ` set (item_reviewMessages item) \<subseteq> {item_taskId item}"
    using inv by (simp add: lifecycleInv_def ownRecords_def)
  have g: "item_reviewOutcome item = Some OutCompleted" "item_validationApprovals item \<noteq> []"
    "CommitSuccess \<in> cres_status ` set (item_commitResults item)"
    using inv d by (simp_all add: lifecycleInv_def gateInv_def)
  then obtain result where res: "result \<in> set (item_commitResults item)" "cres_status result = CommitSuccess"
    by auto
  have "msg_taskId message = item_taskId item" using own msg(1) by blast
  with ack msg g(1,2) res show ?thesis unfolding item_def [symmetric] Let_def by blast
qed

text \<open>
  A ticket only moves along the edges of the lifecycle, and done, failure and blocked have no way
  out: from them every transition is refused and the item stays as it is.
\<close>

theorem ticket_moves_along_edges:
  "(item_ticketState item, item_ticketState (res_item (applyDogfoodLifecycleTransition item t)))
     \<in> ticketEdges \<union> Id \<and>
   (item_ticketState item \<in> {TkDone, TkFailure, TkBlocked} \<longrightarrow>
      \<not> res_ok (applyDogfoodLifecycleTransition item t) \<and> runTransitions item ts = item)"
proof (intro conjI impI)
  show "(item_ticketState item, item_ticketState (res_item (applyDogfoodLifecycleTransition item t)))
     \<in> ticketEdges \<union> Id" by (rule apply_transition_edge)
  assume closed: "item_ticketState item \<in> {TkDone, TkFailure, TkBlocked}"
  then show "\<not> res_ok (applyDogfoodLifecycleTransition item t)" using closed_transition_refused by blast
  from closed show "runTransitions item ts = item"
    by (induction ts) (use closed_transition_refused in auto)
qed

text \<open>
  The history of an item is append-only: no sequence of transitions changes its identity, or
  drops, reorders or edits a recorded prompt, message, acknowledgement, decision, approval, commit
  request or commit result.
\<close>

theorem history_append_only: "extends item (runTransitions item ts)"
proof (induction ts arbitrary: item)
  case Nil
  then show ?case by simp
next
  case (Cons t ts)
  have "extends item (res_item (applyDogfoodLifecycleTransition item t))"
    by (rule apply_transition_closed [of "extends item"])
       (auto intro: extends_trans operations_keep_records)
  with Cons show ?case by (auto intro: extends_trans)
qed

text \<open>
  The composite done decision succeeds exactly on an item in review whose agent outcome is
  completed, and then the ticket is done; otherwise the ticket state is unchanged.
\<close>

theorem mark_done_decision:
  "(res_ok (applyDogfoodLifecycleTransition item (TrMarkDone input)) =
      (item_ticketState item = TkInReview \<and> item_reviewOutcome item = Some OutCompleted)) \<and>
   item_ticketState (res_item (applyDogfoodLifecycleTransition item (TrMarkDone input))) =
     (if item_ticketState item = TkInReview \<and> item_reviewOutcome item = Some OutCompleted then TkDone
      else item_ticketState item)"
  using apply_done_InReview [of item input] apply_done_refused [of item input]
  by (cases "item_ticketState item = TkInReview") auto

section \<open>Progress\<close>

definition reaches :: "SmartQueueDogfoodLifecycleItem \<Rightarrow> (SmartQueueDogfoodLifecycleItem \<Rightarrow> bool) \<Rightarrow> bool" where
  "reaches item Q \<longleftrightarrow> (\<exists>ts. Q (runTransitions item ts))"

lemma reaches_step: "reaches (res_item (applyDogfoodLifecycleTransition item t)) Q \<Longrightarrow> reaches item Q"
  unfolding reaches_def by (metis runTransitions.simps(2))

lemma reaches_now: "Q item \<Longrightarrow> reaches item Q"
  unfolding reaches_def by (metis runTransitions.simps(1))

definition isDone :: "SmartQueueDogfoodLifecycleItem \<Rightarrow> bool" where
  "isDone item \<longleftrightarrow> item_ticketState item = TkDone"

definition exampleDone :: ApplyDoneDecisionInput where
  "exampleDone = \<lparr>add_commitAttachedAt = [], add_commitHash = None, add_commitRequestCreatedAt = [],
     add_commitRequestId = ''cr'', add_commitRequestReason = [], add_commitResultId = ''c'',
     add_commitResultSummary = [], add_completedAt = [], add_coordinatorAgentId = ''k'',
     add_decisionId = ''d'', add_reason = [], add_validationApprovedAt = [],
     add_validationApprovalId = ''v'', add_validationSummary = []\<rparr>"

lemma done_from_completed_review:
  "item_ticketState item = TkInReview \<Longrightarrow> item_reviewOutcome item = Some OutCompleted \<Longrightarrow> reaches item isDone"
  by (rule reaches_step [of _ "TrMarkDone exampleDone"], rule reaches_now)
     (simp add: isDone_def apply_done_InReview)

lemma find_append_new: "\<forall>x \<in> set xs. \<not> P x \<Longrightarrow> P y \<Longrightarrow> List.find P (xs @ [y]) = Some y"
  by (induction xs) auto

text \<open>A fresh review message, acknowledged, brings an item that awaits review into review.\<close>

lemma review_from_awaiting:
  assumes "item_ticketState item = TkAwaitingReview" and "item_reviewOutcome item = Some oc"
    and nxt: "\<And>i. item_ticketState i = TkInReview \<Longrightarrow> item_reviewOutcome i = Some oc \<Longrightarrow> reaches i Q"
  shows "reaches item Q"
proof -
  obtain mid where fresh: "mid \<notin> msg_messageId ` set (item_reviewMessages item)"
    using ex_new_if_finite [OF infinite_UNIV_listI, of "msg_messageId ` set (item_reviewMessages item)"] by auto
  define crm where "crm = \<lparr>crm_messageId = mid, crm_toCoordinatorAgentId = ''k'', crm_createdAt = [],
    crm_attemptId = None, crm_evidenceSummary = None, crm_finalAgentMessage = Some ''m'',
    crm_validationSummary = None, crm_changedFilesSummary = None, crm_workerEvidenceBundle = None\<rparr>"
  define arm where "arm = \<lparr>arm_ackId = ''a'', arm_messageId = mid, arm_coordinatorAgentId = ''k'', arm_receivedAt = []\<rparr>"
  have "js_trim ''m'' = ''m''" by code_simp
  then have "res_ok (createReviewMessage item crm)"
    using assms(1,2) by (simp add: createReviewMessage_def crm_def Let_def)
  from createReviewMessage_accepted [OF this] obtain message where
    m: "msg_taskId message = item_taskId item" "msg_fromQueueItemId message = item_taskId item"
      "msg_messageId message = mid" "msg_toCoordinatorAgentId message = ''k''"
      "res_item (createReviewMessage item crm) =
         item\<lparr>item_reviewMessages := item_reviewMessages item @ [message], item_updatedAt := []\<rparr>"
    by (auto simp: crm_def)
  have "List.find (\<lambda>c. msg_messageId c = mid) (item_reviewMessages item @ [message]) = Some message"
    by (rule find_append_new) (use fresh m(3) in \<open>auto simp: image_iff\<close>)
  then have "item_ticketState (res_item (acknowledgeReviewMessage (res_item (createReviewMessage item crm)) arm)) = TkInReview"
    "item_reviewOutcome (res_item (acknowledgeReviewMessage (res_item (createReviewMessage item crm)) arm)) = Some oc"
    using assms(1,2) m by (simp_all add: acknowledgeReviewMessage_def arm_def Let_def)
  from nxt [OF this] have "reaches (res_item (applyDogfoodLifecycleTransition
      (res_item (applyDogfoodLifecycleTransition item (TrCreateReviewMessage crm))) (TrCoordinatorAck arm))) Q"
    by (simp add: applyCoordinatorAckToQueueLifecycle_def)
  then have "reaches (res_item (applyDogfoodLifecycleTransition item (TrCreateReviewMessage crm))) Q"
    by (rule reaches_step)
  then show ?thesis by (rule reaches_step)
qed

definition exampleFinished :: ApplyAgentFinishedInput where
  "exampleFinished = \<lparr>aaf_attemptId = None, aaf_changedFilesSummary = None, aaf_finalAgentMessage = ''m'',
     aaf_finishedAt = [], aaf_outcome = OutCompleted, aaf_threadId = None, aaf_validationSummary = None,
     aaf_workerEvidenceBundle = None\<rparr>"

lemma done_from_running:
  assumes "item_ticketState item = TkRunning"
  shows "reaches item isDone"
proof -
  have "js_trim ''m'' = ''m''" by code_simp
  then have "item_ticketState (res_item (applyDogfoodLifecycleTransition item (TrAgentFinished exampleFinished))) = TkAwaitingReview"
    "item_reviewOutcome (res_item (applyDogfoodLifecycleTransition item (TrAgentFinished exampleFinished))) = Some OutCompleted"
    using assms by (simp_all add: applyAgentFinished_eq finishAgentPrompt_def finishInput_def exampleFinished_def Let_def)
  then have "reaches (res_item (applyDogfoodLifecycleTransition item (TrAgentFinished exampleFinished))) isDone"
    by (rule review_from_awaiting) (rule done_from_completed_review)
  then show ?thesis by (rule reaches_step)
qed

definition exampleFollowUp :: AddFollowUpPromptInput where
  "exampleFollowUp = \<lparr>af_followUpPromptId = ''f'', af_prompt = ''p'', af_createdByCoordinatorAgentId = ''k'',
     af_createdAt = [], af_parentAttemptId = None, af_threadId = None, af_decisionId = None\<rparr>"

lemma done_from_review:
  assumes "item_ticketState item = TkInReview"
  shows "reaches item isDone"
proof -
  have "js_trim ''p'' = ''p''" by code_simp
  then have "item_ticketState (res_item (applyDogfoodLifecycleTransition item (TrFollowUpPrompt exampleFollowUp))) = TkRunning"
    using assms by (simp add: applyCoordinatorFollowUpDecisionToQueueLifecycle_def addFollowUpPrompt_def
        returnToRunningWithAddedPrompt_def exampleFollowUp_def Let_def)
  from done_from_running [OF this] show ?thesis by (rule reaches_step)
qed

definition exampleStart :: StartQueueItemRunInput where
  "exampleStart = \<lparr>sr_attemptId = None, sr_threadId = None, sr_runnablePrompt = Some ''p'', sr_startedAt = []\<rparr>"

lemma done_from_queued:
  assumes "item_ticketState item = TkQueued"
  shows "reaches item isDone"
proof -
  have "js_trim ''p'' = ''p''" by code_simp
  then have "item_ticketState (res_item (applyDogfoodLifecycleTransition item (TrStartRun exampleStart))) = TkRunning"
    using assms by (simp add: startQueueItemRun_def exampleStart_def Let_def)
  from done_from_running [OF this] show ?thesis by (rule reaches_step)
qed

lemma done_from_draft:
  assumes "item_ticketState item = TkDraft"
  shows "reaches item isDone"
proof -
  have "item_ticketState (res_item (applyDogfoodLifecycleTransition item (TrQueue []))) = TkQueued"
    using assms by (simp add: queueDogfoodLifecycleItem_def)
  from done_from_queued [OF this] show ?thesis by (rule reaches_step)
qed

text \<open>
  C40. The lifecycle never gets stuck before its end: from every state of an item, however its agent
  finished, some transitions lead to done, unless the ticket is already done, failed or blocked.
\<close>

theorem done_reachable:
  assumes "item = runTransitions (createDogfoodLifecycleItem input) ts"
    and "item_ticketState item \<notin> {TkDone, TkFailure, TkBlocked}"
  shows "\<exists>us. item_ticketState (runTransitions item us) = TkDone"
proof -
  have inv: "lifecycleInv item"
    unfolding assms(1) by (rule runTransitions_inv [OF createDogfoodLifecycleItem_inv])
  have "reaches item isDone"
  proof (cases "item_ticketState item")
    case TkAwaitingReview
    then obtain oc where "item_reviewOutcome item = Some oc" using inv by (auto simp: lifecycleInv_def)
    with TkAwaitingReview show ?thesis by (rule review_from_awaiting) (rule done_from_review)
  qed (use assms(2) done_from_draft done_from_queued done_from_running done_from_review in auto)
  then show ?thesis by (simp add: reaches_def isDone_def)
qed

section \<open>Concrete runs\<close>

definition exampleItem :: SmartQueueDogfoodLifecycleItem where
  "exampleItem = createDogfoodLifecycleItem
     \<lparr>ci_taskId = ''t'', ci_title = None, ci_originalPrompt = Some ''p'', ci_createdAt = []\<rparr>"

definition exampleMessage :: CreateReviewMessageInput where
  "exampleMessage = \<lparr>crm_messageId = ''m1'', crm_toCoordinatorAgentId = ''k'', crm_createdAt = [],
     crm_attemptId = None, crm_evidenceSummary = None, crm_finalAgentMessage = None,
     crm_validationSummary = None, crm_changedFilesSummary = None, crm_workerEvidenceBundle = None\<rparr>"

definition exampleAck :: AcknowledgeReviewMessageInput where
  "exampleAck = \<lparr>arm_ackId = ''a'', arm_messageId = ''m1'', arm_coordinatorAgentId = ''k'', arm_receivedAt = []\<rparr>"

definition exampleReview :: "QueueDogfoodLifecycleTransition list" where
  "exampleReview = [TrQueue [], TrStartRun exampleStart, TrAgentFinished exampleFinished,
     TrCreateReviewMessage exampleMessage, TrCoordinatorAck exampleAck]"

lemma dependents_start_after_acceptance_witness:
  "item_reviewOutcome (runTransitions exampleItem (exampleReview @ [TrMarkDone exampleDone])) = Some OutCompleted"
proof -
  have "canStartDependentAfterReviewGate (runTransitions exampleItem (exampleReview @ [TrMarkDone exampleDone]))"
    by code_simp
  from dependents_start_after_acceptance [OF this [unfolded exampleItem_def], folded exampleItem_def]
  show ?thesis unfolding Let_def by blast
qed

lemma ticket_moves_along_edges_witness:
  "runTransitions (runTransitions exampleItem (exampleReview @ [TrMarkDone exampleDone])) [TrQueue []]
     = runTransitions exampleItem (exampleReview @ [TrMarkDone exampleDone])"
proof -
  have "item_ticketState (runTransitions exampleItem (exampleReview @ [TrMarkDone exampleDone])) = TkDone"
    by code_simp
  with ticket_moves_along_edges [of "runTransitions exampleItem (exampleReview @ [TrMarkDone exampleDone])"
      "TrQueue []" "[TrQueue []]"]
  show ?thesis by simp
qed

lemma done_reachable_witness:
  "\<exists>us. item_ticketState (runTransitions (runTransitions exampleItem exampleReview) us) = TkDone"
proof -
  have "item_ticketState (runTransitions exampleItem exampleReview) \<notin> {TkDone, TkFailure, TkBlocked}"
    by code_simp
  from done_reachable [OF _ this, unfolded exampleItem_def, OF refl, folded exampleItem_def]
  show ?thesis .
qed

text \<open>
  The check for done does not ask for an approval of the current round: after a follow-up prompt, the
  approval and the commit result of the earlier round still satisfy it.
\<close>

definition exampleApproval :: ApproveValidationInput where
  "exampleApproval = \<lparr>av_validationApprovalId = ''v1'', av_approvedByCoordinatorAgentId = ''k'',
     av_summary = [], av_approvedAt = [], av_decisionId = None\<rparr>"

definition exampleCommit :: RequestCommitInput where
  "exampleCommit = \<lparr>rc_commitRequestId = ''r1'', rc_requestedByCoordinatorAgentId = ''k'', rc_reason = [],
     rc_createdAt = [], rc_decisionId = None\<rparr>"

definition exampleResult :: AttachCommitResultInput where
  "exampleResult = \<lparr>ac_commitResultId = ''c1'', ac_commitRequestId = None, ac_status = CommitSuccess,
     ac_commitHash = None, ac_summary = [], ac_attachedAt = [], ac_coordinatorAgentId = None,
     ac_decisionId = None\<rparr>"

definition secondRound :: SmartQueueDogfoodLifecycleItem where
  "secondRound = runTransitions exampleItem (exampleReview @
     [TrApproveValidation exampleApproval, TrRequestCommit exampleCommit,
      TrAttachFakeCommitResult exampleResult, TrFollowUpPrompt exampleFollowUp,
      TrAgentFinished exampleFinished])"

lemma stale_acknowledgement_and_approval:
  "res_ok (applyDogfoodLifecycleTransition secondRound (TrCoordinatorAck exampleAck)) \<and>
   res_ok (markQueueItemDone (res_item (applyDogfoodLifecycleTransition secondRound (TrCoordinatorAck exampleAck)))
     \<lparr>md_decisionId = ''d'', md_coordinatorAgentId = ''k'', md_reason = [], md_completedAt = []\<rparr>)"
  by code_simp

text \<open>A refused done decision is not atomic: the item it returns has a new approval and commit result.\<close>

lemma refused_done_changes_item:
  "let item = runTransitions exampleItem [TrQueue [], TrStartRun exampleStart,
         TrAgentFinished (exampleFinished\<lparr>aaf_outcome := OutFailed\<rparr>),
         TrCreateReviewMessage exampleMessage, TrCoordinatorAck exampleAck];
       r = applyDogfoodLifecycleTransition item (TrMarkDone exampleDone) in
     \<not> res_ok r \<and> item_commitResults item = [] \<and> length (item_commitResults (res_item r)) = 1"
  by code_simp

end
