(* ===== verification/Smart_Queue.thy ===== *)
theory Smart_Queue
  imports Routing
begin

text \<open>
  The smart queue's start gate: \<open>workbench/queue/smartQueueDependencyPropagation.ts\<close> (how the state of
  the upstream tasks reaches a task), \<open>smartQueueEligibility.ts\<close> (blockers, human status,
  eligibility) and \<open>smartQueueExecutionGate.ts\<close> (may the task start now).
\<close>

section \<open>Data\<close>

datatype SmartQueueState = SqPaused | SqActive | SqDraining | SqStopped

datatype SmartQueueTaskLifecycle =
  LcDraft | LcQueued | LcReady | LcRunning | LcReview | LcClosed | LcFailed | LcCancelled | LcBlocked

datatype SmartQueueBlockerKind =
  BkDependencyFailed | BkDependencyBlocked | BkMissingConfig | BkValidationRequiresDecision
| BkWorkerUnavailable | BkDirtyWorktree | BkMissingPrompt | BkRequiresHumanInput

datatype SmartQueueTaskHumanStatus =
  HsReady | HsWaitingDependency | HsRunning | HsReview | HsNeedsDecision | HsBlocked | HsFailed
| HsClosed | HsCancelled

datatype DependencyGateValue = GateNone | GateWaiting | GateSatisfied | GateFailed | GateBlocked

record SmartQueueBlocker =
  sb_kind :: SmartQueueBlockerKind
  sb_reason :: string
  sb_taskId :: "string option"
  sb_upstreamTaskId :: "string option"
  sb_rootCauseTaskIds :: "string list option"

record SmartQueueTaskInput =
  sq_taskId :: string
  sq_title :: "string option"
  sq_lifecycle :: SmartQueueTaskLifecycle
  sq_blockers :: "SmartQueueBlocker list option"

record SmartQueueDependency =
  sd_upstreamTaskId :: string
  sd_downstreamTaskId :: string
  sd_kind :: string

record SmartQueueDependencyGate =
  gate_gate :: DependencyGateValue
  gate_upstreamTaskIds :: "string list"
  gate_waitingTaskIds :: "string list"
  gate_satisfiedTaskIds :: "string list"
  gate_failedTaskIds :: "string list"
  gate_blockedTaskIds :: "string list"
  gate_missingTaskIds :: "string list"
  gate_rootFailedTaskIds :: "string list"
  gate_rootBlockedTaskIds :: "string list"

record SmartQueueHumanStatus =
  hs_status :: SmartQueueTaskHumanStatus
  hs_label :: string
  hs_reason :: "string option"
  hs_text :: string

record SmartQueueEligibility =
  el_autoEligibleToStart :: bool
  el_blockers :: "SmartQueueBlocker list"
  el_dependencyGate :: SmartQueueDependencyGate
  el_humanStatus :: SmartQueueHumanStatus
  el_reason :: string

section \<open>Propagation through the dependencies\<close>

datatype PropagationState = PsDependencyFailed | PsDependencyBlocked | PsWaitingDependency | PsSatisfied

record UpstreamDependencyState =
  up_state :: PropagationState
  up_rootBlockedTaskIds :: "string list"
  up_rootFailedTaskIds :: "string list"

type_synonym upstream_map = "(string \<times> string list) list"

definition addDependency :: "SmartQueueDependency \<Rightarrow> upstream_map \<Rightarrow> upstream_map" where
  "addDependency dependency upstreamIdsByTaskId =
     (if sd_kind dependency \<noteq> ''blocks_start'' then upstreamIdsByTaskId
      else let upstreamIds = js_default [] (map_of upstreamIdsByTaskId (sd_downstreamTaskId dependency))
        in AList.update (sd_downstreamTaskId dependency)
             (if sd_upstreamTaskId dependency \<in> set upstreamIds then upstreamIds
              else upstreamIds @ [sd_upstreamTaskId dependency]) upstreamIdsByTaskId)"

definition dependencyMap :: "SmartQueueDependency list \<Rightarrow> upstream_map" where
  "dependencyMap dependencies = fold addDependency dependencies []"

definition sqTasksById :: "SmartQueueTaskInput list \<Rightarrow> string \<Rightarrow> SmartQueueTaskInput option" where
  "sqTasksById tasks = map_of (js_map_of_entries (map (\<lambda>c. (sq_taskId c, c)) tasks))"

definition emptyDependencyGate :: "DependencyGateValue \<Rightarrow> string list \<Rightarrow> SmartQueueDependencyGate" where
  "emptyDependencyGate gate upstreamTaskIds =
     \<lparr>gate_gate = gate, gate_upstreamTaskIds = upstreamTaskIds, gate_waitingTaskIds = [],
      gate_satisfiedTaskIds = [], gate_failedTaskIds = [], gate_blockedTaskIds = [],
      gate_missingTaskIds = [], gate_rootFailedTaskIds = [], gate_rootBlockedTaskIds = []\<rparr>"

text \<open>One turn of the loop over the upstream ids; the state is \<open>None\<close> for an id without a task.\<close>

definition gateStep ::
    "string \<times> UpstreamDependencyState option \<Rightarrow> SmartQueueDependencyGate \<Rightarrow> SmartQueueDependencyGate" where
  "gateStep entry gate = (case entry of (upstreamTaskId, st) \<Rightarrow>
     (case st of
        None \<Rightarrow> gate\<lparr>gate_missingTaskIds := gate_missingTaskIds gate @ [upstreamTaskId],
                    gate_blockedTaskIds := gate_blockedTaskIds gate @ [upstreamTaskId],
                    gate_rootBlockedTaskIds := js_set_add upstreamTaskId (gate_rootBlockedTaskIds gate)\<rparr>
      | Some upstreamState \<Rightarrow>
          (case up_state upstreamState of
             PsSatisfied \<Rightarrow> gate\<lparr>gate_satisfiedTaskIds := gate_satisfiedTaskIds gate @ [upstreamTaskId]\<rparr>
           | PsDependencyFailed \<Rightarrow>
               gate\<lparr>gate_failedTaskIds := gate_failedTaskIds gate @ [upstreamTaskId],
                    gate_rootFailedTaskIds :=
                      fold js_set_add (up_rootFailedTaskIds upstreamState) (gate_rootFailedTaskIds gate)\<rparr>
           | PsDependencyBlocked \<Rightarrow>
               gate\<lparr>gate_blockedTaskIds := gate_blockedTaskIds gate @ [upstreamTaskId],
                    gate_rootBlockedTaskIds :=
                      fold js_set_add (up_rootBlockedTaskIds upstreamState)
                        (js_set_add upstreamTaskId (gate_rootBlockedTaskIds gate))\<rparr>
           | PsWaitingDependency \<Rightarrow>
               gate\<lparr>gate_waitingTaskIds := gate_waitingTaskIds gate @ [upstreamTaskId]\<rparr>)))"

definition finishGate :: "SmartQueueDependencyGate \<Rightarrow> SmartQueueDependencyGate" where
  "finishGate gate =
     (if 0 < length (gate_failedTaskIds gate) then gate\<lparr>gate_gate := GateFailed\<rparr>
      else if 0 < length (gate_blockedTaskIds gate) then gate\<lparr>gate_gate := GateBlocked\<rparr>
      else if 0 < length (gate_waitingTaskIds gate)
        then gate\<lparr>gate_gate := GateWaiting, gate_rootBlockedTaskIds := [], gate_rootFailedTaskIds := []\<rparr>
      else gate\<lparr>gate_gate := GateSatisfied, gate_rootBlockedTaskIds := [], gate_rootFailedTaskIds := []\<rparr>)"

definition gateOfUpstream ::
    "(string \<times> UpstreamDependencyState option) list \<Rightarrow> SmartQueueDependencyGate" where
  "gateOfUpstream entries =
     (if entries = [] then emptyDependencyGate GateNone []
      else finishGate (fold gateStep entries (emptyDependencyGate GateNone (map fst entries))))"

text \<open>
  The recursion of the two functions through each other, as one: the gate of a task is
  \<open>gateOfUpstream\<close> of the states of its upstream tasks. It ends because \<open>visiting\<close> grows within the
  ids of the tasks.
\<close>

function computeUpstreamDependencyState ::
    "SmartQueueTaskInput list \<Rightarrow> upstream_map \<Rightarrow> string set \<Rightarrow> SmartQueueTaskInput
     \<Rightarrow> UpstreamDependencyState" where
  "computeUpstreamDependencyState tasks ups visiting upstreamTask =
     (if sq_lifecycle upstreamTask = LcClosed
      then \<lparr>up_state = PsSatisfied, up_rootBlockedTaskIds = [], up_rootFailedTaskIds = []\<rparr>
      else if sq_lifecycle upstreamTask = LcFailed \<or> sq_lifecycle upstreamTask = LcCancelled
      then \<lparr>up_state = PsDependencyFailed, up_rootBlockedTaskIds = [],
            up_rootFailedTaskIds = [sq_taskId upstreamTask]\<rparr>
      else if sq_lifecycle upstreamTask = LcBlocked
      then \<lparr>up_state = PsDependencyBlocked, up_rootBlockedTaskIds = [sq_taskId upstreamTask],
            up_rootFailedTaskIds = []\<rparr>
      else if sq_taskId upstreamTask \<in> visiting
      then \<lparr>up_state = PsDependencyBlocked, up_rootBlockedTaskIds = [sq_taskId upstreamTask],
            up_rootFailedTaskIds = []\<rparr>
      else
        (let upstreamGate = gateOfUpstream
               (map (\<lambda>u. (u, map_option
                      (computeUpstreamDependencyState tasks ups (insert (sq_taskId upstreamTask) visiting))
                      (sqTasksById tasks u)))
                 (js_default [] (map_of ups (sq_taskId upstreamTask))))
         in if gate_gate upstreamGate = GateFailed \<or> gate_gate upstreamGate = GateBlocked
            then \<lparr>up_state = PsDependencyBlocked, up_rootBlockedTaskIds = [sq_taskId upstreamTask],
                  up_rootFailedTaskIds = []\<rparr>
            else \<lparr>up_state = PsWaitingDependency, up_rootBlockedTaskIds = [], up_rootFailedTaskIds = []\<rparr>))"
  by pat_completeness auto

lemma sqTasksById_Some: "sqTasksById tasks u = Some t \<Longrightarrow> t \<in> set tasks \<and> sq_taskId t = u"
  by (auto simp: sqTasksById_def map_of_js_map_of_entries dest!: map_of_SomeD)

termination computeUpstreamDependencyState
proof (relation "measure (\<lambda>(tasks, ups, visiting, t). card (insert (sq_taskId t) (sq_taskId ` set tasks) - visiting))",
    goal_cases)
  case 1
  then show ?case by simp
next
  case (2 tasks ups visiting t u x)
  then have x: "x \<in> set tasks" by (auto dest: sqTasksById_Some)
  then have "insert (sq_taskId x) (sq_taskId ` set tasks) - insert (sq_taskId t) visiting
      \<subset> insert (sq_taskId t) (sq_taskId ` set tasks) - visiting"
    using 2(4) by auto
  then show ?case by (simp add: psubset_card_mono)
qed

declare computeUpstreamDependencyState.simps [simp del]

definition computeGateForTaskId ::
    "SmartQueueTaskInput list \<Rightarrow> upstream_map \<Rightarrow> string set \<Rightarrow> string \<Rightarrow> SmartQueueDependencyGate" where
  "computeGateForTaskId tasks ups visiting taskId =
     gateOfUpstream
       (map (\<lambda>u. (u, map_option (computeUpstreamDependencyState tasks ups visiting) (sqTasksById tasks u)))
         (js_default [] (map_of ups taskId)))"

definition computeSmartQueueDependencyGate ::
    "SmartQueueTaskInput \<Rightarrow> SmartQueueTaskInput list \<Rightarrow> SmartQueueDependency list
     \<Rightarrow> SmartQueueDependencyGate" where
  "computeSmartQueueDependencyGate task tasks dependencies =
     computeGateForTaskId tasks (dependencyMap dependencies) {} (sq_taskId task)"

fun propagationStateForGate :: "DependencyGateValue \<Rightarrow> PropagationState" where
  "propagationStateForGate GateFailed = PsDependencyFailed"
| "propagationStateForGate GateBlocked = PsDependencyBlocked"
| "propagationStateForGate GateWaiting = PsWaitingDependency"
| "propagationStateForGate GateNone = PsWaitingDependency"
| "propagationStateForGate GateSatisfied = PsSatisfied"

definition dependencyBlockersForGate ::
    "string \<Rightarrow> SmartQueueDependencyGate \<Rightarrow> SmartQueueBlocker list" where
  "dependencyBlockersForGate taskId gate =
     map (\<lambda>upstreamTaskId. \<lparr>sb_kind = BkDependencyFailed, sb_reason = ''dependency failed'',
            sb_taskId = Some taskId, sb_upstreamTaskId = Some upstreamTaskId,
            sb_rootCauseTaskIds = Some (gate_rootFailedTaskIds gate)\<rparr>) (gate_failedTaskIds gate) @
     map (\<lambda>upstreamTaskId. \<lparr>sb_kind = BkDependencyBlocked, sb_reason = ''dependency blocked'',
            sb_taskId = Some taskId, sb_upstreamTaskId = Some upstreamTaskId,
            sb_rootCauseTaskIds = Some (gate_rootBlockedTaskIds gate)\<rparr>) (gate_blockedTaskIds gate)"

definition isDependencyBlocker :: "SmartQueueBlocker \<Rightarrow> bool" where
  "isDependencyBlocker blocker \<longleftrightarrow> sb_kind blocker \<in> {BkDependencyFailed, BkDependencyBlocked}"

record SmartQueueDependencyPropagationResult =
  prop_blockers :: "SmartQueueBlocker list"
  prop_gate :: SmartQueueDependencyGate
  prop_state :: PropagationState

definition computeSmartQueueDependencyPropagation ::
    "SmartQueueTaskInput \<Rightarrow> SmartQueueTaskInput list \<Rightarrow> SmartQueueDependency list
     \<Rightarrow> SmartQueueDependencyPropagationResult" where
  "computeSmartQueueDependencyPropagation task tasks dependencies =
     (let gate = computeSmartQueueDependencyGate task tasks dependencies in
      \<lparr>prop_blockers = dependencyBlockersForGate (sq_taskId task) gate,
       prop_gate = gate,
       prop_state = propagationStateForGate (gate_gate gate)\<rparr>)"

section \<open>Eligibility\<close>

record SmartQueueEligibilityContext =
  ec_queueState :: SmartQueueState
  ec_capacityAvailable :: bool

record SmartQueueDependencyFailurePropagation =
  fp_affectedTaskIds :: "string list"
  fp_blockersByTaskId :: "(string \<times> SmartQueueBlocker list) list"
  fp_gatesByTaskId :: "(string \<times> SmartQueueDependencyGate) list"

definition computeDependencyGate ::
    "SmartQueueTaskInput \<Rightarrow> SmartQueueTaskInput list \<Rightarrow> SmartQueueDependency list
     \<Rightarrow> SmartQueueDependencyGate" where
  "computeDependencyGate task tasks dependencies = computeSmartQueueDependencyGate task tasks dependencies"

definition computeTaskBlockers ::
    "SmartQueueTaskInput \<Rightarrow> SmartQueueDependencyGate \<Rightarrow> SmartQueueBlocker list" where
  "computeTaskBlockers task dependencyGate =
     dependencyBlockersForGate (sq_taskId task) dependencyGate @ js_default [] (sq_blockers task)"

definition humanStatus ::
    "SmartQueueTaskHumanStatus \<Rightarrow> string \<Rightarrow> string option \<Rightarrow> SmartQueueHumanStatus" where
  "humanStatus status label reason =
     \<lparr>hs_status = status, hs_label = label, hs_reason = reason, hs_text = js_default label reason\<rparr>"

fun defaultBlockerReason :: "SmartQueueBlockerKind \<Rightarrow> string" where
  "defaultBlockerReason BkDependencyFailed = ''dependency failed''"
| "defaultBlockerReason BkDependencyBlocked = ''dependency blocked''"
| "defaultBlockerReason BkMissingConfig = ''missing config''"
| "defaultBlockerReason BkValidationRequiresDecision = ''validation requires decision''"
| "defaultBlockerReason BkWorkerUnavailable = ''worker unavailable''"
| "defaultBlockerReason BkDirtyWorktree = ''dirty worktree''"
| "defaultBlockerReason BkMissingPrompt = ''missing prompt''"
| "defaultBlockerReason BkRequiresHumanInput = ''human input required''"

fun shortReason :: "SmartQueueBlocker option \<Rightarrow> string" where
  "shortReason None = ''needs intervention''"
| "shortReason (Some blocker) =
     js_or_str (js_trim (sb_reason blocker)) (defaultBlockerReason (sb_kind blocker))"

definition formatTaskId :: "string \<Rightarrow> string" where
  "formatTaskId taskId = js_or_str (js_trim taskId) ''dependency''"

definition formatDependencyList :: "string list \<Rightarrow> string" where
  "formatDependencyList taskIds =
     (if length taskIds = 0 then ''dependencies'' else js_join '', '' (map formatTaskId taskIds))"

definition isDecisionBlocker :: "SmartQueueBlocker \<Rightarrow> bool" where
  "isDecisionBlocker blocker \<longleftrightarrow> sb_kind blocker \<in> {BkValidationRequiresDecision, BkRequiresHumanInput}"

definition computeHumanQueueStatus ::
    "SmartQueueTaskInput \<Rightarrow> SmartQueueDependencyGate \<Rightarrow> SmartQueueHumanStatus" where
  "computeHumanQueueStatus task dependencyGate =
     (if sq_lifecycle task = LcRunning then humanStatus HsRunning ''Running'' None
      else if sq_lifecycle task = LcClosed then humanStatus HsClosed ''Closed'' None
      else if sq_lifecycle task = LcFailed then humanStatus HsFailed ''Failed'' None
      else if sq_lifecycle task = LcCancelled then humanStatus HsCancelled ''Cancelled'' None
      else if gate_gate dependencyGate = GateFailed
        then humanStatus HsBlocked ''Blocked: dependency failed'' None
      else if gate_gate dependencyGate = GateBlocked
        then humanStatus HsBlocked ''Blocked: dependency blocked'' None
      else if gate_gate dependencyGate = GateWaiting
        then humanStatus HsWaitingDependency ''Waiting dependency''
          (Some (''Waiting for: '' @ formatDependencyList (gate_waitingTaskIds dependencyGate)))
      else let blockers = js_default [] (sq_blockers task) in
        case List.find isDecisionBlocker blockers of
          Some decisionBlocker \<Rightarrow>
            humanStatus HsNeedsDecision (''Needs decision: '' @ shortReason (Some decisionBlocker)) None
        | None \<Rightarrow>
            if sq_lifecycle task = LcBlocked \<or> js_first blockers \<noteq> None
            then humanStatus HsBlocked (''Blocked: '' @ shortReason (js_first blockers)) None
            else if sq_lifecycle task = LcReview then humanStatus HsReview ''Review'' None
            else humanStatus HsReady ''Ready'' None)"

definition computeTaskEligibility ::
    "SmartQueueTaskInput \<Rightarrow> SmartQueueTaskInput list \<Rightarrow> SmartQueueDependency list
     \<Rightarrow> SmartQueueEligibilityContext \<Rightarrow> SmartQueueEligibility" where
  "computeTaskEligibility task tasks dependencies context =
     (let dependencyGate = computeDependencyGate task tasks dependencies;
          blockers = computeTaskBlockers task dependencyGate;
          hs = computeHumanQueueStatus (task\<lparr>sq_blockers := Some blockers\<rparr>) dependencyGate;
          refuse = (\<lambda>reason. \<lparr>el_autoEligibleToStart = False, el_blockers = blockers,
            el_dependencyGate = dependencyGate, el_humanStatus = hs, el_reason = reason\<rparr>)
      in if hs_status hs \<noteq> HsReady then refuse (hs_text hs)
         else if gate_gate dependencyGate \<noteq> GateNone \<and> gate_gate dependencyGate \<noteq> GateSatisfied
           then refuse (hs_text hs)
         else if 0 < length blockers then refuse (''Blocked: '' @ shortReason (js_first blockers))
         else if ec_queueState context \<noteq> SqActive
           then refuse (if ec_queueState context = SqPaused then ''Queue Paused'' else ''Queue is not active'')
         else if \<not> ec_capacityAvailable context
           then (refuse ''No worker capacity is available'')\<lparr>el_blockers := blockers @
                  [\<lparr>sb_kind = BkWorkerUnavailable, sb_reason = ''worker unavailable'',
                    sb_taskId = Some (sq_taskId task), sb_upstreamTaskId = None,
                    sb_rootCauseTaskIds = None\<rparr>]\<rparr>
         else \<lparr>el_autoEligibleToStart = True, el_blockers = blockers,
               el_dependencyGate = dependencyGate, el_humanStatus = hs, el_reason = ''Eligible''\<rparr>)"

definition propagateTask ::
    "SmartQueueTaskInput list \<Rightarrow> SmartQueueDependency list \<Rightarrow> SmartQueueTaskInput
     \<Rightarrow> SmartQueueDependencyFailurePropagation \<Rightarrow> SmartQueueDependencyFailurePropagation" where
  "propagateTask tasks dependencies task acc =
     (let gate = computeDependencyGate task tasks dependencies;
          blockers = filter isDependencyBlocker (computeTaskBlockers task gate)
      in if 0 < length blockers
         then acc\<lparr>fp_affectedTaskIds := fp_affectedTaskIds acc @ [sq_taskId task],
                  fp_gatesByTaskId := AList.update (sq_taskId task) gate (fp_gatesByTaskId acc),
                  fp_blockersByTaskId := AList.update (sq_taskId task) blockers (fp_blockersByTaskId acc)\<rparr>
         else acc)"

definition computeDependencyFailurePropagation ::
    "SmartQueueTaskInput list \<Rightarrow> SmartQueueDependency list
     \<Rightarrow> SmartQueueDependencyFailurePropagation" where
  "computeDependencyFailurePropagation tasks dependencies =
     fold (propagateTask tasks dependencies) tasks
       \<lparr>fp_affectedTaskIds = [], fp_blockersByTaskId = [], fp_gatesByTaskId = []\<rparr>"

section \<open>The start gate\<close>

datatype QueueExecutionMode = ModeActive | ModePaused

record QueueExecutionModeState =
  qem_mode :: QueueExecutionMode
  qem_queueState :: SmartQueueState
  qem_reason :: "string option"

record SmartQueueExecutionGate =
  eg_canStartTaskNow :: bool
  eg_dependencyReason :: "string option"
  eg_eligibility :: SmartQueueEligibility
  eg_notEligibleReason :: "string option"
  eg_queueStateReason :: "string option"
  eg_queueExecutionMode :: QueueExecutionMode

fun queueStartUnavailableReason :: "SmartQueueState \<Rightarrow> string option" where
  "queueStartUnavailableReason SqActive = None"
| "queueStartUnavailableReason SqPaused = Some ''Queue is paused''"
| "queueStartUnavailableReason SqDraining = Some ''Queue is draining''"
| "queueStartUnavailableReason SqStopped = Some ''Queue is disabled''"

definition dependencyUnavailableReason :: "SmartQueueEligibility \<Rightarrow> string option" where
  "dependencyUnavailableReason eligibility =
     (case gate_gate (el_dependencyGate eligibility) of
        GateWaiting \<Rightarrow> Some ''Waiting dependency''
      | GateFailed \<Rightarrow> Some ''Blocked: dependency failed''
      | GateBlocked \<Rightarrow> Some ''Blocked: dependency blocked''
      | GateNone \<Rightarrow> None
      | GateSatisfied \<Rightarrow> None)"

definition canStartTaskNow ::
    "bool \<Rightarrow> SmartQueueDependency list \<Rightarrow> SmartQueueState \<Rightarrow> SmartQueueTaskInput
     \<Rightarrow> SmartQueueTaskInput list \<Rightarrow> SmartQueueExecutionGate" where
  "canStartTaskNow capacityAvailable dependencies queueState task tasks =
     (let eligibility = computeTaskEligibility task tasks dependencies
            \<lparr>ec_queueState = queueState, ec_capacityAvailable = capacityAvailable\<rparr>;
          queueStateReason = queueStartUnavailableReason queueState;
          dependencyReason = dependencyUnavailableReason eligibility;
          canStart = el_autoEligibleToStart eligibility
      in \<lparr>eg_canStartTaskNow = canStart,
          eg_dependencyReason = dependencyReason,
          eg_eligibility = eligibility,
          eg_notEligibleReason =
            (if canStart then None
             else js_coalesce (js_coalesce queueStateReason dependencyReason) (Some (el_reason eligibility))),
          eg_queueStateReason = queueStateReason,
          eg_queueExecutionMode = (if queueState = SqActive then ModeActive else ModePaused)\<rparr>)"

fun queueExecutionModeFromGlobalState :: "QueueGlobalStatus \<Rightarrow> QueueExecutionModeState" where
  "queueExecutionModeFromGlobalState QueueStarted =
     \<lparr>qem_mode = ModeActive, qem_queueState = SqActive, qem_reason = None\<rparr>"
| "queueExecutionModeFromGlobalState QueueStopKillRequested =
     \<lparr>qem_mode = ModePaused, qem_queueState = SqStopped,
      qem_reason = Some ''Stop + kill running requested''\<rparr>"
| "queueExecutionModeFromGlobalState QueueStopped =
     \<lparr>qem_mode = ModePaused, qem_queueState = SqPaused, qem_reason = Some ''Queue is disabled''\<rparr>"

section \<open>The gate, specified\<close>

text \<open>
  A task is clear when it is closed, or when it is still open and every task upstream of it exists
  and is clear. As a least fixed point this excludes a failed, cancelled, blocked or missing task
  anywhere upstream, and every cycle, up to the first closed task on each path.
\<close>

definition openLifecycle :: "SmartQueueTaskLifecycle \<Rightarrow> bool" where
  "openLifecycle l \<longleftrightarrow> l \<in> {LcDraft, LcQueued, LcReady, LcRunning, LcReview}"

definition upstreamIds :: "upstream_map \<Rightarrow> string \<Rightarrow> string list" where
  "upstreamIds ups i = js_default [] (map_of ups i)"

inductive clear :: "SmartQueueTaskInput list \<Rightarrow> upstream_map \<Rightarrow> string \<Rightarrow> bool"
  for tasks :: "SmartQueueTaskInput list" and ups :: upstream_map where
  clear_closed: "sqTasksById tasks i = Some t \<Longrightarrow> sq_lifecycle t = LcClosed \<Longrightarrow> clear tasks ups i"
| clear_open: "sqTasksById tasks i = Some t \<Longrightarrow> openLifecycle (sq_lifecycle t) \<Longrightarrow>
    (\<And>u. u \<in> set (upstreamIds ups i) \<Longrightarrow> clear tasks ups u) \<Longrightarrow> clear tasks ups i"

inductive_cases clear_cases: "clear tasks ups i"

definition hasLifecycle ::
    "SmartQueueTaskInput list \<Rightarrow> SmartQueueTaskLifecycle set \<Rightarrow> string \<Rightarrow> bool" where
  "hasLifecycle tasks ls i \<longleftrightarrow> (\<exists>t. sqTasksById tasks i = Some t \<and> sq_lifecycle t \<in> ls)"

text \<open>The upstream ids of a task, read off the dependency list.\<close>

definition startBlockersOf :: "SmartQueueDependency list \<Rightarrow> string \<Rightarrow> string set" where
  "startBlockersOf dependencies i =
     {sd_upstreamTaskId d |d. d \<in> set dependencies \<and> sd_kind d = ''blocks_start'' \<and> sd_downstreamTaskId d = i}"

lemma upstreamIds_addDependency:
  "set (upstreamIds (addDependency d ups) i) =
     set (upstreamIds ups i) \<union>
     (if sd_kind d = ''blocks_start'' \<and> sd_downstreamTaskId d = i then {sd_upstreamTaskId d} else {})"
  by (auto simp: addDependency_def upstreamIds_def Let_def update_conv')

lemma set_upstreamIds_fold:
  "set (upstreamIds (fold addDependency ds ups) i) = set (upstreamIds ups i) \<union> startBlockersOf ds i"
  by (induction ds arbitrary: ups) (auto simp: upstreamIds_addDependency startBlockersOf_def)

lemma set_upstreamIds_dependencyMap [simp]:
  "set (upstreamIds (dependencyMap ds) i) = startBlockersOf ds i"
  using set_upstreamIds_fold [of ds "[]" i] by (simp add: dependencyMap_def upstreamIds_def)

subsection \<open>The lists of the gate\<close>

fun entryState :: "string \<times> UpstreamDependencyState option \<Rightarrow> PropagationState" where
  "entryState (u, None) = PsDependencyBlocked"
| "entryState (u, Some s) = up_state s"

lemma gateStep_lists:
  "gate_failedTaskIds (gateStep e g) =
     gate_failedTaskIds g @ (if entryState e = PsDependencyFailed then [fst e] else [])"
  "gate_blockedTaskIds (gateStep e g) =
     gate_blockedTaskIds g @ (if entryState e = PsDependencyBlocked then [fst e] else [])"
  "gate_waitingTaskIds (gateStep e g) =
     gate_waitingTaskIds g @ (if entryState e = PsWaitingDependency then [fst e] else [])"
  "gate_satisfiedTaskIds (gateStep e g) =
     gate_satisfiedTaskIds g @ (if entryState e = PsSatisfied then [fst e] else [])"
  by (cases e; cases "snd e"; simp add: gateStep_def split: PropagationState.split)+

definition entriesIn :: "PropagationState \<Rightarrow> (string \<times> UpstreamDependencyState option) list \<Rightarrow> string list" where
  "entriesIn s es = map fst (filter (\<lambda>e. entryState e = s) es)"

lemma fold_gateStep_lists:
  "gate_failedTaskIds (fold gateStep es g) = gate_failedTaskIds g @ entriesIn PsDependencyFailed es"
  "gate_blockedTaskIds (fold gateStep es g) = gate_blockedTaskIds g @ entriesIn PsDependencyBlocked es"
  "gate_waitingTaskIds (fold gateStep es g) = gate_waitingTaskIds g @ entriesIn PsWaitingDependency es"
  "gate_satisfiedTaskIds (fold gateStep es g) = gate_satisfiedTaskIds g @ entriesIn PsSatisfied es"
  by (induction es arbitrary: g) (simp_all add: gateStep_lists entriesIn_def)

lemma gateOfUpstream_lists:
  "gate_failedTaskIds (gateOfUpstream es) = entriesIn PsDependencyFailed es"
  "gate_blockedTaskIds (gateOfUpstream es) = entriesIn PsDependencyBlocked es"
  "gate_waitingTaskIds (gateOfUpstream es) = entriesIn PsWaitingDependency es"
  "gate_satisfiedTaskIds (gateOfUpstream es) = entriesIn PsSatisfied es"
  by (simp_all add: gateOfUpstream_def finishGate_def emptyDependencyGate_def fold_gateStep_lists)
     (simp_all add: entriesIn_def)

lemma entriesIn_Nil_iff: "entriesIn s es = [] \<longleftrightarrow> (\<forall>e \<in> set es. entryState e \<noteq> s)"
  by (simp add: entriesIn_def filter_empty_conv)

lemma gate_gateOfUpstream:
  "gate_gate (gateOfUpstream es) =
     (if es = [] then GateNone
      else if \<exists>e \<in> set es. entryState e = PsDependencyFailed then GateFailed
      else if \<exists>e \<in> set es. entryState e = PsDependencyBlocked then GateBlocked
      else if \<exists>e \<in> set es. entryState e = PsWaitingDependency then GateWaiting
      else GateSatisfied)"
  by (simp add: gateOfUpstream_def finishGate_def emptyDependencyGate_def fold_gateStep_lists
      entriesIn_Nil_iff)

subsection \<open>The state of an upstream task\<close>

definition unblocked :: "PropagationState \<Rightarrow> bool" where
  "unblocked s \<longleftrightarrow> s = PsSatisfied \<or> s = PsWaitingDependency"

lemma unblocked_iff: "unblocked s \<longleftrightarrow> s \<noteq> PsDependencyFailed \<and> s \<noteq> PsDependencyBlocked"
  by (cases s) (auto simp: unblocked_def)

lemma lifecycle_cases:
  "l = LcClosed \<or> l = LcFailed \<or> l = LcCancelled \<or> l = LcBlocked \<or> openLifecycle l"
  by (cases l) (auto simp: openLifecycle_def)

lemma openLifecycle_simps [simp]:
  "\<not> openLifecycle LcClosed" "\<not> openLifecycle LcFailed" "\<not> openLifecycle LcCancelled" "\<not> openLifecycle LcBlocked"
  by (simp_all add: openLifecycle_def)

lemma upstreamState_closed_iff:
  "up_state (computeUpstreamDependencyState tasks ups V t) = PsSatisfied \<longleftrightarrow> sq_lifecycle t = LcClosed"
  by (subst computeUpstreamDependencyState.simps) (auto simp: Let_def)

lemma upstreamState_failed_iff:
  "up_state (computeUpstreamDependencyState tasks ups V t) = PsDependencyFailed \<longleftrightarrow>
     sq_lifecycle t = LcFailed \<or> sq_lifecycle t = LcCancelled"
  by (subst computeUpstreamDependencyState.simps) (auto simp: Let_def)

lemma unblocked_upstreamState_iff:
  "unblocked (up_state (computeUpstreamDependencyState tasks ups V t)) \<longleftrightarrow>
     sq_lifecycle t = LcClosed \<or>
     openLifecycle (sq_lifecycle t) \<and> sq_taskId t \<notin> V \<and>
     (\<forall>u \<in> set (upstreamIds ups (sq_taskId t)). \<exists>x. sqTasksById tasks u = Some x \<and>
        unblocked (up_state (computeUpstreamDependencyState tasks ups (insert (sq_taskId t) V) x)))"
proof -
  let ?es = "map (\<lambda>u. (u, map_option
       (computeUpstreamDependencyState tasks ups (insert (sq_taskId t) V)) (sqTasksById tasks u)))
       (upstreamIds ups (sq_taskId t))"
  have e: "unblocked (entryState (u, map_option f (sqTasksById tasks u))) \<longleftrightarrow>
      (\<exists>x. sqTasksById tasks u = Some x \<and> unblocked (up_state (f x)))" for u f
    by (cases "sqTasksById tasks u") (simp_all add: unblocked_def)
  have g: "gate_gate (gateOfUpstream ?es) \<noteq> GateFailed \<and> gate_gate (gateOfUpstream ?es) \<noteq> GateBlocked
      \<longleftrightarrow> (\<forall>e \<in> set ?es. unblocked (entryState e))"
    by (auto simp: gate_gateOfUpstream unblocked_iff)
  have st: "unblocked (up_state (computeUpstreamDependencyState tasks ups V t)) \<longleftrightarrow>
      sq_lifecycle t = LcClosed \<or> openLifecycle (sq_lifecycle t) \<and> sq_taskId t \<notin> V \<and>
      gate_gate (gateOfUpstream ?es) \<noteq> GateFailed \<and> gate_gate (gateOfUpstream ?es) \<noteq> GateBlocked"
    using lifecycle_cases [of "sq_lifecycle t"]
    by (subst computeUpstreamDependencyState.simps) (auto simp: Let_def unblocked_def upstreamIds_def)
  show ?thesis unfolding st g by (simp add: e)
qed

lemma unblocked_imp_clear:
  "unblocked (up_state (computeUpstreamDependencyState tasks ups V t)) \<Longrightarrow>
   sqTasksById tasks i = Some t \<Longrightarrow> clear tasks ups i"
proof (induction "card (insert (sq_taskId t) (sq_taskId ` set tasks) - V)" arbitrary: V t i rule: less_induct)
  case less
  note t = sqTasksById_Some [OF less.prems(2)]
  show ?case
  proof (cases "sq_lifecycle t = LcClosed")
    case True
    with less.prems(2) show ?thesis by (rule clear_closed)
  next
    case False
    with less.prems(1) have o: "openLifecycle (sq_lifecycle t)" "i \<notin> V"
      and ups: "\<forall>u \<in> set (upstreamIds ups i). \<exists>x. sqTasksById tasks u = Some x \<and>
        unblocked (up_state (computeUpstreamDependencyState tasks ups (insert i V) x))"
      using unblocked_upstreamState_iff [of tasks ups V t] t by auto
    show ?thesis
    proof (rule clear_open [OF less.prems(2) o(1)])
      fix u assume "u \<in> set (upstreamIds ups i)"
      then obtain x where x: "sqTasksById tasks u = Some x"
        "unblocked (up_state (computeUpstreamDependencyState tasks ups (insert i V) x))" using ups by blast
      have "sq_taskId x \<in> sq_taskId ` set tasks" using sqTasksById_Some [OF x(1)] by blast
      then have "insert (sq_taskId x) (sq_taskId ` set tasks) - insert i V
          \<subset> insert (sq_taskId t) (sq_taskId ` set tasks) - V" using o(2) t by auto
      then have "card (insert (sq_taskId x) (sq_taskId ` set tasks) - insert i V)
          < card (insert (sq_taskId t) (sq_taskId ` set tasks) - V)" by (simp add: psubset_card_mono)
      from less.hyps [OF this x(2,1)] show "clear tasks ups u" .
    qed
  qed
qed

definition openEdges :: "SmartQueueTaskInput list \<Rightarrow> upstream_map \<Rightarrow> (string \<times> string) set" where
  "openEdges tasks ups =
     {(i, u). u \<in> set (upstreamIds ups i) \<and> (\<exists>t. sqTasksById tasks i = Some t \<and> openLifecycle (sq_lifecycle t))}"

lemma clear_acyclic: "clear tasks ups i \<Longrightarrow> (i, i) \<notin> (openEdges tasks ups)\<^sup>+"
proof (induction rule: clear.induct)
  case (clear_closed i t)
  then show ?case by (auto dest!: tranclD simp: openEdges_def)
next
  case (clear_open i t)
  show ?case
  proof
    assume "(i, i) \<in> (openEdges tasks ups)\<^sup>+"
    then obtain u where u: "(i, u) \<in> openEdges tasks ups" "(u, i) \<in> (openEdges tasks ups)\<^sup>*"
      by (meson tranclD)
    then have "(u, u) \<in> (openEdges tasks ups)\<^sup>+" by (meson rtrancl_into_trancl1)
    moreover have "u \<in> set (upstreamIds ups i)" using u(1) by (simp add: openEdges_def)
    ultimately show False using clear_open.IH by blast
  qed
qed

lemma clear_imp_unblocked:
  "clear tasks ups i \<Longrightarrow> sqTasksById tasks i = Some t \<Longrightarrow>
   (\<forall>j. (i, j) \<in> (openEdges tasks ups)\<^sup>* \<longrightarrow> j \<notin> V) \<Longrightarrow>
   unblocked (up_state (computeUpstreamDependencyState tasks ups V t))"
proof (induction arbitrary: V t rule: clear.induct)
  case (clear_closed i t' V t)
  then have "sq_lifecycle t = LcClosed" by simp
  then show ?case by (subst unblocked_upstreamState_iff) simp
next
  case (clear_open i t' V t)
  have tt: "t' = t" using clear_open.prems(1) clear_open.hyps(1) by simp
  have i: "sq_taskId t = i" "openLifecycle (sq_lifecycle t)"
    using sqTasksById_Some [OF clear_open.prems(1)] clear_open.hyps(2) by (simp_all add: tt)
  have "clear tasks ups i" using clear.clear_open clear_open.hyps by blast
  note acyc = clear_acyclic [OF this]
  have "\<exists>x. sqTasksById tasks u = Some x \<and>
      unblocked (up_state (computeUpstreamDependencyState tasks ups (insert i V) x))"
    if u: "u \<in> set (upstreamIds ups i)" for u
  proof -
    have e: "(i, u) \<in> openEdges tasks ups" using u i(2) clear_open.prems(1) unfolding openEdges_def by blast
    obtain x where x: "sqTasksById tasks u = Some x"
      using clear_open.hyps(3) [OF u] by (meson clear_cases)
    have "j \<notin> insert i V" if j: "(u, j) \<in> (openEdges tasks ups)\<^sup>*" for j
    proof -
      have "(i, j) \<in> (openEdges tasks ups)\<^sup>*" using e j by (meson converse_rtrancl_into_rtrancl)
      moreover have "j \<noteq> i" using acyc e j by (meson rtrancl_into_trancl2)
      ultimately show ?thesis using clear_open.prems(2) by blast
    qed
    with clear_open.IH [OF u x] x show ?thesis by blast
  qed
  moreover have "i \<notin> V" using clear_open.prems(2) by blast
  ultimately show ?case using i by (subst unblocked_upstreamState_iff) auto
qed


subsection \<open>What the gate says\<close>

lemma upstreamEntry_state:
  "entryState (u, map_option (computeUpstreamDependencyState tasks ups {}) (sqTasksById tasks u))
     = (if hasLifecycle tasks {LcFailed, LcCancelled} u then PsDependencyFailed
        else if \<not> clear tasks ups u then PsDependencyBlocked
        else if \<not> hasLifecycle tasks {LcClosed} u then PsWaitingDependency else PsSatisfied)"
proof (cases "sqTasksById tasks u")
  case None
  then have "\<not> clear tasks ups u" by (auto elim: clear_cases)
  with None show ?thesis by (simp add: hasLifecycle_def)
next
  case (Some t)
  have "unblocked (up_state (computeUpstreamDependencyState tasks ups {} t)) \<longleftrightarrow> clear tasks ups u"
    using unblocked_imp_clear clear_imp_unblocked Some by blast
  then show ?thesis
    using Some upstreamState_closed_iff [of tasks ups "{}" t] upstreamState_failed_iff [of tasks ups "{}" t]
      clear_closed [of tasks u t ups]
    by (cases "up_state (computeUpstreamDependencyState tasks ups {} t)")
       (auto simp: hasLifecycle_def unblocked_def)
qed

lemma gate_gate_map:
  "gate_gate (gateOfUpstream (map (\<lambda>u. (u, f u)) us)) =
     (if set us = {} then GateNone
      else if \<exists>u \<in> set us. entryState (u, f u) = PsDependencyFailed then GateFailed
      else if \<exists>u \<in> set us. entryState (u, f u) = PsDependencyBlocked then GateBlocked
      else if \<exists>u \<in> set us. entryState (u, f u) = PsWaitingDependency then GateWaiting
      else GateSatisfied)"
  by (simp add: gate_gateOfUpstream)

lemma computeDependencyGate_eq:
  "computeDependencyGate task tasks dependencies =
     gateOfUpstream (map (\<lambda>u. (u, map_option
        (computeUpstreamDependencyState tasks (dependencyMap dependencies) {}) (sqTasksById tasks u)))
        (upstreamIds (dependencyMap dependencies) (sq_taskId task)))"
  by (simp add: computeDependencyGate_def computeSmartQueueDependencyGate_def computeGateForTaskId_def
      upstreamIds_def)

text \<open>
  C5. The dependency gate of a task is decided by the tasks upstream of it: none without any; failed
  when a direct one failed or was cancelled; otherwise blocked when one is not clear (missing,
  blocked, or depending through open tasks on a failed, cancelled, blocked or missing task or on a
  cycle); otherwise waiting until all of them are closed, and then satisfied.
\<close>

theorem computeDependencyGate_correct:
  "gate_gate (computeDependencyGate task tasks dependencies) =
     (let us = startBlockersOf dependencies (sq_taskId task) in
      if us = {} then GateNone
      else if \<exists>u \<in> us. hasLifecycle tasks {LcFailed, LcCancelled} u then GateFailed
      else if \<exists>u \<in> us. \<not> clear tasks (dependencyMap dependencies) u then GateBlocked
      else if us \<subseteq> {u. hasLifecycle tasks {LcClosed} u} then GateSatisfied
      else GateWaiting)"
proof -
  let ?us = "startBlockersOf dependencies (sq_taskId task)"
  let ?st = "\<lambda>u. entryState (u, map_option
      (computeUpstreamDependencyState tasks (dependencyMap dependencies) {}) (sqTasksById tasks u))"
  let ?F = "hasLifecycle tasks {LcFailed, LcCancelled}" and ?C = "hasLifecycle tasks {LcClosed}"
  let ?K = "clear tasks (dependencyMap dependencies)"
  have cl: "?C u \<Longrightarrow> \<not> ?F u \<and> ?K u" for u by (auto simp: hasLifecycle_def intro: clear_closed)
  have F: "?st u = PsDependencyFailed \<longleftrightarrow> ?F u" for u by (simp add: upstreamEntry_state)
  have B: "?st u = PsDependencyBlocked \<longleftrightarrow> \<not> ?F u \<and> \<not> ?K u" for u by (simp add: upstreamEntry_state)
  have W: "?st u = PsWaitingDependency \<longleftrightarrow> \<not> ?F u \<and> ?K u \<and> \<not> ?C u" for u
    by (simp add: upstreamEntry_state)
  show ?thesis
    unfolding computeDependencyGate_eq gate_gate_map set_upstreamIds_dependencyMap Let_def F B W
    using cl by (simp add: subset_iff) blast
qed

lemma gateOfUpstream_blockers_iff:
  "gate_failedTaskIds (gateOfUpstream es) = [] \<and> gate_blockedTaskIds (gateOfUpstream es) = [] \<longleftrightarrow>
     gate_gate (gateOfUpstream es) \<noteq> GateFailed \<and> gate_gate (gateOfUpstream es) \<noteq> GateBlocked"
  unfolding gateOfUpstream_lists entriesIn_Nil_iff gate_gateOfUpstream by auto

lemma gate_blockers_Nil_iff:
  "dependencyBlockersForGate i (computeDependencyGate task tasks deps) = [] \<longleftrightarrow>
     gate_gate (computeDependencyGate task tasks deps) \<noteq> GateFailed \<and>
     gate_gate (computeDependencyGate task tasks deps) \<noteq> GateBlocked"
  unfolding computeDependencyGate_eq gateOfUpstream_blockers_iff [symmetric]
  by (simp add: dependencyBlockersForGate_def)

lemma gate_passes_iff:
  "gate_gate (computeDependencyGate task tasks deps) \<in> {GateNone, GateSatisfied} \<longleftrightarrow>
     startBlockersOf deps (sq_taskId task) \<subseteq> {u. hasLifecycle tasks {LcClosed} u}"
proof -
  let ?us = "startBlockersOf deps (sq_taskId task)"
  let ?st = "\<lambda>u. entryState (u, map_option
      (computeUpstreamDependencyState tasks (dependencyMap deps) {}) (sqTasksById tasks u))"
  have S: "?st u = PsSatisfied \<longleftrightarrow> hasLifecycle tasks {LcClosed} u" for u
    unfolding upstreamEntry_state by (auto simp: hasLifecycle_def intro: clear_closed)
  have "gate_gate (computeDependencyGate task tasks deps) \<in> {GateNone, GateSatisfied} \<longleftrightarrow>
      (\<forall>u \<in> ?us. ?st u = PsSatisfied)"
    unfolding computeDependencyGate_eq gate_gate_map set_upstreamIds_dependencyMap
    by (auto intro: PropagationState.exhaust)
  then show ?thesis unfolding S by blast
qed

lemma gate_stops_iff:
  "gate_gate (computeDependencyGate task tasks deps) \<in> {GateFailed, GateBlocked} \<longleftrightarrow>
     \<not> startBlockersOf deps (sq_taskId task) \<subseteq> {u. clear tasks (dependencyMap deps) u}"
proof -
  let ?us = "startBlockersOf deps (sq_taskId task)"
  let ?st = "\<lambda>u. entryState (u, map_option
      (computeUpstreamDependencyState tasks (dependencyMap deps) {}) (sqTasksById tasks u))"
  have K: "?st u = PsDependencyFailed \<or> ?st u = PsDependencyBlocked \<longleftrightarrow> \<not> clear tasks (dependencyMap deps) u"
    for u unfolding upstreamEntry_state by (auto simp: hasLifecycle_def elim: clear_cases)
  have "gate_gate (computeDependencyGate task tasks deps) \<in> {GateFailed, GateBlocked} \<longleftrightarrow>
      (\<exists>u \<in> ?us. ?st u = PsDependencyFailed \<or> ?st u = PsDependencyBlocked)"
    unfolding computeDependencyGate_eq gate_gate_map set_upstreamIds_dependencyMap by auto
  then show ?thesis unfolding K by blast
qed

lemma el_autoEligible_iff:
  "el_autoEligibleToStart (computeTaskEligibility task tasks deps context) \<longleftrightarrow>
     sq_lifecycle task \<in> {LcDraft, LcQueued, LcReady} \<and>
     gate_gate (computeDependencyGate task tasks deps) \<in> {GateNone, GateSatisfied} \<and>
     js_default [] (sq_blockers task) = [] \<and>
     ec_queueState context = SqActive \<and> ec_capacityAvailable context"
proof -
  let ?g = "computeDependencyGate task tasks deps"
  have hs: "hs_status (computeHumanQueueStatus (task\<lparr>sq_blockers := Some (computeTaskBlockers task ?g)\<rparr>) ?g)
        = HsReady \<and> computeTaskBlockers task ?g = [] \<longleftrightarrow>
      sq_lifecycle task \<in> {LcDraft, LcQueued, LcReady} \<and> gate_gate ?g \<in> {GateNone, GateSatisfied} \<and>
      js_default [] (sq_blockers task) = []"
    using gate_blockers_Nil_iff [of "sq_taskId task" task tasks deps]
    by (cases "sq_lifecycle task"; cases "gate_gate ?g")
       (auto simp: computeHumanQueueStatus_def computeTaskBlockers_def humanStatus_def js_first_def)
  show ?thesis
    unfolding computeTaskEligibility_def Let_def using hs by auto
qed

theorem canStartTaskNow_iff:
  "eg_canStartTaskNow (canStartTaskNow capacityAvailable deps queueState task tasks) \<longleftrightarrow>
     sq_lifecycle task \<in> {LcDraft, LcQueued, LcReady} \<and>
     startBlockersOf deps (sq_taskId task) \<subseteq> {u. hasLifecycle tasks {LcClosed} u} \<and>
     js_default [] (sq_blockers task) = [] \<and> queueState = SqActive \<and> capacityAvailable"
  by (simp only: canStartTaskNow_def Let_def el_autoEligible_iff gate_passes_iff) auto

text \<open>
  C39. A task starts automatically only when every task upstream of it is closed, it carries no blocker,
  the queue is active, a worker is free, and it has not run yet; and a task that is queued or ready does
  start then. (What the gate says of a draft is a divergence from the documentation:
  \<open>canStartTaskNow_draft\<close>.)
\<close>

theorem canStartTaskNow_gate:
  "(if eg_canStartTaskNow (canStartTaskNow capacityAvailable deps queueState task tasks)
    then startBlockersOf deps (sq_taskId task) \<subseteq> {u. hasLifecycle tasks {LcClosed} u}
      \<and> js_default [] (sq_blockers task) = [] \<and> queueState = SqActive \<and> capacityAvailable
      \<and> sq_lifecycle task \<notin> {LcRunning, LcReview, LcClosed, LcFailed, LcCancelled, LcBlocked}
    else \<not> (sq_lifecycle task \<in> {LcQueued, LcReady}
      \<and> startBlockersOf deps (sq_taskId task) \<subseteq> {u. hasLifecycle tasks {LcClosed} u}
      \<and> js_default [] (sq_blockers task) = [] \<and> queueState = SqActive \<and> capacityAvailable))"
  unfolding canStartTaskNow_iff by (cases "sq_lifecycle task") auto

text \<open>A draft counts as ready: the gate lets it start without being queued first.\<close>

lemma canStartTaskNow_draft:
  "eg_canStartTaskNow (canStartTaskNow True [] SqActive
     \<lparr>sq_taskId = ''d'', sq_title = None, sq_lifecycle = LcDraft, sq_blockers = None\<rparr> [])"
  by code_simp

definition propagationAffects ::
    "SmartQueueTaskInput list \<Rightarrow> SmartQueueDependency list \<Rightarrow> SmartQueueTaskInput \<Rightarrow> bool" where
  "propagationAffects tasks deps t \<longleftrightarrow>
     \<not> startBlockersOf deps (sq_taskId t) \<subseteq> {u. clear tasks (dependencyMap deps) u} \<or>
     list_ex isDependencyBlocker (js_default [] (sq_blockers t))"

lemma dependencyBlockersForGate_are_dependency:
  "filter isDependencyBlocker (dependencyBlockersForGate i g) = dependencyBlockersForGate i g"
  by (simp add: dependencyBlockersForGate_def filter_map comp_def isDependencyBlocker_def)

lemma propagated_blockers_Nil_iff:
  "filter isDependencyBlocker (computeTaskBlockers t (computeDependencyGate t tasks deps)) = [] \<longleftrightarrow>
     \<not> propagationAffects tasks deps t"
  using gate_stops_iff [of t tasks deps] gate_blockers_Nil_iff [of "sq_taskId t" t tasks deps]
  by (auto simp: computeTaskBlockers_def dependencyBlockersForGate_are_dependency propagationAffects_def
      filter_empty_conv list_ex_iff)

lemma fold_propagateTask:
  "fp_affectedTaskIds (fold (propagateTask tasks deps) ts acc) =
     fp_affectedTaskIds acc @ map sq_taskId (filter (propagationAffects tasks deps) ts)"
  "dom (map_of (fp_gatesByTaskId (fold (propagateTask tasks deps) ts acc))) =
     dom (map_of (fp_gatesByTaskId acc)) \<union> set (map sq_taskId (filter (propagationAffects tasks deps) ts))"
  by (induction ts arbitrary: acc)
     (auto simp: propagateTask_def Let_def propagated_blockers_Nil_iff update_conv' dom_if)

text \<open>
  The failure propagation marks, in queue order, exactly the tasks that have an upstream task
  which is not clear or already carry a dependency blocker, and records a gate for exactly those.
\<close>

theorem computeDependencyFailurePropagation_affected:
  "fp_affectedTaskIds (computeDependencyFailurePropagation tasks deps) =
     map sq_taskId (filter (propagationAffects tasks deps) tasks) \<and>
   dom (map_of (fp_gatesByTaskId (computeDependencyFailurePropagation tasks deps))) =
     set (fp_affectedTaskIds (computeDependencyFailurePropagation tasks deps))"
  by (simp add: computeDependencyFailurePropagation_def fold_propagateTask)

section \<open>Gates over the tasks of the queue\<close>

text \<open>The upstream ids the tasks with an id name.\<close>

definition namedUpstream :: "AgentQueueTask list \<Rightarrow> string \<Rightarrow> string set" where
  "namedUpstream tasks i =
     {u. u \<noteq> [] \<and> (\<exists>t \<in> set tasks. task_queueItemId t = i \<and> u \<in> js_trim ` set (js_default [] (task_dependsOn t)))}"

lemma startBlockersOf_named:
  "startBlockersOf
     (concat (map (\<lambda>task.
       map (\<lambda>upstreamTaskId. \<lparr>sd_upstreamTaskId = upstreamTaskId,
              sd_downstreamTaskId = task_queueItemId task, sd_kind = ''blocks_start''\<rparr>)
         (filter (\<lambda>i. i \<noteq> []) (map js_trim (js_default [] (task_dependsOn task))))) tasks)) i =
     namedUpstream tasks i" (is "startBlockersOf ?deps i = _")
proof (intro set_eqI iffI)
  fix u assume "u \<in> startBlockersOf ?deps i"
  then show "u \<in> namedUpstream tasks i" by (auto simp: startBlockersOf_def namedUpstream_def)
next
  fix u assume "u \<in> namedUpstream tasks i"
  then obtain t where t: "t \<in> set tasks" "task_queueItemId t = i" "u \<noteq> []"
    "u \<in> js_trim ` set (js_default [] (task_dependsOn t))" by (auto simp: namedUpstream_def)
  then have "\<lparr>sd_upstreamTaskId = u, sd_downstreamTaskId = i, sd_kind = ''blocks_start''\<rparr> \<in> set ?deps"
    by auto
  then show "u \<in> startBlockersOf ?deps i" unfolding startBlockersOf_def by force
qed

lemma sqTasksById_map:
  assumes "\<And>t. sq_taskId (f t) = task_queueItemId t"
  shows "sqTasksById (map f tasks) u = map_option f (tasksById tasks u)"
proof -
  have "map_of (rev (map (\<lambda>t. (task_queueItemId t, f t)) tasks)) u =
      map_option f (map_of (rev (map (\<lambda>t. (task_queueItemId t, t)) tasks)) u)" for u
    by (induction tasks rule: rev_induct) auto
  then show ?thesis
    by (simp add: sqTasksById_def tasksById_def map_of_js_map_of_entries comp_def assms)
qed

end
