(* ===== verification/Lifecycle_Overlay.thy ===== *)
theory Lifecycle_Overlay
  imports Lifecycle_Machine Smart_Queue
begin

text \<open>
  The overlay of \<open>workbench/queue/smartQueueDogfoodLifecycleController.ts\<close>: the lifecycle item a queue
  task is shown with (held or derived from the task's own status), the dependency gate over those
  items, their presentation, and the two self-tests, evaluated.
\<close>

section \<open>Deriving a lifecycle\<close>

definition createLifecycleForQueueTask ::
    "AgentQueueTask \<Rightarrow> string option \<Rightarrow> SmartQueueDogfoodLifecycleItem" where
  "createLifecycleForQueueTask task createdAt =
     createDogfoodLifecycleItem
       \<lparr>ci_taskId = task_queueItemId task, ci_title = Some (displayTaskTitle task),
        ci_originalPrompt = Some (task_prompt task),
        ci_createdAt = js_default (task_createdAt task) createdAt\<rparr>"

definition latestReport :: "AgentQueueTask \<Rightarrow> AgentQueueWorkerExecutionReport option" where
  "latestReport task = (case task_workerExecutionReports task of
     None \<Rightarrow> None | Some reports \<Rightarrow> if reports = [] then None else Some (last reports))"

definition latestQueueReportSummary :: "AgentQueueTask \<Rightarrow> string option" where
  "latestQueueReportSummary task =
     (case map_option (\<lambda>r. js_trim (report_summary r)) (latestReport task) of
        None \<Rightarrow> None | Some s \<Rightarrow> if s = [] then None else Some s)"

definition changedFilesSummaryForTask :: "AgentQueueTask \<Rightarrow> string option" where
  "changedFilesSummaryForTask task =
     (case latestReport task of
        None \<Rightarrow> None
      | Some report \<Rightarrow>
          if length (report_changedFiles report) = 0 then None
          else Some (''Changed files: '' @ js_nat_string (length (report_changedFiles report))))"

definition validationSummaryForTask :: "AgentQueueTask \<Rightarrow> string option" where
  "validationSummaryForTask task =
     (let validationStatus = normalizeValidationStatus (task_validationStatus task);
          result = Option.bind (latestReport task) report_validationResult
      in if js_truthy_str result then Some (''Validation '' @ js_default [] result @ ''.'')
         else if validationStatus \<noteq> ValNotStarted
           then Some (''Validation '' @ validationStatusName validationStatus @ ''.'')
         else None)"

fun derivedReviewTicketState :: "QueueCoordinatorStatus \<Rightarrow> SmartQueueDogfoodTicketState" where
  "derivedReviewTicketState CoFinalized = TkDone"
| "derivedReviewTicketState CoFailed = TkFailure"
| "derivedReviewTicketState CoBlocked = TkBlocked"
| "derivedReviewTicketState CoAwaitingValidation = TkInReview"
| "derivedReviewTicketState CoReadyForFinalization = TkInReview"
| "derivedReviewTicketState CoNeedsChanges = TkInReview"
| "derivedReviewTicketState CoFollowUpRequired = TkInReview"
| "derivedReviewTicketState CoRollbackRequired = TkInReview"
| "derivedReviewTicketState _ = TkAwaitingReview"

definition deriveLifecycleFromQueueTask ::
    "AgentQueueTask \<Rightarrow> SmartQueueDogfoodLifecycleItem option \<Rightarrow> SmartQueueDogfoodLifecycleItem" where
  "deriveLifecycleFromQueueTask task lifecycle =
     (if map_option item_taskId lifecycle = Some (task_queueItemId task) then the lifecycle
      else
        (let base = createLifecycleForQueueTask task None;
             status = normalizeTaskStatus (task_status task);
             coordinatorStatus = normalizeCoordinatorStatus (task_coordinatorStatus task);
             validationStatus = normalizeValidationStatus (task_validationStatus task);
             updatedAt = js_or_str (task_updatedAt task) (task_createdAt task)
         in if status = StDraft then base
            else if status = StQueued \<or> status = StReady
              then base\<lparr>item_ticketState := TkQueued, item_updatedAt := updatedAt\<rparr>
            else if status = StRunning
              then base\<lparr>item_agentPromptState := ApRunning,
                        item_currentRunnablePrompt := Some (task_prompt task),
                        item_ticketState := TkRunning, item_updatedAt := updatedAt\<rparr>
            else if status = StFailed
              then base\<lparr>item_agentPromptState := ApFailed,
                        item_failureReason := Some (js_default ''Task failed.'' (latestQueueReportSummary task)),
                        item_reviewOutcome := Some OutFailed, item_ticketState := TkFailure,
                        item_updatedAt := updatedAt\<rparr>
            else if status = StCancelled
              then base\<lparr>item_agentPromptState := ApNotCompleted,
                        item_failureReason := Some ''Task was cancelled.'',
                        item_reviewOutcome := Some OutNotCompleted, item_ticketState := TkFailure,
                        item_updatedAt := updatedAt\<rparr>
            else if status = StCompleted \<or> status = StReviewNeeded
              then (let reviewOutcome = (if validationStatus = ValFailed then OutFailed else OutCompleted) in
                base\<lparr>item_agentPromptState := (if reviewOutcome = OutFailed then ApFailed else ApCompleted),
                     item_changedFilesSummary := changedFilesSummaryForTask task,
                     item_finalAgentMessage := Some (js_default
                       (if status = StReviewNeeded then ''Task output is ready for review.''
                        else ''Task completed.'') (latestQueueReportSummary task)),
                     item_reviewOutcome := Some reviewOutcome,
                     item_ticketState := derivedReviewTicketState coordinatorStatus,
                     item_updatedAt := updatedAt,
                     item_validationSummary := validationSummaryForTask task\<rparr>)
            else base))"

text \<open>Where the held lifecycles come from: a map, a record keyed by task id, or a list.\<close>

datatype QueueTaskDogfoodLifecycleSource =
  SourceMap "(string \<times> SmartQueueDogfoodLifecycleItem) list"
| SourceRecord "(string \<times> SmartQueueDogfoodLifecycleItem) list"
| SourceList "SmartQueueDogfoodLifecycleItem list"

fun findDogfoodLifecycleForTask ::
    "string \<Rightarrow> QueueTaskDogfoodLifecycleSource option \<Rightarrow> SmartQueueDogfoodLifecycleItem option" where
  "findDogfoodLifecycleForTask taskId None = None"
| "findDogfoodLifecycleForTask taskId (Some (SourceMap m)) = map_of m taskId"
| "findDogfoodLifecycleForTask taskId (Some (SourceList items)) =
     List.find (\<lambda>candidate. item_taskId candidate = taskId) items"
| "findDogfoodLifecycleForTask taskId (Some (SourceRecord m)) = map_of m taskId"

section \<open>The dependency gate\<close>

fun smartLifecycleForTicket :: "SmartQueueDogfoodTicketState \<Rightarrow> SmartQueueTaskLifecycle" where
  "smartLifecycleForTicket TkDone = LcClosed"
| "smartLifecycleForTicket TkFailure = LcFailed"
| "smartLifecycleForTicket TkBlocked = LcBlocked"
| "smartLifecycleForTicket TkRunning = LcRunning"
| "smartLifecycleForTicket TkAwaitingReview = LcReview"
| "smartLifecycleForTicket TkInReview = LcReview"
| "smartLifecycleForTicket TkDraft = LcDraft"
| "smartLifecycleForTicket TkQueued = LcQueued"

definition smartLifecycleForDogfoodLifecycle ::
    "SmartQueueDogfoodLifecycleItem \<Rightarrow> SmartQueueTaskLifecycle" where
  "smartLifecycleForDogfoodLifecycle lifecycle = smartLifecycleForTicket (item_ticketState lifecycle)"

definition smartQueueTaskInputForQueueTaskDogfoodLifecycle ::
    "AgentQueueTask \<Rightarrow> SmartQueueDogfoodLifecycleItem option \<Rightarrow> SmartQueueTaskInput" where
  "smartQueueTaskInputForQueueTaskDogfoodLifecycle task lifecycle =
     \<lparr>sq_taskId = task_queueItemId task, sq_title = Some (displayTaskTitle task),
      sq_lifecycle = smartLifecycleForDogfoodLifecycle (deriveLifecycleFromQueueTask task lifecycle),
      sq_blockers = Some []\<rparr>"

definition smartQueueDependenciesForQueueTasks :: "AgentQueueTask list \<Rightarrow> SmartQueueDependency list" where
  "smartQueueDependenciesForQueueTasks tasks =
     concat (map (\<lambda>task.
       map (\<lambda>upstreamTaskId. \<lparr>sd_upstreamTaskId = upstreamTaskId,
              sd_downstreamTaskId = task_queueItemId task, sd_kind = ''blocks_start''\<rparr>)
         (filter (\<lambda>i. i \<noteq> []) (map js_trim (js_default [] (task_dependsOn task))))) tasks)"

fun dogfoodDependencyGateReason :: "DependencyGateValue \<Rightarrow> string" where
  "dogfoodDependencyGateReason GateNone = ''No dependencies''"
| "dogfoodDependencyGateReason GateSatisfied = ''Dogfood dependencies done''"
| "dogfoodDependencyGateReason GateWaiting = ''Waiting for dogfood dependency done''"
| "dogfoodDependencyGateReason GateBlocked = ''Blocked by dogfood dependency''"
| "dogfoodDependencyGateReason GateFailed = ''Blocked by failed dogfood dependency''"

record QueueTaskDogfoodDependencyGate =
  dg_canStart :: bool
  dg_gate :: SmartQueueDependencyGate
  dg_reason :: string

definition getQueueTaskDogfoodDependencyGate ::
    "QueueTaskDogfoodLifecycleSource option \<Rightarrow> AgentQueueTask \<Rightarrow> AgentQueueTask list
     \<Rightarrow> QueueTaskDogfoodDependencyGate" where
  "getQueueTaskDogfoodDependencyGate lifecycles task tasks =
     (let toSmart = (\<lambda>candidate. smartQueueTaskInputForQueueTaskDogfoodLifecycle candidate
            (findDogfoodLifecycleForTask (task_queueItemId candidate) lifecycles));
          dependencies = smartQueueDependenciesForQueueTasks tasks;
          smartTasks = map toSmart tasks;
          smartTask = js_default (toSmart task)
            (List.find (\<lambda>candidate. sq_taskId candidate = task_queueItemId task) smartTasks);
          gate = computeSmartQueueDependencyGate smartTask smartTasks dependencies
      in \<lparr>dg_canStart = (gate_gate gate = GateNone \<or> gate_gate gate = GateSatisfied),
          dg_gate = gate, dg_reason = dogfoodDependencyGateReason (gate_gate gate)\<rparr>)"

definition canQueueTaskStartByDogfoodLifecycleGate ::
    "QueueTaskDogfoodLifecycleSource option \<Rightarrow> AgentQueueTask \<Rightarrow> AgentQueueTask list \<Rightarrow> bool" where
  "canQueueTaskStartByDogfoodLifecycleGate lifecycles task tasks =
     dg_canStart (getQueueTaskDogfoodDependencyGate lifecycles task tasks)"

section \<open>Presentation\<close>

datatype QueueTaskLifecycle =
  QlDraft | QlQueued | QlReady | QlRunning | QlReportReady | QlReviewRequired | QlFinalized | QlBlocked
| QlFailed | QlCancelled

fun queueV2LifecycleForTicket :: "SmartQueueDogfoodTicketState \<Rightarrow> QueueTaskLifecycle" where
  "queueV2LifecycleForTicket TkDraft = QlDraft"
| "queueV2LifecycleForTicket TkQueued = QlQueued"
| "queueV2LifecycleForTicket TkRunning = QlRunning"
| "queueV2LifecycleForTicket TkAwaitingReview = QlReviewRequired"
| "queueV2LifecycleForTicket TkInReview = QlReviewRequired"
| "queueV2LifecycleForTicket TkDone = QlFinalized"
| "queueV2LifecycleForTicket TkFailure = QlFailed"
| "queueV2LifecycleForTicket TkBlocked = QlBlocked"

definition queueV2LifecycleForDogfoodLifecycle ::
    "SmartQueueDogfoodLifecycleItem \<Rightarrow> QueueTaskLifecycle" where
  "queueV2LifecycleForDogfoodLifecycle lifecycle = queueV2LifecycleForTicket (item_ticketState lifecycle)"

record DogfoodHumanStatus =
  dhs_detail :: "string option"
  dhs_label :: string
  dhs_status :: SmartQueueTaskHumanStatus
  dhs_text :: string

definition dogfoodHumanStatus ::
    "SmartQueueTaskHumanStatus \<Rightarrow> string \<Rightarrow> string option \<Rightarrow> DogfoodHumanStatus" where
  "dogfoodHumanStatus status label detail =
     \<lparr>dhs_detail = detail, dhs_label = label, dhs_status = status, dhs_text = label\<rparr>"

definition reviewLabelForLifecycle :: "SmartQueueDogfoodLifecycleItem \<Rightarrow> string option" where
  "reviewLabelForLifecycle lifecycle =
     (if item_ticketState lifecycle = TkAwaitingReview then Some ''Waiting for coordinator review''
      else if item_ticketState lifecycle = TkInReview then Some ''Review acknowledged'' else None)"

definition queueHumanStatusForDogfoodLifecycle ::
    "SmartQueueDogfoodLifecycleItem \<Rightarrow> DogfoodHumanStatus" where
  "queueHumanStatusForDogfoodLifecycle lifecycle =
     (let reviewLabel = reviewLabelForLifecycle lifecycle in
      case item_ticketState lifecycle of
        TkDraft \<Rightarrow> dogfoodHumanStatus HsReady ''Draft'' None
      | TkQueued \<Rightarrow> dogfoodHumanStatus HsReady ''Queued'' None
      | TkRunning \<Rightarrow> dogfoodHumanStatus HsRunning
          (if item_agentPromptState lifecycle = ApAdditionalPromptRunning
           then ''Follow-up prompt running'' else ''Running'') None
      | TkAwaitingReview \<Rightarrow> dogfoodHumanStatus HsReview ''Awaiting review''
          (Some (js_default ''Waiting for coordinator review'' reviewLabel))
      | TkInReview \<Rightarrow> dogfoodHumanStatus HsReview ''In review''
          (Some (js_default ''Review acknowledged'' reviewLabel))
      | TkDone \<Rightarrow> dogfoodHumanStatus HsClosed ''Done'' None
      | TkFailure \<Rightarrow> dogfoodHumanStatus HsFailed ''Failure'' None
      | TkBlocked \<Rightarrow> dogfoodHumanStatus HsBlocked ''Blocked'' (item_blockedReason lifecycle))"

record QueueTaskDogfoodLifecyclePresentation =
  pres_additionalPromptCount :: nat
  pres_agentPromptLabel :: string
  pres_agentPromptState :: SmartQueueDogfoodAgentPromptState
  pres_awaitingReview :: bool
  pres_detail :: "string option"
  pres_doneGatedForDependents :: bool
  pres_followUpPromptRunning :: bool
  pres_humanStatus :: DogfoodHumanStatus
  pres_inReview :: bool
  pres_primaryLabel :: string
  pres_reviewLabel :: "string option"
  pres_reviewOutcome :: "SmartQueueDogfoodReviewOutcome option"
  pres_secondaryLabels :: "string list"
  pres_sideEffects :: SideEffectFlags
  pres_taskId :: string
  pres_text :: string
  pres_ticketLabel :: string
  pres_ticketState :: SmartQueueDogfoodTicketState

definition getQueueTaskDogfoodLifecyclePresentation ::
    "SmartQueueDogfoodLifecycleItem \<Rightarrow> QueueTaskDogfoodLifecyclePresentation" where
  "getQueueTaskDogfoodLifecyclePresentation lifecycle =
     (let status = getLifecycleHumanStatus lifecycle;
          hs = queueHumanStatusForDogfoodLifecycle lifecycle;
          agentPromptLabel =
            (if item_agentPromptState lifecycle = ApAdditionalPromptRunning
             then ''Follow-up prompt running'' else lhs_agentPromptLabel status);
          reviewLabel = reviewLabelForLifecycle lifecycle;
          secondaryLabels = filter (\<lambda>s. s \<noteq> [])
            [if item_agentPromptState lifecycle \<noteq> ApIdle \<and> agentPromptLabel \<noteq> dhs_label hs
             then agentPromptLabel else [],
             if js_truthy_str reviewLabel \<and> reviewLabel \<noteq> Some (dhs_label hs)
             then js_default [] reviewLabel else [],
             if item_additionalPromptCount lifecycle > 0
             then ''Additional prompts: '' @ js_nat_string (item_additionalPromptCount lifecycle) else []]
      in \<lparr>pres_additionalPromptCount = item_additionalPromptCount lifecycle,
          pres_agentPromptLabel = agentPromptLabel,
          pres_agentPromptState = item_agentPromptState lifecycle,
          pres_awaitingReview = (item_ticketState lifecycle = TkAwaitingReview),
          pres_detail = dhs_detail hs,
          pres_doneGatedForDependents = canStartDependentAfterReviewGate lifecycle,
          pres_followUpPromptRunning = (item_agentPromptState lifecycle = ApAdditionalPromptRunning),
          pres_humanStatus = hs,
          pres_inReview = (item_ticketState lifecycle = TkInReview),
          pres_primaryLabel = dhs_label hs,
          pres_reviewLabel = reviewLabel,
          pres_reviewOutcome = item_reviewOutcome lifecycle,
          pres_secondaryLabels = secondaryLabels,
          pres_sideEffects = item_sideEffects lifecycle,
          pres_taskId = item_taskId lifecycle,
          pres_text = js_join '' - '' (dhs_label hs # secondaryLabels),
          pres_ticketLabel = lhs_ticketLabel status,
          pres_ticketState = item_ticketState lifecycle\<rparr>)"

record QueueTaskDogfoodLifecycleOverlay =
  ov_lifecycle :: SmartQueueDogfoodLifecycleItem
  ov_presentation :: QueueTaskDogfoodLifecyclePresentation
  ov_task :: AgentQueueTask
  ov_taskId :: string

definition createDogfoodLifecycleOverlayForQueueTask ::
    "AgentQueueTask \<Rightarrow> QueueTaskDogfoodLifecycleSource option \<Rightarrow> QueueTaskDogfoodLifecycleOverlay" where
  "createDogfoodLifecycleOverlayForQueueTask task source =
     (let lifecycle = deriveLifecycleFromQueueTask task
            (findDogfoodLifecycleForTask (task_queueItemId task) source)
      in \<lparr>ov_lifecycle = lifecycle, ov_presentation = getQueueTaskDogfoodLifecyclePresentation lifecycle,
          ov_task = task, ov_taskId = task_queueItemId task\<rparr>)"

section \<open>What the overlay shows\<close>

text \<open>The lifecycle shown for a task of the queue.\<close>

definition shownLifecycle ::
    "QueueTaskDogfoodLifecycleSource option \<Rightarrow> AgentQueueTask \<Rightarrow> SmartQueueDogfoodLifecycleItem" where
  "shownLifecycle lifecycles t =
     deriveLifecycleFromQueueTask t (findDogfoodLifecycleForTask (task_queueItemId t) lifecycles)"

lemma startBlockersOf_queueTasks:
  "startBlockersOf (smartQueueDependenciesForQueueTasks tasks) i = namedUpstream tasks i"
  unfolding smartQueueDependenciesForQueueTasks_def by (rule startBlockersOf_named)

lemma smartLifecycleForTicket_closed_iff: "smartLifecycleForTicket s = LcClosed \<longleftrightarrow> s = TkDone"
  by (cases s) auto

text \<open>
  The overlay lets a task start exactly when every upstream id the task names (trimmed, not
  empty) is a task of the queue whose lifecycle, held or derived, is done.
\<close>

theorem canQueueTaskStartByDogfoodLifecycleGate_iff:
  "canQueueTaskStartByDogfoodLifecycleGate lifecycles task tasks \<longleftrightarrow>
     namedUpstream tasks (task_queueItemId task) \<subseteq>
       {u. \<exists>t. tasksById tasks u = Some t \<and> item_ticketState (shownLifecycle lifecycles t) = TkDone}"
proof -
  let ?f = "\<lambda>c. smartQueueTaskInputForQueueTaskDogfoodLifecycle c
      (findDogfoodLifecycleForTask (task_queueItemId c) lifecycles)"
  let ?s = "js_default (?f task) (List.find (\<lambda>c. sq_taskId c = task_queueItemId task) (map ?f tasks))"
  have f: "sq_taskId (?f t) = task_queueItemId t" for t
    by (simp add: smartQueueTaskInputForQueueTaskDogfoodLifecycle_def)
  have s: "sq_taskId ?s = task_queueItemId task"
    by (cases "List.find (\<lambda>c. sq_taskId c = task_queueItemId task) (map ?f tasks)")
       (auto simp: f dest: find_Some_iff_mem)
  have l: "hasLifecycle (map ?f tasks) {LcClosed} u \<longleftrightarrow>
      (\<exists>t. tasksById tasks u = Some t \<and> item_ticketState (shownLifecycle lifecycles t) = TkDone)" for u
    unfolding hasLifecycle_def sqTasksById_map [of ?f, OF f]
    by (auto simp: smartQueueTaskInputForQueueTaskDogfoodLifecycle_def shownLifecycle_def
        smartLifecycleForDogfoodLifecycle_def smartLifecycleForTicket_closed_iff)
  have "canQueueTaskStartByDogfoodLifecycleGate lifecycles task tasks \<longleftrightarrow>
      gate_gate (computeDependencyGate ?s (map ?f tasks) (smartQueueDependenciesForQueueTasks tasks))
        \<in> {GateNone, GateSatisfied}"
    by (simp add: canQueueTaskStartByDogfoodLifecycleGate_def getQueueTaskDogfoodDependencyGate_def
        Let_def computeDependencyGate_def)
  then show ?thesis
    unfolding gate_passes_iff s startBlockersOf_queueTasks l .
qed

text \<open>
  The lifecycle shown for a task is the held one only when it is for this task; otherwise it is
  derived from the task, is done exactly when the task is completed or in review and its
  coordinator finalized it, and a draft, queued, ready or running task keeps that phase.
\<close>

theorem deriveLifecycleFromQueueTask_correct:
  "item_taskId (deriveLifecycleFromQueueTask task lifecycle) = task_queueItemId task \<and>
   (deriveLifecycleFromQueueTask task lifecycle = deriveLifecycleFromQueueTask task None \<or>
    lifecycle = Some (deriveLifecycleFromQueueTask task lifecycle)) \<and>
   item_ticketState (deriveLifecycleFromQueueTask task None) =
     (case normalizeTaskStatus (task_status task) of
        StDraft \<Rightarrow> TkDraft | StQueued \<Rightarrow> TkQueued | StReady \<Rightarrow> TkQueued | StRunning \<Rightarrow> TkRunning
      | StFailed \<Rightarrow> TkFailure | StCancelled \<Rightarrow> TkFailure
      | _ \<Rightarrow> derivedReviewTicketState (normalizeCoordinatorStatus (task_coordinatorStatus task)))"
proof (intro conjI)
  show "item_taskId (deriveLifecycleFromQueueTask task lifecycle) = task_queueItemId task"
    by (auto simp: deriveLifecycleFromQueueTask_def Let_def createLifecycleForQueueTask_def
        createDogfoodLifecycleItem_def)
  show "deriveLifecycleFromQueueTask task lifecycle = deriveLifecycleFromQueueTask task None \<or>
      lifecycle = Some (deriveLifecycleFromQueueTask task lifecycle)"
    by (cases "map_option item_taskId lifecycle = Some (task_queueItemId task)")
       (auto simp: deriveLifecycleFromQueueTask_def)
  show "item_ticketState (deriveLifecycleFromQueueTask task None) =
     (case normalizeTaskStatus (task_status task) of
        StDraft \<Rightarrow> TkDraft | StQueued \<Rightarrow> TkQueued | StReady \<Rightarrow> TkQueued | StRunning \<Rightarrow> TkRunning
      | StFailed \<Rightarrow> TkFailure | StCancelled \<Rightarrow> TkFailure
      | _ \<Rightarrow> derivedReviewTicketState (normalizeCoordinatorStatus (task_coordinatorStatus task)))"
    by (simp add: deriveLifecycleFromQueueTask_def Let_def createLifecycleForQueueTask_def
        createDogfoodLifecycleItem_def split: QueueTaskStatus.split)
qed

section \<open>The self-tests\<close>

text \<open>A computation that throws the message of a refused transition.\<close>

fun orThrow :: "string + 'a \<Rightarrow> ('a \<Rightarrow> string + 'b) \<Rightarrow> string + 'b" where
  "orThrow (Inl e) f = Inl e"
| "orThrow (Inr x) f = f x"

definition mustRun ::
    "(SmartQueueDogfoodLifecycleItem \<Rightarrow> 'v SmartQueueLifecycleTransitionResult)
     \<Rightarrow> SmartQueueDogfoodLifecycleItem \<Rightarrow> string + SmartQueueDogfoodLifecycleItem" where
  "mustRun f item = mustTransition (f item)"

definition reviewMessageInput :: "string \<Rightarrow> CreateReviewMessageInput" where
  "reviewMessageInput i =
     \<lparr>crm_messageId = i, crm_toCoordinatorAgentId = ''coordinator-1'',
      crm_createdAt = ''2026-06-16T00:11:00.000Z'', crm_attemptId = None, crm_evidenceSummary = None,
      crm_finalAgentMessage = None, crm_validationSummary = None, crm_changedFilesSummary = None,
      crm_workerEvidenceBundle = None\<rparr>"

definition reviewAckInput :: "string \<Rightarrow> string \<Rightarrow> AcknowledgeReviewMessageInput" where
  "reviewAckInput ackId messageId =
     \<lparr>arm_ackId = ackId, arm_messageId = messageId, arm_coordinatorAgentId = ''coordinator-1'',
      arm_receivedAt = ''2026-06-16T00:12:00.000Z''\<rparr>"

definition startInput :: "string \<Rightarrow> string \<Rightarrow> StartQueueItemRunInput" where
  "startInput attemptId threadId =
     \<lparr>sr_attemptId = Some attemptId, sr_threadId = Some threadId, sr_runnablePrompt = None,
      sr_startedAt = ''2026-06-16T00:02:00.000Z''\<rparr>"

definition completedInput :: "string \<Rightarrow> string option \<Rightarrow> string option \<Rightarrow> CompleteAgentPromptInput" where
  "completedInput message changedFiles validation =
     \<lparr>ca_attemptId = None, ca_threadId = None, ca_finalAgentMessage = message,
      ca_validationSummary = validation, ca_changedFilesSummary = changedFiles,
      ca_completedAt = ''2026-06-16T00:10:00.000Z'', ca_workerEvidenceBundle = None\<rparr>"

definition followUpInput :: "string \<Rightarrow> AddFollowUpPromptInput" where
  "followUpInput prompt =
     \<lparr>af_followUpPromptId = ''follow-up-1'', af_prompt = prompt,
      af_createdByCoordinatorAgentId = ''coordinator-1'', af_createdAt = ''2026-06-16T00:13:00.000Z'',
      af_parentAttemptId = None, af_threadId = None, af_decisionId = None\<rparr>"

definition runFakeFollowUpBranch :: "string + SmartQueueDogfoodLifecycleItem" where
  "runFakeFollowUpBranch =
     (let task = fakeQueueTask\<lparr>task_prompt := ''Implement follow-up branch.'',
            task_queueItemId := ''task-follow-up'', task_title := ''Follow-up task''\<rparr> in
      orThrow (mustRun (\<lambda>i. queueDogfoodLifecycleItem i ''2026-06-16T00:01:00.000Z'')
                 (createLifecycleForQueueTask task None)) (\<lambda>queued.
      orThrow (mustRun (\<lambda>i. startQueueItemRun i (startInput ''attempt-follow-up-1'' ''thread-follow-up''))
                 queued) (\<lambda>running.
      orThrow (mustRun (\<lambda>i. completeAgentPrompt i (completedInput ''Needs follow-up.'' None None))
                 running) (\<lambda>awaitingReview.
      orThrow (mustRun (\<lambda>i. createReviewMessage i (reviewMessageInput ''review-message-follow-up''))
                 awaitingReview) (\<lambda>messaged.
      orThrow (mustRun (\<lambda>i. acknowledgeReviewMessage i
                 (reviewAckInput ''ack-follow-up'' ''review-message-follow-up'')) messaged) (\<lambda>inReview.
      mustRun (\<lambda>i. applyCoordinatorFollowUpDecisionToQueueLifecycle i
        (followUpInput ''Continue with a narrower follow-up.'')) inReview))))))"

record QueueDogfoodLifecycleControllerSelfTestReport =
  cst_additionalPromptCount :: nat
  cst_dependentAfterDoneStartable :: bool
  cst_dependentBeforeDoneStartable :: bool
  cst_followUpReturnedToRunning :: bool
  cst_reportId :: string
  cst_sideEffects :: SideEffectFlags
  cst_status :: string
  cst_summary :: string

definition runFakeQueueDogfoodLifecycleControllerSelfTest ::
    "string + QueueDogfoodLifecycleControllerSelfTestReport" where
  "runFakeQueueDogfoodLifecycleControllerSelfTest =
     (let rootTask = fakeQueueTask\<lparr>task_prompt := ''Implement root task.'',
            task_queueItemId := ''task-root'', task_title := ''Root task''\<rparr>;
          dependentTask = fakeQueueTask\<lparr>task_dependsOn := Some [''task-root''],
            task_prompt := ''Implement dependent task.'', task_queueItemId := ''task-dependent'',
            task_title := ''Dependent task''\<rparr> in
      orThrow (mustRun (\<lambda>i. applyDogfoodLifecycleTransition i (TrQueue ''2026-06-16T00:01:00.000Z''))
                 (createLifecycleForQueueTask rootTask None)) (\<lambda>queuedRoot.
      orThrow (mustRun (\<lambda>i. applyDogfoodLifecycleTransition i
                 (TrStartRun (startInput ''attempt-root-1'' ''thread-root''))) queuedRoot) (\<lambda>runningRoot.
      orThrow (mustRun (\<lambda>i. applyAgentFinishedToQueueLifecycle i
                 \<lparr>aaf_attemptId = None, aaf_changedFilesSummary = Some ''Changed files: 1'',
                  aaf_finalAgentMessage = ''Root task completed.'',
                  aaf_finishedAt = ''2026-06-16T00:10:00.000Z'', aaf_outcome = OutCompleted,
                  aaf_threadId = None, aaf_validationSummary = Some ''Validation passed.'',
                  aaf_workerEvidenceBundle = None\<rparr>) runningRoot) (\<lambda>awaitingReviewRoot.
      let dependentBeforeDoneStartable = canQueueTaskStartByDogfoodLifecycleGate
            (Some (SourceList [awaitingReviewRoot])) dependentTask [rootTask, dependentTask] in
      orThrow (mustRun (\<lambda>i. createReviewMessage i (reviewMessageInput ''review-message-root''))
                 awaitingReviewRoot) (\<lambda>messagedRoot.
      orThrow (mustRun (\<lambda>i. applyCoordinatorAckToQueueLifecycle i
                 (reviewAckInput ''ack-root'' ''review-message-root'')) messagedRoot) (\<lambda>inReviewRoot.
      orThrow (mustRun (\<lambda>i. applyCoordinatorDoneDecisionToQueueLifecycle i
                 \<lparr>add_commitAttachedAt = ''2026-06-16T00:15:00.000Z'', add_commitHash = Some ''fake123'',
                  add_commitRequestCreatedAt = ''2026-06-16T00:14:00.000Z'',
                  add_commitRequestId = ''commit-request-root'',
                  add_commitRequestReason = ''Attach fake commit result.'',
                  add_commitResultId = ''commit-result-root'',
                  add_commitResultSummary = ''Fake commit result attached.'',
                  add_completedAt = ''2026-06-16T00:16:00.000Z'',
                  add_coordinatorAgentId = ''coordinator-1'', add_decisionId = ''decision-root-done'',
                  add_reason = ''Accepted.'', add_validationApprovedAt = ''2026-06-16T00:13:00.000Z'',
                  add_validationApprovalId = ''validation-root'',
                  add_validationSummary = ''Validation approved.''\<rparr>) inReviewRoot) (\<lambda>doneRoot.
      let dependentAfterDoneStartable = canQueueTaskStartByDogfoodLifecycleGate
            (Some (SourceList [doneRoot])) dependentTask [rootTask, dependentTask] in
      orThrow runFakeFollowUpBranch (\<lambda>followUpRunning.
      let passed = (\<not> dependentBeforeDoneStartable \<and> dependentAfterDoneStartable \<and>
            item_ticketState followUpRunning = TkRunning \<and>
            item_agentPromptState followUpRunning = ApAdditionalPromptRunning \<and>
            item_additionalPromptCount followUpRunning = 1) in
      Inr \<lparr>cst_additionalPromptCount = item_additionalPromptCount followUpRunning,
           cst_dependentAfterDoneStartable = dependentAfterDoneStartable,
           cst_dependentBeforeDoneStartable = dependentBeforeDoneStartable,
           cst_followUpReturnedToRunning = (item_ticketState followUpRunning = TkRunning),
           cst_reportId = ''smart-queue-dogfood-lifecycle-controller:self-test'',
           cst_sideEffects = NO_DOGFOOD_LIFECYCLE_SIDE_EFFECTS,
           cst_status = (if passed then ''passed'' else ''failed''),
           cst_summary = (if passed then ''Queue dogfood lifecycle controller self-test passed.''
             else ''Queue dogfood lifecycle controller self-test failed.'')\<rparr>))))))))"

text \<open>The self-test of \<open>smartQueueDogfoodLifecycleSelfTest.ts\<close>, on the operations themselves.\<close>

definition completeReviewAndCommit ::
    "SmartQueueDogfoodLifecycleItem \<Rightarrow> string + SmartQueueDogfoodLifecycleItem" where
  "completeReviewAndCommit completedRoot =
     orThrow (mustRun (\<lambda>i. createReviewMessage i (reviewMessageInput ''review-message-root''))
                completedRoot) (\<lambda>messagedRoot.
     orThrow (mustRun (\<lambda>i. acknowledgeReviewMessage i (reviewAckInput ''ack-root'' ''review-message-root''))
                messagedRoot) (\<lambda>acknowledgedRoot.
     orThrow (mustRun (\<lambda>i. approveValidation i
                \<lparr>av_validationApprovalId = ''validation-root'',
                 av_approvedByCoordinatorAgentId = ''coordinator-1'', av_summary = ''Validation approved.'',
                 av_approvedAt = ''2026-06-16T00:13:00.000Z'', av_decisionId = None\<rparr>)
                acknowledgedRoot) (\<lambda>approvedRoot.
     orThrow (mustRun (\<lambda>i. requestCommit i
                \<lparr>rc_commitRequestId = ''commit-request-root'',
                 rc_requestedByCoordinatorAgentId = ''coordinator-1'', rc_reason = ''Commit approved result.'',
                 rc_createdAt = ''2026-06-16T00:14:00.000Z'', rc_decisionId = None\<rparr>)
                approvedRoot) (\<lambda>commitRequestedRoot.
     orThrow (mustRun (\<lambda>i. attachCommitResult i
                \<lparr>ac_commitResultId = ''commit-result-root'',
                 ac_commitRequestId = Some ''commit-request-root'', ac_status = CommitSuccess,
                 ac_commitHash = Some ''abc1234'', ac_summary = ''Fake commit result attached.'',
                 ac_attachedAt = ''2026-06-16T00:15:00.000Z'', ac_coordinatorAgentId = None,
                 ac_decisionId = None\<rparr>) commitRequestedRoot) (\<lambda>commitAttachedRoot.
     mustRun (\<lambda>i. markQueueItemDone i
       \<lparr>md_decisionId = ''decision-root-done'', md_coordinatorAgentId = ''coordinator-1'',
        md_reason = ''Accepted and committed.'', md_completedAt = ''2026-06-16T00:16:00.000Z''\<rparr>)
       commitAttachedRoot)))))"

definition runFollowUpBranch :: "string \<Rightarrow> string + SmartQueueDogfoodLifecycleItem" where
  "runFollowUpBranch createdAt =
     orThrow (mustRun (\<lambda>i. queueDogfoodLifecycleItem i ''2026-06-16T00:01:00.000Z'')
        (createDogfoodLifecycleItem \<lparr>ci_taskId = ''task-follow-up'', ci_title = None,
           ci_originalPrompt = Some ''Implement follow-up branch.'', ci_createdAt = createdAt\<rparr>)) (\<lambda>queued.
     orThrow (mustRun (\<lambda>i. startQueueItemRun i (startInput ''attempt-follow-up-1'' ''thread-follow-up''))
        queued) (\<lambda>running.
     orThrow (mustRun (\<lambda>i. completeAgentPrompt i (completedInput ''Needs follow-up.'' None None))
        running) (\<lambda>completed.
     orThrow (mustRun (\<lambda>i. createReviewMessage i (reviewMessageInput ''review-message-follow-up''))
        completed) (\<lambda>messaged.
     orThrow (mustRun (\<lambda>i. acknowledgeReviewMessage i
        (reviewAckInput ''ack-follow-up'' ''review-message-follow-up'')) messaged) (\<lambda>acknowledged.
     mustRun (\<lambda>i. addFollowUpPrompt i
       (followUpInput ''Continue in the same thread with narrower scope.'')) acknowledged)))))"

record SmartQueueDogfoodLifecycleSelfTestReport =
  st_reportId :: string
  st_status :: string
  st_summary :: string
  st_upstreamBeforeDoneStartable :: bool
  st_upstreamAfterDoneStartable :: bool
  st_followUpAdditionalPromptCount :: nat
  st_sideEffects :: SideEffectFlags
  st_createdAt :: string

definition runSmartQueueDogfoodLifecycleSelfTest ::
    "string \<Rightarrow> string + SmartQueueDogfoodLifecycleSelfTestReport" where
  "runSmartQueueDogfoodLifecycleSelfTest createdAt =
     orThrow (mustRun (\<lambda>i. queueDogfoodLifecycleItem i ''2026-06-16T00:01:00.000Z'')
        (createDogfoodLifecycleItem \<lparr>ci_taskId = ''task-root'', ci_title = Some ''Root task'',
           ci_originalPrompt = Some ''Implement root task.'', ci_createdAt = createdAt\<rparr>)) (\<lambda>queuedRoot.
     orThrow (mustRun (\<lambda>i. startQueueItemRun i (startInput ''attempt-root-1'' ''thread-root''))
        queuedRoot) (\<lambda>runningRoot.
     orThrow (mustRun (\<lambda>i. completeAgentPrompt i
        (completedInput ''Root task completed.'' (Some ''Changed files: 1'') (Some ''Validation suggested.'')))
        runningRoot) (\<lambda>completedRoot.
     let dependentBeforeDone = canStartDependentAfterReviewGate completedRoot in
     orThrow (completeReviewAndCommit completedRoot) (\<lambda>doneRoot.
     orThrow (runFollowUpBranch createdAt) (\<lambda>followUpRunning.
     let passed = (\<not> dependentBeforeDone \<and> canStartDependentAfterReviewGate doneRoot \<and>
           item_ticketState followUpRunning = TkRunning \<and>
           item_agentPromptState followUpRunning = ApAdditionalPromptRunning \<and>
           item_additionalPromptCount followUpRunning = 1) in
     Inr \<lparr>st_reportId = ''smart-queue-dogfood-lifecycle:self-test'',
          st_status = (if passed then ''passed'' else ''failed''),
          st_summary = (if passed then ''Queue dogfood lifecycle model self-test passed.''
            else ''Queue dogfood lifecycle model self-test failed.''),
          st_upstreamBeforeDoneStartable = dependentBeforeDone,
          st_upstreamAfterDoneStartable = canStartDependentAfterReviewGate doneRoot,
          st_followUpAdditionalPromptCount = item_additionalPromptCount followUpRunning,
          st_sideEffects = NO_DOGFOOD_LIFECYCLE_SIDE_EFFECTS,
          st_createdAt = createdAt\<rparr>)))))"

text \<open>A computation that returns a result with a property; the rules follow the shape of the self-tests.\<close>

definition returns :: "string + 'a \<Rightarrow> ('a \<Rightarrow> bool) \<Rightarrow> bool" where
  "returns m Q \<longleftrightarrow> (\<exists>x. m = Inr x \<and> Q x)"

lemma returns_mustRun: "res_ok (f i) \<Longrightarrow> Q (res_item (f i)) \<Longrightarrow> returns (mustRun f i) Q"
  by (simp add: returns_def mustRun_def mustTransition_def)

lemma returns_step:
  "res_ok (f i) \<Longrightarrow> returns (g (res_item (f i))) Q \<Longrightarrow> returns (orThrow (mustRun f i) g) Q"
  by (simp add: returns_def mustRun_def mustTransition_def)

lemma returns_orThrow:
  "returns m P \<Longrightarrow> (\<And>x. P x \<Longrightarrow> returns (g x) Q) \<Longrightarrow> returns (orThrow m g) Q"
  by (auto simp: returns_def)

definition followUpIsRunning :: "SmartQueueDogfoodLifecycleItem \<Rightarrow> bool" where
  "followUpIsRunning item \<longleftrightarrow> item_ticketState item = TkRunning \<and>
     item_agentPromptState item = ApAdditionalPromptRunning \<and> item_additionalPromptCount item = 1"

lemma runFakeFollowUpBranch_returns: "returns runFakeFollowUpBranch followUpIsRunning"
  unfolding runFakeFollowUpBranch_def Let_def
  by (intro returns_step returns_mustRun; code_simp)

lemma runFollowUpBranch_returns: "returns (runFollowUpBranch createdAt) followUpIsRunning"
  unfolding runFollowUpBranch_def
  by (intro returns_step returns_mustRun; code_simp)

text \<open>
  Both self-tests of the lifecycle return a report that says passed: no transition of theirs is
  refused, a dependent task becomes startable only after its upstream is done, and the follow-up
  branch is running again with one additional prompt.
\<close>

theorem lifecycle_self_tests_pass:
  "returns runFakeQueueDogfoodLifecycleControllerSelfTest
     (\<lambda>r. cst_status r = ''passed'' \<and> \<not> cst_dependentBeforeDoneStartable r \<and>
          cst_dependentAfterDoneStartable r \<and> cst_additionalPromptCount r = 1) \<and>
   returns (runSmartQueueDogfoodLifecycleSelfTest createdAt)
     (\<lambda>r. st_status r = ''passed'' \<and> \<not> st_upstreamBeforeDoneStartable r \<and>
          st_upstreamAfterDoneStartable r \<and> st_followUpAdditionalPromptCount r = 1)"
proof
  show "returns runFakeQueueDogfoodLifecycleControllerSelfTest
     (\<lambda>r. cst_status r = ''passed'' \<and> \<not> cst_dependentBeforeDoneStartable r \<and>
          cst_dependentAfterDoneStartable r \<and> cst_additionalPromptCount r = 1)"
    unfolding runFakeQueueDogfoodLifecycleControllerSelfTest_def Let_def
    apply (rule returns_step, code_simp)+
    apply (rule returns_orThrow [OF runFakeFollowUpBranch_returns])
    apply (unfold followUpIsRunning_def)
    apply (simp add: returns_def)
    apply (intro conjI; code_simp)
    done
  show "returns (runSmartQueueDogfoodLifecycleSelfTest createdAt)
     (\<lambda>r. st_status r = ''passed'' \<and> \<not> st_upstreamBeforeDoneStartable r \<and>
          st_upstreamAfterDoneStartable r \<and> st_followUpAdditionalPromptCount r = 1)"
    unfolding runSmartQueueDogfoodLifecycleSelfTest_def Let_def
    apply (rule returns_step, code_simp)+
    apply (rule returns_orThrow [where P = canStartDependentAfterReviewGate])
     apply (unfold completeReviewAndCommit_def)
     apply (intro returns_step returns_mustRun; code_simp)
    apply (rule returns_orThrow [OF runFollowUpBranch_returns])
    apply (unfold followUpIsRunning_def)
    apply (simp add: returns_def)
    apply code_simp
    done
qed

end
