(* ===== verification/Json.thy ===== *)
theory Json
  imports Prelude
begin

text \<open>
  \<open>JSON.stringify\<close> and \<open>JSON.parse\<close> of the language, as the queue's records use them: objects,
  arrays, strings, integers, booleans and \<open>null\<close>. A number with a fraction or an exponent and an
  escape of a code unit above 255 have no value in the model, so \<open>jsonParse\<close> rejects them. The
  reader's recursion is bounded by fuel; \<open>jsonParse_stringify\<close> shows that what was written is read
  back, so the fuel is enough for it.
\<close>

section \<open>Values and their text\<close>

datatype json =
  JNull | JBool bool | JNum int | JStr string | JArr "json list" | JObj "(string \<times> json) list"

abbreviation DQUOTE :: char where "DQUOTE \<equiv> CHR 0x22"
abbreviation BACKSLASH :: char where "BACKSLASH \<equiv> CHR 0x5C"

definition hexDigit :: "nat \<Rightarrow> char" where
  "hexDigit n = (if n < 10 then char_of (48 + n) else char_of (87 + n))"

definition hexValue :: "char \<Rightarrow> nat option" where
  "hexValue c = (let n = of_char c in
     if 48 \<le> n \<and> n \<le> 57 then Some (n - 48)
     else if 97 \<le> n \<and> n \<le> 102 then Some (n - 87)
     else if 65 \<le> n \<and> n \<le> 70 then Some (n - 55) else None)"

text \<open>The escapes \<open>\\b \\t \\n \\f \\r \\" \\\\\<close> by letter, as they are written and read.\<close>

definition escapeLetters :: "(char \<times> char) list" where
  "escapeLetters = [(CHR 0x08, CHR ''b''), (CHR 0x09, CHR ''t''), (CHR 0x0A, CHR ''n''),
     (CHR 0x0C, CHR ''f''), (CHR 0x0D, CHR ''r''), (DQUOTE, DQUOTE), (BACKSLASH, BACKSLASH)]"

definition unescapeLetters :: "(char \<times> char) list" where
  "unescapeLetters = (CHR ''/'', CHR ''/'') # map (\<lambda>(c, l). (l, c)) escapeLetters"

definition escapeChar :: "char \<Rightarrow> string" where
  "escapeChar c =
     (case map_of escapeLetters c of
        Some l \<Rightarrow> [BACKSLASH, l]
      | None \<Rightarrow>
          if of_char c < (32 :: nat)
          then BACKSLASH # ''u00'' @ [hexDigit (of_char c div 16), hexDigit (of_char c mod 16)]
          else [c])"

definition jsonString :: "string \<Rightarrow> string" where
  "jsonString s = DQUOTE # concat (map escapeChar s) @ [DQUOTE]"

definition jsonInt :: "int \<Rightarrow> string" where
  "jsonInt n = (if n < 0 then CHR ''-'' # js_nat_string (nat (- n)) else js_nat_string (nat n))"

fun jsonStringify :: "json \<Rightarrow> string" where
  "jsonStringify JNull = ''null''"
| "jsonStringify (JBool b) = (if b then ''true'' else ''false'')"
| "jsonStringify (JNum n) = jsonInt n"
| "jsonStringify (JStr s) = jsonString s"
| "jsonStringify (JArr xs) = CHR ''['' # js_join '','' (map jsonStringify xs) @ '']''"
| "jsonStringify (JObj ms) =
     CHR ''{'' # js_join '','' (map (\<lambda>(k, v). jsonString k @ CHR '':'' # jsonStringify v) ms) @ ''}''"

section \<open>Reading\<close>

definition jsonSpace :: "char \<Rightarrow> bool" where
  "jsonSpace c \<longleftrightarrow> c \<in> {CHR '' '', CHR 0x09, CHR 0x0A, CHR 0x0D}"

definition skipSpace :: "string \<Rightarrow> string" where
  "skipSpace = dropWhile jsonSpace"

definition consChar :: "char \<Rightarrow> (string \<times> string) option \<Rightarrow> (string \<times> string) option" where
  "consChar c r = map_option (\<lambda>(s, rest). (c # s, rest)) r"

definition readHex :: "char \<Rightarrow> char \<Rightarrow> char \<Rightarrow> char \<Rightarrow> char option" where
  "readHex a b c d =
     (case (hexValue a, hexValue b, hexValue c, hexValue d) of
        (Some w, Some x, Some y, Some z) \<Rightarrow>
          if w = 0 \<and> x = 0 then Some (char_of (16 * y + z)) else None
      | _ \<Rightarrow> None)"

text \<open>The text of a string up to its closing quote.\<close>

fun readString :: "string \<Rightarrow> (string \<times> string) option" where
  "readString [] = None"
| "readString (c # cs) =
     (if c = DQUOTE then Some ([], cs)
      else if c = BACKSLASH then
        (case cs of
           [] \<Rightarrow> None
         | l # rest \<Rightarrow>
             if l = CHR ''u'' then
               (case rest of
                  a # b # x # y # rest' \<Rightarrow>
                    (case readHex a b x y of None \<Rightarrow> None | Some e \<Rightarrow> consChar e (readString rest'))
                | _ \<Rightarrow> None)
             else
               (case map_of unescapeLetters l of
                  None \<Rightarrow> None
                | Some e \<Rightarrow> consChar e (readString rest)))
      else if of_char c < (32 :: nat) then None
      else consChar c (readString cs))"

definition isDigit :: "char \<Rightarrow> bool" where
  "isDigit c \<longleftrightarrow> (let n = of_char c in (48 :: nat) \<le> n \<and> n \<le> 57)"

definition digitsValue :: "string \<Rightarrow> nat" where
  "digitsValue ds = foldl (\<lambda>n c. 10 * n + (of_char c - 48)) 0 ds"

definition readNat :: "string \<Rightarrow> (nat \<times> string) option" where
  "readNat s =
     (let ds = takeWhile isDigit s; rest = dropWhile isDigit s in
      if ds = [] \<or> (1 < length ds \<and> hd ds = CHR ''0'') then None
      else if rest \<noteq> [] \<and> hd rest \<in> {CHR ''.'', CHR ''e'', CHR ''E''} then None
      else Some (digitsValue ds, rest))"

definition readNumber :: "string \<Rightarrow> (json \<times> string) option" where
  "readNumber s =
     (if s \<noteq> [] \<and> hd s = CHR ''-''
      then map_option (\<lambda>(n, rest). (JNum (- int n), rest)) (readNat (tl s))
      else map_option (\<lambda>(n, rest). (JNum (int n), rest)) (readNat s))"

definition readWord :: "string \<Rightarrow> json \<Rightarrow> string \<Rightarrow> (json \<times> string) option" where
  "readWord w v s = (if take (length w) s = w then Some (v, drop (length w) s) else None)"

fun readValue :: "nat \<Rightarrow> string \<Rightarrow> (json \<times> string) option"
and readElements :: "nat \<Rightarrow> string \<Rightarrow> (json list \<times> string) option"
and readMembers :: "nat \<Rightarrow> string \<Rightarrow> ((string \<times> json) list \<times> string) option" where
  "readValue 0 s = None"
| "readValue (Suc n) s =
     (case skipSpace s of
        [] \<Rightarrow> None
      | c # cs \<Rightarrow>
          if c = DQUOTE then map_option (\<lambda>(t, rest). (JStr t, rest)) (readString cs)
          else if c = CHR ''['' then
            (case skipSpace cs of
               d # ds \<Rightarrow>
                 if d = CHR '']'' then Some (JArr [], ds)
                 else map_option (\<lambda>(vs, rest). (JArr vs, rest)) (readElements n (d # ds))
             | [] \<Rightarrow> None)
          else if c = CHR ''{'' then
            (case skipSpace cs of
               d # ds \<Rightarrow>
                 if d = CHR ''}'' then Some (JObj [], ds)
                 else map_option (\<lambda>(ms, rest). (JObj (js_map_of_entries ms), rest)) (readMembers n (d # ds))
             | [] \<Rightarrow> None)
          else if c = CHR ''t'' then readWord ''true'' (JBool True) (c # cs)
          else if c = CHR ''f'' then readWord ''false'' (JBool False) (c # cs)
          else if c = CHR ''n'' then readWord ''null'' JNull (c # cs)
          else readNumber (c # cs))"
| "readElements 0 s = None"
| "readElements (Suc n) s =
     (case readValue n s of
        None \<Rightarrow> None
      | Some (v, rest) \<Rightarrow>
          (case skipSpace rest of
             [] \<Rightarrow> None
           | c # cs \<Rightarrow>
               if c = CHR '']'' then Some ([v], cs)
               else if c = CHR '','' then map_option (\<lambda>(vs, r). (v # vs, r)) (readElements n cs)
               else None))"
| "readMembers 0 s = None"
| "readMembers (Suc n) s =
     (case skipSpace s of
        [] \<Rightarrow> None
      | q # qs \<Rightarrow>
          if q \<noteq> DQUOTE then None
          else (case readString qs of
             None \<Rightarrow> None
           | Some (k, rest) \<Rightarrow>
               (case skipSpace rest of
                  [] \<Rightarrow> None
                | c # cs \<Rightarrow>
                    if c \<noteq> CHR '':'' then None
                    else (case readValue n cs of
                       None \<Rightarrow> None
                     | Some (v, rest') \<Rightarrow>
                         (case skipSpace rest' of
                            [] \<Rightarrow> None
                          | d # ds \<Rightarrow>
                              if d = CHR ''}'' then Some ([(k, v)], ds)
                              else if d = CHR '','' then map_option (\<lambda>(ms, r). ((k, v) # ms, r)) (readMembers n ds)
                              else None)))))"

definition jsonParse :: "string \<Rightarrow> json option" where
  "jsonParse s =
     (case readValue (2 * length s + 2) s of
        None \<Rightarrow> None
      | Some (v, rest) \<Rightarrow> if skipSpace rest = [] then Some v else None)"

section \<open>Strings and numbers are read back\<close>

lemma hexValue_hexDigit [simp]: "n < 16 \<Longrightarrow> hexValue (hexDigit n) = Some n"
  by (auto simp: hexValue_def hexDigit_def Let_def)

lemma of_char_div16 [simp]: "(of_char c :: nat) div 16 < 16"
proof -
  have "(of_char c :: nat) = of_char c mod 256" by (metis char_of_char of_char_of)
  then have "(of_char c :: nat) < 256" by (metis mod_less_divisor zero_less_numeral)
  then show ?thesis by linarith
qed

lemma unescapeLetters_simps [simp]:
  "map_of escapeLetters c = Some l \<Longrightarrow> l \<noteq> CHR ''u'' \<and> map_of unescapeLetters l = Some c"
  by (auto simp: escapeLetters_def unescapeLetters_def split: if_splits)

lemma readString_escape: "readString (escapeChar c @ s) = consChar c (readString s)"
proof (cases "map_of escapeLetters c")
  case (Some l)
  then show ?thesis by (simp add: escapeChar_def)
next
  case None
  then have "c \<noteq> DQUOTE" "c \<noteq> BACKSLASH" by (auto simp: escapeLetters_def)
  moreover have "readHex CHR ''0'' CHR ''0'' (hexDigit (of_char c div 16)) (hexDigit (of_char c mod 16)) = Some c"
  proof -
    have "hexValue CHR ''0'' = Some 0" by (simp add: hexValue_def)
    moreover have "16 * (of_char c div 16) + of_char c mod 16 = (of_char c :: nat)" by simp
    ultimately show ?thesis by (simp add: readHex_def)
  qed
  ultimately show ?thesis using None by (simp add: escapeChar_def)
qed

lemma readString_escaped: "readString (concat (map escapeChar s) @ DQUOTE # rest) = Some (s, rest)"
  by (induction s) (simp_all add: readString_escape consChar_def)

declare readString.simps(2) [simp del]

lemma isDigit_digit: "k < (10 :: nat) \<Longrightarrow> isDigit (char_of (48 + k))"
  by (simp add: isDigit_def Let_def)

lemma js_nat_string_digits: "\<forall>c \<in> set (js_nat_string n). isDigit c"
proof (induction n rule: js_nat_string.induct)
  case (1 n)
  then show ?case by (subst js_nat_string.simps) (auto simp: isDigit_digit)
qed

lemma js_nat_string_ne [simp]: "js_nat_string n \<noteq> []"
  by (subst js_nat_string.simps) auto

lemma digitsValue_snoc: "digitsValue (ds @ [c]) = 10 * digitsValue ds + (of_char c - 48)"
  by (simp add: digitsValue_def)

lemma digitsValue_nat_string [simp]: "digitsValue (js_nat_string n) = n"
proof (induction n rule: js_nat_string.induct)
  case (1 n)
  show ?case
  proof (cases "n < 10")
    case True
    then show ?thesis by (subst js_nat_string.simps) (simp add: digitsValue_def)
  next
    case False
    have "digitsValue (js_nat_string n)
        = 10 * digitsValue (js_nat_string (n div 10)) + (of_char (char_of (48 + n mod 10) :: char) - 48)"
      using False by (subst js_nat_string.simps) (simp add: digitsValue_snoc)
    also have "\<dots> = n" using 1 [OF False] by simp
    finally show ?thesis .
  qed
qed

lemma js_nat_string_no_leading_zero: "1 < length (js_nat_string n) \<Longrightarrow> hd (js_nat_string n) \<noteq> CHR ''0''"
proof (induction n rule: js_nat_string.induct)
  case (1 n)
  show ?case
  proof (cases "n < 10")
    case True
    with 1(2) show ?thesis by (subst (asm) js_nat_string.simps) simp
  next
    case False
    have hd: "hd (js_nat_string n) = hd (js_nat_string (n div 10))"
      using False by (subst js_nat_string.simps) simp
    show ?thesis
    proof (cases "n div 10 < 10")
      case True
      with False have "n div 10 \<noteq> 0" by auto
      with True have "(48 + n div 10) mod 256 \<noteq> (48 :: nat)"
        by (subst mod_less) simp_all
      moreover from True have "js_nat_string (n div 10) = [char_of (48 + n div 10)]"
        by (subst js_nat_string.simps) simp
      moreover have "char_of (48 + n div 10) = CHR ''0'' \<Longrightarrow> (48 + n div 10) mod 256 = (48 :: nat)"
        by (drule arg_cong [of _ _ "of_char :: char \<Rightarrow> nat"]) (simp only: of_char_of of_char_Char, simp)
      ultimately show ?thesis unfolding hd by auto
    next
      case False
      then have "1 < length (js_nat_string (n div 10))"
        by (subst js_nat_string.simps) (simp add: Suc_less_eq)
      with 1(1) \<open>\<not> n < 10\<close> show ?thesis unfolding hd by blast
    qed
  qed
qed

definition numberEnds :: "string \<Rightarrow> bool" where
  "numberEnds rest \<longleftrightarrow> rest = [] \<or> \<not> isDigit (hd rest) \<and> hd rest \<notin> {CHR ''.'', CHR ''e'', CHR ''E''}"

lemma numberEnds_simps [simp]:
  "numberEnds []" "numberEnds (CHR '','' # s)" "numberEnds (CHR '']'' # s)" "numberEnds (CHR ''}'' # s)"
  by (simp_all add: numberEnds_def isDigit_def)

lemma readNat_nat_string:
  assumes "numberEnds rest" shows "readNat (js_nat_string n @ rest) = Some (n, rest)"
proof -
  have "takeWhile isDigit (js_nat_string n @ rest) = js_nat_string n @ takeWhile isDigit rest"
    "dropWhile isDigit (js_nat_string n @ rest) = dropWhile isDigit rest"
    using js_nat_string_digits [of n] by (simp_all add: takeWhile_append2 dropWhile_append2)
  moreover have "takeWhile isDigit rest = []" "dropWhile isDigit rest = rest"
    using assms by (cases rest; auto simp: numberEnds_def)+
  ultimately show ?thesis
    using assms js_nat_string_no_leading_zero [of n] by (auto simp: readNat_def numberEnds_def Let_def takeWhile_eq_all_conv [THEN iffD2]
        dropWhile_eq_Nil_conv [THEN iffD2] js_nat_string_digits)
qed

lemma hd_js_nat_string: "isDigit (hd (js_nat_string n))"
  using js_nat_string_digits hd_in_set js_nat_string_ne by blast

lemma readNumber_int:
  assumes "numberEnds rest" shows "readNumber (jsonInt n @ rest) = Some (JNum n, rest)"
proof (cases "n < 0")
  case True
  then show ?thesis by (simp add: readNumber_def jsonInt_def readNat_nat_string assms)
next
  case False
  have "hd (js_nat_string (nat n)) \<noteq> CHR ''-''"
    using hd_js_nat_string [of "nat n"] by (auto simp: isDigit_def)
  with False show ?thesis by (simp add: readNumber_def jsonInt_def readNat_nat_string assms)
qed

section \<open>Values are read back\<close>

text \<open>The keys of every object are distinct, as they are in an object of the language.\<close>

fun jsonOk :: "json \<Rightarrow> bool" where
  "jsonOk (JArr xs) \<longleftrightarrow> list_all jsonOk xs"
| "jsonOk (JObj ms) \<longleftrightarrow> distinct (map fst ms) \<and> list_all (\<lambda>(k, v). jsonOk v) ms"
| "jsonOk j \<longleftrightarrow> True"

lemma fold_update_distinct:
  "distinct (map fst (acc @ ms)) \<Longrightarrow> fold (\<lambda>(k, v). AList.update k v) ms acc = acc @ ms"
proof (induction ms arbitrary: acc)
  case (Cons m ms)
  obtain k v where m: "m = (k, v)" by (cases m)
  with Cons.prems have "k \<notin> fst ` set acc" by auto
  then have "AList.update k v acc = acc @ [(k, v)]"
    by (induction acc) auto
  with Cons m show ?case by simp
qed simp

lemma js_map_of_entries_id: "distinct (map fst ms) \<Longrightarrow> js_map_of_entries ms = ms"
  using fold_update_distinct [of "[]" ms] by (simp add: js_map_of_entries_def)

lemma skipSpace_Cons [simp]: "skipSpace (c # cs) = (if jsonSpace c then skipSpace cs else c # cs)"
  by (simp add: skipSpace_def)

lemma skipSpace_Nil [simp]: "skipSpace [] = []"
  by (simp add: skipSpace_def)

lemma jsonSpace_simps [simp]:
  "\<not> jsonSpace CHR '',''" "\<not> jsonSpace CHR '']''" "\<not> jsonSpace CHR ''}''" "\<not> jsonSpace CHR '':''"
  "\<not> jsonSpace DQUOTE" "\<not> jsonSpace CHR ''[''" "\<not> jsonSpace CHR ''{''" "\<not> jsonSpace CHR ''t''"
  "\<not> jsonSpace CHR ''f''" "\<not> jsonSpace CHR ''n''" "\<not> jsonSpace CHR ''-''"
  by (simp_all add: jsonSpace_def)

lemma jsonInt_start:
  "\<exists>c cs. jsonInt n = c # cs \<and> \<not> jsonSpace c
     \<and> c \<notin> {DQUOTE, CHR ''['', CHR ''{'', CHR ''t'', CHR ''f'', CHR ''n'', CHR '']'', CHR ''}''}"
proof (cases "n < 0")
  case True
  then show ?thesis by (simp add: jsonInt_def)
next
  case False
  obtain c cs where c: "js_nat_string (nat n) = c # cs" by (cases "js_nat_string (nat n)") auto
  with hd_js_nat_string [of "nat n"] have "isDigit c" by simp
  then show ?thesis using c False by (auto simp: jsonInt_def isDigit_def jsonSpace_def)
qed

lemma jsonStringify_start:
  "\<exists>c cs. jsonStringify j = c # cs \<and> \<not> jsonSpace c \<and> c \<noteq> CHR '']'' \<and> c \<noteq> CHR ''}''"
proof (cases j)
  case (JNum n)
  then show ?thesis using jsonInt_start [of n] by auto
qed (auto simp: jsonString_def)

lemma readElements_join:
  assumes "\<And>x n rest. x \<in> set xs \<Longrightarrow> 2 * length (jsonStringify x) \<le> n \<Longrightarrow> numberEnds rest \<Longrightarrow>
      readValue n (jsonStringify x @ rest) = Some (x, rest)"
    and "xs \<noteq> []" and "2 * length (js_join '','' (map jsonStringify xs)) < n"
  shows "readElements n (js_join '','' (map jsonStringify xs) @ CHR '']'' # rest) = Some (xs, rest)"
  using assms
proof (induction xs arbitrary: n rule: induct_list012)
  case (2 x)
  then show ?case by (cases n) auto
next
  case (3 x y xs)
  from "3.prems" obtain m where m: "n = Suc m" by (cases n) auto
  have "readElements m (js_join '','' (map jsonStringify (y # xs)) @ CHR '']'' # rest) = Some (y # xs, rest)"
    using "3.prems" m by (intro "3.IH"(2)) auto
  with "3.prems" m show ?case by auto
qed simp

abbreviation jsonMember :: "string \<times> json \<Rightarrow> string" where
  "jsonMember \<equiv> \<lambda>(k, v). jsonString k @ CHR '':'' # jsonStringify v"

lemma readMembers_member:
  "readMembers (Suc n) (jsonMember (k, v) @ s) =
     (case readValue n (jsonStringify v @ s) of
        None \<Rightarrow> None
      | Some (w, rest) \<Rightarrow>
          (case skipSpace rest of
             [] \<Rightarrow> None
           | d # ds \<Rightarrow>
               if d = CHR ''}'' then Some ([(k, w)], ds)
               else if d = CHR '','' then map_option (\<lambda>(ms, r). ((k, w) # ms, r)) (readMembers n ds)
               else None))"
  by (simp add: jsonString_def readString_escaped)

lemma readMembers_join:
  assumes "\<And>k v n rest. (k, v) \<in> set ms \<Longrightarrow> 2 * length (jsonStringify v) \<le> n \<Longrightarrow> numberEnds rest \<Longrightarrow>
      readValue n (jsonStringify v @ rest) = Some (v, rest)"
    and "ms \<noteq> []" and "2 * length (js_join '','' (map jsonMember ms)) < n"
  shows "readMembers n (js_join '','' (map jsonMember ms) @ CHR ''}'' # rest) = Some (ms, rest)"
  using assms
proof (induction ms arbitrary: n rule: induct_list012)
  case (2 m)
  obtain k v where kv: "m = (k, v)" by (cases m)
  from "2.prems" obtain i where i: "n = Suc i" by (cases n) auto
  have "readValue i (jsonStringify v @ CHR ''}'' # rest) = Some (v, CHR ''}'' # rest)"
    using "2.prems"(3) i kv by (intro "2.prems"(1) [of k]) auto
  then have "readMembers n (jsonMember (k, v) @ CHR ''}'' # rest) = Some ([(k, v)], rest)"
    unfolding i readMembers_member by simp
  with kv show ?case by simp
next
  case (3 m m' ms)
  obtain k v where kv: "m = (k, v)" by (cases m)
  from "3.prems" obtain i where i: "n = Suc i" by (cases n) auto
  let ?more = "js_join '','' (map jsonMember (m' # ms)) @ CHR ''}'' # rest"
  have len: "length (js_join '','' (map jsonMember (m # m' # ms)))
      = length (jsonMember (k, v)) + 1 + length (js_join '','' (map jsonMember (m' # ms)))"
    by (simp add: kv)
  have more: "readMembers i ?more = Some (m' # ms, rest)"
    using "3.prems" i len by (intro "3.IH"(2)) auto
  have "length (jsonStringify v) \<le> length (jsonMember (k, v))" by simp
  then have "2 * length (jsonStringify v) \<le> i" using "3.prems"(3) len i by linarith
  then have "readValue i (jsonStringify v @ CHR '','' # ?more) = Some (v, CHR '','' # ?more)"
    using kv by (intro "3.prems"(1) [of k]) auto
  then have "readMembers n (jsonMember (k, v) @ CHR '','' # ?more) = Some ((k, v) # m' # ms, rest)"
    unfolding i readMembers_member using more by simp
  with kv show ?case by simp
qed simp

lemma readValue_stringify:
  "jsonOk j \<Longrightarrow> 2 * length (jsonStringify j) \<le> n \<Longrightarrow> numberEnds rest \<Longrightarrow>
   readValue n (jsonStringify j @ rest) = Some (j, rest)"
proof (induction j arbitrary: n rest)
  case (JNum k)
  obtain c cs where c: "jsonInt k = c # cs" "\<not> jsonSpace c"
    "c \<notin> {DQUOTE, CHR ''['', CHR ''{'', CHR ''t'', CHR ''f'', CHR ''n''}"
    using jsonInt_start [of k] by auto
  from JNum.prems c obtain m where "n = Suc m" by (cases n) auto
  with c readNumber_int [OF JNum.prems(3), of k] show ?case by simp
next
  case (JArr xs)
  then obtain m where m: "n = Suc m" by (cases n) auto
  show ?case
  proof (cases xs)
    case Nil
    with m show ?thesis by simp
  next
    case (Cons x xs')
    obtain c cs where "js_join '','' (map jsonStringify xs) = c # cs" "\<not> jsonSpace c" "c \<noteq> CHR '']''"
      using jsonStringify_start [of x] Cons by (cases xs') auto
    moreover have "readElements m (js_join '','' (map jsonStringify xs) @ CHR '']'' # rest) = Some (xs, rest)"
      using JArr m Cons by (intro readElements_join) (auto simp: list_all_iff)
    ultimately show ?thesis using m by simp
  qed
next
  case (JObj ms)
  then obtain m where m: "n = Suc m" by (cases n) auto
  show ?case
  proof (cases ms)
    case Nil
    with m show ?thesis by (simp add: js_map_of_entries_def)
  next
    case (Cons x ms')
    have mem: "readValue i (jsonStringify v @ r) = Some (v, r)"
      if "(k, v) \<in> set ms" "2 * length (jsonStringify v) \<le> i" "numberEnds r" for k v i r
    proof -
      have "jsonOk v" using JObj.prems(1) that(1) by (auto simp: list_all_iff)
      with JObj.IH [OF that(1), of v] that show ?thesis by simp
    qed
    obtain s where s: "js_join '','' (map jsonMember ms) = DQUOTE # s"
      using Cons by (cases ms'; cases x) (simp_all add: jsonString_def)
    have "readMembers m (js_join '','' (map jsonMember ms) @ CHR ''}'' # rest) = Some (ms, rest)"
      using JObj.prems(2) m Cons by (intro readMembers_join mem) auto
    moreover have "js_map_of_entries ms = ms" using JObj.prems(1) by (intro js_map_of_entries_id) simp
    ultimately show ?thesis using m s by simp
  qed
next
  case (JBool b)
  then show ?case by (cases n; cases b) (simp_all add: readWord_def)
next
  case (JStr s)
  then show ?case by (cases n) (simp_all add: jsonString_def readString_escaped)
next
  case JNull
  then show ?case by (cases n) (simp_all add: readWord_def)
qed

lemma jsonParse_stringify [simp]: "jsonOk j \<Longrightarrow> jsonParse (jsonStringify j) = Some j"
  using readValue_stringify [of j "2 * length (jsonStringify j) + 2" "[]"] by (simp add: jsonParse_def)

end
