(* ===== verification/Attempts.thy ===== *)
theory Attempts
  imports Smart_Queue Json
begin

text \<open>
  Attempts at a queue task and the coordinator's decision about a failed one:
  \<open>workbench/queue/smartQueueAttemptModel.ts\<close> and \<open>smartQueueCoordinatorDecision.ts\<close>. Fields whose
  type has a single value (the side-effect flags, \<open>requiresApproval\<close>, the kind of a prompt
  override) are left out of the records. Attempt numbers and retry counts are integers.
\<close>

section \<open>Attempts\<close>

datatype AttemptStatus = AsPending | AsRunning | AsValidation | AsSucceeded | AsFailed | AsCancelled

datatype FailureKind =
  FkValidationFailure | FkExecutionFailure | FkMissingConfig | FkMissingContext | FkDependencyFailed
| FkDependencyBlocked | FkDirtyWorktree | FkTimeout | FkToolFailure | FkUnknown

datatype AttemptValidationStatus = AvNotRun | AvRunning | AvPassed | AvFailed

datatype AttemptRetrySource = RetrySame | RetryWithModifiedPrompt

record AttemptValidationResult =
  avr_status :: AttemptValidationStatus
  avr_summary :: "string option"
  avr_evidence :: "string list option"

record AttemptResult =
  ares_summary :: "string option"
  ares_evidence :: "string list option"

record AttemptRollbackScope =
  scope_attemptId :: string
  scope_baseRevision :: "string option"
  scope_changedFiles :: "string list"

record AttemptPromptOverride =
  po_originalPrompt :: string
  po_modifiedPrompt :: string

record SmartQueueAttempt =
  att_attemptId :: string
  att_taskId :: string
  att_attemptNumber :: int
  att_status :: AttemptStatus
  att_startedAt :: "string option"
  att_finishedAt :: "string option"
  att_workerId :: "string option"
  att_baseRevision :: "string option"
  att_changedFiles :: "string list option"
  att_validationResult :: "AttemptValidationResult option"
  att_result :: "AttemptResult option"
  att_failureKind :: "FailureKind option"
  att_shortReason :: "string option"
  att_coordinatorDecisionId :: "string option"
  att_retrySource :: "AttemptRetrySource option"
  att_promptOverride :: "AttemptPromptOverride option"

record SmartQueueAttemptHistory =
  hist_taskId :: string
  hist_attempts :: "SmartQueueAttempt list"

record AttemptStartInput =
  asi_startedAt :: string
  asi_workerId :: "string option"
  asi_baseRevision :: "string option"
  asi_changedFiles :: "string list option"
  asi_coordinatorDecisionId :: "string option"

record AttemptFinishInput =
  afi_finishedAt :: string
  afi_changedFiles :: "string list option"
  afi_validationResult :: "AttemptValidationResult option"
  afi_result :: "AttemptResult option"
  afi_coordinatorDecisionId :: "string option"

record AttemptFailureInput = AttemptFinishInput +
  afi_failureKind :: FailureKind
  afi_shortReason :: string

record AttemptCreateInput =
  aci_attemptId :: string
  aci_taskId :: string
  aci_attemptNumber :: "int option"
  aci_coordinatorDecisionId :: "string option"

record AttemptAppendInput =
  aai_attemptId :: string
  aai_coordinatorDecisionId :: "string option"
  aai_promptOverride :: "AttemptPromptOverride option"
  aai_retrySource :: "AttemptRetrySource option"

definition cleanText :: "string option \<Rightarrow> string \<Rightarrow> string" where
  "cleanText value fallback = (case value of None \<Rightarrow> fallback | Some v \<Rightarrow> js_or_str (js_trim v) fallback)"

fun defaultFailureReason :: "FailureKind option \<Rightarrow> string" where
  "defaultFailureReason (Some FkValidationFailure) = ''validation failed''"
| "defaultFailureReason (Some FkExecutionFailure) = ''execution failed''"
| "defaultFailureReason (Some FkMissingConfig) = ''missing config''"
| "defaultFailureReason (Some FkMissingContext) = ''missing context''"
| "defaultFailureReason (Some FkDependencyFailed) = ''dependency failed''"
| "defaultFailureReason (Some FkDependencyBlocked) = ''dependency blocked''"
| "defaultFailureReason (Some FkDirtyWorktree) = ''dirty workspace''"
| "defaultFailureReason (Some FkTimeout) = ''timeout''"
| "defaultFailureReason (Some FkToolFailure) = ''tool failure''"
| "defaultFailureReason _ = ''attempt failed''"

definition isTerminalAttempt :: "SmartQueueAttempt \<Rightarrow> bool" where
  "isTerminalAttempt attempt \<longleftrightarrow> att_status attempt \<in> {AsSucceeded, AsFailed, AsCancelled}"

definition createInitialAttempt :: "AttemptCreateInput \<Rightarrow> SmartQueueAttempt" where
  "createInitialAttempt input =
     \<lparr>att_attemptId = aci_attemptId input, att_taskId = aci_taskId input,
      att_attemptNumber = max 1 (js_default 1 (aci_attemptNumber input)), att_status = AsPending,
      att_startedAt = None, att_finishedAt = None, att_workerId = None, att_baseRevision = None,
      att_changedFiles = None, att_validationResult = None, att_result = None, att_failureKind = None,
      att_shortReason = None, att_coordinatorDecisionId = aci_coordinatorDecisionId input,
      att_retrySource = None, att_promptOverride = None\<rparr>"

definition startAttempt :: "SmartQueueAttempt \<Rightarrow> AttemptStartInput \<Rightarrow> SmartQueueAttempt" where
  "startAttempt attempt input =
     (if isTerminalAttempt attempt then attempt
      else attempt\<lparr>
        att_baseRevision := js_coalesce (asi_baseRevision input) (att_baseRevision attempt),
        att_changedFiles := js_coalesce (asi_changedFiles input) (att_changedFiles attempt),
        att_coordinatorDecisionId :=
          js_coalesce (asi_coordinatorDecisionId input) (att_coordinatorDecisionId attempt),
        att_startedAt := Some (asi_startedAt input),
        att_status := AsRunning,
        att_workerId := js_coalesce (asi_workerId input) (att_workerId attempt)\<rparr>)"

definition finishAttemptSuccess :: "SmartQueueAttempt \<Rightarrow> AttemptFinishInput \<Rightarrow> SmartQueueAttempt" where
  "finishAttemptSuccess attempt input =
     (if isTerminalAttempt attempt then attempt
      else attempt\<lparr>
        att_changedFiles := js_coalesce (afi_changedFiles input) (att_changedFiles attempt),
        att_coordinatorDecisionId :=
          js_coalesce (afi_coordinatorDecisionId input) (att_coordinatorDecisionId attempt),
        att_failureKind := None,
        att_finishedAt := Some (afi_finishedAt input),
        att_result := js_coalesce (afi_result input) (att_result attempt),
        att_shortReason := None,
        att_status := AsSucceeded,
        att_validationResult := js_coalesce (afi_validationResult input) (att_validationResult attempt)\<rparr>)"

definition finishAttemptFailure :: "SmartQueueAttempt \<Rightarrow> AttemptFailureInput \<Rightarrow> SmartQueueAttempt" where
  "finishAttemptFailure attempt input =
     (if isTerminalAttempt attempt then attempt
      else attempt\<lparr>
        att_changedFiles := js_coalesce (afi_changedFiles input) (att_changedFiles attempt),
        att_coordinatorDecisionId :=
          js_coalesce (afi_coordinatorDecisionId input) (att_coordinatorDecisionId attempt),
        att_failureKind := Some (afi_failureKind input),
        att_finishedAt := Some (afi_finishedAt input),
        att_result := js_coalesce (afi_result input) (att_result attempt),
        att_shortReason := Some (cleanText (Some (afi_shortReason input))
          (defaultFailureReason (Some (afi_failureKind input)))),
        att_status := AsFailed,
        att_validationResult := js_coalesce (afi_validationResult input) (att_validationResult attempt)\<rparr>)"

definition cancelAttempt :: "SmartQueueAttempt \<Rightarrow> string option \<Rightarrow> string \<Rightarrow> SmartQueueAttempt" where
  "cancelAttempt attempt coordinatorDecisionId finishedAt =
     (if isTerminalAttempt attempt then attempt
      else attempt\<lparr>
        att_coordinatorDecisionId := js_coalesce coordinatorDecisionId (att_coordinatorDecisionId attempt),
        att_finishedAt := Some finishedAt,
        att_status := AsCancelled\<rparr>)"

definition markAttemptValidation ::
    "SmartQueueAttempt \<Rightarrow> AttemptValidationResult option \<Rightarrow> SmartQueueAttempt" where
  "markAttemptValidation attempt validationResult =
     (if isTerminalAttempt attempt then attempt
      else attempt\<lparr>
        att_status := AsValidation,
        att_validationResult := Some (js_default
          \<lparr>avr_status = AvRunning, avr_summary = None, avr_evidence = None\<rparr> validationResult)\<rparr>)"

definition attachCoordinatorDecisionToAttempt :: "SmartQueueAttempt \<Rightarrow> string \<Rightarrow> SmartQueueAttempt" where
  "attachCoordinatorDecisionToAttempt attempt coordinatorDecisionId =
     attempt\<lparr>att_coordinatorDecisionId := Some coordinatorDecisionId\<rparr>"

section \<open>Histories\<close>

definition nextAttemptNumber :: "SmartQueueAttempt list \<Rightarrow> int" where
  "nextAttemptNumber attempts = foldl (\<lambda>mx attempt. max mx (att_attemptNumber attempt)) 0 attempts + 1"

definition appendAttempt :: "SmartQueueAttemptHistory \<Rightarrow> AttemptAppendInput \<Rightarrow> SmartQueueAttemptHistory" where
  "appendAttempt history input =
     (let attempt = createInitialAttempt
        \<lparr>aci_attemptId = aai_attemptId input, aci_taskId = hist_taskId history,
         aci_attemptNumber = Some (nextAttemptNumber (hist_attempts history)),
         aci_coordinatorDecisionId = aai_coordinatorDecisionId input\<rparr>
      in \<lparr>hist_taskId = hist_taskId history,
          hist_attempts = hist_attempts history @
            [attempt\<lparr>att_promptOverride := aai_promptOverride input,
                     att_retrySource := aai_retrySource input\<rparr>]\<rparr>)"

definition compareCurrentAttempt ::
    "(string \<Rightarrow> string \<Rightarrow> int) \<Rightarrow> SmartQueueAttempt \<Rightarrow> SmartQueueAttempt \<Rightarrow> js_number" where
  "compareCurrentAttempt lc left right =
     js_or (Fin (of_int (att_attemptNumber right - att_attemptNumber left)))
           (localeCompare lc (att_attemptId right) (att_attemptId left))"

definition compareAttemptNumberAscending ::
    "(string \<Rightarrow> string \<Rightarrow> int) \<Rightarrow> SmartQueueAttempt \<Rightarrow> SmartQueueAttempt \<Rightarrow> js_number" where
  "compareAttemptNumberAscending lc left right =
     js_or (Fin (of_int (att_attemptNumber left - att_attemptNumber right)))
           (localeCompare lc (att_attemptId left) (att_attemptId right))"

definition selectCurrentAttempt ::
    "(string \<Rightarrow> string \<Rightarrow> int) \<Rightarrow> SmartQueueAttemptHistory \<Rightarrow> SmartQueueAttempt option" where
  "selectCurrentAttempt lc history = js_first (js_sort (compareCurrentAttempt lc) (hist_attempts history))"

definition failedAttemptLabel :: "SmartQueueAttempt \<Rightarrow> string" where
  "failedAttemptLabel attempt =
     (if att_failureKind attempt = Some FkValidationFailure
         \<or> map_option avr_status (att_validationResult attempt) = Some AvFailed
      then ''Failed validation'' else ''Failed'')"

definition attemptStatusLabel :: "SmartQueueAttempt \<Rightarrow> string" where
  "attemptStatusLabel attempt =
     (case att_status attempt of
        AsPending \<Rightarrow> ''Pending''
      | AsRunning \<Rightarrow> ''Running''
      | AsValidation \<Rightarrow> ''Validating''
      | AsSucceeded \<Rightarrow> ''Completed''
      | AsFailed \<Rightarrow> failedAttemptLabel attempt
      | AsCancelled \<Rightarrow> ''Cancelled'')"

definition lastFailureText ::
    "(string \<Rightarrow> string \<Rightarrow> int) \<Rightarrow> SmartQueueAttempt list \<Rightarrow> string option" where
  "lastFailureText lc attempts =
     map_option (\<lambda>failedAttempt. ''Last failure: '' @
         cleanText (att_shortReason failedAttempt) (defaultFailureReason (att_failureKind failedAttempt)))
       (js_first (js_sort (compareCurrentAttempt lc) (filter (\<lambda>a. att_status a = AsFailed) attempts)))"

definition uniqueChangedFiles :: "SmartQueueAttempt list \<Rightarrow> string list" where
  "uniqueChangedFiles attempts =
     js_unique (filter (\<lambda>f. f \<noteq> [])
       (concat (map (\<lambda>attempt. map js_trim (js_default [] (att_changedFiles attempt))) attempts)))"

definition computeAttemptRollbackScope :: "SmartQueueAttempt \<Rightarrow> AttemptRollbackScope option" where
  "computeAttemptRollbackScope attempt =
     (if \<not> js_truthy_str (att_baseRevision attempt) \<and> js_default [] (att_changedFiles attempt) = []
      then None
      else Some \<lparr>scope_attemptId = att_attemptId attempt, scope_baseRevision = att_baseRevision attempt,
        scope_changedFiles = js_default [] (att_changedFiles attempt)\<rparr>)"

record AttemptSummaryRow =
  srow_attemptId :: string
  srow_attemptNumber :: int
  srow_statusLabel :: string
  srow_text :: string

record AttemptSummary =
  asum_taskId :: string
  asum_totalAttempts :: nat
  asum_currentAttemptId :: "string option"
  asum_currentAttemptNumber :: "int option"
  asum_currentStatusLabel :: "string option"
  asum_rows :: "AttemptSummaryRow list"
  asum_lastFailureText :: "string option"
  asum_changedFilesCount :: nat
  asum_changedFilesText :: string
  asum_rollbackScope :: "AttemptRollbackScope option"

definition attemptSummaryRow :: "SmartQueueAttempt \<Rightarrow> AttemptSummaryRow" where
  "attemptSummaryRow attempt =
     \<lparr>srow_attemptId = att_attemptId attempt, srow_attemptNumber = att_attemptNumber attempt,
      srow_statusLabel = attemptStatusLabel attempt,
      srow_text = ''Attempt '' @ jsonInt (att_attemptNumber attempt) @ '' '' @ attemptStatusLabel attempt\<rparr>"

definition computeAttemptSummary ::
    "(string \<Rightarrow> string \<Rightarrow> int) \<Rightarrow> SmartQueueAttemptHistory \<Rightarrow> AttemptSummary" where
  "computeAttemptSummary lc history =
     (let currentAttempt = selectCurrentAttempt lc history;
          changedFilesCount = length (uniqueChangedFiles (hist_attempts history))
      in \<lparr>asum_taskId = hist_taskId history, asum_totalAttempts = length (hist_attempts history),
          asum_currentAttemptId = map_option att_attemptId currentAttempt,
          asum_currentAttemptNumber = map_option att_attemptNumber currentAttempt,
          asum_currentStatusLabel = map_option attemptStatusLabel currentAttempt,
          asum_rows = map attemptSummaryRow (js_sort (compareAttemptNumberAscending lc) (hist_attempts history)),
          asum_lastFailureText = lastFailureText lc (hist_attempts history),
          asum_changedFilesCount = changedFilesCount,
          asum_changedFilesText = ''Changed files: '' @ js_nat_string changedFilesCount,
          asum_rollbackScope = Option.bind currentAttempt computeAttemptRollbackScope\<rparr>)"

section \<open>Worker reports\<close>

datatype WorkerReportStage = SgPlanning | SgExecution | SgValidation | SgCommit | SgDependency | SgEnvironment

datatype DecisionAction =
  DaRetrySame | DaRetryWithModifiedPrompt | DaMoveBlocked | DaMarkFailed | DaRequestHumanInput
| DaRequestWorkspaceAgentAssistance | DaRollbackAttemptProposal | DaSplitFollowupTask
| DaAcceptDependencyAnyway

record SmartQueueWorkerReport =
  wr_taskId :: string
  wr_attemptId :: "string option"
  wr_stage :: WorkerReportStage
  wr_failureKind :: FailureKind
  wr_shortReason :: string
  wr_evidenceSummary :: string
  wr_suggestedActions :: "DecisionAction list option"

fun workerReportStageForFailureKind :: "FailureKind \<Rightarrow> WorkerReportStage" where
  "workerReportStageForFailureKind FkValidationFailure = SgValidation"
| "workerReportStageForFailureKind FkDependencyFailed = SgDependency"
| "workerReportStageForFailureKind FkDependencyBlocked = SgDependency"
| "workerReportStageForFailureKind FkMissingConfig = SgEnvironment"
| "workerReportStageForFailureKind FkMissingContext = SgEnvironment"
| "workerReportStageForFailureKind FkDirtyWorktree = SgEnvironment"
| "workerReportStageForFailureKind _ = SgExecution"

definition attemptFailureEvidenceSummary :: "SmartQueueAttempt \<Rightarrow> string" where
  "attemptFailureEvidenceSummary attempt =
     js_default (defaultFailureReason (att_failureKind attempt))
       (js_coalesce (Option.bind (att_validationResult attempt) avr_summary)
         (js_coalesce (Option.bind (att_result attempt) ares_summary) (att_shortReason attempt)))"

definition createWorkerReportFromAttemptFailure ::
    "SmartQueueAttempt \<Rightarrow> string option \<Rightarrow> WorkerReportStage option \<Rightarrow> SmartQueueWorkerReport option" where
  "createWorkerReportFromAttemptFailure attempt evidenceSummary stage =
     (if att_status attempt \<noteq> AsFailed then None
      else
        (let failureKind = js_default FkUnknown (att_failureKind attempt)
         in Some \<lparr>wr_taskId = att_taskId attempt, wr_attemptId = Some (att_attemptId attempt),
              wr_stage = js_default (workerReportStageForFailureKind failureKind) stage,
              wr_failureKind = failureKind,
              wr_shortReason = cleanText (att_shortReason attempt) (defaultFailureReason (Some failureKind)),
              wr_evidenceSummary =
                cleanText (Some (js_default (attemptFailureEvidenceSummary attempt) evidenceSummary))
                  ''Attempt failed.'',
              wr_suggestedActions = None\<rparr>))"

section \<open>The life of an attempt\<close>

inductive attemptStep :: "SmartQueueAttempt \<Rightarrow> SmartQueueAttempt \<Rightarrow> bool" where
  start: "attemptStep a (startAttempt a si)"
| succeed: "attemptStep a (finishAttemptSuccess a fi)"
| fail: "attemptStep a (finishAttemptFailure a xi)"
| cancel: "attemptStep a (cancelAttempt a d t)"
| validate: "attemptStep a (markAttemptValidation a v)"
| attach: "attemptStep a (attachCoordinatorDecisionToAttempt a d')"

lemmas attempt_operation_defs = startAttempt_def finishAttemptSuccess_def finishAttemptFailure_def
  cancelAttempt_def markAttemptValidation_def attachCoordinatorDecisionToAttempt_def

definition visibleText :: "string option \<Rightarrow> bool" where
  "visibleText v \<longleftrightarrow> (case v of None \<Rightarrow> True | Some s \<Rightarrow> s \<noteq> [] \<and> js_trim s = s)"

definition attemptInv :: "SmartQueueAttempt \<Rightarrow> bool" where
  "attemptInv a \<longleftrightarrow>
     (isTerminalAttempt a \<longleftrightarrow> att_finishedAt a \<noteq> None)
     \<and> (att_status a = AsFailed \<longleftrightarrow> att_failureKind a \<noteq> None)
     \<and> (att_status a = AsFailed \<longleftrightarrow> att_shortReason a \<noteq> None)
     \<and> visibleText (att_shortReason a)
     \<and> (att_status a = AsRunning \<longrightarrow> att_startedAt a \<noteq> None)
     \<and> (att_status a = AsValidation \<longrightarrow> att_validationResult a \<noteq> None)"

lemma defaultFailureReason_visible [simp]:
  "defaultFailureReason k \<noteq> []" "js_trim (defaultFailureReason k) = defaultFailureReason k"
  by (cases k rule: defaultFailureReason.cases; simp add: js_trim_def js_whitespace_def)+

lemma cleanText_visible:
  "fallback \<noteq> [] \<Longrightarrow> js_trim fallback = fallback \<Longrightarrow> visibleText (Some (cleanText v fallback))"
  by (cases v) (auto simp: visibleText_def cleanText_def js_or_str_def)

lemma attemptInv_initial: "attemptInv (createInitialAttempt input)"
  by (simp add: attemptInv_def createInitialAttempt_def isTerminalAttempt_def visibleText_def)

text \<open>What a step never changes, and that a finished attempt only takes a decision id.\<close>

definition attemptIdentity :: "SmartQueueAttempt \<Rightarrow> string \<times> string \<times> int \<times> AttemptRetrySource option \<times> AttemptPromptOverride option" where
  "attemptIdentity a =
     (att_attemptId a, att_taskId a, att_attemptNumber a, att_retrySource a, att_promptOverride a)"

lemma attemptIdentity_step: "attemptStep a b \<Longrightarrow> attemptIdentity b = attemptIdentity a"
  by (induction rule: attemptStep.induct) (simp_all add: attemptIdentity_def attempt_operation_defs)

lemma terminal_step:
  "attemptStep a b \<Longrightarrow> isTerminalAttempt a \<Longrightarrow>
   isTerminalAttempt b \<and> b\<lparr>att_coordinatorDecisionId := None\<rparr> = a\<lparr>att_coordinatorDecisionId := None\<rparr>"
  by (induction rule: attemptStep.induct) (simp_all add: attempt_operation_defs isTerminalAttempt_def)

lemma attemptInv_decision: "attemptInv (a\<lparr>att_coordinatorDecisionId := d\<rparr>) \<longleftrightarrow> attemptInv a"
  by (simp add: attemptInv_def isTerminalAttempt_def)

lemma attemptInv_open:
  "attemptInv a \<Longrightarrow> \<not> isTerminalAttempt a \<Longrightarrow>
     att_finishedAt a = None \<and> att_failureKind a = None \<and> att_shortReason a = None \<and> att_status a \<noteq> AsFailed"
  by (cases "att_status a") (simp_all add: attemptInv_def isTerminalAttempt_def)

lemma attemptInv_step: "attemptStep a b \<Longrightarrow> attemptInv a \<Longrightarrow> attemptInv b"
proof (cases "isTerminalAttempt a")
  case True
  assume "attemptStep a b" "attemptInv a"
  with terminal_step [OF _ True] show ?thesis by (metis attemptInv_decision)
next
  case False
  assume step: "attemptStep a b" and inv: "attemptInv a"
  note old = attemptInv_open [OF inv False]
  from step show ?thesis
  proof cases
    case (attach d')
    then show ?thesis using inv by (simp add: attachCoordinatorDecisionToAttempt_def attemptInv_decision)
  qed (use False old in \<open>simp_all add: attempt_operation_defs attemptInv_def cleanText_visible\<close>,
       simp_all add: isTerminalAttempt_def visibleText_def)
qed

lemma attempt_steps:
  "attemptStep\<^sup>*\<^sup>* a b \<Longrightarrow> attemptInv a \<Longrightarrow>
   attemptInv b \<and> attemptIdentity b = attemptIdentity a
   \<and> (isTerminalAttempt a \<longrightarrow> isTerminalAttempt b
      \<and> b\<lparr>att_coordinatorDecisionId := None\<rparr> = a\<lparr>att_coordinatorDecisionId := None\<rparr>)"
proof (induction rule: rtranclp_induct)
  case (step b c)
  then show ?case
    using attemptInv_step [OF step(2)] attemptIdentity_step [OF step(2)] terminal_step [OF step(2)] by auto
qed simp

section \<open>The current attempt of a history\<close>

lemma foldl_max_ge:
  fixes f :: "'a \<Rightarrow> int"
  shows "m \<le> foldl (\<lambda>mx a. max mx (f a)) m xs"
    and "a \<in> set xs \<Longrightarrow> f a \<le> foldl (\<lambda>mx a. max mx (f a)) m xs"
proof (induction xs arbitrary: m)
  case (Cons x xs)
  { case 1 show ?case using Cons.IH(1) [of "max m (f x)"] by simp }
  { case 2 then show ?case using Cons.IH(1) [of "max m (f x)"] Cons.IH(2) [of "max m (f x)"] by auto }
qed simp_all

lemma nextAttemptNumber_greater:
  "1 \<le> nextAttemptNumber attempts" "a \<in> set attempts \<Longrightarrow> att_attemptNumber a < nextAttemptNumber attempts"
  using foldl_max_ge [where m = 0 and f = att_attemptNumber and xs = attempts] by (auto simp: nextAttemptNumber_def zle_add1_eq_le)

lemma js_comparator_currentAttempt:
  "js_comparator (localeCompare lc) \<Longrightarrow> js_comparator (compareCurrentAttempt lc)"
proof -
  assume lc: "js_comparator (localeCompare lc)"
  have "js_comparator (\<lambda>x y. js_or (subtract_numbers (of_int (att_attemptNumber y)) (of_int (att_attemptNumber x)))
      (localeCompare lc (att_attemptId y) (att_attemptId x)))"
    by (intro js_comparator_lex js_comparator_swap [OF js_comparator_on [OF js_comparator_subtract]]
        js_comparator_swap [OF js_comparator_on [OF lc]])
  then show ?thesis by (simp add: compareCurrentAttempt_def [abs_def] subtract_numbers_def)
qed

text \<open>An element strictly before all others is the first of the sorted list.\<close>

lemma js_first_sort_least:
  assumes "js_comparator cmp" and "x \<in> set xs" and "\<And>y. y \<in> set xs \<Longrightarrow> y \<noteq> x \<Longrightarrow> js_neg (cmp x y)"
  shows "js_first (js_sort cmp xs) = Some x"
proof (cases "js_sort cmp xs")
  case Nil
  with assms(2) show ?thesis by simp
next
  case (Cons y ys)
  have "y \<in> set xs" using Cons by (metis list.set_intros(1) set_js_sort)
  moreover have "\<not> js_neg (cmp x y)"
    using js_comparator.hd_sort_least [OF assms(1) Cons assms(2)] js_comparator.flip [OF assms(1)] by blast
  ultimately have "y = x" using assms(3) by blast
  with Cons show ?thesis by (simp add: js_first_def)
qed

lemma appendAttempt_last:
  "hist_attempts (appendAttempt h i) = hist_attempts h @ [last (hist_attempts (appendAttempt h i))]"
  "att_attemptId (last (hist_attempts (appendAttempt h i))) = aai_attemptId i"
  "att_attemptNumber (last (hist_attempts (appendAttempt h i))) = nextAttemptNumber (hist_attempts h)"
  "att_taskId (last (hist_attempts (appendAttempt h i))) = hist_taskId h"
  "att_status (last (hist_attempts (appendAttempt h i))) = AsPending"
  using nextAttemptNumber_greater(1) [of "hist_attempts h"]
  by (simp_all add: appendAttempt_def createInitialAttempt_def)

lemma selectCurrentAttempt_append:
  assumes "js_comparator (localeCompare lc)"
  shows "selectCurrentAttempt lc (appendAttempt h i) = Some (last (hist_attempts (appendAttempt h i)))"
  unfolding selectCurrentAttempt_def
proof (rule js_first_sort_least [OF js_comparator_currentAttempt [OF assms]])
  let ?x = "last (hist_attempts (appendAttempt h i))"
  show "?x \<in> set (hist_attempts (appendAttempt h i))" by (subst appendAttempt_last(1)) simp
  fix y assume "y \<in> set (hist_attempts (appendAttempt h i))" "y \<noteq> ?x"
  then have "y \<in> set (hist_attempts h)" by (subst (asm) appendAttempt_last(1)) auto
  then have "att_attemptNumber y < att_attemptNumber ?x"
    by (simp add: appendAttempt_last(3) nextAttemptNumber_greater(2))
  then show "js_neg (compareCurrentAttempt lc ?x y)"
    by (simp add: compareCurrentAttempt_def js_or_def)
qed

section \<open>Properties\<close>

definition exampleCreate :: AttemptCreateInput where
  "exampleCreate = \<lparr>aci_attemptId = ''a1'', aci_taskId = ''t'', aci_attemptNumber = None,
     aci_coordinatorDecisionId = None\<rparr>"

definition exampleFailure :: AttemptFailureInput where
  "exampleFailure = \<lparr>afi_finishedAt = ''2026'', afi_changedFiles = None, afi_validationResult = None,
     afi_result = None, afi_coordinatorDecisionId = None, afi_failureKind = FkTimeout, afi_shortReason = '' ''\<rparr>"

text \<open>
  C38. Along every run of the attempt operations from a created attempt: it is finished exactly when
  it has a finishing time, failed exactly when it has a failure kind and a (visible) reason, has a
  start when it runs and a validation result when it is validated; no operation changes its ids, its
  number or where it came from; and once it is finished nothing but the decision it is linked to
  changes.
\<close>

theorem attempt_life:
  assumes "attemptStep\<^sup>*\<^sup>* (createInitialAttempt input) a" and "attemptStep\<^sup>*\<^sup>* a b"
  shows "attemptInv a \<and> attemptInv b \<and> attemptIdentity b = attemptIdentity a
    \<and> (isTerminalAttempt a \<longrightarrow> isTerminalAttempt b
       \<and> b\<lparr>att_coordinatorDecisionId := None\<rparr> = a\<lparr>att_coordinatorDecisionId := None\<rparr>)"
  using attempt_steps [OF assms(1) attemptInv_initial] attempt_steps [OF assms(2)] by blast

lemma attempt_life_witness:
  "att_shortReason (finishAttemptFailure (createInitialAttempt exampleCreate) exampleFailure) = Some ''timeout''
   \<and> attemptInv (finishAttemptFailure (createInitialAttempt exampleCreate) exampleFailure)"
proof
  let ?b = "finishAttemptFailure (createInitialAttempt exampleCreate) exampleFailure"
  show "att_shortReason ?b = Some ''timeout''" by code_simp
  have "attemptStep\<^sup>*\<^sup>* (createInitialAttempt exampleCreate) ?b" by (intro r_into_rtranclp attemptStep.fail)
  with attempt_life [of exampleCreate "createInitialAttempt exampleCreate" ?b] show "attemptInv ?b" by simp
qed

text \<open>
  Appending an attempt makes it the current one, whatever attempts the history holds: it is the
  last entry, the earlier entries stay, its number is above all of theirs, and the summary shows it.
\<close>

theorem appendAttempt_current:
  assumes "js_comparator (localeCompare lc)"
  shows "\<exists>a. hist_attempts (appendAttempt h i) = hist_attempts h @ [a]
    \<and> selectCurrentAttempt lc (appendAttempt h i) = Some a
    \<and> (\<forall>y \<in> set (hist_attempts h). att_attemptNumber y < att_attemptNumber a)
    \<and> asum_currentAttemptId (computeAttemptSummary lc (appendAttempt h i)) = Some (aai_attemptId i)
    \<and> asum_totalAttempts (computeAttemptSummary lc (appendAttempt h i)) = Suc (length (hist_attempts h))"
  using appendAttempt_last [of h i] selectCurrentAttempt_append [OF assms, of h i] nextAttemptNumber_greater(2)
  by (intro exI [of _ "last (hist_attempts (appendAttempt h i))"])
     (simp add: computeAttemptSummary_def Let_def, metis length_append_singleton)

lemma appendAttempt_current_witness:
  "asum_totalAttempts (computeAttemptSummary codeUnitCompare (appendAttempt
      \<lparr>hist_taskId = ''t'', hist_attempts = [createInitialAttempt exampleCreate]\<rparr>
      \<lparr>aai_attemptId = ''a2'', aai_coordinatorDecisionId = None, aai_promptOverride = None, aai_retrySource = None\<rparr>)) = 2"
  using appendAttempt_current [OF codeUnitCompare_comparator,
      of "\<lparr>hist_taskId = ''t'', hist_attempts = [createInitialAttempt exampleCreate]\<rparr>"
         "\<lparr>aai_attemptId = ''a2'', aai_coordinatorDecisionId = None, aai_promptOverride = None, aai_retrySource = None\<rparr>"]
  by (auto simp: numeral_2_eq_2)

end
