(* ===== verification/Coordinator_Decision.thy ===== *)
theory Coordinator_Decision
  imports Attempts
begin

text \<open>
  The coordinator's decision about a failed attempt, \<open>workbench/queue/smartQueueCoordinatorDecision.ts\<close>:
  which action it takes, which ones it offers, and the retry policy behind it. The side-effect flags,
  all of type \<open>false\<close>, are left out.
\<close>

section \<open>Data\<close>

datatype DecisionSeverity = SvInfo | SvWarning | SvNeedsDecision | SvBlocked | SvFailed

record SmartQueueRetryPolicy =
  rp_retryCount :: int
  rp_maxRetries :: int
  rp_canRetry :: bool
  rp_exhaustedReason :: "string option"

record SmartQueueAssistanceRequest =
  ar_taskId :: string
  ar_attemptId :: "string option"
  ar_reasonKind :: FailureKind
  ar_shortReason :: string
  ar_evidenceSummary :: string
  ar_availableActions :: "DecisionAction list"
  ar_recommendedAction :: "DecisionAction option"

record DecisionHumanStatus =
  dhs_status :: SmartQueueTaskHumanStatus
  dhs_label :: string
  dhs_text :: string

record SmartQueueCoordinatorDecision =
  dec_decisionId :: string
  dec_taskId :: string
  dec_attemptId :: "string option"
  dec_stage :: WorkerReportStage
  dec_failureKind :: FailureKind
  dec_action :: DecisionAction
  dec_availableActions :: "DecisionAction list"
  dec_recommendedActions :: "DecisionAction list"
  dec_severity :: DecisionSeverity
  dec_humanStatus :: DecisionHumanStatus
  dec_productLabel :: string
  dec_shortReason :: string
  dec_evidenceSummary :: string
  dec_retryPolicy :: SmartQueueRetryPolicy
  dec_assistanceRequest :: "SmartQueueAssistanceRequest option"
  dec_requiresOperatorApproval :: bool
  dec_destructive :: bool

record SmartQueueDecisionInput =
  sdi_report :: SmartQueueWorkerReport
  sdi_retryCount :: "int option"
  sdi_maxRetries :: "int option"
  sdi_decisionId :: "string option"
  sdi_preferWorkspaceAgentAssistance :: "bool option"

record DecisionValues =
  dv_action :: DecisionAction
  dv_availableActions :: "DecisionAction list"
  dv_recommendedActions :: "DecisionAction list"
  dv_severity :: DecisionSeverity
  dv_status :: SmartQueueTaskHumanStatus
  dv_productLabel :: string
  dv_shortReason :: string
  dv_requiresOperatorApproval :: "bool option"
  dv_destructive :: "bool option"
  dv_assistanceRequest :: "SmartQueueAssistanceRequest option"

fun failureKindName :: "FailureKind \<Rightarrow> string" where
  "failureKindName FkValidationFailure = ''validation_failure''"
| "failureKindName FkExecutionFailure = ''execution_failure''"
| "failureKindName FkMissingConfig = ''missing_config''"
| "failureKindName FkMissingContext = ''missing_context''"
| "failureKindName FkDependencyFailed = ''dependency_failed''"
| "failureKindName FkDependencyBlocked = ''dependency_blocked''"
| "failureKindName FkDirtyWorktree = ''dirty_worktree''"
| "failureKindName FkTimeout = ''timeout''"
| "failureKindName FkToolFailure = ''tool_failure''"
| "failureKindName FkUnknown = ''unknown''"

section \<open>The decision\<close>

definition cleanReason :: "string \<Rightarrow> string \<Rightarrow> string" where
  "cleanReason reason fallback = js_or_str (js_trim reason) fallback"

definition computeSmartQueueRetryPolicy :: "int option \<Rightarrow> int option \<Rightarrow> SmartQueueRetryPolicy" where
  "computeSmartQueueRetryPolicy givenMaxRetries givenRetryCount =
     (let retryCount = max 0 (js_default 0 givenRetryCount);
          maxRetries = max 0 (js_default 0 givenMaxRetries);
          canRetry = (retryCount < maxRetries)
      in \<lparr>rp_retryCount = retryCount, rp_maxRetries = maxRetries, rp_canRetry = canRetry,
          rp_exhaustedReason = (if canRetry then None else Some ''Retry limit reached'')\<rparr>)"

definition decision ::
    "SmartQueueDecisionInput \<Rightarrow> SmartQueueRetryPolicy \<Rightarrow> DecisionValues \<Rightarrow> SmartQueueCoordinatorDecision" where
  "decision input retryPolicy values =
     (let report = sdi_report input
      in \<lparr>dec_decisionId = js_default
            (''smart-queue-decision:'' @ wr_taskId report @ '':'' @ js_default ''attempt'' (wr_attemptId report)
              @ '':'' @ failureKindName (wr_failureKind report))
            (sdi_decisionId input),
          dec_taskId = wr_taskId report, dec_attemptId = wr_attemptId report, dec_stage = wr_stage report,
          dec_failureKind = wr_failureKind report, dec_action = dv_action values,
          dec_availableActions =
            js_unique (dv_availableActions values @ js_default [] (wr_suggestedActions report)),
          dec_recommendedActions = dv_recommendedActions values, dec_severity = dv_severity values,
          dec_humanStatus = \<lparr>dhs_status = dv_status values, dhs_label = dv_productLabel values,
            dhs_text = dv_productLabel values\<rparr>,
          dec_productLabel = dv_productLabel values, dec_shortReason = dv_shortReason values,
          dec_evidenceSummary = wr_evidenceSummary report, dec_retryPolicy = retryPolicy,
          dec_assistanceRequest = dv_assistanceRequest values,
          dec_requiresOperatorApproval = js_default False (dv_requiresOperatorApproval values),
          dec_destructive = js_default False (dv_destructive values)\<rparr>)"

definition assistanceRequest ::
    "SmartQueueWorkerReport \<Rightarrow> DecisionAction list \<Rightarrow> DecisionAction \<Rightarrow> SmartQueueAssistanceRequest" where
  "assistanceRequest report availableActions recommendedAction =
     \<lparr>ar_taskId = wr_taskId report, ar_attemptId = wr_attemptId report,
      ar_reasonKind = wr_failureKind report,
      ar_shortReason = cleanReason (wr_shortReason report) ''missing context'',
      ar_evidenceSummary = wr_evidenceSummary report, ar_availableActions = availableActions,
      ar_recommendedAction = Some recommendedAction\<rparr>"

definition suggestedRollbackAction :: "SmartQueueWorkerReport \<Rightarrow> DecisionAction list" where
  "suggestedRollbackAction report =
     (if DaRollbackAttemptProposal \<in> set (js_default [] (wr_suggestedActions report))
      then [DaRollbackAttemptProposal] else [])"

definition missingContextDecision ::
    "SmartQueueDecisionInput \<Rightarrow> SmartQueueRetryPolicy \<Rightarrow> SmartQueueCoordinatorDecision" where
  "missingContextDecision input retryPolicy =
     (let useWorkspaceAgent = sdi_preferWorkspaceAgentAssistance input \<noteq> Some False;
          action = (if useWorkspaceAgent then DaRequestWorkspaceAgentAssistance else DaRequestHumanInput);
          availableActions = [DaRequestWorkspaceAgentAssistance, DaRequestHumanInput,
            DaRetryWithModifiedPrompt, DaMoveBlocked]
      in decision input retryPolicy
          \<lparr>dv_action = action, dv_availableActions = availableActions, dv_recommendedActions = [action],
           dv_severity = (if useWorkspaceAgent then SvWarning else SvNeedsDecision),
           dv_status = (if useWorkspaceAgent then HsBlocked else HsNeedsDecision),
           dv_productLabel = (if useWorkspaceAgent then ''Ask Workspace Agent'' else ''Needs decision''),
           dv_shortReason = cleanReason (wr_shortReason (sdi_report input)) ''missing context'',
           dv_requiresOperatorApproval = Some (\<not> useWorkspaceAgent), dv_destructive = None,
           dv_assistanceRequest =
             (if useWorkspaceAgent then Some (assistanceRequest (sdi_report input) availableActions action)
              else None)\<rparr>)"

definition retryableFailureDecision ::
    "SmartQueueDecisionInput \<Rightarrow> SmartQueueRetryPolicy \<Rightarrow> SmartQueueCoordinatorDecision" where
  "retryableFailureDecision input retryPolicy =
     (let shortReason = (if wr_failureKind (sdi_report input) = FkTimeout then ''timeout'' else ''tool failure'')
      in if rp_canRetry retryPolicy then
           decision input retryPolicy
             \<lparr>dv_action = DaRetrySame,
              dv_availableActions = [DaRetrySame, DaMoveBlocked, DaRequestHumanInput],
              dv_recommendedActions = [DaRetrySame], dv_severity = SvWarning, dv_status = HsNeedsDecision,
              dv_productLabel = ''Retry available'', dv_shortReason = shortReason,
              dv_requiresOperatorApproval = Some True, dv_destructive = None, dv_assistanceRequest = None\<rparr>
         else
           decision input retryPolicy
             \<lparr>dv_action = DaMoveBlocked,
              dv_availableActions = [DaMoveBlocked, DaRequestHumanInput, DaMarkFailed],
              dv_recommendedActions = [DaMoveBlocked, DaRequestHumanInput], dv_severity = SvBlocked,
              dv_status = HsBlocked, dv_productLabel = ''Retry limit reached'',
              dv_shortReason = js_default ''retry limit reached'' (rp_exhaustedReason retryPolicy),
              dv_requiresOperatorApproval = Some True, dv_destructive = None, dv_assistanceRequest = None\<rparr>)"

text \<open>The values of a case that moves the task to blocked, and of one that waits for a person.\<close>

definition blockedValues :: "DecisionAction list \<Rightarrow> DecisionAction list \<Rightarrow> string \<Rightarrow> string \<Rightarrow> DecisionValues" where
  "blockedValues available recommended label reason =
     \<lparr>dv_action = DaMoveBlocked, dv_availableActions = available, dv_recommendedActions = recommended,
      dv_severity = SvBlocked, dv_status = HsBlocked, dv_productLabel = label,
      dv_shortReason = reason, dv_requiresOperatorApproval = None, dv_destructive = None,
      dv_assistanceRequest = None\<rparr>"

definition humanValues :: "DecisionAction list \<Rightarrow> DecisionAction list \<Rightarrow> string \<Rightarrow> string \<Rightarrow> DecisionValues" where
  "humanValues available recommended label reason =
     \<lparr>dv_action = DaRequestHumanInput, dv_availableActions = available, dv_recommendedActions = recommended,
      dv_severity = SvNeedsDecision, dv_status = HsNeedsDecision, dv_productLabel = label,
      dv_shortReason = reason, dv_requiresOperatorApproval = Some True, dv_destructive = None,
      dv_assistanceRequest = None\<rparr>"

definition decideSmartQueueCoordinatorAction ::
    "SmartQueueDecisionInput \<Rightarrow> SmartQueueCoordinatorDecision" where
  "decideSmartQueueCoordinatorAction input =
     (let retryPolicy = computeSmartQueueRetryPolicy (sdi_maxRetries input) (sdi_retryCount input);
          report = sdi_report input
      in case wr_failureKind report of
           FkValidationFailure \<Rightarrow> decision input retryPolicy
             (humanValues
               ([DaRetryWithModifiedPrompt, DaRequestHumanInput, DaMarkFailed] @ suggestedRollbackAction report)
               [DaRetryWithModifiedPrompt, DaRequestHumanInput, DaMarkFailed]
               ''Needs decision: validation failed'' ''validation failed'')
         | FkExecutionFailure \<Rightarrow> decision input retryPolicy
             (blockedValues [DaMoveBlocked, DaRequestHumanInput, DaMarkFailed]
               [DaMoveBlocked, DaRequestHumanInput] ''Blocked: exec failure'' ''exec failure'')
         | FkMissingConfig \<Rightarrow> decision input retryPolicy
             (blockedValues [DaMoveBlocked, DaRequestHumanInput] [DaMoveBlocked]
               ''Blocked: missing config'' ''missing config'')
         | FkMissingContext \<Rightarrow> missingContextDecision input retryPolicy
         | FkDependencyFailed \<Rightarrow> decision input retryPolicy
             (blockedValues
               [DaMoveBlocked, DaRequestWorkspaceAgentAssistance, DaRequestHumanInput, DaAcceptDependencyAnyway]
               [DaMoveBlocked] ''Blocked: dependency failed'' ''dependency failed'')
         | FkDependencyBlocked \<Rightarrow> decision input retryPolicy
             (blockedValues
               [DaMoveBlocked, DaRequestWorkspaceAgentAssistance, DaRequestHumanInput, DaAcceptDependencyAnyway]
               [DaMoveBlocked] ''Blocked: dependency blocked'' ''dependency blocked'')
         | FkDirtyWorktree \<Rightarrow> decision input retryPolicy
             (blockedValues [DaMoveBlocked, DaRequestHumanInput] [DaMoveBlocked]
               ''Blocked: dirty workspace'' ''dirty workspace'')
         | FkTimeout \<Rightarrow> retryableFailureDecision input retryPolicy
         | FkToolFailure \<Rightarrow> retryableFailureDecision input retryPolicy
         | FkUnknown \<Rightarrow> decision input retryPolicy
             (humanValues [DaRequestHumanInput, DaMoveBlocked, DaMarkFailed] [DaRequestHumanInput]
               ''Needs decision'' (cleanReason (wr_shortReason report) ''needs human input'')))"

definition proposeSmartQueueRollbackAttemptDecision ::
    "SmartQueueDecisionInput \<Rightarrow> SmartQueueCoordinatorDecision" where
  "proposeSmartQueueRollbackAttemptDecision input =
     decision input (computeSmartQueueRetryPolicy (sdi_maxRetries input) (sdi_retryCount input))
       \<lparr>dv_action = DaRollbackAttemptProposal,
        dv_availableActions = [DaRollbackAttemptProposal, DaRequestHumanInput, DaMarkFailed],
        dv_recommendedActions = [DaRollbackAttemptProposal], dv_severity = SvNeedsDecision,
        dv_status = HsNeedsDecision, dv_productLabel = ''Needs decision: rollback proposal'',
        dv_shortReason = ''rollback proposal'', dv_requiresOperatorApproval = Some True,
        dv_destructive = Some True, dv_assistanceRequest = None\<rparr>"

section \<open>Facts about decisions\<close>

lemmas decision_defs = decideSmartQueueCoordinatorAction_def missingContextDecision_def
  retryableFailureDecision_def blockedValues_def humanValues_def decision_def

lemma decision_retryPolicy [simp]:
  "dec_retryPolicy (decideSmartQueueCoordinatorAction input)
   = computeSmartQueueRetryPolicy (sdi_maxRetries input) (sdi_retryCount input)"
  by (cases "wr_failureKind (sdi_report input)") (simp_all add: decision_defs Let_def)

lemma decision_ids [simp]:
  "dec_taskId (decideSmartQueueCoordinatorAction input) = wr_taskId (sdi_report input)"
  "dec_failureKind (decideSmartQueueCoordinatorAction input) = wr_failureKind (sdi_report input)"
  "dec_destructive (decideSmartQueueCoordinatorAction input) = False"
  by (cases "wr_failureKind (sdi_report input)"; simp add: decision_defs Let_def)+

lemma canRetry_iff:
  "rp_canRetry (computeSmartQueueRetryPolicy mx n) \<longleftrightarrow> max 0 (js_default 0 n) < js_default 0 mx"
  by (simp add: computeSmartQueueRetryPolicy_def Let_def) linarith

lemma decision_action_retry:
  "dec_action (decideSmartQueueCoordinatorAction input) = DaRetrySame \<longleftrightarrow>
     wr_failureKind (sdi_report input) \<in> {FkTimeout, FkToolFailure}
     \<and> rp_canRetry (computeSmartQueueRetryPolicy (sdi_maxRetries input) (sdi_retryCount input))"
  by (cases "wr_failureKind (sdi_report input)") (simp_all add: decision_defs Let_def)

lemma decision_actions:
  "dec_action (decideSmartQueueCoordinatorAction input)
     \<in> set (dec_recommendedActions (decideSmartQueueCoordinatorAction input))"
  "set (dec_recommendedActions (decideSmartQueueCoordinatorAction input))
     \<subseteq> set (dec_availableActions (decideSmartQueueCoordinatorAction input))"
  by (cases "wr_failureKind (sdi_report input)"; simp add: decision_defs Let_def)+

lemma decision_assistance:
  "dec_assistanceRequest (decideSmartQueueCoordinatorAction input) \<noteq> None \<longleftrightarrow>
   dec_action (decideSmartQueueCoordinatorAction input) = DaRequestWorkspaceAgentAssistance"
  by (cases "wr_failureKind (sdi_report input)") (simp_all add: decision_defs Let_def)

lemma decision_status:
  "dec_requiresOperatorApproval (decideSmartQueueCoordinatorAction input) \<longleftrightarrow>
     dhs_status (dec_humanStatus (decideSmartQueueCoordinatorAction input)) = HsNeedsDecision
     \<or> wr_failureKind (sdi_report input) \<in> {FkTimeout, FkToolFailure}"
  "dhs_status (dec_humanStatus (decideSmartQueueCoordinatorAction input)) \<in> {HsBlocked, HsNeedsDecision}"
  by (cases "wr_failureKind (sdi_report input)"; simp add: decision_defs Let_def)+

section \<open>Properties\<close>

text \<open>
  The coordinator's decision is consistent: its action is among the ones it recommends and these
  among the ones it offers; it retries by itself exactly for a timeout or a tool failure with retries
  left; it is never destructive, asks a person exactly when the task needs a decision or the failure
  was a timeout or a tool failure, and asks the workspace agent exactly when it holds a request for it.
\<close>

theorem decideSmartQueueCoordinatorAction_consistent:
  "let d = decideSmartQueueCoordinatorAction input; kind = wr_failureKind (sdi_report input)
   in dec_action d \<in> set (dec_recommendedActions d)
    \<and> set (dec_recommendedActions d) \<subseteq> set (dec_availableActions d)
    \<and> (dec_action d = DaRetrySame \<longleftrightarrow> kind \<in> {FkTimeout, FkToolFailure}
         \<and> max 0 (js_default 0 (sdi_retryCount input)) < js_default 0 (sdi_maxRetries input))
    \<and> \<not> dec_destructive d
    \<and> dhs_status (dec_humanStatus d) \<in> {HsBlocked, HsNeedsDecision}
    \<and> (dec_requiresOperatorApproval d \<longleftrightarrow>
         dhs_status (dec_humanStatus d) = HsNeedsDecision \<or> kind \<in> {FkTimeout, FkToolFailure})
    \<and> (dec_assistanceRequest d \<noteq> None \<longleftrightarrow> dec_action d = DaRequestWorkspaceAgentAssistance)"
  unfolding Let_def
  by (intro conjI decision_actions decision_status decision_assistance)
     (simp_all add: decision_action_retry canRetry_iff)

end
