(* ===== verification/Report_Payloads.thy ===== *)
theory Report_Payloads
  imports Coordinator_Decision "HOL-Library.Monad_Syntax"
begin

text \<open>
  The records a worker report carries as JSON text in \<open>rawReportPreview\<close>, and how they are read
  back: the payload types and the \<open>parse...Payload\<close> functions of
  \<open>workbench/queue/smartQueueWorkerReportIntegration.ts\<close>.

  The source casts the parsed value to the payload's type; the model decodes it, so a value whose
  members have other types than the payload's is rejected here. A member that is \<open>undefined\<close> is not
  written; the order of the members, which no reader looks at, is the order of the type.
\<close>

section \<open>Objects with optional members\<close>

fun present :: "('k \<times> 'v option) list \<Rightarrow> ('k \<times> 'v) list" where
  "present [] = []"
| "present ((k, None) # es) = present es"
| "present ((k, Some v) # es) = (k, v) # present es"

definition jobj :: "(string \<times> json option) list \<Rightarrow> json" where
  "jobj entries = JObj (present entries)"

definition jget :: "string \<Rightarrow> json \<Rightarrow> json option" where
  "jget k j = (case j of JObj ms \<Rightarrow> map_of ms k | _ \<Rightarrow> None)"

fun asString :: "json \<Rightarrow> string option" where
  "asString (JStr s) = Some s" | "asString _ = None"

fun asInt :: "json \<Rightarrow> int option" where
  "asInt (JNum n) = Some n" | "asInt _ = None"

fun asBool :: "json \<Rightarrow> bool option" where
  "asBool (JBool b) = Some b" | "asBool _ = None"

fun decodeAll :: "(json \<Rightarrow> 'a option) \<Rightarrow> json list \<Rightarrow> 'a list option" where
  "decodeAll d [] = Some []"
| "decodeAll d (x # xs) = Option.bind (d x) (\<lambda>y. map_option (Cons y) (decodeAll d xs))"

fun asList :: "(json \<Rightarrow> 'a option) \<Rightarrow> json \<Rightarrow> 'a list option" where
  "asList d (JArr xs) = decodeAll d xs" | "asList d _ = None"

definition asEnum :: "('a \<Rightarrow> string) \<Rightarrow> 'a list \<Rightarrow> json \<Rightarrow> 'a option" where
  "asEnum name values j = Option.bind (asString j) (\<lambda>s. List.find (\<lambda>v. name v = s) values)"

text \<open>A required member, and one that may be missing.\<close>

definition member :: "(json \<Rightarrow> 'a option) \<Rightarrow> string \<Rightarrow> json \<Rightarrow> 'a option" where
  "member d k j = Option.bind (jget k j) d"

definition decodeOpt :: "(json \<Rightarrow> 'a option) \<Rightarrow> json option \<Rightarrow> 'a option option" where
  "decodeOpt d v =
     (case v of None \<Rightarrow> Some None | Some JNull \<Rightarrow> Some None | Some w \<Rightarrow> map_option Some (d w))"

definition optMember :: "(json \<Rightarrow> 'a option) \<Rightarrow> string \<Rightarrow> json \<Rightarrow> 'a option option" where
  "optMember d k j = decodeOpt d (jget k j)"

lemma keys_present: "fst ` set (present es) \<subseteq> fst ` set es"
  by (induction es rule: present.induct) auto

lemma map_of_present:
  "distinct (map fst es) \<Longrightarrow> map_of (present es) k = Option.bind (map_of es k) id"
proof (induction es rule: present.induct)
  case (2 k' es)
  then have "map_of es k' = None" by (simp add: map_of_eq_None_iff)
  with 2 show ?case by auto
qed auto

lemma jget_jobj: "distinct (map fst es) \<Longrightarrow> jget k (jobj es) = Option.bind (map_of es k) id"
  by (simp add: jget_def jobj_def map_of_present)

lemma member_jobj:
  "distinct (map fst es) \<Longrightarrow> member d k (jobj es) = Option.bind (Option.bind (map_of es k) id) d"
  by (simp add: member_def jget_jobj)

lemma optMember_jobj:
  "distinct (map fst es) \<Longrightarrow> optMember d k (jobj es) = decodeOpt d (Option.bind (map_of es k) id)"
  by (simp add: optMember_def jget_jobj)

lemma set_present: "(k, v) \<in> set (present es) \<Longrightarrow> (k, Some v) \<in> set es"
  by (induction es rule: present.induct) auto

lemma distinct_present: "distinct (map fst es) \<Longrightarrow> distinct (map fst (present es))"
  by (induction es rule: present.induct) (auto dest!: set_present simp: image_iff)

lemma jsonOk_jobj [simp]:
  "jsonOk (jobj es) \<longleftrightarrow> distinct (map fst (present es)) \<and> list_all (\<lambda>(k, v). jsonOk v) (present es)"
  by (simp add: jobj_def)

lemma jobj_not_null [simp]: "jobj es \<noteq> JNull"
  by (simp add: jobj_def)

lemma decodeAll_map [simp]: "(\<And>x. d (e x) = Some x) \<Longrightarrow> decodeAll d (map e xs) = Some xs"
  by (induction xs) auto

lemma decodeOpt_map:
  "(\<And>x. e x \<noteq> JNull) \<Longrightarrow> (\<And>x. d (e x) = Some x) \<Longrightarrow> decodeOpt d (map_option e v) = Some v"
proof (cases v)
  case (Some x)
  assume "\<And>x. e x \<noteq> JNull" "\<And>x. d (e x) = Some x"
  then have "e x \<noteq> JNull" "d (e x) = Some x" by auto
  then show ?thesis by (cases "e x") (simp_all add: decodeOpt_def Some)
qed (simp add: decodeOpt_def)

section \<open>Attempts\<close>

fun attemptStatusName :: "AttemptStatus \<Rightarrow> string" where
  "attemptStatusName AsPending = ''pending''"
| "attemptStatusName AsRunning = ''running''"
| "attemptStatusName AsValidation = ''validation''"
| "attemptStatusName AsSucceeded = ''succeeded''"
| "attemptStatusName AsFailed = ''failed''"
| "attemptStatusName AsCancelled = ''cancelled''"

fun attemptValidationStatusName :: "AttemptValidationStatus \<Rightarrow> string" where
  "attemptValidationStatusName AvNotRun = ''not_run''"
| "attemptValidationStatusName AvRunning = ''running''"
| "attemptValidationStatusName AvPassed = ''passed''"
| "attemptValidationStatusName AvFailed = ''failed''"

fun retrySourceName :: "AttemptRetrySource \<Rightarrow> string" where
  "retrySourceName RetrySame = ''retry_same''"
| "retrySourceName RetryWithModifiedPrompt = ''retry_with_modified_prompt''"

abbreviation FAILURE_KINDS :: "FailureKind list" where
  "FAILURE_KINDS \<equiv> [FkValidationFailure, FkExecutionFailure, FkMissingConfig, FkMissingContext,
     FkDependencyFailed, FkDependencyBlocked, FkDirtyWorktree, FkTimeout, FkToolFailure, FkUnknown]"

abbreviation jstr :: "string option \<Rightarrow> json option" where "jstr \<equiv> map_option JStr"
abbreviation jstrs :: "string list \<Rightarrow> json" where "jstrs xs \<equiv> JArr (map JStr xs)"

definition encodeValidationResult :: "AttemptValidationResult \<Rightarrow> json" where
  "encodeValidationResult v = jobj
     [(''status'', Some (JStr (attemptValidationStatusName (avr_status v)))),
      (''summary'', jstr (avr_summary v)), (''evidence'', map_option jstrs (avr_evidence v))]"

definition decodeValidationResult :: "json \<Rightarrow> AttemptValidationResult option" where
  "decodeValidationResult j = do {
     status \<leftarrow> member (asEnum attemptValidationStatusName [AvNotRun, AvRunning, AvPassed, AvFailed]) ''status'' j;
     summary \<leftarrow> optMember asString ''summary'' j;
     evidence \<leftarrow> optMember (asList asString) ''evidence'' j;
     Some \<lparr>avr_status = status, avr_summary = summary, avr_evidence = evidence\<rparr>
   }"

definition encodeAttemptResult :: "AttemptResult \<Rightarrow> json" where
  "encodeAttemptResult r = jobj
     [(''summary'', jstr (ares_summary r)), (''evidence'', map_option jstrs (ares_evidence r))]"

definition decodeAttemptResult :: "json \<Rightarrow> AttemptResult option" where
  "decodeAttemptResult j = do {
     summary \<leftarrow> optMember asString ''summary'' j;
     evidence \<leftarrow> optMember (asList asString) ''evidence'' j;
     Some \<lparr>ares_summary = summary, ares_evidence = evidence\<rparr>
   }"

definition encodePromptOverride :: "AttemptPromptOverride \<Rightarrow> json" where
  "encodePromptOverride p = jobj
     [(''kind'', Some (JStr ''operator_modified_retry_prompt'')),
      (''originalPrompt'', Some (JStr (po_originalPrompt p))),
      (''modifiedPrompt'', Some (JStr (po_modifiedPrompt p))),
      (''runnablePromptField'', Some (JStr ''task.prompt''))]"

definition decodePromptOverride :: "json \<Rightarrow> AttemptPromptOverride option" where
  "decodePromptOverride j = do {
     original \<leftarrow> member asString ''originalPrompt'' j;
     modified \<leftarrow> member asString ''modifiedPrompt'' j;
     Some \<lparr>po_originalPrompt = original, po_modifiedPrompt = modified\<rparr>
   }"

definition encodeAttempt :: "SmartQueueAttempt \<Rightarrow> json" where
  "encodeAttempt a = jobj
     [(''attemptId'', Some (JStr (att_attemptId a))), (''taskId'', Some (JStr (att_taskId a))),
      (''attemptNumber'', Some (JNum (att_attemptNumber a))),
      (''status'', Some (JStr (attemptStatusName (att_status a)))),
      (''startedAt'', jstr (att_startedAt a)), (''finishedAt'', jstr (att_finishedAt a)),
      (''workerId'', jstr (att_workerId a)), (''baseRevision'', jstr (att_baseRevision a)),
      (''changedFiles'', map_option jstrs (att_changedFiles a)),
      (''validationResult'', map_option encodeValidationResult (att_validationResult a)),
      (''result'', map_option encodeAttemptResult (att_result a)),
      (''failureKind'', map_option (\<lambda>k. JStr (failureKindName k)) (att_failureKind a)),
      (''shortReason'', jstr (att_shortReason a)),
      (''coordinatorDecisionId'', jstr (att_coordinatorDecisionId a)),
      (''retrySource'', map_option (\<lambda>r. JStr (retrySourceName r)) (att_retrySource a)),
      (''promptOverride'', map_option encodePromptOverride (att_promptOverride a))]"

definition decodeAttempt :: "json \<Rightarrow> SmartQueueAttempt option" where
  "decodeAttempt j = do {
     attemptId \<leftarrow> member asString ''attemptId'' j;
     taskId \<leftarrow> member asString ''taskId'' j;
     attemptNumber \<leftarrow> member asInt ''attemptNumber'' j;
     status \<leftarrow> member (asEnum attemptStatusName
       [AsPending, AsRunning, AsValidation, AsSucceeded, AsFailed, AsCancelled]) ''status'' j;
     startedAt \<leftarrow> optMember asString ''startedAt'' j;
     finishedAt \<leftarrow> optMember asString ''finishedAt'' j;
     workerId \<leftarrow> optMember asString ''workerId'' j;
     baseRevision \<leftarrow> optMember asString ''baseRevision'' j;
     changedFiles \<leftarrow> optMember (asList asString) ''changedFiles'' j;
     validationResult \<leftarrow> optMember decodeValidationResult ''validationResult'' j;
     result \<leftarrow> optMember decodeAttemptResult ''result'' j;
     failureKind \<leftarrow> optMember (asEnum failureKindName FAILURE_KINDS) ''failureKind'' j;
     shortReason \<leftarrow> optMember asString ''shortReason'' j;
     coordinatorDecisionId \<leftarrow> optMember asString ''coordinatorDecisionId'' j;
     retrySource \<leftarrow> optMember (asEnum retrySourceName [RetrySame, RetryWithModifiedPrompt]) ''retrySource'' j;
     promptOverride \<leftarrow> optMember decodePromptOverride ''promptOverride'' j;
     Some \<lparr>att_attemptId = attemptId, att_taskId = taskId, att_attemptNumber = attemptNumber,
       att_status = status, att_startedAt = startedAt, att_finishedAt = finishedAt, att_workerId = workerId,
       att_baseRevision = baseRevision, att_changedFiles = changedFiles,
       att_validationResult = validationResult, att_result = result, att_failureKind = failureKind,
       att_shortReason = shortReason, att_coordinatorDecisionId = coordinatorDecisionId,
       att_retrySource = retrySource, att_promptOverride = promptOverride\<rparr>
   }"

section \<open>What was encoded is decoded\<close>

lemma enum_roundtrips [simp]:
  "asEnum attemptStatusName [AsPending, AsRunning, AsValidation, AsSucceeded, AsFailed, AsCancelled]
     (JStr (attemptStatusName s)) = Some s"
  "asEnum attemptValidationStatusName [AvNotRun, AvRunning, AvPassed, AvFailed]
     (JStr (attemptValidationStatusName v)) = Some v"
  "asEnum retrySourceName [RetrySame, RetryWithModifiedPrompt] (JStr (retrySourceName r)) = Some r"
  "asEnum failureKindName FAILURE_KINDS (JStr (failureKindName k)) = Some k"
  by ((cases s; simp add: asEnum_def), (cases v; simp add: asEnum_def), (cases r; simp add: asEnum_def),
      (cases k; simp add: asEnum_def))

lemma decodeOpt_strings [simp]:
  "decodeOpt asString (jstr v) = Some v" "decodeOpt (asList asString) (map_option jstrs l) = Some l"
  "decodeOpt (asEnum failureKindName FAILURE_KINDS) (map_option (\<lambda>k. JStr (failureKindName k)) fk) = Some fk"
  "decodeOpt (asEnum retrySourceName [RetrySame, RetryWithModifiedPrompt])
     (map_option (\<lambda>k. JStr (retrySourceName k)) rs) = Some rs"
  by (rule decodeOpt_map; simp)+

lemma validationResult_roundtrip [simp]: "decodeValidationResult (encodeValidationResult v) = Some v"
  by (simp add: decodeValidationResult_def encodeValidationResult_def member_jobj optMember_jobj)

lemma attemptResult_roundtrip [simp]: "decodeAttemptResult (encodeAttemptResult r) = Some r"
  by (simp add: decodeAttemptResult_def encodeAttemptResult_def member_jobj optMember_jobj)

lemma promptOverride_roundtrip [simp]: "decodePromptOverride (encodePromptOverride p) = Some p"
  by (simp add: decodePromptOverride_def encodePromptOverride_def member_jobj optMember_jobj)

lemma encoded_not_null [simp]:
  "encodeValidationResult v \<noteq> JNull" "encodeAttemptResult r \<noteq> JNull" "encodePromptOverride p \<noteq> JNull"
  by (simp_all add: encodeValidationResult_def encodeAttemptResult_def encodePromptOverride_def)

lemma decodeOpt_objects [simp]:
  "decodeOpt decodeValidationResult (map_option encodeValidationResult vr) = Some vr"
  "decodeOpt decodeAttemptResult (map_option encodeAttemptResult r) = Some r"
  "decodeOpt decodePromptOverride (map_option encodePromptOverride po) = Some po"
  by (rule decodeOpt_map; simp)+

lemma attempt_roundtrip [simp]: "decodeAttempt (encodeAttempt a) = Some a"
  by (simp add: decodeAttempt_def encodeAttempt_def member_jobj optMember_jobj)

lemma list_all_jstrs [simp]: "list_all jsonOk (map JStr xs)"
  by (induction xs) auto

lemma list_all_JStr [simp]: "list_all jsonOk (map (\<lambda>x. JStr (f x)) xs)"
  by (induction xs) auto

lemma Some_eq_map_option: "Some y = map_option f x \<longleftrightarrow> (\<exists>z. x = Some z \<and> y = f z)"
  by (cases x) auto

lemmas jsonOk_simps = list_all_iff distinct_present Some_eq_map_option

lemma jsonOk_parts [simp]:
  "jsonOk (encodeValidationResult v)" "jsonOk (encodeAttemptResult r)" "jsonOk (encodePromptOverride p)"
  by (auto simp: encodeValidationResult_def encodeAttemptResult_def encodePromptOverride_def jsonOk_simps
      dest!: set_present)

lemma jsonOk_attempt [simp]: "jsonOk (encodeAttempt a)"
  by (auto simp: encodeAttempt_def jsonOk_simps dest!: set_present)

section \<open>Decisions\<close>

fun decisionActionName :: "DecisionAction \<Rightarrow> string" where
  "decisionActionName DaRetrySame = ''retry_same''"
| "decisionActionName DaRetryWithModifiedPrompt = ''retry_with_modified_prompt''"
| "decisionActionName DaMoveBlocked = ''move_blocked''"
| "decisionActionName DaMarkFailed = ''mark_failed''"
| "decisionActionName DaRequestHumanInput = ''request_human_input''"
| "decisionActionName DaRequestWorkspaceAgentAssistance = ''request_workspace_agent_assistance''"
| "decisionActionName DaRollbackAttemptProposal = ''rollback_attempt_proposal''"
| "decisionActionName DaSplitFollowupTask = ''split_followup_task''"
| "decisionActionName DaAcceptDependencyAnyway = ''accept_dependency_anyway''"

fun workerReportStageName :: "WorkerReportStage \<Rightarrow> string" where
  "workerReportStageName SgPlanning = ''planning''"
| "workerReportStageName SgExecution = ''execution''"
| "workerReportStageName SgValidation = ''validation''"
| "workerReportStageName SgCommit = ''commit''"
| "workerReportStageName SgDependency = ''dependency''"
| "workerReportStageName SgEnvironment = ''environment''"

fun decisionSeverityName :: "DecisionSeverity \<Rightarrow> string" where
  "decisionSeverityName SvInfo = ''info''"
| "decisionSeverityName SvWarning = ''warning''"
| "decisionSeverityName SvNeedsDecision = ''needs_decision''"
| "decisionSeverityName SvBlocked = ''blocked''"
| "decisionSeverityName SvFailed = ''failed''"

fun smartHumanStatusName :: "SmartQueueTaskHumanStatus \<Rightarrow> string" where
  "smartHumanStatusName HsReady = ''ready''"
| "smartHumanStatusName HsWaitingDependency = ''waiting_dependency''"
| "smartHumanStatusName HsRunning = ''running''"
| "smartHumanStatusName HsReview = ''review''"
| "smartHumanStatusName HsNeedsDecision = ''needs_decision''"
| "smartHumanStatusName HsBlocked = ''blocked''"
| "smartHumanStatusName HsFailed = ''failed''"
| "smartHumanStatusName HsClosed = ''closed''"
| "smartHumanStatusName HsCancelled = ''cancelled''"

abbreviation DECISION_ACTIONS :: "DecisionAction list" where
  "DECISION_ACTIONS \<equiv> [DaRetrySame, DaRetryWithModifiedPrompt, DaMoveBlocked, DaMarkFailed,
     DaRequestHumanInput, DaRequestWorkspaceAgentAssistance, DaRollbackAttemptProposal,
     DaSplitFollowupTask, DaAcceptDependencyAnyway]"

abbreviation REPORT_STAGES :: "WorkerReportStage list" where
  "REPORT_STAGES \<equiv> [SgPlanning, SgExecution, SgValidation, SgCommit, SgDependency, SgEnvironment]"

abbreviation HUMAN_STATUSES :: "SmartQueueTaskHumanStatus list" where
  "HUMAN_STATUSES \<equiv> [HsReady, HsWaitingDependency, HsRunning, HsReview, HsNeedsDecision, HsBlocked,
     HsFailed, HsClosed, HsCancelled]"

abbreviation asAction :: "json \<Rightarrow> DecisionAction option" where
  "asAction \<equiv> asEnum decisionActionName DECISION_ACTIONS"

abbreviation asStage :: "json \<Rightarrow> WorkerReportStage option" where
  "asStage \<equiv> asEnum workerReportStageName REPORT_STAGES"

abbreviation jactions :: "DecisionAction list \<Rightarrow> json" where
  "jactions xs \<equiv> JArr (map (\<lambda>a. JStr (decisionActionName a)) xs)"

definition encodeWorkerReport :: "SmartQueueWorkerReport \<Rightarrow> json" where
  "encodeWorkerReport r = jobj
     [(''taskId'', Some (JStr (wr_taskId r))), (''attemptId'', jstr (wr_attemptId r)),
      (''stage'', Some (JStr (workerReportStageName (wr_stage r)))),
      (''failureKind'', Some (JStr (failureKindName (wr_failureKind r)))),
      (''shortReason'', Some (JStr (wr_shortReason r))),
      (''evidenceSummary'', Some (JStr (wr_evidenceSummary r))),
      (''suggestedActions'', map_option jactions (wr_suggestedActions r))]"

definition decodeWorkerReport :: "json \<Rightarrow> SmartQueueWorkerReport option" where
  "decodeWorkerReport j = do {
     taskId \<leftarrow> member asString ''taskId'' j;
     attemptId \<leftarrow> optMember asString ''attemptId'' j;
     stage \<leftarrow> member asStage ''stage'' j;
     failureKind \<leftarrow> member (asEnum failureKindName FAILURE_KINDS) ''failureKind'' j;
     reason \<leftarrow> member asString ''shortReason'' j;
     evidence \<leftarrow> member asString ''evidenceSummary'' j;
     suggested \<leftarrow> optMember (asList asAction) ''suggestedActions'' j;
     Some \<lparr>wr_taskId = taskId, wr_attemptId = attemptId, wr_stage = stage, wr_failureKind = failureKind,
       wr_shortReason = reason, wr_evidenceSummary = evidence, wr_suggestedActions = suggested\<rparr>
   }"

definition encodeAssistanceRequest :: "SmartQueueAssistanceRequest \<Rightarrow> json" where
  "encodeAssistanceRequest r = jobj
     [(''taskId'', Some (JStr (ar_taskId r))), (''attemptId'', jstr (ar_attemptId r)),
      (''reasonKind'', Some (JStr (failureKindName (ar_reasonKind r)))),
      (''shortReason'', Some (JStr (ar_shortReason r))),
      (''evidenceSummary'', Some (JStr (ar_evidenceSummary r))),
      (''availableActions'', Some (jactions (ar_availableActions r))),
      (''recommendedAction'', map_option (\<lambda>a. JStr (decisionActionName a)) (ar_recommendedAction r))]"

definition decodeAssistanceRequest :: "json \<Rightarrow> SmartQueueAssistanceRequest option" where
  "decodeAssistanceRequest j = do {
     taskId \<leftarrow> member asString ''taskId'' j;
     attemptId \<leftarrow> optMember asString ''attemptId'' j;
     reasonKind \<leftarrow> member (asEnum failureKindName FAILURE_KINDS) ''reasonKind'' j;
     reason \<leftarrow> member asString ''shortReason'' j;
     evidence \<leftarrow> member asString ''evidenceSummary'' j;
     available \<leftarrow> member (asList asAction) ''availableActions'' j;
     recommended \<leftarrow> optMember asAction ''recommendedAction'' j;
     Some \<lparr>ar_taskId = taskId, ar_attemptId = attemptId, ar_reasonKind = reasonKind,
       ar_shortReason = reason, ar_evidenceSummary = evidence, ar_availableActions = available,
       ar_recommendedAction = recommended\<rparr>
   }"

definition encodeRetryPolicy :: "SmartQueueRetryPolicy \<Rightarrow> json" where
  "encodeRetryPolicy p = jobj
     [(''retryCount'', Some (JNum (rp_retryCount p))), (''maxRetries'', Some (JNum (rp_maxRetries p))),
      (''canRetry'', Some (JBool (rp_canRetry p))), (''exhaustedReason'', jstr (rp_exhaustedReason p))]"

definition decodeRetryPolicy :: "json \<Rightarrow> SmartQueueRetryPolicy option" where
  "decodeRetryPolicy j = do {
     retryCount \<leftarrow> member asInt ''retryCount'' j;
     maxRetries \<leftarrow> member asInt ''maxRetries'' j;
     canRetry \<leftarrow> member asBool ''canRetry'' j;
     exhausted \<leftarrow> optMember asString ''exhaustedReason'' j;
     Some \<lparr>rp_retryCount = retryCount, rp_maxRetries = maxRetries, rp_canRetry = canRetry,
       rp_exhaustedReason = exhausted\<rparr>
   }"

definition encodeHumanStatus :: "DecisionHumanStatus \<Rightarrow> json" where
  "encodeHumanStatus h = jobj
     [(''status'', Some (JStr (smartHumanStatusName (dhs_status h)))),
      (''label'', Some (JStr (dhs_label h))), (''text'', Some (JStr (dhs_text h)))]"

definition decodeHumanStatus :: "json \<Rightarrow> DecisionHumanStatus option" where
  "decodeHumanStatus j = do {
     status \<leftarrow> member (asEnum smartHumanStatusName HUMAN_STATUSES) ''status'' j;
     label \<leftarrow> member asString ''label'' j;
     text \<leftarrow> member asString ''text'' j;
     Some \<lparr>dhs_status = status, dhs_label = label, dhs_text = text\<rparr>
   }"

definition encodeDecision :: "SmartQueueCoordinatorDecision \<Rightarrow> json" where
  "encodeDecision d = jobj
     [(''decisionId'', Some (JStr (dec_decisionId d))), (''taskId'', Some (JStr (dec_taskId d))),
      (''attemptId'', jstr (dec_attemptId d)),
      (''stage'', Some (JStr (workerReportStageName (dec_stage d)))),
      (''failureKind'', Some (JStr (failureKindName (dec_failureKind d)))),
      (''action'', Some (JStr (decisionActionName (dec_action d)))),
      (''availableActions'', Some (jactions (dec_availableActions d))),
      (''recommendedActions'', Some (jactions (dec_recommendedActions d))),
      (''severity'', Some (JStr (decisionSeverityName (dec_severity d)))),
      (''humanStatus'', Some (encodeHumanStatus (dec_humanStatus d))),
      (''productLabel'', Some (JStr (dec_productLabel d))),
      (''shortReason'', Some (JStr (dec_shortReason d))),
      (''evidenceSummary'', Some (JStr (dec_evidenceSummary d))),
      (''retryPolicy'', Some (encodeRetryPolicy (dec_retryPolicy d))),
      (''assistanceRequest'', map_option encodeAssistanceRequest (dec_assistanceRequest d)),
      (''requiresOperatorApproval'', Some (JBool (dec_requiresOperatorApproval d))),
      (''destructive'', Some (JBool (dec_destructive d))),
      (''sideEffects'', Some (JObj
        [(''wouldCallWorkspaceAgent'', JBool False), (''wouldExecuteRetry'', JBool False),
         (''wouldMutateQueue'', JBool False), (''wouldRollback'', JBool False),
         (''wouldStartWorker'', JBool False)]))]"

definition decodeDecision :: "json \<Rightarrow> SmartQueueCoordinatorDecision option" where
  "decodeDecision j = do {
     decisionId \<leftarrow> member asString ''decisionId'' j;
     taskId \<leftarrow> member asString ''taskId'' j;
     attemptId \<leftarrow> optMember asString ''attemptId'' j;
     stage \<leftarrow> member asStage ''stage'' j;
     failureKind \<leftarrow> member (asEnum failureKindName FAILURE_KINDS) ''failureKind'' j;
     action \<leftarrow> member asAction ''action'' j;
     available \<leftarrow> member (asList asAction) ''availableActions'' j;
     recommended \<leftarrow> member (asList asAction) ''recommendedActions'' j;
     severity \<leftarrow> member (asEnum decisionSeverityName
       [SvInfo, SvWarning, SvNeedsDecision, SvBlocked, SvFailed]) ''severity'' j;
     humanStatus \<leftarrow> member decodeHumanStatus ''humanStatus'' j;
     label \<leftarrow> member asString ''productLabel'' j;
     reason \<leftarrow> member asString ''shortReason'' j;
     evidence \<leftarrow> member asString ''evidenceSummary'' j;
     policy \<leftarrow> member decodeRetryPolicy ''retryPolicy'' j;
     assistance \<leftarrow> optMember decodeAssistanceRequest ''assistanceRequest'' j;
     approval \<leftarrow> member asBool ''requiresOperatorApproval'' j;
     destructive \<leftarrow> member asBool ''destructive'' j;
     Some \<lparr>dec_decisionId = decisionId, dec_taskId = taskId, dec_attemptId = attemptId, dec_stage = stage,
       dec_failureKind = failureKind, dec_action = action, dec_availableActions = available,
       dec_recommendedActions = recommended, dec_severity = severity, dec_humanStatus = humanStatus,
       dec_productLabel = label, dec_shortReason = reason, dec_evidenceSummary = evidence,
       dec_retryPolicy = policy, dec_assistanceRequest = assistance,
       dec_requiresOperatorApproval = approval, dec_destructive = destructive\<rparr>
   }"

lemma decision_enum_roundtrips [simp]:
  "asAction (JStr (decisionActionName a)) = Some a"
  "asStage (JStr (workerReportStageName s)) = Some s"
  "asEnum decisionSeverityName [SvInfo, SvWarning, SvNeedsDecision, SvBlocked, SvFailed]
     (JStr (decisionSeverityName v)) = Some v"
  "asEnum smartHumanStatusName HUMAN_STATUSES (JStr (smartHumanStatusName h)) = Some h"
  by ((cases a; simp add: asEnum_def), (cases s; simp add: asEnum_def), (cases v; simp add: asEnum_def),
      (cases h; simp add: asEnum_def))

lemma decodeOpt_actions [simp]:
  "decodeOpt (asList asAction) (map_option jactions v) = Some v"
  "decodeOpt asAction (map_option (\<lambda>a. JStr (decisionActionName a)) w) = Some w"
  by (rule decodeOpt_map; simp)+

lemma decision_part_roundtrips [simp]:
  "decodeWorkerReport (encodeWorkerReport wr) = Some wr"
  "decodeAssistanceRequest (encodeAssistanceRequest r) = Some r"
  "decodeRetryPolicy (encodeRetryPolicy rp) = Some rp"
  "decodeHumanStatus (encodeHumanStatus hs) = Some hs"
  by (simp_all add: decodeWorkerReport_def encodeWorkerReport_def decodeAssistanceRequest_def
      encodeAssistanceRequest_def decodeRetryPolicy_def encodeRetryPolicy_def decodeHumanStatus_def
      encodeHumanStatus_def member_jobj optMember_jobj)

lemma encodeAssistanceRequest_not_null [simp]: "encodeAssistanceRequest r \<noteq> JNull"
  by (simp add: encodeAssistanceRequest_def)

lemma decodeOpt_assistance [simp]:
  "decodeOpt decodeAssistanceRequest (map_option encodeAssistanceRequest v) = Some v"
  by (rule decodeOpt_map; simp)

lemma decision_roundtrip [simp]: "decodeDecision (encodeDecision d) = Some d"
  by (simp add: decodeDecision_def encodeDecision_def member_jobj optMember_jobj)

lemma jsonOk_decision_parts [simp]:
  "jsonOk (encodeWorkerReport wr)" "jsonOk (encodeAssistanceRequest r)" "jsonOk (encodeRetryPolicy rp)"
  "jsonOk (encodeHumanStatus hs)"
  by (auto simp: encodeWorkerReport_def encodeAssistanceRequest_def encodeRetryPolicy_def
      encodeHumanStatus_def jsonOk_simps dest!: set_present)

lemma jsonOk_decision [simp]: "jsonOk (encodeDecision d)"
  by (auto simp: encodeDecision_def jsonOk_simps dest!: set_present)

section \<open>The three kinds of records\<close>

record SmartQueueWorkerFailurePayload =
  fp_attempt :: SmartQueueAttempt
  fp_coordinatorDecision :: SmartQueueCoordinatorDecision
  fp_queueDetail :: string
  fp_queueStatus :: string
  fp_workerReport :: SmartQueueWorkerReport

record SmartQueueRetrySamePayload =
  rsp_acceptedAt :: string
  rsp_previousAttemptId :: "string option"
  rsp_previousDecisionId :: string
  rsp_retryAttempt :: SmartQueueAttempt
  rsp_taskId :: string

record SmartQueueRetryModifiedPromptPayload = SmartQueueRetrySamePayload +
  rmp_modifiedPrompt :: string
  rmp_originalPrompt :: string

definition encodeFailurePayload :: "SmartQueueWorkerFailurePayload \<Rightarrow> json" where
  "encodeFailurePayload p = JObj
     [(''attempt'', encodeAttempt (fp_attempt p)),
      (''coordinatorDecision'', encodeDecision (fp_coordinatorDecision p)),
      (''kind'', JStr ''smart_queue_worker_failure_report''),
      (''queueDetail'', JStr (fp_queueDetail p)), (''queueStatus'', JStr (fp_queueStatus p)),
      (''sideEffects'', JObj
        [(''wouldCallWorkspaceAgent'', JBool False), (''wouldExecuteRetry'', JBool False),
         (''wouldExecuteRollback'', JBool False), (''wouldMutateQueue'', JBool False),
         (''wouldStartWorker'', JBool False)]),
      (''version'', JNum 1), (''workerReport'', encodeWorkerReport (fp_workerReport p))]"

definition retrySideEffects :: json where
  "retrySideEffects = JObj
     [(''wouldCallWorkspaceAgent'', JBool False), (''wouldExecuteRetry'', JBool False),
      (''wouldExecuteRollback'', JBool False), (''wouldMutateGit'', JBool False),
      (''wouldMutateQueue'', JBool True), (''wouldStartWorker'', JBool False),
      (''wouldLaunchTerminal'', JBool False)]"

definition encodeRetrySamePayload :: "SmartQueueRetrySamePayload \<Rightarrow> json" where
  "encodeRetrySamePayload p = jobj
     [(''acceptedAction'', Some (JStr ''retry_same'')), (''acceptedAt'', Some (JStr (rsp_acceptedAt p))),
      (''kind'', Some (JStr ''smart_queue_retry_same_record'')),
      (''previousAttemptId'', jstr (rsp_previousAttemptId p)),
      (''previousDecisionId'', Some (JStr (rsp_previousDecisionId p))),
      (''retryAttempt'', Some (encodeAttempt (rsp_retryAttempt p))),
      (''sideEffects'', Some retrySideEffects), (''taskId'', Some (JStr (rsp_taskId p))),
      (''version'', Some (JNum 1))]"

definition encodeRetryModifiedPromptPayload :: "SmartQueueRetryModifiedPromptPayload \<Rightarrow> json" where
  "encodeRetryModifiedPromptPayload p = jobj
     [(''acceptedAction'', Some (JStr ''retry_with_modified_prompt'')),
      (''acceptedAt'', Some (JStr (rsp_acceptedAt p))),
      (''kind'', Some (JStr ''smart_queue_retry_modified_prompt_record'')),
      (''modifiedPrompt'', Some (JStr (rmp_modifiedPrompt p))),
      (''originalPrompt'', Some (JStr (rmp_originalPrompt p))),
      (''previousAttemptId'', jstr (rsp_previousAttemptId p)),
      (''previousDecisionId'', Some (JStr (rsp_previousDecisionId p))),
      (''retryAttempt'', Some (encodeAttempt (rsp_retryAttempt p))),
      (''sideEffects'', Some retrySideEffects), (''taskId'', Some (JStr (rsp_taskId p))),
      (''version'', Some (JNum 1))]"

text \<open>\<open>rawReportPreview?.trim()\<close> and \<open>JSON.parse\<close>, with the exception caught.\<close>

definition parseRaw :: "string option \<Rightarrow> json option" where
  "parseRaw raw = (if js_has_text raw then Option.bind raw jsonParse else None)"

definition hasKind :: "string \<Rightarrow> json \<Rightarrow> bool" where
  "hasKind kind j \<longleftrightarrow> jget ''kind'' j = Some (JStr kind) \<and> jget ''version'' j = Some (JNum 1)"

definition parseSmartQueueWorkerFailurePayload :: "string option \<Rightarrow> SmartQueueWorkerFailurePayload option" where
  "parseSmartQueueWorkerFailurePayload raw = do {
     j \<leftarrow> parseRaw raw;
     if \<not> hasKind ''smart_queue_worker_failure_report'' j then None
     else do {
       attempt \<leftarrow> member decodeAttempt ''attempt'' j;
       report \<leftarrow> member decodeWorkerReport ''workerReport'' j;
       decision \<leftarrow> member decodeDecision ''coordinatorDecision'' j;
       detail \<leftarrow> member asString ''queueDetail'' j;
       status \<leftarrow> member asString ''queueStatus'' j;
       Some \<lparr>fp_attempt = attempt, fp_coordinatorDecision = decision, fp_queueDetail = detail,
         fp_queueStatus = status, fp_workerReport = report\<rparr>
     }
   }"

definition parseSmartQueueRetrySamePayload :: "string option \<Rightarrow> SmartQueueRetrySamePayload option" where
  "parseSmartQueueRetrySamePayload raw = do {
     j \<leftarrow> parseRaw raw;
     if \<not> hasKind ''smart_queue_retry_same_record'' j
        \<or> jget ''acceptedAction'' j \<noteq> Some (JStr ''retry_same'') then None
     else do {
       acceptedAt \<leftarrow> member asString ''acceptedAt'' j;
       previousAttemptId \<leftarrow> optMember asString ''previousAttemptId'' j;
       previousDecisionId \<leftarrow> member asString ''previousDecisionId'' j;
       retryAttempt \<leftarrow> member decodeAttempt ''retryAttempt'' j;
       taskId \<leftarrow> member asString ''taskId'' j;
       if previousDecisionId = [] \<or> taskId = [] then None
       else Some \<lparr>rsp_acceptedAt = acceptedAt, rsp_previousAttemptId = previousAttemptId,
         rsp_previousDecisionId = previousDecisionId, rsp_retryAttempt = retryAttempt, rsp_taskId = taskId\<rparr>
     }
   }"

definition parseSmartQueueRetryModifiedPromptPayload ::
    "string option \<Rightarrow> SmartQueueRetryModifiedPromptPayload option" where
  "parseSmartQueueRetryModifiedPromptPayload raw = do {
     j \<leftarrow> parseRaw raw;
     if \<not> hasKind ''smart_queue_retry_modified_prompt_record'' j
        \<or> jget ''acceptedAction'' j \<noteq> Some (JStr ''retry_with_modified_prompt'') then None
     else do {
       acceptedAt \<leftarrow> member asString ''acceptedAt'' j;
       previousAttemptId \<leftarrow> optMember asString ''previousAttemptId'' j;
       previousDecisionId \<leftarrow> member asString ''previousDecisionId'' j;
       retryAttempt \<leftarrow> member decodeAttempt ''retryAttempt'' j;
       taskId \<leftarrow> member asString ''taskId'' j;
       modified \<leftarrow> member asString ''modifiedPrompt'' j;
       original \<leftarrow> member asString ''originalPrompt'' j;
       if previousDecisionId = [] \<or> taskId = [] \<or> js_blank modified then None
       else Some \<lparr>rsp_acceptedAt = acceptedAt, rsp_previousAttemptId = previousAttemptId,
         rsp_previousDecisionId = previousDecisionId, rsp_retryAttempt = retryAttempt, rsp_taskId = taskId,
         rmp_modifiedPrompt = modified, rmp_originalPrompt = original\<rparr>
     }
   }"

datatype RetryRecordPayload =
  SameRecord SmartQueueRetrySamePayload | ModifiedRecord SmartQueueRetryModifiedPromptPayload

definition parseSmartQueueRetryRecordPayload :: "string option \<Rightarrow> RetryRecordPayload option" where
  "parseSmartQueueRetryRecordPayload raw =
     js_coalesce (map_option SameRecord (parseSmartQueueRetrySamePayload raw))
       (map_option ModifiedRecord (parseSmartQueueRetryModifiedPromptPayload raw))"

section \<open>What was written is read back\<close>

lemma js_blank_Cons: "\<not> js_whitespace c \<Longrightarrow> \<not> js_blank (c # cs)"
  by (simp add: js_blank_def js_trim_def dropWhile_append)

lemma parseRaw_object: "jsonOk (JObj ms) \<Longrightarrow> parseRaw (Some (jsonStringify (JObj ms))) = Some (JObj ms)"
  using jsonParse_stringify [of "JObj ms"]
  by (simp add: parseRaw_def js_blank_Cons js_whitespace_def del: jsonParse_stringify)

lemma parseRaw_jobj: "jsonOk (jobj es) \<Longrightarrow> parseRaw (Some (jsonStringify (jobj es))) = Some (jobj es)"
  unfolding jobj_def by (rule parseRaw_object)

lemma jsonOk_payloads [simp]:
  "jsonOk (encodeFailurePayload p)" "jsonOk (encodeRetrySamePayload s)"
  "jsonOk (encodeRetryModifiedPromptPayload m)"
  by (auto simp: encodeFailurePayload_def encodeRetrySamePayload_def encodeRetryModifiedPromptPayload_def
      retrySideEffects_def jsonOk_simps dest!: set_present)

lemma parseRaw_payloads [simp]:
  "parseRaw (Some (jsonStringify (encodeFailurePayload p))) = Some (encodeFailurePayload p)"
  "parseRaw (Some (jsonStringify (encodeRetrySamePayload s))) = Some (encodeRetrySamePayload s)"
  "parseRaw (Some (jsonStringify (encodeRetryModifiedPromptPayload m)))
     = Some (encodeRetryModifiedPromptPayload m)"
  using jsonOk_payloads
  by (simp_all only: encodeFailurePayload_def encodeRetrySamePayload_def encodeRetryModifiedPromptPayload_def
      parseRaw_object parseRaw_jobj)

lemma jget_failurePayload [simp]:
  "jget ''kind'' (encodeFailurePayload p) = Some (JStr ''smart_queue_worker_failure_report'')"
  "jget ''version'' (encodeFailurePayload p) = Some (JNum 1)"
  "jget ''attempt'' (encodeFailurePayload p) = Some (encodeAttempt (fp_attempt p))"
  "jget ''coordinatorDecision'' (encodeFailurePayload p) = Some (encodeDecision (fp_coordinatorDecision p))"
  "jget ''queueDetail'' (encodeFailurePayload p) = Some (JStr (fp_queueDetail p))"
  "jget ''queueStatus'' (encodeFailurePayload p) = Some (JStr (fp_queueStatus p))"
  "jget ''workerReport'' (encodeFailurePayload p) = Some (encodeWorkerReport (fp_workerReport p))"
  by (simp_all add: jget_def encodeFailurePayload_def)

lemma parse_failurePayload [simp]:
  "parseSmartQueueWorkerFailurePayload (Some (jsonStringify (encodeFailurePayload p))) = Some p"
  by (simp add: parseSmartQueueWorkerFailurePayload_def hasKind_def member_def)

lemma parse_retrySamePayload [simp]:
  assumes "rsp_previousDecisionId p \<noteq> []" and "rsp_taskId p \<noteq> []"
  shows "parseSmartQueueRetrySamePayload (Some (jsonStringify (encodeRetrySamePayload p))) = Some p"
  unfolding parseSmartQueueRetrySamePayload_def parseRaw_payloads
  using assms
  by (simp add: encodeRetrySamePayload_def hasKind_def member_jobj optMember_jobj jget_jobj)

lemma parse_retryModifiedPayload [simp]:
  assumes "rsp_previousDecisionId p \<noteq> []" and "rsp_taskId p \<noteq> []" and "\<not> js_blank (rmp_modifiedPrompt p)"
  shows "parseSmartQueueRetryModifiedPromptPayload
     (Some (jsonStringify (encodeRetryModifiedPromptPayload p))) = Some p"
  unfolding parseSmartQueueRetryModifiedPromptPayload_def parseRaw_payloads
  using assms
  by (simp add: encodeRetryModifiedPromptPayload_def hasKind_def member_jobj optMember_jobj jget_jobj)

lemma hasKind_of_retry [simp]:
  "hasKind k (encodeRetryModifiedPromptPayload m) \<longleftrightarrow> k = ''smart_queue_retry_modified_prompt_record''"
  "hasKind k (encodeRetrySamePayload s) \<longleftrightarrow> k = ''smart_queue_retry_same_record''"
  "hasKind k (encodeFailurePayload p) \<longleftrightarrow> k = ''smart_queue_worker_failure_report''"
  by (auto simp: hasKind_def encodeRetryModifiedPromptPayload_def encodeRetrySamePayload_def jget_jobj)

text \<open>The three kinds of records do not mix.\<close>

lemma parse_other_kind [simp]:
  "parseSmartQueueRetrySamePayload (Some (jsonStringify (encodeFailurePayload p))) = None"
  "parseSmartQueueRetryModifiedPromptPayload (Some (jsonStringify (encodeFailurePayload p))) = None"
  "parseSmartQueueRetrySamePayload (Some (jsonStringify (encodeRetryModifiedPromptPayload m))) = None"
  "parseSmartQueueWorkerFailurePayload (Some (jsonStringify (encodeRetrySamePayload s))) = None"
  "parseSmartQueueWorkerFailurePayload (Some (jsonStringify (encodeRetryModifiedPromptPayload m))) = None"
  by (simp_all add: parseSmartQueueRetrySamePayload_def parseSmartQueueRetryModifiedPromptPayload_def
      parseSmartQueueWorkerFailurePayload_def)

lemma parse_retryRecord [simp]:
  "parseSmartQueueRetryRecordPayload (Some (jsonStringify (encodeFailurePayload p))) = None"
  "rsp_previousDecisionId s \<noteq> [] \<Longrightarrow> rsp_taskId s \<noteq> [] \<Longrightarrow>
   parseSmartQueueRetryRecordPayload (Some (jsonStringify (encodeRetrySamePayload s))) = Some (SameRecord s)"
  "rsp_previousDecisionId m \<noteq> [] \<Longrightarrow> rsp_taskId m \<noteq> [] \<Longrightarrow> \<not> js_blank (rmp_modifiedPrompt m) \<Longrightarrow>
   parseSmartQueueRetryRecordPayload (Some (jsonStringify (encodeRetryModifiedPromptPayload m)))
     = Some (ModifiedRecord m)"
  by (simp_all add: parseSmartQueueRetryRecordPayload_def)

end
