(* ===== verification/Retry.thy ===== *)
theory Retry
  imports Report_Payloads
begin

text \<open>
  What happens when a run of a queue task fails, and how it is retried: the failure integration of
  \<open>workbench/queue/smartQueueWorkerReportIntegration.ts\<close>, the failed task of
  \<open>useAgentQueueAutonomousRunner.ts\<close>, and the retry actions of \<open>smartQueueRetrySameAction.ts\<close>. Both
  leave a worker report whose text is read back later, to offer a retry and to list the attempts. The
  time of an event, \<open>new Date().toISOString()\<close> by default, is an argument.
\<close>

section \<open>Classifying a failure\<close>

definition wordChar :: "char \<Rightarrow> bool" where
  "wordChar c \<longleftrightarrow> (let n = of_char c in (97 :: nat) \<le> n \<and> n \<le> 122 \<or> 65 \<le> n \<and> n \<le> 90
     \<or> 48 \<le> n \<and> n \<le> 57 \<or> n = 95)"

text \<open>\<open>/\b(w1|w2|...)\b/.test(text)\<close> for words that start and end with word characters.\<close>

fun hasWordAfter :: "bool \<Rightarrow> string list \<Rightarrow> string \<Rightarrow> bool" where
  "hasWordAfter inWord ws [] \<longleftrightarrow> False"
| "hasWordAfter inWord ws (c # cs) \<longleftrightarrow>
     (\<not> inWord \<and> list_ex (\<lambda>w. take (length w) (c # cs) = w
        \<and> (case drop (length w) (c # cs) of [] \<Rightarrow> True | d # _ \<Rightarrow> \<not> wordChar d)) ws)
     \<or> hasWordAfter (wordChar c) ws cs"

definition hasWord :: "string list \<Rightarrow> string \<Rightarrow> bool" where
  "hasWord ws s = hasWordAfter False ws s"

definition classifySmartQueueFailure :: "string \<Rightarrow> string option \<Rightarrow> FailureKind" where
  "classifySmartQueueFailure reason finalStatus =
     (let s = js_lower (js_default [] finalStatus @ '' '' @ reason)
      in if hasWord [''validation''] s \<and> hasWord [''failed'', ''failure'', ''error''] s
         then FkValidationFailure
         else if hasWord [''missing'', ''not configured'', ''required''] s
                 \<and> hasWord [''config'', ''configuration'', ''setting'', ''workspace'', ''repo'', ''repository'',
                      ''codex'', ''sandbox'', ''approval''] s
         then FkMissingConfig
         else if hasWord [''dirty''] s \<or> hasWord [''worktree'', ''working tree''] s then FkDirtyWorktree
         else if hasWord [''timed_out'', ''timeout'', ''timed out''] s then FkTimeout
         else if hasWord [''tool'', ''command'', ''executable'', ''codex'', ''spawn'', ''failed_to_start'',
                ''not found''] s
         then FkToolFailure
         else if hasWord [''failed'', ''failure'', ''error'', ''cancelled'', ''canceled''] s
         then FkExecutionFailure
         else FkUnknown)"

text \<open>\<open>value.trim().replace(/[^a-z0-9_.:-]+/gi, "-") || "unknown"\<close>.\<close>

definition sanitizeIdPart :: "string \<Rightarrow> string" where
  "sanitizeIdPart value =
     js_or_str (js_collapse_runs (\<lambda>c. \<not> (wordChar c \<or> c = CHR ''.'' \<or> c = CHR '':'' \<or> c = CHR ''-''))
       (CHR ''-'') (js_trim value)) ''unknown''"

definition productReasonForFailure :: "FailureKind \<Rightarrow> string \<Rightarrow> string" where
  "productReasonForFailure failureKind reason =
     (case failureKind of
        FkValidationFailure \<Rightarrow> ''validation failed''
      | FkExecutionFailure \<Rightarrow> ''exec failure''
      | FkMissingConfig \<Rightarrow> ''missing config''
      | FkDirtyWorktree \<Rightarrow> ''dirty workspace''
      | FkTimeout \<Rightarrow> ''timeout''
      | FkToolFailure \<Rightarrow> ''tool failure''
      | FkUnknown \<Rightarrow> js_or_str (js_trim reason) ''needs human input''
      | FkMissingContext \<Rightarrow> js_or_str (js_trim reason) ''missing context''
      | FkDependencyFailed \<Rightarrow> ''dependency failed''
      | FkDependencyBlocked \<Rightarrow> ''dependency blocked'')"

definition queueDetailForDecision :: "SmartQueueCoordinatorDecision \<Rightarrow> string" where
  "queueDetailForDecision d =
     (if rp_canRetry (dec_retryPolicy d)
      then ''Retry available: '' @ jsonInt (rp_retryCount (dec_retryPolicy d)) @ ''/''
             @ jsonInt (rp_maxRetries (dec_retryPolicy d)) @ '' used.''
      else if 0 < rp_maxRetries (dec_retryPolicy d)
      then js_default ''Retry limit reached'' (rp_exhaustedReason (dec_retryPolicy d))
      else dec_shortReason d)"

definition coordinatorStatusForDecision :: "SmartQueueCoordinatorDecision \<Rightarrow> string" where
  "coordinatorStatusForDecision d =
     (if dhs_status (dec_humanStatus d) = HsBlocked then ''blocked''
      else if dhs_status (dec_humanStatus d) = HsFailed then ''failed''
      else ''awaiting_coordinator_review'')"

definition validationStatusForDecision :: "SmartQueueCoordinatorDecision \<Rightarrow> string" where
  "validationStatusForDecision d =
     (if dec_failureKind d = FkValidationFailure then ''failed'' else ''needs_review'')"

definition statusForFailure :: "string \<Rightarrow> string" where
  "statusForFailure status = (if status = ''running'' \<or> status = ''completed'' then ''review_needed'' else status)"

definition taskReports :: "AgentQueueTask \<Rightarrow> AgentQueueWorkerExecutionReport list" where
  "taskReports task = js_default [] (task_workerExecutionReports task)"

definition countPriorSmartQueueFailures :: "AgentQueueTask \<Rightarrow> nat" where
  "countPriorSmartQueueFailures task =
     length (filter (\<lambda>r. parseSmartQueueWorkerFailurePayload (report_rawReportPreview r) \<noteq> None) (taskReports task))"

definition workerIdForTask :: "AgentQueueTask \<Rightarrow> string" where
  "workerIdForTask task =
     js_default ''agent-queue'' (js_coalesce (task_assignedWorkerId task) (task_assignedExecutorWidgetId task))"

text \<open>The loop from the last report back: a retry record ends it.\<close>

fun latestFailureFrom :: "AgentQueueWorkerExecutionReport list \<Rightarrow> SmartQueueWorkerFailurePayload option" where
  "latestFailureFrom [] = None"
| "latestFailureFrom (r # rs) =
     (if parseSmartQueueRetryRecordPayload (report_rawReportPreview r) \<noteq> None then None
      else (case parseSmartQueueWorkerFailurePayload (report_rawReportPreview r) of
          Some payload \<Rightarrow> Some payload
        | None \<Rightarrow> latestFailureFrom rs))"

definition latestSmartQueueFailurePayloadForTask :: "AgentQueueTask \<Rightarrow> SmartQueueWorkerFailurePayload option" where
  "latestSmartQueueFailurePayloadForTask task = latestFailureFrom (rev (taskReports task))"

section \<open>Recording a failure\<close>

record SmartQueueFailureIntegrationInput =
  sfi_attemptId :: "string option"
  sfi_changedFiles :: "string list option"
  sfi_createdAt :: string
  sfi_evidenceSummary :: "string option"
  sfi_failureKind :: "FailureKind option"
  sfi_finalStatus :: "string option"
  sfi_maxRetries :: "int option"
  sfi_reason :: string
  sfi_retryCount :: "int option"
  sfi_runId :: "string option"
  sfi_stage :: "WorkerReportStage option"
  sfi_task :: AgentQueueTask
  sfi_workerId :: "string option"

record SmartQueueFailureTaskPatch =
  patch_coordinatorStatus :: string
  patch_status :: string
  patch_validationStatus :: string
  patch_workerExecutionReport :: AgentQueueWorkerExecutionReport

definition smartQueueAttemptId :: "FailureKind \<Rightarrow> string option \<Rightarrow> string \<Rightarrow> string" where
  "smartQueueAttemptId failureKind runId taskId =
     js_join '':'' [''smart-attempt'', sanitizeIdPart taskId,
       sanitizeIdPart (js_default (failureKindName failureKind) runId)]"

definition workerExecutionReportForSmartQueueFailure ::
    "SmartQueueFailureIntegrationInput \<Rightarrow> SmartQueueWorkerFailurePayload \<Rightarrow> AgentQueueWorkerExecutionReport" where
  "workerExecutionReportForSmartQueueFailure input payload =
     \<lparr>report_reportId =
        (if js_has_text (sfi_runId input) then ''smart_queue_failure_'' @ js_trim (js_default [] (sfi_runId input))
         else ''smart_queue_failure_'' @ att_attemptId (fp_attempt payload)),
      report_itemId = task_queueItemId (sfi_task input),
      report_workerId = js_or_str (js_trim (js_default [] (sfi_workerId input))) (workerIdForTask (sfi_task input)),
      report_createdAt = sfi_createdAt input,
      report_reportStatus =
        (if dec_failureKind (fp_coordinatorDecision payload) = FkTimeout then ''interrupted'' else ''failed''),
      report_summary = fp_queueStatus payload,
      report_changedFiles = js_default [] (sfi_changedFiles input), report_commandsRun = [],
      report_validationCommandsSuggested = [], report_validationCommandsRun = Some [],
      report_validationResult =
        Some (if dec_failureKind (fp_coordinatorDecision payload) = FkValidationFailure then ''failed''
              else ''not_run''),
      report_commitHash = None, report_warnings = [fp_queueDetail payload],
      report_errors = [wr_shortReason (fp_workerReport payload)],
      report_rawReportPreview = Some (jsonStringify (encodeFailurePayload payload))\<rparr>"

definition failureKindOf :: "SmartQueueFailureIntegrationInput \<Rightarrow> FailureKind" where
  "failureKindOf input =
     js_default (classifySmartQueueFailure (sfi_reason input) (sfi_finalStatus input)) (sfi_failureKind input)"

definition failedAttemptFor :: "SmartQueueFailureIntegrationInput \<Rightarrow> SmartQueueAttempt" where
  "failedAttemptFor input =
     (let failureKind = failureKindOf input;
          attemptId = js_default
            (smartQueueAttemptId failureKind (sfi_runId input) (task_queueItemId (sfi_task input)))
            (sfi_attemptId input);
          summary = js_default (sfi_reason input) (sfi_evidenceSummary input);
          startedAttempt = startAttempt
            (createInitialAttempt \<lparr>aci_attemptId = attemptId, aci_taskId = task_queueItemId (sfi_task input),
              aci_attemptNumber = None, aci_coordinatorDecisionId = None\<rparr>)
            \<lparr>asi_startedAt = sfi_createdAt input,
             asi_workerId = Some (js_default (workerIdForTask (sfi_task input)) (sfi_workerId input)),
             asi_baseRevision = None, asi_changedFiles = sfi_changedFiles input,
             asi_coordinatorDecisionId = None\<rparr>
      in finishAttemptFailure startedAttempt
          \<lparr>afi_finishedAt = sfi_createdAt input, afi_changedFiles = sfi_changedFiles input,
           afi_validationResult =
             (if failureKind = FkValidationFailure
              then Some \<lparr>avr_status = AvFailed, avr_summary = Some summary, avr_evidence = Some [sfi_reason input]\<rparr>
              else None),
           afi_result = Some \<lparr>ares_summary = Some summary, ares_evidence = Some [sfi_reason input]\<rparr>,
           afi_coordinatorDecisionId = None, afi_failureKind = failureKind,
           afi_shortReason = productReasonForFailure failureKind (sfi_reason input)\<rparr>)"

text \<open>\<open>None\<close> is the \<open>throw\<close> for an attempt that did not fail; \<open>failureIntegration_returns\<close> excludes it.\<close>

definition buildSmartQueueWorkerFailureIntegration ::
    "SmartQueueFailureIntegrationInput \<Rightarrow> (SmartQueueWorkerFailurePayload \<times> SmartQueueFailureTaskPatch) option" where
  "buildSmartQueueWorkerFailureIntegration input =
     (let failedAttempt = failedAttemptFor input
      in case createWorkerReportFromAttemptFailure failedAttempt
            (Some (js_default (sfi_reason input) (sfi_evidenceSummary input))) (sfi_stage input) of
           None \<Rightarrow> None
         | Some workerReport \<Rightarrow>
             (let coordinatorDecision = decideSmartQueueCoordinatorAction
                \<lparr>sdi_report = workerReport,
                 sdi_retryCount =
                   Some (js_default (int (countPriorSmartQueueFailures (sfi_task input))) (sfi_retryCount input)),
                 sdi_maxRetries = Some (js_default 1 (sfi_maxRetries input)), sdi_decisionId = None,
                 sdi_preferWorkspaceAgentAssistance = None\<rparr>;
                payload =
                  \<lparr>fp_attempt =
                     attachCoordinatorDecisionToAttempt failedAttempt (dec_decisionId coordinatorDecision),
                   fp_coordinatorDecision = coordinatorDecision,
                   fp_queueDetail = queueDetailForDecision coordinatorDecision,
                   fp_queueStatus = dec_productLabel coordinatorDecision, fp_workerReport = workerReport\<rparr>
              in Some (payload,
                \<lparr>patch_coordinatorStatus = coordinatorStatusForDecision coordinatorDecision,
                 patch_status = statusForFailure (task_status (sfi_task input)),
                 patch_validationStatus = validationStatusForDecision coordinatorDecision,
                 patch_workerExecutionReport = workerExecutionReportForSmartQueueFailure input payload\<rparr>)))"

text \<open>The task the runner keeps after a failure.\<close>

definition failedTask :: "AgentQueueTask \<Rightarrow> SmartQueueFailureTaskPatch \<Rightarrow> AgentQueueTask" where
  "failedTask task patch =
     task\<lparr>task_coordinatorStatus := Some (patch_coordinatorStatus patch),
          task_status := patch_status patch,
          task_validationStatus := Some (patch_validationStatus patch),
          task_workerExecutionReports := Some (taskReports task @ [patch_workerExecutionReport patch])\<rparr>"

section \<open>Retrying\<close>

definition canApplySmartQueueRetrySame :: "SmartQueueCoordinatorDecision option \<Rightarrow> bool" where
  "canApplySmartQueueRetrySame d =
     (case d of None \<Rightarrow> False
      | Some d \<Rightarrow> DaRetrySame \<in> set (dec_availableActions d) \<and> rp_canRetry (dec_retryPolicy d)
          \<and> \<not> dec_destructive d)"

definition canApplySmartQueueRetryWithModifiedPrompt :: "SmartQueueCoordinatorDecision option \<Rightarrow> bool" where
  "canApplySmartQueueRetryWithModifiedPrompt d =
     (case d of None \<Rightarrow> False
      | Some d \<Rightarrow> DaRetryWithModifiedPrompt \<in> set (dec_availableActions d) \<and> rp_canRetry (dec_retryPolicy d)
          \<and> \<not> dec_destructive d)"

definition retryUnavailableReason :: "SmartQueueWorkerFailurePayload \<Rightarrow> string" where
  "retryUnavailableReason payload =
     (let d = fp_coordinatorDecision payload
      in if \<not> rp_canRetry (dec_retryPolicy d)
         then js_default ''Retry limit reached.'' (rp_exhaustedReason (dec_retryPolicy d))
         else if dec_destructive d then ''Coordinator proposal is destructive.''
         else ''Coordinator decision does not allow Retry.'')"

text \<open>The failure payload of one report alone: an empty text counts as no report.\<close>

definition latestFailurePayloadFromSingleReport :: "string option \<Rightarrow> SmartQueueWorkerFailurePayload option" where
  "latestFailurePayloadFromSingleReport raw =
     (if js_truthy_str raw
      then (if parseSmartQueueRetryRecordPayload raw \<noteq> None then None
            else parseSmartQueueWorkerFailurePayload raw)
      else None)"

fun retryRecordTaskId :: "RetryRecordPayload \<Rightarrow> string" where
  "retryRecordTaskId (SameRecord p) = rsp_taskId p"
| "retryRecordTaskId (ModifiedRecord p) = rsp_taskId p"

fun retryRecordAttempt :: "RetryRecordPayload \<Rightarrow> SmartQueueAttempt" where
  "retryRecordAttempt (SameRecord p) = rsp_retryAttempt p"
| "retryRecordAttempt (ModifiedRecord p) = rsp_retryAttempt p"

definition failedAttemptOfReport :: "string \<Rightarrow> string option \<Rightarrow> SmartQueueAttempt list" where
  "failedAttemptOfReport taskId raw =
     (case latestFailurePayloadFromSingleReport raw of
        Some f \<Rightarrow> if att_taskId (fp_attempt f) = taskId then [fp_attempt f] else []
      | None \<Rightarrow> [])"

definition attemptsOfReport :: "string \<Rightarrow> AgentQueueWorkerExecutionReport \<Rightarrow> SmartQueueAttempt list" where
  "attemptsOfReport taskId r =
     (case parseSmartQueueRetryRecordPayload (report_rawReportPreview r) of
        Some p \<Rightarrow>
          if retryRecordTaskId p = taskId then [retryRecordAttempt p]
          else failedAttemptOfReport taskId (report_rawReportPreview r)
      | None \<Rightarrow> failedAttemptOfReport taskId (report_rawReportPreview r))"

definition smartQueueAttemptHistoryForTask :: "AgentQueueTask \<Rightarrow> SmartQueueAttemptHistory" where
  "smartQueueAttemptHistoryForTask task =
     \<lparr>hist_taskId = task_queueItemId task,
      hist_attempts = concat (map (attemptsOfReport (task_queueItemId task)) (taskReports task))\<rparr>"

definition smartQueueRetryAttemptId :: "string \<Rightarrow> SmartQueueAttemptHistory \<Rightarrow> string \<Rightarrow> string" where
  "smartQueueRetryAttemptId acceptedAt history taskId =
     js_join '':'' [''smart-retry'', sanitizeIdPart taskId,
       jsonInt (nextAttemptNumber (hist_attempts history)), sanitizeIdPart acceptedAt]"

text \<open>The two retry reports differ in the text they carry, their id and their messages.\<close>

definition retryReport ::
    "string \<Rightarrow> string \<Rightarrow> string \<Rightarrow> string \<Rightarrow> string \<Rightarrow> AgentQueueTask \<Rightarrow> AgentQueueWorkerExecutionReport" where
  "retryReport acceptedAt reportId summary warning raw task =
     \<lparr>report_reportId = reportId, report_itemId = task_queueItemId task,
      report_workerId = workerIdForTask task, report_createdAt = acceptedAt,
      report_reportStatus = ''reported'', report_summary = summary, report_changedFiles = [],
      report_commandsRun = [], report_validationCommandsSuggested = [],
      report_validationCommandsRun = Some [], report_validationResult = Some ''not_run'',
      report_commitHash = None, report_warnings = [warning], report_errors = [],
      report_rawReportPreview = Some raw\<rparr>"

definition retrySameWorkerReport ::
    "string \<Rightarrow> SmartQueueRetrySamePayload \<Rightarrow> AgentQueueTask \<Rightarrow> AgentQueueWorkerExecutionReport" where
  "retrySameWorkerReport acceptedAt payload task =
     retryReport acceptedAt
       (''smart_queue_retry_same_'' @ sanitizeIdPart (att_attemptId (rsp_retryAttempt payload)))
       ''Retry queued''
       ''Task returned to Ready. Queue Active/Pause, dependency, blocker, and worker gates still control execution.''
       (jsonStringify (encodeRetrySamePayload payload)) task"

definition retryModifiedPromptWorkerReport ::
    "string \<Rightarrow> SmartQueueRetryModifiedPromptPayload \<Rightarrow> AgentQueueTask \<Rightarrow> AgentQueueWorkerExecutionReport" where
  "retryModifiedPromptWorkerReport acceptedAt payload task =
     retryReport acceptedAt
       (''smart_queue_retry_modified_prompt_'' @ sanitizeIdPart (att_attemptId (rsp_retryAttempt payload)))
       ''Retry with changes queued''
       ''Task returned to Ready with the modified prompt. Queue Active/Pause, dependency, blocker, and worker gates still control execution.''
       (jsonStringify (encodeRetryModifiedPromptPayload payload)) task"

datatype SmartQueueRetryResult =
  CannotRetry (retry_reason: string) (retry_task: AgentQueueTask)
| RetryQueued (retry_report: AgentQueueWorkerExecutionReport) (retry_attempt: SmartQueueAttempt)
    (retry_task: AgentQueueTask)

definition applySmartQueueRetrySameActionToTask ::
    "(string \<Rightarrow> string \<Rightarrow> int) \<Rightarrow> string \<Rightarrow> string option \<Rightarrow> AgentQueueTask \<Rightarrow> SmartQueueRetryResult" where
  "applySmartQueueRetrySameActionToTask lc acceptedAt attemptId task =
     (case latestSmartQueueFailurePayloadForTask task of
        None \<Rightarrow> CannotRetry ''Smart Queue decision payload is unavailable.'' task
      | Some failurePayload \<Rightarrow>
          if \<not> canApplySmartQueueRetrySame (Some (fp_coordinatorDecision failurePayload))
          then CannotRetry (retryUnavailableReason failurePayload) task
          else
            (let history = smartQueueAttemptHistoryForTask task;
                 nextAttemptId =
                   js_default (smartQueueRetryAttemptId acceptedAt history (task_queueItemId task)) attemptId;
                 nextHistory = appendAttempt history
                   \<lparr>aai_attemptId = nextAttemptId,
                    aai_coordinatorDecisionId = Some (dec_decisionId (fp_coordinatorDecision failurePayload)),
                    aai_promptOverride = None, aai_retrySource = Some RetrySame\<rparr>
             in case selectCurrentAttempt lc nextHistory of
                  None \<Rightarrow> CannotRetry ''Retry attempt could not be prepared.'' task
                | Some retryAttempt \<Rightarrow>
                    if att_attemptId retryAttempt \<noteq> nextAttemptId
                    then CannotRetry ''Retry attempt could not be prepared.'' task
                    else
                      (let payload =
                         \<lparr>rsp_acceptedAt = acceptedAt,
                          rsp_previousAttemptId = Some (att_attemptId (fp_attempt failurePayload)),
                          rsp_previousDecisionId = dec_decisionId (fp_coordinatorDecision failurePayload),
                          rsp_retryAttempt = retryAttempt, rsp_taskId = task_queueItemId task\<rparr>;
                         report = retrySameWorkerReport acceptedAt payload task
                       in RetryQueued report retryAttempt
                            (task\<lparr>task_coordinatorStatus := Some ''not_reported'', task_status := ''ready'',
                                  task_validationStatus := Some ''not_started'',
                                  task_workerExecutionReports := Some (taskReports task @ [report])\<rparr>))))"

definition applySmartQueueRetryWithModifiedPromptActionToTask ::
    "(string \<Rightarrow> string \<Rightarrow> int) \<Rightarrow> string \<Rightarrow> string option \<Rightarrow> string \<Rightarrow> AgentQueueTask \<Rightarrow> SmartQueueRetryResult" where
  "applySmartQueueRetryWithModifiedPromptActionToTask lc acceptedAt attemptId modifiedPrompt task =
     (let cleanModifiedPrompt = js_trim modifiedPrompt
      in if cleanModifiedPrompt = []
         then CannotRetry ''Enter a modified prompt before queueing retry.'' task
         else (case latestSmartQueueFailurePayloadForTask task of
           None \<Rightarrow> CannotRetry ''Smart Queue decision payload is unavailable.'' task
         | Some failurePayload \<Rightarrow>
             if \<not> canApplySmartQueueRetryWithModifiedPrompt (Some (fp_coordinatorDecision failurePayload))
             then CannotRetry (retryUnavailableReason failurePayload) task
             else
               (let history = smartQueueAttemptHistoryForTask task;
                    nextAttemptId =
                      js_default (smartQueueRetryAttemptId acceptedAt history (task_queueItemId task)) attemptId;
                    nextHistory = appendAttempt history
                      \<lparr>aai_attemptId = nextAttemptId,
                       aai_coordinatorDecisionId = Some (dec_decisionId (fp_coordinatorDecision failurePayload)),
                       aai_promptOverride = Some \<lparr>po_originalPrompt = task_prompt task,
                         po_modifiedPrompt = cleanModifiedPrompt\<rparr>,
                       aai_retrySource = Some RetryWithModifiedPrompt\<rparr>
                in case selectCurrentAttempt lc nextHistory of
                     None \<Rightarrow> CannotRetry ''Retry attempt could not be prepared.'' task
                   | Some retryAttempt \<Rightarrow>
                       if att_attemptId retryAttempt \<noteq> nextAttemptId
                       then CannotRetry ''Retry attempt could not be prepared.'' task
                       else
                         (let payload =
                            \<lparr>rsp_acceptedAt = acceptedAt,
                             rsp_previousAttemptId = Some (att_attemptId (fp_attempt failurePayload)),
                             rsp_previousDecisionId = dec_decisionId (fp_coordinatorDecision failurePayload),
                             rsp_retryAttempt = retryAttempt, rsp_taskId = task_queueItemId task,
                             rmp_modifiedPrompt = cleanModifiedPrompt, rmp_originalPrompt = task_prompt task\<rparr>;
                            report = retryModifiedPromptWorkerReport acceptedAt payload task
                          in RetryQueued report retryAttempt
                               (task\<lparr>task_coordinatorStatus := Some ''not_reported'',
                                     task_prompt := cleanModifiedPrompt, task_status := ''ready'',
                                     task_validationStatus := Some ''not_started'',
                                     task_workerExecutionReports := Some (taskReports task @ [report])\<rparr>)))))"

section \<open>Facts about recorded failures\<close>

lemma failedAttemptFor_facts:
  "att_status (failedAttemptFor input) = AsFailed"
  "att_failureKind (failedAttemptFor input) = Some (failureKindOf input)"
  "att_taskId (failedAttemptFor input) = task_queueItemId (sfi_task input)"
  "att_attemptNumber (failedAttemptFor input) = 1"
  by (simp_all add: failedAttemptFor_def Let_def startAttempt_def createInitialAttempt_def
      finishAttemptFailure_def isTerminalAttempt_def)

text \<open>The report the integration makes of the failed attempt, and the decision about it.\<close>

definition failureReportOf :: "SmartQueueFailureIntegrationInput \<Rightarrow> SmartQueueWorkerReport" where
  "failureReportOf input = the (createWorkerReportFromAttemptFailure (failedAttemptFor input)
     (Some (js_default (sfi_reason input) (sfi_evidenceSummary input))) (sfi_stage input))"

definition failureDecisionOf :: "SmartQueueFailureIntegrationInput \<Rightarrow> SmartQueueCoordinatorDecision" where
  "failureDecisionOf input = decideSmartQueueCoordinatorAction
     \<lparr>sdi_report = failureReportOf input,
      sdi_retryCount =
        Some (js_default (int (countPriorSmartQueueFailures (sfi_task input))) (sfi_retryCount input)),
      sdi_maxRetries = Some (js_default 1 (sfi_maxRetries input)), sdi_decisionId = None,
      sdi_preferWorkspaceAgentAssistance = None\<rparr>"

lemma createWorkerReport_failed:
  "createWorkerReportFromAttemptFailure (failedAttemptFor input)
     (Some (js_default (sfi_reason input) (sfi_evidenceSummary input))) (sfi_stage input)
   = Some (failureReportOf input)"
  by (simp add: failureReportOf_def createWorkerReportFromAttemptFailure_def failedAttemptFor_facts Let_def)

lemma failureReportOf_facts [simp]:
  "wr_failureKind (failureReportOf input) = failureKindOf input"
  "wr_suggestedActions (failureReportOf input) = None"
  by (simp_all add: failureReportOf_def createWorkerReportFromAttemptFailure_def failedAttemptFor_facts Let_def)

lemma failureIntegration_returns:
  "\<exists>payload patch. buildSmartQueueWorkerFailureIntegration input = Some (payload, patch)"
  by (simp add: buildSmartQueueWorkerFailureIntegration_def createWorkerReport_failed Let_def)

lemma failureIntegration_parts:
  assumes "buildSmartQueueWorkerFailureIntegration input = Some (payload, patch)"
  shows "fp_coordinatorDecision payload = failureDecisionOf input"
    and "report_rawReportPreview (patch_workerExecutionReport patch)
         = Some (jsonStringify (encodeFailurePayload payload))"
    and "patch_coordinatorStatus patch = coordinatorStatusForDecision (failureDecisionOf input)"
    and "patch_status patch = statusForFailure (task_status (sfi_task input))"
    and "fp_attempt payload
         = attachCoordinatorDecisionToAttempt (failedAttemptFor input) (dec_decisionId (failureDecisionOf input))"
  using assms
  by (auto simp: buildSmartQueueWorkerFailureIntegration_def createWorkerReport_failed Let_def
      failureDecisionOf_def workerExecutionReportForSmartQueueFailure_def)

lemma taskReports_failedTask [simp]:
  "taskReports (failedTask task patch) = taskReports task @ [patch_workerExecutionReport patch]"
  by (simp add: taskReports_def failedTask_def)

lemma latest_failedTask:
  assumes "buildSmartQueueWorkerFailureIntegration input = Some (payload, patch)"
  shows "latestSmartQueueFailurePayloadForTask (failedTask task patch) = Some payload"
  by (simp add: latestSmartQueueFailurePayloadForTask_def failureIntegration_parts [OF assms])

lemma countPrior_failedTask:
  assumes "buildSmartQueueWorkerFailureIntegration input = Some (payload, patch)"
  shows "countPriorSmartQueueFailures (failedTask task patch) = Suc (countPriorSmartQueueFailures task)"
  by (simp add: countPriorSmartQueueFailures_def failureIntegration_parts [OF assms])

lemma jsonStringify_object_truthy: "js_truthy_str (Some (jsonStringify (encodeFailurePayload p)))"
  by (simp add: encodeFailurePayload_def)

lemma history_failedTask:
  assumes "buildSmartQueueWorkerFailureIntegration input = Some (payload, patch)"
    and "task_queueItemId task = task_queueItemId (sfi_task input)"
  shows "hist_attempts (smartQueueAttemptHistoryForTask (failedTask task patch))
       = hist_attempts (smartQueueAttemptHistoryForTask task) @ [fp_attempt payload]"
  using assms(2) jsonStringify_object_truthy [of payload]
  by (simp add: smartQueueAttemptHistoryForTask_def attemptsOfReport_def failedAttemptOfReport_def
      latestFailurePayloadFromSingleReport_def failureIntegration_parts [OF assms(1)]
      failedAttemptFor_facts attachCoordinatorDecisionToAttempt_def del: js_truthy_str_simps)
     (simp add: failedTask_def)

lemma failureDecisionOf_facts [simp]:
  "dec_failureKind (failureDecisionOf input) = failureKindOf input"
  "\<not> dec_destructive (failureDecisionOf input)"
  by (simp_all add: failureDecisionOf_def)

lemma failureDecisionOf_id [simp]: "dec_decisionId (failureDecisionOf input) \<noteq> []"
  by (cases "failureKindOf input") (simp_all add: failureDecisionOf_def decision_defs Let_def)

lemma failureDecisionOf_canRetry:
  "rp_canRetry (dec_retryPolicy (failureDecisionOf input)) \<longleftrightarrow>
     max 0 (js_default (int (countPriorSmartQueueFailures (sfi_task input))) (sfi_retryCount input))
       < js_default 1 (sfi_maxRetries input)"
  by (simp add: failureDecisionOf_def canRetry_iff)

lemma failureDecisionOf_offersRetry:
  "DaRetrySame \<in> set (dec_availableActions (failureDecisionOf input)) \<longleftrightarrow>
     failureKindOf input \<in> {FkTimeout, FkToolFailure} \<and> rp_canRetry (dec_retryPolicy (failureDecisionOf input))"
  by (cases "failureKindOf input") (simp_all add: failureDecisionOf_def decision_defs suggestedRollbackAction_def Let_def)

section \<open>Facts about retries\<close>

definition retryAppendInput ::
    "string \<Rightarrow> string option \<Rightarrow> AgentQueueTask \<Rightarrow> SmartQueueWorkerFailurePayload \<Rightarrow> AttemptAppendInput" where
  "retryAppendInput acceptedAt attemptId task f =
     \<lparr>aai_attemptId = js_default (smartQueueRetryAttemptId acceptedAt (smartQueueAttemptHistoryForTask task)
        (task_queueItemId task)) attemptId,
      aai_coordinatorDecisionId = Some (dec_decisionId (fp_coordinatorDecision f)),
      aai_promptOverride = None, aai_retrySource = Some RetrySame\<rparr>"

definition retryAttemptOf ::
    "string \<Rightarrow> string option \<Rightarrow> AgentQueueTask \<Rightarrow> SmartQueueWorkerFailurePayload \<Rightarrow> SmartQueueAttempt" where
  "retryAttemptOf acceptedAt attemptId task f =
     last (hist_attempts (appendAttempt (smartQueueAttemptHistoryForTask task)
       (retryAppendInput acceptedAt attemptId task f)))"

definition retryPayloadOf ::
    "string \<Rightarrow> string option \<Rightarrow> AgentQueueTask \<Rightarrow> SmartQueueWorkerFailurePayload \<Rightarrow> SmartQueueRetrySamePayload" where
  "retryPayloadOf acceptedAt attemptId task f =
     \<lparr>rsp_acceptedAt = acceptedAt, rsp_previousAttemptId = Some (att_attemptId (fp_attempt f)),
      rsp_previousDecisionId = dec_decisionId (fp_coordinatorDecision f),
      rsp_retryAttempt = retryAttemptOf acceptedAt attemptId task f, rsp_taskId = task_queueItemId task\<rparr>"

definition retriedTask ::
    "string \<Rightarrow> string option \<Rightarrow> AgentQueueTask \<Rightarrow> SmartQueueWorkerFailurePayload \<Rightarrow> AgentQueueTask" where
  "retriedTask acceptedAt attemptId task f =
     task\<lparr>task_coordinatorStatus := Some ''not_reported'', task_status := ''ready'',
       task_validationStatus := Some ''not_started'',
       task_workerExecutionReports := Some (taskReports task @
         [retrySameWorkerReport acceptedAt (retryPayloadOf acceptedAt attemptId task f) task])\<rparr>"

text \<open>The branches that give up after the attempt was appended are never taken.\<close>

lemma applyRetrySame_cases:
  assumes "js_comparator (localeCompare lc)"
  shows "applySmartQueueRetrySameActionToTask lc acceptedAt attemptId task =
     (case latestSmartQueueFailurePayloadForTask task of
        None \<Rightarrow> CannotRetry ''Smart Queue decision payload is unavailable.'' task
      | Some f \<Rightarrow>
          if \<not> canApplySmartQueueRetrySame (Some (fp_coordinatorDecision f))
          then CannotRetry (retryUnavailableReason f) task
          else RetryQueued
            (retrySameWorkerReport acceptedAt (retryPayloadOf acceptedAt attemptId task f) task)
            (retryAttemptOf acceptedAt attemptId task f) (retriedTask acceptedAt attemptId task f))"
proof (cases "latestSmartQueueFailurePayloadForTask task")
  case None
  then show ?thesis by (simp add: applySmartQueueRetrySameActionToTask_def)
next
  case (Some f)
  have sel: "selectCurrentAttempt lc (appendAttempt (smartQueueAttemptHistoryForTask task)
      (retryAppendInput acceptedAt attemptId task f)) = Some (retryAttemptOf acceptedAt attemptId task f)"
    unfolding retryAttemptOf_def by (rule selectCurrentAttempt_append [OF assms])
  have id: "att_attemptId (retryAttemptOf acceptedAt attemptId task f)
      = js_default (smartQueueRetryAttemptId acceptedAt (smartQueueAttemptHistoryForTask task)
          (task_queueItemId task)) attemptId"
    by (simp only: retryAttemptOf_def appendAttempt_last(2) retryAppendInput_def AttemptAppendInput.simps)
  show ?thesis
    by (simp only: applySmartQueueRetrySameActionToTask_def Some option.case Let_def id
        sel [unfolded retryAppendInput_def] retryPayloadOf_def retriedTask_def simp_thms if_False)
qed

lemma retrySame_raw [simp]:
  "report_rawReportPreview (retrySameWorkerReport acceptedAt p task)
   = Some (jsonStringify (encodeRetrySamePayload p))"
  by (simp add: retrySameWorkerReport_def retryReport_def)

lemma taskReports_retried [simp]:
  "taskReports (retriedTask t aid task f) =
     taskReports task @ [retrySameWorkerReport t (retryPayloadOf t aid task f) task]"
  by (simp add: taskReports_def retriedTask_def)

lemma latest_retried:
  assumes "task_queueItemId task \<noteq> []" and "dec_decisionId (fp_coordinatorDecision f) \<noteq> []"
  shows "latestSmartQueueFailurePayloadForTask (retriedTask t aid task f) = None"
  using assms by (simp add: latestSmartQueueFailurePayloadForTask_def retryPayloadOf_def)

lemma attemptsOfReport_retrySame:
  assumes "rsp_previousDecisionId p \<noteq> []" and "rsp_taskId p = taskId" and "taskId \<noteq> []"
  shows "attemptsOfReport taskId (retrySameWorkerReport t p task) = [rsp_retryAttempt p]"
  using assms by (simp add: attemptsOfReport_def)

lemma history_retried:
  assumes "task_queueItemId task \<noteq> []" and "dec_decisionId (fp_coordinatorDecision f) \<noteq> []"
  shows "smartQueueAttemptHistoryForTask (retriedTask t aid task f) =
     appendAttempt (smartQueueAttemptHistoryForTask task) (retryAppendInput t aid task f)"
proof -
  let ?h = "appendAttempt (smartQueueAttemptHistoryForTask task) (retryAppendInput t aid task f)"
  have "task_queueItemId (retriedTask t aid task f) = task_queueItemId task" by (simp add: retriedTask_def)
  then have "hist_attempts (smartQueueAttemptHistoryForTask (retriedTask t aid task f))
      = hist_attempts (smartQueueAttemptHistoryForTask task) @ [retryAttemptOf t aid task f]"
    using assms attemptsOfReport_retrySame [of "retryPayloadOf t aid task f" "task_queueItemId task" t task]
    by (simp add: smartQueueAttemptHistoryForTask_def retryPayloadOf_def)
  also have "\<dots> = hist_attempts ?h"
    unfolding retryAttemptOf_def by (rule appendAttempt_last(1) [symmetric])
  finally show ?thesis
    by (simp add: smartQueueAttemptHistoryForTask_def retriedTask_def appendAttempt_def Let_def)
qed

section \<open>Properties\<close>

definition exampleQueueTask :: AgentQueueTask where
  "exampleQueueTask = \<lparr>task_queueItemId = ''t'', task_workspaceId = ''w'', task_title = ''T'',
     task_description = [], task_prompt = ''do it'', task_status = ''running'', task_priority = Fin 1,
     task_orderIndex = None, task_dependsOn = None, task_executionPolicy = None,
     task_executionWorkspace = None, task_codexExecutable = None, task_sandbox = None,
     task_approvalPolicy = None, task_itemType = None, task_queueTagId = None, task_queueTagName = None,
     task_validationStatus = None, task_assignedWorkerId = None, task_workerExecutionReports = None,
     task_coordinatorStatus = None, task_assignedExecutorWidgetId = None, task_createdAt = [],
     task_updatedAt = []\<rparr>"

definition exampleFailureInput :: SmartQueueFailureIntegrationInput where
  "exampleFailureInput = \<lparr>sfi_attemptId = None, sfi_changedFiles = None, sfi_createdAt = ''2026'',
     sfi_evidenceSummary = None, sfi_failureKind = None, sfi_finalStatus = Some ''timed_out'',
     sfi_maxRetries = None, sfi_reason = ''run timed out'', sfi_retryCount = None, sfi_runId = Some ''r1'',
     sfi_stage = None, sfi_task = exampleQueueTask, sfi_workerId = None\<rparr>"

text \<open>The failed task of an input, and the payload its report carries.\<close>

definition failedTaskOf :: "SmartQueueFailureIntegrationInput \<Rightarrow> AgentQueueTask" where
  "failedTaskOf input =
     failedTask (sfi_task input) (snd (the (buildSmartQueueWorkerFailureIntegration input)))"

lemma retry_accepted_iff:
  assumes "js_comparator (localeCompare lc)"
  shows "(\<exists>report att task'.
      applySmartQueueRetrySameActionToTask lc acceptedAt attemptId (failedTaskOf input) = RetryQueued report att task')
    \<longleftrightarrow> failureKindOf input \<in> {FkTimeout, FkToolFailure}
      \<and> max 0 (js_default (int (countPriorSmartQueueFailures (sfi_task input))) (sfi_retryCount input))
          < js_default 1 (sfi_maxRetries input)"
proof -
  obtain payload patch where b: "buildSmartQueueWorkerFailureIntegration input = Some (payload, patch)"
    using failureIntegration_returns by blast
  have "latestSmartQueueFailurePayloadForTask (failedTaskOf input) = Some payload"
    by (simp add: failedTaskOf_def b latest_failedTask [OF b])
  then show ?thesis
    by (auto simp: applyRetrySame_cases [OF assms] canApplySmartQueueRetrySame_def
        failureIntegration_parts(1) [OF b] failureDecisionOf_offersRetry failureDecisionOf_canRetry)
qed

lemma exampleFailure_retryable:
  "failureKindOf exampleFailureInput = FkTimeout"
  "countPriorSmartQueueFailures (sfi_task exampleFailureInput) = 0"
  "sfi_retryCount exampleFailureInput = None" "sfi_maxRetries exampleFailureInput = None"
  by (code_simp, simp_all add: countPriorSmartQueueFailures_def taskReports_def exampleFailureInput_def exampleQueueTask_def)

text \<open>
  C7. Recording a failure never throws, and the record is read back from the JSON text of the report:
  it is the task's latest failure payload and one more prior failure, its attempt is the last of the
  task's history, and a running or completed task becomes one that needs review.
\<close>

theorem failure_recorded:
  "\<exists>payload patch. buildSmartQueueWorkerFailureIntegration input = Some (payload, patch)
    \<and> latestSmartQueueFailurePayloadForTask (failedTaskOf input) = Some payload
    \<and> countPriorSmartQueueFailures (failedTaskOf input) = Suc (countPriorSmartQueueFailures (sfi_task input))
    \<and> hist_attempts (smartQueueAttemptHistoryForTask (failedTaskOf input))
        = hist_attempts (smartQueueAttemptHistoryForTask (sfi_task input)) @ [fp_attempt payload]
    \<and> att_failureKind (fp_attempt payload) = Some (failureKindOf input)
    \<and> task_status (failedTaskOf input) = (if task_status (sfi_task input) \<in> {''running'', ''completed''}
         then ''review_needed'' else task_status (sfi_task input))"
proof -
  obtain payload patch where b: "buildSmartQueueWorkerFailureIntegration input = Some (payload, patch)"
    using failureIntegration_returns by blast
  moreover have "task_status (failedTaskOf input) = statusForFailure (task_status (sfi_task input))"
    by (simp add: failedTaskOf_def b failedTask_def failureIntegration_parts [OF b])
  ultimately show ?thesis
    by (simp add: failedTaskOf_def latest_failedTask countPrior_failedTask history_failedTask statusForFailure_def
        failureIntegration_parts(5) attachCoordinatorDecisionToAttempt_def failedAttemptFor_facts)
qed

text \<open>
  A retry that was queued is recorded: the task is ready again with its prompt unchanged, the
  retry attempt is the last entry of the history read back from the reports and the current attempt,
  and until the next failure no further retry is accepted.
\<close>

theorem retry_recorded:
  assumes "js_comparator (localeCompare lc)"
    and "latestSmartQueueFailurePayloadForTask task = Some f"
    and "dec_decisionId (fp_coordinatorDecision f) \<noteq> []" and "task_queueItemId task \<noteq> []"
    and "applySmartQueueRetrySameActionToTask lc acceptedAt attemptId task = RetryQueued report att task'"
  shows "task_status task' = ''ready'' \<and> task_prompt task' = task_prompt task
    \<and> task_coordinatorStatus task' = Some ''not_reported''
    \<and> hist_attempts (smartQueueAttemptHistoryForTask task')
        = hist_attempts (smartQueueAttemptHistoryForTask task) @ [att]
    \<and> selectCurrentAttempt lc (smartQueueAttemptHistoryForTask task') = Some att
    \<and> att_status att = AsPending
    \<and> applySmartQueueRetrySameActionToTask lc acceptedAt' attemptId' task'
        = CannotRetry ''Smart Queue decision payload is unavailable.'' task'"
proof -
  have r: "task' = retriedTask acceptedAt attemptId task f" "att = retryAttemptOf acceptedAt attemptId task f"
    using assms(5) by (auto simp: applyRetrySame_cases [OF assms(1)] assms(2) split: if_splits)
  then have "task_status task' = ''ready'' \<and> task_prompt task' = task_prompt task
      \<and> task_coordinatorStatus task' = Some ''not_reported''"
    by (simp add: retriedTask_def)
  moreover have h: "smartQueueAttemptHistoryForTask task' = appendAttempt (smartQueueAttemptHistoryForTask task)
      (retryAppendInput acceptedAt attemptId task f)"
    unfolding r(1) by (rule history_retried [OF assms(4,3)])
  moreover have "hist_attempts (smartQueueAttemptHistoryForTask task')
      = hist_attempts (smartQueueAttemptHistoryForTask task) @ [att]"
    unfolding h r(2) retryAttemptOf_def by (rule appendAttempt_last(1))
  moreover have "selectCurrentAttempt lc (smartQueueAttemptHistoryForTask task') = Some att"
    unfolding h r(2) retryAttemptOf_def by (rule selectCurrentAttempt_append [OF assms(1)])
  moreover have "att_status att = AsPending"
    unfolding r(2) retryAttemptOf_def by (rule appendAttempt_last(5))
  moreover have "latestSmartQueueFailurePayloadForTask task' = None"
    unfolding r(1) by (rule latest_retried [OF assms(4,3)])
  then have "applySmartQueueRetrySameActionToTask lc acceptedAt' attemptId' task'
      = CannotRetry ''Smart Queue decision payload is unavailable.'' task'"
    by (simp add: applyRetrySame_cases [OF assms(1)])
  ultimately show ?thesis by blast
qed

lemma retry_recorded_witness:
  "\<exists>report att task'.
     applySmartQueueRetrySameActionToTask codeUnitCompare ''2027'' (Some ''a2'') (failedTaskOf exampleFailureInput)
       = RetryQueued report att task' \<and> task_status task' = ''ready''"
proof -
  obtain payload patch where b: "buildSmartQueueWorkerFailureIntegration exampleFailureInput = Some (payload, patch)"
    using failureIntegration_returns by blast
  have l: "latestSmartQueueFailurePayloadForTask (failedTaskOf exampleFailureInput) = Some payload"
    by (simp add: failedTaskOf_def b latest_failedTask [OF b])
  have d: "dec_decisionId (fp_coordinatorDecision payload) \<noteq> []"
    by (simp add: failureIntegration_parts(1) [OF b])
  have i: "task_queueItemId (failedTaskOf exampleFailureInput) \<noteq> []"
    by (simp add: failedTaskOf_def failedTask_def exampleFailureInput_def exampleQueueTask_def)
  obtain report att task' where "applySmartQueueRetrySameActionToTask codeUnitCompare ''2027'' (Some ''a2'')
      (failedTaskOf exampleFailureInput) = RetryQueued report att task'"
    using retry_accepted_iff [OF codeUnitCompare_comparator, where input = exampleFailureInput
        and acceptedAt = "''2027''" and attemptId = "Some ''a2''"]
      exampleFailure_retryable by auto
  from retry_recorded [OF codeUnitCompare_comparator l d i this, of "''2027''" None] this show ?thesis by blast
qed

text \<open>
  A retry is refused exactly when the task has no unanswered failure record or the coordinator's
  decision does not offer one; a refusal leaves the task as it is and gives the reason of that case.
\<close>

theorem retry_refused:
  assumes "js_comparator (localeCompare lc)"
  shows "applySmartQueueRetrySameActionToTask lc acceptedAt attemptId task = CannotRetry reason task' \<longleftrightarrow>
    task' = task \<and>
    (case latestSmartQueueFailurePayloadForTask task of
       None \<Rightarrow> reason = ''Smart Queue decision payload is unavailable.''
     | Some f \<Rightarrow> reason = retryUnavailableReason f
         \<and> \<not> (DaRetrySame \<in> set (dec_availableActions (fp_coordinatorDecision f))
               \<and> rp_canRetry (dec_retryPolicy (fp_coordinatorDecision f))
               \<and> \<not> dec_destructive (fp_coordinatorDecision f)))"
  by (auto simp: applyRetrySame_cases [OF assms] canApplySmartQueueRetrySame_def split: option.split)

lemma retry_refused_witness:
  "applySmartQueueRetrySameActionToTask codeUnitCompare ''2027'' None exampleQueueTask
   = CannotRetry ''Smart Queue decision payload is unavailable.'' exampleQueueTask"
  using retry_refused [OF codeUnitCompare_comparator, of "''2027''" None exampleQueueTask
      "''Smart Queue decision payload is unavailable.''" exampleQueueTask]
  by (simp add: latestSmartQueueFailurePayloadForTask_def taskReports_def exampleQueueTask_def)

text \<open>
  With the default settings a task is retried at most once: after a failure the retry is accepted
  exactly when the failure was a timeout or a tool failure and the task had no recorded failure before.
\<close>

theorem retried_at_most_once:
  assumes "js_comparator (localeCompare lc)" and "sfi_retryCount input = None" and "sfi_maxRetries input = None"
  shows "(\<exists>report att task'.
      applySmartQueueRetrySameActionToTask lc acceptedAt attemptId (failedTaskOf input) = RetryQueued report att task')
    \<longleftrightarrow> failureKindOf input \<in> {FkTimeout, FkToolFailure} \<and> countPriorSmartQueueFailures (sfi_task input) = 0"
  using retry_accepted_iff [OF assms(1), where input = input and acceptedAt = acceptedAt and attemptId = attemptId] assms(2,3) by auto

lemma retried_at_most_once_witness:
  "\<exists>report att task'.
     applySmartQueueRetrySameActionToTask codeUnitCompare ''2027'' None (failedTaskOf exampleFailureInput)
       = RetryQueued report att task'"
  using exampleFailure_retryable
  by (subst retried_at_most_once [OF codeUnitCompare_comparator]) auto

text \<open>
  A finding about the attempt numbers: the attempt of a failure always has number one, so after a
  retry (number two) that failed again, the current attempt is the pending retry and not the failed run.
\<close>

lemma failed_attempt_number:
  assumes "buildSmartQueueWorkerFailureIntegration input = Some (payload, patch)"
  shows "att_attemptNumber (fp_attempt payload) = 1"
  using failureIntegration_parts(5) [OF assms]
  by (simp add: attachCoordinatorDecisionToAttempt_def failedAttemptFor_facts)

lemma failed_retry_not_current:
  assumes "js_comparator (localeCompare lc)"
    and b: "buildSmartQueueWorkerFailureIntegration input = Some (payload, patch)"
    and a: "a \<in> set (hist_attempts (smartQueueAttemptHistoryForTask (sfi_task input)))" "1 < att_attemptNumber a"
  shows "selectCurrentAttempt lc (smartQueueAttemptHistoryForTask (failedTaskOf input)) \<noteq> Some (fp_attempt payload)"
proof
  let ?h = "smartQueueAttemptHistoryForTask (failedTaskOf input)"
  assume "selectCurrentAttempt lc ?h = Some (fp_attempt payload)"
  then obtain ys where s: "js_sort (compareCurrentAttempt lc) (hist_attempts ?h) = fp_attempt payload # ys"
    by (auto simp: selectCurrentAttempt_def js_first_def split: list.splits)
  have "a \<in> set (hist_attempts ?h)" using a by (simp add: failedTaskOf_def b history_failedTask [OF b refl])
  then have "\<not> js_pos (compareCurrentAttempt lc (fp_attempt payload) a)"
    by (rule js_comparator.hd_sort_least [OF js_comparator_currentAttempt [OF assms(1)] s])
  then show False using a(2) by (simp add: compareCurrentAttempt_def js_or_def failed_attempt_number [OF b])
qed

end
