(* ===== verification/Autonomous.thy ===== *)
theory Autonomous
  imports Retry
begin

text \<open>
  The decisions of the autonomous queue runner: \<open>workbench/queue/agentQueueAutonomousRunnerModel.ts\<close>
  (which task runs next, what keeps the others back, whether a finished run counts as a success) and
  \<open>agentQueueAutonomousRunnerState.ts\<close>. The scan over the sorted tasks is a \<open>fold\<close> of \<open>scanStep\<close>. The
  runner's own state machine, which calls these functions, is in the theory Autonomous_Runner.
\<close>

section \<open>Messages\<close>

definition NO_ELIGIBLE_TASK_BLOCKER :: string where
  "NO_ELIGIBLE_TASK_BLOCKER = ''No eligible queued tasks.''"
definition DEPENDENCY_BLOCKER :: string where
  "DEPENDENCY_BLOCKER = ''No task can run because dependencies are not finalized.''"
definition MISSING_CODEX_EXECUTABLE_SETUP :: string where
  "MISSING_CODEX_EXECUTABLE_SETUP = ''Set Codex executable before autonomous run.''"
definition MISSING_SANDBOX_SETUP :: string where
  "MISSING_SANDBOX_SETUP = ''Set sandbox before autonomous run.''"
definition MISSING_APPROVAL_POLICY_SETUP :: string where
  "MISSING_APPROVAL_POLICY_SETUP = ''Set approval policy before autonomous run.''"
definition SAVE_TASK_EDITS_SETUP :: string where
  "SAVE_TASK_EDITS_SETUP = ''Save task edits before autonomous run.''"
definition AUTONOMOUS_REPORT_READY_NOTE :: string where
  "AUTONOMOUS_REPORT_READY_NOTE = ''Execution complete. Report ready. Awaiting coordinator review.''"

definition sanitizeTaskTitleForMessage :: "string \<Rightarrow> string" where
  "sanitizeTaskTitleForMessage title = js_or_str (js_trim (js_collapse_spaces title)) ''Untitled task''"

definition autonomousTaskSetupMessage :: "AgentQueueTask \<Rightarrow> string option" where
  "autonomousTaskSetupMessage task =
     (if \<not> js_has_text (task_executionWorkspace task)
      then Some (''Task '' @ sanitizeTaskTitleForMessage (task_title task) @ '' is missing execution workspace.'')
      else if \<not> js_has_text (task_codexExecutable task) then Some MISSING_CODEX_EXECUTABLE_SETUP
      else if \<not> js_has_text (task_sandbox task) then Some MISSING_SANDBOX_SETUP
      else if \<not> js_has_text (task_approvalPolicy task) then Some MISSING_APPROVAL_POLICY_SETUP
      else None)"

section \<open>The task as the smart queue sees it\<close>

definition autonomousCoordinatorStatus :: "AgentQueueTask \<Rightarrow> string" where
  "autonomousCoordinatorStatus task = js_default ''not_reported'' (task_coordinatorStatus task)"

definition coordinatorStatusBlocksAutonomousTask :: "string \<Rightarrow> bool" where
  "coordinatorStatusBlocksAutonomousTask coordinatorStatus \<longleftrightarrow>
     coordinatorStatus = ''awaiting_coordinator_review'' \<or> coordinatorStatus = ''finalized''
     \<or> coordinatorStatus = ''blocked'' \<or> coordinatorStatus = ''failed''"

definition taskIsRunnableCandidate :: "AgentQueueTask \<Rightarrow> bool" where
  "taskIsRunnableCandidate task \<longleftrightarrow>
     (let status = normalizeTaskStatus (task_status task)
      in (status = StQueued \<or> status = StReady \<or> status = StReviewNeeded)
         \<and> 0 < length (js_trim (task_prompt task))
         \<and> \<not> coordinatorStatusBlocksAutonomousTask (autonomousCoordinatorStatus task)
         \<and> normalizeValidationStatus (task_validationStatus task) \<noteq> ValFailed)"

fun smartLifecycleForStatus :: "QueueTaskStatus \<Rightarrow> SmartQueueTaskLifecycle" where
  "smartLifecycleForStatus StDraft = LcDraft"
| "smartLifecycleForStatus StQueued = LcReady"
| "smartLifecycleForStatus StReady = LcReady"
| "smartLifecycleForStatus StRunning = LcRunning"
| "smartLifecycleForStatus StCompleted = LcReview"
| "smartLifecycleForStatus StReviewNeeded = LcReview"
| "smartLifecycleForStatus StFailed = LcFailed"
| "smartLifecycleForStatus StCancelled = LcCancelled"

definition smartLifecycleForQueueTask :: "AgentQueueTask \<Rightarrow> SmartQueueTaskLifecycle" where
  "smartLifecycleForQueueTask task =
     (let status = normalizeTaskStatus (task_status task)
      in if status = StCompleted \<and> autonomousCoordinatorStatus task = ''finalized'' then LcClosed
         else smartLifecycleForStatus status)"

definition smartQueueBlockersForQueueTask :: "AgentQueueTask \<Rightarrow> SmartQueueBlocker list" where
  "smartQueueBlockersForQueueTask task =
     (if js_blank (task_prompt task)
      then [\<lparr>sb_kind = BkMissingPrompt, sb_reason = ''missing prompt'', sb_taskId = Some (task_queueItemId task),
             sb_upstreamTaskId = None, sb_rootCauseTaskIds = None\<rparr>] else []) @
     (if normalizeValidationStatus (task_validationStatus task) = ValFailed
      then [\<lparr>sb_kind = BkValidationRequiresDecision, sb_reason = ''validation failed'',
             sb_taskId = Some (task_queueItemId task), sb_upstreamTaskId = None, sb_rootCauseTaskIds = None\<rparr>]
      else [])"

definition smartTaskInputForQueueTask :: "AgentQueueTask \<Rightarrow> SmartQueueTaskInput" where
  "smartTaskInputForQueueTask task =
     \<lparr>sq_taskId = task_queueItemId task, sq_title = Some (task_title task),
      sq_lifecycle = smartLifecycleForQueueTask task,
      sq_blockers = Some (smartQueueBlockersForQueueTask task)\<rparr>"

definition smartQueueDependenciesForTasks :: "AgentQueueTask list \<Rightarrow> SmartQueueDependency list" where
  "smartQueueDependenciesForTasks tasks =
     concat (map (\<lambda>task.
       map (\<lambda>upstreamTaskId. \<lparr>sd_upstreamTaskId = upstreamTaskId,
              sd_downstreamTaskId = task_queueItemId task, sd_kind = ''blocks_start''\<rparr>)
         (filter (\<lambda>i. i \<noteq> []) (map js_trim (js_default [] (task_dependsOn task))))) tasks)"

section \<open>The scan\<close>

record AutonomousScan =
  scan_dependencyBlockedCount :: nat
  scan_eligibleCount :: nat
  scan_firstSetupBlockedTask :: "AgentQueueTask option"
  scan_nextTask :: "AgentQueueTask option"

definition autonomousGate :: "QueueGlobalStatus \<Rightarrow> AgentQueueTask list \<Rightarrow> AgentQueueTask \<Rightarrow> SmartQueueExecutionGate" where
  "autonomousGate globalExecutionState tasks task =
     canStartTaskNow True (smartQueueDependenciesForTasks tasks)
       (qem_queueState (queueExecutionModeFromGlobalState globalExecutionState))
       (smartTaskInputForQueueTask task) (map smartTaskInputForQueueTask tasks)"

definition scanStep ::
    "QueueGlobalStatus \<Rightarrow> string set \<Rightarrow> AgentQueueTask list \<Rightarrow> AgentQueueTask \<Rightarrow> AutonomousScan \<Rightarrow> AutonomousScan" where
  "scanStep globalExecutionState startedQueueItemIds tasks task scan =
     (if task_queueItemId task \<in> startedQueueItemIds then scan
      else if \<not> taskIsRunnableCandidate task then scan
      else if dep_status (getQueueTaskDependencyState task tasks) \<noteq> DepReady
        then scan\<lparr>scan_dependencyBlockedCount := scan_dependencyBlockedCount scan + 1\<rparr>
      else if coordinatorStatusBlocksAutonomousTask (autonomousCoordinatorStatus task) then scan
      else let gate = autonomousGate globalExecutionState tasks task in
        if \<not> eg_canStartTaskNow gate
        then (if js_truthy_str (eg_dependencyReason gate)
              then scan\<lparr>scan_dependencyBlockedCount := scan_dependencyBlockedCount scan + 1\<rparr> else scan)
        else if js_truthy_str (autonomousTaskSetupMessage task)
        then scan\<lparr>scan_firstSetupBlockedTask := js_coalesce (scan_firstSetupBlockedTask scan) (Some task)\<rparr>
        else scan\<lparr>scan_eligibleCount := scan_eligibleCount scan + 1,
                  scan_nextTask := js_coalesce (scan_nextTask scan) (Some task)\<rparr>)"

definition scanAutonomousTasks ::
    "(string \<Rightarrow> string \<Rightarrow> int) \<Rightarrow> QueueGlobalStatus \<Rightarrow> string set \<Rightarrow> AgentQueueTask list \<Rightarrow> AutonomousScan" where
  "scanAutonomousTasks lc globalExecutionState startedQueueItemIds tasks =
     fold (scanStep globalExecutionState startedQueueItemIds tasks) (sortQueueTasksForDisplay lc tasks)
       \<lparr>scan_dependencyBlockedCount = 0, scan_eligibleCount = 0, scan_firstSetupBlockedTask = None,
        scan_nextTask = None\<rparr>"

record AutonomousSelection =
  sel_skippedCount :: nat
  sel_task :: "AgentQueueTask option"

definition selectNextAutonomousTask ::
    "(string \<Rightarrow> string \<Rightarrow> int) \<Rightarrow> AgentQueueTask list \<Rightarrow> string set \<Rightarrow> QueueGlobalStatus \<Rightarrow> AutonomousSelection" where
  "selectNextAutonomousTask lc tasks startedQueueItemIds globalExecutionState =
     (let scan = scanAutonomousTasks lc globalExecutionState startedQueueItemIds tasks
      in \<lparr>sel_skippedCount = scan_dependencyBlockedCount scan, sel_task = scan_nextTask scan\<rparr>)"

definition selectFirstAutonomousSetupBlockedTask ::
    "(string \<Rightarrow> string \<Rightarrow> int) \<Rightarrow> AgentQueueTask list \<Rightarrow> string set \<Rightarrow> QueueGlobalStatus \<Rightarrow> AgentQueueTask option" where
  "selectFirstAutonomousSetupBlockedTask lc tasks startedQueueItemIds globalExecutionState =
     scan_firstSetupBlockedTask (scanAutonomousTasks lc globalExecutionState startedQueueItemIds tasks)"

definition countRemainingAutonomousEligibleTasks ::
    "(string \<Rightarrow> string \<Rightarrow> int) \<Rightarrow> AgentQueueTask list \<Rightarrow> string set \<Rightarrow> QueueGlobalStatus \<Rightarrow> nat" where
  "countRemainingAutonomousEligibleTasks lc tasks startedQueueItemIds globalExecutionState =
     scan_eligibleCount (scanAutonomousTasks lc globalExecutionState startedQueueItemIds tasks)"

section \<open>Messages before a run\<close>

definition autonomousPreconditionMessages :: "bool \<Rightarrow> QueueGlobalStatus \<Rightarrow> bool \<Rightarrow> string list" where
  "autonomousPreconditionMessages apiAvailable globalExecutionState isStarting =
     (if \<not> apiAvailable then [''Autonomous Queue is only available in the Tauri desktop shell.''] else []) @
     (case qem_reason (queueExecutionModeFromGlobalState globalExecutionState) of
        Some reason \<Rightarrow> if reason \<noteq> [] then [reason] else [] | None \<Rightarrow> []) @
     (if isStarting then [''Autonomous Queue is already active.''] else [])"

record AutonomousPreflight =
  pre_globalExecutionState :: QueueGlobalStatus
  pre_hasOpenTaskEdit :: bool
  pre_tasks :: "AgentQueueTask list"

definition autonomousPreflightBlockerMessages ::
    "(string \<Rightarrow> string \<Rightarrow> int) \<Rightarrow> AutonomousPreflight \<Rightarrow> string list" where
  "autonomousPreflightBlockerMessages lc options =
     (let scan = scanAutonomousTasks lc (pre_globalExecutionState options) {} (pre_tasks options)
      in (if pre_hasOpenTaskEdit options then [SAVE_TASK_EDITS_SETUP] else []) @
         (case qem_reason (queueExecutionModeFromGlobalState (pre_globalExecutionState options)) of
            Some reason \<Rightarrow> if reason \<noteq> [] then [reason] else [] | None \<Rightarrow> []) @
         (case (scan_nextTask scan, scan_firstSetupBlockedTask scan) of
            (None, Some task) \<Rightarrow>
              (case autonomousTaskSetupMessage task of
                 Some message \<Rightarrow> if message \<noteq> [] then [message] else [] | None \<Rightarrow> [])
          | (None, None) \<Rightarrow>
              [if 0 < scan_dependencyBlockedCount scan then DEPENDENCY_BLOCKER else NO_ELIGIBLE_TASK_BLOCKER]
          | (Some _, _) \<Rightarrow> []))"

definition js_endsWith :: "string \<Rightarrow> string \<Rightarrow> bool" where
  "js_endsWith ending s \<longleftrightarrow> take (length ending) (rev s) = rev ending"

definition isAutonomousSetupBlocker :: "string \<Rightarrow> bool" where
  "isAutonomousSetupBlocker message \<longleftrightarrow>
     js_endsWith ''is missing execution workspace.'' message \<or> message = MISSING_CODEX_EXECUTABLE_SETUP
     \<or> message = MISSING_SANDBOX_SETUP \<or> message = MISSING_APPROVAL_POLICY_SETUP
     \<or> message = SAVE_TASK_EDITS_SETUP"

definition autonomousSetupBlockerMessages :: "(string \<Rightarrow> string \<Rightarrow> int) \<Rightarrow> AutonomousPreflight \<Rightarrow> string list" where
  "autonomousSetupBlockerMessages lc options =
     filter isAutonomousSetupBlocker (autonomousPreflightBlockerMessages lc options)"

definition autonomousTaskBlockerMessages :: "(string \<Rightarrow> string \<Rightarrow> int) \<Rightarrow> AutonomousPreflight \<Rightarrow> string list" where
  "autonomousTaskBlockerMessages lc options =
     filter (\<lambda>message. message = NO_ELIGIBLE_TASK_BLOCKER \<or> message = DEPENDENCY_BLOCKER)
       (autonomousPreflightBlockerMessages lc options)"

section \<open>The outcome of a run\<close>

text \<open>The fields of the run's detail that the runner reads.\<close>

record AgentExecutorRunDetail =
  detail_summaryStatus :: string
  detail_resultContent :: "string option"
  detail_finalMessage :: "string option"
  detail_errorMessage :: "string option"
  detail_validationStatus :: "string option"

text \<open>
  \<open>/(^|\b)(blocked|failed|...)(\b|$)/i\<close>: the words start and end with word characters, so the start
  and the end of the text are word boundaries as well.
\<close>

definition evidenceReportsFailure :: "string \<Rightarrow> bool" where
  "evidenceReportsFailure finalMessage =
     hasWord [''blocked'', ''failed'', ''failure'', ''needs changes'', ''validation failed''] (js_lower finalMessage)"

text \<open>\<open>None\<close> for success, otherwise the reason.\<close>

definition assessAutonomousSuccess :: "AgentExecutorRunDetail option \<Rightarrow> string \<Rightarrow> string option" where
  "assessAutonomousSuccess detail finalStatus =
     (if finalStatus \<noteq> ''completed'' then Some (''Direct Work run ended with '' @ finalStatus @ ''.'')
      else case detail of
        None \<Rightarrow> Some ''Direct Work result evidence could not be loaded.''
      | Some d \<Rightarrow>
          if detail_summaryStatus d \<noteq> ''completed''
          then Some (''Direct Work evidence reports '' @ detail_summaryStatus d @ ''.'')
          else if js_truthy_str (detail_errorMessage d) then detail_errorMessage d
          else if \<not> js_has_text (detail_finalMessage d) then Some ''Direct Work final response is missing.''
          else if detail_validationStatus d = Some ''failed''
          then Some ''Direct Work evidence reports validation failed.''
          else if evidenceReportsFailure (js_default [] (detail_finalMessage d))
          then Some ''Direct Work evidence reports blocked, failed, or needs changes.''
          else None)"

definition buildAutonomousWorkerReport ::
    "string \<Rightarrow> AgentExecutorRunDetail \<Rightarrow> string \<Rightarrow> AgentQueueTask \<Rightarrow> AgentQueueWorkerExecutionReport" where
  "buildAutonomousWorkerReport now detail runId task =
     \<lparr>report_reportId = ''autonomous_'' @ runId, report_itemId = task_queueItemId task,
      report_workerId = js_default ''agent-queue''
        (js_coalesce (task_assignedWorkerId task) (task_assignedExecutorWidgetId task)),
      report_createdAt = now, report_reportStatus = ''reported'', report_summary = AUTONOMOUS_REPORT_READY_NOTE,
      report_changedFiles = [], report_commandsRun = [], report_validationCommandsSuggested = [],
      report_validationCommandsRun = Some [],
      report_validationResult =
        Some (if detail_validationStatus detail = Some ''passed'' then ''passed''
              else if detail_validationStatus detail = Some ''failed'' then ''failed'' else ''not_run''),
      report_commitHash = None, report_warnings = [], report_errors = [],
      report_rawReportPreview = js_coalesce (detail_finalMessage detail) (detail_resultContent detail)\<rparr>"

section \<open>Runner state helpers\<close>

text \<open>The pattern, unanchored and without regard to case, is one of two literal texts.\<close>

fun js_contains :: "string \<Rightarrow> string \<Rightarrow> bool" where
  "js_contains p [] \<longleftrightarrow> p = []"
| "js_contains p (c # cs) \<longleftrightarrow> take (length p) (c # cs) = p \<or> js_contains p cs"

definition isRunReadinessBlocker :: "string \<Rightarrow> bool" where
  "isRunReadinessBlocker message \<longleftrightarrow>
     js_contains (js_lower ''Local executor is already running another task'') (js_lower message)
     \<or> js_contains (js_lower ''Local executor unavailable'') (js_lower message)"

definition taskHasReportReadyState :: "AgentQueueTask \<Rightarrow> bool" where
  "taskHasReportReadyState task \<longleftrightarrow>
     autonomousCoordinatorStatus task = ''awaiting_coordinator_review''
     \<or> autonomousCoordinatorStatus task = ''ready_for_finalization''
     \<or> autonomousCoordinatorStatus task = ''finalized''
     \<or> 0 < length (taskReports task)
     \<or> normalizeValidationStatus (task_validationStatus task) = ValNeedsReview"

definition taskReleasesAutonomousRunner :: "AgentQueueTask \<Rightarrow> bool" where
  "taskReleasesAutonomousRunner task \<longleftrightarrow>
     (let status = normalizeTaskStatus (task_status task); coordinatorStatus = autonomousCoordinatorStatus task
      in status = StCompleted \<or> status = StReviewNeeded
         \<or> coordinatorStatus = ''awaiting_coordinator_review'' \<or> coordinatorStatus = ''ready_for_finalization''
         \<or> coordinatorStatus = ''finalized'' \<or> coordinatorStatus = ''needs_changes''
         \<or> coordinatorStatus = ''follow_up_required'' \<or> coordinatorStatus = ''blocked''
         \<or> coordinatorStatus = ''rollback_required'')"

definition taskSignature :: "AgentQueueTask \<Rightarrow> string" where
  "taskSignature task = js_join '':''
     [task_queueItemId task, task_status task, autonomousCoordinatorStatus task,
      js_default ''not_started'' (task_validationStatus task), js_nat_string (length (taskReports task)),
      js_join '','' (js_default [] (task_dependsOn task))]"

definition autonomousQueueStateSignature :: "AgentQueueTask list \<Rightarrow> string" where
  "autonomousQueueStateSignature tasks = js_join ''|'' (map taskSignature tasks)"

section \<open>What the scan selects\<close>

text \<open>An upstream id that is done for good: its task is completed and finalised by the coordinator.\<close>

definition acceptedUpstream :: "AgentQueueTask list \<Rightarrow> string \<Rightarrow> bool" where
  "acceptedUpstream tasks u \<longleftrightarrow>
     (\<exists>x. tasksById tasks u = Some x \<and> task_status x = ''completed''
        \<and> task_coordinatorStatus x = Some ''finalized'')"

definition hasRunSettings :: "AgentQueueTask \<Rightarrow> bool" where
  "hasRunSettings task \<longleftrightarrow> js_has_text (task_executionWorkspace task) \<and> js_has_text (task_codexExecutable task)
     \<and> js_has_text (task_sandbox task) \<and> js_has_text (task_approvalPolicy task)"

definition autonomousReady ::
    "QueueGlobalStatus \<Rightarrow> string set \<Rightarrow> AgentQueueTask list \<Rightarrow> AgentQueueTask \<Rightarrow> bool" where
  "autonomousReady globalExecutionState started tasks task \<longleftrightarrow>
     globalExecutionState = QueueStarted \<and> task_queueItemId task \<notin> started
     \<and> task_status task \<in> {''queued'', ''ready''} \<and> \<not> js_blank (task_prompt task)
     \<and> normalizeValidationStatus (task_validationStatus task) \<noteq> ValFailed
     \<and> \<not> coordinatorStatusBlocksAutonomousTask (autonomousCoordinatorStatus task)
     \<and> dep_status (getQueueTaskDependencyState task tasks) = DepReady
     \<and> namedUpstream tasks (task_queueItemId task) \<subseteq> {u. acceptedUpstream tasks u}
     \<and> hasRunSettings task"

lemma normalizeTaskStatus_iff:
  "v \<noteq> StDraft \<Longrightarrow> normalizeTaskStatus s = v \<longleftrightarrow> s = taskStatusName v"
  by (cases v) (auto simp: normalizeTaskStatus_def TASK_STATUSES_def)

lemma smartLifecycle_closed_iff:
  "smartLifecycleForQueueTask x = LcClosed \<longleftrightarrow>
     task_status x = ''completed'' \<and> task_coordinatorStatus x = Some ''finalized''"
proof -
  have "smartLifecycleForStatus s \<noteq> LcClosed" for s by (cases s) auto
  then show ?thesis
    by (cases "task_coordinatorStatus x")
       (auto simp: smartLifecycleForQueueTask_def Let_def normalizeTaskStatus_iff autonomousCoordinatorStatus_def)
qed

lemma hasLifecycle_closed_iff:
  "hasLifecycle (map smartTaskInputForQueueTask tasks) {LcClosed} u \<longleftrightarrow> acceptedUpstream tasks u"
  by (auto simp: hasLifecycle_def acceptedUpstream_def sqTasksById_map smartTaskInputForQueueTask_def
      smartLifecycle_closed_iff)

lemma startBlockersOf_autonomous:
  "startBlockersOf (smartQueueDependenciesForTasks tasks) i = namedUpstream tasks i"
  unfolding smartQueueDependenciesForTasks_def by (rule startBlockersOf_named)

text \<open>The smart queue's gate, spelt out for the task the runner hands it.\<close>

lemma autonomousGate_iff:
  "eg_canStartTaskNow (autonomousGate g tasks task) \<longleftrightarrow>
     smartLifecycleForQueueTask task \<in> {LcDraft, LcQueued, LcReady}
     \<and> namedUpstream tasks (task_queueItemId task) \<subseteq> {u. acceptedUpstream tasks u}
     \<and> \<not> js_blank (task_prompt task) \<and> normalizeValidationStatus (task_validationStatus task) \<noteq> ValFailed
     \<and> g = QueueStarted"
proof -
  have q: "qem_queueState (queueExecutionModeFromGlobalState g) = SqActive \<longleftrightarrow> g = QueueStarted"
    by (cases g) auto
  have b: "smartQueueBlockersForQueueTask task = [] \<longleftrightarrow>
      \<not> js_blank (task_prompt task) \<and> normalizeValidationStatus (task_validationStatus task) \<noteq> ValFailed"
    by (simp add: smartQueueBlockersForQueueTask_def)
  have s: "sq_lifecycle (smartTaskInputForQueueTask task) = smartLifecycleForQueueTask task"
    "sq_taskId (smartTaskInputForQueueTask task) = task_queueItemId task"
    "js_default [] (sq_blockers (smartTaskInputForQueueTask task)) = smartQueueBlockersForQueueTask task"
    by (simp_all add: smartTaskInputForQueueTask_def)
  have c: "{u. hasLifecycle (map smartTaskInputForQueueTask tasks) {LcClosed} u} = {u. acceptedUpstream tasks u}"
    by (simp add: hasLifecycle_closed_iff)
  show ?thesis
    unfolding autonomousGate_def el_autoEligible_iff canStartTaskNow_def Let_def
      SmartQueueExecutionGate.simps SmartQueueEligibilityContext.simps gate_passes_iff s
      startBlockersOf_autonomous c q b by auto
qed

lemma autonomousTaskSetupMessage_iff: "js_truthy_str (autonomousTaskSetupMessage task) \<longleftrightarrow> \<not> hasRunSettings task"
  by (auto simp: autonomousTaskSetupMessage_def hasRunSettings_def MISSING_CODEX_EXECUTABLE_SETUP_def
      MISSING_SANDBOX_SETUP_def MISSING_APPROVAL_POLICY_SETUP_def)

text \<open>A task that comes through all checks of one turn of the scan.\<close>

definition scanEligible :: "QueueGlobalStatus \<Rightarrow> string set \<Rightarrow> AgentQueueTask list \<Rightarrow> AgentQueueTask \<Rightarrow> bool" where
  "scanEligible g started tasks task \<longleftrightarrow> task_queueItemId task \<notin> started \<and> taskIsRunnableCandidate task
     \<and> dep_status (getQueueTaskDependencyState task tasks) = DepReady
     \<and> \<not> coordinatorStatusBlocksAutonomousTask (autonomousCoordinatorStatus task)
     \<and> eg_canStartTaskNow (autonomousGate g tasks task) \<and> \<not> js_truthy_str (autonomousTaskSetupMessage task)"

lemma scanEligible_iff: "scanEligible g started tasks task \<longleftrightarrow> autonomousReady g started tasks task"
proof -
  have l: "(normalizeTaskStatus (task_status task) = StQueued \<or> normalizeTaskStatus (task_status task) = StReady
        \<or> normalizeTaskStatus (task_status task) = StReviewNeeded)
      \<and> smartLifecycleForQueueTask task \<in> {LcDraft, LcQueued, LcReady} \<longleftrightarrow>
      task_status task \<in> {''queued'', ''ready''}"
  proof -
    have n: "task_status task \<in> {''queued'', ''ready''} \<longleftrightarrow>
        normalizeTaskStatus (task_status task) \<in> {StQueued, StReady}"
      by (auto simp: normalizeTaskStatus_iff)
    show ?thesis unfolding n smartLifecycleForQueueTask_def Let_def
      by (cases "normalizeTaskStatus (task_status task)") simp_all
  qed
  have p: "0 < length (js_trim (task_prompt task)) \<longleftrightarrow> \<not> js_blank (task_prompt task)"
    by (simp add: js_blank_def)
  show ?thesis
    unfolding scanEligible_def autonomousReady_def autonomousGate_iff autonomousTaskSetupMessage_iff
      taskIsRunnableCandidate_def Let_def p using l by auto
qed

lemma scanStep_next:
  "scan_nextTask (scanStep g started tasks task scan) =
     js_coalesce (scan_nextTask scan) (if scanEligible g started tasks task then Some task else None)"
  "scan_eligibleCount (scanStep g started tasks task scan) =
     scan_eligibleCount scan + (if scanEligible g started tasks task then 1 else 0)"
  by (cases "scan_nextTask scan"; simp add: scanStep_def scanEligible_def Let_def)+

lemma fold_scanStep:
  "scan_nextTask (fold (scanStep g started tasks) ts scan) =
     js_coalesce (scan_nextTask scan) (List.find (autonomousReady g started tasks) ts)"
  "scan_eligibleCount (fold (scanStep g started tasks) ts scan) =
     scan_eligibleCount scan + length (filter (autonomousReady g started tasks) ts)"
proof (induction ts arbitrary: scan)
  case Nil
  { case 1 show ?case by (cases "scan_nextTask scan") auto }
  { case 2 show ?case by simp }
next
  case (Cons t ts)
  { case 1 show ?case using Cons by (cases "scan_nextTask scan") (auto simp: scanStep_next scanEligible_iff) }
  { case 2 show ?case using Cons by (simp add: scanStep_next scanEligible_iff) }
qed

lemma selectNext_find:
  "sel_task (selectNextAutonomousTask lc tasks started g) =
     List.find (autonomousReady g started tasks) (sortQueueTasksForDisplay lc tasks)"
  by (simp add: selectNextAutonomousTask_def scanAutonomousTasks_def Let_def fold_scanStep)

lemma selectNext_ready:
  "sel_task (selectNextAutonomousTask lc tasks started g) = Some task \<Longrightarrow>
     task \<in> set tasks \<and> autonomousReady g started tasks task"
  unfolding selectNext_find using find_Some_iff_mem set_js_sort sortQueueTasksForDisplay_def by metis

lemma countRemaining_filter:
  "countRemainingAutonomousEligibleTasks lc tasks started g =
     length (filter (autonomousReady g started tasks) (sortQueueTasksForDisplay lc tasks))"
  by (simp add: countRemainingAutonomousEligibleTasks_def scanAutonomousTasks_def Let_def fold_scanStep)

text \<open>
  The runner's next task is the first one in display order that is ready in every respect: it was
  not started in this pass, the queue is started, the task is queued or ready, has a prompt, failed no
  validation, is not with the coordinator, its dependencies are completed and finalised by both
  dependency checks, and its run settings are filled in. The remaining count counts exactly these.
\<close>

theorem selectNextAutonomousTask_correct:
  "sel_task (selectNextAutonomousTask lc tasks started g) =
     List.find (autonomousReady g started tasks) (sortQueueTasksForDisplay lc tasks) \<and>
   countRemainingAutonomousEligibleTasks lc tasks started g =
     length (filter (autonomousReady g started tasks) (sortQueueTasksForDisplay lc tasks))"
  by (simp add: selectNext_find countRemaining_filter)

lemma namedUpstream_distinct:
  assumes "distinct (map task_queueItemId tasks)" and "task \<in> set tasks"
  shows "namedUpstream tasks (task_queueItemId task) = set (normalizeTaskDependencies (task_dependsOn task))"
proof -
  have "t = task" if "t \<in> set tasks" "task_queueItemId t = task_queueItemId task" for t
    using assms that by (meson distinct_map inj_onD)
  then show ?thesis using assms(2) by (auto simp: namedUpstream_def set_normalizeTaskDependencies)
qed

lemma gate_of_autonomousGate:
  "gate_gate (el_dependencyGate (eg_eligibility (autonomousGate g tasks task))) =
     gate_gate (computeDependencyGate (smartTaskInputForQueueTask task) (map smartTaskInputForQueueTask tasks)
       (smartQueueDependenciesForTasks tasks))"
  by (simp add: autonomousGate_def canStartTaskNow_def Let_def computeTaskEligibility_def)

text \<open>
  C29. The two dependency checks of the runner agree. For a task of a queue without duplicate ids, the
  dependency state shown to the user is ready exactly when the smart queue's gate, computed by another
  algorithm from another representation, has nothing to wait for, except that the former also refuses
  a task that depends on itself or reaches a dependency cycle.
\<close>

theorem dependencyChecks_agree:
  assumes "distinct (map task_queueItemId tasks)" and "task \<in> set tasks"
  shows "dep_status (getQueueTaskDependencyState task tasks) = DepReady \<longleftrightarrow>
    gate_gate (el_dependencyGate (eg_eligibility (autonomousGate g tasks task))) \<in> {GateNone, GateSatisfied} \<and>
    (normalizeTaskDependencies (task_dependsOn task) = [] \<or>
       task_queueItemId task \<notin> set (normalizeTaskDependencies (task_dependsOn task)) \<and>
       \<not> hasQueueDependencyCycle (dependencyGraphFor task tasks) (task_queueItemId task))"
proof -
  let ?ds = "set (normalizeTaskDependencies (task_dependsOn task))"
  have s: "sq_taskId (smartTaskInputForQueueTask task) = task_queueItemId task"
    by (simp add: smartTaskInputForQueueTask_def)
  have "gate_gate (el_dependencyGate (eg_eligibility (autonomousGate g tasks task))) \<in> {GateNone, GateSatisfied}
      \<longleftrightarrow> ?ds \<subseteq> {u. acceptedUpstream tasks u}"
    unfolding gate_of_autonomousGate gate_passes_iff s startBlockersOf_autonomous
      namedUpstream_distinct [OF assms] hasLifecycle_closed_iff ..
  then show ?thesis
    unfolding dep_status_ready_iff dependencySatisfied_def acceptedUpstream_def hasQueueDependencyCycle_iff_reaches
    by (cases "normalizeTaskDependencies (task_dependsOn task)") auto
qed

definition readyTask :: AgentQueueTask where
  "readyTask = fakeQueueTask\<lparr>task_queueItemId := ''a'', task_status := ''ready'',
     task_executionWorkspace := Some ''/w'', task_codexExecutable := Some ''codex'',
     task_sandbox := Some ''workspace-write'', task_approvalPolicy := Some ''never''\<rparr>"

definition finishedTask :: AgentQueueTask where
  "finishedTask = fakeQueueTask\<lparr>task_queueItemId := ''b'', task_status := ''completed'',
     task_coordinatorStatus := Some ''finalized''\<rparr>"

lemma dependencyChecks_agree_witness:
  "gate_gate (el_dependencyGate (eg_eligibility (autonomousGate QueueStarted
     [finishedTask, readyTask\<lparr>task_dependsOn := Some [''b'']\<rparr>] (readyTask\<lparr>task_dependsOn := Some [''b'']\<rparr>))))
       \<in> {GateNone, GateSatisfied}"
proof -
  have "dep_status (getQueueTaskDependencyState (readyTask\<lparr>task_dependsOn := Some [''b'']\<rparr>)
      [finishedTask, readyTask\<lparr>task_dependsOn := Some [''b'']\<rparr>]) = DepReady"
    by code_simp
  then show ?thesis
    using dependencyChecks_agree [where tasks = "[finishedTask, readyTask\<lparr>task_dependsOn := Some [''b'']\<rparr>]"
        and task = "readyTask\<lparr>task_dependsOn := Some [''b'']\<rparr>" and g = QueueStarted]
    by (simp add: finishedTask_def readyTask_def)
qed

end
