(* ===== verification/Autonomous_Runner.thy ===== *)
theory Autonomous_Runner
  imports Autonomous
begin

text \<open>
  The autonomous queue runner itself, \<open>workbench/queue/useAgentQueueAutonomousRunner.ts\<close>: a state
  machine that starts the next ready task, waits for its run, records the report or the failure, and
  goes on. Every \<open>await\<close> of the code is a suspended call that a later event resumes with the answer of
  the desktop shell, so the interleavings of the code are the orders of the events: user actions, changes
  of the queue, renders (\<open>EvEffect\<close>), completion notices and answers. A suspended call remembers the
  queue's execution state its closure captured and whether a \<open>finally\<close> that clears \<open>inFlightRef\<close>
  follows. Not in the state: the copies of a task for the selected-task panel and the local task fields,
  and the random id and the time of a timeline entry.
\<close>

section \<open>State\<close>

datatype AutonomousStatus = AsIdle | AsNeedsSetup | AsBlocked | AsRunning | AsStopping | AsFailed | AsCompleted

datatype TimelineStatus = TlInfo | TlSuccess | TlWarning | TlError

record TimelineEvent =
  tle_title :: string
  tle_detail :: "string option"
  tle_status :: TimelineStatus

record ActiveAutonomousRun =
  arun_executorWidgetInstanceId :: string
  arun_queueItemId :: string
  arun_repoRoot :: string
  arun_runId :: string
  arun_taskTitle :: string

record AutonomousCounters =
  cnt_completed :: nat
  cnt_failed :: nat
  cnt_skippedBlocked :: nat

record StartRequest =
  sreq_approvalPolicy :: "string option"
  sreq_codexExecutable :: string
  sreq_queueItemId :: string
  sreq_repoRoot :: string
  sreq_sandbox :: "string option"

datatype AfterFailure = ThenNeedsSetup string | ThenBlock string | ThenFail string

datatype AwaitedCall =
  AwaitStart QueueGlobalStatus StartRequest AgentQueueTask
| AwaitLoad AgentQueueTask string
| AwaitDetail QueueGlobalStatus ActiveAutonomousRun string
| AwaitReport QueueGlobalStatus ActiveAutonomousRun AgentExecutorRunDetail AgentQueueTask
| AwaitFailure AgentQueueTask AfterFailure

record Suspended =
  sus_call :: AwaitedCall
  sus_release :: bool

record AutonomousState =
  ar_activeRun :: "ActiveAutonomousRun option"
  ar_activeTaskTitle :: "string option"
  ar_counters :: AutonomousCounters
  ar_currentStage :: "string option"
  ar_error :: "string option"
  ar_globalExecutionState :: QueueGlobalStatus
  ar_inFlight :: bool
  ar_lastSignature :: "string option"
  ar_latestReportState :: "string option"
  ar_message :: "string option"
  ar_started :: "string set"
  ar_status :: AutonomousStatus
  ar_stopAfterCurrent :: bool
  ar_suspended :: "Suspended list"
  ar_tasks :: "AgentQueueTask list"
  ar_timeline :: "TimelineEvent list"
  ar_waitingForDependency :: bool

definition initialAutonomousState :: "AgentQueueTask list \<Rightarrow> AutonomousState" where
  "initialAutonomousState tasks =
     \<lparr>ar_activeRun = None, ar_activeTaskTitle = None,
      ar_counters = \<lparr>cnt_completed = 0, cnt_failed = 0, cnt_skippedBlocked = 0\<rparr>, ar_currentStage = None,
      ar_error = None, ar_globalExecutionState = QueueStarted, ar_inFlight = False, ar_lastSignature = None,
      ar_latestReportState = None, ar_message = None, ar_started = {}, ar_status = AsIdle,
      ar_stopAfterCurrent = False, ar_suspended = [], ar_tasks = tasks, ar_timeline = [],
      ar_waitingForDependency = False\<rparr>"

text \<open>What the hook is configured with: the collation and the widget that owns the queue.\<close>

record AutonomousConfig =
  cfg_lc :: "string \<Rightarrow> string \<Rightarrow> int"
  cfg_apiAvailable :: bool
  cfg_queueWidgetInstanceId :: "string option"

section \<open>Updates\<close>

definition addTimeline :: "string \<Rightarrow> string option \<Rightarrow> TimelineStatus \<Rightarrow> AutonomousState \<Rightarrow> AutonomousState" where
  "addTimeline title detail eventStatus s =
     s\<lparr>ar_timeline := js_slice_last 19 (ar_timeline s) @
         [\<lparr>tle_title = title, tle_detail = detail, tle_status = eventStatus\<rparr>]\<rparr>"

definition incrementCompleted :: "AutonomousState \<Rightarrow> AutonomousState" where
  "incrementCompleted s =
     s\<lparr>ar_counters := (ar_counters s)\<lparr>cnt_completed := cnt_completed (ar_counters s) + 1\<rparr>\<rparr>"

definition incrementFailed :: "AutonomousState \<Rightarrow> AutonomousState" where
  "incrementFailed s = s\<lparr>ar_counters := (ar_counters s)\<lparr>cnt_failed := cnt_failed (ar_counters s) + 1\<rparr>\<rparr>"

definition raiseSkippedBlocked :: "nat \<Rightarrow> AutonomousState \<Rightarrow> AutonomousState" where
  "raiseSkippedBlocked n s =
     s\<lparr>ar_counters := (ar_counters s)\<lparr>cnt_skippedBlocked := max (cnt_skippedBlocked (ar_counters s)) n\<rparr>\<rparr>"

definition clearActivity :: "AutonomousState \<Rightarrow> AutonomousState" where
  "clearActivity s = s\<lparr>ar_activeRun := None, ar_waitingForDependency := False, ar_lastSignature := None\<rparr>"

definition failRun :: "string \<Rightarrow> AutonomousState \<Rightarrow> AutonomousState" where
  "failRun reason s = addTimeline ''Autonomous Queue stopped'' (Some reason) TlError
     ((incrementFailed (clearActivity s))\<lparr>ar_latestReportState := Some ''Failed.'', ar_status := AsFailed,
        ar_currentStage := None, ar_activeTaskTitle := None, ar_error := Some reason, ar_message := Some reason\<rparr>)"

definition needsSetup :: "string \<Rightarrow> AutonomousState \<Rightarrow> AutonomousState" where
  "needsSetup reason s = addTimeline ''Autonomous Queue needs setup'' (Some reason) TlWarning
     ((clearActivity s)\<lparr>ar_status := AsNeedsSetup, ar_currentStage := None, ar_activeTaskTitle := None,
        ar_error := None, ar_message := Some reason\<rparr>)"

definition blockRun :: "string \<Rightarrow> AutonomousState \<Rightarrow> AutonomousState" where
  "blockRun reason s = addTimeline ''Autonomous Queue blocked'' (Some reason) TlWarning
     ((clearActivity s)\<lparr>ar_status := AsBlocked, ar_currentStage := None, ar_activeTaskTitle := None,
        ar_error := None, ar_message := Some reason\<rparr>)"

definition completeNoEligible :: "string \<Rightarrow> AutonomousState \<Rightarrow> AutonomousState" where
  "completeNoEligible reason s = addTimeline ''Autonomous Queue completed'' (Some reason) TlSuccess
     ((clearActivity s)\<lparr>ar_status := AsCompleted, ar_currentStage := None, ar_activeTaskTitle := None,
        ar_message := Some ''Autonomous Queue completed.''\<rparr>)"

definition waitForDependencies :: "string \<Rightarrow> AutonomousState \<Rightarrow> AutonomousState" where
  "waitForDependencies reason s =
     (if ar_waitingForDependency s then s\<lparr>ar_activeRun := None\<rparr>
      else addTimeline ''Autonomous Queue waiting'' (Some reason) TlWarning
        (s\<lparr>ar_activeRun := None, ar_waitingForDependency := True,
           ar_lastSignature := Some (autonomousQueueStateSignature (ar_tasks s)), ar_status := AsBlocked,
           ar_currentStage := Some ''waiting for dependency finalization'', ar_activeTaskTitle := None,
           ar_error := None, ar_message := Some ''Waiting on dependency-blocked tasks.''\<rparr>))"

definition replaceQueueTask :: "AgentQueueTask list \<Rightarrow> AgentQueueTask \<Rightarrow> AgentQueueTask list" where
  "replaceQueueTask tasks updatedTask =
     map (\<lambda>task. if task_queueItemId task = task_queueItemId updatedTask then updatedTask else task) tasks"

definition taskById :: "string \<Rightarrow> AutonomousState \<Rightarrow> AgentQueueTask option" where
  "taskById queueItemId s = List.find (\<lambda>task. task_queueItemId task = queueItemId) (ar_tasks s)"

text \<open>An \<open>await\<close>, and the end of an asynchronous call with the \<open>finally\<close> that may follow.\<close>

definition suspend :: "AwaitedCall \<Rightarrow> bool \<Rightarrow> AutonomousState \<Rightarrow> AutonomousState" where
  "suspend call release s = s\<lparr>ar_suspended := ar_suspended s @ [\<lparr>sus_call = call, sus_release = release\<rparr>]\<rparr>"

definition finishCall :: "bool \<Rightarrow> AutonomousState \<Rightarrow> AutonomousState" where
  "finishCall release s = (if release then s\<lparr>ar_inFlight := False\<rparr> else s)"

section \<open>Recording a failure\<close>

definition queueFailureInput ::
    "AutonomousConfig \<Rightarrow> string \<Rightarrow> AgentQueueTask \<Rightarrow> FailureKind option \<Rightarrow> string option \<Rightarrow> string \<Rightarrow> string
     \<Rightarrow> WorkerReportStage option \<Rightarrow> SmartQueueFailureIntegrationInput" where
  "queueFailureInput cfg now task failureKind finalStatus reason runId stage =
     \<lparr>sfi_attemptId = None, sfi_changedFiles = None, sfi_createdAt = now, sfi_evidenceSummary = None,
      sfi_failureKind = failureKind, sfi_finalStatus = finalStatus, sfi_maxRetries = None,
      sfi_reason = reason, sfi_retryCount = None, sfi_runId = Some runId, sfi_stage = stage, sfi_task = task,
      sfi_workerId = Some (js_default ''agent-queue''
        (js_coalesce (cfg_queueWidgetInstanceId cfg)
          (js_coalesce (task_assignedWorkerId task) (task_assignedExecutorWidgetId task))))\<rparr>"

text \<open>The integration never throws (\<open>failureIntegration_returns\<close>), so its other branch is not taken.\<close>

definition recordedFailure :: "SmartQueueFailureIntegrationInput \<Rightarrow> AgentQueueTask" where
  "recordedFailure input =
     (case buildSmartQueueWorkerFailureIntegration input of
        Some (_, patch) \<Rightarrow> failedTask (sfi_task input) patch
      | None \<Rightarrow> sfi_task input)"

definition recordSmartQueueFailure ::
    "SmartQueueFailureIntegrationInput \<Rightarrow> AfterFailure \<Rightarrow> bool \<Rightarrow> AutonomousState \<Rightarrow> AutonomousState" where
  "recordSmartQueueFailure input after release s =
     suspend (AwaitFailure (recordedFailure input) after) release s"

fun afterFailure :: "AfterFailure \<Rightarrow> AutonomousState \<Rightarrow> AutonomousState" where
  "afterFailure (ThenNeedsSetup reason) s = needsSetup reason s"
| "afterFailure (ThenBlock reason) s = blockRun reason s"
| "afterFailure (ThenFail reason) s = failRun reason s"

text \<open>The update's answer lends the failed task two fields; when it failed, the task is kept as it is.\<close>

definition finishFailure :: "AgentQueueTask \<Rightarrow> AgentQueueTask option \<Rightarrow> AutonomousState \<Rightarrow> AutonomousState" where
  "finishFailure failed updatedTask s =
     s\<lparr>ar_tasks := replaceQueueTask (ar_tasks s)
         (case updatedTask of None \<Rightarrow> failed
          | Some u \<Rightarrow> failed\<lparr>task_assignedExecutorWidgetId := task_assignedExecutorWidgetId u,
                            task_updatedAt := task_updatedAt u\<rparr>)\<rparr>"

section \<open>Starting tasks\<close>

definition startRequestFor :: "AgentQueueTask \<Rightarrow> StartRequest" where
  "startRequestFor task =
     \<lparr>sreq_approvalPolicy = task_approvalPolicy task,
      sreq_codexExecutable = js_trim (js_default [] (task_codexExecutable task)),
      sreq_queueItemId = task_queueItemId task,
      sreq_repoRoot = js_trim (js_default [] (task_executionWorkspace task)),
      sreq_sandbox = task_sandbox task\<rparr>"

text \<open>
  The second check of the settings in \<open>startTask\<close> repeats the first one and never fails
  (\<open>startRequest_complete\<close>), so its branch has no counterpart here.
\<close>

definition startTask ::
    "QueueGlobalStatus \<Rightarrow> bool \<Rightarrow> AgentQueueTask \<Rightarrow> AutonomousState \<Rightarrow> AutonomousState" where
  "startTask g release task s =
     (if js_truthy_str (autonomousTaskSetupMessage task)
      then finishCall release (needsSetup (js_default [] (autonomousTaskSetupMessage task)) s)
      else suspend (AwaitStart g (startRequestFor task) task) release
        (addTimeline ''Run started'' (Some (task_title task)) TlInfo
          (addTimeline ''Next task selected'' (Some (task_title task)) TlInfo
            (s\<lparr>ar_currentStage := Some ''starting Direct Work'', ar_activeTaskTitle := Some (task_title task)\<rparr>))))"

definition advance :: "AutonomousConfig \<Rightarrow> QueueGlobalStatus \<Rightarrow> bool \<Rightarrow> AutonomousState \<Rightarrow> AutonomousState" where
  "advance cfg g release s =
     (if ar_stopAfterCurrent s
      then finishCall release
        (s\<lparr>ar_waitingForDependency := False, ar_lastSignature := None, ar_status := AsCompleted,
           ar_currentStage := None, ar_activeTaskTitle := None,
           ar_message := Some ''Autonomous Queue stopped after current task.''\<rparr>)
      else let decision = selectNextAutonomousTask (cfg_lc cfg) (ar_tasks s) (ar_started s) g;
               s' = raiseSkippedBlocked (sel_skippedCount decision) s
        in case sel_task decision of
          None \<Rightarrow>
            finishCall release
              (if 0 < sel_skippedCount decision then waitForDependencies DEPENDENCY_BLOCKER s'
               else completeNoEligible ''No eligible tasks remain.'' s')
        | Some task \<Rightarrow>
            startTask g release task
              (s'\<lparr>ar_waitingForDependency := False, ar_lastSignature := None, ar_status := AsRunning,
                  ar_message := Some ''Starting next task.''\<rparr>))"

definition startAutonomousRun ::
    "AutonomousConfig \<Rightarrow> bool \<Rightarrow> string \<Rightarrow> AutonomousState \<Rightarrow> AutonomousState" where
  "startAutonomousRun cfg hasOpenTaskEdit now s0 =
     (let s = s0\<lparr>ar_inFlight := True\<rparr>; g = ar_globalExecutionState s;
          preflight = \<lparr>pre_globalExecutionState = g, pre_hasOpenTaskEdit = hasOpenTaskEdit, pre_tasks = ar_tasks s\<rparr>
      in case autonomousSetupBlockerMessages (cfg_lc cfg) preflight of
        setupBlocker # _ \<Rightarrow>
          (case selectFirstAutonomousSetupBlockedTask (cfg_lc cfg) (ar_tasks s) (ar_started s) g of
             Some task \<Rightarrow>
               recordSmartQueueFailure
                 (queueFailureInput cfg now task (Some FkMissingConfig) None setupBlocker ''setup''
                   (Some SgEnvironment))
                 (ThenNeedsSetup setupBlocker) True s
           | None \<Rightarrow> finishCall True (needsSetup setupBlocker s))
      | [] \<Rightarrow>
          (let decision = selectNextAutonomousTask (cfg_lc cfg) (ar_tasks s) (ar_started s) g;
               s' = s\<lparr>ar_currentStage := Some ''selecting next task''\<rparr>
           in case sel_task decision of
             None \<Rightarrow>
               (let taskBlocker = (case autonomousTaskBlockerMessages (cfg_lc cfg) preflight of
                      m # _ \<Rightarrow> m | [] \<Rightarrow> NO_ELIGIBLE_TASK_BLOCKER)
                in finishCall True
                  (if taskBlocker = DEPENDENCY_BLOCKER then waitForDependencies taskBlocker s'
                   else completeNoEligible taskBlocker s'))
           | Some task \<Rightarrow> startTask g True task (raiseSkippedBlocked (sel_skippedCount decision) s')))"

definition autonomousActive :: "AutonomousState \<Rightarrow> bool" where
  "autonomousActive s \<longleftrightarrow> ar_status s = AsRunning \<or> ar_status s = AsStopping
     \<or> ar_status s = AsBlocked \<and> ar_waitingForDependency s"

definition canStartAutonomous :: "AutonomousConfig \<Rightarrow> bool \<Rightarrow> AutonomousState \<Rightarrow> bool" where
  "canStartAutonomous cfg isStarting s \<longleftrightarrow>
     length (autonomousPreconditionMessages (cfg_apiAvailable cfg) (ar_globalExecutionState s)
       (isStarting \<or> ar_inFlight s \<or> autonomousActive s)) = 0"

definition startAutonomous ::
    "AutonomousConfig \<Rightarrow> bool \<Rightarrow> bool \<Rightarrow> string \<Rightarrow> AutonomousState \<Rightarrow> AutonomousState" where
  "startAutonomous cfg isStarting hasOpenTaskEdit now s =
     (if \<not> canStartAutonomous cfg isStarting s \<or> ar_inFlight s then s
      else startAutonomousRun cfg hasOpenTaskEdit now
        (s\<lparr>ar_stopAfterCurrent := False, ar_waitingForDependency := False, ar_lastSignature := None,
           ar_started := {}, ar_activeRun := None,
           ar_counters := \<lparr>cnt_completed = 0, cnt_failed = 0, cnt_skippedBlocked = 0\<rparr>, ar_timeline := [],
           ar_activeTaskTitle := None, ar_latestReportState := None,
           ar_currentStage := Some ''checking execution readiness'', ar_error := None,
           ar_message := Some ''Autonomous Queue starting.'', ar_status := AsRunning\<rparr>))"

definition stopAfterCurrent :: "AutonomousState \<Rightarrow> AutonomousState" where
  "stopAfterCurrent s =
     addTimeline ''Stop after current task requested''
       (Some ''Stop now unavailable; will stop after current task.'') TlWarning
       (s\<lparr>ar_stopAfterCurrent := True,
          ar_status := (if ar_status s = AsRunning then AsStopping else ar_status s),
          ar_message := Some ''Stop after current task requested.''\<rparr>)"

section \<open>Finishing runs\<close>

definition completeTask ::
    "QueueGlobalStatus \<Rightarrow> ActiveAutonomousRun \<Rightarrow> string \<Rightarrow> AutonomousState \<Rightarrow> AutonomousState" where
  "completeTask g activeRun finalStatus s =
     (if ar_inFlight s then s
      else suspend (AwaitDetail g activeRun finalStatus) True
        (addTimeline ''Run completed'' (Some (arun_taskTitle activeRun @ '': '' @ finalStatus)) TlInfo
          (s\<lparr>ar_inFlight := True, ar_currentStage := Some ''loading evidence''\<rparr>)))"

definition handleAutoRefreshComplete :: "string \<Rightarrow> string \<Rightarrow> string \<Rightarrow> AutonomousState \<Rightarrow> AutonomousState" where
  "handleAutoRefreshComplete queueItemId runId finalStatus s =
     (case ar_activeRun s of
        None \<Rightarrow> s
      | Some activeRun \<Rightarrow>
          if arun_queueItemId activeRun \<noteq> queueItemId \<or> arun_runId activeRun \<noteq> runId then s
          else completeTask (ar_globalExecutionState s) activeRun finalStatus s)"

text \<open>The evidence of a run has arrived, or could not be loaded.\<close>

definition detailLoaded ::
    "AutonomousConfig \<Rightarrow> string \<Rightarrow> QueueGlobalStatus \<Rightarrow> ActiveAutonomousRun \<Rightarrow> string
     \<Rightarrow> AgentExecutorRunDetail option \<Rightarrow> bool \<Rightarrow> AutonomousState \<Rightarrow> AutonomousState" where
  "detailLoaded cfg now g activeRun finalStatus detail release s0 =
     (let s = addTimeline ''Evidence loaded'' (Some (arun_taskTitle activeRun))
            (if detail \<noteq> None then TlSuccess else TlError) s0
      in case (assessAutonomousSuccess detail finalStatus, detail) of
        (None, Some d) \<Rightarrow>
          (case taskById (arun_queueItemId activeRun) s of
             None \<Rightarrow> finishCall release
               (failRun ''Queue task could not be loaded for autonomous report.''
                 (s\<lparr>ar_currentStage := Some ''recording report''\<rparr>))
           | Some currentTask \<Rightarrow>
               suspend (AwaitReport g activeRun d currentTask) release
                 (s\<lparr>ar_currentStage := Some ''recording report''\<rparr>))
      | (outcome, _) \<Rightarrow>
          (let reason = js_default [] outcome
           in case taskById (arun_queueItemId activeRun) s of
                None \<Rightarrow> finishCall release (failRun reason s)
              | Some currentTask \<Rightarrow>
                  recordSmartQueueFailure
                    (queueFailureInput cfg now currentTask None (Some finalStatus) reason
                      (arun_runId activeRun) None)
                    (ThenFail reason) release s))"

definition reportReadyTask ::
    "string \<Rightarrow> ActiveAutonomousRun \<Rightarrow> AgentExecutorRunDetail \<Rightarrow> AgentQueueTask \<Rightarrow> AgentQueueTask option
     \<Rightarrow> AgentQueueTask" where
  "reportReadyTask now activeRun detail currentTask updatedTask =
     (let baseTask = js_default (currentTask\<lparr>task_status := ''completed''\<rparr>) updatedTask
      in baseTask\<lparr>task_coordinatorStatus := Some ''awaiting_coordinator_review'',
           task_validationStatus := Some ''needs_review'',
           task_workerExecutionReports := Some (taskReports currentTask @
             [buildAutonomousWorkerReport now detail (arun_runId activeRun) currentTask])\<rparr>)"

definition reportRecorded ::
    "AutonomousConfig \<Rightarrow> string \<Rightarrow> QueueGlobalStatus \<Rightarrow> ActiveAutonomousRun \<Rightarrow> AgentExecutorRunDetail
     \<Rightarrow> AgentQueueTask \<Rightarrow> AgentQueueTask option \<Rightarrow> bool \<Rightarrow> AutonomousState \<Rightarrow> AutonomousState" where
  "reportRecorded cfg now g activeRun detail currentTask updatedTask release s =
     advance cfg g release
       ((addTimeline ''Report ready'' (Some AUTONOMOUS_REPORT_READY_NOTE) TlSuccess
          ((incrementCompleted
            (clearActivity (s\<lparr>ar_tasks := replaceQueueTask (ar_tasks s)
               (reportReadyTask now activeRun detail currentTask updatedTask)\<rparr>)))
           \<lparr>ar_latestReportState := Some ''Report ready. Awaiting coordinator review.''\<rparr>))
        \<lparr>ar_inFlight := False\<rparr>)"

text \<open>A render while a run is active: the queue may have moved on without a completion notice.\<close>

definition reconcileActiveRun ::
    "AutonomousConfig \<Rightarrow> string \<Rightarrow> ActiveAutonomousRun \<Rightarrow> AutonomousState \<Rightarrow> AutonomousState" where
  "reconcileActiveRun cfg now activeRun s =
     (case taskById (arun_queueItemId activeRun) s of
        None \<Rightarrow>
          advance cfg (ar_globalExecutionState s) False
            (addTimeline ''Active task cleared'' (Some ''The active Queue item is no longer visible.'') TlWarning
              (s\<lparr>ar_activeRun := None, ar_lastSignature := None, ar_activeTaskTitle := None,
                 ar_currentStage := Some ''queue changed'',
                 ar_message := Some ''Active task is no longer in the queue. Starting next task.''\<rparr>))
      | Some currentTask \<Rightarrow>
          (let taskStatus = normalizeTaskStatus (task_status currentTask);
               validationStatus = normalizeValidationStatus (task_validationStatus currentTask);
               coordinatorStatus = autonomousCoordinatorStatus currentTask;
               reason = ''Active task '' @ task_title currentTask @ '' ended with '' @ taskStatusName taskStatus @ ''.''
           in if taskStatus = StRunning \<or> taskStatus = StQueued \<or> taskStatus = StReady then s
              else if taskStatus = StFailed \<or> taskStatus = StCancelled \<or> validationStatus = ValFailed
                      \<or> coordinatorStatus = ''failed''
              then recordSmartQueueFailure
                     (queueFailureInput cfg now currentTask None (Some (taskStatusName taskStatus)) reason
                       (arun_runId activeRun) None)
                     (ThenFail reason) False (s\<lparr>ar_activeRun := None, ar_lastSignature := None\<rparr>)
              else if taskStatus = StCompleted \<and> \<not> taskHasReportReadyState currentTask
              then completeTask (ar_globalExecutionState s) activeRun ''completed'' s
              else if taskReleasesAutonomousRunner currentTask
              then advance cfg (ar_globalExecutionState s) False
                (addTimeline ''Active task released''
                  (Some (task_title currentTask @ '' is no longer running.'')) TlSuccess
                  ((incrementCompleted (s\<lparr>ar_activeRun := None, ar_lastSignature := None\<rparr>))
                   \<lparr>ar_activeTaskTitle := None, ar_currentStage := Some ''starting next task'',
                    ar_latestReportState := Some (if coordinatorStatus = ''finalized''
                      then ''Coordinator finalized.'' else ''Report ready. Awaiting coordinator review.''),
                    ar_message := Some ''Starting next eligible task.''\<rparr>))
              else s))"

definition renderEffect :: "AutonomousConfig \<Rightarrow> string \<Rightarrow> AutonomousState \<Rightarrow> AutonomousState" where
  "renderEffect cfg now s =
     (if \<not> autonomousActive s \<or> ar_inFlight s then s
      else case ar_activeRun s of
        None \<Rightarrow>
          (if ar_waitingForDependency s
           then let queueSignature = autonomousQueueStateSignature (ar_tasks s)
             in if ar_lastSignature s = Some queueSignature then s
                else advance cfg (ar_globalExecutionState s) False (s\<lparr>ar_lastSignature := Some queueSignature\<rparr>)
           else s)
      | Some activeRun \<Rightarrow> reconcileActiveRun cfg now activeRun (s\<lparr>ar_lastSignature := None\<rparr>))"

section \<open>Answers\<close>

datatype ApiResult =
  ApiStarted (api_executorWidgetInstanceId: string) (api_queueItemId: string) (api_runId: string)
| ApiTasks "AgentQueueTask list"
| ApiDetail "AgentExecutorRunDetail option"
| ApiUpdated "AgentQueueTask option"
| ApiError "string option"

text \<open>\<open>errorToMessage\<close>: an \<open>Error\<close> has a message, anything else thrown gets the fallback.\<close>

definition errorToMessage :: "string option \<Rightarrow> string \<Rightarrow> string" where
  "errorToMessage error fallback = js_default fallback error"

definition queueRunStartErrorMessage :: "string option \<Rightarrow> string" where
  "queueRunStartErrorMessage error =
     (let message = errorToMessage error ''Unable to start assigned queue task.''
      in if js_contains (js_lower ''already has an active Direct Work run'') (js_lower message)
         then ''Local executor is already running another task.''
         else if js_contains ''repo root must not be empty'' (js_lower message) then ''Set workspace.''
         else message)"

text \<open>The \<open>catch\<close> of \<open>startTask\<close>, around the start and the reload.\<close>

definition startFailed ::
    "AutonomousConfig \<Rightarrow> string \<Rightarrow> AgentQueueTask \<Rightarrow> string option \<Rightarrow> bool \<Rightarrow> AutonomousState \<Rightarrow> AutonomousState" where
  "startFailed cfg now task error release s =
     (let startErrorMessage = queueRunStartErrorMessage error
      in recordSmartQueueFailure
           (queueFailureInput cfg now task (Some (classifySmartQueueFailure startErrorMessage None)) None
             startErrorMessage ''start'' None)
           (if isRunReadinessBlocker startErrorMessage then ThenBlock startErrorMessage
            else ThenFail startErrorMessage) release s)"

definition runStarted ::
    "StartRequest \<Rightarrow> AgentQueueTask \<Rightarrow> string \<Rightarrow> string \<Rightarrow> string \<Rightarrow> bool \<Rightarrow> AutonomousState \<Rightarrow> AutonomousState" where
  "runStarted request task executorWidgetInstanceId queueItemId runId release s =
     suspend (AwaitLoad task executorWidgetInstanceId) release
       (s\<lparr>ar_activeRun := Some \<lparr>arun_executorWidgetInstanceId = executorWidgetInstanceId,
            arun_queueItemId = queueItemId, arun_repoRoot = sreq_repoRoot request, arun_runId = runId,
            arun_taskTitle = task_title task\<rparr>,
          ar_waitingForDependency := False, ar_started := insert queueItemId (ar_started s)\<rparr>)"

definition tasksReloaded ::
    "AgentQueueTask \<Rightarrow> string \<Rightarrow> AgentQueueTask list \<Rightarrow> bool \<Rightarrow> AutonomousState \<Rightarrow> AutonomousState" where
  "tasksReloaded task executorWidgetInstanceId tasks release s =
     finishCall release
       (s\<lparr>ar_tasks := tasks,
          ar_currentStage :=
            Some (''waiting for local executor '' @ shortWidgetInstanceId executorWidgetInstanceId),
          ar_message := Some (''Waiting for '' @ [CHR 0x22] @ task_title task @ [CHR 0x22] @ '' to finish.'')\<rparr>)"

text \<open>An answer that does not fit the call leaves it suspended.\<close>

fun resumeCall ::
    "AutonomousConfig \<Rightarrow> string \<Rightarrow> AwaitedCall \<Rightarrow> bool \<Rightarrow> ApiResult \<Rightarrow> AutonomousState \<Rightarrow> AutonomousState option" where
  "resumeCall cfg now (AwaitStart g request task) release (ApiStarted executorId queueItemId runId) s =
     Some (runStarted request task executorId queueItemId runId release s)"
| "resumeCall cfg now (AwaitStart g request task) release (ApiError error) s =
     Some (startFailed cfg now task error release s)"
| "resumeCall cfg now (AwaitLoad task executorId) release (ApiTasks tasks) s =
     Some (tasksReloaded task executorId tasks release s)"
| "resumeCall cfg now (AwaitLoad task executorId) release (ApiError error) s =
     Some (startFailed cfg now task error release s)"
| "resumeCall cfg now (AwaitDetail g activeRun finalStatus) release (ApiDetail detail) s =
     Some (detailLoaded cfg now g activeRun finalStatus detail release s)"
| "resumeCall cfg now (AwaitDetail g activeRun finalStatus) release (ApiError error) s =
     Some (finishCall release (failRun (errorToMessage error ''Autonomous Queue task completion failed.'') s))"
| "resumeCall cfg now (AwaitReport g activeRun detail currentTask) release (ApiUpdated updatedTask) s =
     Some (reportRecorded cfg now g activeRun detail currentTask updatedTask release s)"
| "resumeCall cfg now (AwaitReport g activeRun detail currentTask) release (ApiError error) s =
     Some (finishCall release (failRun (errorToMessage error ''Autonomous Queue task completion failed.'') s))"
| "resumeCall cfg now (AwaitFailure failed after) release (ApiUpdated updatedTask) s =
     Some (finishCall release (afterFailure after (finishFailure failed updatedTask s)))"
| "resumeCall cfg now (AwaitFailure failed after) release (ApiError error) s =
     Some (finishCall release (afterFailure after (finishFailure failed None s)))"
| "resumeCall cfg now call release result s = None"

definition resumeSuspended ::
    "AutonomousConfig \<Rightarrow> string \<Rightarrow> nat \<Rightarrow> ApiResult \<Rightarrow> AutonomousState \<Rightarrow> AutonomousState" where
  "resumeSuspended cfg now n result s =
     (if n < length (ar_suspended s)
      then js_default s
        (resumeCall cfg now (sus_call (ar_suspended s ! n)) (sus_release (ar_suspended s ! n)) result
          (s\<lparr>ar_suspended := take n (ar_suspended s) @ drop (Suc n) (ar_suspended s)\<rparr>))
      else s)"

datatype AutonomousEvent =
  EvStart (ev_isStarting: bool) (ev_hasOpenTaskEdit: bool)
| EvStopAfterCurrent
| EvTasksChanged "AgentQueueTask list"
| EvGlobalExecutionState QueueGlobalStatus
| EvEffect
| EvAutoRefresh (ev_queueItemId: string) (ev_runId: string) (ev_finalStatus: string)
| EvResume nat ApiResult

fun autonomousStep :: "AutonomousConfig \<Rightarrow> string \<Rightarrow> AutonomousEvent \<Rightarrow> AutonomousState \<Rightarrow> AutonomousState" where
  "autonomousStep cfg now (EvStart isStarting hasOpenTaskEdit) s =
     startAutonomous cfg isStarting hasOpenTaskEdit now s"
| "autonomousStep cfg now EvStopAfterCurrent s = stopAfterCurrent s"
| "autonomousStep cfg now (EvTasksChanged tasks) s = s\<lparr>ar_tasks := tasks\<rparr>"
| "autonomousStep cfg now (EvGlobalExecutionState g) s = s\<lparr>ar_globalExecutionState := g\<rparr>"
| "autonomousStep cfg now EvEffect s = renderEffect cfg now s"
| "autonomousStep cfg now (EvAutoRefresh queueItemId runId finalStatus) s =
     handleAutoRefreshComplete queueItemId runId finalStatus s"
| "autonomousStep cfg now (EvResume n result) s = resumeSuspended cfg now n result s"

text \<open>A history of the runner: its events in order, each with the time it sees.\<close>

fun runnerEvents :: "AutonomousConfig \<Rightarrow> (string \<times> AutonomousEvent) list \<Rightarrow> AutonomousState \<Rightarrow> AutonomousState" where
  "runnerEvents cfg [] s = s"
| "runnerEvents cfg ((now, ev) # events) s = runnerEvents cfg events (autonomousStep cfg now ev s)"

section \<open>In every history\<close>

text \<open>
  What holds however the events are ordered: the lock is held only while a call is pending whose
  \<open>finally\<close> will clear it, and the runner shows running only while a run is active or a call other than a
  reload is pending.
\<close>

fun isReload :: "AwaitedCall \<Rightarrow> bool" where
  "isReload (AwaitLoad task executorId) \<longleftrightarrow> True"
| "isReload call \<longleftrightarrow> False"

definition underWay :: "AutonomousState \<Rightarrow> bool" where
  "underWay s \<longleftrightarrow> ar_status s = AsRunning \<or> ar_status s = AsStopping"

text \<open>While a call is being resumed, \<open>release\<close> says whether its \<open>finally\<close> is still to come.\<close>

definition resuming :: "bool \<Rightarrow> AutonomousState \<Rightarrow> bool" where
  "resuming release s \<longleftrightarrow>
     length (ar_timeline s) \<le> 20 \<and>
     (ar_waitingForDependency s \<longrightarrow> ar_status s = AsBlocked) \<and>
     (\<forall>run. ar_activeRun s = Some run \<longrightarrow> arun_queueItemId run \<in> ar_started s) \<and>
     (ar_inFlight s \<longrightarrow> release \<or> list_ex sus_release (ar_suspended s))"

definition pendingWork :: "AutonomousState \<Rightarrow> bool" where
  "pendingWork s \<longleftrightarrow> ar_activeRun s \<noteq> None \<or> list_ex (\<lambda>k. \<not> isReload (sus_call k)) (ar_suspended s)"

definition anyInv :: "AutonomousState \<Rightarrow> bool" where
  "anyInv s \<longleftrightarrow> resuming False s \<and> (underWay s \<longrightarrow> pendingWork s)"

lemma timeline_bound: "length (js_slice_last 19 xs @ [x]) \<le> 20"
  by (simp add: js_slice_last_def)

lemmas runner_updates = addTimeline_def incrementCompleted_def incrementFailed_def raiseSkippedBlocked_def
  clearActivity_def failRun_def needsSetup_def blockRun_def completeNoEligible_def suspend_def finishCall_def

lemmas any_defs = anyInv_def resuming_def pendingWork_def underWay_def

lemma resuming_cong:
  assumes "resuming release s" and "ar_suspended s' = ar_suspended s" and "ar_inFlight s' = ar_inFlight s"
    and "ar_activeRun s' = ar_activeRun s \<or> ar_activeRun s' = None" and "ar_started s' = ar_started s"
    and "ar_waitingForDependency s' \<Longrightarrow> ar_status s' = AsBlocked" and "length (ar_timeline s') \<le> 20"
  shows "resuming release s'"
  using assms by (auto simp: resuming_def)

lemma any_rest:
  assumes "resuming release s"
  shows "anyInv (finishCall release (failRun reason s))"
    and "anyInv (finishCall release (needsSetup reason s))"
    and "anyInv (finishCall release (blockRun reason s))"
    and "anyInv (finishCall release (completeNoEligible reason s))"
    and "anyInv (finishCall release (waitForDependencies reason s))"
  using assms
  by (auto simp: any_defs runner_updates waitForDependencies_def js_slice_last_def)

lemma any_afterFailure: "resuming release s \<Longrightarrow> anyInv (finishCall release (afterFailure after s))"
  by (cases after) (simp_all add: any_rest)

lemma any_suspend:
  assumes "resuming release s" and "\<not> isReload call"
  shows "anyInv (suspend call release s)"
  using assms by (auto simp: any_defs suspend_def)

lemma any_failure: "resuming release s \<Longrightarrow> anyInv (recordSmartQueueFailure input after release s)"
  by (simp add: recordSmartQueueFailure_def any_suspend)

lemma any_startTask:
  assumes "resuming release s"
  shows "anyInv (startTask g release task s)"
proof -
  have "resuming release (addTimeline a b c (addTimeline d e f (s\<lparr>ar_currentStage := x, ar_activeTaskTitle := y\<rparr>)))"
    for a b c d e f x y
    by (rule resuming_cong [OF assms])
       (use assms in \<open>auto simp: addTimeline_def js_slice_last_def resuming_def\<close>)
  then show ?thesis by (simp add: startTask_def any_rest [OF assms] any_suspend)
qed

lemma any_advance:
  assumes "resuming release s"
  shows "anyInv (advance cfg g release s)"
proof (cases "ar_stopAfterCurrent s")
  case True
  then show ?thesis using assms by (auto simp: advance_def any_defs finishCall_def)
next
  case False
  let ?d = "selectNextAutonomousTask (cfg_lc cfg) (ar_tasks s) (ar_started s) g"
  let ?s = "raiseSkippedBlocked (sel_skippedCount ?d) s"
  have r: "resuming release ?s" "resuming release (?s\<lparr>ar_waitingForDependency := False, ar_lastSignature := None,
      ar_status := AsRunning, ar_message := Some ''Starting next task.''\<rparr>)"
    by (rule resuming_cong [OF assms]; use assms in \<open>simp add: raiseSkippedBlocked_def resuming_def\<close>)+
  have "anyInv (finishCall release (if 0 < sel_skippedCount ?d then waitForDependencies DEPENDENCY_BLOCKER ?s
      else completeNoEligible ''No eligible tasks remain.'' ?s))"
    by (cases "0 < sel_skippedCount ?d") (simp_all only: if_True if_False any_rest [OF r(1)])
  then show ?thesis
    using False any_startTask [OF r(2)]
    by (cases "sel_task ?d") (simp_all only: advance_def Let_def if_False option.case)
qed

lemma any_startAutonomous:
  assumes "anyInv s"
  shows "anyInv (startAutonomous cfg isStarting hasOpenTaskEdit now s)"
proof -
  have "anyInv (startAutonomousRun cfg hasOpenTaskEdit now s')"
    if "length (ar_timeline s') \<le> 20" "\<not> ar_waitingForDependency s'" "ar_activeRun s' = None" for s'
  proof -
    have r: "resuming True (s'\<lparr>ar_inFlight := True\<rparr>)"
      "resuming True (s'\<lparr>ar_inFlight := True, ar_currentStage := x\<rparr>)"
      "resuming True (raiseSkippedBlocked n (s'\<lparr>ar_inFlight := True, ar_currentStage := x\<rparr>))" for x n
      using that by (simp_all add: resuming_def raiseSkippedBlocked_def)
    show ?thesis
      unfolding startAutonomousRun_def Let_def
      by (auto split: list.split option.split intro!: any_failure any_rest any_startTask r)
  qed
  then show ?thesis using assms by (simp add: startAutonomous_def)
qed

lemma any_completeTask:
  assumes "anyInv s" shows "anyInv (completeTask g activeRun finalStatus s)"
proof (cases "ar_inFlight s")
  case False
  have "resuming True (addTimeline a b c (s\<lparr>ar_inFlight := True, ar_currentStage := x\<rparr>))" for a b c x
    using assms by (auto simp: any_defs addTimeline_def js_slice_last_def)
  then show ?thesis using False by (simp add: completeTask_def any_suspend)
qed (simp add: completeTask_def assms)

lemma any_reconcile:
  assumes "anyInv s" and "\<not> ar_inFlight s"
  shows "anyInv (reconcileActiveRun cfg now activeRun s)"
proof -
  have r: "resuming False s'"
    if "ar_suspended s' = ar_suspended s" "ar_inFlight s' = ar_inFlight s" "ar_activeRun s' = None"
      "ar_started s' = ar_started s" "ar_waitingForDependency s' = ar_waitingForDependency s"
      "ar_status s' = ar_status s" "length (ar_timeline s') \<le> 20" for s'
    using assms that by (auto simp: any_defs)
  have a: "anyInv (advance cfg g False (addTimeline title d st s'))"
    if "ar_suspended s' = ar_suspended s" "ar_inFlight s' = ar_inFlight s" "ar_activeRun s' = None"
      "ar_started s' = ar_started s" "ar_waitingForDependency s' = ar_waitingForDependency s"
      "ar_status s' = ar_status s" for g title d st s'
    by (intro any_advance r) (use that in \<open>simp_all add: addTimeline_def js_slice_last_def\<close>)
  have t: "length (ar_timeline s) \<le> 20" using assms(1) by (simp add: any_defs)
  show ?thesis
    unfolding reconcileActiveRun_def Let_def
    by (auto split: option.split simp: incrementCompleted_def assms(1) t
        intro!: a any_completeTask [OF assms(1)] any_failure r)
qed

lemma any_effect:
  assumes "anyInv s" shows "anyInv (renderEffect cfg now s)"
proof -
  have r: "anyInv (s\<lparr>ar_lastSignature := x\<rparr>)" for x using assms by (simp add: any_defs)
  moreover from r have "resuming False (s\<lparr>ar_lastSignature := x\<rparr>)" for x by (simp add: anyInv_def)
  ultimately show ?thesis
    using assms by (auto simp: renderEffect_def Let_def split: option.split intro!: any_advance any_reconcile)
qed

lemma any_detailLoaded:
  assumes "resuming release s" shows "anyInv (detailLoaded cfg now g activeRun finalStatus detail release s)"
proof -
  have r: "resuming release (addTimeline a b c s)"
    "resuming release (addTimeline a b c s\<lparr>ar_currentStage := x\<rparr>)" for a b c x
    using assms by (auto simp: resuming_def addTimeline_def js_slice_last_def)
  show ?thesis
    unfolding detailLoaded_def Let_def
    by (auto split: option.split intro!: any_rest any_failure any_suspend r)
qed

lemma any_resumeCall:
  assumes "resumeCall cfg now call release result s = Some s'" and r: "resuming release s"
    and w: "isReload call \<Longrightarrow> underWay s \<Longrightarrow> pendingWork s"
  shows "anyInv s'"
proof -
  have start: "anyInv (startFailed cfg now task error release s)" for task error
    unfolding startFailed_def Let_def by (rule any_failure [OF r])
  have run: "anyInv (runStarted request task executorId i runId release s)" for request task executorId i runId
    using r by (auto simp: any_defs runStarted_def suspend_def)
  have load: "anyInv (tasksReloaded task executorId tasks release s)" if "isReload call" for task executorId tasks
    using r w [OF that] by (auto simp: any_defs tasksReloaded_def finishCall_def)
  have detail: "anyInv (detailLoaded cfg now g activeRun finalStatus d release s)" for g activeRun finalStatus d
    by (rule any_detailLoaded [OF r])
  have rest: "anyInv (finishCall release (failRun reason s))" for reason by (rule any_rest [OF r])
  have after: "anyInv (finishCall release (afterFailure after (finishFailure failed u s)))" for after failed u
    by (rule any_afterFailure, rule resuming_cong [OF r]) (use r in \<open>auto simp: finishFailure_def resuming_def\<close>)
  have report: "anyInv (reportRecorded cfg now g activeRun d task u release s)" for g activeRun d task u
    unfolding reportRecorded_def
    by (rule any_advance)
       (simp add: resuming_def addTimeline_def incrementCompleted_def clearActivity_def js_slice_last_def)
  show ?thesis
    using assms(1) start run load detail rest after report
    by (cases "(cfg, now, call, release, result, s)" rule: resumeCall.cases) auto
qed

lemma list_ex_remove:
  "n < length ks \<Longrightarrow> list_ex P ks \<longleftrightarrow> P (ks ! n) \<or> list_ex P (take n ks @ drop (Suc n) ks)"
  by (subst (1) id_take_nth_drop [of n ks]) auto

lemma any_resume:
  assumes "anyInv s" shows "anyInv (resumeSuspended cfg now n result s)"
proof (cases "n < length (ar_suspended s)")
  case True
  let ?k = "ar_suspended s ! n"
  let ?s = "s\<lparr>ar_suspended := take n (ar_suspended s) @ drop (Suc n) (ar_suspended s)\<rparr>"
  have r: "resuming (sus_release ?k) ?s"
    using assms list_ex_remove [OF True, of sus_release] by (auto simp: any_defs)
  have w: "isReload (sus_call ?k) \<Longrightarrow> underWay ?s \<Longrightarrow> pendingWork ?s"
    using assms list_ex_remove [OF True, of "\<lambda>k. \<not> isReload (sus_call k)"] by (auto simp: any_defs)
  show ?thesis
  proof (cases "resumeCall cfg now (sus_call ?k) (sus_release ?k) result ?s")
    case None
    with True assms show ?thesis by (simp add: resumeSuspended_def)
  next
    case (Some s')
    with True show ?thesis by (simp add: resumeSuspended_def any_resumeCall [OF Some r w])
  qed
qed (simp add: resumeSuspended_def assms)

lemma any_step:
  assumes "anyInv s" shows "anyInv (autonomousStep cfg now ev s)"
proof (cases ev)
  case EvStopAfterCurrent
  then show ?thesis
    using assms by (auto simp: stopAfterCurrent_def any_defs addTimeline_def js_slice_last_def)
next
  case (EvAutoRefresh i r f)
  then show ?thesis
    using assms any_completeTask by (auto simp: handleAutoRefreshComplete_def split: option.split)
qed (use assms in \<open>auto simp: any_startAutonomous any_effect any_resume, auto simp: any_defs\<close>)

lemma any_history: "anyInv s \<Longrightarrow> anyInv (runnerEvents cfg events s)"
  by (induction cfg events s rule: runnerEvents.induct) (simp_all add: any_step)

lemma any_initial: "anyInv (initialAutonomousState tasks)"
  by (simp add: any_defs initialAutonomousState_def)

section \<open>One call at a time\<close>

text \<open>
  The runner is meant to have at most one asynchronous call under way. The code guards the evidence and
  the report with \<open>inFlightRef\<close>, but not the reload that follows a start. So there is one way for calls to
  overlap: the end of a run is announced, by a notice or by the queue itself, before the reload after its
  start is over. \<open>settledEvent\<close> excludes that order of events; \<open>completion_overtakes_reload\<close> below shows
  what happens in it. Every other render or notice in that window is harmless.
\<close>

definition startSettled :: "AutonomousState \<Rightarrow> bool" where
  "startSettled s \<longleftrightarrow> ar_activeRun s = None \<or> ar_inFlight s \<or> ar_suspended s = []"

fun announcesEnd :: "AutonomousEvent \<Rightarrow> AutonomousState \<Rightarrow> bool" where
  "announcesEnd EvEffect s \<longleftrightarrow>
     (case ar_activeRun s of
        None \<Rightarrow> False
      | Some run \<Rightarrow> (case taskById (arun_queueItemId run) s of
            None \<Rightarrow> True
          | Some task \<Rightarrow> normalizeTaskStatus (task_status task) \<notin> {StRunning, StQueued, StReady}))"
| "announcesEnd (EvAutoRefresh queueItemId runId finalStatus) s \<longleftrightarrow>
     (case ar_activeRun s of
        None \<Rightarrow> False
      | Some run \<Rightarrow> arun_queueItemId run = queueItemId \<and> arun_runId run = runId)"
| "announcesEnd ev s \<longleftrightarrow> False"

definition settledEvent :: "AutonomousEvent \<Rightarrow> AutonomousState \<Rightarrow> bool" where
  "settledEvent ev s \<longleftrightarrow> startSettled s \<or> \<not> announcesEnd ev s"

text \<open>A history in which the end of a run overtakes the reload after its start.\<close>

fun endOvertakesReload :: "AutonomousConfig \<Rightarrow> (string \<times> AutonomousEvent) list \<Rightarrow> AutonomousState \<Rightarrow> bool" where
  "endOvertakesReload cfg [] s \<longleftrightarrow> False"
| "endOvertakesReload cfg ((now, ev) # events) s \<longleftrightarrow>
     \<not> settledEvent ev s \<or> endOvertakesReload cfg events (autonomousStep cfg now ev s)"

lemma settled_other [simp]:
  "settledEvent (EvStart a b) s" "settledEvent EvStopAfterCurrent s" "settledEvent (EvTasksChanged tasks) s"
  "settledEvent (EvGlobalExecutionState g) s" "settledEvent (EvResume n result) s"
  by (simp_all add: settledEvent_def)

lemma settled_effect:
  assumes "settledEvent EvEffect s" and "\<not> startSettled s"
  shows "renderEffect cfg now s = s \<or> renderEffect cfg now s = s\<lparr>ar_lastSignature := None\<rparr>"
proof -
  obtain run task where "ar_activeRun s = Some run" "taskById (arun_queueItemId run) s = Some task"
    "normalizeTaskStatus (task_status task) \<in> {StRunning, StQueued, StReady}"
    using assms by (auto simp: settledEvent_def startSettled_def split: option.splits)
  moreover from this(2) have "taskById (arun_queueItemId run) (s\<lparr>ar_lastSignature := None\<rparr>) = Some task"
    by (simp add: taskById_def)
  ultimately show ?thesis by (auto simp: renderEffect_def reconcileActiveRun_def Let_def)
qed

lemma settled_refresh:
  assumes "settledEvent (EvAutoRefresh i r f) s" and "\<not> startSettled s"
  shows "handleAutoRefreshComplete i r f s = s"
  using assms by (auto simp: settledEvent_def startSettled_def handleAutoRefreshComplete_def split: option.splits)

fun callOk :: "AwaitedCall \<Rightarrow> AutonomousState \<Rightarrow> bool" where
  "callOk (AwaitStart g request task) s \<longleftrightarrow> ar_activeRun s = None \<and> request = startRequestFor task
     \<and> task_queueItemId task \<notin> ar_started s"
| "callOk (AwaitLoad task executorId) s \<longleftrightarrow> ar_activeRun s \<noteq> None"
| "callOk (AwaitDetail g activeRun finalStatus) s \<longleftrightarrow> ar_activeRun s = Some activeRun \<and> ar_inFlight s"
| "callOk (AwaitReport g activeRun detail task) s \<longleftrightarrow> ar_activeRun s = Some activeRun \<and> ar_inFlight s"
| "callOk (AwaitFailure failed after) s \<longleftrightarrow> True"

definition serialInv :: "AutonomousState \<Rightarrow> bool" where
  "serialInv s \<longleftrightarrow>
     length (ar_timeline s) \<le> 20 \<and>
     (ar_waitingForDependency s \<longrightarrow> ar_status s = AsBlocked) \<and>
     (\<forall>run. ar_activeRun s = Some run \<longrightarrow> arun_queueItemId run \<in> ar_started s) \<and>
     (case ar_suspended s of
        [] \<Rightarrow> \<not> ar_inFlight s \<and> (underWay s \<longleftrightarrow> ar_activeRun s \<noteq> None)
      | [k] \<Rightarrow> underWay s \<and> (ar_inFlight s \<longrightarrow> sus_release k) \<and> callOk (sus_call k) s
      | _ \<Rightarrow> False)"

lemma callOk_cong:
  "ar_activeRun s' = ar_activeRun s \<Longrightarrow> ar_inFlight s' = ar_inFlight s \<Longrightarrow> ar_started s' = ar_started s \<Longrightarrow>
     callOk c s' \<longleftrightarrow> callOk c s"
  by (cases c) auto

lemma serialInv_cong:
  assumes "serialInv s" and "ar_suspended s' = ar_suspended s" and "ar_inFlight s' = ar_inFlight s"
    and "ar_activeRun s' = ar_activeRun s" and "ar_started s' = ar_started s"
    and "ar_waitingForDependency s' = ar_waitingForDependency s"
    and "underWay s' \<longleftrightarrow> underWay s" and "ar_status s = AsBlocked \<Longrightarrow> ar_status s' = AsBlocked"
    and "length (ar_timeline s') \<le> 20"
  shows "serialInv s'"
  using assms callOk_cong [of s' s] by (auto simp: serialInv_def split: list.splits)

lemma serialInv_timeline: "serialInv s \<Longrightarrow> length (ar_timeline s) \<le> 20"
  by (simp add: serialInv_def)

lemma serialInv_rest:
  assumes "ar_suspended s = []" and "ar_inFlight s \<Longrightarrow> release" and "length (ar_timeline s) \<le> 20"
  shows "serialInv (finishCall release (failRun reason s))"
    and "serialInv (finishCall release (needsSetup reason s))"
    and "serialInv (finishCall release (blockRun reason s))"
    and "serialInv (finishCall release (completeNoEligible reason s))"
  using assms by (auto simp: serialInv_def runner_updates underWay_def js_slice_last_def)

lemma serialInv_wait:
  assumes "ar_suspended s = []" and "ar_inFlight s \<Longrightarrow> release" and "length (ar_timeline s) \<le> 20"
    and "ar_waitingForDependency s \<Longrightarrow> ar_status s = AsBlocked"
  shows "serialInv (finishCall release (waitForDependencies reason s))"
  using assms by (auto simp: serialInv_def waitForDependencies_def runner_updates underWay_def js_slice_last_def)

lemma serialInv_failure:
  assumes "ar_suspended s = []" and "ar_inFlight s \<Longrightarrow> release" and "length (ar_timeline s) \<le> 20"
    and "underWay s" and "\<And>run. ar_activeRun s = Some run \<Longrightarrow> arun_queueItemId run \<in> ar_started s"
    and "\<not> ar_waitingForDependency s"
  shows "serialInv (recordSmartQueueFailure input after release s)"
  using assms by (auto simp: serialInv_def recordSmartQueueFailure_def suspend_def underWay_def)

lemma serialInv_afterFailure:
  assumes "ar_suspended s = []" and "ar_inFlight s \<Longrightarrow> release" and "length (ar_timeline s) \<le> 20"
  shows "serialInv (finishCall release (afterFailure after s))"
  using assms by (cases after) (simp_all add: serialInv_rest)

lemma serialInv_startTask:
  assumes "ar_suspended s = []" and "ar_inFlight s \<Longrightarrow> release" and "length (ar_timeline s) \<le> 20"
    and "underWay s" and "ar_activeRun s = None" and "\<not> ar_waitingForDependency s"
    and "task_queueItemId task \<notin> ar_started s"
  shows "serialInv (startTask g release task s)"
proof (cases "js_truthy_str (autonomousTaskSetupMessage task)")
  case True
  then show ?thesis by (simp add: startTask_def serialInv_rest assms(1,2,3))
next
  case False
  then show ?thesis
    using assms by (auto simp: startTask_def serialInv_def runner_updates underWay_def js_slice_last_def)
qed

lemma serialInv_advance:
  assumes "ar_suspended s = []" and "ar_inFlight s \<Longrightarrow> release" and "length (ar_timeline s) \<le> 20"
    and "ar_activeRun s = None" and "ar_waitingForDependency s \<Longrightarrow> ar_status s = AsBlocked"
  shows "serialInv (advance cfg g release s)"
proof (cases "ar_stopAfterCurrent s")
  case True
  then show ?thesis using assms by (auto simp: advance_def serialInv_def finishCall_def underWay_def)
next
  case False
  let ?d = "selectNextAutonomousTask (cfg_lc cfg) (ar_tasks s) (ar_started s) g"
  let ?s = "raiseSkippedBlocked (sel_skippedCount ?d) s"
  have f: "ar_suspended ?s = []" "ar_inFlight ?s = ar_inFlight s" "ar_timeline ?s = ar_timeline s"
    "ar_waitingForDependency ?s = ar_waitingForDependency s" "ar_status ?s = ar_status s"
    "ar_activeRun ?s = None" "ar_started ?s = ar_started s"
    using assms by (simp_all add: raiseSkippedBlocked_def)
  show ?thesis
  proof (cases "sel_task ?d")
    case None
    have "serialInv (finishCall release (waitForDependencies DEPENDENCY_BLOCKER ?s))"
      by (rule serialInv_wait) (use f assms in auto)
    moreover have "serialInv (finishCall release (completeNoEligible ''No eligible tasks remain.'' ?s))"
      by (rule serialInv_rest) (use f assms in auto)
    ultimately have "serialInv (finishCall release (if 0 < sel_skippedCount ?d
        then waitForDependencies DEPENDENCY_BLOCKER ?s
        else completeNoEligible ''No eligible tasks remain.'' ?s))"
      by (cases "0 < sel_skippedCount ?d") (simp_all only: if_True if_False)
    then show ?thesis using False None by (simp only: advance_def Let_def if_False option.case)
  next
    case (Some task)
    then have "task_queueItemId task \<notin> ar_started s" using selectNext_ready by (auto simp: autonomousReady_def)
    then have "serialInv (startTask g release task
        (?s\<lparr>ar_waitingForDependency := False, ar_lastSignature := None, ar_status := AsRunning,
            ar_message := Some ''Starting next task.''\<rparr>))"
      by (intro serialInv_startTask) (use f assms in \<open>auto simp: underWay_def\<close>)
    then show ?thesis using False Some by (simp add: advance_def Let_def)
  qed
qed

lemma serialInv_startAutonomousRun:
  assumes "ar_suspended s = []" and "length (ar_timeline s) \<le> 20" and "underWay s"
    and "ar_activeRun s = None" and "\<not> ar_waitingForDependency s" and "ar_started s = {}"
  shows "serialInv (startAutonomousRun cfg hasOpenTaskEdit now s)"
  unfolding startAutonomousRun_def Let_def
  using assms
  by (auto split: list.split option.split simp: underWay_def raiseSkippedBlocked_def
      intro!: serialInv_failure serialInv_rest serialInv_wait serialInv_startTask)

lemma serialInv_start:
  assumes inv: "serialInv s"
  shows "serialInv (startAutonomous cfg isStarting hasOpenTaskEdit now s)"
proof (cases "canStartAutonomous cfg isStarting s \<and> \<not> ar_inFlight s")
  case False
  then show ?thesis using inv by (auto simp: startAutonomous_def)
next
  case True
  then have rest: "\<not> underWay s"
    by (auto simp: canStartAutonomous_def autonomousPreconditionMessages_def autonomousActive_def underWay_def)
  with inv have sus: "ar_suspended s = []" by (auto simp: serialInv_def split: list.splits)
  show ?thesis
    unfolding startAutonomous_def using True
    by (auto simp: sus underWay_def intro!: serialInv_startAutonomousRun)
qed

lemma serialInv_detailLoaded:
  assumes "ar_suspended s = []" and "ar_inFlight s \<Longrightarrow> release" and "underWay s"
    and "\<not> ar_waitingForDependency s" and "ar_activeRun s = Some activeRun" and "ar_inFlight s"
    and "arun_queueItemId activeRun \<in> ar_started s"
  shows "serialInv (detailLoaded cfg now g activeRun finalStatus detail release s)"
proof -
  let ?s = "addTimeline ''Evidence loaded'' (Some (arun_taskTitle activeRun))
      (if detail \<noteq> None then TlSuccess else TlError) s"
  have f: "ar_suspended ?s = []" "ar_inFlight ?s" "length (ar_timeline ?s) \<le> 20" "underWay ?s"
    "ar_activeRun ?s = Some activeRun" "\<not> ar_waitingForDependency ?s" "ar_started ?s = ar_started s"
    using assms by (simp_all add: addTimeline_def underWay_def js_slice_last_def)
  have bad: "serialInv (case taskById (arun_queueItemId activeRun) ?s of
        None \<Rightarrow> finishCall release (failRun reason ?s)
      | Some currentTask \<Rightarrow> recordSmartQueueFailure (input currentTask) (ThenFail reason) release ?s)"
    for reason input
    by (cases "taskById (arun_queueItemId activeRun) ?s")
       (use f assms in \<open>auto intro!: serialInv_rest serialInv_failure\<close>)
  have good: "serialInv (case taskById (arun_queueItemId activeRun) ?s of
        None \<Rightarrow> finishCall release (failRun ''Queue task could not be loaded for autonomous report.''
          (?s\<lparr>ar_currentStage := Some ''recording report''\<rparr>))
      | Some currentTask \<Rightarrow> suspend (AwaitReport g activeRun d currentTask) release
          (?s\<lparr>ar_currentStage := Some ''recording report''\<rparr>))" for d
  proof (cases "taskById (arun_queueItemId activeRun) ?s")
    case None
    then show ?thesis using f assms by (auto intro!: serialInv_rest)
  next
    case (Some t)
    then show ?thesis using f assms by (auto simp: serialInv_def suspend_def underWay_def)
  qed
  show ?thesis
    unfolding detailLoaded_def Let_def
    using good bad by (cases "assessAutonomousSuccess detail finalStatus"; cases detail) simp_all
qed

lemma serialInv_completeTask:
  assumes "serialInv s" and "ar_activeRun s = Some activeRun" and "underWay s" and "startSettled s"
  shows "serialInv (completeTask g activeRun finalStatus s)"
proof (cases "ar_inFlight s")
  case True
  with assms show ?thesis by (simp add: completeTask_def)
next
  case False
  with assms(2,4) have "ar_suspended s = []" by (auto simp: startSettled_def)
  with assms False show ?thesis
    by (auto simp: completeTask_def serialInv_def addTimeline_def suspend_def underWay_def js_slice_last_def)
qed

lemma serialInv_settled:
  assumes "serialInv s" and "startSettled s" and "\<not> ar_inFlight s" and "ar_activeRun s = Some activeRun"
  shows "ar_suspended s = []" "underWay s" "\<not> ar_waitingForDependency s"
    "arun_queueItemId activeRun \<in> ar_started s" "length (ar_timeline s) \<le> 20"
  using assms by (auto simp: serialInv_def startSettled_def underWay_def)

lemma serialInv_reconcile:
  assumes "serialInv s" and "startSettled s" and "\<not> ar_inFlight s" and "ar_activeRun s = Some activeRun"
  shows "serialInv (reconcileActiveRun cfg now activeRun s)"
proof -
  note f = serialInv_settled [OF assms]
  have c: "serialInv (completeTask g activeRun finalStatus s)" for g finalStatus
    by (rule serialInv_completeTask [OF assms(1,4) f(2) assms(2)])
  have a: "serialInv (advance cfg g False (addTimeline title d st s'))"
    if "ar_suspended s' = []" "\<not> ar_inFlight s'" "ar_activeRun s' = None" "\<not> ar_waitingForDependency s'"
    for g title d st s'
    by (rule serialInv_advance) (use that in \<open>simp_all add: addTimeline_def js_slice_last_def\<close>)
  show ?thesis
    unfolding reconcileActiveRun_def Let_def
    using f assms(1,3)
    by (auto split: option.split simp: incrementCompleted_def underWay_def intro!: c a serialInv_failure)
qed

lemma serialInv_effect:
  assumes "serialInv s" and "startSettled s"
  shows "serialInv (renderEffect cfg now s)"
proof (cases "\<not> autonomousActive s \<or> ar_inFlight s")
  case True
  then show ?thesis using assms by (auto simp: renderEffect_def)
next
  case act: False
  show ?thesis
  proof (cases "ar_activeRun s")
    case None
    show ?thesis
    proof (cases "ar_waitingForDependency s \<and> ar_lastSignature s \<noteq> Some (autonomousQueueStateSignature (ar_tasks s))")
      case True
      with assms(1) None have "ar_suspended s = []" "ar_status s = AsBlocked" "length (ar_timeline s) \<le> 20"
        by (auto simp: serialInv_def underWay_def split: list.splits)
      with True act None have "serialInv (advance cfg (ar_globalExecutionState s) False
          (s\<lparr>ar_lastSignature := Some (autonomousQueueStateSignature (ar_tasks s))\<rparr>))"
        by (intro serialInv_advance) auto
      with True act None show ?thesis by (auto simp: renderEffect_def Let_def)
    next
      case False
      with act None assms(1) show ?thesis by (auto simp: renderEffect_def Let_def)
    qed
  next
    case (Some activeRun)
    have "serialInv (s\<lparr>ar_lastSignature := None\<rparr>)"
      using serialInv_timeline [OF assms(1)] by (auto simp: underWay_def intro!: serialInv_cong [OF assms(1)])
    then have "serialInv (reconcileActiveRun cfg now activeRun (s\<lparr>ar_lastSignature := None\<rparr>))"
      by (rule serialInv_reconcile) (use act assms(2) Some in \<open>auto simp: startSettled_def\<close>)
    with act Some show ?thesis by (simp add: renderEffect_def)
  qed
qed

lemma serialInv_reportRecorded:
  assumes "ar_suspended s = []"
  shows "serialInv (reportRecorded cfg now g activeRun detail currentTask updatedTask release s)"
  unfolding reportRecorded_def
  by (rule serialInv_advance)
     (use assms in \<open>simp_all add: addTimeline_def incrementCompleted_def clearActivity_def js_slice_last_def\<close>)

lemma serialInv_resumeCall:
  assumes inv: "serialInv s" and k: "ar_suspended s = [k]"
    and r: "resumeCall cfg now (sus_call k) (sus_release k) result (s\<lparr>ar_suspended := []\<rparr>) = Some s'"
  shows "serialInv s'"
proof -
  let ?s = "s\<lparr>ar_suspended := []\<rparr>"
  have f: "ar_suspended ?s = []" "ar_inFlight ?s \<Longrightarrow> sus_release k" "underWay ?s" "length (ar_timeline ?s) \<le> 20"
    "\<not> ar_waitingForDependency ?s" "callOk (sus_call k) s"
    "\<And>run. ar_activeRun ?s = Some run \<Longrightarrow> arun_queueItemId run \<in> ar_started ?s"
    using inv k by (auto simp: serialInv_def underWay_def)
  have start: "serialInv (startFailed cfg now task error (sus_release k) ?s)" for task error
    unfolding startFailed_def Let_def by (rule serialInv_failure) (use f in auto)
  have run: "serialInv (runStarted request task executorId i runId (sus_release k) ?s)" for request task executorId i runId
    using f by (auto simp: runStarted_def suspend_def serialInv_def underWay_def)
  have load: "serialInv (tasksReloaded task executorId tasks (sus_release k) ?s)" if "ar_activeRun s \<noteq> None"
    for task executorId tasks
    using f that by (auto simp: tasksReloaded_def finishCall_def serialInv_def underWay_def)
  have detail: "serialInv (detailLoaded cfg now g activeRun finalStatus d (sus_release k) ?s)"
    if "ar_activeRun s = Some activeRun" "ar_inFlight s" for g activeRun finalStatus d
    by (rule serialInv_detailLoaded) (use f that in auto)
  have rest: "serialInv (finishCall (sus_release k) (failRun reason ?s))" for reason
    by (rule serialInv_rest) (use f in auto)
  have after: "serialInv (finishCall (sus_release k) (afterFailure after (finishFailure failed u ?s)))" for after failed u
    by (rule serialInv_afterFailure) (use f in \<open>auto simp: finishFailure_def\<close>)
  have report: "serialInv (reportRecorded cfg now g activeRun d task u (sus_release k) ?s)" for g activeRun d task u
    by (rule serialInv_reportRecorded) simp
  show ?thesis
    using r f(6) start run load detail rest after report
    by (cases "(cfg, now, sus_call k, sus_release k, result, ?s)" rule: resumeCall.cases) auto
qed

lemma serialInv_resume:
  assumes "serialInv s"
  shows "serialInv (resumeSuspended cfg now n result s)"
proof (cases "n < length (ar_suspended s)")
  case True
  with assms obtain k where k: "ar_suspended s = [k]" "n = 0"
    by (auto simp: serialInv_def split: list.splits)
  show ?thesis
  proof (cases "resumeCall cfg now (sus_call k) (sus_release k) result (s\<lparr>ar_suspended := []\<rparr>)")
    case None
    with k assms show ?thesis by (simp add: resumeSuspended_def)
  next
    case (Some s')
    with k show ?thesis by (simp add: resumeSuspended_def serialInv_resumeCall [OF assms k(1) Some])
  qed
next
  case False
  with assms show ?thesis by (simp add: resumeSuspended_def)
qed

lemma serialInv_step:
  assumes inv: "serialInv s" and ev: "settledEvent ev s"
  shows "serialInv (autonomousStep cfg now ev s)"
proof (cases ev)
  case EvStopAfterCurrent
  then show ?thesis
    using inv by (auto simp: stopAfterCurrent_def addTimeline_def underWay_def js_slice_last_def
        intro!: serialInv_cong [OF inv])
next
  case (EvTasksChanged tasks)
  then show ?thesis
    using serialInv_timeline [OF inv] by (auto simp: underWay_def intro!: serialInv_cong [OF inv])
next
  case (EvGlobalExecutionState g)
  then show ?thesis
    using serialInv_timeline [OF inv] by (auto simp: underWay_def intro!: serialInv_cong [OF inv])
next
  case (EvAutoRefresh i r f)
  show ?thesis
  proof (cases "startSettled s \<and> ar_activeRun s \<noteq> None")
    case False
    have "handleAutoRefreshComplete i r f s = s"
    proof (cases "startSettled s")
      case True
      with False show ?thesis by (simp add: handleAutoRefreshComplete_def)
    next
      case False
      with settled_refresh ev EvAutoRefresh show ?thesis by simp
    qed
    with EvAutoRefresh inv show ?thesis by simp
  next
    case True
    then obtain activeRun where Some: "ar_activeRun s = Some activeRun" by blast
    have "serialInv (completeTask (ar_globalExecutionState s) activeRun f s)"
    proof (cases "ar_inFlight s")
      case True
      with inv show ?thesis by (simp add: completeTask_def)
    next
      case False
      with \<open>startSettled s \<and> _\<close> serialInv_settled(2) [OF inv _ False Some] show ?thesis
        by (intro serialInv_completeTask [OF inv Some]) auto
    qed
    with EvAutoRefresh inv Some show ?thesis by (simp add: handleAutoRefreshComplete_def)
  qed
next
  case EvEffect
  show ?thesis
  proof (cases "startSettled s")
    case True
    with EvEffect inv show ?thesis by (simp add: serialInv_effect)
  next
    case False
    have "serialInv (s\<lparr>ar_lastSignature := None\<rparr>)"
      using serialInv_timeline [OF inv] by (auto simp: underWay_def intro!: serialInv_cong [OF inv])
    with settled_effect [of s cfg now] False EvEffect ev inv show ?thesis by auto
  qed
qed (use inv in \<open>auto intro: serialInv_start serialInv_resume\<close>)

inductive serialRun :: "AutonomousConfig \<Rightarrow> AutonomousState \<Rightarrow> bool" for cfg where
  serial_initial: "serialRun cfg (initialAutonomousState tasks)"
| serial_step: "serialRun cfg s \<Longrightarrow> settledEvent ev s \<Longrightarrow> serialRun cfg (autonomousStep cfg now ev s)"

lemma serialRun_inv: "serialRun cfg s \<Longrightarrow> serialInv s"
proof (induction rule: serialRun.induct)
  case (serial_initial tasks)
  show ?case by (simp add: initialAutonomousState_def serialInv_def underWay_def)
qed (rule serialInv_step)

section \<open>What starts and what is started\<close>

text \<open>The operations that bring a runner to rest change neither the queue nor the started set.\<close>

lemma rest_frame [simp]:
  "ar_started (failRun r s) = ar_started s" "ar_tasks (failRun r s) = ar_tasks s"
  "ar_suspended (failRun r s) = ar_suspended s"
  "ar_started (needsSetup r s) = ar_started s" "ar_tasks (needsSetup r s) = ar_tasks s"
  "ar_suspended (needsSetup r s) = ar_suspended s"
  "ar_started (blockRun r s) = ar_started s" "ar_tasks (blockRun r s) = ar_tasks s"
  "ar_suspended (blockRun r s) = ar_suspended s"
  "ar_started (completeNoEligible r s) = ar_started s" "ar_tasks (completeNoEligible r s) = ar_tasks s"
  "ar_suspended (completeNoEligible r s) = ar_suspended s"
  "ar_started (waitForDependencies r s) = ar_started s" "ar_tasks (waitForDependencies r s) = ar_tasks s"
  "ar_suspended (waitForDependencies r s) = ar_suspended s"
  "ar_started (finishCall release s) = ar_started s" "ar_tasks (finishCall release s) = ar_tasks s"
  "ar_suspended (finishCall release s) = ar_suspended s"
  "ar_started (addTimeline a b c s) = ar_started s" "ar_tasks (addTimeline a b c s) = ar_tasks s"
  "ar_suspended (addTimeline a b c s) = ar_suspended s"
  "ar_started (incrementCompleted s) = ar_started s" "ar_tasks (incrementCompleted s) = ar_tasks s"
  "ar_suspended (incrementCompleted s) = ar_suspended s"
  "ar_started (raiseSkippedBlocked n s) = ar_started s" "ar_tasks (raiseSkippedBlocked n s) = ar_tasks s"
  "ar_suspended (raiseSkippedBlocked n s) = ar_suspended s"
  "ar_started (clearActivity s) = ar_started s" "ar_tasks (clearActivity s) = ar_tasks s"
  "ar_suspended (clearActivity s) = ar_suspended s"
  by (simp_all add: runner_updates waitForDependencies_def)

lemma afterFailure_frame [simp]:
  "ar_started (afterFailure after s) = ar_started s" "ar_tasks (afterFailure after s) = ar_tasks s"
  "ar_suspended (afterFailure after s) = ar_suspended s"
  by (cases after; simp)+

lemma suspend_frame [simp]:
  "ar_started (suspend call release s) = ar_started s" "ar_tasks (suspend call release s) = ar_tasks s"
  "ar_suspended (suspend call release s) = ar_suspended s @ [\<lparr>sus_call = call, sus_release = release\<rparr>]"
  by (simp_all add: suspend_def)

lemma recordFailure_frame [simp]:
  "ar_started (recordSmartQueueFailure input after release s) = ar_started s"
  "ar_tasks (recordSmartQueueFailure input after release s) = ar_tasks s"
  "ar_suspended (recordSmartQueueFailure input after release s) =
     ar_suspended s @ [\<lparr>sus_call = AwaitFailure (recordedFailure input) after, sus_release = release\<rparr>]"
  by (simp_all add: recordSmartQueueFailure_def)

text \<open>A requested start whose task is ready, in the state the request leaves.\<close>

definition readyRequest :: "QueueGlobalStatus \<Rightarrow> StartRequest \<Rightarrow> AgentQueueTask \<Rightarrow> AutonomousState \<Rightarrow> bool" where
  "readyRequest g request task s \<longleftrightarrow> request = startRequestFor task \<and> task \<in> set (ar_tasks s)
     \<and> autonomousReady g (ar_started s) (ar_tasks s) task"

definition newStartsReady :: "AutonomousState \<Rightarrow> AutonomousState \<Rightarrow> bool" where
  "newStartsReady s s' \<longleftrightarrow>
     (\<forall>sus g request task. sus \<in> set (ar_suspended s') \<and> sus_call sus = AwaitStart g request task \<longrightarrow>
        sus \<in> set (ar_suspended s) \<or> readyRequest g request task s')"

lemma newStartsReady_same: "ar_suspended s' = ar_suspended s \<Longrightarrow> newStartsReady s s'"
  by (simp add: newStartsReady_def)

lemma newStartsReady_suspend:
  "(\<And>g request task. call \<noteq> AwaitStart g request task) \<Longrightarrow> ar_suspended s' = ar_suspended s \<Longrightarrow>
     newStartsReady s (suspend call release s')"
  by (auto simp: newStartsReady_def)

lemma startTask_frame [simp]:
  "ar_started (startTask g release task s) = ar_started s" "ar_tasks (startTask g release task s) = ar_tasks s"
  by (simp_all add: startTask_def)

lemma advance_frame [simp]:
  "ar_started (advance cfg g release s) = ar_started s" "ar_tasks (advance cfg g release s) = ar_tasks s"
  by (simp_all add: advance_def Let_def split: option.split)

lemma startTask_newStarts:
  assumes "sel_task (selectNextAutonomousTask lc (ar_tasks s) (ar_started s) g) = Some task"
    and "ar_suspended s = ar_suspended s0"
  shows "newStartsReady s0 (startTask g release task s)"
  using selectNext_ready [OF assms(1)] assms(2)
  by (auto simp: newStartsReady_def readyRequest_def startTask_def split: if_splits)

lemma advance_newStarts: "newStartsReady s (advance cfg g release s)"
proof (cases "ar_stopAfterCurrent s")
  case True
  then show ?thesis by (simp add: advance_def newStartsReady_same)
next
  case False
  then show ?thesis
    by (cases "sel_task (selectNextAutonomousTask (cfg_lc cfg) (ar_tasks s) (ar_started s) g)")
       (auto simp: advance_def Let_def intro!: startTask_newStarts intro: newStartsReady_same)
qed

lemma newStartsReady_advance:
  "ar_suspended s' = ar_suspended s \<Longrightarrow> newStartsReady s (advance cfg g release s')"
  using advance_newStarts [of s' cfg g release] by (simp add: newStartsReady_def)

lemma newStartsReady_failure:
  "ar_suspended s' = ar_suspended s \<Longrightarrow> newStartsReady s (recordSmartQueueFailure input after release s')"
  unfolding recordSmartQueueFailure_def by (rule newStartsReady_suspend) auto

lemmas newStarts_intros = newStartsReady_suspend newStartsReady_advance
  newStartsReady_failure startTask_newStarts

lemma startAutonomousRun_newStarts: "newStartsReady s (startAutonomousRun cfg hasOpenTaskEdit now s)"
  unfolding startAutonomousRun_def Let_def
  by (auto split: list.split option.split intro!: newStarts_intros intro: newStartsReady_same)

lemma newStartsReady_start: "newStartsReady s (startAutonomous cfg isStarting hasOpenTaskEdit now s)"
proof -
  have "newStartsReady s (startAutonomousRun cfg hasOpenTaskEdit now s')" if "ar_suspended s' = ar_suspended s" for s'
    using startAutonomousRun_newStarts [of s' cfg hasOpenTaskEdit now] that by (simp add: newStartsReady_def)
  then show ?thesis by (auto simp: startAutonomous_def intro: newStartsReady_same)
qed

lemma newStartsReady_complete:
  "ar_suspended s' = ar_suspended s \<Longrightarrow> newStartsReady s (completeTask g activeRun finalStatus s')"
  by (auto simp: completeTask_def intro!: newStarts_intros intro: newStartsReady_same)

lemma newStartsReady_reconcile:
  "ar_suspended s' = ar_suspended s \<Longrightarrow> newStartsReady s (reconcileActiveRun cfg now activeRun s')"
  unfolding reconcileActiveRun_def Let_def
  by (auto split: option.split intro!: newStarts_intros newStartsReady_complete intro: newStartsReady_same)

lemma newStartsReady_effect: "newStartsReady s (renderEffect cfg now s)"
  unfolding renderEffect_def Let_def
  by (auto split: option.split intro!: newStarts_intros newStartsReady_reconcile intro: newStartsReady_same)

lemma newStartsReady_detailLoaded: "newStartsReady s (detailLoaded cfg now g activeRun finalStatus detail release s)"
  unfolding detailLoaded_def Let_def
  by (auto split: option.split intro!: newStarts_intros intro: newStartsReady_same)

lemma newStartsReady_resumeCall:
  "resumeCall cfg now call release result s = Some s' \<Longrightarrow> newStartsReady s s'"
  by (cases "(cfg, now, call, release, result, s)" rule: resumeCall.cases)
     (auto simp: runStarted_def startFailed_def Let_def tasksReloaded_def finishFailure_def reportRecorded_def
       intro!: newStarts_intros newStartsReady_detailLoaded intro: newStartsReady_same)

lemma newStartsReady_resume: "newStartsReady s (resumeSuspended cfg now n result s)"
proof (cases "n < length (ar_suspended s)")
  case True
  let ?s = "s\<lparr>ar_suspended := take n (ar_suspended s) @ drop (Suc n) (ar_suspended s)\<rparr>"
  have sub: "set (ar_suspended ?s) \<subseteq> set (ar_suspended s)"
    by (auto dest: in_set_takeD in_set_dropD)
  show ?thesis
  proof (cases "resumeCall cfg now (sus_call (ar_suspended s ! n)) (sus_release (ar_suspended s ! n)) result ?s")
    case None
    with True show ?thesis by (simp add: resumeSuspended_def newStartsReady_same)
  next
    case (Some s')
    have "newStartsReady s s'" using newStartsReady_resumeCall [OF Some] sub unfolding newStartsReady_def by blast
    with True Some show ?thesis by (simp add: resumeSuspended_def)
  qed
next
  case False
  then show ?thesis by (simp add: resumeSuspended_def newStartsReady_same)
qed

lemma newStartsReady_step: "newStartsReady s (autonomousStep cfg now ev s)"
proof (cases ev)
  case (EvAutoRefresh i r f)
  then show ?thesis
    by (auto simp: handleAutoRefreshComplete_def split: option.split
        intro!: newStartsReady_complete intro: newStartsReady_same)
qed (auto simp: stopAfterCurrent_def intro: newStartsReady_same newStartsReady_start newStartsReady_effect
    newStartsReady_resume)

section \<open>A pass ends\<close>

text \<open>
  A pass is what happens until the next \<open>start\<close>. \<open>answersStart\<close> marks the events that turn a requested
  start into a run. The shell names the task it was asked to start, and the queue only ever holds items
  with ids in \<open>ids\<close>.
\<close>

fun answersStart :: "AutonomousEvent \<Rightarrow> AutonomousState \<Rightarrow> bool" where
  "answersStart (EvResume n (ApiStarted executorId queueItemId runId)) s \<longleftrightarrow>
     n < length (ar_suspended s) \<and> (case sus_call (ar_suspended s ! n) of AwaitStart _ _ _ \<Rightarrow> True | _ \<Rightarrow> False)"
| "answersStart ev s \<longleftrightarrow> False"

fun honestAnswer :: "AutonomousEvent \<Rightarrow> AutonomousState \<Rightarrow> bool" where
  "honestAnswer (EvResume n (ApiStarted executorId queueItemId runId)) s \<longleftrightarrow>
     n < length (ar_suspended s) \<longrightarrow>
     (case sus_call (ar_suspended s ! n) of AwaitStart _ request _ \<Rightarrow> queueItemId = sreq_queueItemId request | _ \<Rightarrow> True)"
| "honestAnswer ev s \<longleftrightarrow> True"

fun queueIdsWithin :: "string set \<Rightarrow> AutonomousEvent \<Rightarrow> bool" where
  "queueIdsWithin ids (EvTasksChanged tasks) \<longleftrightarrow> task_queueItemId ` set tasks \<subseteq> ids"
| "queueIdsWithin ids (EvResume n (ApiTasks tasks)) \<longleftrightarrow> task_queueItemId ` set tasks \<subseteq> ids"
| "queueIdsWithin ids ev \<longleftrightarrow> True"

fun isStart :: "AutonomousEvent \<Rightarrow> bool" where
  "isStart (EvStart isStarting hasOpenTaskEdit) \<longleftrightarrow> True"
| "isStart ev \<longleftrightarrow> False"

definition idsWithin :: "string set \<Rightarrow> AutonomousState \<Rightarrow> bool" where
  "idsWithin ids s \<longleftrightarrow> task_queueItemId ` set (ar_tasks s) \<subseteq> ids
     \<and> (\<forall>sus g request task. sus \<in> set (ar_suspended s) \<and> sus_call sus = AwaitStart g request task \<longrightarrow>
          task_queueItemId task \<in> ids)"

lemma replaceQueueTask_ids [simp]:
  "task_queueItemId ` set (replaceQueueTask tasks u) = task_queueItemId ` set tasks"
  by (induction tasks) (auto simp: replaceQueueTask_def)

lemma completeTask_frame [simp]:
  "ar_started (completeTask g activeRun f s) = ar_started s" "ar_tasks (completeTask g activeRun f s) = ar_tasks s"
  by (simp_all add: completeTask_def)

lemma reconcile_frame [simp]:
  "ar_started (reconcileActiveRun cfg now activeRun s) = ar_started s"
  "ar_tasks (reconcileActiveRun cfg now activeRun s) = ar_tasks s"
  by (simp_all add: reconcileActiveRun_def Let_def split: option.split)

lemma effect_frame [simp]:
  "ar_started (renderEffect cfg now s) = ar_started s" "ar_tasks (renderEffect cfg now s) = ar_tasks s"
  by (simp_all add: renderEffect_def Let_def split: option.split)

lemma detailLoaded_frame [simp]:
  "ar_started (detailLoaded cfg now g activeRun f detail release s) = ar_started s"
  "ar_tasks (detailLoaded cfg now g activeRun f detail release s) = ar_tasks s"
  by (auto simp: detailLoaded_def Let_def split: option.split)

lemma answer_frame [simp]:
  "ar_started (startFailed cfg now task error release s) = ar_started s"
  "ar_tasks (startFailed cfg now task error release s) = ar_tasks s"
  "ar_started (runStarted request task e i r release s) = insert i (ar_started s)"
  "ar_tasks (runStarted request task e i r release s) = ar_tasks s"
  "ar_started (tasksReloaded task e tasks release s) = ar_started s"
  "ar_tasks (tasksReloaded task e tasks release s) = tasks"
  "ar_started (finishFailure failed u s) = ar_started s"
  "task_queueItemId ` set (ar_tasks (finishFailure failed u s)) = task_queueItemId ` set (ar_tasks s)"
  "ar_started (reportRecorded cfg now g activeRun d task u release s) = ar_started s"
  "task_queueItemId ` set (ar_tasks (reportRecorded cfg now g activeRun d task u release s))
     = task_queueItemId ` set (ar_tasks s)"
  by (simp_all add: startFailed_def Let_def runStarted_def tasksReloaded_def finishFailure_def reportRecorded_def)

lemma resumeCall_started:
  assumes "resumeCall cfg now call release result s = Some s'"
  shows "ar_started s' = (case (call, result) of
      (AwaitStart _ _ _, ApiStarted _ queueItemId _) \<Rightarrow> insert queueItemId (ar_started s) | _ \<Rightarrow> ar_started s)"
  using assms by (cases "(cfg, now, call, release, result, s)" rule: resumeCall.cases) auto

lemma resumeCall_ids:
  assumes "resumeCall cfg now call release result s = Some s'"
    and "queueIdsWithin ids (EvResume n result)" and "task_queueItemId ` set (ar_tasks s) \<subseteq> ids"
  shows "task_queueItemId ` set (ar_tasks s') \<subseteq> ids"
proof -
  define Q where "Q = (\<lambda>s :: AutonomousState. task_queueItemId ` set (ar_tasks s))"
  have q: "Q (startFailed cfg now task error release s) = Q s" "Q (runStarted request task e i r release s) = Q s"
    "Q (tasksReloaded task e tasks release s) = task_queueItemId ` set tasks"
    "Q (finishCall release s) = Q s" "Q (failRun reason s) = Q s" "Q (afterFailure after s) = Q s"
    "Q (finishFailure failed u s) = Q s" "Q (reportRecorded cfg now g activeRun d task u release s) = Q s"
    "Q (detailLoaded cfg now g activeRun f detail release s) = Q s"
    for task error release request e i r tasks reason after failed u g activeRun d f detail s
    by (simp_all add: Q_def)
  have "Q s' = (case (call, result) of
      (AwaitLoad _ _, ApiTasks tasks) \<Rightarrow> task_queueItemId ` set tasks | _ \<Rightarrow> Q s)"
    using assms(1) by (cases "(cfg, now, call, release, result, s)" rule: resumeCall.cases) (auto simp: q)
  with assms(2,3) show ?thesis by (cases call; cases result) (simp_all add: Q_def)
qed

lemma resume_started:
  assumes inv: "serialInv s" and ids: "idsWithin ids s" and hon: "honestAnswer (EvResume n result) s"
    and q: "queueIdsWithin ids (EvResume n result)"
  shows "task_queueItemId ` set (ar_tasks (resumeSuspended cfg now n result s)) \<subseteq> ids"
    and "if answersStart (EvResume n result) s
      then \<exists>i \<in> ids - ar_started s. ar_started (resumeSuspended cfg now n result s) = insert i (ar_started s)
      else ar_started (resumeSuspended cfg now n result s) = ar_started s"
proof -
  let ?r = "resumeSuspended cfg now n result s"
  have tasks: "task_queueItemId ` set (ar_tasks s) \<subseteq> ids" using ids by (simp add: idsWithin_def)
  have "task_queueItemId ` set (ar_tasks ?r) \<subseteq> ids \<and>
    (if answersStart (EvResume n result) s
      then \<exists>i \<in> ids - ar_started s. ar_started ?r = insert i (ar_started s)
      else ar_started ?r = ar_started s)"
  proof (cases "n < length (ar_suspended s)")
    case False
    then have "\<not> answersStart (EvResume n result) s" by (cases result) auto
    with False tasks show ?thesis by (simp add: resumeSuspended_def)
  next
    case True
    with inv obtain k where k: "ar_suspended s = [k]" "n = 0"
      by (auto simp: serialInv_def split: list.splits)
    have ok: "callOk (sus_call k) s" using inv k by (simp add: serialInv_def)
    let ?s = "s\<lparr>ar_suspended := []\<rparr>"
    show ?thesis
    proof (cases "resumeCall cfg now (sus_call k) (sus_release k) result ?s")
      case None
      then have "\<not> answersStart (EvResume n result) s" using k
        by (cases result; cases "sus_call k") auto
      with None k tasks show ?thesis by (simp add: resumeSuspended_def)
    next
      case (Some s')
      have r: "?r = s'" using k Some by (simp add: resumeSuspended_def)
      have "task_queueItemId ` set (ar_tasks s') \<subseteq> ids"
        using resumeCall_ids [OF Some q] tasks by simp
      moreover have "if answersStart (EvResume n result) s
        then \<exists>i \<in> ids - ar_started s. ar_started s' = insert i (ar_started s)
        else ar_started s' = ar_started s"
      proof (cases "answersStart (EvResume n result) s")
        case True
        then obtain e i rid g request task where c: "result = ApiStarted e i rid" "sus_call k = AwaitStart g request task"
          using k by (cases result; cases "sus_call k") auto
        have "i = task_queueItemId task" "i \<notin> ar_started s"
          using hon ok c k by (auto simp: startRequestFor_def)
        moreover have "task_queueItemId task \<in> ids" using ids c(2) k(1) unfolding idsWithin_def by simp
        moreover have "ar_started s' = insert i (ar_started s)" using resumeCall_started [OF Some] c by simp
        ultimately show ?thesis using True by auto
      next
        case False
        then have "ar_started s' = ar_started s"
          using resumeCall_started [OF Some] k by (cases result; cases "sus_call k") auto
        with False show ?thesis by simp
      qed
      ultimately show ?thesis unfolding r by blast
    qed
  qed
  then show "task_queueItemId ` set (ar_tasks ?r) \<subseteq> ids"
    and "if answersStart (EvResume n result) s
      then \<exists>i \<in> ids - ar_started s. ar_started ?r = insert i (ar_started s)
      else ar_started ?r = ar_started s" by auto
qed

lemma step_started:
  assumes "serialInv s" and "idsWithin ids s" and "honestAnswer ev s" and "queueIdsWithin ids ev" and "\<not> isStart ev"
  shows "task_queueItemId ` set (ar_tasks (autonomousStep cfg now ev s)) \<subseteq> ids"
    and "if answersStart ev s
      then \<exists>i \<in> ids - ar_started s. ar_started (autonomousStep cfg now ev s) = insert i (ar_started s)
      else ar_started (autonomousStep cfg now ev s) = ar_started s"
proof -
  have tasks: "task_queueItemId ` set (ar_tasks s) \<subseteq> ids" using assms(2) by (simp add: idsWithin_def)
  have "(\<exists>n r. ev = EvResume n r) \<or>
    \<not> answersStart ev s \<and> ar_started (autonomousStep cfg now ev s) = ar_started s
      \<and> task_queueItemId ` set (ar_tasks (autonomousStep cfg now ev s)) \<subseteq> ids"
    using assms(4,5) tasks
    by (cases ev) (simp_all add: stopAfterCurrent_def handleAutoRefreshComplete_def split: option.split)
  then show "task_queueItemId ` set (ar_tasks (autonomousStep cfg now ev s)) \<subseteq> ids"
    and "if answersStart ev s
      then \<exists>i \<in> ids - ar_started s. ar_started (autonomousStep cfg now ev s) = insert i (ar_started s)
      else ar_started (autonomousStep cfg now ev s) = ar_started s"
    using resume_started [OF assms(1,2)] assms(3,4)
    by (elim disjE exE, simp_all del: answersStart.simps)+
qed

lemma idsWithin_step:
  assumes "serialInv s" and "idsWithin ids s" and "honestAnswer ev s" and "queueIdsWithin ids ev" and "\<not> isStart ev"
  shows "idsWithin ids (autonomousStep cfg now ev s)"
  unfolding idsWithin_def
proof (intro conjI allI impI, rule step_started(1) [OF assms])
  fix sus g request task
  assume sus: "sus \<in> set (ar_suspended (autonomousStep cfg now ev s)) \<and> sus_call sus = AwaitStart g request task"
  then have "sus \<in> set (ar_suspended s) \<or> readyRequest g request task (autonomousStep cfg now ev s)"
    using newStartsReady_step unfolding newStartsReady_def by blast
  then show "task_queueItemId task \<in> ids"
  proof
    assume "sus \<in> set (ar_suspended s)"
    with sus assms(2) show ?thesis unfolding idsWithin_def by blast
  next
    assume "readyRequest g request task (autonomousStep cfg now ev s)"
    with step_started(1) [OF assms] show ?thesis unfolding readyRequest_def by blast
  qed
qed

section \<open>The runner's contract\<close>

text \<open>
  What a pass looks like from outside: the phase and the items started so far. The runner rests, asks for
  a start, has one run, collects its evidence and report, records a failure, or waits for dependencies.
\<close>

datatype RunnerPhase =
  PhResting | PhWaiting | PhRequesting string | PhRunning string | PhRecording string | PhFailing

inductive runnerSpec :: "RunnerPhase \<times> string set \<Rightarrow> RunnerPhase \<times> string set \<Rightarrow> bool" where
  spec_begin: "p \<in> {PhResting, PhWaiting, PhFailing} \<union> range PhRequesting \<Longrightarrow> runnerSpec (PhResting, S) (p, {})"
| spec_started: "runnerSpec (PhRequesting i, S) (PhRunning j, insert j S)"
| spec_notStarted: "runnerSpec (PhRequesting i, S) (PhFailing, S)"
| spec_finished: "runnerSpec (PhRunning i, S) (PhRecording i, S)"
| spec_runFailed: "p = PhRunning i \<or> p = PhRecording i \<Longrightarrow> runnerSpec (p, S) (PhFailing, S)"
| spec_next: "p = PhRunning i \<or> p = PhRecording i \<or> p = PhWaiting \<Longrightarrow> j \<notin> S \<Longrightarrow>
    runnerSpec (p, S) (PhRequesting j, S)"
| spec_done: "p = PhRunning i \<or> p = PhRecording i \<or> p = PhWaiting \<Longrightarrow> q = PhWaiting \<or> q = PhResting \<Longrightarrow>
    runnerSpec (p, S) (q, S)"
| spec_stopped: "runnerSpec (PhFailing, S) (PhResting, S)"

inductive_simps runnerSpec_simps:
  "runnerSpec (PhResting, S) (p, T)" "runnerSpec (PhRequesting i, S) (p, T)" "runnerSpec (PhRunning i, S) (p, T)"
  "runnerSpec (PhRecording i, S) (p, T)" "runnerSpec (PhWaiting, S) (p, T)" "runnerSpec (PhFailing, S) (p, T)"

definition activeItem :: "AutonomousState \<Rightarrow> string" where
  "activeItem s = (case ar_activeRun s of Some activeRun \<Rightarrow> arun_queueItemId activeRun | None \<Rightarrow> [])"

fun phaseOfCall :: "AwaitedCall \<Rightarrow> string \<Rightarrow> RunnerPhase" where
  "phaseOfCall (AwaitStart g request task) i = PhRequesting (sreq_queueItemId request)"
| "phaseOfCall (AwaitLoad task executorId) i = PhRunning i"
| "phaseOfCall (AwaitDetail g activeRun finalStatus) i = PhRecording (arun_queueItemId activeRun)"
| "phaseOfCall (AwaitReport g activeRun detail task) i = PhRecording (arun_queueItemId activeRun)"
| "phaseOfCall (AwaitFailure failed after) i = PhFailing"

definition phaseOf :: "AutonomousState \<Rightarrow> RunnerPhase" where
  "phaseOf s =
     (case ar_suspended s of
        k # _ \<Rightarrow> phaseOfCall (sus_call k) (activeItem s)
      | [] \<Rightarrow> if ar_activeRun s \<noteq> None then PhRunning (activeItem s)
              else if ar_waitingForDependency s then PhWaiting else PhResting)"

definition absRunner :: "AutonomousState \<Rightarrow> RunnerPhase \<times> string set" where
  "absRunner s = (phaseOf s, ar_started s)"

lemma absRunner_cong:
  "ar_suspended s' = ar_suspended s \<Longrightarrow> ar_activeRun s' = ar_activeRun s \<Longrightarrow> ar_started s' = ar_started s \<Longrightarrow>
     ar_waitingForDependency s' = ar_waitingForDependency s \<Longrightarrow> absRunner s' = absRunner s"
  by (cases "ar_suspended s") (simp_all add: absRunner_def phaseOf_def activeItem_def)

lemma activity_frame [simp]:
  "ar_activeRun (suspend call release s) = ar_activeRun s"
  "ar_activeRun (finishCall release s) = ar_activeRun s"
  "ar_activeRun (addTimeline a b c s) = ar_activeRun s"
  "ar_activeRun (incrementCompleted s) = ar_activeRun s"
  by (simp_all add: suspend_def finishCall_def addTimeline_def incrementCompleted_def)

lemma phase_rest:
  assumes "ar_suspended s = []"
  shows "phaseOf (finishCall release (failRun reason s)) = PhResting"
    "phaseOf (finishCall release (needsSetup reason s)) = PhResting"
    "phaseOf (finishCall release (completeNoEligible reason s)) = PhResting"
    "phaseOf (finishCall release (waitForDependencies reason s)) = PhWaiting"
    "phaseOf (finishCall release (afterFailure after s)) = PhResting"
  using assms by (cases after; auto simp: phaseOf_def runner_updates waitForDependencies_def)+

lemma phase_failure:
  "ar_suspended s = [] \<Longrightarrow> phaseOf (recordSmartQueueFailure input after release s) = PhFailing"
  by (simp add: phaseOf_def)

lemma phase_startTask:
  assumes "ar_suspended s = []"
  shows "phaseOf (startTask g release task s) =
    (if js_truthy_str (autonomousTaskSetupMessage task) then PhResting else PhRequesting (task_queueItemId task))"
  using assms by (simp add: startTask_def phase_rest) (simp add: phaseOf_def startRequestFor_def)

lemma phase_advance:
  assumes "ar_suspended s = []" and "ar_activeRun s = None"
  shows "(\<exists>j. j \<notin> ar_started s \<and> phaseOf (advance cfg g release s) = PhRequesting j)
    \<or> phaseOf (advance cfg g release s) = PhWaiting \<or> phaseOf (advance cfg g release s) = PhResting"
proof (cases "ar_stopAfterCurrent s")
  case True
  then show ?thesis using assms by (simp add: advance_def phaseOf_def finishCall_def)
next
  case False
  show ?thesis
  proof (cases "sel_task (selectNextAutonomousTask (cfg_lc cfg) (ar_tasks s) (ar_started s) g)")
    case None
    with False assms show ?thesis by (simp add: advance_def Let_def phase_rest)
  next
    case (Some task)
    have "task_queueItemId task \<notin> ar_started s" using selectNext_ready [OF Some] by (simp add: autonomousReady_def)
    with False Some assms show ?thesis by (simp add: advance_def Let_def phase_startTask)
  qed
qed

lemma phase_startAutonomousRun:
  assumes "ar_suspended s = []" and "ar_started s = {}"
  shows "runnerSpec (PhResting, S) (absRunner (startAutonomousRun cfg hasOpenTaskEdit now s))"
proof -
  let ?g = "ar_globalExecutionState s"
  have f: "phaseOf (startAutonomousRun cfg hasOpenTaskEdit now s) \<in> {PhResting, PhWaiting, PhFailing} \<union> range PhRequesting"
    unfolding startAutonomousRun_def Let_def
    using assms by (auto split: list.split option.split simp: phase_rest phase_failure phase_startTask)
  have "ar_started (startAutonomousRun cfg hasOpenTaskEdit now s) = {}"
    unfolding startAutonomousRun_def Let_def using assms by (auto split: list.split option.split)
  with f show ?thesis unfolding absRunner_def by (metis spec_begin)
qed

lemma phase_next:
  assumes "ar_suspended s = []" and "ar_activeRun s = None" and "ar_started s = S"
    and "p = PhRunning i \<or> p = PhRecording i \<or> p = PhWaiting"
  shows "runnerSpec (p, S) (absRunner (advance cfg g release s))"
  using phase_advance [OF assms(1,2), of cfg g release] assms(3)
  by (auto simp: absRunner_def intro: spec_next [OF assms(4)] spec_done [OF assms(4)])

lemma spec_detailLoaded:
  assumes "ar_suspended s = []" and "ar_started s = S"
  shows "absRunner (detailLoaded cfg now g activeRun f detail release s) = (PhRecording (arun_queueItemId activeRun), S)
    \<or> runnerSpec (PhRecording (arun_queueItemId activeRun), S)
        (absRunner (detailLoaded cfg now g activeRun f detail release s))"
proof -
  have "phaseOf (detailLoaded cfg now g activeRun f detail release s)
      \<in> {PhRecording (arun_queueItemId activeRun), PhFailing, PhResting}"
    using assms(1)
    by (auto simp: detailLoaded_def Let_def phase_rest phase_failure split: option.split)
      (simp_all add: phaseOf_def)
  then show ?thesis using assms(2) by (auto simp: absRunner_def runnerSpec_simps)
qed

lemma spec_resumeCall:
  assumes "resumeCall cfg now call release result s = Some s'" and "ar_suspended s = []"
    and "\<not> ar_waitingForDependency s" and "callOk call s"
  shows "absRunner s' = (phaseOfCall call (activeItem s), ar_started s)
    \<or> runnerSpec (phaseOfCall call (activeItem s), ar_started s) (absRunner s')"
proof (cases "(cfg, now, call, release, result, s)" rule: resumeCall.cases)
  case (1 cfg' now' g request task release' executorId queueItemId runId s'')
  with assms have "absRunner s' = (PhRunning queueItemId, insert queueItemId (ar_started s))"
    by (auto simp: absRunner_def phaseOf_def runStarted_def activeItem_def)
  with 1 show ?thesis by (simp add: runnerSpec_simps)
next
  case (3 cfg' now' task executorId release' tasks s'')
  with assms have "absRunner s' = (PhRunning (activeItem s), ar_started s)"
    by (auto simp: absRunner_def phaseOf_def tasksReloaded_def activeItem_def finishCall_def)
  with 3 show ?thesis by simp
next
  case (5 cfg' now' g activeRun finalStatus release' detail s'')
  with assms spec_detailLoaded [OF assms(2) refl, of cfg now g activeRun finalStatus detail release] show ?thesis
    by auto
next
  case (7 cfg' now' g activeRun detail currentTask release' updatedTask s'')
  with assms have "s' = reportRecorded cfg now g activeRun detail currentTask updatedTask release s" by simp
  then have "runnerSpec (PhRecording (arun_queueItemId activeRun), ar_started s) (absRunner s')"
    unfolding reportRecorded_def
    by (simp only:) (rule phase_next, simp_all add: assms(2) clearActivity_def incrementCompleted_def addTimeline_def)
  with 7 show ?thesis by simp
qed (use assms in \<open>auto simp: absRunner_def phase_rest phase_failure startFailed_def Let_def runnerSpec_simps
       finishFailure_def\<close>)

lemma spec_resume:
  assumes inv: "serialInv s"
  shows "absRunner (resumeSuspended cfg now n result s) = absRunner s
    \<or> runnerSpec (absRunner s) (absRunner (resumeSuspended cfg now n result s))"
proof (cases "n < length (ar_suspended s)")
  case True
  with inv obtain k where k: "ar_suspended s = [k]" "n = 0"
    by (auto simp: serialInv_def split: list.splits)
  then have ok: "callOk (sus_call k) s" "\<not> ar_waitingForDependency s"
    using inv by (auto simp: serialInv_def underWay_def)
  let ?s = "s\<lparr>ar_suspended := []\<rparr>"
  have a: "absRunner s = (phaseOfCall (sus_call k) (activeItem ?s), ar_started ?s)"
    using k by (simp add: absRunner_def phaseOf_def activeItem_def)
  show ?thesis
  proof (cases "resumeCall cfg now (sus_call k) (sus_release k) result ?s")
    case None
    with k show ?thesis by (simp add: resumeSuspended_def)
  next
    case (Some s')
    have "callOk (sus_call k) ?s" using ok(1) callOk_cong [of ?s s "sus_call k"] by simp
    then have "absRunner s' = absRunner s \<or> runnerSpec (absRunner s) (absRunner s')"
      unfolding a by (intro spec_resumeCall [OF Some]) (use ok(2) in auto)
    with k Some show ?thesis by (simp add: resumeSuspended_def)
  qed
qed (simp add: resumeSuspended_def)

lemma spec_complete:
  assumes "ar_suspended s = []" and "ar_activeRun s = Some activeRun" and "\<not> ar_inFlight s"
  shows "runnerSpec (PhRunning (arun_queueItemId activeRun), ar_started s) (absRunner (completeTask g activeRun f s))"
  using assms by (simp add: completeTask_def absRunner_def phaseOf_def runnerSpec_simps)

lemma spec_reconcile:
  assumes "ar_suspended s = []" and "ar_activeRun s = Some activeRun" and "\<not> ar_inFlight s"
  shows "absRunner (reconcileActiveRun cfg now activeRun s) = (PhRunning (arun_queueItemId activeRun), ar_started s)
    \<or> runnerSpec (PhRunning (arun_queueItemId activeRun), ar_started s) (absRunner (reconcileActiveRun cfg now activeRun s))"
proof -
  have a: "runnerSpec (PhRunning i, S) (absRunner (advance cfg g False s'))"
    if "ar_suspended s' = []" "ar_activeRun s' = None" "ar_started s' = S" for i g s' S
    using phase_next that by blast
  have f: "runnerSpec (PhRunning i, S) (absRunner (recordSmartQueueFailure input after False s'))"
    if "ar_suspended s' = []" "ar_started s' = S" for i S input after s'
    using that by (simp add: absRunner_def phase_failure runnerSpec_simps)
  have c: "runnerSpec (PhRunning (arun_queueItemId activeRun), ar_started s) (absRunner (completeTask g activeRun x s))" for g x
    by (rule spec_complete [OF assms])
  have same: "absRunner s = (PhRunning (arun_queueItemId activeRun), ar_started s)"
    using assms by (simp add: absRunner_def phaseOf_def activeItem_def)
  show ?thesis
    unfolding reconcileActiveRun_def Let_def
    using assms same by (auto split: option.split intro: a f c)
qed

lemma spec_effect:
  assumes inv: "serialInv s" and st: "startSettled s"
  shows "absRunner (renderEffect cfg now s) = absRunner s \<or> runnerSpec (absRunner s) (absRunner (renderEffect cfg now s))"
proof (cases "\<not> autonomousActive s \<or> ar_inFlight s")
  case True
  then show ?thesis by (auto simp: renderEffect_def)
next
  case act: False
  show ?thesis
  proof (cases "ar_activeRun s")
    case None
    show ?thesis
    proof (cases "ar_waitingForDependency s")
      case True
      with inv None have sus: "ar_suspended s = []" by (auto simp: serialInv_def underWay_def split: list.splits)
      have "runnerSpec (PhWaiting, ar_started s) (absRunner (advance cfg (ar_globalExecutionState s) False
          (s\<lparr>ar_lastSignature := Some (autonomousQueueStateSignature (ar_tasks s))\<rparr>)))"
        by (rule phase_next) (use sus None in auto)
      moreover have "absRunner s = (PhWaiting, ar_started s)"
        using sus None True by (simp add: absRunner_def phaseOf_def)
      ultimately show ?thesis using act None True by (auto simp: renderEffect_def Let_def)
    next
      case False
      with act None show ?thesis by (simp add: renderEffect_def)
    qed
  next
    case (Some activeRun)
    have sus: "ar_suspended s = []" using st Some act by (auto simp: startSettled_def)
    have "absRunner s = (PhRunning (arun_queueItemId activeRun), ar_started (s\<lparr>ar_lastSignature := None\<rparr>))"
      using sus Some by (simp add: absRunner_def phaseOf_def activeItem_def)
    then have "absRunner (reconcileActiveRun cfg now activeRun (s\<lparr>ar_lastSignature := None\<rparr>)) = absRunner s
      \<or> runnerSpec (absRunner s) (absRunner (reconcileActiveRun cfg now activeRun (s\<lparr>ar_lastSignature := None\<rparr>)))"
      by (simp only:) (rule spec_reconcile, use sus Some act in auto)
    with act Some show ?thesis by (simp add: renderEffect_def)
  qed
qed

lemma spec_start:
  assumes inv: "serialInv s"
  shows "absRunner (startAutonomous cfg isStarting hasOpenTaskEdit now s) = absRunner s
    \<or> runnerSpec (PhResting, ar_started s) (absRunner (startAutonomous cfg isStarting hasOpenTaskEdit now s))
      \<and> absRunner s = (PhResting, ar_started s)"
proof (cases "canStartAutonomous cfg isStarting s \<and> \<not> ar_inFlight s")
  case False
  then show ?thesis by (auto simp: startAutonomous_def)
next
  case True
  then have rest: "\<not> autonomousActive s"
    by (auto simp: canStartAutonomous_def autonomousPreconditionMessages_def)
  with inv have sus: "ar_suspended s = []" "ar_activeRun s = None" "\<not> ar_waitingForDependency s"
    by (auto simp: serialInv_def autonomousActive_def underWay_def split: list.splits)
  then have "absRunner s = (PhResting, ar_started s)" by (simp add: absRunner_def phaseOf_def)
  then show ?thesis
    unfolding startAutonomous_def using True sus by (auto intro!: phase_startAutonomousRun)
qed

lemma spec_step:
  assumes inv: "serialInv s" and ev: "settledEvent ev s"
  shows "absRunner (autonomousStep cfg now ev s) = absRunner s
    \<or> runnerSpec (absRunner s) (absRunner (autonomousStep cfg now ev s))"
proof -
  show ?thesis
  proof (cases ev)
    case (EvStart isStarting hasOpenTaskEdit)
    then show ?thesis using spec_start [OF inv] by (metis autonomousStep.simps(1))
  next
    case EvEffect
    show ?thesis
    proof (cases "startSettled s")
      case True
      with EvEffect show ?thesis using spec_effect [OF inv] by simp
    next
      case False
      have "absRunner (s\<lparr>ar_lastSignature := None\<rparr>) = absRunner s" by (rule absRunner_cong) simp_all
      with settled_effect [of s cfg now] False EvEffect ev show ?thesis by auto
    qed
  next
    case (EvResume n result)
    then show ?thesis using spec_resume [OF inv] by simp
  next
    case (EvAutoRefresh i r f)
    show ?thesis
    proof (cases "startSettled s \<and> ar_activeRun s \<noteq> None")
      case False
      have "handleAutoRefreshComplete i r f s = s"
      proof (cases "startSettled s")
        case True
        with False show ?thesis by (simp add: handleAutoRefreshComplete_def)
      next
        case False
        with settled_refresh ev EvAutoRefresh show ?thesis by simp
      qed
      with EvAutoRefresh show ?thesis by simp
    next
      case True
      then obtain activeRun where Some: "ar_activeRun s = Some activeRun" and st: "startSettled s" by blast
      show ?thesis
      proof (cases "ar_inFlight s")
        case True
        with EvAutoRefresh Some show ?thesis by (simp add: handleAutoRefreshComplete_def completeTask_def)
      next
        case False
        with EvAutoRefresh Some st have sus: "ar_suspended s = []" by (simp add: startSettled_def)
        then have "absRunner s = (PhRunning (arun_queueItemId activeRun), ar_started s)"
          using Some by (simp add: absRunner_def phaseOf_def activeItem_def)
        with EvAutoRefresh Some spec_complete [OF sus Some False] show ?thesis
          by (auto simp: handleAutoRefreshComplete_def)
      qed
    qed
  qed (auto simp: stopAfterCurrent_def addTimeline_def intro!: absRunner_cong)
qed

section \<open>The moves of a pass\<close>

text \<open>
  \<open>n\<close> counts the runs a pass has started, \<open>m\<close> its moves: the events that change its phase or the items
  started.
\<close>

inductive autonomousPass :: "AutonomousConfig \<Rightarrow> string set \<Rightarrow> AutonomousState \<Rightarrow> nat \<Rightarrow> nat \<Rightarrow> AutonomousState \<Rightarrow> bool"
  for cfg ids s where
  pass_begin: "autonomousPass cfg ids s 0 0 s"
| pass_event: "autonomousPass cfg ids s n m s' \<Longrightarrow> \<not> isStart ev \<Longrightarrow> settledEvent ev s' \<Longrightarrow> honestAnswer ev s' \<Longrightarrow>
    queueIdsWithin ids ev \<Longrightarrow>
    autonomousPass cfg ids s (if answersStart ev s' then Suc n else n)
      (if absRunner (autonomousStep cfg now ev s') = absRunner s' then m else Suc m) (autonomousStep cfg now ev s')"

fun phaseRank :: "RunnerPhase \<Rightarrow> nat" where
  "phaseRank PhResting = 0"
| "phaseRank PhFailing = 1"
| "phaseRank (PhRequesting i) = 2"
| "phaseRank PhWaiting = 3"
| "phaseRank (PhRecording i) = 4"
| "phaseRank (PhRunning i) = 5"

lemma phaseOfCall_eq:
  "phaseOfCall call i \<noteq> PhResting" "phaseOfCall call i \<noteq> PhWaiting"
  "phaseOfCall call i = PhRequesting j \<longleftrightarrow> (\<exists>g request task. call = AwaitStart g request task \<and> j = sreq_queueItemId request)"
  by (cases call; auto)+

lemma phase_at_rest:
  assumes "serialInv s" and "phaseOf s = PhResting" and "\<not> isStart ev"
  shows "absRunner (autonomousStep cfg now ev s) = absRunner s"
proof -
  have s: "ar_suspended s = []" "ar_activeRun s = None" "\<not> ar_waitingForDependency s"
    using assms(2) by (auto simp: phaseOf_def phaseOfCall_eq split: list.splits if_splits)
  with assms(1) have "\<not> autonomousActive s" by (auto simp: serialInv_def autonomousActive_def underWay_def)
  then show ?thesis
    using assms(3) s
    by (cases ev) (auto simp: renderEffect_def resumeSuspended_def handleAutoRefreshComplete_def stopAfterCurrent_def
        addTimeline_def intro!: absRunner_cong)
qed

text \<open>Only an answered start turns an asking runner into a running one.\<close>

lemma requesting_to_running:
  assumes inv: "serialInv s" and req: "phaseOf s = PhRequesting i" and ev: "\<not> answersStart ev s" "\<not> isStart ev"
  shows "phaseOf (autonomousStep cfg now ev s) \<noteq> PhRunning j"
proof -
  obtain k where k: "ar_suspended s = [k]"
    using inv req by (auto simp: phaseOf_def serialInv_def split: list.splits if_splits)
  with req obtain g request task where c: "sus_call k = AwaitStart g request task"
    by (auto simp: phaseOf_def phaseOfCall_eq)
  with inv k have s: "ar_activeRun s = None" "\<not> ar_waitingForDependency s"
    by (auto simp: serialInv_def underWay_def)
  have same: "phaseOf s' \<noteq> PhRunning j" if "absRunner s' = absRunner s" for s'
    using that req by (simp add: absRunner_def)
  show ?thesis
  proof (cases ev)
    case (EvResume n result)
    show ?thesis
    proof (cases "n = 0 \<and> (\<exists>e. result = ApiError e)")
      case True
      then show ?thesis using EvResume k c
        by (auto simp: resumeSuspended_def startFailed_def Let_def phase_failure)
    next
      case False
      then have "resumeSuspended cfg now n result s = s"
        using EvResume k c ev(1) by (cases result) (auto simp: resumeSuspended_def)
      with EvResume same show ?thesis by simp
    qed
  next
    case EvEffect
    then show ?thesis using s same by (simp add: renderEffect_def)
  next
    case (EvAutoRefresh q r f)
    then show ?thesis using s same by (simp add: handleAutoRefreshComplete_def)
  qed (use ev(2) in \<open>auto simp: stopAfterCurrent_def addTimeline_def intro!: same absRunner_cong\<close>)
qed

definition movesLeft :: "string set \<Rightarrow> AutonomousState \<Rightarrow> nat" where
  "movesLeft ids s = 4 * card (ids - ar_started s) + phaseRank (phaseOf s)"

lemma movesLeft_step:
  assumes inv: "serialInv s" and ids: "idsWithin ids s" and ev: "honestAnswer ev s" "queueIdsWithin ids ev" "\<not> isStart ev"
    and st: "settledEvent ev s" and fin: "finite ids"
    and move: "absRunner (autonomousStep cfg now ev s) \<noteq> absRunner s"
  shows "movesLeft ids (autonomousStep cfg now ev s) < movesLeft ids s"
proof -
  let ?s = "autonomousStep cfg now ev s"
  have spec: "runnerSpec (absRunner s) (absRunner ?s)" using spec_step [OF inv st] move by blast
  note started = step_started(2) [OF inv ids ev, of cfg now]
  show ?thesis
  proof (cases "answersStart ev s")
    case True
    then obtain i where i: "i \<in> ids - ar_started s" "ar_started ?s = insert i (ar_started s)" using started by auto
    then have "ids - ar_started ?s = ids - ar_started s - {i}" by auto
    then have c: "Suc (card (ids - ar_started ?s)) = card (ids - ar_started s)"
      using i(1) fin by (metis card.remove finite_Diff)
    have "phaseOf s \<noteq> PhResting" using phase_at_rest [OF inv _ ev(3)] move by blast
    then have "\<exists>j. phaseOf s = PhRequesting j"
      using spec i(2) i(1) unfolding absRunner_def by (cases "phaseOf s") (auto simp: runnerSpec_simps)
    then obtain j where j: "phaseOf s = PhRequesting j" by blast
    have "phaseRank p \<le> 5" for p by (cases p) simp_all
    from this [of "phaseOf ?s"] c j show ?thesis by (simp add: movesLeft_def)
  next
    case False
    then have c: "ar_started ?s = ar_started s" using started by simp
    have "phaseOf s \<noteq> PhResting" using phase_at_rest [OF inv _ ev(3)] move by blast
    moreover have "\<And>i j. phaseOf s = PhRequesting i \<Longrightarrow> phaseOf ?s \<noteq> PhRunning j"
      by (rule requesting_to_running [OF inv _ False ev(3)])
    ultimately have "phaseRank (phaseOf ?s) < phaseRank (phaseOf s)"
      using spec move c unfolding absRunner_def by (cases "phaseOf s") (auto simp: runnerSpec_simps)
    with c show ?thesis by (simp add: movesLeft_def)
  qed
qed

lemma autonomousPass_measure:
  assumes "autonomousPass cfg ids s n m s'" and "serialInv s" and "idsWithin ids s" and "finite ids"
  shows "serialInv s' \<and> idsWithin ids s' \<and> n + card (ids - ar_started s') = card (ids - ar_started s)
    \<and> m + movesLeft ids s' \<le> movesLeft ids s"
  using assms
proof (induction rule: autonomousPass.induct)
  case (pass_event n m s' ev now)
  then have inv: "serialInv s'" "idsWithin ids s'" and
    c: "n + card (ids - ar_started s') = card (ids - ar_started s)" "m + movesLeft ids s' \<le> movesLeft ids s" by auto
  let ?s = "autonomousStep cfg now ev s'"
  have "(if answersStart ev s' then Suc n else n) + card (ids - ar_started ?s) = n + card (ids - ar_started s')"
  proof (cases "answersStart ev s'")
    case True
    with step_started(2) [OF inv pass_event.hyps(4,5,2), of cfg now] obtain i where
      i: "i \<in> ids - ar_started s'" "ar_started ?s = insert i (ar_started s')" by auto
    then have "ids - ar_started s' = insert i (ids - insert i (ar_started s'))" by auto
    then have "card (ids - ar_started s') = Suc (card (ids - insert i (ar_started s')))"
      using \<open>finite ids\<close> by (metis card_insert_disjoint finite_Diff insertI1 Diff_iff)
    with True i(2) show ?thesis by simp
  next
    case False
    with step_started(2) [OF inv pass_event.hyps(4,5,2), of cfg now] show ?thesis by simp
  qed
  moreover have "(if absRunner ?s = absRunner s' then m else Suc m) + movesLeft ids ?s \<le> m + movesLeft ids s'"
  proof (cases "absRunner ?s = absRunner s'")
    case True
    then show ?thesis by (simp add: absRunner_def movesLeft_def)
  next
    case False
    from movesLeft_step [OF inv pass_event.hyps(4,5,2,3) \<open>finite ids\<close> False] False show ?thesis by simp
  qed
  ultimately show ?case
    using c serialInv_step [OF inv(1) pass_event.hyps(3)] idsWithin_step [OF inv pass_event.hyps(4,5,2)] by simp
qed auto

section \<open>What the runner does\<close>

text \<open>
  C1. The runner refines its contract: every event of a run in which no announcement of a run's end
  overtakes the reload after its start (\<open>settledEvent\<close>) either leaves the
  phase and the started items alone or takes one step of \<open>runnerSpec\<close>, which runs one item at a time and
  never asks for an item it has started in the same pass.
\<close>

theorem runner_refines_contract:
  assumes "serialRun cfg s" and "settledEvent ev s"
  shows "absRunner (autonomousStep cfg now ev s) = absRunner s
    \<or> runnerSpec (absRunner s) (absRunner (autonomousStep cfg now ev s))"
  using assms spec_step serialRun_inv by blast

definition exampleConfig :: AutonomousConfig where
  "exampleConfig = \<lparr>cfg_lc = codeUnitCompare, cfg_apiAvailable = True, cfg_queueWidgetInstanceId = None\<rparr>"

text \<open>The example run: one ready task, and the state after the start, which asks for it.\<close>

definition requestsReadyTask :: "AutonomousState \<Rightarrow> bool" where
  "requestsReadyTask s \<longleftrightarrow>
     absRunner s = (PhRequesting ''a'', {}) \<and> ar_status s = AsRunning \<and> ar_started s = {}
     \<and> ar_suspended s = [\<lparr>sus_call = AwaitStart QueueStarted (startRequestFor readyTask) readyTask,
          sus_release = True\<rparr>]
     \<and> ar_tasks s = [readyTask]"

lemma example_started:
  "requestsReadyTask (autonomousStep exampleConfig [] (EvStart False False) (initialAutonomousState [readyTask]))"
  by code_simp

lemma runner_refines_contract_witness:
  "absRunner (autonomousStep exampleConfig [] (EvStart False False) (initialAutonomousState [readyTask]))
      = (PhRequesting ''a'', {}) \<and>
   (absRunner (autonomousStep exampleConfig [] (EvStart False False) (initialAutonomousState [readyTask]))
      = absRunner (initialAutonomousState [readyTask]) \<or>
    runnerSpec (absRunner (initialAutonomousState [readyTask]))
      (absRunner (autonomousStep exampleConfig [] (EvStart False False) (initialAutonomousState [readyTask]))))"
proof
  show "absRunner (autonomousStep exampleConfig [] (EvStart False False) (initialAutonomousState [readyTask]))
      = (PhRequesting ''a'', {})"
    using example_started by (simp only: requestsReadyTask_def)
  show "absRunner (autonomousStep exampleConfig [] (EvStart False False) (initialAutonomousState [readyTask]))
      = absRunner (initialAutonomousState [readyTask]) \<or>
    runnerSpec (absRunner (initialAutonomousState [readyTask]))
      (absRunner (autonomousStep exampleConfig [] (EvStart False False) (initialAutonomousState [readyTask])))"
    by (rule runner_refines_contract [OF serial_initial]) simp
qed

lemma serial_history:
  "serialRun cfg s \<Longrightarrow> \<not> endOvertakesReload cfg events s \<Longrightarrow> serialRun cfg (runnerEvents cfg events s)"
  by (induction cfg events s rule: runnerEvents.induct) (auto intro: serial_step)

text \<open>
  C4. The runner after any history, its events in any order. Always: the lock is held only while a call is
  pending that will clear it; the runner shows running or stopping only while a run is active or a call
  other than a reload is pending, so it never gets stuck in between; it waits for dependencies only while
  it shows blocked; the active run is of an item started in this pass; and the timeline keeps at most 20
  entries. Provided that the end of a run was never announced before the reload after its start was over
  (\<open>completion_overtakes_reload\<close> shows that the code does not prevent this), moreover: at most one call is
  under way; the runner shows running or stopping exactly while a call is under way or a run is active; it
  waits for dependencies only with neither; and a requested start excludes an active run and names an
  item that was not started in this pass.
\<close>

theorem runner_invariant:
  "let s = runnerEvents cfg events (initialAutonomousState tasks) in
    (ar_inFlight s \<longrightarrow> list_ex sus_release (ar_suspended s)) \<and>
    (ar_status s \<in> {AsRunning, AsStopping} \<longrightarrow>
       ar_activeRun s \<noteq> None \<or> list_ex (\<lambda>k. \<not> isReload (sus_call k)) (ar_suspended s)) \<and>
    (ar_waitingForDependency s \<longrightarrow> ar_status s = AsBlocked) \<and>
    (case ar_activeRun s of Some run \<Rightarrow> arun_queueItemId run \<in> ar_started s | None \<Rightarrow> True) \<and>
    length (ar_timeline s) \<le> 20 \<and>
    (if endOvertakesReload cfg events (initialAutonomousState tasks) then True
     else length (ar_suspended s) \<le> 1 \<and>
       (ar_status s \<in> {AsRunning, AsStopping} \<longleftrightarrow> ar_suspended s \<noteq> [] \<or> ar_activeRun s \<noteq> None) \<and>
       (ar_waitingForDependency s \<longrightarrow> ar_suspended s = [] \<and> ar_activeRun s = None) \<and>
       (case map sus_call (ar_suspended s) of
          [AwaitStart g request task] \<Rightarrow> ar_activeRun s = None \<and> sreq_queueItemId request \<notin> ar_started s
        | _ \<Rightarrow> True))"
proof -
  let ?s = "runnerEvents cfg events (initialAutonomousState tasks)"
  have any: "anyInv ?s" by (rule any_history [OF any_initial])
  have "length (ar_suspended ?s) \<le> 1 \<and>
      (ar_status ?s \<in> {AsRunning, AsStopping} \<longleftrightarrow> ar_suspended ?s \<noteq> [] \<or> ar_activeRun ?s \<noteq> None) \<and>
      (ar_waitingForDependency ?s \<longrightarrow> ar_suspended ?s = [] \<and> ar_activeRun ?s = None) \<and>
      (case map sus_call (ar_suspended ?s) of
         [AwaitStart g request task] \<Rightarrow> ar_activeRun ?s = None \<and> sreq_queueItemId request \<notin> ar_started ?s
       | _ \<Rightarrow> True)" if "\<not> endOvertakesReload cfg events (initialAutonomousState tasks)"
  proof -
    have inv: "serialInv ?s" by (rule serialRun_inv [OF serial_history [OF serial_initial that]])
    show ?thesis
    proof (cases "ar_suspended ?s")
      case Nil
      with inv show ?thesis by (auto simp: serialInv_def underWay_def split: option.split)
    next
      case (Cons k ks)
      with inv have "ks = []" by (cases ks) (auto simp: serialInv_def)
      with inv Cons show ?thesis
        by (cases "sus_call k") (auto simp: serialInv_def underWay_def startRequestFor_def split: option.split)
    qed
  qed
  with any show ?thesis
    by (simp add: Let_def anyInv_def resuming_def pendingWork_def underWay_def split: option.split)
qed

lemma runner_invariant_witness:
  "let s = runnerEvents exampleConfig [([], EvStart False False)] (initialAutonomousState [readyTask]) in
     ar_status s = AsRunning \<and> list_ex (\<lambda>k. \<not> isReload (sus_call k)) (ar_suspended s)
     \<and> length (ar_suspended s) \<le> 1"
proof -
  let ?s = "runnerEvents exampleConfig [([], EvStart False False)] (initialAutonomousState [readyTask])"
  have r: "ar_status ?s = AsRunning" "ar_suspended ?s = [\<lparr>sus_call = AwaitStart QueueStarted (startRequestFor readyTask)
      readyTask, sus_release = True\<rparr>]"
    using example_started unfolding runnerEvents.simps by (simp_all only: requestsReadyTask_def)
  have o: "\<not> endOvertakesReload exampleConfig [([], EvStart False False)] (initialAutonomousState [readyTask])"
    by (simp del: autonomousStep.simps)
  have "length (ar_suspended ?s) \<le> 1"
    using runner_invariant [of exampleConfig "[([], EvStart False False)]" "[readyTask]"] o
    unfolding Let_def by (simp only: if_False)
  with r show ?thesis unfolding Let_def by simp
qed

lemma startRequest_complete:
  assumes "hasRunSettings task"
  shows "sreq_repoRoot (startRequestFor task) \<noteq> [] \<and> sreq_codexExecutable (startRequestFor task) \<noteq> []
    \<and> js_truthy_str (sreq_sandbox (startRequestFor task)) \<and> js_truthy_str (sreq_approvalPolicy (startRequestFor task))"
  using assms
  by (auto simp: hasRunSettings_def startRequestFor_def js_has_text_def js_blank_def js_truthy_str_iff
      split: option.splits)

text \<open>
  C6. Whatever the order of the events, also in a queue whose calls overlap, the runner asks for a start
  only for a task of the queue that is ready in every respect at that moment, its upstream tasks all
  completed and finalised, and the request carries a workspace, an executable, a sandbox and an approval policy.
\<close>

theorem start_requests_ready:
  assumes "sus \<in> set (ar_suspended (autonomousStep cfg now ev s))" and "sus \<notin> set (ar_suspended s)"
    and "sus_call sus = AwaitStart g request task"
  shows "task \<in> set (ar_tasks (autonomousStep cfg now ev s)) \<and>
    autonomousReady g (ar_started (autonomousStep cfg now ev s)) (ar_tasks (autonomousStep cfg now ev s)) task \<and>
    request = startRequestFor task \<and> sreq_repoRoot request \<noteq> [] \<and> sreq_codexExecutable request \<noteq> [] \<and>
    js_truthy_str (sreq_sandbox request) \<and> js_truthy_str (sreq_approvalPolicy request)"
proof -
  have "readyRequest g request task (autonomousStep cfg now ev s)"
    using newStartsReady_step [of s cfg now ev] assms by (auto simp: newStartsReady_def)
  then show ?thesis
    using startRequest_complete by (auto simp: readyRequest_def autonomousReady_def)
qed

lemma start_requests_ready_witness:
  "autonomousReady QueueStarted {} [readyTask] readyTask"
proof -
  let ?s = "autonomousStep exampleConfig [] (EvStart False False) (initialAutonomousState [readyTask])"
  let ?k = "\<lparr>sus_call = AwaitStart QueueStarted (startRequestFor readyTask) readyTask, sus_release = True\<rparr>"
  have s: "ar_suspended ?s = [?k]" "ar_started ?s = {}" "ar_tasks ?s = [readyTask]"
    using example_started by (simp_all only: requestsReadyTask_def)
  show ?thesis
    using start_requests_ready [of ?k exampleConfig "[]" "EvStart False False" "initialAutonomousState [readyTask]"
        QueueStarted "startRequestFor readyTask" readyTask] unfolding s
    by (simp add: initialAutonomousState_def)
qed

end
