(* ===== verification/Autonomous_Pass.thy ===== *)
theory Autonomous_Pass
  imports Autonomous_Runner
begin

text \<open>
  Whole passes of the autonomous runner: how many runs a pass can start and how many
  moves it makes, what a run that failed leaves behind, and two things the code does not intend.
\<close>

section \<open>A pass starts finitely many runs\<close>

lemma idsWithin_start:
  assumes "task_queueItemId ` set (ar_tasks s) \<subseteq> ids" and "ar_suspended s = []"
  shows "idsWithin ids (startAutonomous cfg isStarting hasOpenTaskEdit now s)"
proof -
  have t: "ar_tasks (startAutonomous cfg isStarting hasOpenTaskEdit now s) = ar_tasks s"
    by (auto simp: startAutonomous_def startAutonomousRun_def Let_def split: list.split option.split)
  moreover have "task_queueItemId task \<in> ids"
    if "sus \<in> set (ar_suspended (startAutonomous cfg isStarting hasOpenTaskEdit now s))"
      "sus_call sus = AwaitStart g request task" for sus g request task
  proof -
    have "readyRequest g request task (startAutonomous cfg isStarting hasOpenTaskEdit now s)"
      using newStartsReady_start [of s cfg isStarting hasOpenTaskEdit now] that assms(2)
      unfolding newStartsReady_def by auto
    then show ?thesis using assms(1) t by (auto simp: readyRequest_def)
  qed
  ultimately show ?thesis using assms(1) unfolding idsWithin_def by auto
qed

lemma movesLeft_bound:
  assumes "finite ids" shows "movesLeft ids s \<le> 4 * card ids + 5"
proof -
  have "card (ids - ar_started s) \<le> card ids" using assms by (simp add: card_mono)
  moreover have "phaseRank p \<le> 5" for p by (cases p) simp_all
  ultimately show ?thesis unfolding movesLeft_def by (meson add_le_mono mult_le_mono2)
qed

text \<open>
  C18. A pass makes finitely many moves. From one press of start to the next, as long as the queue only
  ever holds items with ids in a finite set, the shell names the items it starts, and the end of a run is
  not announced before the reload after its start is over, the runner starts at most one run per id, and
  the events that move it on (from asking for a start to running, recording, failing, waiting or resting)
  are at most four per id and five more, in every order of these events and whatever the runs return.
\<close>

theorem pass_starts_bounded:
  assumes "serialRun cfg s" and "ar_suspended s = []" and "finite ids" and "task_queueItemId ` set (ar_tasks s) \<subseteq> ids"
    and "autonomousPass cfg ids (autonomousStep cfg now (EvStart isStarting hasOpenTaskEdit) s) n m s'"
  shows "n \<le> card ids \<and> m \<le> 4 * card ids + 5"
proof -
  let ?s = "autonomousStep cfg now (EvStart isStarting hasOpenTaskEdit) s"
  have "serialInv ?s" by (rule serialInv_step [OF serialRun_inv [OF assms(1)]]) simp
  moreover have "idsWithin ids ?s" using idsWithin_start [OF assms(4,2)] by simp
  ultimately have "n \<le> card (ids - ar_started ?s)" "m \<le> movesLeft ids ?s"
    using autonomousPass_measure [OF assms(5) _ _ assms(3)] by simp_all
  moreover have "card (ids - ar_started ?s) \<le> card ids" using assms(3) by (simp add: card_mono)
  ultimately show ?thesis using movesLeft_bound [OF assms(3), of ?s] by linarith
qed

lemma pass_starts_bounded_witness:
  "\<exists>s'. autonomousPass exampleConfig {''a''}
     (autonomousStep exampleConfig [] (EvStart False False) (initialAutonomousState [readyTask])) 1 1 s'
     \<and> (1 :: nat) \<le> card {''a''} \<and> (1 :: nat) \<le> 4 * card {''a''} + 5"
proof -
  let ?s = "autonomousStep exampleConfig [] (EvStart False False) (initialAutonomousState [readyTask])"
  let ?ev = "EvResume 0 (ApiStarted ''w'' ''a'' ''r'')"
  let ?s' = "autonomousStep exampleConfig [] ?ev ?s"
  have s: "ar_suspended ?s = [\<lparr>sus_call = AwaitStart QueueStarted (startRequestFor readyTask) readyTask, sus_release = True\<rparr>]"
    and e: "ar_started ?s = {}"
    using example_started by (simp_all only: requestsReadyTask_def)
  have i: "task_queueItemId readyTask = ''a''" by (simp add: readyTask_def)
  have "ar_started ?s' = insert ''a'' (ar_started ?s)" using s by (simp add: resumeSuspended_def)
  then have moved: "absRunner ?s' \<noteq> absRunner ?s" using e by (simp add: absRunner_def del: autonomousStep.simps)
  have "autonomousPass exampleConfig {''a''} ?s (if answersStart ?ev ?s then Suc 0 else 0)
      (if absRunner ?s' = absRunner ?s then 0 else Suc 0) ?s'"
    by (rule pass_event [OF pass_begin]) (simp_all add: s i startRequestFor_def del: autonomousStep.simps)
  then have p: "autonomousPass exampleConfig {''a''} ?s 1 1 ?s'"
    using moved by (simp add: s del: autonomousStep.simps)
  have "ar_suspended (initialAutonomousState [readyTask]) = []"
    "task_queueItemId ` set (ar_tasks (initialAutonomousState [readyTask])) \<subseteq> {''a''}"
    by (simp_all add: initialAutonomousState_def readyTask_def)
  from pass_starts_bounded [OF serial_initial this(1) _ this(2) p] p show ?thesis by blast
qed

section \<open>A run that failed\<close>

lemma find_replaceQueueTask:
  "List.find (\<lambda>t. task_queueItemId t = i) tasks = Some t \<Longrightarrow> task_queueItemId u = i \<Longrightarrow>
     List.find (\<lambda>t. task_queueItemId t = i) (replaceQueueTask tasks u) = Some u"
  by (induction tasks) (auto simp: replaceQueueTask_def)

lemma recordedFailure_eq: "recordedFailure input = failedTaskOf input"
  using failureIntegration_returns [of input] by (auto simp: recordedFailure_def failedTaskOf_def)

lemma failedTaskOf_id [simp]: "task_queueItemId (failedTaskOf input) = task_queueItemId (sfi_task input)"
  by (simp add: failedTaskOf_def failedTask_def)

lemma recordedFailure_readBack:
  "latestSmartQueueFailurePayloadForTask (recordedFailure input) \<noteq> None \<and>
   countPriorSmartQueueFailures (recordedFailure input) = Suc (countPriorSmartQueueFailures (sfi_task input))"
proof -
  obtain payload patch where b: "buildSmartQueueWorkerFailureIntegration input = Some (payload, patch)"
    using failureIntegration_returns by blast
  then show ?thesis
    by (simp add: recordedFailure_def latest_failedTask [OF b] countPrior_failedTask [OF b])
qed

lemma reports_of_lent_fields:
  "latestSmartQueueFailurePayloadForTask (t\<lparr>task_assignedExecutorWidgetId := w, task_updatedAt := u\<rparr>)
     = latestSmartQueueFailurePayloadForTask t"
  "countPriorSmartQueueFailures (t\<lparr>task_assignedExecutorWidgetId := w, task_updatedAt := u\<rparr>)
     = countPriorSmartQueueFailures t"
  by (simp_all add: latestSmartQueueFailurePayloadForTask_def countPriorSmartQueueFailures_def taskReports_def)

lemma finishFailure_readBack:
  assumes "taskById i s = Some t" and "task_queueItemId f = i"
    and "latestSmartQueueFailurePayloadForTask f \<noteq> None" and "countPriorSmartQueueFailures f = n"
  shows "\<exists>t'. taskById i (finishFailure f u s) = Some t' \<and> latestSmartQueueFailurePayloadForTask t' \<noteq> None
    \<and> countPriorSmartQueueFailures t' = n"
proof -
  let ?f = "case u of None \<Rightarrow> f | Some u \<Rightarrow> f\<lparr>task_assignedExecutorWidgetId := task_assignedExecutorWidgetId u,
                            task_updatedAt := task_updatedAt u\<rparr>"
  have "taskById i (finishFailure f u s) = Some ?f"
    using assms(1,2) find_replaceQueueTask [of i "ar_tasks s" t ?f]
    by (auto simp: taskById_def finishFailure_def split: option.split)
  then show ?thesis using assms(3,4) by (auto simp: reports_of_lent_fields split: option.split)
qed

lemma resume_failure:
  assumes "ar_suspended s = []" and "answer \<in> range ApiUpdated \<union> range ApiError"
  shows "\<exists>u. resumeSuspended cfg now 0 answer (recordSmartQueueFailure input after True s) =
    finishCall True (afterFailure after (finishFailure (recordedFailure input) u s))"
proof -
  have s: "s\<lparr>ar_suspended := []\<rparr> = s" using assms(1) by (cases s) simp
  show ?thesis
    using assms(2) by (auto simp: resumeSuspended_def recordSmartQueueFailure_def suspend_def assms(1) s)
qed

text \<open>
  C27. When the evidence of a run says that it failed, the runner records the failure and stops: after
  the update has answered, even with an error, the runner shows the reason, nothing is active or under
  way, and the failure is read back from the task as its latest failure, one more than before.
\<close>

theorem failed_run_recorded:
  assumes "ar_suspended s = [\<lparr>sus_call = AwaitDetail g activeRun finalStatus, sus_release = True\<rparr>]"
    and "assessAutonomousSuccess detail finalStatus = Some reason"
    and "taskById (arun_queueItemId activeRun) s = Some t"
    and "s' = autonomousStep cfg now (EvResume 0 answer) (autonomousStep cfg now (EvResume 0 (ApiDetail detail)) s)"
    and "answer \<in> range ApiUpdated \<union> range ApiError"
  shows "ar_status s' = AsFailed \<and> ar_error s' = Some reason \<and> ar_activeRun s' = None \<and> ar_suspended s' = []
    \<and> \<not> ar_inFlight s' \<and> cnt_failed (ar_counters s') = Suc (cnt_failed (ar_counters s))
    \<and> (\<exists>t'. taskById (arun_queueItemId activeRun) s' = Some t' \<and> latestSmartQueueFailurePayloadForTask t' \<noteq> None
         \<and> countPriorSmartQueueFailures t' = Suc (countPriorSmartQueueFailures t))"
proof -
  let ?i = "arun_queueItemId activeRun"
  let ?in = "queueFailureInput cfg now t None (Some finalStatus) reason (arun_runId activeRun) None"
  let ?s = "addTimeline ''Evidence loaded'' (Some (arun_taskTitle activeRun))
      (if detail \<noteq> None then TlSuccess else TlError) (s\<lparr>ar_suspended := []\<rparr>)"
  have tid: "task_queueItemId t = ?i"
    using assms(3) unfolding taskById_def find_Some_iff by auto
  have one: "autonomousStep cfg now (EvResume 0 (ApiDetail detail)) s =
      recordSmartQueueFailure ?in (ThenFail reason) True ?s"
  proof -
    have "taskById ?i ?s = Some t" using assms(3) by (simp add: taskById_def addTimeline_def)
    then show ?thesis
      using assms(1,2) by (simp add: resumeSuspended_def detailLoaded_def Let_def)
  qed
  obtain u where "s' = finishCall True (failRun reason (finishFailure (recordedFailure ?in) u ?s))"
    using resume_failure [of ?s answer cfg now ?in "ThenFail reason"] assms(5) unfolding assms(4) one by auto
  moreover have "\<exists>t'. taskById ?i (finishFailure (recordedFailure ?in) u ?s) = Some t'
      \<and> latestSmartQueueFailurePayloadForTask t' \<noteq> None
      \<and> countPriorSmartQueueFailures t' = Suc (countPriorSmartQueueFailures t)"
    using assms(3) tid recordedFailure_readBack [of ?in]
    by (intro finishFailure_readBack [of _ _ t])
       (auto simp: taskById_def addTimeline_def recordedFailure_eq queueFailureInput_def)
  ultimately show ?thesis
    by (auto simp: runner_updates finishFailure_def taskById_def)
qed

definition evidenceState :: AutonomousState where
  "evidenceState = (initialAutonomousState [readyTask\<lparr>task_status := ''running''\<rparr>])
     \<lparr>ar_status := AsRunning, ar_inFlight := True, ar_started := {''a''},
      ar_activeRun := Some \<lparr>arun_executorWidgetInstanceId = ''w'', arun_queueItemId = ''a'', arun_repoRoot = ''/w'',
         arun_runId = ''r'', arun_taskTitle = ''Task''\<rparr>,
      ar_suspended := [\<lparr>sus_call = AwaitDetail QueueStarted \<lparr>arun_executorWidgetInstanceId = ''w'',
         arun_queueItemId = ''a'', arun_repoRoot = ''/w'', arun_runId = ''r'', arun_taskTitle = ''Task''\<rparr>
         ''interrupted'', sus_release = True\<rparr>]\<rparr>"

lemma failed_run_recorded_witness:
  "ar_error (autonomousStep exampleConfig [] (EvResume 0 (ApiError None))
     (autonomousStep exampleConfig [] (EvResume 0 (ApiDetail None)) evidenceState)) =
   Some ''Direct Work run ended with interrupted.''"
proof -
  have "ar_suspended evidenceState = [\<lparr>sus_call = AwaitDetail QueueStarted \<lparr>arun_executorWidgetInstanceId = ''w'',
         arun_queueItemId = ''a'', arun_repoRoot = ''/w'', arun_runId = ''r'', arun_taskTitle = ''Task''\<rparr>
         ''interrupted'', sus_release = True\<rparr>]"
    by (simp add: evidenceState_def)
  moreover have "assessAutonomousSuccess None ''interrupted'' = Some ''Direct Work run ended with interrupted.''"
    by (simp add: assessAutonomousSuccess_def)
  moreover have "taskById ''a'' evidenceState = Some (readyTask\<lparr>task_status := ''running''\<rparr>)"
    by (simp add: taskById_def evidenceState_def initialAutonomousState_def readyTask_def)
  ultimately show ?thesis
    using failed_run_recorded [where s = evidenceState and answer = "ApiError None" and cfg = exampleConfig
        and now = "[]" and detail = None] by simp
qed

section \<open>Two flaws\<close>

text \<open>
  A run may finish while the reload after its start is pending, in a pass whose first run is over (so no
  lock is held). The completion takes the lock, the \<open>finally\<close> after the reload clears it, and the next
  render completes the same run again: its report is recorded twice, and the next task asked for twice.
\<close>

lemma completion_overtakes_reload:
  assumes "ar_suspended s = [\<lparr>sus_call = AwaitLoad t e, sus_release = True\<rparr>]" and "ar_activeRun s = Some run"
    and "\<not> ar_inFlight s" and "ar_status s = AsRunning"
    and "List.find (\<lambda>task. task_queueItemId task = arun_queueItemId run) tasks = Some task"
    and "task_status task = ''completed''" and "\<not> taskHasReportReadyState task"
    and "normalizeValidationStatus (task_validationStatus task) \<noteq> ValFailed"
    and "autonomousCoordinatorStatus task \<noteq> ''failed''"
  shows "map sus_call (ar_suspended
     (autonomousStep cfg now EvEffect
       (autonomousStep cfg now (EvResume 0 (ApiTasks tasks))
         (autonomousStep cfg now (EvAutoRefresh (arun_queueItemId run) (arun_runId run) ''completed'') s)))) =
   [AwaitDetail (ar_globalExecutionState s) run ''completed'', AwaitDetail (ar_globalExecutionState s) run ''completed'']"
proof -
  have n: "normalizeTaskStatus ''completed'' = StCompleted"
    using normalizeTaskStatus_name [of StCompleted] by simp
  have "autonomousStep cfg now (EvResume 0 (ApiTasks tasks))
      (autonomousStep cfg now (EvAutoRefresh (arun_queueItemId run) (arun_runId run) ''completed'') s) =
    tasksReloaded t e tasks True
      ((completeTask (ar_globalExecutionState s) run ''completed'' s)
        \<lparr>ar_suspended := [\<lparr>sus_call = AwaitDetail (ar_globalExecutionState s) run ''completed'', sus_release = True\<rparr>]\<rparr>)"
    using assms(1-3)
    by (simp add: handleAutoRefreshComplete_def resumeSuspended_def completeTask_def suspend_def addTimeline_def)
  then show ?thesis
    using assms n
    by (simp add: renderEffect_def autonomousActive_def tasksReloaded_def finishCall_def completeTask_def
        reconcileActiveRun_def Let_def taskById_def suspend_def addTimeline_def)
qed

text \<open>
  Pressing start with an open task edit records a failure, with the edit as its reason, on a task that
  only lacks its settings, although another task could run.
\<close>

lemma open_edit_fails_other_task:
  fixes tasks
  defines "tasks \<equiv> [readyTask, readyTask\<lparr>task_queueItemId := ''b'', task_sandbox := None\<rparr>]"
  shows "\<exists>failed. map sus_call (ar_suspended (autonomousStep exampleConfig now (EvStart False True)
      (initialAutonomousState tasks))) = [AwaitFailure failed (ThenNeedsSetup SAVE_TASK_EDITS_SETUP)]
    \<and> task_queueItemId failed = ''b''
    \<and> map_option task_queueItemId (sel_task (selectNextAutonomousTask codeUnitCompare tasks {} QueueStarted)) = Some ''a''"
proof -
  let ?pre = "\<lparr>pre_globalExecutionState = QueueStarted, pre_hasOpenTaskEdit = True, pre_tasks = tasks\<rparr>"
  have a: "autonomousSetupBlockerMessages codeUnitCompare ?pre = [SAVE_TASK_EDITS_SETUP]"
    unfolding tasks_def by code_simp
  have b: "selectFirstAutonomousSetupBlockedTask codeUnitCompare tasks {} QueueStarted =
      Some (readyTask\<lparr>task_queueItemId := ''b'', task_sandbox := None\<rparr>)"
    unfolding tasks_def by code_simp
  have c: "map_option task_queueItemId (sel_task (selectNextAutonomousTask codeUnitCompare tasks {} QueueStarted)) = Some ''a''"
    unfolding tasks_def by code_simp
  have d: "canStartAutonomous exampleConfig False (initialAutonomousState tasks)"
    unfolding tasks_def by code_simp
  show ?thesis
    using a b c d
    by (simp add: startAutonomous_def startAutonomousRun_def Let_def initialAutonomousState_def
        exampleConfig_def recordedFailure_eq queueFailureInput_def)
qed

end
