(* ===== verification/Eligibility.thy ===== *)
theory Eligibility
  imports Smart_Queue
begin

text \<open>
  The queue's second eligibility model, \<open>workbench/queue/queueDependencyEligibilityModel.ts\<close>, which works
  on whole queue tasks where \<open>smartQueueEligibility.ts\<close> works on the smart queue's reduced ones. The
  names the two files share carry the prefix \<open>queue\<close> here. The theorem at the end compares them.
\<close>

section \<open>Data\<close>

text \<open>The task field that only this file reads.\<close>

record ClosableTask = AgentQueueTask +
  task_closureState :: "string option"

record QueueTaskDependency =
  qd_dependencyId :: string
  qd_upstreamTaskId :: string
  qd_downstreamTaskId :: string

record QueueTaskBlocker =
  qb_kind :: SmartQueueBlockerKind
  qb_message :: string
  qb_taskId :: string
  qb_upstreamTaskId :: "string option"

record QueueDependencyGate =
  qg_gate :: DependencyGateValue
  qg_waitingOnTaskIds :: "string list"
  qg_failedTaskIds :: "string list"
  qg_blockedTaskIds :: "string list"
  qg_missingTaskIds :: "string list"
  qg_satisfiedTaskIds :: "string list"

record QueueTaskEligibility =
  qe_canAutoStart :: bool
  qe_blockers :: "QueueTaskBlocker list"
  qe_dependencyGate :: DependencyGateValue
  qe_humanStatus :: SmartQueueTaskHumanStatus
  qe_reason :: string

record QueueFailurePropagation =
  qp_blockers :: "QueueTaskBlocker list"
  qp_downstreamTaskId :: string
  qp_gate :: DependencyGateValue
  qp_summary :: string

section \<open>The task as the smart queue sees it\<close>

definition isTaskClosedSuccessfully :: "ClosableTask \<Rightarrow> bool" where
  "isTaskClosedSuccessfully task \<longleftrightarrow> task_coordinatorStatus task = Some ''finalized''
     \<or> task_closureState task = Some ''no_change_accepted'' \<or> task_closureState task = Some ''commit_created''"

definition isTaskFailed :: "ClosableTask \<Rightarrow> bool" where
  "isTaskFailed task \<longleftrightarrow> task_status task = ''failed'' \<or> task_coordinatorStatus task = Some ''failed''"

definition isTaskBlocked :: "ClosableTask \<Rightarrow> bool" where
  "isTaskBlocked task \<longleftrightarrow> task_coordinatorStatus task = Some ''blocked''
     \<or> task_coordinatorStatus task = Some ''rollback_required'' \<or> task_closureState task = Some ''closure_blocked''"

definition hasRequiredRunConfig :: "ClosableTask \<Rightarrow> bool" where
  "hasRequiredRunConfig task \<longleftrightarrow> js_has_text (task_executionWorkspace task) \<and> js_has_text (task_codexExecutable task)"

definition queueSmartLifecycle :: "ClosableTask \<Rightarrow> SmartQueueTaskLifecycle" where
  "queueSmartLifecycle task =
     (if isTaskClosedSuccessfully task then LcClosed
      else if isTaskFailed task then LcFailed
      else if isTaskBlocked task then LcBlocked
      else if task_status task = ''draft'' then LcDraft
      else if task_status task = ''queued'' then LcQueued
      else if task_status task = ''ready'' then LcReady
      else if task_status task = ''running'' then LcRunning
      else if task_status task = ''failed'' then LcFailed
      else if task_status task = ''cancelled'' then LcCancelled
      else if task_status task = ''completed'' \<or> task_status task = ''review_needed'' then LcReview
      else LcReady)"

definition smartBlockersForQueueTask :: "ClosableTask \<Rightarrow> SmartQueueBlocker list" where
  "smartBlockersForQueueTask task =
     (let blocker = (\<lambda>kind reason. \<lparr>sb_kind = kind, sb_reason = reason, sb_taskId = Some (task_queueItemId task),
            sb_upstreamTaskId = None, sb_rootCauseTaskIds = None\<rparr>)
      in (if js_blank (task_prompt task) then [blocker BkMissingPrompt ''missing prompt''] else []) @
         (if \<not> hasRequiredRunConfig task then [blocker BkMissingConfig ''missing config''] else []) @
         (if task_validationStatus task = Some ''needs_review''
          then [blocker BkValidationRequiresDecision ''validation requires decision''] else []) @
         (if task_coordinatorStatus task = Some ''awaiting_coordinator_review''
          then [blocker BkRequiresHumanInput ''coordinator decision required''] else []))"

definition queueSmartTaskInput :: "ClosableTask \<Rightarrow> SmartQueueTaskInput" where
  "queueSmartTaskInput task =
     \<lparr>sq_taskId = task_queueItemId task, sq_title = Some (task_title task),
      sq_lifecycle = queueSmartLifecycle task, sq_blockers = Some (smartBlockersForQueueTask task)\<rparr>"

text \<open>The map keeps the place of a key and the value of its last setting.\<close>

definition setDependency ::
    "string \<Rightarrow> string \<Rightarrow> (string \<times> SmartQueueDependency) list \<Rightarrow> (string \<times> SmartQueueDependency) list" where
  "setDependency upstreamTaskId downstreamTaskId byKey =
     AList.update (upstreamTaskId @ ''->'' @ downstreamTaskId)
       \<lparr>sd_upstreamTaskId = upstreamTaskId, sd_downstreamTaskId = downstreamTaskId, sd_kind = ''blocks_start''\<rparr> byKey"

definition smartDependenciesForQueueTasks ::
    "ClosableTask list \<Rightarrow> QueueTaskDependency list \<Rightarrow> SmartQueueDependency list" where
  "smartDependenciesForQueueTasks tasks dependencies =
     (let byKey = fold (\<lambda>task.
            fold (\<lambda>upstreamTaskId byKey.
                let trimmed = js_trim upstreamTaskId
                in if trimmed \<noteq> [] then setDependency trimmed (task_queueItemId task) byKey else byKey)
              (js_default [] (task_dependsOn task))) tasks []
      in map snd (fold (\<lambda>d. setDependency (qd_upstreamTaskId d) (qd_downstreamTaskId d)) dependencies byKey))"

section \<open>Gate, blockers, status\<close>

definition queueDependencyGate ::
    "ClosableTask \<Rightarrow> ClosableTask list \<Rightarrow> QueueTaskDependency list \<Rightarrow> QueueDependencyGate" where
  "queueDependencyGate task tasks dependencies =
     (let smartTasks = map queueSmartTaskInput tasks;
          smartTask = js_default (queueSmartTaskInput task)
            (List.find (\<lambda>candidate. sq_taskId candidate = task_queueItemId task) smartTasks);
          smartGate = computeSmartQueueDependencyGate smartTask smartTasks
            (smartDependenciesForQueueTasks tasks dependencies)
      in \<lparr>qg_gate = gate_gate smartGate, qg_waitingOnTaskIds = gate_waitingTaskIds smartGate,
          qg_failedTaskIds = gate_failedTaskIds smartGate, qg_blockedTaskIds = gate_blockedTaskIds smartGate,
          qg_missingTaskIds = gate_missingTaskIds smartGate, qg_satisfiedTaskIds = gate_satisfiedTaskIds smartGate\<rparr>)"

definition smartGateOf :: "QueueDependencyGate \<Rightarrow> SmartQueueDependencyGate" where
  "smartGateOf g =
     \<lparr>gate_gate = qg_gate g,
      gate_upstreamTaskIds = qg_waitingOnTaskIds g @ qg_failedTaskIds g @ qg_blockedTaskIds g
        @ qg_missingTaskIds g @ qg_satisfiedTaskIds g,
      gate_waitingTaskIds = qg_waitingOnTaskIds g, gate_satisfiedTaskIds = qg_satisfiedTaskIds g,
      gate_failedTaskIds = qg_failedTaskIds g, gate_blockedTaskIds = qg_blockedTaskIds g,
      gate_missingTaskIds = qg_missingTaskIds g, gate_rootFailedTaskIds = qg_failedTaskIds g,
      gate_rootBlockedTaskIds = qg_blockedTaskIds g\<rparr>"

definition queueTaskBlockers :: "ClosableTask \<Rightarrow> QueueDependencyGate \<Rightarrow> QueueTaskBlocker list" where
  "queueTaskBlockers task gate =
     (let own = (\<lambda>kind message. \<lparr>qb_kind = kind, qb_message = message, qb_taskId = task_queueItemId task,
            qb_upstreamTaskId = None\<rparr>)
      in map (\<lambda>blocker.
           \<lparr>qb_kind = sb_kind blocker,
            qb_message =
              (if sb_kind blocker = BkDependencyFailed
               then ''Dependency '' @ js_default ''dependency'' (sb_upstreamTaskId blocker) @ '' failed.''
               else ''Dependency '' @ js_default ''dependency'' (sb_upstreamTaskId blocker) @ '' is blocked.''),
            qb_taskId = task_queueItemId task, qb_upstreamTaskId = sb_upstreamTaskId blocker\<rparr>)
           (dependencyBlockersForGate (task_queueItemId task) (smartGateOf gate)) @
         (if js_blank (task_prompt task) then [own BkMissingPrompt ''Task is missing a prompt.''] else []) @
         (if \<not> hasRequiredRunConfig task
          then [own BkMissingConfig ''Task is missing required run configuration.''] else []) @
         (if task_validationStatus task = Some ''needs_review''
          then [own BkValidationRequiresDecision ''Validation requires a coordinator decision.''] else []) @
         (if task_coordinatorStatus task = Some ''awaiting_coordinator_review''
          then [own BkRequiresHumanInput ''Task requires a coordinator decision.''] else []))"

text \<open>\<open>/^task[-_]?([0-9]+)$/i\<close>: the digits after an optional separator, or nothing.\<close>

definition decimalDigit :: "char \<Rightarrow> bool" where
  "decimalDigit c \<longleftrightarrow> (let n = of_char c in (48 :: nat) \<le> n \<and> n \<le> 57)"

definition compactTaskNumber :: "string \<Rightarrow> string option" where
  "compactTaskNumber taskId =
     (if js_lower (take 4 taskId) = ''task''
      then let rest = drop 4 taskId;
               digits = (case rest of c # cs \<Rightarrow> if c = CHR ''-'' \<or> c = CHR ''_'' then cs else rest | [] \<Rightarrow> [])
           in if digits \<noteq> [] \<and> list_all decimalDigit digits then Some digits else None
      else None)"

definition formatQueueTaskId :: "string \<Rightarrow> string" where
  "formatQueueTaskId taskId =
     (case compactTaskNumber taskId of Some digits \<Rightarrow> ''Task '' @ digits | None \<Rightarrow> taskId)"

definition formatWaitingTaskList :: "string list \<Rightarrow> string" where
  "formatWaitingTaskList taskIds =
     (if length taskIds = 0 then ''dependencies''
      else if length taskIds = 1 then formatQueueTaskId (js_default [] (js_first taskIds))
      else js_join '', '' (map formatQueueTaskId taskIds))"

definition formatDependencySummary :: "string list \<Rightarrow> string \<Rightarrow> string" where
  "formatDependencySummary taskIds fallback =
     (if length taskIds \<le> 1 then fallback else fallback @ '' ('' @ formatWaitingTaskList taskIds @ '')'')"

definition isDependencyKind :: "QueueTaskBlocker \<Rightarrow> bool" where
  "isDependencyKind blocker \<longleftrightarrow> qb_kind blocker = BkDependencyFailed \<or> qb_kind blocker = BkDependencyBlocked"

definition queueHumanStatus ::
    "ClosableTask \<Rightarrow> SmartQueueState \<Rightarrow> QueueDependencyGate \<Rightarrow> SmartQueueTaskHumanStatus \<times> string" where
  "queueHumanStatus task queueState gate =
     (let blockers = queueTaskBlockers task gate;
          dependencyBlockers = filter isDependencyKind blockers
      in if task_status task = ''running'' then (HsRunning, ''Running'')
         else if isTaskClosedSuccessfully task then (HsClosed, ''Closed'')
         else if isTaskFailed task then (HsFailed, ''Failed'')
         else if task_status task = ''cancelled'' then (HsCancelled, ''Closed'')
         else if list_ex (\<lambda>b. qb_kind b = BkDependencyFailed) dependencyBlockers
         then (HsBlocked, ''Blocked: '' @ formatDependencySummary (qg_failedTaskIds gate) ''dependency failed'')
         else if list_ex (\<lambda>b. qb_kind b = BkDependencyBlocked) dependencyBlockers
         then (HsBlocked, ''Blocked: '' @ formatDependencySummary (qg_blockedTaskIds gate) ''dependency blocked'')
         else if qg_gate gate = GateWaiting
         then (HsWaitingDependency,
               ''Waiting for '' @ formatWaitingTaskList (qg_waitingOnTaskIds gate @ qg_missingTaskIds gate))
         else if task_status task = ''review_needed'' then (HsNeedsDecision, ''Needs decision'')
         else if task_coordinatorStatus task = Some ''awaiting_coordinator_review''
         then (HsNeedsDecision, ''Needs decision'')
         else if list_ex (\<lambda>b. qb_kind b \<in> {BkValidationRequiresDecision, BkRequiresHumanInput}) blockers
         then (HsNeedsDecision, ''Needs decision'')
         else if 0 < length blockers \<or> isTaskBlocked task
         then (HsBlocked, ''Blocked: '' @ (case blockers of b # _ \<Rightarrow> qb_message b | [] \<Rightarrow> ''needs decision''))
         else (HsReady, if queueState = SqPaused then ''Ready (Queue paused)'' else ''Ready''))"

section \<open>Eligibility\<close>

definition queueTaskEligibility ::
    "ClosableTask \<Rightarrow> SmartQueueState \<Rightarrow> QueueDependencyGate \<Rightarrow> int \<Rightarrow> QueueTaskEligibility" where
  "queueTaskEligibility task queueState gate availableSlots =
     (let hs = queueHumanStatus task queueState gate;
          blockers = queueTaskBlockers task gate;
          refuse = (\<lambda>bs reason. \<lparr>qe_canAutoStart = False, qe_blockers = bs, qe_dependencyGate = qg_gate gate,
            qe_humanStatus = fst hs, qe_reason = reason\<rparr>)
      in if queueState \<noteq> SqActive
         then refuse blockers (if queueState = SqPaused then ''Queue Paused'' else ''Queue is not active'')
         else if fst hs \<noteq> HsReady then refuse blockers (snd hs)
         else if qg_gate gate \<noteq> GateNone \<and> qg_gate gate \<noteq> GateSatisfied then refuse blockers (snd hs)
         else if 0 < length blockers
         then refuse blockers (case blockers of b # _ \<Rightarrow> qb_message b | [] \<Rightarrow> ''Task has blockers'')
         else if \<not> 0 < availableSlots
         then refuse (blockers @ [\<lparr>qb_kind = BkWorkerUnavailable, qb_message = ''No worker capacity is available.'',
                qb_taskId = task_queueItemId task, qb_upstreamTaskId = None\<rparr>]) ''No worker capacity is available.''
         else \<lparr>qe_canAutoStart = True, qe_blockers = blockers, qe_dependencyGate = qg_gate gate,
               qe_humanStatus = fst hs, qe_reason = ''Eligible''\<rparr>)"

definition computeFailurePropagation ::
    "ClosableTask \<Rightarrow> ClosableTask list \<Rightarrow> QueueTaskDependency list \<Rightarrow> QueueFailurePropagation" where
  "computeFailurePropagation downstreamTask tasks dependencies =
     (let dependencyGate = queueDependencyGate downstreamTask tasks dependencies;
          blockers = filter isDependencyKind (queueTaskBlockers downstreamTask dependencyGate)
      in \<lparr>qp_blockers = blockers, qp_downstreamTaskId = task_queueItemId downstreamTask,
          qp_gate = qg_gate dependencyGate,
          qp_summary = (if length blockers = 0 then ''No dependency failure propagation.''
                        else js_join '' '' (map qb_message blockers))\<rparr>)"

section \<open>The two models compared\<close>

lemma sq_queueSmartTaskInput [simp]:
  "sq_taskId (queueSmartTaskInput t) = task_queueItemId t"
  "sq_lifecycle (queueSmartTaskInput t) = queueSmartLifecycle t"
  "sq_blockers (queueSmartTaskInput t) = Some (smartBlockersForQueueTask t)"
  by (simp_all add: queueSmartTaskInput_def)

lemma find_by_distinct_id:
  "distinct (map f xs) \<Longrightarrow> x \<in> set xs \<Longrightarrow> List.find (\<lambda>y. f y = f x) xs = Some x"
  by (induction xs) (auto simp: image_iff)

lemma queueDependencyGate_smart:
  fixes deps
  assumes "distinct (map task_queueItemId tasks)" and "task \<in> set tasks"
  defines "g \<equiv> computeDependencyGate (queueSmartTaskInput task) (map queueSmartTaskInput tasks)
    (smartDependenciesForQueueTasks tasks deps)"
  shows "qg_gate (queueDependencyGate task tasks deps) = gate_gate g"
    "qg_failedTaskIds (queueDependencyGate task tasks deps) = gate_failedTaskIds g"
    "qg_blockedTaskIds (queueDependencyGate task tasks deps) = gate_blockedTaskIds g"
proof -
  have "distinct (map sq_taskId (map queueSmartTaskInput tasks))" using assms(1) by (simp add: comp_def)
  from find_by_distinct_id [OF this, of "queueSmartTaskInput task"] assms(2)
  have "List.find (\<lambda>c. sq_taskId c = task_queueItemId task) (map queueSmartTaskInput tasks) =
      Some (queueSmartTaskInput task)" by simp
  then show "qg_gate (queueDependencyGate task tasks deps) = gate_gate g"
    "qg_failedTaskIds (queueDependencyGate task tasks deps) = gate_failedTaskIds g"
    "qg_blockedTaskIds (queueDependencyGate task tasks deps) = gate_blockedTaskIds g"
    by (simp_all add: queueDependencyGate_def g_def Let_def computeDependencyGate_def)
qed

lemma queueTaskBlockers_Nil_iff:
  "queueTaskBlockers task gate = [] \<longleftrightarrow>
     qg_failedTaskIds gate = [] \<and> qg_blockedTaskIds gate = [] \<and> smartBlockersForQueueTask task = []"
  by (auto simp: queueTaskBlockers_def Let_def smartBlockersForQueueTask_def dependencyBlockersForGate_def smartGateOf_def)

lemma queueHumanStatus_ready:
  "fst (queueHumanStatus task qs gate) = HsReady \<and> queueTaskBlockers task gate = [] \<longleftrightarrow>
     task_status task \<notin> {''running'', ''cancelled'', ''review_needed''} \<and> \<not> isTaskClosedSuccessfully task
     \<and> \<not> isTaskFailed task \<and> \<not> isTaskBlocked task \<and> qg_gate gate \<noteq> GateWaiting \<and> queueTaskBlockers task gate = []"
proof (cases "queueTaskBlockers task gate = []")
  case True
  then have "task_coordinatorStatus task \<noteq> Some ''awaiting_coordinator_review''"
    by (auto simp: queueTaskBlockers_Nil_iff smartBlockersForQueueTask_def Let_def)
  with True show ?thesis by (auto simp: queueHumanStatus_def Let_def)
qed simp

lemma queueTaskEligibility_iff:
  "qe_canAutoStart (queueTaskEligibility task qs gate n) \<longleftrightarrow>
     qs = SqActive \<and> 0 < n \<and> qg_gate gate \<in> {GateNone, GateSatisfied} \<and> queueTaskBlockers task gate = []
     \<and> task_status task \<notin> {''running'', ''cancelled'', ''review_needed''} \<and> \<not> isTaskClosedSuccessfully task
     \<and> \<not> isTaskFailed task \<and> \<not> isTaskBlocked task"
proof -
  have "qe_canAutoStart (queueTaskEligibility task qs gate n) \<longleftrightarrow>
     qs = SqActive \<and> 0 < n \<and> qg_gate gate \<in> {GateNone, GateSatisfied}
     \<and> (fst (queueHumanStatus task qs gate) = HsReady \<and> queueTaskBlockers task gate = [])"
    by (auto simp: queueTaskEligibility_def Let_def)
  then show ?thesis unfolding queueHumanStatus_ready by auto
qed

lemma queueSmartLifecycle_startable_iff:
  "queueSmartLifecycle task \<in> {LcDraft, LcQueued, LcReady} \<longleftrightarrow>
     \<not> isTaskClosedSuccessfully task \<and> \<not> isTaskFailed task \<and> \<not> isTaskBlocked task
     \<and> task_status task \<notin> {''running'', ''cancelled'', ''completed'', ''review_needed''}"
  by (auto simp: queueSmartLifecycle_def isTaskFailed_def)

lemma queueGate_no_blockers:
  assumes "distinct (map task_queueItemId tasks)" and "task \<in> set tasks"
    and "qg_gate (queueDependencyGate task tasks deps) \<in> {GateNone, GateSatisfied}"
  shows "qg_failedTaskIds (queueDependencyGate task tasks deps) = []
    \<and> qg_blockedTaskIds (queueDependencyGate task tasks deps) = []"
  using gateOfUpstream_blockers_iff assms(3)
  unfolding queueDependencyGate_smart [OF assms(1,2)] computeDependencyGate_eq by fastforce

text \<open>
  C28. The two eligibility models agree. In a queue without duplicate ids, a task that is not completed
  may start automatically by the whole-task model exactly when the smart queue's start gate, fed with
  the reduced tasks and the same dependencies, lets it start.
\<close>

theorem eligibility_models_agree:
  assumes "distinct (map task_queueItemId tasks)" and "task \<in> set tasks" and "task_status task \<noteq> ''completed''"
  shows "qe_canAutoStart (queueTaskEligibility task qs (queueDependencyGate task tasks deps) n) \<longleftrightarrow>
    eg_canStartTaskNow (canStartTaskNow (0 < n) (smartDependenciesForQueueTasks tasks deps) qs
      (queueSmartTaskInput task) (map queueSmartTaskInput tasks))"
proof -
  let ?g = "queueDependencyGate task tasks deps"
  have smart: "eg_canStartTaskNow (canStartTaskNow (0 < n) (smartDependenciesForQueueTasks tasks deps) qs
      (queueSmartTaskInput task) (map queueSmartTaskInput tasks)) \<longleftrightarrow>
    queueSmartLifecycle task \<in> {LcDraft, LcQueued, LcReady} \<and> qg_gate ?g \<in> {GateNone, GateSatisfied}
    \<and> smartBlockersForQueueTask task = [] \<and> qs = SqActive \<and> 0 < n"
    unfolding queueDependencyGate_smart [OF assms(1,2)]
    by (simp only: canStartTaskNow_def Let_def SmartQueueExecutionGate.simps el_autoEligible_iff
        sq_queueSmartTaskInput js_default_simps SmartQueueEligibilityContext.simps)
  have "qg_gate ?g \<in> {GateNone, GateSatisfied} \<Longrightarrow>
      queueTaskBlockers task ?g = [] \<longleftrightarrow> smartBlockersForQueueTask task = []"
    using queueGate_no_blockers [OF assms(1,2)] by (simp add: queueTaskBlockers_Nil_iff)
  then show ?thesis
    unfolding smart queueTaskEligibility_iff queueSmartLifecycle_startable_iff using assms(3) by blast
qed

definition closableTask :: "string \<Rightarrow> string \<Rightarrow> ClosableTask" where
  "closableTask i status =
     AgentQueueTask.extend (fakeQueueTask\<lparr>task_queueItemId := i, task_status := status,
       task_executionWorkspace := Some ''/w'', task_codexExecutable := Some ''codex''\<rparr>)
       \<lparr>task_closureState = None\<rparr>"

lemma eligibility_models_agree_witness:
  "qe_canAutoStart (queueTaskEligibility (closableTask ''a'' ''ready'') SqActive
     (queueDependencyGate (closableTask ''a'' ''ready'') [closableTask ''a'' ''ready''] []) 1)"
proof -
  have "eg_canStartTaskNow (canStartTaskNow (0 < (1 :: int)) (smartDependenciesForQueueTasks [closableTask ''a'' ''ready''] [])
      SqActive (queueSmartTaskInput (closableTask ''a'' ''ready''))
      (map queueSmartTaskInput [closableTask ''a'' ''ready'']))"
    by code_simp
  then show ?thesis
    by (subst eligibility_models_agree) (simp_all add: closableTask_def AgentQueueTask.defs)
qed

text \<open>On a completed task that waits for its coordinator they differ: the whole-task model starts it again.\<close>

lemma completed_task_autostarts:
  "qe_canAutoStart (queueTaskEligibility (closableTask ''a'' ''completed'') SqActive
     (queueDependencyGate (closableTask ''a'' ''completed'') [closableTask ''a'' ''completed''] []) 1)"
  "\<not> eg_canStartTaskNow (canStartTaskNow True [] SqActive (queueSmartTaskInput (closableTask ''a'' ''completed''))
      (map queueSmartTaskInput [closableTask ''a'' ''completed'']))"
  by (code_simp, code_simp)

end
