(* ===== verification/Agent_Messaging.thy ===== *)
theory Agent_Messaging
  imports Prelude
begin

text \<open>
  Messages between the in-app agents and their bounded histories:
  \<open>workbench/agents/messaging/hobitAgentMessaging.ts\<close>. A limit is a JavaScript number; \<open>undefined\<close> is
  \<open>None\<close>. Copies of immutable values are the values.
\<close>

section \<open>Data\<close>

datatype HobitAgentMessageKind = MkSystem | MkAgent | MkSelfTest | MkCapabilityResult

fun messageKindName :: "HobitAgentMessageKind \<Rightarrow> string" where
  "messageKindName MkSystem = ''system''"
| "messageKindName MkAgent = ''agent''"
| "messageKindName MkSelfTest = ''self_test''"
| "messageKindName MkCapabilityResult = ''capability_result''"

datatype HobitAgentMessageDirection = MdSent | MdReceived

fun directionName :: "HobitAgentMessageDirection \<Rightarrow> string" where
  "directionName MdSent = ''sent''"
| "directionName MdReceived = ''received''"

datatype HobitAgentMessageStatus = MsSent | MsReceived | MsDelivered | MsFailed

record HobitAgentMessage =
  hm_body :: string
  hm_correlationId :: "string option"
  hm_createdAt :: string
  hm_failureReason :: "string option"
  hm_fromAgentId :: string
  hm_kind :: HobitAgentMessageKind
  hm_messageId :: string
  hm_status :: HobitAgentMessageStatus
  hm_threadId :: "string option"
  hm_toAgentId :: string

record HobitAgentHistoryEvent =
  he_agentId :: string
  he_createdAt :: string
  he_direction :: HobitAgentMessageDirection
  he_eventId :: string
  he_message :: HobitAgentMessage

record HobitAgentHistory =
  hh_agentId :: string
  hh_events :: "HobitAgentHistoryEvent list"
  hh_maxEvents :: nat

record HobitAgentHistoryQuery =
  hq_agentId :: string
  hq_direction :: "HobitAgentMessageDirection option"
  hq_kind :: "HobitAgentMessageKind option"
  hq_limit :: "js_number option"
  hq_threadId :: "string option"

record HobitAgentHistoryResult =
  hr_agentId :: string
  hr_events :: "HobitAgentHistoryEvent list"
  hr_limit :: nat
  hr_totalAvailable :: nat
  hr_truncated :: bool

datatype MessagingErrorCode = MeAgentNotFound | MeBlocked

record HobitAgentMessagingError =
  me_agentId :: "string option"
  me_code :: MessagingErrorCode
  me_message :: string

record HobitAgentMessagingResult =
  mr_error :: "HobitAgentMessagingError option"
  mr_histories :: "HobitAgentHistory list"
  mr_message :: HobitAgentMessage
  mr_status :: HobitAgentMessageStatus

section \<open>Histories\<close>

definition normalizeLimit :: "js_number option \<Rightarrow> nat \<Rightarrow> nat" where
  "normalizeLimit v fallback =
     (case v of
        Some (Fin r) \<Rightarrow> if r < 1 then fallback else nat \<lfloor>r\<rfloor>
      | _ \<Rightarrow> fallback)"

definition createAgentHistory :: "string \<Rightarrow> HobitAgentHistoryEvent list \<Rightarrow> js_number option \<Rightarrow> HobitAgentHistory" where
  "createAgentHistory agentId events maxEvents =
     \<lparr>hh_agentId = agentId, hh_events = js_slice_last (normalizeLimit maxEvents 50) events,
      hh_maxEvents = normalizeLimit maxEvents 50\<rparr>"

text \<open>A stored bound is a positive integer again when it is read back as a number.\<close>

abbreviation storedLimit :: "nat \<Rightarrow> js_number option" where
  "storedLimit n \<equiv> Some (Fin (of_nat n))"

definition appendAgentHistoryEvent :: "HobitAgentHistory \<Rightarrow> HobitAgentHistoryEvent \<Rightarrow> HobitAgentHistory" where
  "appendAgentHistoryEvent history event =
     createAgentHistory (hh_agentId history) (hh_events history @ [event]) (storedLimit (hh_maxEvents history))"

definition appendHistoryForAgent ::
    "(string \<Rightarrow> string \<Rightarrow> int) \<Rightarrow> HobitAgentHistory list \<Rightarrow> string \<Rightarrow> HobitAgentMessageDirection \<Rightarrow> js_number option
     \<Rightarrow> HobitAgentMessage \<Rightarrow> HobitAgentHistory list" where
  "appendHistoryForAgent lc histories agentId direction maxHistoryEvents message =
     (let existing = js_default (createAgentHistory agentId [] maxHistoryEvents)
            (List.find (\<lambda>candidate. hh_agentId candidate = agentId) histories);
          history = appendAgentHistoryEvent existing
            \<lparr>he_agentId = agentId, he_createdAt = hm_createdAt message, he_direction = direction,
             he_eventId = js_join '':'' [agentId, directionName direction, hm_messageId message],
             he_message = message\<rparr>;
          others = filter (\<lambda>candidate. hh_agentId candidate \<noteq> agentId) histories
      in js_sort (\<lambda>left right. localeCompare lc (hh_agentId left) (hh_agentId right)) (others @ [history]))"

definition createAgentHistoryResult ::
    "string \<Rightarrow> HobitAgentHistoryEvent list \<Rightarrow> js_number option \<Rightarrow> HobitAgentHistoryResult" where
  "createAgentHistoryResult agentId events limit =
     (let boundedLimit = normalizeLimit limit 50; boundedEvents = js_slice_last boundedLimit events
      in \<lparr>hr_agentId = agentId, hr_events = boundedEvents, hr_limit = boundedLimit,
          hr_totalAvailable = length events, hr_truncated = (length boundedEvents < length events)\<rparr>)"

definition matchesQuery :: "HobitAgentHistoryQuery \<Rightarrow> HobitAgentHistoryEvent \<Rightarrow> bool" where
  "matchesQuery query event \<longleftrightarrow>
     he_agentId event = hq_agentId query
     \<and> (case hq_direction query of Some d \<Rightarrow> he_direction event = d | None \<Rightarrow> True)
     \<and> (case hq_kind query of Some k \<Rightarrow> hm_kind (he_message event) = k | None \<Rightarrow> True)
     \<and> (if js_truthy_str (hq_threadId query) then hm_threadId (he_message event) = hq_threadId query else True)"

definition getBoundedAgentHistory :: "HobitAgentHistory \<Rightarrow> HobitAgentHistoryQuery \<Rightarrow> HobitAgentHistoryResult" where
  "getBoundedAgentHistory history query =
     createAgentHistoryResult (hq_agentId query) (filter (matchesQuery query) (hh_events history))
       (Some (js_default (Fin (of_nat (hh_maxEvents history))) (hq_limit query)))"

section \<open>Messages\<close>

record HobitAgentMessageInput =
  mi_body :: string
  mi_correlationId :: "string option"
  mi_createdAt :: string
  mi_fromAgentId :: string
  mi_kind :: "HobitAgentMessageKind option"
  mi_messageId :: "string option"
  mi_status :: "HobitAgentMessageStatus option"
  mi_threadId :: "string option"
  mi_toAgentId :: string

definition createAgentMessage :: "HobitAgentMessageInput \<Rightarrow> HobitAgentMessage" where
  "createAgentMessage input =
     (let kind = js_default MkAgent (mi_kind input)
      in \<lparr>hm_body = mi_body input,
          hm_correlationId = (if js_truthy_str (mi_correlationId input) then mi_correlationId input else None),
          hm_createdAt = mi_createdAt input, hm_failureReason = None, hm_fromAgentId = mi_fromAgentId input,
          hm_kind = kind,
          hm_messageId = js_default (js_join '':'' [mi_fromAgentId input, ''to'', mi_toAgentId input, ''at'',
              mi_createdAt input, ''kind'', messageKindName kind]) (mi_messageId input),
          hm_status = js_default MsSent (mi_status input),
          hm_threadId = (if js_truthy_str (mi_threadId input) then mi_threadId input else None),
          hm_toAgentId = mi_toAgentId input\<rparr>)"

definition markMessageDelivered :: "HobitAgentMessage \<Rightarrow> HobitAgentMessage" where
  "markMessageDelivered message = message\<lparr>hm_failureReason := None, hm_status := MsDelivered\<rparr>"

definition markMessageFailed :: "HobitAgentMessage \<Rightarrow> string \<Rightarrow> HobitAgentMessage" where
  "markMessageFailed message failureReason =
     message\<lparr>hm_failureReason := Some failureReason, hm_status := MsFailed\<rparr>"

definition notRegistered :: "string \<Rightarrow> string" where
  "notRegistered agentId = ''Agent '' @ agentId @ '' is not registered.''"

definition sendAgentMessage ::
    "(string \<Rightarrow> string \<Rightarrow> int) \<Rightarrow> HobitAgentHistory list \<Rightarrow> js_number option \<Rightarrow> HobitAgentMessage \<Rightarrow> string list
     \<Rightarrow> HobitAgentMessagingResult" where
  "sendAgentMessage lc histories maxHistoryEvents message registeredAgentIds =
     (if hm_toAgentId message \<notin> set registeredAgentIds
      then let failed = markMessageFailed message (notRegistered (hm_toAgentId message))
        in \<lparr>mr_error = Some \<lparr>me_agentId = Some (hm_toAgentId message), me_code = MeAgentNotFound,
              me_message = notRegistered (hm_toAgentId message)\<rparr>,
            mr_histories = appendHistoryForAgent lc histories (hm_fromAgentId message) MdSent maxHistoryEvents failed,
            mr_message = failed, mr_status = MsFailed\<rparr>
      else let sent = message\<lparr>hm_status := MsSent\<rparr>;
               withSenderHistory =
                 appendHistoryForAgent lc histories (hm_fromAgentId sent) MdSent maxHistoryEvents sent;
               withReceiverHistory =
                 appendHistoryForAgent lc withSenderHistory (hm_toAgentId sent) MdReceived maxHistoryEvents
                   (sent\<lparr>hm_status := MsReceived\<rparr>)
        in \<lparr>mr_error = None, mr_histories = withReceiverHistory, mr_message = sent, mr_status = MsSent\<rparr>)"

definition receiveAgentMessage ::
    "(string \<Rightarrow> string \<Rightarrow> int) \<Rightarrow> HobitAgentHistory list \<Rightarrow> js_number option \<Rightarrow> HobitAgentMessage
     \<Rightarrow> HobitAgentMessagingResult" where
  "receiveAgentMessage lc histories maxHistoryEvents message =
     (let received = message\<lparr>hm_status := MsReceived\<rparr>
      in \<lparr>mr_error = None,
          mr_histories = appendHistoryForAgent lc histories (hm_toAgentId received) MdReceived maxHistoryEvents received,
          mr_message = received, mr_status = MsReceived\<rparr>)"

section \<open>Properties of histories\<close>

definition historyOf :: "HobitAgentHistory list \<Rightarrow> string \<Rightarrow> HobitAgentHistoryEvent list" where
  "historyOf histories agentId =
     (case List.find (\<lambda>h. hh_agentId h = agentId) histories of Some h \<Rightarrow> hh_events h | None \<Rightarrow> [])"

definition historyOk :: "HobitAgentHistory \<Rightarrow> bool" where
  "historyOk h \<longleftrightarrow> length (hh_events h) \<le> hh_maxEvents h \<and> 0 < hh_maxEvents h
     \<and> list_all (\<lambda>e. he_agentId e = hh_agentId h) (hh_events h)"

definition historiesOk :: "HobitAgentHistory list \<Rightarrow> bool" where
  "historiesOk hs \<longleftrightarrow> distinct (map hh_agentId hs) \<and> list_all historyOk hs"

lemma normalizeLimit_pos: "0 < fallback \<Longrightarrow> 0 < normalizeLimit v fallback"
  by (auto simp: normalizeLimit_def split: option.split js_number.split)

lemma normalizeLimit_stored [simp]: "0 < n \<Longrightarrow> normalizeLimit (storedLimit n) fallback = n"
  by (simp add: normalizeLimit_def)

lemma length_slice_last [simp]: "length (js_slice_last n xs) = min n (length xs)"
  by (simp add: js_slice_last_def)

lemma set_slice_last: "set (js_slice_last n xs) \<subseteq> set xs"
  by (simp add: js_slice_last_def set_drop_subset)

lemma historyOk_create: "list_all (\<lambda>e. he_agentId e = i) es \<Longrightarrow> historyOk (createAgentHistory i es m)"
  using set_slice_last [of "normalizeLimit m 50" es]
  by (auto simp: historyOk_def createAgentHistory_def normalizeLimit_pos list_all_iff)

lemma hh_agentId_create [simp]: "hh_agentId (createAgentHistory i es m) = i"
  by (simp add: createAgentHistory_def)

lemma appendEvent_agent [simp]: "hh_agentId (appendAgentHistoryEvent h e) = hh_agentId h"
  by (simp add: appendAgentHistoryEvent_def)

lemma appendEvent_ok:
  "historyOk h \<Longrightarrow> he_agentId e = hh_agentId h \<Longrightarrow> historyOk (appendAgentHistoryEvent h e)"
  unfolding appendAgentHistoryEvent_def by (rule historyOk_create) (simp add: historyOk_def)

lemma appendEvent_events:
  "historyOk h \<Longrightarrow> hh_maxEvents (appendAgentHistoryEvent h e) = hh_maxEvents h \<and>
     hh_events (appendAgentHistoryEvent h e) = js_slice_last (hh_maxEvents h) (hh_events h @ [e])"
  by (simp add: appendAgentHistoryEvent_def createAgentHistory_def historyOk_def)

lemma find_distinct_perm:
  assumes "distinct (map f xs)" and "mset ys = mset xs"
  shows "List.find (\<lambda>x. f x = i) ys = List.find (\<lambda>x. f x = i) xs"
proof -
  have d: "distinct (map f ys)" using assms by (metis mset_eq_imp_distinct_iff mset_map)
  have e: "set ys = set xs" using assms(2) by (metis set_mset_mset)
  have u: "x = y" if "x \<in> set xs" "y \<in> set xs" "f x = f y" for x y
    using assms(1) that by (meson distinct_map inj_onD)
  show ?thesis
  proof (cases "List.find (\<lambda>x. f x = i) xs")
    case None
    then have "List.find (\<lambda>x. f x = i) ys = None" using e by (auto simp: find_None_iff)
    with None show ?thesis by simp
  next
    case (Some x)
    then have x: "x \<in> set xs" "f x = i" by (auto dest: find_Some_iff_mem)
    then obtain y where y: "List.find (\<lambda>x. f x = i) ys = Some y"
      using e by (cases "List.find (\<lambda>x. f x = i) ys") (auto simp: find_None_iff)
    then have "y \<in> set xs" "f y = i" using e by (auto dest: find_Some_iff_mem)
    then show ?thesis using u x y Some by metis
  qed
qed

text \<open>The bound that applies to the next event of an agent, and the event itself.\<close>

definition boundOf :: "HobitAgentHistory list \<Rightarrow> string \<Rightarrow> js_number option \<Rightarrow> nat" where
  "boundOf histories agentId maxHistoryEvents =
     (case List.find (\<lambda>h. hh_agentId h = agentId) histories of
        Some h \<Rightarrow> hh_maxEvents h | None \<Rightarrow> normalizeLimit maxHistoryEvents 50)"

definition eventFor :: "string \<Rightarrow> HobitAgentMessageDirection \<Rightarrow> HobitAgentMessage \<Rightarrow> HobitAgentHistoryEvent" where
  "eventFor agentId direction message =
     \<lparr>he_agentId = agentId, he_createdAt = hm_createdAt message, he_direction = direction,
      he_eventId = js_join '':'' [agentId, directionName direction, hm_messageId message],
      he_message = message\<rparr>"

definition recorded :: "nat \<Rightarrow> HobitAgentHistoryEvent list \<Rightarrow> HobitAgentHistoryEvent \<Rightarrow> HobitAgentHistoryEvent list" where
  "recorded bound events event = js_slice_last bound (events @ [event])"

lemma find_filter_other:
  "List.find (\<lambda>x. f x = i) (filter (\<lambda>x. f x \<noteq> a) xs)
   = (if i = a then None else List.find (\<lambda>x. f x = i) xs)"
  by (induction xs) auto

lemma find_append_one:
  "List.find P (xs @ [x]) = (case List.find P xs of None \<Rightarrow> if P x then Some x else None | Some y \<Rightarrow> Some y)"
  by (induction xs) auto

lemma historyOk_found:
  "historiesOk hs \<Longrightarrow> List.find (\<lambda>h. hh_agentId h = a) hs = Some h \<Longrightarrow> historyOk h \<and> hh_agentId h = a"
  by (auto simp: historiesOk_def list_all_iff dest: find_Some_iff_mem)

text \<open>The agent's history after an append is found in place of the old one.\<close>

lemma append_found:
  assumes ok: "historiesOk hs"
  shows "historiesOk (appendHistoryForAgent lc hs a d mx m)"
    and "List.find (\<lambda>h. hh_agentId h = i) (appendHistoryForAgent lc hs a d mx m)
         = (if i = a then Some \<lparr>hh_agentId = a,
              hh_events = recorded (boundOf hs a mx) (historyOf hs a) (eventFor a d m),
              hh_maxEvents = boundOf hs a mx\<rparr>
            else List.find (\<lambda>h. hh_agentId h = i) hs)"
proof -
  define old where "old = js_default (createAgentHistory a [] mx) (List.find (\<lambda>h. hh_agentId h = a) hs)"
  define new where "new = appendAgentHistoryEvent old (eventFor a d m)"
  define others where "others = filter (\<lambda>h. hh_agentId h \<noteq> a) hs"
  let ?all = "others @ [new]"
  have old: "historyOk old \<and> hh_agentId old = a"
  proof (cases "List.find (\<lambda>h. hh_agentId h = a) hs")
    case None
    then show ?thesis by (simp add: old_def historyOk_create)
  next
    case (Some h)
    then show ?thesis using historyOk_found [OF ok Some] by (simp add: old_def)
  qed
  have bounds: "hh_maxEvents old = boundOf hs a mx \<and> hh_events old = historyOf hs a"
    by (cases "List.find (\<lambda>h. hh_agentId h = a) hs")
      (simp_all add: old_def boundOf_def historyOf_def createAgentHistory_def js_slice_last_def)
  have new: "hh_agentId new = a" "historyOk new"
    by (simp_all add: new_def old appendEvent_ok eventFor_def)
  have "new = \<lparr>hh_agentId = a, hh_events = recorded (boundOf hs a mx) (historyOf hs a) (eventFor a d m),
              hh_maxEvents = boundOf hs a mx\<rparr>"
    using appendEvent_events [OF conjunct1 [OF old], of "eventFor a d m"] new(1) bounds
    by (simp add: new_def recorded_def)
  note new_eq = this
  have dist: "distinct (map hh_agentId ?all)"
    using ok new by (auto simp: others_def historiesOk_def distinct_map_filter)
  have result: "appendHistoryForAgent lc hs a d mx m
      = js_sort (\<lambda>l r. localeCompare lc (hh_agentId l) (hh_agentId r)) ?all"
    by (simp add: appendHistoryForAgent_def Let_def old_def new_def others_def eventFor_def)
  have perm: "mset (appendHistoryForAgent lc hs a d mx m) = mset ?all"
    by (simp add: result mset_js_sort)
  show "historiesOk (appendHistoryForAgent lc hs a d mx m)"
    unfolding historiesOk_def
  proof
    show "distinct (map hh_agentId (appendHistoryForAgent lc hs a d mx m))"
      using dist perm by (metis mset_eq_imp_distinct_iff mset_map)
    show "list_all historyOk (appendHistoryForAgent lc hs a d mx m)"
      using ok new by (auto simp: result list_all_iff historiesOk_def others_def)
  qed
  show "List.find (\<lambda>h. hh_agentId h = i) (appendHistoryForAgent lc hs a d mx m)
         = (if i = a then Some \<lparr>hh_agentId = a,
              hh_events = recorded (boundOf hs a mx) (historyOf hs a) (eventFor a d m),
              hh_maxEvents = boundOf hs a mx\<rparr>
            else List.find (\<lambda>h. hh_agentId h = i) hs)"
    unfolding find_distinct_perm [OF dist perm] find_append_one others_def find_filter_other new_eq
    by (auto split: option.split)
qed

lemma append_historyOf:
  "historiesOk hs \<Longrightarrow> historyOf (appendHistoryForAgent lc hs a d mx m) i
     = (if i = a then recorded (boundOf hs a mx) (historyOf hs a) (eventFor a d m) else historyOf hs i)"
  by (simp add: historyOf_def [of "appendHistoryForAgent lc hs a d mx m"] append_found(2))
     (simp add: historyOf_def)

lemma append_boundOf:
  "historiesOk hs \<Longrightarrow> boundOf (appendHistoryForAgent lc hs a d mx m) i mx = boundOf hs i mx"
  by (simp add: boundOf_def [of "appendHistoryForAgent lc hs a d mx m"] append_found(2))
     (simp add: boundOf_def)

lemma last_recorded: "0 < n \<Longrightarrow> recorded n es e \<noteq> [] \<and> last (recorded n es e) = e"
  by (simp add: recorded_def js_slice_last_def)

lemma boundOf_pos: "historiesOk hs \<Longrightarrow> 0 < boundOf hs i mx"
  by (cases "List.find (\<lambda>h. hh_agentId h = i) hs")
    (auto simp: boundOf_def historyOk_def normalizeLimit_pos dest: historyOk_found)

section \<open>Sending\<close>

text \<open>
  C21. A message to an agent that is not registered is refused with \<open>agent_not_found\<close>, and the
  sender's history alone records it, as failed. A message to a registered agent is recorded in the
  sender's history as sent and then in the receiver's as received. Each recording drops the oldest
  events beyond the history's bound, no other agent's history changes, and one history per agent
  remains, none longer than its bound.
\<close>

theorem sendAgentMessage_records:
  fixes message :: HobitAgentMessage and histories :: "HobitAgentHistory list" and lc :: "string \<Rightarrow> string \<Rightarrow> int"
    and maxHistoryEvents :: "js_number option" and registeredAgentIds :: "string list"
  assumes "historiesOk histories"
  defines "from \<equiv> hm_fromAgentId message" and "to \<equiv> hm_toAgentId message"
  defines "res \<equiv> sendAgentMessage lc histories maxHistoryEvents message registeredAgentIds"
  defines "record \<equiv> \<lambda>i direction m hist.
     recorded (boundOf histories i maxHistoryEvents) (hist i) (eventFor i direction m)"
  defines "failed \<equiv> message\<lparr>hm_failureReason := Some (''Agent '' @ to @ '' is not registered.''), hm_status := MsFailed\<rparr>"
  defines "sent \<equiv> message\<lparr>hm_status := MsSent\<rparr>"
  defines "afterSender \<equiv> (historyOf histories)(from := record from MdSent sent (historyOf histories))"
  shows "historiesOk (mr_histories res)
    \<and> (if to \<notin> set registeredAgentIds
       then mr_status res = MsFailed \<and> mr_message res = failed
         \<and> map_option me_code (mr_error res) = Some MeAgentNotFound
         \<and> historyOf (mr_histories res)
             = (historyOf histories)(from := record from MdSent failed (historyOf histories))
       else mr_status res = MsSent \<and> mr_message res = sent \<and> mr_error res = None
         \<and> historyOf (mr_histories res)
             = afterSender(to := record to MdReceived (message\<lparr>hm_status := MsReceived\<rparr>) afterSender))"
proof (cases "to \<in> set registeredAgentIds")
  case False
  then show ?thesis
    using assms(1) unfolding res_def record_def failed_def from_def to_def
    by (auto simp: sendAgentMessage_def Let_def append_found(1) append_historyOf markMessageFailed_def
        notRegistered_def fun_eq_iff)
next
  case True
  let ?hs = "appendHistoryForAgent lc histories from MdSent maxHistoryEvents sent"
  have ok: "historiesOk ?hs" by (rule append_found(1) [OF assms(1)])
  have mid: "historyOf ?hs = afterSender"
    by (simp add: fun_eq_iff append_historyOf assms(1) afterSender_def record_def)
  have res: "mr_histories res
      = appendHistoryForAgent lc ?hs to MdReceived maxHistoryEvents (message\<lparr>hm_status := MsReceived\<rparr>)"
    using True by (simp add: res_def sendAgentMessage_def Let_def from_def to_def sent_def)
  have "historyOf (mr_histories res)
      = afterSender(to := record to MdReceived (message\<lparr>hm_status := MsReceived\<rparr>) afterSender)"
    by (simp add: fun_eq_iff res append_historyOf [OF ok] mid append_boundOf [OF assms(1)] record_def)
  then show ?thesis
    using True append_found(1) [OF ok] res
    by (simp add: res_def sendAgentMessage_def Let_def to_def sent_def)
qed

definition exampleAgentMessage :: HobitAgentMessage where
  "exampleAgentMessage = \<lparr>hm_body = ''hello'', hm_correlationId = None, hm_createdAt = ''t0'', hm_failureReason = None,
     hm_fromAgentId = ''a'', hm_kind = MkAgent, hm_messageId = ''m1'', hm_status = MsSent, hm_threadId = None,
     hm_toAgentId = ''b''\<rparr>"

lemma sendAgentMessage_records_witness:
  "historyOf (mr_histories (sendAgentMessage codeUnitCompare [] (Some (Fin 2)) exampleAgentMessage [''a'', ''b''])) ''b''
     = [eventFor ''b'' MdReceived (exampleAgentMessage\<lparr>hm_status := MsReceived\<rparr>)]"
  using sendAgentMessage_records [of "[]" codeUnitCompare "Some (Fin 2)" exampleAgentMessage "[''a'', ''b'']"]
  by (simp add: historiesOk_def exampleAgentMessage_def recorded_def boundOf_def historyOf_def normalizeLimit_def
      js_slice_last_def)

text \<open>
  A delivered message is read back: the receiver's bounded history, asked for without filters,
  ends with the message as received, within the requested limit.
\<close>

theorem sent_message_read_back:
  fixes message :: HobitAgentMessage and limit :: "js_number option"
  assumes "historiesOk histories" and "hm_toAgentId message \<in> set registeredAgentIds"
  defines "query \<equiv> \<lparr>hq_agentId = hm_toAgentId message, hq_direction = None, hq_kind = None, hq_limit = limit,
      hq_threadId = None\<rparr>"
  shows "\<exists>history.
    List.find (\<lambda>h. hh_agentId h = hm_toAgentId message)
      (mr_histories (sendAgentMessage lc histories maxHistoryEvents message registeredAgentIds)) = Some history
    \<and> hr_events (getBoundedAgentHistory history query) \<noteq> []
    \<and> he_message (last (hr_events (getBoundedAgentHistory history query))) = message\<lparr>hm_status := MsReceived\<rparr>
    \<and> length (hr_events (getBoundedAgentHistory history query)) \<le> hr_limit (getBoundedAgentHistory history query)"
proof -
  let ?to = "hm_toAgentId message" and ?m = "message\<lparr>hm_status := MsReceived\<rparr>"
  define hs where "hs = appendHistoryForAgent lc histories (hm_fromAgentId message) MdSent maxHistoryEvents
      (message\<lparr>hm_status := MsSent\<rparr>)"
  define final where "final = appendHistoryForAgent lc hs ?to MdReceived maxHistoryEvents ?m"
  define history where "history = \<lparr>hh_agentId = ?to,
      hh_events = recorded (boundOf hs ?to maxHistoryEvents) (historyOf hs ?to) (eventFor ?to MdReceived ?m),
      hh_maxEvents = boundOf hs ?to maxHistoryEvents\<rparr>"
  have ok: "historiesOk hs" unfolding hs_def by (rule append_found(1) [OF assms(1)])
  have final: "mr_histories (sendAgentMessage lc histories maxHistoryEvents message registeredAgentIds) = final"
    using assms(2) by (simp add: sendAgentMessage_def Let_def hs_def final_def)
  have found: "List.find (\<lambda>h. hh_agentId h = ?to) final = Some history"
    unfolding final_def history_def by (simp add: append_found(2) [OF ok])
  have evs: "hh_events history \<noteq> []" "he_message (last (hh_events history)) = ?m"
    using last_recorded [OF boundOf_pos [OF ok, of ?to maxHistoryEvents]]
    by (simp_all add: history_def eventFor_def)
  have "historyOk history" "hh_agentId history = ?to"
    using historyOk_found [OF _ found] append_found(1) [OF ok] by (simp_all add: final_def)
  then have all: "filter (matchesQuery query) (hh_events history) = hh_events history"
    by (simp add: matchesQuery_def query_def historyOk_def list_all_iff)
  define n where "n = normalizeLimit (Some (js_default (Fin (of_nat (hh_maxEvents history))) limit)) 50"
  have n: "0 < n" by (simp add: n_def normalizeLimit_pos)
  have lim: "hq_limit query = limit" by (simp add: query_def)
  have ev: "hr_events (getBoundedAgentHistory history query) = js_slice_last n (hh_events history)"
    "hr_limit (getBoundedAgentHistory history query) = n"
    unfolding getBoundedAgentHistory_def createAgentHistoryResult_def all lim n_def [symmetric] Let_def
    by simp_all
  have ne: "js_slice_last n (hh_events history) \<noteq> []"
    using n evs(1) by (cases "hh_events history") (auto simp: js_slice_last_def)
  then have "last (js_slice_last n (hh_events history)) = last (hh_events history)"
    unfolding js_slice_last_def by (simp add: last_drop)
  then have "hr_events (getBoundedAgentHistory history query) \<noteq> []
    \<and> he_message (last (hr_events (getBoundedAgentHistory history query))) = ?m
    \<and> length (hr_events (getBoundedAgentHistory history query)) \<le> hr_limit (getBoundedAgentHistory history query)"
    unfolding ev using evs(2) ne by simp
  then show ?thesis unfolding final using found by blast
qed

lemma sent_message_read_back_witness:
  "\<exists>history. he_message (last (hr_events (getBoundedAgentHistory history
     \<lparr>hq_agentId = ''b'', hq_direction = None, hq_kind = None, hq_limit = None, hq_threadId = None\<rparr>)))
     = exampleAgentMessage\<lparr>hm_status := MsReceived\<rparr>"
  using sent_message_read_back [of "[]" exampleAgentMessage "[''a'', ''b'']" codeUnitCompare None None]
  by (auto simp: historiesOk_def exampleAgentMessage_def)

end
