(* ===== verification/Agent_Capabilities.thy ===== *)
theory Agent_Capabilities
  imports Json
begin

text \<open>
  Capabilities of the in-app agents, the registry that lists them and the policy that decides about
  their use: \<open>workbench/agents/capabilities/types.ts\<close>, \<open>registry.ts\<close> and \<open>policy.ts\<close>, with the role
  ids of \<open>agents/context/types.ts\<close> and the action request of \<open>agents/broker/types.ts\<close>.

  A request is what a caller outside the type checker can send: every member may be missing
  (\<open>None\<close>). A member that is missing is printed as \<open>undefined\<close> in a message.
\<close>

section \<open>Capabilities\<close>

datatype HobitAgentRoleId = RoleWorkspaceAgent | RoleQueueCoordinator | RoleTestHarness

fun roleIdName :: "HobitAgentRoleId \<Rightarrow> string" where
  "roleIdName RoleWorkspaceAgent = ''workspace_agent''"
| "roleIdName RoleQueueCoordinator = ''queue_coordinator''"
| "roleIdName RoleTestHarness = ''test_harness''"

datatype SideEffectLevel = SeRead | SeWrite | SeExecute | SeDestructive

datatype ConfirmationRequirement = CrNone | CrRecommended | CrRequired

datatype CapabilityAvailability = CaAvailable | CaUnavailable string

record CapabilityInputSchema =
  is_acceptedFields :: "string list"
  is_fieldDescriptions :: "(string \<times> string) list"
  is_invalidInputGuidance :: "string list option"
  is_requiredFields :: "string list"
  is_shape :: string

record CapabilityActionRequestExample =
  xr_capabilityId :: string
  xr_confirmationToken :: "string option"
  xr_dryRun :: bool
  xr_input :: json
  xr_reason :: "string option"
  xr_requestId :: "string option"

record CapabilityExample =
  ce_description :: string
  ce_exampleActionRequest :: CapabilityActionRequestExample
  ce_exampleInput :: json

record HobitAgentCapability =
  cp_allowedAgentRoles :: "HobitAgentRoleId list"
  cp_auditEventNames :: "string list"
  cp_availability :: CapabilityAvailability
  cp_confirmationRequirement :: ConfirmationRequirement
  cp_defaultForProductActions :: bool
  cp_description :: string
  cp_forbiddenSideEffects :: "string list"
  cp_id :: string
  cp_inputSchemaDescription :: string
  cp_inputSchema :: "CapabilityInputSchema option"
  cp_examples :: "CapabilityExample list option"
  cp_outputSchemaDescription :: string
  cp_ownerSurface :: string
  cp_restricted :: bool
  cp_sideEffectLevel :: SideEffectLevel
  cp_supportsDryRun :: bool
  cp_supportsSelfTest :: bool
  cp_title :: string

record HobitAgentCapabilityRegistry =
  rg_capabilities :: "HobitAgentCapability list"
  rg_version :: string

section \<open>The registry\<close>

definition createHobitAgentCapabilityRegistry ::
    "(string \<Rightarrow> string \<Rightarrow> int) \<Rightarrow> HobitAgentCapability list \<Rightarrow> HobitAgentCapabilityRegistry" where
  "createHobitAgentCapabilityRegistry lc capabilities =
     \<lparr>rg_capabilities = js_sort (\<lambda>left right. localeCompare lc (cp_id left) (cp_id right)) capabilities,
      rg_version = ''hobit-agent-capability-runtime.v0''\<rparr>"

definition listAvailableCapabilities ::
    "HobitAgentCapabilityRegistry \<Rightarrow> HobitAgentRoleId option \<Rightarrow> HobitAgentCapability list" where
  "listAvailableCapabilities registry roleId =
     filter (\<lambda>capability. cp_availability capability = CaAvailable
       \<and> (case roleId of None \<Rightarrow> True | Some r \<Rightarrow> r \<in> set (cp_allowedAgentRoles capability)))
       (rg_capabilities registry)"

definition findCapability :: "HobitAgentCapabilityRegistry \<Rightarrow> string option \<Rightarrow> HobitAgentCapability option" where
  "findCapability registry capabilityId =
     List.find (\<lambda>capability. Some (cp_id capability) = capabilityId) (rg_capabilities registry)"

definition listSelfTestCapabilities ::
    "HobitAgentCapabilityRegistry \<Rightarrow> HobitAgentRoleId option \<Rightarrow> HobitAgentCapability list" where
  "listSelfTestCapabilities registry roleId = filter cp_supportsSelfTest (listAvailableCapabilities registry roleId)"

section \<open>Requests and the capability policy\<close>

datatype RequestIdSource = RiDerived | RiExplicit

record HobitAgentActionRequest =
  rq_agentId :: "string option"
  rq_agentRole :: "HobitAgentRoleId option"
  rq_agentRoleId :: "HobitAgentRoleId option"
  rq_capabilityId :: "string option"
  rq_confirmationToken :: "string option"
  rq_createdAt :: "string option"
  rq_dryRun :: "bool option"
  rq_input :: "json option"
  rq_reason :: "string option"
  rq_rawRequestId :: "string option"
  rq_requestId :: "string option"
  rq_requestIdSource :: "RequestIdSource option"
  rq_requestedAt :: "string option"

datatype PolicyStatus = PsAllowed | PsUnavailable | PsBlocked | PsRequiresConfirmation | PsRequiresDryRun

record HobitAgentPolicyDecision =
  pd_allowed :: bool
  pd_capability :: "HobitAgentCapability option"
  pd_reasons :: "string list"
  pd_requiresConfirmation :: bool
  pd_requiresDryRun :: bool
  pd_status :: PolicyStatus

text \<open>How a template literal prints an optional string, and a role.\<close>

definition printed :: "string option \<Rightarrow> string" where
  "printed = js_default ''undefined''"

definition printedRole :: "HobitAgentRoleId option \<Rightarrow> string" where
  "printedRole r = printed (map_option roleIdName r)"

definition dryRunOf :: "HobitAgentActionRequest \<Rightarrow> bool" where
  "dryRunOf request \<longleftrightarrow> rq_dryRun request = Some True"

definition roleAllowed :: "HobitAgentRoleId option \<Rightarrow> HobitAgentCapability \<Rightarrow> bool" where
  "roleAllowed role capability \<longleftrightarrow> role \<in> Some ` set (cp_allowedAgentRoles capability)"

definition canAgentUseCapability :: "HobitAgentRoleId \<Rightarrow> HobitAgentCapability \<Rightarrow> bool" where
  "canAgentUseCapability roleId capability \<longleftrightarrow>
     cp_availability capability = CaAvailable \<and> roleId \<in> set (cp_allowedAgentRoles capability)"

definition requiresConfirmation :: "HobitAgentCapability \<Rightarrow> bool" where
  "requiresConfirmation capability \<longleftrightarrow>
     cp_confirmationRequirement capability = CrRequired \<or> cp_sideEffectLevel capability = SeDestructive"

definition requiresDryRun :: "HobitAgentCapability \<Rightarrow> bool" where
  "requiresDryRun capability \<longleftrightarrow> cp_sideEffectLevel capability \<noteq> SeRead \<and> cp_supportsDryRun capability"

definition evaluateCapabilityPolicy ::
    "HobitAgentCapabilityRegistry \<Rightarrow> HobitAgentActionRequest \<Rightarrow> HobitAgentPolicyDecision" where
  "evaluateCapabilityPolicy registry request =
     (let cid = printed (rq_capabilityId request) in
      case findCapability registry (rq_capabilityId request) of
        None \<Rightarrow> \<lparr>pd_allowed = False, pd_capability = None,
          pd_reasons = [''Capability '' @ cid @ '' is not registered.''],
          pd_requiresConfirmation = False, pd_requiresDryRun = False, pd_status = PsUnavailable\<rparr>
      | Some capability \<Rightarrow>
        (case cp_availability capability of
           CaUnavailable reason \<Rightarrow> \<lparr>pd_allowed = False, pd_capability = Some capability, pd_reasons = [reason],
             pd_requiresConfirmation = False, pd_requiresDryRun = False, pd_status = PsUnavailable\<rparr>
         | CaAvailable \<Rightarrow>
           if \<not> roleAllowed (rq_agentRoleId request) capability
           then \<lparr>pd_allowed = False, pd_capability = Some capability,
             pd_reasons = [''Role '' @ printedRole (rq_agentRoleId request) @ '' cannot use '' @ cid @ ''.''],
             pd_requiresConfirmation = False, pd_requiresDryRun = False, pd_status = PsBlocked\<rparr>
           else if requiresDryRun capability \<and> \<not> dryRunOf request \<and> rq_reason request = Some ''self-test''
           then \<lparr>pd_allowed = False, pd_capability = Some capability,
             pd_reasons = [''Self-test for '' @ cid @ '' requires dry-run or a test sandbox.''],
             pd_requiresConfirmation = False, pd_requiresDryRun = True, pd_status = PsRequiresDryRun\<rparr>
           else if requiresConfirmation capability \<and> \<not> js_truthy_str (rq_confirmationToken request)
           then \<lparr>pd_allowed = False, pd_capability = Some capability,
             pd_reasons = [if cp_restricted capability
               then cid @ '' is restricted and requires explicit confirmation.''
               else cid @ '' requires confirmation.''],
             pd_requiresConfirmation = True, pd_requiresDryRun = False, pd_status = PsRequiresConfirmation\<rparr>
           else \<lparr>pd_allowed = True, pd_capability = Some capability, pd_reasons = [],
             pd_requiresConfirmation = False, pd_requiresDryRun = False, pd_status = PsAllowed\<rparr>))"

text \<open>The assertion throws an error with the effects that are missing; \<open>Inl\<close> is the thrown message.\<close>

definition assertCapabilityDoesNotAllowForbiddenSideEffects ::
    "HobitAgentCapability \<Rightarrow> string list \<Rightarrow> string + bool" where
  "assertCapabilityDoesNotAllowForbiddenSideEffects capability forbiddenSideEffects =
     (let missing = filter (\<lambda>sideEffect. sideEffect \<notin> set (cp_forbiddenSideEffects capability)) forbiddenSideEffects
      in if 0 < length missing
         then Inl (cp_id capability @ '' does not explicitly forbid: '' @ js_join '', '' missing)
         else Inr True)"

section \<open>Facts\<close>

lemma findCapability_Some:
  "findCapability registry cid = Some c \<Longrightarrow> c \<in> set (rg_capabilities registry) \<and> cid = Some (cp_id c)"
  by (auto simp: findCapability_def dest: find_Some_iff_mem)

lemma roleAllowed_Some [simp]: "roleAllowed (Some r) c \<longleftrightarrow> r \<in> set (cp_allowedAgentRoles c)"
  by (auto simp: roleAllowed_def)

lemma roleAllowed_None [simp]: "\<not> roleAllowed None c"
  by (auto simp: roleAllowed_def)

lemma evaluateCapabilityPolicy_allowed:
  "pd_allowed (evaluateCapabilityPolicy registry request) \<longleftrightarrow>
     (\<exists>c. findCapability registry (rq_capabilityId request) = Some c \<and> cp_availability c = CaAvailable
        \<and> roleAllowed (rq_agentRoleId request) c
        \<and> (requiresDryRun c \<longrightarrow> rq_reason request = Some ''self-test'' \<longrightarrow> dryRunOf request)
        \<and> (requiresConfirmation c \<longrightarrow> js_truthy_str (rq_confirmationToken request)))"
  by (auto simp: evaluateCapabilityPolicy_def Let_def split: option.split CapabilityAvailability.split)

end
