(* ===== verification/Agent_Runtime.thy ===== *)
theory Agent_Runtime
  imports Agent_Messaging Agent_Capabilities
begin

text \<open>
  The directory of in-app agents: \<open>workbench/agents/runtime/hobitMultiAgentRuntime.ts\<close>. Every
  operation takes a runtime state and returns the next one; an operation on an agent that is not
  registered, or registered already, returns an error and records a \<open>runtime_error\<close> event. Copies
  of immutable values are the values. \<open>agent_directory\<close> is the contract of such a directory: its
  operations act on it as on a finite map.
\<close>

section \<open>State\<close>

datatype HobitAgentStatus = StIdle | StRunning | StWaiting | StBlocked | StFailed | StStopped

fun agentStatusName :: "HobitAgentStatus \<Rightarrow> string" where
  "agentStatusName StIdle = ''idle''"
| "agentStatusName StRunning = ''running''"
| "agentStatusName StWaiting = ''waiting''"
| "agentStatusName StBlocked = ''blocked''"
| "agentStatusName StFailed = ''failed''"
| "agentStatusName StStopped = ''stopped''"

record HobitAgentInstance =
  ag_agentId :: string
  ag_capabilityManifest :: HobitAgentCapabilityRegistry
  ag_createdAt :: string
  ag_role :: HobitAgentRoleId
  ag_status :: HobitAgentStatus
  ag_title :: string
  ag_updatedAt :: string

datatype RuntimeEventKind = RkRegistered | RkUnregistered | RkStatusUpdated | RkError

fun runtimeEventKindName :: "RuntimeEventKind \<Rightarrow> string" where
  "runtimeEventKindName RkRegistered = ''agent_registered''"
| "runtimeEventKindName RkUnregistered = ''agent_unregistered''"
| "runtimeEventKindName RkStatusUpdated = ''agent_status_updated''"
| "runtimeEventKindName RkError = ''runtime_error''"

record HobitAgentRuntimeEvent =
  re_agentId :: "string option"
  re_createdAt :: string
  re_eventId :: string
  re_kind :: RuntimeEventKind
  re_message :: string
  re_status :: "HobitAgentStatus option"

datatype RuntimeErrorCode = RtDuplicateAgentId | RtAgentNotFound | RtBlocked

record HobitAgentRuntimeError =
  er_agentId :: "string option"
  er_code :: RuntimeErrorCode
  er_message :: string

record HobitAgentRuntimeState =
  rt_agents :: "HobitAgentInstance list"
  rt_events :: "HobitAgentRuntimeEvent list"
  rt_histories :: "HobitAgentHistory list"
  rt_maxHistoryEvents :: nat
  rt_workspaceId :: string

record HobitAgentRuntimeSnapshot =
  sn_agentCount :: nat
  sn_agents :: "HobitAgentInstance list"
  sn_events :: "HobitAgentRuntimeEvent list"
  sn_histories :: "HobitAgentHistory list"
  sn_maxHistoryEvents :: nat
  sn_workspaceId :: string

section \<open>Operations\<close>

definition sortAgents :: "(string \<Rightarrow> string \<Rightarrow> int) \<Rightarrow> HobitAgentInstance list \<Rightarrow> HobitAgentInstance list" where
  "sortAgents lc = js_sort (\<lambda>left right. localeCompare lc (ag_agentId left) (ag_agentId right))"

definition createAgentRuntimeState ::
    "(string \<Rightarrow> string \<Rightarrow> int) \<Rightarrow> HobitAgentInstance list \<Rightarrow> HobitAgentHistory list \<Rightarrow> js_number option \<Rightarrow> string
     \<Rightarrow> HobitAgentRuntimeState" where
  "createAgentRuntimeState lc agents histories maxHistoryEvents workspaceId =
     (let boundedMaxHistoryEvents = normalizeLimit (Some (js_default (Fin 50) maxHistoryEvents)) 50
      in \<lparr>rt_agents = sortAgents lc agents, rt_events = [],
          rt_histories = map (\<lambda>history.
            createAgentHistory (hh_agentId history) (hh_events history) (storedLimit boundedMaxHistoryEvents)) histories,
          rt_maxHistoryEvents = boundedMaxHistoryEvents, rt_workspaceId = workspaceId\<rparr>)"

definition appendRuntimeEvent ::
    "HobitAgentRuntimeState \<Rightarrow> string option \<Rightarrow> RuntimeEventKind \<Rightarrow> string \<Rightarrow> HobitAgentStatus option
     \<Rightarrow> HobitAgentRuntimeState" where
  "appendRuntimeEvent state agentId kind message status =
     (let createdAt = (if 0 < length (rt_events state) then re_createdAt (last (rt_events state))
                       else ''2026-01-01T00:00:00.000Z'');
          nextEvent = \<lparr>re_agentId = agentId, re_createdAt = createdAt,
            re_eventId = js_join '':'' [runtimeEventKindName kind, js_default ''runtime'' agentId,
              js_nat_string (length (rt_events state) + 1)],
            re_kind = kind, re_message = message, re_status = status\<rparr>
      in state\<lparr>rt_events := rt_events state @ [nextEvent]\<rparr>)"

definition ensureHistory ::
    "(string \<Rightarrow> string \<Rightarrow> int) \<Rightarrow> HobitAgentHistory list \<Rightarrow> string \<Rightarrow> nat \<Rightarrow> HobitAgentHistory list" where
  "ensureHistory lc histories agentId maxEvents =
     (if list_ex (\<lambda>history. hh_agentId history = agentId) histories
      then map (\<lambda>history. createAgentHistory (hh_agentId history) (hh_events history) (storedLimit maxEvents)) histories
      else js_sort (\<lambda>left right. localeCompare lc (hh_agentId left) (hh_agentId right))
             (histories @ [createAgentHistory agentId [] (storedLimit maxEvents)]))"

definition findAgent :: "HobitAgentRuntimeState \<Rightarrow> string \<Rightarrow> HobitAgentRuntimeError + HobitAgentInstance" where
  "findAgent state agentId =
     (case List.find (\<lambda>candidate. ag_agentId candidate = agentId) (rt_agents state) of
        None \<Rightarrow> Inl \<lparr>er_agentId = Some agentId, er_code = RtAgentNotFound,
                  er_message = ''Agent '' @ agentId @ '' is not registered.''\<rparr>
      | Some agent \<Rightarrow> Inr agent)"

definition registerAgent ::
    "(string \<Rightarrow> string \<Rightarrow> int) \<Rightarrow> HobitAgentRuntimeState \<Rightarrow> HobitAgentInstance
     \<Rightarrow> (HobitAgentRuntimeError + HobitAgentInstance) \<times> HobitAgentRuntimeState" where
  "registerAgent lc state agent =
     (if list_ex (\<lambda>candidate. ag_agentId candidate = ag_agentId agent) (rt_agents state)
      then let error = \<lparr>er_agentId = Some (ag_agentId agent), er_code = RtDuplicateAgentId,
                 er_message = ''Agent '' @ ag_agentId agent @ '' is already registered.''\<rparr>
           in (Inl error, appendRuntimeEvent state (Some (ag_agentId agent)) RkError (er_message error) None)
      else let stateWithAgent = state\<lparr>rt_agents := sortAgents lc (rt_agents state @ [agent]),
                 rt_histories := ensureHistory lc (rt_histories state) (ag_agentId agent) (rt_maxHistoryEvents state)\<rparr>
           in (Inr agent, appendRuntimeEvent stateWithAgent (Some (ag_agentId agent)) RkRegistered
                 (''Agent '' @ ag_agentId agent @ '' registered.'') (Some (ag_status agent))))"

definition unregisterAgent ::
    "HobitAgentRuntimeState \<Rightarrow> string \<Rightarrow> (HobitAgentRuntimeError + HobitAgentInstance) \<times> HobitAgentRuntimeState" where
  "unregisterAgent state agentId =
     (case findAgent state agentId of
        Inl error \<Rightarrow> (Inl error, appendRuntimeEvent state (Some agentId) RkError (er_message error) None)
      | Inr agent \<Rightarrow>
          let nextState = state\<lparr>rt_agents := filter (\<lambda>a. ag_agentId a \<noteq> agentId) (rt_agents state),
                rt_histories := filter (\<lambda>h. hh_agentId h \<noteq> agentId) (rt_histories state)\<rparr>
          in (Inr agent, appendRuntimeEvent nextState (Some agentId) RkUnregistered
                (''Agent '' @ agentId @ '' unregistered.'') None))"

definition listAgents :: "HobitAgentRuntimeState \<Rightarrow> HobitAgentInstance list" where
  "listAgents state = rt_agents state"

definition getAgentStatus :: "HobitAgentRuntimeState \<Rightarrow> string \<Rightarrow> HobitAgentRuntimeError + HobitAgentStatus" where
  "getAgentStatus state agentId =
     (case findAgent state agentId of Inl error \<Rightarrow> Inl error | Inr agent \<Rightarrow> Inr (ag_status agent))"

definition updateAgentStatus ::
    "HobitAgentRuntimeState \<Rightarrow> string \<Rightarrow> HobitAgentStatus \<Rightarrow> string
     \<Rightarrow> (HobitAgentRuntimeError + HobitAgentInstance) \<times> HobitAgentRuntimeState" where
  "updateAgentStatus state agentId status updatedAt =
     (case findAgent state agentId of
        Inl error \<Rightarrow> (Inl error, appendRuntimeEvent state (Some agentId) RkError (er_message error) None)
      | Inr agent \<Rightarrow>
          let updatedAgent = agent\<lparr>ag_status := status, ag_updatedAt := updatedAt\<rparr>;
              nextState = state\<lparr>rt_agents :=
                map (\<lambda>a. if ag_agentId a = agentId then updatedAgent else a) (rt_agents state)\<rparr>
          in (Inr updatedAgent, appendRuntimeEvent nextState (Some agentId) RkStatusUpdated
                (''Agent '' @ agentId @ '' status updated to '' @ agentStatusName status @ ''.'') (Some status)))"

definition getAgentRuntimeSnapshot :: "HobitAgentRuntimeState \<Rightarrow> HobitAgentRuntimeSnapshot" where
  "getAgentRuntimeSnapshot state =
     \<lparr>sn_agentCount = length (rt_agents state), sn_agents = rt_agents state, sn_events = rt_events state,
      sn_histories = map (\<lambda>history. createAgentHistory (hh_agentId history) (hh_events history)
        (storedLimit (hh_maxEvents history))) (rt_histories state),
      sn_maxHistoryEvents = rt_maxHistoryEvents state, sn_workspaceId = rt_workspaceId state\<rparr>"

definition getAgentCapabilityManifest ::
    "HobitAgentRuntimeState \<Rightarrow> string \<Rightarrow> HobitAgentRuntimeError + HobitAgentCapabilityRegistry" where
  "getAgentCapabilityManifest state agentId =
     (case findAgent state agentId of Inl error \<Rightarrow> Inl error | Inr agent \<Rightarrow> Inr (ag_capabilityManifest agent))"

definition getAgentBoundedHistory ::
    "HobitAgentRuntimeState \<Rightarrow> HobitAgentHistoryQuery \<Rightarrow> HobitAgentRuntimeError + HobitAgentHistoryResult" where
  "getAgentBoundedHistory state query =
     (case findAgent state (hq_agentId query) of
        Inl error \<Rightarrow> Inl error
      | Inr agent \<Rightarrow>
          let history = js_default
                (createAgentHistory (hq_agentId query) [] (storedLimit (rt_maxHistoryEvents state)))
                (List.find (\<lambda>candidate. hh_agentId candidate = hq_agentId query) (rt_histories state))
          in Inr (getBoundedAgentHistory history query))"

section \<open>The two test agents\<close>

definition testAgentCapability ::
    "string \<Rightarrow> string \<Rightarrow> string \<Rightarrow> string \<Rightarrow> SideEffectLevel \<Rightarrow> string \<Rightarrow> HobitAgentCapability" where
  "testAgentCapability description i inputSchemaDescription outputSchemaDescription sideEffectLevel title =
     \<lparr>cp_allowedAgentRoles = [RoleTestHarness], cp_auditEventNames = [''hobit.agent.runtime.'' @ i @ ''.requested''],
      cp_availability = CaAvailable,
      cp_confirmationRequirement = (if sideEffectLevel = SeRead then CrNone else CrRecommended),
      cp_defaultForProductActions = False, cp_description = description,
      cp_forbiddenSideEffects = [''app_control_action'', ''broker_execution'', ''codex_run'', ''destructive_action'',
        ''git_mutation'', ''regex_product_action_routing'', ''shell_command'', ''terminal_launch''],
      cp_id = i, cp_inputSchemaDescription = inputSchemaDescription, cp_inputSchema = None, cp_examples = None,
      cp_outputSchemaDescription = outputSchemaDescription, cp_ownerSurface = ''Multi-Agent Runtime'',
      cp_restricted = False, cp_sideEffectLevel = sideEffectLevel, cp_supportsDryRun = True,
      cp_supportsSelfTest = True, cp_title = title\<rparr>"

definition HOBIT_TEST_AGENT_CAPABILITIES :: "HobitAgentCapability list" where
  "HOBIT_TEST_AGENT_CAPABILITIES =
     [testAgentCapability ''Read another registered in-app agent status from the pure runtime snapshot.''
        ''agent.status.read'' ''Target agent id.'' ''Target agent id and current runtime status.''
        SeRead ''Read Agent Status'',
      testAgentCapability ''Read bounded in-app agent history from the pure runtime model.''
        ''agent.history.read'' ''Target agent id plus optional history limit, direction, kind, and thread id.''
        ''Bounded audited history result with truncation metadata.'' SeRead ''Read Agent History'',
      testAgentCapability ''Send a typed internal message to another registered in-app agent.''
        ''agent.message.send''
        ''Sender agent id, receiver agent id, message body, timestamp, kind, and optional thread or correlation id.''
        ''Structured typed message result and sender/receiver history updates.'' SeWrite ''Send Agent Message'',
      testAgentCapability ''Read another registered in-app agent capability manifest.''
        ''agent.capabilities.read'' ''Target agent id.''
        ''Capability manifest with typed capability metadata and policy fields.'' SeRead ''Read Agent Capabilities'',
      testAgentCapability
        ''Run safe model-level self-test checks without shell, Codex, app API mutation, or broker execution.''
        ''agent.selfTest.run'' ''Selected model self-test ids and dry-run flag.''
        ''Safe dry-run self-test result with structured evidence.'' SeRead ''Run Agent Self-Test'']"

definition HOBIT_TEST_AGENT_CAPABILITY_MANIFEST ::
    "(string \<Rightarrow> string \<Rightarrow> int) \<Rightarrow> HobitAgentCapabilityRegistry" where
  "HOBIT_TEST_AGENT_CAPABILITY_MANIFEST lc =
     \<lparr>rg_capabilities =
        js_sort (\<lambda>left right. localeCompare lc (cp_id left) (cp_id right)) HOBIT_TEST_AGENT_CAPABILITIES,
      rg_version = ''hobit-agent-capability-runtime.v0''\<rparr>"

definition createTestAgent :: "(string \<Rightarrow> string \<Rightarrow> int) \<Rightarrow> string \<Rightarrow> string \<Rightarrow> HobitAgentInstance" where
  "createTestAgent lc agentId title =
     \<lparr>ag_agentId = agentId, ag_capabilityManifest = HOBIT_TEST_AGENT_CAPABILITY_MANIFEST lc,
      ag_createdAt = ''2026-01-01T00:00:00.000Z'', ag_role = RoleTestHarness, ag_status = StIdle,
      ag_title = title, ag_updatedAt = ''2026-01-01T00:00:00.000Z''\<rparr>"

definition HOBIT_TEST_AGENT_A :: "(string \<Rightarrow> string \<Rightarrow> int) \<Rightarrow> HobitAgentInstance" where
  "HOBIT_TEST_AGENT_A lc = createTestAgent lc ''test.agentA'' ''Test Agent A''"

definition HOBIT_TEST_AGENT_B :: "(string \<Rightarrow> string \<Rightarrow> int) \<Rightarrow> HobitAgentInstance" where
  "HOBIT_TEST_AGENT_B lc = createTestAgent lc ''test.agentB'' ''Test Agent B''"

section \<open>The contract of a directory\<close>

text \<open>Requests to a directory, and what they do to the finite map it stands for.\<close>

datatype directoryRequest =
  Register HobitAgentInstance | Unregister string | UpdateStatus string HobitAgentStatus string

fun directoryEffect :: "directoryRequest \<Rightarrow> (string \<Rightarrow> HobitAgentInstance option)
    \<Rightarrow> (string \<Rightarrow> HobitAgentInstance option)" where
  "directoryEffect (Register a) m = (if m (ag_agentId a) = None then m(ag_agentId a \<mapsto> a) else m)"
| "directoryEffect (Unregister i) m = m(i := None)"
| "directoryEffect (UpdateStatus i s time) m =
     (case m i of None \<Rightarrow> m | Some a \<Rightarrow> m(i \<mapsto> a\<lparr>ag_status := s, ag_updatedAt := time\<rparr>))"

fun directoryAnswer :: "directoryRequest \<Rightarrow> (string \<Rightarrow> HobitAgentInstance option)
    \<Rightarrow> RuntimeErrorCode + HobitAgentInstance" where
  "directoryAnswer (Register a) m = (if m (ag_agentId a) = None then Inr a else Inl RtDuplicateAgentId)"
| "directoryAnswer (Unregister i) m = (case m i of None \<Rightarrow> Inl RtAgentNotFound | Some a \<Rightarrow> Inr a)"
| "directoryAnswer (UpdateStatus i s time) m =
     (case m i of None \<Rightarrow> Inl RtAgentNotFound | Some a \<Rightarrow> Inr (a\<lparr>ag_status := s, ag_updatedAt := time\<rparr>))"

locale agent_directory =
  fixes ok :: "'s \<Rightarrow> bool"
    and lookup :: "'s \<Rightarrow> string \<Rightarrow> HobitAgentInstance option"
    and perform :: "directoryRequest \<Rightarrow> 's \<Rightarrow> 's"
    and answer :: "directoryRequest \<Rightarrow> 's \<Rightarrow> RuntimeErrorCode + HobitAgentInstance"
    and trail :: "'s \<Rightarrow> 'e list"
  assumes ok_perform: "ok s \<Longrightarrow> ok (perform r s)"
    and lookup_perform: "ok s \<Longrightarrow> lookup (perform r s) = directoryEffect r (lookup s)"
    and answer_perform: "ok s \<Longrightarrow> answer r s = directoryAnswer r (lookup s)"
    and trail_perform: "\<exists>e. trail (perform r s) = trail s @ [e]"
begin

lemma run: "ok s \<Longrightarrow> ok (fold perform rs s) \<and> lookup (fold perform rs s) = fold directoryEffect rs (lookup s)"
proof (induction rs arbitrary: s)
  case (Cons r rs)
  then show ?case using Cons.IH [OF ok_perform [OF Cons.prems]] lookup_perform [OF Cons.prems, of r] by simp
qed simp

lemma run_answer: "ok s \<Longrightarrow> answer r (fold perform rs s) = directoryAnswer r (fold directoryEffect rs (lookup s))"
  using run [of s rs] answer_perform by metis

lemma run_log: "\<exists>es. trail (fold perform rs s) = trail s @ es \<and> length es = length rs"
proof (induction rs arbitrary: s)
  case (Cons r rs)
  obtain e where "trail (perform r s) = trail s @ [e]" using trail_perform by blast
  moreover obtain es where "trail (fold perform rs (perform r s)) = trail (perform r s) @ es" "length es = length rs"
    using Cons.IH by blast
  ultimately show ?case by (intro exI [of _ "e # es"]) simp
qed simp

end

section \<open>The runtime keeps the contract\<close>

fun runtimePerform ::
    "(string \<Rightarrow> string \<Rightarrow> int) \<Rightarrow> directoryRequest \<Rightarrow> HobitAgentRuntimeState
     \<Rightarrow> (HobitAgentRuntimeError + HobitAgentInstance) \<times> HobitAgentRuntimeState" where
  "runtimePerform lc (Register a) s = registerAgent lc s a"
| "runtimePerform lc (Unregister i) s = unregisterAgent s i"
| "runtimePerform lc (UpdateStatus i st time) s = updateAgentStatus s i st time"

definition directoryOf :: "HobitAgentRuntimeState \<Rightarrow> string \<Rightarrow> HobitAgentInstance option" where
  "directoryOf s i = List.find (\<lambda>a. ag_agentId a = i) (rt_agents s)"

text \<open>Agents have distinct ids, and the n-th event id ends with the number n.\<close>

definition eventNumbered :: "HobitAgentRuntimeEvent list \<Rightarrow> bool" where
  "eventNumbered es \<longleftrightarrow>
     (\<forall>i < length es. \<exists>p. re_eventId (es ! i) = p @ '':'' @ js_nat_string (i + 1))"

definition runtimeOk :: "HobitAgentRuntimeState \<Rightarrow> bool" where
  "runtimeOk s \<longleftrightarrow> distinct (map ag_agentId (rt_agents s)) \<and> eventNumbered (rt_events s)"

lemma append_event_simps [simp]:
  "rt_agents (appendRuntimeEvent s i k m st) = rt_agents s"
  "rt_histories (appendRuntimeEvent s i k m st) = rt_histories s"
  by (simp_all add: appendRuntimeEvent_def Let_def)

lemma append_event_numbered:
  "eventNumbered (rt_events s) \<Longrightarrow> eventNumbered (rt_events (appendRuntimeEvent s i k m st))"
  by (auto simp: appendRuntimeEvent_def eventNumbered_def Let_def nth_append less_Suc_eq)

lemma append_event_log: "\<exists>e. rt_events (appendRuntimeEvent s i k m st) = rt_events s @ [e]"
  by (simp add: appendRuntimeEvent_def Let_def)

lemma performed_log: "\<exists>e. rt_events (snd (runtimePerform lc r s)) = rt_events s @ [e]"
proof (cases r)
  case (Register a)
  then show ?thesis
    using append_event_log [of "s\<lparr>rt_agents := sortAgents lc (rt_agents s @ [a]),
      rt_histories := ensureHistory lc (rt_histories s) (ag_agentId a) (rt_maxHistoryEvents s)\<rparr>"]
    by (auto simp: registerAgent_def Let_def append_event_log)
qed (auto simp: unregisterAgent_def updateAgentStatus_def Let_def appendRuntimeEvent_def split: sum.split)

lemma performed_numbered:
  "eventNumbered (rt_events s) \<Longrightarrow> eventNumbered (rt_events (snd (runtimePerform lc r s)))"
  by (cases r) (auto simp: registerAgent_def unregisterAgent_def updateAgentStatus_def Let_def
      intro!: append_event_numbered split: sum.split)

text \<open>Agents with distinct ids are found in any order of the list.\<close>

lemma find_updated:
  "List.find (\<lambda>a. ag_agentId a = j) (map (\<lambda>a. if ag_agentId a = i then b else a) xs)
   = (if j = i then (if i \<in> ag_agentId ` set xs then Some b else None)
      else List.find (\<lambda>a. ag_agentId a = j) xs)"
  if "ag_agentId b = i"
  using that by (induction xs) auto

lemma findAgent_directory:
  "findAgent s i = (case directoryOf s i of
     None \<Rightarrow> Inl \<lparr>er_agentId = Some i, er_code = RtAgentNotFound, er_message = ''Agent '' @ i @ '' is not registered.''\<rparr>
   | Some a \<Rightarrow> Inr a)"
  by (simp add: findAgent_def directoryOf_def)

lemma directoryOf_Some: "directoryOf s i = Some a \<Longrightarrow> ag_agentId a = i \<and> i \<in> ag_agentId ` set (rt_agents s)"
  by (auto simp: directoryOf_def dest: find_Some_iff_mem)

lemma directoryOf_None: "directoryOf s i = None \<longleftrightarrow> i \<notin> ag_agentId ` set (rt_agents s)"
  by (auto simp: directoryOf_def find_None_iff)

lemma known_agent: "list_ex (\<lambda>c. ag_agentId c = i) (rt_agents s) \<longleftrightarrow> directoryOf s i \<noteq> None"
  by (auto simp: directoryOf_None list_ex_iff image_iff)

lemma directoryOf_append_event [simp]: "directoryOf (appendRuntimeEvent s i k m st) = directoryOf s"
  by (simp add: fun_eq_iff directoryOf_def)

lemma register_directory:
  assumes "runtimeOk s"
  shows "directoryOf (snd (registerAgent lc s a)) = directoryEffect (Register a) (directoryOf s)"
    and "distinct (map ag_agentId (rt_agents (snd (registerAgent lc s a))))"
proof -
  have d: "distinct (map ag_agentId (rt_agents s))" using assms by (simp add: runtimeOk_def)
  note ex = known_agent [of "ag_agentId a" s]
  have "directoryOf (snd (registerAgent lc s a)) = directoryEffect (Register a) (directoryOf s)
      \<and> distinct (map ag_agentId (rt_agents (snd (registerAgent lc s a))))"
  proof (cases "directoryOf s (ag_agentId a)")
    case None
    then have d': "distinct (map ag_agentId (rt_agents s @ [a]))" using d by (auto simp: directoryOf_None)
    have p: "mset (sortAgents lc (rt_agents s @ [a])) = mset (rt_agents s @ [a])"
      by (simp add: sortAgents_def mset_js_sort)
    have agents: "rt_agents (snd (registerAgent lc s a)) = sortAgents lc (rt_agents s @ [a])"
      using None ex by (simp add: registerAgent_def Let_def)
    have "directoryOf (snd (registerAgent lc s a)) i = ((directoryOf s)(ag_agentId a \<mapsto> a)) i" for i
      unfolding directoryOf_def agents find_distinct_perm [OF d' p] find_append_one
      using None by (auto simp: directoryOf_def split: option.split)
    moreover have "distinct (map ag_agentId (sortAgents lc (rt_agents s @ [a])))"
      using d' p by (metis mset_eq_imp_distinct_iff mset_map)
    ultimately show ?thesis using None by (simp add: agents fun_eq_iff)
  next
    case (Some b)
    then show ?thesis using ex d by (simp add: registerAgent_def Let_def)
  qed
  then show "directoryOf (snd (registerAgent lc s a)) = directoryEffect (Register a) (directoryOf s)"
    and "distinct (map ag_agentId (rt_agents (snd (registerAgent lc s a))))" by simp_all
qed

lemma unregister_directory:
  "directoryOf (snd (unregisterAgent s i)) = directoryEffect (Unregister i) (directoryOf s)"
proof (cases "directoryOf s i")
  case (Some a)
  then show ?thesis
    by (simp add: fun_eq_iff unregisterAgent_def findAgent_directory Let_def)
       (simp add: directoryOf_def find_filter_other)
qed (simp add: fun_eq_iff unregisterAgent_def findAgent_directory)

lemma update_directory:
  "directoryOf (snd (updateAgentStatus s i st time)) = directoryEffect (UpdateStatus i st time) (directoryOf s)"
proof (cases "directoryOf s i")
  case (Some a)
  let ?b = "a\<lparr>ag_status := st, ag_updatedAt := time\<rparr>"
  have "ag_agentId ?b = i" and mem: "i \<in> ag_agentId ` set (rt_agents s)"
    using directoryOf_Some [OF Some] by simp_all
  note upd = find_updated [OF this(1)]
  show ?thesis
    using Some mem
    by (simp add: fun_eq_iff updateAgentStatus_def findAgent_directory Let_def)
       (simp add: directoryOf_def upd)
qed (simp add: fun_eq_iff updateAgentStatus_def findAgent_directory)

lemma performed_distinct:
  assumes "runtimeOk s" shows "distinct (map ag_agentId (rt_agents (snd (runtimePerform lc r s))))"
proof (cases r)
  case (Register a) then show ?thesis using register_directory(2) [OF assms] by simp
next
  case (Unregister i)
  then show ?thesis using assms
    by (auto simp: unregisterAgent_def Let_def runtimeOk_def distinct_map_filter split: sum.split)
next
  case (UpdateStatus i st time)
  have ids: "map ag_agentId (map (\<lambda>a. if ag_agentId a = i then b else a) xs) = map ag_agentId xs"
    if "ag_agentId b = i" for b xs using that by (induction xs) auto
  show ?thesis
  proof (cases "directoryOf s i")
    case (Some a)
    then have "ag_agentId (a\<lparr>ag_status := st, ag_updatedAt := time\<rparr>) = i" using directoryOf_Some by simp
    from ids [OF this, of "rt_agents s"] show ?thesis
      using assms UpdateStatus Some
      by (simp add: updateAgentStatus_def findAgent_directory Let_def runtimeOk_def del: map_map)
  qed (use assms UpdateStatus in \<open>simp add: updateAgentStatus_def findAgent_directory runtimeOk_def\<close>)
qed

definition runtimeAnswer ::
    "(string \<Rightarrow> string \<Rightarrow> int) \<Rightarrow> directoryRequest \<Rightarrow> HobitAgentRuntimeState \<Rightarrow> RuntimeErrorCode + HobitAgentInstance" where
  "runtimeAnswer lc r s = map_sum er_code id (fst (runtimePerform lc r s))"

interpretation runtime: agent_directory runtimeOk directoryOf
    "\<lambda>r s. snd (runtimePerform lc r s)" "runtimeAnswer lc" rt_events for lc
proof
  fix s r
  assume ok: "runtimeOk s"
  show "runtimeOk (snd (runtimePerform lc r s))"
    using ok performed_distinct [OF ok] performed_numbered by (auto simp: runtimeOk_def)
  show "directoryOf (snd (runtimePerform lc r s)) = directoryEffect r (directoryOf s)"
    by (cases r) (simp_all add: register_directory(1) [OF ok] unregister_directory update_directory
        del: directoryEffect.simps)
  show "runtimeAnswer lc r s = directoryAnswer r (directoryOf s)"
    by (cases r) (auto simp: runtimeAnswer_def registerAgent_def unregisterAgent_def updateAgentStatus_def
        findAgent_directory known_agent Let_def split: option.split)
next
  fix s r
  show "\<exists>e. rt_events (snd (runtimePerform lc r s)) = rt_events s @ [e]" by (rule performed_log)
qed

section \<open>Properties\<close>

lemma suffix_number:
  assumes "p @ '':'' @ js_nat_string m = q @ '':'' @ js_nat_string n" shows "m = n"
proof -
  have tail: "takeWhile isDigit (rev (p @ '':'' @ js_nat_string k)) = rev (js_nat_string k)" for p k
  proof -
    have "takeWhile isDigit (rev (js_nat_string k) @ CHR '':'' # rev p)
        = rev (js_nat_string k) @ takeWhile isDigit (CHR '':'' # rev p)"
      by (rule takeWhile_append2) (use js_nat_string_digits in auto)
    then show ?thesis by (simp add: isDigit_def)
  qed
  from assms have "rev (js_nat_string m) = rev (js_nat_string n)" by (metis tail)
  then have "js_nat_string m = js_nat_string n" by simp
  then show ?thesis by (metis digitsValue_nat_string)
qed

lemma numbered_distinct: "eventNumbered es \<Longrightarrow> distinct (map re_eventId es)"
  unfolding distinct_conv_nth
proof (intro allI impI)
  fix i j
  assume ok: "eventNumbered es" and i: "i < length (map re_eventId es)" "j < length (map re_eventId es)" "i \<noteq> j"
  have "\<exists>p. re_eventId (es ! k) = p @ '':'' @ js_nat_string (k + 1)" if "k < length es" for k
    using ok that by (simp add: eventNumbered_def)
  then obtain p q where "re_eventId (es ! i) = p @ '':'' @ js_nat_string (i + 1)"
    "re_eventId (es ! j) = q @ '':'' @ js_nat_string (j + 1)"
    using i by (metis length_map)
  then show "map re_eventId es ! i \<noteq> map re_eventId es ! j"
    using i suffix_number [of p "i + 1" q "j + 1"] by auto
qed

lemma runtimeOk_created:
  assumes "distinct (map ag_agentId agents)" shows "runtimeOk (createAgentRuntimeState lc agents histories mx w)"
proof -
  have "mset (sortAgents lc agents) = mset agents" by (simp add: sortAgents_def mset_js_sort)
  then have "distinct (map ag_agentId (sortAgents lc agents))"
    using assms by (metis mset_eq_imp_distinct_iff mset_map)
  then show ?thesis by (simp add: runtimeOk_def createAgentRuntimeState_def Let_def eventNumbered_def)
qed

text \<open>
  C20. The agent runtime implements a finite map from ids to agents. After any sequence of
  registrations, removals and status updates on a new runtime, the next answer and the agents found
  are those of the map; a request on an unknown id, or a registration under a known one, is refused
  and changes no agent. Every request, refused ones included, appends one event to the log, and no
  two events have the same id.
\<close>

theorem runtime_refines_map:
  fixes agents :: "HobitAgentInstance list" and histories :: "HobitAgentHistory list" and rs :: "directoryRequest list"
    and mx :: "js_number option" and w :: string and lc :: "string \<Rightarrow> string \<Rightarrow> int"
  assumes "distinct (map ag_agentId agents)"
  defines "s \<equiv> fold (\<lambda>r s. snd (runtimePerform lc r s)) rs (createAgentRuntimeState lc agents histories mx w)"
  defines "m \<equiv> fold directoryEffect rs (map_of (map (\<lambda>a. (ag_agentId a, a)) agents))"
  shows "map_sum er_code id (findAgent s i) = (case m i of None \<Rightarrow> Inl RtAgentNotFound | Some a \<Rightarrow> Inr a)
    \<and> map_sum er_code id (fst (runtimePerform lc r s)) = directoryAnswer r m
    \<and> length (rt_events s) = length rs \<and> distinct (map re_eventId (rt_events s))"
proof -
  let ?s0 = "createAgentRuntimeState lc agents histories mx w"
  note ok = runtimeOk_created [OF assms(1), of lc histories mx w]
  have p: "mset (rt_agents ?s0) = mset agents"
    by (simp add: createAgentRuntimeState_def Let_def sortAgents_def mset_js_sort)
  have "directoryOf ?s0 j = map_of (map (\<lambda>a. (ag_agentId a, a)) agents) j" for j
    unfolding directoryOf_def find_distinct_perm [OF assms(1) p]
    by (induction agents) auto
  then have start: "directoryOf ?s0 = map_of (map (\<lambda>a. (ag_agentId a, a)) agents)" by (simp add: fun_eq_iff)
  have dir: "runtimeOk s" "directoryOf s = m"
    using runtime.run [OF ok, where lc = lc and rs = rs] by (simp_all add: s_def m_def start)
  have "rt_events ?s0 = []" by (simp add: createAgentRuntimeState_def Let_def)
  then have "length (rt_events s) = length rs"
    using runtime.run_log [where s = ?s0 and lc = lc and rs = rs] by (auto simp: s_def)
  moreover have "distinct (map re_eventId (rt_events s))"
    using dir(1) by (simp add: runtimeOk_def numbered_distinct)
  moreover have "map_sum er_code id (fst (runtimePerform lc r s)) = directoryAnswer r m"
    using runtime.answer_perform [OF dir(1), of lc r] dir(2) by (simp add: runtimeAnswer_def)
  moreover have "map_sum er_code id (findAgent s i) = (case m i of None \<Rightarrow> Inl RtAgentNotFound | Some a \<Rightarrow> Inr a)"
    by (simp add: findAgent_directory dir(2) split: option.split)
  ultimately show ?thesis by blast
qed

lemma runtime_refines_map_witness:
  "map_sum er_code id (findAgent (fold (\<lambda>r s. snd (runtimePerform codeUnitCompare r s))
       [Unregister ''test.agentA'', Register (HOBIT_TEST_AGENT_B codeUnitCompare)]
       (createAgentRuntimeState codeUnitCompare [HOBIT_TEST_AGENT_A codeUnitCompare] [] None ''w'')) ''test.agentA'')
   = Inl RtAgentNotFound"
proof -
  let ?a = "HOBIT_TEST_AGENT_A codeUnitCompare" and ?b = "HOBIT_TEST_AGENT_B codeUnitCompare"
  have ids: "ag_agentId ?a = ''test.agentA''" "ag_agentId ?b = ''test.agentB''"
    by (simp_all add: HOBIT_TEST_AGENT_A_def HOBIT_TEST_AGENT_B_def createTestAgent_def)
  show ?thesis
    using runtime_refines_map [of "[?a]" codeUnitCompare "[Unregister ''test.agentA'', Register ?b]" "[]" None "''w''"
        "''test.agentA''" "Register ?b"]
    by (simp add: ids)
qed

end
