(* ===== verification/Action_Broker.thy ===== *)
theory Action_Broker
  imports Agent_Runtime
begin

text \<open>
  The action broker of the in-app agents: \<open>workbench/agents/broker/hobitAgentActionBroker.ts\<close> with
  \<open>results.ts\<close>, \<open>types.ts\<close> and the handlers of \<open>hobitAgentTestActionHandlers.ts\<close>.

  A handler is a function from its context to what calling it does: return a result, return a
  promise, or throw. \<open>invoke\<close> and \<open>invokeAsync\<close> hold two copies of the same checks, which are two
  definitions here as well. A promise that never settles is the outcome \<open>None\<close> of \<open>invokeAsync\<close>.
\<close>

section \<open>Results\<close>

datatype HobitAgentActionStatus =
  AsSucceeded | AsBlocked | AsBlockedActionable | AsInvalidInput | AsNeedsConfirmation | AsAlreadyExists
| AsAlreadyDone | AsAlreadyFailed | AsPreconditionFailed | AsPolicyBlocked | AsUnavailable | AsPaused
| AsFailedUnexpected | AsDryRunRequired | AsFailed

record HobitAgentHiddenSideEffectFlags =
  fl_noCodexRun :: bool
  fl_noGitMutation :: bool
  fl_noQueueMutation :: bool
  fl_noRollbackExecution :: bool
  fl_noShellCommand :: bool
  fl_noTerminalLaunch :: bool
  fl_noWorkerStart :: bool

record HobitAgentAuditEvent =
  au_actorAgentId :: "string option"
  au_actorRoleId :: "HobitAgentRoleId option"
  au_capabilityId :: "string option"
  au_dryRun :: "bool option"
  au_eventName :: string
  au_message :: string
  au_requestId :: "string option"
  au_sideEffectLevel :: SideEffectLevel
  au_timestamp :: "string option"

text \<open>What a handler puts out: the three shapes of the test handlers, or any other value.\<close>

datatype HandlerOutput =
  OutManifest string HobitAgentCapabilityRegistry
| OutStatus string HobitAgentStatus
| OutMessage HobitAgentMessage bool bool bool
| OutJson json

record HobitAgentActionResult =
  ar_auditEvents :: "HobitAgentAuditEvent list"
  ar_capabilityId :: "string option"
  ar_dryRun :: bool
  ar_fieldPath :: "string option"
  ar_fieldPaths :: "string list option"
  ar_hiddenSideEffectFlags :: HobitAgentHiddenSideEffectFlags
  ar_message :: string
  ar_ok :: bool
  ar_output :: "HandlerOutput option"
  ar_policyDecision :: "HobitAgentPolicyDecision option"
  ar_policyReasons :: "string list"
  ar_reasonCode :: "string option"
  ar_requestId :: string
  ar_status :: HobitAgentActionStatus
  ar_unavailableReason :: "string option"

definition createNoHiddenSideEffectFlags :: HobitAgentHiddenSideEffectFlags where
  "createNoHiddenSideEffectFlags =
     \<lparr>fl_noCodexRun = False, fl_noGitMutation = False, fl_noQueueMutation = False,
      fl_noRollbackExecution = False, fl_noShellCommand = False, fl_noTerminalLaunch = False,
      fl_noWorkerStart = False\<rparr>"

text \<open>\<open>createActionRequest\<close> with its defaults; only the role id and the capability id are required.\<close>

record ActionRequestInput =
  ri_agentId :: "string option"
  ri_agentRole :: "HobitAgentRoleId option"
  ri_agentRoleId :: HobitAgentRoleId
  ri_capabilityId :: string
  ri_confirmationToken :: "string option"
  ri_createdAt :: "string option"
  ri_dryRun :: "bool option"
  ri_input :: "json option"
  ri_reason :: "string option"
  ri_rawRequestId :: "string option"
  ri_requestedAt :: "string option"
  ri_requestId :: "string option"
  ri_requestIdSource :: "RequestIdSource option"

definition createActionRequest :: "ActionRequestInput \<Rightarrow> HobitAgentActionRequest" where
  "createActionRequest i =
     (let createdAt = js_default ''2026-01-01T00:00:00.000Z'' (ri_createdAt i)
      in \<lparr>rq_agentId = Some (js_default ''hobit.agent.requester'' (ri_agentId i)),
          rq_agentRole = Some (js_default (ri_agentRoleId i) (ri_agentRole i)),
          rq_agentRoleId = Some (ri_agentRoleId i), rq_capabilityId = Some (ri_capabilityId i),
          rq_confirmationToken = ri_confirmationToken i, rq_createdAt = Some createdAt,
          rq_dryRun = Some (js_default False (ri_dryRun i)), rq_input = Some (js_default (JObj []) (ri_input i)),
          rq_reason = ri_reason i, rq_rawRequestId = ri_rawRequestId i,
          rq_requestId = Some (js_default (ri_capabilityId i @ '':request'') (ri_requestId i)),
          rq_requestIdSource = ri_requestIdSource i,
          rq_requestedAt = Some (js_default createdAt (ri_requestedAt i))\<rparr>)"

definition hobitAgentActionStatusIsOk :: "HobitAgentActionStatus \<Rightarrow> bool" where
  "hobitAgentActionStatusIsOk status \<longleftrightarrow>
     status = AsSucceeded \<or> status = AsAlreadyExists \<or> status = AsAlreadyDone \<or> status = AsAlreadyFailed"

definition requestIdOr :: "string option \<Rightarrow> string option \<Rightarrow> string" where
  "requestIdOr capabilityId requestId = js_default (printed capabilityId @ '':request'') requestId"

definition createActionResult ::
    "HobitAgentAuditEvent list \<Rightarrow> HobitAgentActionRequest \<Rightarrow> string \<Rightarrow> HandlerOutput option
     \<Rightarrow> HobitAgentPolicyDecision option \<Rightarrow> string list \<Rightarrow> string option \<Rightarrow> HobitAgentActionStatus
     \<Rightarrow> HobitAgentActionResult" where
  "createActionResult auditEvents request message output policyDecision policyReasons reasonCode status =
     \<lparr>ar_auditEvents = auditEvents, ar_capabilityId = rq_capabilityId request,
      ar_dryRun = js_default False (rq_dryRun request), ar_fieldPath = None, ar_fieldPaths = None,
      ar_hiddenSideEffectFlags = createNoHiddenSideEffectFlags, ar_message = message,
      ar_ok = hobitAgentActionStatusIsOk status, ar_output = output, ar_policyDecision = policyDecision,
      ar_policyReasons = policyReasons,
      ar_reasonCode = (if js_truthy_str reasonCode then reasonCode else None),
      ar_requestId = requestIdOr (rq_capabilityId request) (rq_requestId request),
      ar_status = status, ar_unavailableReason = None\<rparr>"

definition createUnavailableActionResult ::
    "HobitAgentActionRequest \<Rightarrow> string option \<Rightarrow> HobitAgentPolicyDecision option \<Rightarrow> string \<Rightarrow> HobitAgentActionResult" where
  "createUnavailableActionResult request message policyDecision reason =
     \<lparr>ar_auditEvents = [], ar_capabilityId = rq_capabilityId request,
      ar_dryRun = js_default False (rq_dryRun request), ar_fieldPath = None, ar_fieldPaths = None,
      ar_hiddenSideEffectFlags = createNoHiddenSideEffectFlags, ar_message = js_default reason message,
      ar_ok = False, ar_output = None, ar_policyDecision = policyDecision, ar_policyReasons = [reason],
      ar_reasonCode = Some ''capability_unavailable'',
      ar_requestId = requestIdOr (rq_capabilityId request) (rq_requestId request),
      ar_status = AsUnavailable, ar_unavailableReason = Some reason\<rparr>"

definition createPolicyBlockedActionResult ::
    "HobitAgentActionRequest \<Rightarrow> HobitAgentPolicyDecision option \<Rightarrow> string list \<Rightarrow> HobitAgentActionResult" where
  "createPolicyBlockedActionResult request policyDecision reasons =
     \<lparr>ar_auditEvents = [], ar_capabilityId = rq_capabilityId request,
      ar_dryRun = js_default False (rq_dryRun request), ar_fieldPath = None, ar_fieldPaths = None,
      ar_hiddenSideEffectFlags = createNoHiddenSideEffectFlags,
      ar_message = js_default ''Capability was blocked by policy.'' (js_first reasons),
      ar_ok = False, ar_output = None, ar_policyDecision = policyDecision, ar_policyReasons = reasons,
      ar_reasonCode = Some ''policy_denied'',
      ar_requestId = requestIdOr (rq_capabilityId request) (rq_requestId request),
      ar_status = AsPolicyBlocked, ar_unavailableReason = None\<rparr>"

record HobitAgentBrokerResult =
  br_policyDecision :: HobitAgentPolicyDecision
  br_request :: HobitAgentActionRequest
  br_result :: HobitAgentActionResult
  br_status :: HobitAgentActionStatus

definition brokerResult ::
    "HobitAgentPolicyDecision \<Rightarrow> HobitAgentActionRequest \<Rightarrow> HobitAgentActionResult \<Rightarrow> HobitAgentBrokerResult" where
  "brokerResult policyDecision request result =
     \<lparr>br_policyDecision = policyDecision, br_request = request, br_result = result, br_status = ar_status result\<rparr>"

definition createBrokerSuccessResult ::
    "HobitAgentAuditEvent list \<Rightarrow> string \<Rightarrow> HandlerOutput option \<Rightarrow> HobitAgentPolicyDecision
     \<Rightarrow> HobitAgentActionRequest \<Rightarrow> HobitAgentBrokerResult" where
  "createBrokerSuccessResult auditEvents message output policyDecision request =
     brokerResult policyDecision request
       (createActionResult auditEvents request message output (Some policyDecision) [] None AsSucceeded)"

definition createBrokerUnavailableResult ::
    "HobitAgentAuditEvent list \<Rightarrow> HobitAgentPolicyDecision \<Rightarrow> string \<Rightarrow> HobitAgentActionRequest
     \<Rightarrow> HobitAgentBrokerResult" where
  "createBrokerUnavailableResult auditEvents policyDecision reason request =
     brokerResult policyDecision request
       ((createUnavailableActionResult request None (Some policyDecision) reason)\<lparr>ar_auditEvents := auditEvents\<rparr>)"

definition createBrokerPolicyBlockedResult ::
    "HobitAgentAuditEvent list \<Rightarrow> HobitAgentPolicyDecision \<Rightarrow> HobitAgentActionRequest \<Rightarrow> HobitAgentBrokerResult" where
  "createBrokerPolicyBlockedResult auditEvents policyDecision request =
     brokerResult policyDecision request
       ((createPolicyBlockedActionResult request (Some policyDecision) (pd_reasons policyDecision))
          \<lparr>ar_auditEvents := auditEvents\<rparr>)"

definition createBrokerNeedsConfirmationResult ::
    "HobitAgentAuditEvent list \<Rightarrow> HobitAgentPolicyDecision \<Rightarrow> HobitAgentActionRequest \<Rightarrow> HobitAgentBrokerResult" where
  "createBrokerNeedsConfirmationResult auditEvents policyDecision request =
     brokerResult policyDecision request
       (createActionResult auditEvents request
          (js_default (printed (rq_capabilityId request) @ '' requires confirmation.'')
             (js_first (pd_reasons policyDecision)))
          None (Some policyDecision) (pd_reasons policyDecision) (Some ''confirmation_required'')
          AsNeedsConfirmation)"

definition createBrokerDryRunRequiredResult ::
    "HobitAgentAuditEvent list \<Rightarrow> HobitAgentPolicyDecision \<Rightarrow> HobitAgentActionRequest \<Rightarrow> HobitAgentBrokerResult" where
  "createBrokerDryRunRequiredResult auditEvents policyDecision request =
     brokerResult policyDecision request
       (createActionResult auditEvents request
          (js_default (printed (rq_capabilityId request) @ '' requires dry-run before invocation.'')
             (js_first (pd_reasons policyDecision)))
          None (Some policyDecision) (pd_reasons policyDecision) (Some ''precondition_failed'')
          AsDryRunRequired)"

definition createBrokerInvalidInputResult ::
    "HobitAgentAuditEvent list \<Rightarrow> string list \<Rightarrow> HobitAgentActionRequest \<Rightarrow> HobitAgentBrokerResult" where
  "createBrokerInvalidInputResult auditEvents reasons request =
     (let policyDecision = \<lparr>pd_allowed = False, pd_capability = None, pd_reasons = reasons,
            pd_requiresConfirmation = False, pd_requiresDryRun = False, pd_status = PsBlocked\<rparr>
      in brokerResult policyDecision request
           (createActionResult auditEvents request
              (js_default ''Action request input is invalid.'' (js_first reasons))
              None (Some policyDecision) reasons (Some ''invalid_payload'') AsInvalidInput))"

section \<open>Validation and policy\<close>

definition requiredStringReason :: "string option \<Rightarrow> string \<Rightarrow> string option" where
  "requiredStringReason value fieldName =
     (if js_has_text value then None else Some (fieldName @ '' is required.''))"

definition requestRole :: "HobitAgentActionRequest \<Rightarrow> HobitAgentRoleId option" where
  "requestRole request = js_coalesce (rq_agentRole request) (rq_agentRoleId request)"

text \<open>The reasons a request is refused for; the request is valid when there is none.\<close>

definition validateActionRequest :: "HobitAgentActionRequest \<Rightarrow> string list" where
  "validateActionRequest request =
     List.map_filter id
       [requiredStringReason (rq_requestId request) ''requestId'',
        requiredStringReason (rq_agentId request) ''agentId'',
        requiredStringReason (map_option roleIdName (requestRole request)) ''agentRole'',
        requiredStringReason (rq_capabilityId request) ''capabilityId'',
        requiredStringReason (js_coalesce (rq_createdAt request) (rq_requestedAt request)) ''createdAt'',
        (if rq_dryRun request \<noteq> None then None else Some ''dryRun must be a boolean.''),
        (if rq_input request = None then Some ''input is required.'' else None)]"

record BrokerPolicyOptions =
  po_allowRestrictedExecuteCapabilities :: bool
  po_requireDryRunBeforeSideEffectingInvoke :: bool

definition DEFAULT_POLICY_OPTIONS :: BrokerPolicyOptions where
  "DEFAULT_POLICY_OPTIONS =
     \<lparr>po_allowRestrictedExecuteCapabilities = False, po_requireDryRunBeforeSideEffectingInvoke = True\<rparr>"

definition brokerRequiresConfirmation :: "HobitAgentCapability \<Rightarrow> bool" where
  "brokerRequiresConfirmation capability \<longleftrightarrow>
     cp_confirmationRequirement capability = CrRequired \<or> cp_sideEffectLevel capability = SeDestructive"

definition brokerRequiresDryRunBeforeInvoke :: "HobitAgentCapability \<Rightarrow> bool" where
  "brokerRequiresDryRunBeforeInvoke capability \<longleftrightarrow>
     cp_sideEffectLevel capability \<noteq> SeRead \<and> cp_supportsDryRun capability"

definition evaluateBrokerPolicy ::
    "HobitAgentCapabilityRegistry \<Rightarrow> HobitAgentActionRequest \<Rightarrow> BrokerPolicyOptions \<Rightarrow> HobitAgentPolicyDecision" where
  "evaluateBrokerPolicy registry request policyOptions =
     (let cid = printed (rq_capabilityId request) in
      case findCapability registry (rq_capabilityId request) of
        None \<Rightarrow> \<lparr>pd_allowed = False, pd_capability = None,
          pd_reasons = [''Capability '' @ cid @ '' is not registered.''],
          pd_requiresConfirmation = False, pd_requiresDryRun = False, pd_status = PsUnavailable\<rparr>
      | Some capability \<Rightarrow>
        (case cp_availability capability of
           CaUnavailable reason \<Rightarrow> \<lparr>pd_allowed = False, pd_capability = Some capability, pd_reasons = [reason],
             pd_requiresConfirmation = False, pd_requiresDryRun = False, pd_status = PsUnavailable\<rparr>
         | CaAvailable \<Rightarrow>
           if \<not> roleAllowed (requestRole request) capability
           then \<lparr>pd_allowed = False, pd_capability = Some capability,
             pd_reasons = [''Role '' @ printedRole (requestRole request) @ '' cannot use '' @ cid @ ''.''],
             pd_requiresConfirmation = False, pd_requiresDryRun = False, pd_status = PsBlocked\<rparr>
           else if cp_restricted capability \<and> \<not> po_allowRestrictedExecuteCapabilities policyOptions
           then \<lparr>pd_allowed = False, pd_capability = Some capability,
             pd_reasons = [cid @ '' is a restricted execute capability and is not a default Hobit app-action path.''],
             pd_requiresConfirmation = (cp_confirmationRequirement capability = CrRequired),
             pd_requiresDryRun = False, pd_status = PsBlocked\<rparr>
           else if dryRunOf request \<and> \<not> cp_supportsDryRun capability
           then \<lparr>pd_allowed = False, pd_capability = Some capability,
             pd_reasons = [cid @ '' does not support dry-run.''],
             pd_requiresConfirmation = False, pd_requiresDryRun = False, pd_status = PsBlocked\<rparr>
           else if brokerRequiresConfirmation capability \<and> \<not> js_truthy_str (rq_confirmationToken request)
           then \<lparr>pd_allowed = False, pd_capability = Some capability,
             pd_reasons = [cid @ '' requires confirmation.''],
             pd_requiresConfirmation = True, pd_requiresDryRun = False, pd_status = PsRequiresConfirmation\<rparr>
           else if po_requireDryRunBeforeSideEffectingInvoke policyOptions
             \<and> brokerRequiresDryRunBeforeInvoke capability \<and> \<not> dryRunOf request
           then \<lparr>pd_allowed = False, pd_capability = Some capability,
             pd_reasons = [cid @ '' requires dry-run before invocation.''],
             pd_requiresConfirmation = False, pd_requiresDryRun = True, pd_status = PsRequiresDryRun\<rparr>
           else \<lparr>pd_allowed = True, pd_capability = Some capability, pd_reasons = [],
             pd_requiresConfirmation = False, pd_requiresDryRun = False, pd_status = PsAllowed\<rparr>))"

section \<open>Handlers and the two ways to invoke them\<close>

definition createBrokerAuditEvent ::
    "string \<Rightarrow> string \<Rightarrow> HobitAgentActionRequest \<Rightarrow> SideEffectLevel \<Rightarrow> HobitAgentAuditEvent" where
  "createBrokerAuditEvent eventName message request sideEffectLevel =
     \<lparr>au_actorAgentId = rq_agentId request, au_actorRoleId = requestRole request,
      au_capabilityId = rq_capabilityId request, au_dryRun = rq_dryRun request, au_eventName = eventName,
      au_message = message, au_requestId = rq_requestId request, au_sideEffectLevel = sideEffectLevel,
      au_timestamp = rq_createdAt request\<rparr>"

record HobitAgentActionHandlerContext =
  cx_auditEvents :: "HobitAgentAuditEvent list"
  cx_capability :: HobitAgentCapability
  cx_policyDecision :: HobitAgentPolicyDecision
  cx_registry :: HobitAgentCapabilityRegistry
  cx_request :: HobitAgentActionRequest

text \<open>An error thrown: the message of an \<open>Error\<close>, or another value (\<open>None\<close>).\<close>

type_synonym thrown = "string option"

datatype promise = Resolved HobitAgentActionResult | Rejected thrown | Pending

datatype handlerOutcome = Returned HobitAgentActionResult | ReturnedPromise promise | Threw thrown

type_synonym HobitAgentActionHandler = "HobitAgentActionHandlerContext \<Rightarrow> handlerOutcome"

type_synonym HobitAgentActionHandlerMap = "string \<Rightarrow> HobitAgentActionHandler option"

definition capabilityLevel :: "HobitAgentPolicyDecision \<Rightarrow> SideEffectLevel" where
  "capabilityLevel decision = (case pd_capability decision of None \<Rightarrow> SeRead | Some c \<Rightarrow> cp_sideEffectLevel c)"

text \<open>
  The checks of \<open>invoke\<close> before the handler is called: a finished result (\<open>Inl\<close>), or the handler and
  its context.
\<close>

definition invokeChecks ::
    "HobitAgentActionHandlerMap \<Rightarrow> BrokerPolicyOptions \<Rightarrow> HobitAgentCapabilityRegistry \<Rightarrow> HobitAgentActionRequest
     \<Rightarrow> HobitAgentBrokerResult + HobitAgentActionHandler \<times> HobitAgentActionHandlerContext" where
  "invokeChecks handlers policyOptions registry request =
     (let cid = printed (rq_capabilityId request);
          validationEvents = [createBrokerAuditEvent ''capability.validation.started''
            (''Validating '' @ cid @ ''.'') request SeRead];
          validation = validateActionRequest request
      in if validation \<noteq> []
         then Inl (createBrokerInvalidInputResult
           (validationEvents @ [createBrokerAuditEvent ''capability.policy.blocked''
              (js_default ''Action request is invalid.'' (js_first validation)) request SeRead])
           validation request)
         else
           let policyDecision = evaluateBrokerPolicy registry request policyOptions;
               policyEvent = createBrokerAuditEvent
                 (if pd_allowed policyDecision then ''capability.policy.allowed'' else ''capability.policy.blocked'')
                 (if pd_allowed policyDecision then cid @ '' was allowed by broker policy.''
                  else js_default (cid @ '' was blocked by broker policy.'') (js_first (pd_reasons policyDecision)))
                 request (capabilityLevel policyDecision);
               auditEvents = validationEvents @ [policyEvent]
           in if pd_status policyDecision = PsUnavailable
              then Inl (createBrokerUnavailableResult auditEvents policyDecision
                (js_default (cid @ '' is unavailable.'') (js_first (pd_reasons policyDecision))) request)
              else if pd_status policyDecision = PsRequiresConfirmation
              then Inl (createBrokerNeedsConfirmationResult auditEvents policyDecision request)
              else if pd_status policyDecision = PsRequiresDryRun
              then Inl (createBrokerDryRunRequiredResult auditEvents policyDecision request)
              else if pd_status policyDecision = PsBlocked \<or> \<not> pd_allowed policyDecision
              then Inl (createBrokerPolicyBlockedResult auditEvents policyDecision request)
              else (case (Option.bind (rq_capabilityId request) handlers, pd_capability policyDecision) of
                (Some handler, Some capability) \<Rightarrow> Inr (handler,
                  \<lparr>cx_auditEvents = auditEvents, cx_capability = capability, cx_policyDecision = policyDecision,
                   cx_registry = registry, cx_request = request\<rparr>)
              | _ \<Rightarrow> Inl (createBrokerUnavailableResult
                  (auditEvents @ [createBrokerAuditEvent ''capability.invoke.unavailable''
                     (cid @ '' has no broker handler in this frontend model.'') request
                     (capabilityLevel policyDecision)])
                  policyDecision (cid @ '' is not implemented by this Action Broker MVP.'') request)))"

text \<open>The result of a handler that failed unexpectedly, and of one that returned.\<close>

definition failedInvocation :: "HobitAgentActionHandlerContext \<Rightarrow> string \<Rightarrow> HobitAgentBrokerResult" where
  "failedInvocation context message =
     (let request = cx_request context;
          result = createActionResult
            [createBrokerAuditEvent ''capability.invoke.completed'' message request
               (cp_sideEffectLevel (cx_capability context))]
            request message None (Some (cx_policyDecision context)) [message] (Some ''unexpected_error'')
            AsFailedUnexpected
      in \<lparr>br_policyDecision = cx_policyDecision context, br_request = request,
          br_result = result\<lparr>ar_auditEvents := cx_auditEvents context @ ar_auditEvents result\<rparr>,
          br_status = AsFailedUnexpected\<rparr>)"

definition completedInvocation ::
    "HobitAgentActionHandlerContext \<Rightarrow> HobitAgentActionResult \<Rightarrow> HobitAgentBrokerResult" where
  "completedInvocation context result =
     (let request = cx_request context;
          completedEvent = createBrokerAuditEvent
            (if dryRunOf request then ''capability.dryRun.completed'' else ''capability.invoke.completed'')
            (ar_message result) request (cp_sideEffectLevel (cx_capability context))
      in \<lparr>br_policyDecision = cx_policyDecision context, br_request = request,
          br_result = result\<lparr>ar_auditEvents := cx_auditEvents context @ ar_auditEvents result @ [completedEvent],
            ar_policyDecision := Some (cx_policyDecision context)\<rparr>,
          br_status = ar_status result\<rparr>)"

definition thrownMessage :: "thrown \<Rightarrow> string" where
  "thrownMessage e = (case e of Some message \<Rightarrow> message | None \<Rightarrow> ''Action handler failed unexpectedly.'')"

definition invoke ::
    "HobitAgentActionHandlerMap \<Rightarrow> BrokerPolicyOptions \<Rightarrow> HobitAgentCapabilityRegistry \<Rightarrow> HobitAgentActionRequest
     \<Rightarrow> HobitAgentBrokerResult" where
  "invoke handlers policyOptions registry request =
     (case invokeChecks handlers policyOptions registry request of
        Inl result \<Rightarrow> result
      | Inr (handler, context) \<Rightarrow>
          (case handler context of
             ReturnedPromise p \<Rightarrow> failedInvocation context (printed (rq_capabilityId request)
               @ '' uses an async handler and must be invoked with invokeAsync.'')
           | Returned result \<Rightarrow> completedInvocation context result
           | Threw e \<Rightarrow> failedInvocation context (thrownMessage e)))"

text \<open>
  The copy of the checks in \<open>invokeHobitAgentActionBrokerAsync\<close>, and the call with its promise awaited.
\<close>

definition invokeAsyncChecks ::
    "HobitAgentActionHandlerMap \<Rightarrow> BrokerPolicyOptions \<Rightarrow> HobitAgentCapabilityRegistry \<Rightarrow> HobitAgentActionRequest
     \<Rightarrow> HobitAgentBrokerResult + HobitAgentActionHandler \<times> HobitAgentActionHandlerContext" where
  "invokeAsyncChecks handlers policyOptions registry request =
     (let cid = printed (rq_capabilityId request);
          validationEvents = [createBrokerAuditEvent ''capability.validation.started''
            (''Validating '' @ cid @ ''.'') request SeRead];
          validation = validateActionRequest request
      in if validation \<noteq> []
         then Inl (createBrokerInvalidInputResult
           (validationEvents @ [createBrokerAuditEvent ''capability.policy.blocked''
              (js_default ''Action request is invalid.'' (js_first validation)) request SeRead])
           validation request)
         else
           let policyDecision = evaluateBrokerPolicy registry request policyOptions;
               policyEvent = createBrokerAuditEvent
                 (if pd_allowed policyDecision then ''capability.policy.allowed'' else ''capability.policy.blocked'')
                 (if pd_allowed policyDecision then cid @ '' was allowed by broker policy.''
                  else js_default (cid @ '' was blocked by broker policy.'') (js_first (pd_reasons policyDecision)))
                 request (capabilityLevel policyDecision);
               auditEvents = validationEvents @ [policyEvent]
           in if pd_status policyDecision = PsUnavailable
              then Inl (createBrokerUnavailableResult auditEvents policyDecision
                (js_default (cid @ '' is unavailable.'') (js_first (pd_reasons policyDecision))) request)
              else if pd_status policyDecision = PsRequiresConfirmation
              then Inl (createBrokerNeedsConfirmationResult auditEvents policyDecision request)
              else if pd_status policyDecision = PsRequiresDryRun
              then Inl (createBrokerDryRunRequiredResult auditEvents policyDecision request)
              else if pd_status policyDecision = PsBlocked \<or> \<not> pd_allowed policyDecision
              then Inl (createBrokerPolicyBlockedResult auditEvents policyDecision request)
              else (case (Option.bind (rq_capabilityId request) handlers, pd_capability policyDecision) of
                (Some handler, Some capability) \<Rightarrow> Inr (handler,
                  \<lparr>cx_auditEvents = auditEvents, cx_capability = capability, cx_policyDecision = policyDecision,
                   cx_registry = registry, cx_request = request\<rparr>)
              | _ \<Rightarrow> Inl (createBrokerUnavailableResult
                  (auditEvents @ [createBrokerAuditEvent ''capability.invoke.unavailable''
                     (cid @ '' has no broker handler in this frontend model.'') request
                     (capabilityLevel policyDecision)])
                  policyDecision (cid @ '' is not implemented by this Action Broker MVP.'') request)))"

fun awaitedOutcome :: "handlerOutcome \<Rightarrow> promise" where
  "awaitedOutcome (Returned result) = Resolved result"
| "awaitedOutcome (ReturnedPromise p) = p"
| "awaitedOutcome (Threw e) = Rejected e"

definition invokeAsync ::
    "HobitAgentActionHandlerMap \<Rightarrow> BrokerPolicyOptions \<Rightarrow> HobitAgentCapabilityRegistry \<Rightarrow> HobitAgentActionRequest
     \<Rightarrow> HobitAgentBrokerResult option" where
  "invokeAsync handlers policyOptions registry request =
     (case invokeAsyncChecks handlers policyOptions registry request of
        Inl result \<Rightarrow> Some result
      | Inr (handler, context) \<Rightarrow>
          (case awaitedOutcome (handler context) of
             Resolved result \<Rightarrow> Some (completedInvocation context result)
           | Rejected e \<Rightarrow> Some (failedInvocation context (thrownMessage e))
           | Pending \<Rightarrow> None))"

section \<open>The test handlers\<close>

definition readStringInput :: "json option \<Rightarrow> string \<Rightarrow> string option" where
  "readStringInput input key =
     (case input of
        Some (JObj members) \<Rightarrow>
          (case map_of members key of
             Some (JStr s) \<Rightarrow> (let value = js_trim s in if value \<noteq> [] then Some value else None)
           | _ \<Rightarrow> None)
      | _ \<Rightarrow> None)"

definition failedHandlerResult :: "HobitAgentActionRequest \<Rightarrow> string \<Rightarrow> HobitAgentActionResult" where
  "failedHandlerResult request message = createActionResult [] request message None None [message] None AsFailed"

definition invalidHandlerInput :: "HobitAgentActionRequest \<Rightarrow> string \<Rightarrow> HobitAgentActionResult" where
  "invalidHandlerInput request message =
     createActionResult [] request message None None [message] None AsInvalidInput"

definition readCapabilitiesHandler :: "HobitAgentRuntimeState \<Rightarrow> HobitAgentActionHandler" where
  "readCapabilitiesHandler runtimeState context =
     (let request = cx_request context
      in Returned (case readStringInput (rq_input request) ''targetAgentId'' of
           None \<Rightarrow> invalidHandlerInput request ''targetAgentId is required.''
         | Some targetAgentId \<Rightarrow>
             (case getAgentCapabilityManifest runtimeState targetAgentId of
                Inl error \<Rightarrow> failedHandlerResult request (er_message error)
              | Inr manifest \<Rightarrow> createActionResult [] request
                  (''Read capability manifest for '' @ targetAgentId @ ''.'')
                  (Some (OutManifest targetAgentId manifest)) None [] None AsSucceeded)))"

definition readStatusHandler :: "HobitAgentRuntimeState \<Rightarrow> HobitAgentActionHandler" where
  "readStatusHandler runtimeState context =
     (let request = cx_request context
      in Returned (case readStringInput (rq_input request) ''targetAgentId'' of
           None \<Rightarrow> invalidHandlerInput request ''targetAgentId is required.''
         | Some targetAgentId \<Rightarrow>
             (case getAgentStatus runtimeState targetAgentId of
                Inl error \<Rightarrow> failedHandlerResult request (er_message error)
              | Inr status \<Rightarrow> createActionResult [] request (''Read status for '' @ targetAgentId @ ''.'')
                  (Some (OutStatus targetAgentId status)) None [] None AsSucceeded)))"

definition sendMessageHandler ::
    "(string \<Rightarrow> string \<Rightarrow> int) \<Rightarrow> HobitAgentRuntimeState \<Rightarrow> HobitAgentActionHandler" where
  "sendMessageHandler lc runtimeState context =
     (let request = cx_request context; input = rq_input request
      in Returned (case (readStringInput input ''fromAgentId'', readStringInput input ''toAgentId'',
                         readStringInput input ''body'') of
           (Some fromAgentId, Some toAgentId, Some body) \<Rightarrow>
             (let message = createAgentMessage
                    \<lparr>mi_body = body, mi_correlationId = None, mi_createdAt = printed (rq_createdAt request),
                     mi_fromAgentId = fromAgentId, mi_kind = Some MkAgent,
                     mi_messageId = Some (js_default (printed (rq_requestId request) @ '':message'')
                       (readStringInput input ''messageId'')),
                     mi_status = None, mi_threadId = readStringInput input ''threadId'', mi_toAgentId = toAgentId\<rparr>;
                  preview = sendAgentMessage lc (rt_histories runtimeState)
                    (storedLimit (rt_maxHistoryEvents runtimeState)) message (map ag_agentId (listAgents runtimeState))
              in case mr_error preview of
                   Some error \<Rightarrow> failedHandlerResult request (me_message error)
                 | None \<Rightarrow> createActionResult [] request
                     (''Dry-run message send from '' @ fromAgentId @ '' to '' @ toAgentId @ ''.'')
                     (Some (OutMessage (mr_message preview) True True True)) None [] None AsSucceeded)
         | _ \<Rightarrow> invalidHandlerInput request ''fromAgentId, toAgentId, and body are required.''))"

definition createHobitAgentTestActionHandlers ::
    "(string \<Rightarrow> string \<Rightarrow> int) \<Rightarrow> HobitAgentRuntimeState \<Rightarrow> HobitAgentActionHandlerMap" where
  "createHobitAgentTestActionHandlers lc runtimeState = map_of
     [(''agent.capabilities.read'', readCapabilitiesHandler runtimeState),
      (''agent.message.send'', sendMessageHandler lc runtimeState),
      (''agent.status.read'', readStatusHandler runtimeState)]"

section \<open>When the handler is called\<close>

lemma has_text_some: "js_has_text v \<longleftrightarrow> (\<exists>s. v = Some s \<and> \<not> js_blank s)"
  by (cases v) auto

definition requestValid :: "HobitAgentActionRequest \<Rightarrow> bool" where
  "requestValid request \<longleftrightarrow>
     js_has_text (rq_requestId request) \<and> js_has_text (rq_agentId request) \<and> requestRole request \<noteq> None
     \<and> js_has_text (rq_capabilityId request)
     \<and> js_has_text (js_coalesce (rq_createdAt request) (rq_requestedAt request))
     \<and> rq_dryRun request \<noteq> None \<and> rq_input request \<noteq> None"

lemma role_names_text:
  "\<not> js_blank (roleIdName RoleWorkspaceAgent)" "\<not> js_blank (roleIdName RoleQueueCoordinator)"
  "\<not> js_blank (roleIdName RoleTestHarness)"
  by code_simp+

lemma role_name_text [simp]: "\<not> js_blank (roleIdName r)"
  by (cases r) (simp_all only: role_names_text not_False_eq_True)

lemma validateActionRequest_ok: "validateActionRequest request = [] \<longleftrightarrow> requestValid request"
  by (cases "requestRole request")
    (auto simp: validateActionRequest_def requestValid_def requiredStringReason_def List.map_filter_def)

text \<open>What the broker's policy demands of a capability and a request.\<close>

definition permitted :: "BrokerPolicyOptions \<Rightarrow> HobitAgentActionRequest \<Rightarrow> HobitAgentCapability \<Rightarrow> bool" where
  "permitted options request capability \<longleftrightarrow>
     cp_availability capability = CaAvailable \<and> roleAllowed (requestRole request) capability
     \<and> (cp_restricted capability \<longrightarrow> po_allowRestrictedExecuteCapabilities options)
     \<and> (dryRunOf request \<longrightarrow> cp_supportsDryRun capability)
     \<and> (cp_confirmationRequirement capability = CrRequired \<or> cp_sideEffectLevel capability = SeDestructive
          \<longrightarrow> js_truthy_str (rq_confirmationToken request))
     \<and> (po_requireDryRunBeforeSideEffectingInvoke options \<longrightarrow> cp_sideEffectLevel capability \<noteq> SeRead
          \<longrightarrow> cp_supportsDryRun capability \<longrightarrow> dryRunOf request)"

lemma brokerPolicy_cases:
  "evaluateBrokerPolicy registry request options =
     (case findCapability registry (rq_capabilityId request) of
        None \<Rightarrow> evaluateBrokerPolicy registry request options
      | Some c \<Rightarrow> if permitted options request c
          then \<lparr>pd_allowed = True, pd_capability = Some c, pd_reasons = [], pd_requiresConfirmation = False,
                pd_requiresDryRun = False, pd_status = PsAllowed\<rparr>
          else evaluateBrokerPolicy registry request options)"
  by (auto simp: evaluateBrokerPolicy_def permitted_def brokerRequiresConfirmation_def
      brokerRequiresDryRunBeforeInvoke_def Let_def split: option.split CapabilityAvailability.split)

lemma brokerPolicy_allowed:
  "pd_allowed (evaluateBrokerPolicy registry request options) \<longleftrightarrow>
     (\<exists>c. findCapability registry (rq_capabilityId request) = Some c \<and> permitted options request c)"
  by (auto simp: evaluateBrokerPolicy_def permitted_def brokerRequiresConfirmation_def
      brokerRequiresDryRunBeforeInvoke_def Let_def split: option.split CapabilityAvailability.split)

lemma brokerPolicy_status:
  "pd_allowed (evaluateBrokerPolicy registry request options) \<longleftrightarrow>
     pd_status (evaluateBrokerPolicy registry request options) = PsAllowed"
  by (auto simp: evaluateBrokerPolicy_def Let_def split: option.split CapabilityAvailability.split)

lemma brokerPolicy_capability:
  "pd_capability (evaluateBrokerPolicy registry request options) = findCapability registry (rq_capabilityId request)"
  by (auto simp: evaluateBrokerPolicy_def Let_def split: option.split CapabilityAvailability.split)

lemma invokeChecks_same: "invokeAsyncChecks = invokeChecks"
  by (intro ext) (simp only: invokeAsyncChecks_def invokeChecks_def)

text \<open>The context a permitted request reaches its handler with.\<close>

definition permittedContext ::
    "HobitAgentCapabilityRegistry \<Rightarrow> BrokerPolicyOptions \<Rightarrow> HobitAgentActionRequest \<Rightarrow> HobitAgentCapability
     \<Rightarrow> HobitAgentActionHandlerContext" where
  "permittedContext registry options request c =
     (let cid = printed (rq_capabilityId request)
      in \<lparr>cx_auditEvents =
            [createBrokerAuditEvent ''capability.validation.started'' (''Validating '' @ cid @ ''.'') request SeRead,
             createBrokerAuditEvent ''capability.policy.allowed'' (cid @ '' was allowed by broker policy.'') request
               (cp_sideEffectLevel c)],
          cx_capability = c,
          cx_policyDecision = \<lparr>pd_allowed = True, pd_capability = Some c, pd_reasons = [],
            pd_requiresConfirmation = False, pd_requiresDryRun = False, pd_status = PsAllowed\<rparr>,
          cx_registry = registry, cx_request = request\<rparr>)"

lemma invokeChecks_Inr:
  "invokeChecks handlers options registry request = Inr (handler, context) \<longleftrightarrow>
     requestValid request
     \<and> (\<exists>cid c. rq_capabilityId request = Some cid \<and> handlers cid = Some handler
          \<and> findCapability registry (Some cid) = Some c \<and> permitted options request c
          \<and> context = permittedContext registry options request c)"
proof (cases "requestValid request")
  case False
  then show ?thesis
    by (simp add: invokeChecks_def Let_def validateActionRequest_ok)
next
  case True
  then obtain cid where cid: "rq_capabilityId request = Some cid"
    by (auto simp: requestValid_def has_text_some)
  show ?thesis
  proof (cases "\<exists>c. findCapability registry (Some cid) = Some c \<and> permitted options request c")
    case allowed: True
    then obtain c where c: "findCapability registry (Some cid) = Some c" "permitted options request c" by blast
    have policy: "evaluateBrokerPolicy registry request options
        = \<lparr>pd_allowed = True, pd_capability = Some c, pd_reasons = [], pd_requiresConfirmation = False,
           pd_requiresDryRun = False, pd_status = PsAllowed\<rparr>"
      by (subst brokerPolicy_cases) (simp add: cid c)
    show ?thesis
      using True by (cases "handlers cid")
        (auto simp: invokeChecks_def Let_def validateActionRequest_ok policy cid c permittedContext_def
          capabilityLevel_def)
  next
    case refused: False
    then have d: "\<not> pd_allowed (evaluateBrokerPolicy registry request options)"
      by (simp add: brokerPolicy_allowed cid)
    then show ?thesis using refused True cid by (auto simp: invokeChecks_def Let_def validateActionRequest_ok)
  qed
qed

text \<open>A refused request has a result that is not ok.\<close>

lemma invokeChecks_Inl:
  assumes "invokeChecks handlers options registry request = Inl res"
  shows "\<not> ar_ok (br_result res) \<and> br_status res = ar_status (br_result res) \<and> br_request res = request
    \<and> br_status res \<in> {AsInvalidInput, AsUnavailable, AsNeedsConfirmation, AsDryRunRequired, AsPolicyBlocked}
    \<and> ar_output (br_result res) = None"
  using assms
  by (auto simp: invokeChecks_def Let_def createBrokerInvalidInputResult_def createBrokerUnavailableResult_def
      createBrokerNeedsConfirmationResult_def createBrokerDryRunRequiredResult_def
      createBrokerPolicyBlockedResult_def brokerResult_def createActionResult_def createUnavailableActionResult_def
      createPolicyBlockedActionResult_def hobitAgentActionStatusIsOk_def
      split: if_splits option.splits)

section \<open>Properties\<close>

text \<open>
  C19. The broker calls a handler exactly when the request is complete, its capability is registered,
  available, allowed for the requesting role and not restricted (unless restricted ones are enabled), a
  dry run is supported if one is requested, a required or destructive capability comes with a
  confirmation token, and, unless switched off, an effect that can be tried in a dry run is only tried.
  Otherwise the result is not ok, has no output, and says which check refused.
\<close>

theorem broker_calls_only_permitted:
  "(case invokeChecks handlers options registry request of
      Inr (handler, context) \<Rightarrow>
        requestValid request \<and> cx_request context = request
        \<and> Some (cp_id (cx_capability context)) = rq_capabilityId request
        \<and> findCapability registry (rq_capabilityId request) = Some (cx_capability context)
        \<and> handlers (cp_id (cx_capability context)) = Some handler
        \<and> permitted options request (cx_capability context)
    | Inl res \<Rightarrow>
        \<not> (requestValid request \<and> Option.bind (rq_capabilityId request) handlers \<noteq> None
           \<and> (\<exists>c. findCapability registry (rq_capabilityId request) = Some c \<and> permitted options request c))
        \<and> \<not> ar_ok (br_result res) \<and> ar_output (br_result res) = None \<and> invoke handlers options registry request = res
        \<and> br_status res \<in> {AsInvalidInput, AsUnavailable, AsNeedsConfirmation, AsDryRunRequired, AsPolicyBlocked})"
proof (cases "invokeChecks handlers options registry request")
  case (Inr hc)
  then obtain handler cx where hc: "hc = (handler, cx)" by fastforce
  note checks = Inr [unfolded hc]
  obtain cid c where "requestValid request" "rq_capabilityId request = Some cid" "handlers cid = Some handler"
    "findCapability registry (Some cid) = Some c" "permitted options request c"
    "cx = permittedContext registry options request c"
    using checks by (auto simp: invokeChecks_Inr)
  moreover from this have "cp_id c = cid" by (auto dest: findCapability_Some)
  ultimately show ?thesis by (simp add: checks permittedContext_def Let_def)
next
  case (Inl res)
  have "\<not> (requestValid request \<and> Option.bind (rq_capabilityId request) handlers \<noteq> None
           \<and> (\<exists>c. findCapability registry (rq_capabilityId request) = Some c \<and> permitted options request c))"
  proof
    assume asm: "requestValid request \<and> Option.bind (rq_capabilityId request) handlers \<noteq> None
           \<and> (\<exists>c. findCapability registry (rq_capabilityId request) = Some c \<and> permitted options request c)"
    then obtain cid handler c where "rq_capabilityId request = Some cid" "handlers cid = Some handler"
      "findCapability registry (Some cid) = Some c" "permitted options request c" "requestValid request"
      by (cases "rq_capabilityId request") auto
    then have "invokeChecks handlers options registry request
        = Inr (handler, permittedContext registry options request c)" by (simp add: invokeChecks_Inr)
    with Inl show False by simp
  qed
  with Inl invokeChecks_Inl [OF Inl] show ?thesis by (auto simp: invoke_def)
qed

text \<open>
  C23. The two ways to invoke a capability agree: for every handler that does not return a promise,
  \<open>invokeAsync\<close> settles with the result of \<open>invoke\<close>. For a handler that returns one, \<open>invoke\<close> fails
  unexpectedly and \<open>invokeAsync\<close> settles exactly when the promise does.
\<close>

theorem invokeAsync_agrees:
  "case invokeChecks handlers options registry request of
     Inl res \<Rightarrow> invoke handlers options registry request = res \<and> invokeAsync handlers options registry request = Some res
   | Inr (handler, context) \<Rightarrow>
       (case handler context of
          ReturnedPromise p \<Rightarrow> br_status (invoke handlers options registry request) = AsFailedUnexpected
            \<and> (invokeAsync handlers options registry request = None \<longleftrightarrow> p = Pending)
        | _ \<Rightarrow> invokeAsync handlers options registry request = Some (invoke handlers options registry request))"
  by (auto simp: invoke_def invokeAsync_def invokeChecks_same failedInvocation_def Let_def
      split: sum.split handlerOutcome.split promise.split)

text \<open>
  The broker is at least as strict as the capability policy: with the default options, what the
  broker lets through the policy allows as well, for a request whose two role members agree.
\<close>

theorem broker_stricter_than_policy:
  assumes "requestRole request = rq_agentRoleId request"
    and "pd_allowed (evaluateBrokerPolicy registry request DEFAULT_POLICY_OPTIONS)"
  shows "pd_allowed (evaluateCapabilityPolicy registry request)"
  using assms
  by (auto simp: brokerPolicy_allowed evaluateCapabilityPolicy_allowed permitted_def DEFAULT_POLICY_OPTIONS_def
      requiresDryRun_def requiresConfirmation_def)

definition statusRequest :: "HobitAgentActionRequest" where
  "statusRequest = createActionRequest \<lparr>ri_agentId = None, ri_agentRole = None, ri_agentRoleId = RoleTestHarness,
     ri_capabilityId = ''agent.status.read'', ri_confirmationToken = None, ri_createdAt = None, ri_dryRun = None,
     ri_input = Some (JObj [(''targetAgentId'', JStr ''test.agentB'')]), ri_reason = None, ri_rawRequestId = None,
     ri_requestedAt = None, ri_requestId = None, ri_requestIdSource = None\<rparr>"

lemma statusRequest_permitted:
  "findCapability (HOBIT_TEST_AGENT_CAPABILITY_MANIFEST codeUnitCompare) (rq_capabilityId statusRequest)
     = Some (hd HOBIT_TEST_AGENT_CAPABILITIES)"
  "permitted DEFAULT_POLICY_OPTIONS statusRequest (hd HOBIT_TEST_AGENT_CAPABILITIES)"
  "requestRole statusRequest = rq_agentRoleId statusRequest"
  by code_simp+

lemma broker_stricter_than_policy_witness:
  "pd_allowed (evaluateCapabilityPolicy (HOBIT_TEST_AGENT_CAPABILITY_MANIFEST codeUnitCompare) statusRequest)"
  by (rule broker_stricter_than_policy) (auto simp: statusRequest_permitted brokerPolicy_allowed)

lemma test_capability_found:
  "findCapability (HOBIT_TEST_AGENT_CAPABILITY_MANIFEST lc) (Some ''agent.status.read'')
     = Some (hd HOBIT_TEST_AGENT_CAPABILITIES)"
proof -
  let ?sorted = "rg_capabilities (HOBIT_TEST_AGENT_CAPABILITY_MANIFEST lc)"
  have "distinct (map cp_id HOBIT_TEST_AGENT_CAPABILITIES)"
    by (simp add: HOBIT_TEST_AGENT_CAPABILITIES_def testAgentCapability_def)
  moreover have "mset ?sorted = mset HOBIT_TEST_AGENT_CAPABILITIES"
    by (simp add: HOBIT_TEST_AGENT_CAPABILITY_MANIFEST_def mset_js_sort)
  ultimately have "List.find (\<lambda>c. cp_id c = ''agent.status.read'') ?sorted
      = List.find (\<lambda>c. cp_id c = ''agent.status.read'') HOBIT_TEST_AGENT_CAPABILITIES"
    by (rule find_distinct_perm)
  then show ?thesis
    by (simp add: findCapability_def HOBIT_TEST_AGENT_CAPABILITIES_def testAgentCapability_def)
qed

lemma status_reached:
  assumes "requestValid request" and "rq_capabilityId request = Some ''agent.status.read''"
    and "requestRole request = Some RoleTestHarness"
  shows "invokeChecks (createHobitAgentTestActionHandlers lc runtime) DEFAULT_POLICY_OPTIONS
      (HOBIT_TEST_AGENT_CAPABILITY_MANIFEST lc) request
    = Inr (readStatusHandler runtime, permittedContext (HOBIT_TEST_AGENT_CAPABILITY_MANIFEST lc)
        DEFAULT_POLICY_OPTIONS request (hd HOBIT_TEST_AGENT_CAPABILITIES))"
proof -
  have "permitted DEFAULT_POLICY_OPTIONS request (hd HOBIT_TEST_AGENT_CAPABILITIES)"
    using assms(3)
    by (simp add: permitted_def HOBIT_TEST_AGENT_CAPABILITIES_def testAgentCapability_def)
  moreover have "createHobitAgentTestActionHandlers lc runtime ''agent.status.read'' = Some (readStatusHandler runtime)"
    by (simp add: createHobitAgentTestActionHandlers_def)
  ultimately show ?thesis using assms(1,2) by (simp add: invokeChecks_Inr test_capability_found)
qed

text \<open>
  Reading a status through the broker gives the directory's answer: for a complete request of the
  test harness that names an agent, the result is the status of that agent in the runtime, or the
  runtime's error when it is not registered, and the audit trail holds the validation, the policy
  decision and the completion, in this order.
\<close>

theorem status_read_through_broker:
  fixes runtime :: HobitAgentRuntimeState and lc :: "string \<Rightarrow> string \<Rightarrow> int"
  assumes "requestValid request" and "rq_capabilityId request = Some ''agent.status.read''"
    and "requestRole request = Some RoleTestHarness" and "readStringInput (rq_input request) ''targetAgentId'' = Some target"
  defines "res \<equiv> invoke (createHobitAgentTestActionHandlers lc runtime) DEFAULT_POLICY_OPTIONS
      (HOBIT_TEST_AGENT_CAPABILITY_MANIFEST lc) request"
  shows "(case directoryOf runtime target of
       Some agent \<Rightarrow> br_status res = AsSucceeded \<and> ar_output (br_result res) = Some (OutStatus target (ag_status agent))
     | None \<Rightarrow> br_status res = AsFailed \<and> ar_message (br_result res) = ''Agent '' @ target @ '' is not registered.'')
    \<and> map au_eventName (ar_auditEvents (br_result res)) =
        [''capability.validation.started'', ''capability.policy.allowed'',
         if dryRunOf request then ''capability.dryRun.completed'' else ''capability.invoke.completed'']"
proof -
  define cx where "cx = permittedContext (HOBIT_TEST_AGENT_CAPABILITY_MANIFEST lc) DEFAULT_POLICY_OPTIONS request
      (hd HOBIT_TEST_AGENT_CAPABILITIES)"
  define answer where "answer = (case getAgentStatus runtime target of
      Inl error \<Rightarrow> failedHandlerResult request (er_message error)
    | Inr status \<Rightarrow> createActionResult [] request (''Read status for '' @ target @ ''.'')
        (Some (OutStatus target status)) None [] None AsSucceeded)"
  have cx: "cx_request cx = request" "map au_eventName (cx_auditEvents cx)
      = [''capability.validation.started'', ''capability.policy.allowed'']"
    by (simp_all add: cx_def permittedContext_def Let_def createBrokerAuditEvent_def)
  have "readStatusHandler runtime cx = Returned answer"
    by (simp add: readStatusHandler_def Let_def cx assms(4) answer_def)
  then have res: "res = completedInvocation cx answer"
    by (simp add: res_def invoke_def status_reached [OF assms(1-3)] cx_def [symmetric])
  have answer: "ar_auditEvents answer = []"
    by (cases "getAgentStatus runtime target")
      (simp_all add: answer_def failedHandlerResult_def createActionResult_def)
  have audit: "map au_eventName (ar_auditEvents (br_result res)) =
        [''capability.validation.started'', ''capability.policy.allowed'',
         if dryRunOf request then ''capability.dryRun.completed'' else ''capability.invoke.completed'']"
    by (simp add: res completedInvocation_def Let_def cx answer createBrokerAuditEvent_def)
  have "case directoryOf runtime target of
       Some agent \<Rightarrow> br_status res = AsSucceeded \<and> ar_output (br_result res) = Some (OutStatus target (ag_status agent))
     | None \<Rightarrow> br_status res = AsFailed \<and> ar_message (br_result res) = ''Agent '' @ target @ '' is not registered.''"
    by (cases "directoryOf runtime target")
      (simp_all add: res completedInvocation_def Let_def answer_def getAgentStatus_def findAgent_directory
        failedHandlerResult_def createActionResult_def)
  with audit show ?thesis by blast
qed

lemma status_read_through_broker_witness:
  "br_status (invoke (createHobitAgentTestActionHandlers codeUnitCompare
       (createAgentRuntimeState codeUnitCompare [HOBIT_TEST_AGENT_B codeUnitCompare] [] None ''w''))
     DEFAULT_POLICY_OPTIONS (HOBIT_TEST_AGENT_CAPABILITY_MANIFEST codeUnitCompare) statusRequest) = AsSucceeded"
proof -
  let ?r = "createAgentRuntimeState codeUnitCompare [HOBIT_TEST_AGENT_B codeUnitCompare] [] None ''w''"
  have "requestValid statusRequest" "rq_capabilityId statusRequest = Some ''agent.status.read''"
    "requestRole statusRequest = Some RoleTestHarness"
    "readStringInput (rq_input statusRequest) ''targetAgentId'' = Some ''test.agentB''" by code_simp+
  note status_read_through_broker [OF this, of codeUnitCompare ?r]
  moreover have "directoryOf ?r ''test.agentB'' = Some (HOBIT_TEST_AGENT_B codeUnitCompare)"
    by (simp add: directoryOf_def createAgentRuntimeState_def sortAgents_def HOBIT_TEST_AGENT_B_def createTestAgent_def Let_def)
  ultimately show ?thesis by simp
qed

end
