(* ===== verification/Geometry.thy ===== *)
theory Geometry
  imports Prelude
begin

text \<open>
  The layout geometry of the workbench, \<open>workbench/workbenchLayoutGeometry.ts\<close>: snapping to the
  grid, where a docked widget may be dragged to, how it is resized, and the clean-up of the maps
  that hold positions under way. Lengths and coordinates are rational numbers (the rounding of
  floating point is not modelled); a map keyed by widget id is a function to \<open>option\<close>. A style is
  given by the numbers it prints in pixels. \<open>window\<close> is \<open>None\<close> where it is undefined.
\<close>

section \<open>Data\<close>

record DockedPosition = pos_x :: rat pos_y :: rat

record DockedSize = size_height :: rat size_width :: rat

record DockedMinimumSize =
  minimum_minHeight :: "rat option"
  minimum_minWidth :: "rat option"

record LayoutSurfaceRect =
  rect_height :: rat
  rect_left :: rat
  rect_top :: rat
  rect_width :: rat

datatype ResizeDirection =
  DirBottom | DirBottomLeft | DirBottomRight | DirLeft | DirRight | DirTop | DirTopLeft | DirTopRight

fun resizeDirectionName :: "ResizeDirection \<Rightarrow> string" where
  "resizeDirectionName DirBottom = ''bottom''"
| "resizeDirectionName DirBottomLeft = ''bottom-left''"
| "resizeDirectionName DirBottomRight = ''bottom-right''"
| "resizeDirectionName DirLeft = ''left''"
| "resizeDirectionName DirRight = ''right''"
| "resizeDirectionName DirTop = ''top''"
| "resizeDirectionName DirTopLeft = ''top-left''"
| "resizeDirectionName DirTopRight = ''top-right''"

text \<open>\<open>direction.includes(side)\<close>: the name has \<open>side\<close> as a part.\<close>

fun js_includes :: "string \<Rightarrow> string \<Rightarrow> bool" where
  "js_includes part [] \<longleftrightarrow> part = []"
| "js_includes part (c # cs) \<longleftrightarrow> take (length part) (c # cs) = part \<or> js_includes part cs"

definition directionIncludes :: "ResizeDirection \<Rightarrow> string \<Rightarrow> bool" where
  "directionIncludes d side = js_includes side (resizeDirectionName d)"

datatype WidgetLayoutMode = ModeDocked | ModeMinimized | ModePoppedOut

record WidgetLayout =
  layout_height :: rat
  layout_mode :: WidgetLayoutMode
  layout_width :: rat
  layout_x :: rat
  layout_y :: rat

record WidgetInstance =
  widget_id :: string
  widget_layout :: WidgetLayout
  widget_visible :: bool

section \<open>The grid\<close>

definition WORKBENCH_GRID_SIZE_OPTIONS :: "rat list" where
  "WORKBENCH_GRID_SIZE_OPTIONS = [12, 16, 20, 24, 28]"

definition DEFAULT_WORKBENCH_GRID_SIZE :: rat where
  "DEFAULT_WORKBENCH_GRID_SIZE = 24"

definition DOCKED_LAYOUT_MIN_HEIGHT :: rat where
  "DOCKED_LAYOUT_MIN_HEIGHT = DEFAULT_WORKBENCH_GRID_SIZE * 22"

definition DOCKED_LAYOUT_BOTTOM_PADDING :: rat where
  "DOCKED_LAYOUT_BOTTOM_PADDING = DEFAULT_WORKBENCH_GRID_SIZE * 10"

definition DOCKED_WIDGET_MAX_DIMENSION :: rat where
  "DOCKED_WIDGET_MAX_DIMENSION = 16384"

definition DOCKED_WIDGET_MIN_HEIGHT :: rat where
  "DOCKED_WIDGET_MIN_HEIGHT = DEFAULT_WORKBENCH_GRID_SIZE * 10"

definition DOCKED_WIDGET_MIN_WIDTH :: rat where
  "DOCKED_WIDGET_MIN_WIDTH = DEFAULT_WORKBENCH_GRID_SIZE * 14"

text \<open>\<open>Math.round\<close> rounds halves up.\<close>

definition js_round :: "rat \<Rightarrow> int" where
  "js_round a = \<lfloor>a + 1 / 2\<rfloor>"

definition clamp :: "rat \<Rightarrow> rat \<Rightarrow> rat \<Rightarrow> rat" where
  "clamp value mn mx = min mx (max mn value)"

definition snapToWorkbenchGrid :: "rat \<Rightarrow> rat \<Rightarrow> rat" where
  "snapToWorkbenchGrid value gridSize = of_int (js_round (value / gridSize)) * gridSize"

definition snapMinimumToWorkbenchGrid :: "rat \<Rightarrow> rat \<Rightarrow> rat" where
  "snapMinimumToWorkbenchGrid value gridSize = max gridSize (of_int \<lceil>value / gridSize\<rceil> * gridSize)"

definition snapMaximumToWorkbenchGrid :: "rat \<Rightarrow> rat \<Rightarrow> rat \<Rightarrow> rat" where
  "snapMaximumToWorkbenchGrid value minimum gridSize =
     max minimum (of_int \<lfloor>value / gridSize\<rfloor> * gridSize)"

definition normalizeWorkbenchGridSize :: "rat \<Rightarrow> rat" where
  "normalizeWorkbenchGridSize value =
     (if value \<in> set WORKBENCH_GRID_SIZE_OPTIONS then value else DEFAULT_WORKBENCH_GRID_SIZE)"

section \<open>Dragging and resizing\<close>

definition clampDockedPosition ::
    "DockedPosition \<Rightarrow> LayoutSurfaceRect \<Rightarrow> rat \<Rightarrow> rat \<Rightarrow> rat \<Rightarrow> DockedPosition" where
  "clampDockedPosition position surfaceRect widgetWidth widgetHeight gridSize =
     (let maxX = max 0 (rect_width surfaceRect - min widgetWidth (rect_width surfaceRect));
          maxY = max 0 (rect_height surfaceRect - min widgetHeight (rect_height surfaceRect))
      in \<lparr>pos_x = clamp (snapToWorkbenchGrid (pos_x position) gridSize) 0
                    (snapMaximumToWorkbenchGrid maxX 0 gridSize),
          pos_y = clamp (snapToWorkbenchGrid (pos_y position) gridSize) 0
                    (snapMaximumToWorkbenchGrid maxY 0 gridSize)\<rparr>)"

definition minWidthOf :: "DockedMinimumSize \<Rightarrow> rat \<Rightarrow> rat" where
  "minWidthOf minimumSize gridSize =
     snapMinimumToWorkbenchGrid
       (max DOCKED_WIDGET_MIN_WIDTH (js_default 0 (minimum_minWidth minimumSize))) gridSize"

definition minHeightOf :: "DockedMinimumSize \<Rightarrow> rat \<Rightarrow> rat" where
  "minHeightOf minimumSize gridSize =
     snapMinimumToWorkbenchGrid
       (max DOCKED_WIDGET_MIN_HEIGHT (js_default 0 (minimum_minHeight minimumSize))) gridSize"

definition clampDockedSize ::
    "DockedSize \<Rightarrow> LayoutSurfaceRect \<Rightarrow> DockedPosition \<Rightarrow> rat \<Rightarrow> DockedMinimumSize \<Rightarrow> DockedSize" where
  "clampDockedSize dockedSize surfaceRect position gridSize minimumSize =
     (let minWidth = minWidthOf minimumSize gridSize;
          minHeight = minHeightOf minimumSize gridSize;
          maxWidth = max minWidth (min DOCKED_WIDGET_MAX_DIMENSION (rect_width surfaceRect - pos_x position));
          maxHeight = max minHeight (min DOCKED_WIDGET_MAX_DIMENSION (rect_height surfaceRect - pos_y position))
      in \<lparr>size_height = clamp (snapToWorkbenchGrid (size_height dockedSize) gridSize) minHeight
                          (snapMaximumToWorkbenchGrid maxHeight minHeight gridSize),
          size_width = clamp (snapToWorkbenchGrid (size_width dockedSize) gridSize) minWidth
                          (snapMaximumToWorkbenchGrid maxWidth minWidth gridSize)\<rparr>)"

record DockedDragInput =
  drag_height :: rat
  drag_offsetX :: rat
  drag_offsetY :: rat
  drag_pointerX :: rat
  drag_pointerY :: rat
  drag_surfaceRect :: LayoutSurfaceRect
  drag_width :: rat
  drag_gridSize :: rat

definition nextDockedDragPosition :: "DockedDragInput \<Rightarrow> DockedPosition" where
  "nextDockedDragPosition drag =
     clampDockedPosition
       \<lparr>pos_x = drag_pointerX drag - rect_left (drag_surfaceRect drag) - drag_offsetX drag,
        pos_y = drag_pointerY drag - rect_top (drag_surfaceRect drag) - drag_offsetY drag\<rparr>
       (drag_surfaceRect drag) (drag_width drag) (drag_height drag) (drag_gridSize drag)"

record DockedResizeInput =
  resize_direction :: ResizeDirection
  resize_gridSize :: rat
  resize_minimumSize :: DockedMinimumSize
  resize_originalSize :: DockedSize
  resize_pointerX :: rat
  resize_pointerY :: rat
  resize_position :: DockedPosition
  resize_resizePointerX :: rat
  resize_resizePointerY :: rat
  resize_surfaceRect :: LayoutSurfaceRect

text \<open>One axis of the body: the next coordinate and the next length, before the size is clamped.\<close>

definition resizeWidthStep :: "DockedResizeInput \<Rightarrow> rat \<times> rat" where
  "resizeWidthStep r =
     (let deltaX = resize_pointerX r - resize_resizePointerX r;
          originalRight = pos_x (resize_position r) + size_width (resize_originalSize r);
          x = (if directionIncludes (resize_direction r) ''left''
               then clamp (snapToWorkbenchGrid (pos_x (resize_position r) + deltaX) (resize_gridSize r)) 0
                      (snapMaximumToWorkbenchGrid
                        (originalRight - minWidthOf (resize_minimumSize r) (resize_gridSize r))
                        0 (resize_gridSize r))
               else pos_x (resize_position r));
          width = (if directionIncludes (resize_direction r) ''left'' then originalRight - x
                   else size_width (resize_originalSize r))
      in (x, if directionIncludes (resize_direction r) ''right'' then width + deltaX else width))"

definition resizeHeightStep :: "DockedResizeInput \<Rightarrow> rat \<times> rat" where
  "resizeHeightStep r =
     (let deltaY = resize_pointerY r - resize_resizePointerY r;
          originalBottom = pos_y (resize_position r) + size_height (resize_originalSize r);
          y = (if directionIncludes (resize_direction r) ''top''
               then clamp (snapToWorkbenchGrid (pos_y (resize_position r) + deltaY) (resize_gridSize r)) 0
                      (snapMaximumToWorkbenchGrid
                        (originalBottom - minHeightOf (resize_minimumSize r) (resize_gridSize r))
                        0 (resize_gridSize r))
               else pos_y (resize_position r));
          height = (if directionIncludes (resize_direction r) ''top'' then originalBottom - y
                    else size_height (resize_originalSize r))
      in (y, if directionIncludes (resize_direction r) ''bottom'' then height + deltaY else height))"

definition nextDockedResizeGeometry :: "DockedResizeInput \<Rightarrow> DockedPosition \<times> DockedSize" where
  "nextDockedResizeGeometry r =
     (let position = \<lparr>pos_x = fst (resizeWidthStep r), pos_y = fst (resizeHeightStep r)\<rparr>;
          dockedSize = \<lparr>size_height = snd (resizeHeightStep r), size_width = snd (resizeWidthStep r)\<rparr>
      in (position,
          clampDockedSize dockedSize (resize_surfaceRect r) position (resize_gridSize r) (resize_minimumSize r)))"

definition nextDockedResizeSize :: "DockedResizeInput \<Rightarrow> DockedSize" where
  "nextDockedResizeSize r = snd (nextDockedResizeGeometry r)"

section \<open>Widgets and the positions under way\<close>

definition widgetDockedPosition :: "WidgetInstance \<Rightarrow> DockedPosition" where
  "widgetDockedPosition widget =
     \<lparr>pos_x = layout_x (widget_layout widget), pos_y = layout_y (widget_layout widget)\<rparr>"

definition widgetDockedSize :: "WidgetInstance \<Rightarrow> DockedSize" where
  "widgetDockedSize widget =
     \<lparr>size_height = layout_height (widget_layout widget), size_width = layout_width (widget_layout widget)\<rparr>"

definition widgetLayoutSurfaceStyle ::
    "WidgetInstance list \<Rightarrow> (string \<rightharpoonup> DockedPosition) \<Rightarrow> (string \<rightharpoonup> DockedSize) \<Rightarrow> rat" where
  "widgetLayoutSurfaceStyle widgets dockedDragPositions dockedResizeSizes =
     (let maxWidgetBottom =
        foldl (\<lambda>maxBottom widget.
          if layout_mode (widget_layout widget) \<noteq> ModeDocked then maxBottom
          else max maxBottom
            (pos_y (js_default (widgetDockedPosition widget) (dockedDragPositions (widget_id widget)))
             + size_height (js_default (widgetDockedSize widget) (dockedResizeSizes (widget_id widget)))))
          0 widgets
      in max DOCKED_LAYOUT_MIN_HEIGHT (maxWidgetBottom + DOCKED_LAYOUT_BOTTOM_PADDING))"

definition widgetLayoutItemStyle ::
    "WidgetInstance \<Rightarrow> (string \<rightharpoonup> DockedPosition) \<Rightarrow> (string \<rightharpoonup> DockedSize) \<Rightarrow> DockedPosition \<times> DockedSize" where
  "widgetLayoutItemStyle widget dockedDragPositions dockedResizeSizes =
     (js_default (widgetDockedPosition widget) (dockedDragPositions (widget_id widget)),
      js_default (widgetDockedSize widget) (dockedResizeSizes (widget_id widget)))"

definition widgetGhostStyle :: "WidgetInstance \<Rightarrow> DockedSize option" where
  "widgetGhostStyle widget =
     (if layout_mode (widget_layout widget) \<noteq> ModeDocked then None
      else Some (widgetDockedSize widget))"

definition removeWidgetPosition :: "(string \<rightharpoonup> DockedPosition) \<Rightarrow> string \<Rightarrow> (string \<rightharpoonup> DockedPosition)" where
  "removeWidgetPosition positions widgetInstanceId = positions(widgetInstanceId := None)"

definition removeWidgetSize :: "(string \<rightharpoonup> DockedSize) \<Rightarrow> string \<Rightarrow> (string \<rightharpoonup> DockedSize)" where
  "removeWidgetSize sizes widgetInstanceId = sizes(widgetInstanceId := None)"

definition visibleWidgetIdSet :: "WidgetInstance list \<Rightarrow> string set" where
  "visibleWidgetIdSet widgets = set (map widget_id (filter widget_visible widgets))"

definition removeStaleWidgetIds :: "string list \<Rightarrow> string set \<Rightarrow> string list" where
  "removeStaleWidgetIds widgetIds visibleWidgetIds = filter (\<lambda>i. i \<in> visibleWidgetIds) widgetIds"

definition removeStalePopoutPositions ::
    "(string \<rightharpoonup> DockedPosition) \<Rightarrow> string set \<Rightarrow> (string \<rightharpoonup> DockedPosition)" where
  "removeStalePopoutPositions positions visibleWidgetIds =
     (\<lambda>i. if i \<in> visibleWidgetIds then positions i else None)"

definition visibleWidgetMap :: "WidgetInstance list \<Rightarrow> (string \<times> WidgetInstance) list" where
  "visibleWidgetMap widgets =
     js_map_of_entries (map (\<lambda>w. (widget_id w, w)) (filter widget_visible widgets))"

definition removeSettledDockedDragPositions ::
    "(string \<rightharpoonup> DockedPosition) \<Rightarrow> WidgetInstance list \<Rightarrow> (string \<rightharpoonup> DockedPosition)" where
  "removeSettledDockedDragPositions positions widgets =
     (\<lambda>i. case (map_of (visibleWidgetMap widgets) i, positions i) of
        (Some widget, Some position) \<Rightarrow>
          if layout_x (widget_layout widget) \<noteq> pos_x position \<or> layout_y (widget_layout widget) \<noteq> pos_y position
          then Some position else None
      | _ \<Rightarrow> None)"

definition removeSettledDockedResizeSizes ::
    "(string \<rightharpoonup> DockedSize) \<Rightarrow> WidgetInstance list \<Rightarrow> (string \<rightharpoonup> DockedSize)" where
  "removeSettledDockedResizeSizes sizes widgets =
     (\<lambda>i. case (map_of (visibleWidgetMap widgets) i, sizes i) of
        (Some widget, Some dockedSize) \<Rightarrow>
          if layout_width (widget_layout widget) \<noteq> size_width dockedSize
             \<or> layout_height (widget_layout widget) \<noteq> size_height dockedSize
          then Some dockedSize else None
      | _ \<Rightarrow> None)"

section \<open>Popouts\<close>

record Viewport = innerWidth :: rat innerHeight :: rat

definition popoutViewportMargin :: "Viewport \<Rightarrow> rat" where
  "popoutViewportMargin window = (if innerWidth window \<le> 720 then 32 else 48)"

definition clampPopoutPosition :: "Viewport option \<Rightarrow> DockedPosition \<Rightarrow> DockedPosition" where
  "clampPopoutPosition window position =
     (case window of
        None \<Rightarrow> position
      | Some w \<Rightarrow>
          (let minX = min 16 (innerWidth w);
               maxX = max minX (innerWidth w - 180);
               minY = min 16 (innerHeight w);
               maxY = max minY (innerHeight w - 96)
           in \<lparr>pos_x = clamp (pos_x position) minX maxX, pos_y = clamp (pos_y position) minY maxY\<rparr>))"

definition defaultPopoutPosition :: "Viewport option \<Rightarrow> DockedPosition" where
  "defaultPopoutPosition window =
     (case window of
        None \<Rightarrow> \<lparr>pos_x = 16, pos_y = 96\<rparr>
      | Some w \<Rightarrow>
          (let width = min 760 (max 0 (innerWidth w - popoutViewportMargin w))
           in clampPopoutPosition window
                \<lparr>pos_x = (innerWidth w - width) / 2, pos_y = (if innerWidth w \<le> 720 then 80 else 96)\<rparr>))"

section \<open>Facts about the grid\<close>

definition onGrid :: "rat \<Rightarrow> rat \<Rightarrow> bool" where
  "onGrid g a \<longleftrightarrow> (\<exists>k :: int. a = of_int k * g)"

lemma grid_options_pos: "g \<in> set WORKBENCH_GRID_SIZE_OPTIONS \<Longrightarrow> 0 < g"
  by (auto simp: WORKBENCH_GRID_SIZE_OPTIONS_def)

lemma onGrid_zero [simp]: "onGrid g 0"
  unfolding onGrid_def by (rule exI [of _ 0]) simp

lemma onGrid_of_int [simp]: "onGrid g (of_int k * g)"
  unfolding onGrid_def by blast

lemma onGrid_self [simp]: "onGrid g g"
  unfolding onGrid_def by (rule exI [of _ 1]) simp

lemma onGrid_max: "onGrid g a \<Longrightarrow> onGrid g b \<Longrightarrow> onGrid g (max a b)"
  by (simp add: max_def)

lemma onGrid_min: "onGrid g a \<Longrightarrow> onGrid g b \<Longrightarrow> onGrid g (min a b)"
  by (simp add: min_def)

lemma onGrid_diff: "onGrid g a \<Longrightarrow> onGrid g b \<Longrightarrow> onGrid g (a - b)"
  unfolding onGrid_def by (metis left_diff_distrib of_int_diff)

lemma onGrid_clamp: "onGrid g a \<Longrightarrow> onGrid g b \<Longrightarrow> onGrid g c \<Longrightarrow> onGrid g (clamp a b c)"
  by (simp add: clamp_def onGrid_max onGrid_min)

lemma snap_onGrid [simp]: "onGrid g (snapToWorkbenchGrid a g)"
  by (simp add: snapToWorkbenchGrid_def)

lemma snapMinimum_onGrid [simp]: "onGrid g (snapMinimumToWorkbenchGrid a g)"
  by (simp add: snapMinimumToWorkbenchGrid_def onGrid_max)

lemma snapMaximum_onGrid: "onGrid g m \<Longrightarrow> onGrid g (snapMaximumToWorkbenchGrid a m g)"
  by (simp add: snapMaximumToWorkbenchGrid_def onGrid_max)

lemma snap_id: "0 < g \<Longrightarrow> onGrid g a \<Longrightarrow> snapToWorkbenchGrid a g = a"
  by (auto simp: onGrid_def snapToWorkbenchGrid_def js_round_def floor_eq_iff)

lemma snapMinimum_ge: "0 < g \<Longrightarrow> a \<le> snapMinimumToWorkbenchGrid a g"
  unfolding snapMinimumToWorkbenchGrid_def
  by (rule max.coboundedI2) (metis le_of_int_ceiling pos_divide_le_eq)

lemma snapMaximum_le: "0 < g \<Longrightarrow> snapMaximumToWorkbenchGrid a m g \<le> max m a"
  unfolding snapMaximumToWorkbenchGrid_def
  by (rule max.mono) (simp_all add: pos_le_divide_eq [symmetric])

lemma snapMaximum_ge: "m \<le> snapMaximumToWorkbenchGrid a m g"
  by (simp add: snapMaximumToWorkbenchGrid_def)

lemma snapMaximum_grid_ge: "0 < g \<Longrightarrow> onGrid g b \<Longrightarrow> b \<le> a \<Longrightarrow> b \<le> snapMaximumToWorkbenchGrid a m g"
proof -
  assume g: "0 < g" and "onGrid g b" and "b \<le> a"
  then obtain k :: int where k: "b = of_int k * g" by (auto simp: onGrid_def)
  with \<open>b \<le> a\<close> g have "of_int k \<le> a / g" by (simp add: pos_le_divide_eq)
  then have "k \<le> \<lfloor>a / g\<rfloor>" by (simp add: le_floor_iff)
  then have "b \<le> of_int \<lfloor>a / g\<rfloor> * g" using g k by (simp add: mult_right_mono)
  then show ?thesis by (simp add: snapMaximumToWorkbenchGrid_def)
qed

lemma clamp_bounds: "b \<le> c \<Longrightarrow> b \<le> clamp a b c \<and> clamp a b c \<le> c"
  by (auto simp: clamp_def)

lemma clamp_id: "b \<le> a \<Longrightarrow> a \<le> c \<Longrightarrow> clamp a b c = a"
  by (simp add: clamp_def)

text \<open>One coordinate of a clamped position.\<close>

lemma clamp_axis:
  assumes "0 < g" and "0 \<le> m" and "a = clamp (snapToWorkbenchGrid p g) 0 (snapMaximumToWorkbenchGrid m 0 g)"
  shows "onGrid g a \<and> 0 \<le> a \<and> a \<le> m
    \<and> clamp (snapToWorkbenchGrid a g) 0 (snapMaximumToWorkbenchGrid m 0 g) = a"
proof -
  have a: "onGrid g a" "0 \<le> a" "a \<le> snapMaximumToWorkbenchGrid m 0 g"
    using clamp_bounds [OF snapMaximum_ge] assms(3) by (auto intro!: onGrid_clamp snapMaximum_onGrid)
  with snapMaximum_le [OF assms(1), of m 0] assms(1,2) show ?thesis
    by (auto simp: snap_id clamp_id)
qed

text \<open>One length of a clamped size.\<close>

lemma clamp_length_axis:
  fixes l g mn room :: rat
  assumes "0 < g" and "onGrid g mn"
  defines "l' \<equiv> clamp (snapToWorkbenchGrid l g) mn (snapMaximumToWorkbenchGrid (max mn room) mn g)"
  shows "onGrid g l' \<and> mn \<le> l' \<and> l' \<le> max mn room
    \<and> (onGrid g l \<and> mn \<le> l \<and> l \<le> room \<longrightarrow> l' = l)"
proof -
  have "onGrid g l'" unfolding l'_def using assms(2) by (intro onGrid_clamp snapMaximum_onGrid) auto
  moreover have "mn \<le> l'" "l' \<le> snapMaximumToWorkbenchGrid (max mn room) mn g"
    using clamp_bounds [OF snapMaximum_ge] unfolding l'_def by auto
  moreover have "onGrid g l \<and> mn \<le> l \<and> l \<le> room \<longrightarrow> l' = l"
    unfolding l'_def using assms(1) by (auto simp: snap_id intro!: clamp_id snapMaximum_grid_ge)
  ultimately show ?thesis using snapMaximum_le [OF assms(1), of "max mn room" mn] by auto
qed

lemma minimum_lengths:
  assumes "0 < g"
  shows "onGrid g (minWidthOf m g)" "336 \<le> minWidthOf m g"
    "onGrid g (minHeightOf m g)" "240 \<le> minHeightOf m g"
proof -
  have "336 \<le> max DOCKED_WIDGET_MIN_WIDTH (js_default 0 (minimum_minWidth m))"
    "240 \<le> max DOCKED_WIDGET_MIN_HEIGHT (js_default 0 (minimum_minHeight m))"
    by (simp_all add: DOCKED_WIDGET_MIN_WIDTH_def DOCKED_WIDGET_MIN_HEIGHT_def
        DEFAULT_WORKBENCH_GRID_SIZE_def)
  with snapMinimum_ge [OF assms] show "336 \<le> minWidthOf m g" "240 \<le> minHeightOf m g"
    unfolding minWidthOf_def minHeightOf_def by (meson order_trans)+
qed (simp_all add: minWidthOf_def minHeightOf_def)

text \<open>A length with the minimum and with room for it moves by less than a grid step.\<close>

lemma snap_near: "0 < g \<Longrightarrow> l - g / 2 < snapToWorkbenchGrid l g \<and> snapToWorkbenchGrid l g \<le> l + g / 2"
proof -
  assume g: "0 < g"
  have "of_int \<lfloor>l / g + 1 / 2\<rfloor> \<le> l / g + 1 / 2" "l / g + 1 / 2 - 1 < of_int \<lfloor>l / g + 1 / 2\<rfloor>" by linarith+
  then have "of_int \<lfloor>l / g + 1 / 2\<rfloor> * g \<le> (l / g + 1 / 2) * g" "(l / g + 1 / 2 - 1) * g < of_int \<lfloor>l / g + 1 / 2\<rfloor> * g"
    using g by (blast intro: mult_right_mono mult_strict_right_mono less_imp_le)+
  moreover have "(l / g + 1 / 2) * g = l + g / 2" "(l / g + 1 / 2 - 1) * g = l - g / 2"
    using g by (simp_all add: field_simps)
  ultimately show ?thesis by (simp add: snapToWorkbenchGrid_def js_round_def)
qed

lemma clamp_length_near:
  fixes l g mn room :: rat
  assumes g: "0 < g" and "mn \<le> l" and "l \<le> room"
  defines "l' \<equiv> clamp (snapToWorkbenchGrid l g) mn (snapMaximumToWorkbenchGrid (max mn room) mn g)"
  shows "\<bar>l' - l\<bar> < g"
proof -
  let ?M = "snapMaximumToWorkbenchGrid (max mn room) mn g"
  have "room / g - 1 < of_int \<lfloor>room / g\<rfloor>" by linarith
  then have "(room / g - 1) * g < of_int \<lfloor>room / g\<rfloor> * g" using g by (rule mult_strict_right_mono)
  moreover have "(room / g - 1) * g = room - g" using g by (simp add: field_simps)
  moreover have "max mn room = room" using assms(2,3) by simp
  ultimately have "room - g < ?M" by (auto simp: snapMaximumToWorkbenchGrid_def less_max_iff_disj)
  then show ?thesis
    using snap_near [OF g, of l] assms(2,3) g unfolding l'_def clamp_def by (auto simp: min_def max_def abs_if)
qed

text \<open>Moving the near edge leaves the far edge where it is.\<close>

lemma near_edge_axis:
  fixes g far mn room p :: rat
  assumes "0 < g" and "onGrid g mn" and "onGrid g far" and "mn \<le> far" and "far \<le> limit" and "far \<le> surface"
    and "0 \<le> mn"
  defines "a \<equiv> clamp (snapToWorkbenchGrid p g) 0 (snapMaximumToWorkbenchGrid (far - mn) 0 g)"
  shows "a + clamp (snapToWorkbenchGrid (far - a) g) mn
               (snapMaximumToWorkbenchGrid (max mn (min limit (surface - a))) mn g) = far"
proof -
  have a: "onGrid g a" "0 \<le> a" "a \<le> far - mn"
    using clamp_axis [OF assms(1), of "far - mn" a p] assms(4) unfolding a_def by auto
  have "onGrid g (far - a)" using assms(3) a(1) by (rule onGrid_diff)
  moreover have "mn \<le> far - a" "far - a \<le> min limit (surface - a)" using a assms(5,6) by auto
  ultimately have "clamp (snapToWorkbenchGrid (far - a) g) mn
      (snapMaximumToWorkbenchGrid (max mn (min limit (surface - a))) mn g) = far - a"
    using clamp_length_axis [OF assms(1,2), of "far - a" "min limit (surface - a)"] by simp
  then show ?thesis by simp
qed

definition exampleSurface :: LayoutSurfaceRect where
  "exampleSurface = \<lparr>rect_height = 800, rect_left = 10, rect_top = 20, rect_width = 1000\<rparr>"

definition exampleResize :: DockedResizeInput where
  "exampleResize = \<lparr>resize_direction = DirTopLeft, resize_gridSize = 24,
     resize_minimumSize = \<lparr>minimum_minHeight = None, minimum_minWidth = Some 350\<rparr>,
     resize_originalSize = \<lparr>size_height = 480, size_width = 480\<rparr>, resize_pointerX = 300,
     resize_pointerY = 101, resize_position = \<lparr>pos_x = 240, pos_y = 48\<rparr>, resize_resizePointerX = 250,
     resize_resizePointerY = 68, resize_surfaceRect = exampleSurface\<rparr>"

lemma directionIncludes_simps [simp]:
  "directionIncludes DirLeft ''left''" "directionIncludes DirTopLeft ''left''"
  "directionIncludes DirBottomLeft ''left''" "\<not> directionIncludes DirLeft ''right''"
  "\<not> directionIncludes DirTopLeft ''right''" "\<not> directionIncludes DirBottomLeft ''right''"
  "directionIncludes DirTop ''top''" "directionIncludes DirTopLeft ''top''"
  "directionIncludes DirTopRight ''top''" "\<not> directionIncludes DirTop ''bottom''"
  "\<not> directionIncludes DirTopLeft ''bottom''" "\<not> directionIncludes DirTopRight ''bottom''"
  "\<not> directionIncludes DirTop ''left''" "\<not> directionIncludes DirBottom ''left''"
  "\<not> directionIncludes DirRight ''left''" "\<not> directionIncludes DirTopRight ''left''"
  "\<not> directionIncludes DirBottomRight ''left''" "\<not> directionIncludes DirTop ''right''"
  "\<not> directionIncludes DirBottom ''right''" "directionIncludes DirRight ''right''"
  "directionIncludes DirTopRight ''right''" "directionIncludes DirBottomRight ''right''"
  "\<not> directionIncludes DirLeft ''top''" "\<not> directionIncludes DirRight ''top''"
  "\<not> directionIncludes DirBottom ''top''" "\<not> directionIncludes DirBottomLeft ''top''"
  "\<not> directionIncludes DirBottomRight ''top''" "\<not> directionIncludes DirLeft ''bottom''"
  "\<not> directionIncludes DirRight ''bottom''" "directionIncludes DirBottom ''bottom''"
  "directionIncludes DirBottomLeft ''bottom''" "directionIncludes DirBottomRight ''bottom''"
  by (simp_all add: directionIncludes_def)

lemma clampDockedSize_width:
  fixes surfaceRect :: LayoutSurfaceRect and position :: DockedPosition
  assumes "0 < g"
  defines "room \<equiv> min 16384 (rect_width surfaceRect - pos_x position)"
  shows "onGrid g (size_width (clampDockedSize d surfaceRect position g m))
    \<and> minWidthOf m g \<le> size_width (clampDockedSize d surfaceRect position g m)
    \<and> size_width (clampDockedSize d surfaceRect position g m) \<le> max (minWidthOf m g) room"
  using clamp_length_axis [OF assms(1) minimum_lengths(1) [OF assms(1)], of "size_width d" m room]
  by (simp add: clampDockedSize_def Let_def room_def DOCKED_WIDGET_MAX_DIMENSION_def)

lemma clampDockedSize_height:
  fixes surfaceRect :: LayoutSurfaceRect and position :: DockedPosition
  assumes "0 < g"
  defines "room \<equiv> min 16384 (rect_height surfaceRect - pos_y position)"
  shows "onGrid g (size_height (clampDockedSize d surfaceRect position g m))
    \<and> minHeightOf m g \<le> size_height (clampDockedSize d surfaceRect position g m)
    \<and> size_height (clampDockedSize d surfaceRect position g m) \<le> max (minHeightOf m g) room"
  using clamp_length_axis [OF assms(1) minimum_lengths(3) [OF assms(1)], of "size_height d" m room]
  by (simp add: clampDockedSize_def Let_def room_def DOCKED_WIDGET_MAX_DIMENSION_def)

lemma resize_left_edge:
  fixes r :: DockedResizeInput
  assumes "0 < g" and "resize_gridSize r = g" and "nextDockedResizeGeometry r = (p, s)"
    and "resize_direction r \<in> {DirLeft, DirTopLeft, DirBottomLeft}"
    and "onGrid g right" and "minWidthOf (resize_minimumSize r) g \<le> right" and "right \<le> 16384"
    and "right \<le> rect_width (resize_surfaceRect r)"
    and right: "right = pos_x (resize_position r) + size_width (resize_originalSize r)"
  shows "pos_x p + size_width s = right"
proof -
  note mn = minimum_lengths(1,2) [OF assms(1), of "resize_minimumSize r"]
  from mn(2) have "0 \<le> minWidthOf (resize_minimumSize r) g" by linarith
  note near_edge_axis [OF assms(1) mn(1) assms(5,6,7,8) this,
      of "pos_x (resize_position r) + (resize_pointerX r - resize_resizePointerX r)"]
  with assms(2-4) show ?thesis
    by (auto simp: nextDockedResizeGeometry_def resizeWidthStep_def clampDockedSize_def Let_def right
        DOCKED_WIDGET_MAX_DIMENSION_def)
qed

lemma resize_top_edge:
  fixes r :: DockedResizeInput
  assumes "0 < g" and "resize_gridSize r = g" and "nextDockedResizeGeometry r = (p, s)"
    and "resize_direction r \<in> {DirTop, DirTopLeft, DirTopRight}"
    and "onGrid g bottom" and "minHeightOf (resize_minimumSize r) g \<le> bottom" and "bottom \<le> 16384"
    and "bottom \<le> rect_height (resize_surfaceRect r)"
    and bottom: "bottom = pos_y (resize_position r) + size_height (resize_originalSize r)"
  shows "pos_y p + size_height s = bottom"
proof -
  note mn = minimum_lengths(3,4) [OF assms(1), of "resize_minimumSize r"]
  from mn(2) have "0 \<le> minHeightOf (resize_minimumSize r) g" by linarith
  note near_edge_axis [OF assms(1) mn(1) assms(5,6,7,8) this,
      of "pos_y (resize_position r) + (resize_pointerY r - resize_resizePointerY r)"]
  with assms(2-4) show ?thesis
    by (auto simp: nextDockedResizeGeometry_def resizeHeightStep_def clampDockedSize_def Let_def bottom
        DOCKED_WIDGET_MAX_DIMENSION_def)
qed

text \<open>An edge that is not pulled: the position stays, and the length stays or follows the pointer.\<close>

lemma resize_width_free:
  fixes r :: DockedResizeInput
  assumes "0 < g" and "resize_gridSize r = g" and "nextDockedResizeGeometry r = (p, s)"
    and "resize_direction r \<notin> {DirLeft, DirTopLeft, DirBottomLeft}"
  defines "pulled \<equiv> (if resize_direction r \<in> {DirRight, DirTopRight, DirBottomRight}
      then resize_pointerX r - resize_resizePointerX r else 0)"
    and "w \<equiv> size_width (resize_originalSize r)" and "x \<equiv> pos_x (resize_position r)"
  shows "pos_x p = x"
    and "minWidthOf (resize_minimumSize r) g \<le> w + pulled \<Longrightarrow> w + pulled \<le> min 16384 (rect_width (resize_surfaceRect r) - x)
      \<Longrightarrow> \<bar>size_width s - (w + pulled)\<bar> < g \<and> (onGrid g (w + pulled) \<longrightarrow> size_width s = w + pulled)"
proof -
  have l: "\<not> directionIncludes (resize_direction r) ''left''" using assms(4) by (cases "resize_direction r") auto
  have r: "directionIncludes (resize_direction r) ''right''
      \<longleftrightarrow> resize_direction r \<in> {DirRight, DirTopRight, DirBottomRight}"
    using assms(4) by (cases "resize_direction r") auto
  show x: "pos_x p = x" using assms(3) l by (auto simp: nextDockedResizeGeometry_def resizeWidthStep_def Let_def x_def)
  have s: "size_width s = size_width (clampDockedSize \<lparr>size_height = h, size_width = w + pulled\<rparr>
      (resize_surfaceRect r) p g (resize_minimumSize r))" for h
    using assms(2,3) l r
    by (auto simp: nextDockedResizeGeometry_def resizeWidthStep_def clampDockedSize_def Let_def w_def pulled_def)
  assume b: "minWidthOf (resize_minimumSize r) g \<le> w + pulled"
    "w + pulled \<le> min 16384 (rect_width (resize_surfaceRect r) - x)"
  show "\<bar>size_width s - (w + pulled)\<bar> < g \<and> (onGrid g (w + pulled) \<longrightarrow> size_width s = w + pulled)"
    using clamp_length_near [OF assms(1) b] clamp_length_axis [OF assms(1) minimum_lengths(1) [OF assms(1)], of "w + pulled"] b
    unfolding s [of 0] by (simp add: clampDockedSize_def Let_def x DOCKED_WIDGET_MAX_DIMENSION_def)
qed

lemma resize_height_free:
  fixes r :: DockedResizeInput
  assumes "0 < g" and "resize_gridSize r = g" and "nextDockedResizeGeometry r = (p, s)"
    and "resize_direction r \<notin> {DirTop, DirTopLeft, DirTopRight}"
  defines "pulled \<equiv> (if resize_direction r \<in> {DirBottom, DirBottomLeft, DirBottomRight}
      then resize_pointerY r - resize_resizePointerY r else 0)"
    and "h \<equiv> size_height (resize_originalSize r)" and "y \<equiv> pos_y (resize_position r)"
  shows "pos_y p = y"
    and "minHeightOf (resize_minimumSize r) g \<le> h + pulled \<Longrightarrow> h + pulled \<le> min 16384 (rect_height (resize_surfaceRect r) - y)
      \<Longrightarrow> \<bar>size_height s - (h + pulled)\<bar> < g \<and> (onGrid g (h + pulled) \<longrightarrow> size_height s = h + pulled)"
proof -
  have l: "\<not> directionIncludes (resize_direction r) ''top''" using assms(4) by (cases "resize_direction r") auto
  have r: "directionIncludes (resize_direction r) ''bottom''
      \<longleftrightarrow> resize_direction r \<in> {DirBottom, DirBottomLeft, DirBottomRight}"
    using assms(4) by (cases "resize_direction r") auto
  show y: "pos_y p = y" using assms(3) l by (auto simp: nextDockedResizeGeometry_def resizeHeightStep_def Let_def y_def)
  have s: "size_height s = size_height (clampDockedSize \<lparr>size_height = h + pulled, size_width = w\<rparr>
      (resize_surfaceRect r) p g (resize_minimumSize r))" for w
    using assms(2,3) l r
    by (auto simp: nextDockedResizeGeometry_def resizeHeightStep_def clampDockedSize_def Let_def h_def pulled_def)
  assume b: "minHeightOf (resize_minimumSize r) g \<le> h + pulled"
    "h + pulled \<le> min 16384 (rect_height (resize_surfaceRect r) - y)"
  show "\<bar>size_height s - (h + pulled)\<bar> < g \<and> (onGrid g (h + pulled) \<longrightarrow> size_height s = h + pulled)"
    using clamp_length_near [OF assms(1) b] clamp_length_axis [OF assms(1) minimum_lengths(3) [OF assms(1)], of "h + pulled"] b
    unfolding s [of 0] by (simp add: clampDockedSize_def Let_def y DOCKED_WIDGET_MAX_DIMENSION_def)
qed

section \<open>Properties\<close>

text \<open>
  A dragged widget stays on the surface: whatever the pointer does, the position is on the grid,
  not negative, and leaves room for the widget's size if the surface has it; and the position is
  stable, so clamping it again (as the start of a drag does) does not move it.
\<close>

theorem clampDockedPosition_inside:
  assumes "gridSize \<in> set WORKBENCH_GRID_SIZE_OPTIONS"
    and "p = clampDockedPosition position surfaceRect w h gridSize"
  shows "onGrid gridSize (pos_x p) \<and> onGrid gridSize (pos_y p)
    \<and> 0 \<le> pos_x p \<and> pos_x p \<le> max 0 (rect_width surfaceRect - min w (rect_width surfaceRect))
    \<and> 0 \<le> pos_y p \<and> pos_y p \<le> max 0 (rect_height surfaceRect - min h (rect_height surfaceRect))
    \<and> clampDockedPosition p surfaceRect w h gridSize = p"
proof -
  note g = grid_options_pos [OF assms(1)]
  show ?thesis
    using clamp_axis [OF g, of "max 0 (rect_width surfaceRect - min w (rect_width surfaceRect))" "pos_x p" "pos_x position"]
      clamp_axis [OF g, of "max 0 (rect_height surfaceRect - min h (rect_height surfaceRect))" "pos_y p" "pos_y position"]
    by (simp add: assms(2) clampDockedPosition_def Let_def)
qed

lemma clampDockedPosition_inside_witness:
  "0 \<le> pos_x (clampDockedPosition \<lparr>pos_x = 990, pos_y = -7\<rparr> exampleSurface 400 300 24)"
  using clampDockedPosition_inside [of 24 _ "\<lparr>pos_x = 990, pos_y = -7\<rparr>" exampleSurface 400 300, OF _ refl]
  by (simp add: WORKBENCH_GRID_SIZE_OPTIONS_def)

text \<open>
  C37. A resize never makes a widget smaller than its minimum nor larger than the room the surface
  has for it at its new position (when it has the minimum), and both lengths are on the grid.
  Pulling the left edge keeps the right edge, and pulling the top edge keeps the bottom edge, for a
  widget whose far edge is on the grid and on the surface. Unless the left edge is pulled, the left edge
  stays exactly where it is, and the width follows the pointer on a pulled right edge, or stays, to less
  than a grid step, as long as it is within the bounds; and so for the top edge and the height.
\<close>

theorem nextDockedResizeGeometry_bounds:
  fixes r :: DockedResizeInput
  assumes "g \<in> set WORKBENCH_GRID_SIZE_OPTIONS" and "resize_gridSize r = g"
    and "nextDockedResizeGeometry r = (p, s)"
  defines "minW \<equiv> minWidthOf (resize_minimumSize r) g" and "minH \<equiv> minHeightOf (resize_minimumSize r) g"
    and "x \<equiv> pos_x (resize_position r)" and "y \<equiv> pos_y (resize_position r)"
    and "w \<equiv> size_width (resize_originalSize r)" and "h \<equiv> size_height (resize_originalSize r)"
    and "W \<equiv> rect_width (resize_surfaceRect r)" and "H \<equiv> rect_height (resize_surfaceRect r)"
    and "pulledX \<equiv> (if resize_direction r \<in> {DirRight, DirTopRight, DirBottomRight}
      then resize_pointerX r - resize_resizePointerX r else 0)"
    and "pulledY \<equiv> (if resize_direction r \<in> {DirBottom, DirBottomLeft, DirBottomRight}
      then resize_pointerY r - resize_resizePointerY r else 0)"
  shows "336 \<le> minW \<and> minW \<le> size_width s \<and> size_width s \<le> max minW (W - pos_x p)
      \<and> onGrid g (size_width s)
      \<and> 240 \<le> minH \<and> minH \<le> size_height s \<and> size_height s \<le> max minH (H - pos_y p)
      \<and> onGrid g (size_height s)
      \<and> (if resize_direction r \<in> {DirLeft, DirTopLeft, DirBottomLeft}
          then onGrid g (x + w) \<and> minW \<le> x + w \<and> x + w \<le> 16384 \<and> x + w \<le> W \<longrightarrow> pos_x p + size_width s = x + w
          else pos_x p = x \<and> (minW \<le> w + pulledX \<and> w + pulledX \<le> min 16384 (W - x) \<longrightarrow>
            \<bar>size_width s - (w + pulledX)\<bar> < g \<and> (onGrid g (w + pulledX) \<longrightarrow> size_width s = w + pulledX)))
      \<and> (if resize_direction r \<in> {DirTop, DirTopLeft, DirTopRight}
          then onGrid g (y + h) \<and> minH \<le> y + h \<and> y + h \<le> 16384 \<and> y + h \<le> H \<longrightarrow> pos_y p + size_height s = y + h
          else pos_y p = y \<and> (minH \<le> h + pulledY \<and> h + pulledY \<le> min 16384 (H - y) \<longrightarrow>
            \<bar>size_height s - (h + pulledY)\<bar> < g \<and> (onGrid g (h + pulledY) \<longrightarrow> size_height s = h + pulledY)))"
proof -
  note g = grid_options_pos [OF assms(1)]
  have s: "s = clampDockedSize \<lparr>size_height = snd (resizeHeightStep r), size_width = snd (resizeWidthStep r)\<rparr>
      (resize_surfaceRect r) p g (resize_minimumSize r)"
    using assms(2,3) by (auto simp: nextDockedResizeGeometry_def Let_def)
  have "onGrid g (size_width s) \<and> minW \<le> size_width s \<and> size_width s \<le> max minW (min 16384 (W - pos_x p))"
    unfolding s minW_def W_def by (rule conjI [OF _ conjI]) (use clampDockedSize_width [OF g] in blast)+
  moreover have "onGrid g (size_height s) \<and> minH \<le> size_height s
      \<and> size_height s \<le> max minH (min 16384 (H - pos_y p))"
    unfolding s minH_def H_def by (rule conjI [OF _ conjI]) (use clampDockedSize_height [OF g] in blast)+
  moreover have "if resize_direction r \<in> {DirLeft, DirTopLeft, DirBottomLeft}
      then onGrid g (x + w) \<and> minW \<le> x + w \<and> x + w \<le> 16384 \<and> x + w \<le> W \<longrightarrow> pos_x p + size_width s = x + w
      else pos_x p = x \<and> (minW \<le> w + pulledX \<and> w + pulledX \<le> min 16384 (W - x) \<longrightarrow>
        \<bar>size_width s - (w + pulledX)\<bar> < g \<and> (onGrid g (w + pulledX) \<longrightarrow> size_width s = w + pulledX))"
    using resize_left_edge [OF g assms(2,3) _ _ _ _ _ refl, folded x_def w_def minW_def W_def]
      resize_width_free [OF g assms(2,3), folded x_def w_def minW_def W_def, folded pulledX_def]
    by (cases "resize_direction r \<in> {DirLeft, DirTopLeft, DirBottomLeft}") (simp_all only: if_True if_False, blast+)
  moreover have "if resize_direction r \<in> {DirTop, DirTopLeft, DirTopRight}
      then onGrid g (y + h) \<and> minH \<le> y + h \<and> y + h \<le> 16384 \<and> y + h \<le> H \<longrightarrow> pos_y p + size_height s = y + h
      else pos_y p = y \<and> (minH \<le> h + pulledY \<and> h + pulledY \<le> min 16384 (H - y) \<longrightarrow>
        \<bar>size_height s - (h + pulledY)\<bar> < g \<and> (onGrid g (h + pulledY) \<longrightarrow> size_height s = h + pulledY))"
    using resize_top_edge [OF g assms(2,3) _ _ _ _ _ refl, folded y_def h_def minH_def H_def]
      resize_height_free [OF g assms(2,3), folded y_def h_def minH_def H_def, folded pulledY_def]
    by (cases "resize_direction r \<in> {DirTop, DirTopLeft, DirTopRight}") (simp_all only: if_True if_False, blast+)
  ultimately show ?thesis using minimum_lengths [OF g] unfolding minW_def minH_def by auto
qed

lemma nextDockedResizeGeometry_bounds_witness:
  "pos_x (fst (nextDockedResizeGeometry exampleResize)) + size_width (snd (nextDockedResizeGeometry exampleResize)) = 720"
proof -
  have "minWidthOf (resize_minimumSize exampleResize) 24 \<le> 720"
    by (simp add: exampleResize_def minWidthOf_def snapMinimumToWorkbenchGrid_def
        DOCKED_WIDGET_MIN_WIDTH_def DEFAULT_WORKBENCH_GRID_SIZE_def)
  moreover have "onGrid 24 720" unfolding onGrid_def by (rule exI [of _ 30]) simp
  ultimately show ?thesis
    using nextDockedResizeGeometry_bounds [of 24 exampleResize "fst (nextDockedResizeGeometry exampleResize)"
        "snd (nextDockedResizeGeometry exampleResize)"]
    by (simp add: WORKBENCH_GRID_SIZE_OPTIONS_def exampleResize_def exampleSurface_def)
qed

end
