(* ===== verification/Notes_Format.thy ===== *)
theory Notes_Format
  imports Prelude
begin

text \<open>
  The note formatters of \<open>workbench/notes/notesFormatters.ts\<close>: the CSV reader and writer and the
  plain-text clean-up. The reader's loop over the characters is \<open>csvLoop\<close>, its variables are the
  record \<open>CsvState\<close>, and an early return with an error is \<open>Inl\<close> of the message.
\<close>

section \<open>Line endings\<close>

abbreviation LF :: char where "LF \<equiv> CHR 0x0A"
abbreviation CR :: char where "CR \<equiv> CHR 0x0D"
abbreviation TAB :: char where "TAB \<equiv> CHR 0x09"
abbreviation QUOTE :: char where "QUOTE \<equiv> CHR 0x22"
abbreviation COMMA :: char where "COMMA \<equiv> CHR '',''"

text \<open>\<open>replace(/\r\n?/g, "\n")\<close>.\<close>

fun unifyLineEndings :: "string \<Rightarrow> string" where
  "unifyLineEndings [] = []"
| "unifyLineEndings [c] = [if c = CR then LF else c]"
| "unifyLineEndings (c # d # cs) =
     (if c = CR then LF # unifyLineEndings (if d = LF then cs else d # cs)
      else c # unifyLineEndings (d # cs))"

section \<open>Reading and writing CSV\<close>

record CsvState =
  csv_rows :: "string list list"
  csv_row :: "string list"
  csv_field :: string
  csv_inQuotes :: bool
  csv_quoteClosed :: bool

definition csvStart :: CsvState where
  "csvStart = \<lparr>csv_rows = [], csv_row = [], csv_field = [], csv_inQuotes = False, csv_quoteClosed = False\<rparr>"

text \<open>\<open>row.push(field); field = ""\<close> and the end of a row.\<close>

definition csvEndField :: "CsvState \<Rightarrow> CsvState" where
  "csvEndField s = s\<lparr>csv_row := csv_row s @ [csv_field s], csv_field := [], csv_quoteClosed := False\<rparr>"

definition csvEndRow :: "CsvState \<Rightarrow> CsvState" where
  "csvEndRow s = s\<lparr>csv_rows := csv_rows s @ [csv_row s @ [csv_field s]], csv_row := [], csv_field := [],
     csv_quoteClosed := False\<rparr>"

definition csvAppend :: "char \<Rightarrow> CsvState \<Rightarrow> CsvState" where
  "csvAppend c s = s\<lparr>csv_field := csv_field s @ [c]\<rparr>"

function csvLoop :: "CsvState \<Rightarrow> string \<Rightarrow> string + CsvState" where
  "csvLoop s [] = Inr s"
| "csvLoop s (c # cs) =
     (if csv_inQuotes s then
        if c = QUOTE then
          (case cs of
             d # ds \<Rightarrow>
               if d = QUOTE then csvLoop (csvAppend QUOTE s) ds
               else csvLoop (s\<lparr>csv_inQuotes := False, csv_quoteClosed := True\<rparr>) cs
           | [] \<Rightarrow> csvLoop (s\<lparr>csv_inQuotes := False, csv_quoteClosed := True\<rparr>) cs)
        else csvLoop (csvAppend c s) cs
      else if csv_quoteClosed s then
        if c = COMMA then csvLoop (csvEndField s) cs
        else if c = LF then csvLoop (csvEndRow s) cs
        else if c \<noteq> CHR '' '' \<and> c \<noteq> TAB then
          Inl ''Invalid CSV. Unexpected text after a quoted field.''
        else csvLoop s cs
      else if c = QUOTE then
        if csv_field s \<noteq> [] then Inl ''Invalid CSV. Quotes must wrap the whole field.''
        else csvLoop (s\<lparr>csv_inQuotes := True\<rparr>) cs
      else if c = COMMA then csvLoop (csvEndField s) cs
      else if c = LF then csvLoop (csvEndRow s) cs
      else csvLoop (csvAppend c s) cs)"
  by pat_completeness auto
termination by (relation "measure (\<lambda>(s, cs). length cs)") auto

text \<open>The final \<open>while\<close>: empty rows at the end are dropped, but never the only row.\<close>

function dropTrailingEmptyRows :: "string list list \<Rightarrow> string list list" where
  "dropTrailingEmptyRows rows =
     (if 1 < length rows \<and> last rows = [[]] then dropTrailingEmptyRows (butlast rows) else rows)"
  by pat_completeness auto
termination by (relation "measure length") auto

declare dropTrailingEmptyRows.simps [simp del]

definition parseCsv :: "string \<Rightarrow> string + string list list" where
  "parseCsv body =
     (case csvLoop csvStart (unifyLineEndings body) of
        Inl e \<Rightarrow> Inl e
      | Inr s \<Rightarrow>
          if csv_inQuotes s then Inl ''Invalid CSV. A quoted field is not closed.''
          else Inr (dropTrailingEmptyRows (csv_rows s @ [csv_row s @ [csv_field s]])))"

definition csvSpecial :: "char \<Rightarrow> bool" where
  "csvSpecial c \<longleftrightarrow> c \<in> {QUOTE, COMMA, LF, CR}"

definition escapeQuotes :: "string \<Rightarrow> string" where
  "escapeQuotes field = concat (map (\<lambda>c. if c = QUOTE then [QUOTE, QUOTE] else [c]) field)"

definition serializeCsvField :: "string \<Rightarrow> string" where
  "serializeCsvField field =
     (if \<not> list_ex csvSpecial field \<and> js_trim field = field then field
      else QUOTE # escapeQuotes field @ [QUOTE])"

definition serializeCsv :: "string list list \<Rightarrow> string" where
  "serializeCsv rows = js_join [LF] (map (\<lambda>row. js_join [COMMA] (map serializeCsvField row)) rows)"

definition normalizeCsv :: "string \<Rightarrow> string + string" where
  "normalizeCsv body =
     (case parseCsv body of
        Inl e \<Rightarrow> Inl e
      | Inr rows \<Rightarrow>
          if rows = [] then Inr []
          else if list_ex (\<lambda>row. length row \<noteq> length (hd rows)) rows
          then Inl ''Invalid CSV. Rows must have the same number of fields.''
          else Inr (serializeCsv rows))"

section \<open>Plain text\<close>

text \<open>\<open>s.split("\n")\<close>.\<close>

fun splitLines :: "string \<Rightarrow> string list" where
  "splitLines [] = [[]]"
| "splitLines (c # cs) =
     (if c = LF then [] # splitLines cs
      else (case splitLines cs of l # ls \<Rightarrow> (c # l) # ls | [] \<Rightarrow> [[c]]))"

text \<open>\<open>line.replace(/[ \t]+$/g, "")\<close>.\<close>

definition stripTrailingBlanks :: "string \<Rightarrow> string" where
  "stripTrailingBlanks line = rev (dropWhile (\<lambda>c. c = CHR '' '' \<or> c = TAB) (rev line))"

text \<open>\<open>replace(/\n{3,}/g, "\n\n")\<close>: of a run of line feeds at most two are kept.\<close>

fun capLineFeeds :: "nat \<Rightarrow> string \<Rightarrow> string" where
  "capLineFeeds k [] = []"
| "capLineFeeds k (c # cs) =
     (if c = LF then (if k < 2 then LF # capLineFeeds (Suc k) cs else capLineFeeds k cs)
      else c # capLineFeeds 0 cs)"

definition normalizePlainText :: "string \<Rightarrow> string" where
  "normalizePlainText body =
     js_trim (capLineFeeds 0 (js_join [LF] (map stripTrailingBlanks (splitLines (unifyLineEndings body)))))"

section \<open>Line endings after unification\<close>

lemma unifyLineEndings_no_CR: "CR \<notin> set (unifyLineEndings s)"
  by (induction s rule: unifyLineEndings.induct) auto

lemma unifyLineEndings_id: "CR \<notin> set s \<Longrightarrow> unifyLineEndings s = s"
  by (induction s rule: unifyLineEndings.induct) auto

section \<open>Reading what was written\<close>

text \<open>The state between two fields, and the state after a field whose text is known.\<close>

definition csvAt :: "string list list \<Rightarrow> string list \<Rightarrow> string \<Rightarrow> bool \<Rightarrow> CsvState" where
  "csvAt rows row field quoted = \<lparr>csv_rows = rows, csv_row = row, csv_field = field,
     csv_inQuotes = False, csv_quoteClosed = quoted\<rparr>"

lemma csvStart_at: "csvStart = csvAt [] [] [] False"
  by (simp add: csvStart_def csvAt_def)

lemma csvLoop_separator [simp]:
  "csvLoop (csvAt rows row f b) (COMMA # cs) = csvLoop (csvAt rows (row @ [f]) [] False) cs"
  "csvLoop (csvAt rows row f b) (LF # cs) = csvLoop (csvAt (rows @ [row @ [f]]) [] [] False) cs"
  by (simp_all add: csvAt_def csvEndField_def csvEndRow_def)

lemma csvLoop_open:
  "csvLoop (csvAt rows row [] False) (QUOTE # cs) = csvLoop \<lparr>csv_rows = rows, csv_row = row,
     csv_field = [], csv_inQuotes = True, csv_quoteClosed = False\<rparr> cs"
  by (simp add: csvAt_def)

lemma csvLoop_plain:
  "\<not> list_ex csvSpecial f \<Longrightarrow>
   csvLoop (csvAt rows row g False) (f @ rest) = csvLoop (csvAt rows row (g @ f) False) rest"
  by (induction f arbitrary: g) (simp_all add: csvAt_def csvSpecial_def csvAppend_def)

lemma csvLoop_quoted:
  assumes "rest = [] \<or> hd rest \<noteq> QUOTE"
  shows "csvLoop \<lparr>csv_rows = rows, csv_row = row, csv_field = g, csv_inQuotes = True, csv_quoteClosed = False\<rparr>
           (escapeQuotes f @ QUOTE # rest) = csvLoop (csvAt rows row (g @ f) True) rest"
proof (induction f arbitrary: g)
  case Nil
  then show ?case using assms by (cases rest) (simp_all add: escapeQuotes_def csvAt_def)
next
  case (Cons c f)
  then show ?case by (simp add: escapeQuotes_def csvAppend_def)
qed

declare csvLoop.simps(2) [simp del]

lemma csvLoop_field:
  assumes "rest = [] \<or> hd rest \<in> {COMMA, LF}"
  shows "\<exists>b. csvLoop (csvAt rows row [] False) (serializeCsvField f @ rest) = csvLoop (csvAt rows row f b) rest"
proof (cases "\<not> list_ex csvSpecial f \<and> js_trim f = f")
  case True
  then show ?thesis using csvLoop_plain [of f rows row "[]" rest] by (auto simp: serializeCsvField_def)
next
  case False
  from assms have "rest = [] \<or> hd rest \<noteq> QUOTE" by auto
  from csvLoop_quoted [OF this, of rows row "[]" f] False show ?thesis
    by (auto simp: serializeCsvField_def csvLoop_open)
qed

lemma csvLoop_row:
  "row \<noteq> [] \<Longrightarrow> rest = [] \<or> hd rest = LF \<Longrightarrow>
   \<exists>b. csvLoop (csvAt rows row0 [] False) (js_join [COMMA] (map serializeCsvField row) @ rest)
     = csvLoop (csvAt rows (row0 @ butlast row) (last row) b) rest"
proof (induction row arbitrary: row0 rule: induct_list012)
  case (2 f)
  then show ?case using csvLoop_field [of rest rows row0 f] by auto
next
  case (3 f g row)
  let ?more = "js_join [COMMA] (map serializeCsvField (g # row)) @ rest"
  obtain b where "csvLoop (csvAt rows row0 [] False) (serializeCsvField f @ COMMA # ?more)
      = csvLoop (csvAt rows row0 f b) (COMMA # ?more)"
    using csvLoop_field [of "COMMA # ?more" rows row0 f] by auto
  then show ?case using "3.IH"(2) [of "row0 @ [f]"] "3.prems" by simp
qed simp

lemma csvLoop_rows:
  "rows \<noteq> [] \<Longrightarrow> [] \<notin> set rows \<Longrightarrow>
   \<exists>b. csvLoop (csvAt rows0 [] [] False) (serializeCsv rows)
     = Inr (csvAt (rows0 @ butlast rows) (butlast (last rows)) (last (last rows)) b)"
proof (induction rows arbitrary: rows0 rule: induct_list012)
  case (2 row)
  then show ?case using csvLoop_row [of row "[]" rows0 "[]"] by (auto simp: serializeCsv_def)
next
  case (3 row row' rows)
  let ?more = "serializeCsv (row' # rows)"
  have "serializeCsv (row # row' # rows) = js_join [COMMA] (map serializeCsvField row) @ LF # ?more"
    by (simp add: serializeCsv_def)
  moreover obtain b where "csvLoop (csvAt rows0 [] [] False)
      (js_join [COMMA] (map serializeCsvField row) @ LF # ?more)
      = csvLoop (csvAt (rows0 @ [row]) [] [] False) ?more"
    using csvLoop_row [of row "LF # ?more" rows0 "[]"] "3.prems" by auto
  ultimately show ?case using "3.IH"(2) [of "rows0 @ [row]"] "3.prems" by simp
qed simp

lemma set_js_join: "set (js_join sep xs) \<subseteq> set sep \<union> \<Union> (set ` set xs)"
  by (induction xs rule: induct_list012) auto

lemma serializeCsvField_chars: "set (serializeCsvField f) \<subseteq> insert QUOTE (set f)"
  by (auto simp: serializeCsvField_def escapeQuotes_def split: if_splits)

definition csvTable :: "string list list \<Rightarrow> bool" where
  "csvTable rows \<longleftrightarrow> rows \<noteq> [] \<and> [] \<notin> set rows \<and> \<not> (1 < length rows \<and> last rows = [[]])
     \<and> list_all (list_all (\<lambda>f. CR \<notin> set f)) rows"

lemma serializeCsv_no_CR:
  assumes "csvTable rows" shows "CR \<notin> set (serializeCsv rows)"
proof
  assume "CR \<in> set (serializeCsv rows)"
  then obtain row where "row \<in> set rows" "CR \<in> set (js_join [COMMA] (map serializeCsvField row))"
    unfolding serializeCsv_def using set_js_join by fastforce
  moreover from this(2) obtain f where "f \<in> set row" "CR \<in> set (serializeCsvField f)"
    using set_js_join by fastforce
  ultimately show False
    using assms serializeCsvField_chars [of f] by (fastforce simp: csvTable_def list_all_iff)
qed

lemma dropTrailingEmptyRows_keep:
  "\<not> (1 < length rows \<and> last rows = [[]]) \<Longrightarrow> dropTrailingEmptyRows rows = rows"
  by (subst dropTrailingEmptyRows.simps) auto

lemma parseCsv_table: "csvTable rows \<Longrightarrow> parseCsv (serializeCsv rows) = Inr rows"
proof -
  assume t: "csvTable rows"
  then have ne: "rows \<noteq> []" "last rows \<noteq> []" by (auto simp: csvTable_def) (metis last_in_set)+
  obtain b where "csvLoop csvStart (serializeCsv rows)
      = Inr (csvAt (butlast rows) (butlast (last rows)) (last (last rows)) b)"
    using t csvLoop_rows [of rows "[]"] by (auto simp: csvTable_def csvStart_at)
  then show ?thesis using t ne
    by (simp add: parseCsv_def unifyLineEndings_id serializeCsv_no_CR csvAt_def csvTable_def
        dropTrailingEmptyRows_keep)
qed

section \<open>What reading returns\<close>

definition csvStateOk :: "CsvState \<Rightarrow> bool" where
  "csvStateOk s \<longleftrightarrow> [] \<notin> set (csv_rows s) \<and> list_all (list_all (\<lambda>f. CR \<notin> set f)) (csv_rows s)
     \<and> list_all (\<lambda>f. CR \<notin> set f) (csv_row s) \<and> CR \<notin> set (csv_field s)"

lemma csvStateOk_steps:
  "csvStateOk s \<Longrightarrow> csvStateOk (csvEndField s)" "csvStateOk s \<Longrightarrow> csvStateOk (csvEndRow s)"
  "csvStateOk s \<Longrightarrow> c \<noteq> CR \<Longrightarrow> csvStateOk (csvAppend c s)"
  "csvStateOk (s\<lparr>csv_inQuotes := b\<rparr>) = csvStateOk s"
  "csvStateOk (s\<lparr>csv_inQuotes := b, csv_quoteClosed := b'\<rparr>) = csvStateOk s"
  by (auto simp: csvStateOk_def csvEndField_def csvEndRow_def csvAppend_def)

lemma csvLoop_ok: "csvLoop s cs = Inr s' \<Longrightarrow> CR \<notin> set cs \<Longrightarrow> csvStateOk s \<Longrightarrow> csvStateOk s'"
proof (induction s cs rule: csvLoop.induct)
  case (2 s c cs)
  from "2.prems" have "c \<noteq> CR" "CR \<notin> set cs" by auto
  then show ?case using 2
    by (auto simp: csvStateOk_steps csvLoop.simps(2) split: if_splits list.splits)
qed simp

lemma dropTrailingEmptyRows_table:
  "rows \<noteq> [] \<Longrightarrow> [] \<notin> set rows \<Longrightarrow> list_all (list_all (\<lambda>f. CR \<notin> set f)) rows \<Longrightarrow>
   csvTable (dropTrailingEmptyRows rows)"
proof (induction rows rule: dropTrailingEmptyRows.induct)
  case (1 rows)
  show ?case
  proof (cases "1 < length rows \<and> last rows = [[]]")
    case True
    then have "butlast rows \<noteq> []" by (cases rows) auto
    with 1 True show ?thesis
      by (subst dropTrailingEmptyRows.simps) (auto simp: list_all_iff dest: in_set_butlastD)
  next
    case False
    with 1 show ?thesis by (simp add: dropTrailingEmptyRows_keep csvTable_def)
  qed
qed

lemma parseCsv_returns_table: "parseCsv body = Inr rows \<Longrightarrow> csvTable rows"
proof -
  assume "parseCsv body = Inr rows"
  then obtain s where s: "csvLoop csvStart (unifyLineEndings body) = Inr s"
    and rows: "rows = dropTrailingEmptyRows (csv_rows s @ [csv_row s @ [csv_field s]])"
    by (auto simp: parseCsv_def split: sum.splits if_splits)
  have "csvStateOk s"
    using csvLoop_ok [OF s unifyLineEndings_no_CR] by (simp add: csvStateOk_def csvStart_def)
  then show ?thesis unfolding rows
    by (intro dropTrailingEmptyRows_table) (auto simp: csvStateOk_def list_all_iff)
qed

definition csvReadErrors :: "string set" where
  "csvReadErrors = {''Invalid CSV. Unexpected text after a quoted field.'',
     ''Invalid CSV. Quotes must wrap the whole field.'', ''Invalid CSV. A quoted field is not closed.''}"

lemma csvLoop_error: "csvLoop s cs = Inl e \<Longrightarrow> e \<in> csvReadErrors"
  by (induction s cs rule: csvLoop.induct)
     (auto simp: csvReadErrors_def csvLoop.simps(2) split: if_splits list.splits)

lemma parseCsv_error: "parseCsv body = Inl e \<Longrightarrow> e \<in> csvReadErrors"
  by (auto simp: parseCsv_def dest: csvLoop_error split: sum.splits if_splits)
     (simp add: csvReadErrors_def)

lemma normalizeCsv_of_table:
  assumes "csvTable rows"
  shows "normalizeCsv (serializeCsv rows)
       = (if list_ex (\<lambda>row. length row \<noteq> length (hd rows)) rows
          then Inl ''Invalid CSV. Rows must have the same number of fields.'' else Inr (serializeCsv rows))"
  using assms by (simp add: normalizeCsv_def parseCsv_table) (simp add: csvTable_def)

lemma normalizeCsv_again: "normalizeCsv body = Inr t \<Longrightarrow> normalizeCsv t = Inr t"
proof -
  assume n: "normalizeCsv body = Inr t"
  then obtain rows where p: "parseCsv body = Inr rows" by (auto simp: normalizeCsv_def split: sum.splits)
  then have "csvTable rows" by (rule parseCsv_returns_table)
  moreover from this have "rows \<noteq> []" by (simp add: csvTable_def)
  ultimately show ?thesis using n p by (auto simp: normalizeCsv_def parseCsv_table split: if_splits)
qed

lemma normalizeCsv_error:
  "normalizeCsv body = Inl e \<Longrightarrow>
   e \<in> insert ''Invalid CSV. Rows must have the same number of fields.'' csvReadErrors"
  by (auto simp: normalizeCsv_def dest: parseCsv_error split: sum.splits if_splits)

section \<open>Plain text after the clean-up\<close>

definition blankChar :: "char \<Rightarrow> bool" where
  "blankChar c \<longleftrightarrow> c = CHR '' '' \<or> c = TAB"

text \<open>Stripping every line is one pass from the right over the characters.\<close>

definition stripStep :: "char \<Rightarrow> string \<Rightarrow> string" where
  "stripStep c r = (if blankChar c \<and> (r = [] \<or> hd r = LF) then r else c # r)"

lemma splitLines_ne [simp]: "splitLines s \<noteq> []"
  by (induction s) (auto split: list.split)

lemma splitLines_no_LF: "l \<in> set (splitLines s) \<Longrightarrow> LF \<notin> set l"
  by (induction s arbitrary: l) (auto split: if_splits list.splits)

lemma stripTrailingBlanks_Nil [simp]: "stripTrailingBlanks [] = []"
  by (simp add: stripTrailingBlanks_def)

lemma stripTrailingBlanks_Cons:
  "stripTrailingBlanks (c # l)
   = (if blankChar c \<and> stripTrailingBlanks l = [] then [] else c # stripTrailingBlanks l)"
  unfolding stripTrailingBlanks_def blankChar_def by (simp add: dropWhile_append)

lemma stripTrailingBlanks_chars: "set (stripTrailingBlanks l) \<subseteq> set l"
  unfolding stripTrailingBlanks_def by (auto dest: set_dropWhileD)

lemma strip_splitLines: "js_join [LF] (map stripTrailingBlanks (splitLines s)) = foldr stripStep s []"
proof (induction s)
  case (Cons c s)
  show ?case
  proof (cases "c = LF")
    case True
    with Cons show ?thesis
      by (cases "splitLines s") (simp_all add: stripStep_def blankChar_def)
  next
    case False
    obtain l ls where ls: "splitLines s = l # ls" by (cases "splitLines s") auto
    then have "LF \<notin> set (stripTrailingBlanks l)"
      using splitLines_no_LF [of l s] stripTrailingBlanks_chars by auto
    then have "(let r = js_join [LF] (map stripTrailingBlanks (l # ls)) in r = [] \<or> hd r = LF)
        \<longleftrightarrow> stripTrailingBlanks l = []"
      by (cases ls; cases "stripTrailingBlanks l") auto
    with Cons ls False show ?thesis
      by (cases ls) (auto simp: stripTrailingBlanks_Cons stripStep_def Let_def)
  qed
qed simp

text \<open>What the clean-up removes: blanks before a line feed, and long runs of line feeds.\<close>

fun noBlankBeforeLF :: "string \<Rightarrow> bool" where
  "noBlankBeforeLF (c # d # s) \<longleftrightarrow> \<not> (blankChar c \<and> d = LF) \<and> noBlankBeforeLF (d # s)"
| "noBlankBeforeLF s \<longleftrightarrow> True"

fun shortRuns :: "nat \<Rightarrow> string \<Rightarrow> bool" where
  "shortRuns k [] \<longleftrightarrow> True"
| "shortRuns k (c # cs) \<longleftrightarrow> (if c = LF then k < 2 \<and> shortRuns (Suc k) cs else shortRuns 0 cs)"

lemma noBlankBeforeLF_Cons:
  "noBlankBeforeLF (c # s) \<longleftrightarrow> \<not> (blankChar c \<and> s \<noteq> [] \<and> hd s = LF) \<and> noBlankBeforeLF s"
  by (cases s) auto

lemma noBlankBeforeLF_strip: "noBlankBeforeLF (foldr stripStep s [])"
  by (induction s) (auto simp: stripStep_def noBlankBeforeLF_Cons)

lemma foldr_strip_id:
  "noBlankBeforeLF s \<Longrightarrow> s \<noteq> [] \<Longrightarrow> \<not> blankChar (last s) \<Longrightarrow> foldr stripStep s [] = s"
proof (induction s)
  case (Cons c s)
  then show ?case by (cases s) (auto simp: stripStep_def)
qed simp

lemma hd_capLineFeeds: "capLineFeeds 0 s = [] \<longleftrightarrow> s = []" "s \<noteq> [] \<Longrightarrow> hd (capLineFeeds 0 s) = hd s"
  by (cases s; simp)+

lemma noBlankBeforeLF_cap: "noBlankBeforeLF s \<Longrightarrow> noBlankBeforeLF (capLineFeeds k s)"
proof (induction s arbitrary: k)
  case (Cons c s)
  then show ?case
    by (auto simp: noBlankBeforeLF_Cons hd_capLineFeeds) (simp_all add: blankChar_def)
qed simp

lemma shortRuns_cap: "shortRuns k (capLineFeeds k s)"
proof (induction s arbitrary: k)
  case (Cons c s)
  show ?case by (cases "c = LF") (simp_all add: Cons)
qed simp

lemma cap_id: "shortRuns k s \<Longrightarrow> capLineFeeds k s = s"
  by (induction s arbitrary: k) (auto split: if_splits)

lemma shortRuns_mono: "shortRuns k s \<Longrightarrow> j \<le> k \<Longrightarrow> shortRuns j s"
  by (induction s arbitrary: j k) (auto split: if_splits)

lemma shortRuns_drop: "shortRuns k (a @ s) \<Longrightarrow> shortRuns 0 s"
  by (induction a arbitrary: k) (auto split: if_splits intro: shortRuns_mono)

lemma shortRuns_take: "shortRuns k (s @ b) \<Longrightarrow> shortRuns k s"
  by (induction s arbitrary: k) (auto split: if_splits)

lemma shortRuns_no_triple: "shortRuns 0 s \<Longrightarrow> \<not> sublist [LF, LF, LF] s"
  by (auto simp: sublist_def dest!: shortRuns_drop)

lemma noBlankBeforeLF_drop: "noBlankBeforeLF (a @ s) \<Longrightarrow> noBlankBeforeLF s"
  by (induction a) (auto simp: noBlankBeforeLF_Cons)

lemma noBlankBeforeLF_take: "noBlankBeforeLF (s @ b) \<Longrightarrow> noBlankBeforeLF s"
  by (induction s) (auto simp: noBlankBeforeLF_Cons)

lemma js_trim_part: "\<exists>a b. s = a @ js_trim s @ b"
proof -
  let ?t = "dropWhile js_whitespace s"
  have "s = takeWhile js_whitespace s @ ?t" by simp
  moreover have "?t = js_trim s @ rev (takeWhile js_whitespace (rev ?t))"
    unfolding js_trim_def by (metis rev_append rev_rev_ident takeWhile_dropWhile_id)
  ultimately show ?thesis by metis
qed

lemma js_trim_last: "js_trim s \<noteq> [] \<Longrightarrow> \<not> js_whitespace (last (js_trim s))"
  unfolding js_trim_def by (simp add: last_rev hd_dropWhile)

lemma js_trim_chars: "set (js_trim s) \<subseteq> set s"
  unfolding js_trim_def by (auto dest!: set_dropWhileD)

lemma capLineFeeds_chars: "set (capLineFeeds k s) \<subseteq> set s"
  by (induction s arbitrary: k) (auto split: if_splits)

lemma foldr_strip_chars: "set (foldr stripStep s []) \<subseteq> set s"
  by (induction s) (auto simp: stripStep_def)

definition cleanText :: "string \<Rightarrow> bool" where
  "cleanText s \<longleftrightarrow> CR \<notin> set s \<and> noBlankBeforeLF s \<and> shortRuns 0 s \<and> js_trim s = s"

lemma normalizePlainText_clean: "cleanText (normalizePlainText body)"
proof -
  let ?s = "capLineFeeds 0 (foldr stripStep (unifyLineEndings body) [])"
  have n: "normalizePlainText body = js_trim ?s" by (simp add: normalizePlainText_def strip_splitLines)
  obtain a b where ab: "?s = a @ js_trim ?s @ b" using js_trim_part by blast
  have "shortRuns 0 ?s" by (rule shortRuns_cap)
  then have "shortRuns 0 (js_trim ?s)" using ab by (metis shortRuns_drop shortRuns_take)
  moreover have "noBlankBeforeLF ?s" by (intro noBlankBeforeLF_cap noBlankBeforeLF_strip)
  then have "noBlankBeforeLF (js_trim ?s)" using ab by (metis noBlankBeforeLF_drop noBlankBeforeLF_take)
  moreover have "CR \<notin> set (js_trim ?s)"
    using js_trim_chars capLineFeeds_chars foldr_strip_chars unifyLineEndings_no_CR by blast
  ultimately show ?thesis by (simp add: n cleanText_def)
qed

lemma normalizePlainText_id: "cleanText s \<Longrightarrow> normalizePlainText s = s"
proof (cases "s = []")
  case False
  assume s: "cleanText s"
  then have "\<not> js_whitespace (last s)" using js_trim_last [of s] False by (simp add: cleanText_def)
  then have "\<not> blankChar (last s)" by (auto simp: js_whitespace_def blankChar_def)
  with s False show ?thesis
    by (simp add: normalizePlainText_def strip_splitLines cleanText_def unifyLineEndings_id
        foldr_strip_id cap_id)
qed (simp add: normalizePlainText_def)

section \<open>Properties\<close>

text \<open>
  C35. Reading a written table gives the table back: for rows that are not empty, whose fields hold
  no carriage return, and that do not end in an empty line, whatever quotes, commas, line feeds and
  blanks the fields contain.
\<close>

theorem parseCsv_serializeCsv:
  assumes "rows \<noteq> []" and "[] \<notin> set rows" and "\<not> (1 < length rows \<and> last rows = [[]])"
    and "\<forall>row \<in> set rows. \<forall>f \<in> set row. CR \<notin> set f"
  shows "parseCsv (serializeCsv rows) = Inr rows"
  using assms by (intro parseCsv_table) (simp add: csvTable_def list_all_iff)

lemma parseCsv_serializeCsv_witness:
  "parseCsv (serializeCsv [[''a'', '' b ''], [[QUOTE, COMMA, LF], []], [[], ''c'']])
   = Inr [[''a'', '' b ''], [[QUOTE, COMMA, LF], []], [[], ''c'']]"
  by (rule parseCsv_serializeCsv) auto

text \<open>
  Normalising CSV either reports one of the four messages or returns a text that normalising
  again leaves as it is.
\<close>

theorem normalizeCsv_idempotent:
  "case normalizeCsv body of
     Inl e \<Rightarrow> e \<in> {''Invalid CSV. Unexpected text after a quoted field.'',
                  ''Invalid CSV. Quotes must wrap the whole field.'',
                  ''Invalid CSV. A quoted field is not closed.'',
                  ''Invalid CSV. Rows must have the same number of fields.''}
   | Inr text \<Rightarrow> normalizeCsv text = Inr text"
proof (cases "normalizeCsv body")
  case (Inl e)
  with normalizeCsv_error [OF Inl] show ?thesis by (auto simp: csvReadErrors_def)
next
  case (Inr t)
  with normalizeCsv_again [OF Inr] show ?thesis by simp
qed

text \<open>
  The cleaned plain text has no carriage return and no three line feeds in a row, starts and
  ends with a visible character, and cleaning it again changes nothing.
\<close>

theorem normalizePlainText_normal:
  "CR \<notin> set (normalizePlainText body) \<and> \<not> sublist [LF, LF, LF] (normalizePlainText body)
   \<and> js_trim (normalizePlainText body) = normalizePlainText body
   \<and> noBlankBeforeLF (normalizePlainText body)
   \<and> normalizePlainText (normalizePlainText body) = normalizePlainText body"
  using normalizePlainText_clean [of body] normalizePlainText_id [OF normalizePlainText_clean]
  by (simp add: cleanText_def shortRuns_no_triple)

end
