(* ===== verification/Js_Text.thy ===== *)
theory Js_Text
  imports Prelude
begin

text \<open>
  What the prompt-pack and review code uses of strings beyond the prelude: \<open>split\<close> on a character
  and on line breaks, \<open>lastIndexOf\<close>, \<open>startsWith\<close>, \<open>padStart\<close> and the slug of an identifier.

  The lemmas are the round trips the metadata block needs: a list that is joined and split again, a
  line that is written and trimmed again, and the text that follows the last occurrence of a marker.
\<close>

section \<open>Splitting\<close>

abbreviation NEWLINE :: char where "NEWLINE \<equiv> CHR 0x0A"
abbreviation RETURN :: char where "RETURN \<equiv> CHR 0x0D"

text \<open>\<open>s.split(d)\<close> on one character.\<close>

fun js_split :: "char \<Rightarrow> string \<Rightarrow> string list" where
  "js_split d [] = [[]]"
| "js_split d (c # cs) =
     (if c = d then [] # js_split d cs
      else (case js_split d cs of [] \<Rightarrow> [[c]] | x # xs \<Rightarrow> (c # x) # xs))"

text \<open>\<open>s.split(/\r?\n/)\<close>: a carriage return goes with the line feed that follows it.\<close>

definition dropReturn :: "string \<Rightarrow> string" where
  "dropReturn l = (if l \<noteq> [] \<and> last l = RETURN then butlast l else l)"

definition js_split_lines :: "string \<Rightarrow> string list" where
  "js_split_lines s = (let ls = js_split NEWLINE s in map dropReturn (butlast ls) @ [last ls])"

text \<open>The text after the last occurrence of \<open>m\<close>: \<open>lastIndexOf\<close> and the \<open>slice\<close> behind it.\<close>

fun afterLast :: "string \<Rightarrow> string \<Rightarrow> string option" where
  "afterLast m [] = (if m = [] then Some [] else None)"
| "afterLast m (c # cs) =
     (case afterLast m cs of
        Some r \<Rightarrow> Some r
      | None \<Rightarrow> if prefix m (c # cs) then Some (drop (length m) (c # cs)) else None)"

text \<open>\<open>s.padStart(n, c)\<close>.\<close>

definition js_pad_start :: "nat \<Rightarrow> char \<Rightarrow> string \<Rightarrow> string" where
  "js_pad_start n c s = replicate (n - length s) c @ s"

text \<open>A line terminator, which \<open>.\<close> does not match in a regular expression.\<close>

definition lineTerminator :: "char \<Rightarrow> bool" where
  "lineTerminator c \<longleftrightarrow> c = NEWLINE \<or> c = RETURN"

definition js_trim_end :: "string \<Rightarrow> string" where
  "js_trim_end s = rev (dropWhile js_whitespace (rev s))"

section \<open>Lemmas\<close>

lemma js_split_ne [simp]: "js_split d s \<noteq> []"
  by (induction s) (auto split: list.splits)

lemma js_split_none [simp]: "d \<notin> set s \<Longrightarrow> js_split d s = [s]"
  by (induction s) auto

lemma js_split_append: "d \<notin> set x \<Longrightarrow> js_split d (x @ d # y) = x # js_split d y"
  by (induction x) auto

lemma js_split_join:
  "xs \<noteq> [] \<Longrightarrow> \<forall>x \<in> set xs. d \<notin> set x \<Longrightarrow> js_split d (js_join [d] xs) = xs"
  by (induction "[d]" xs rule: js_join.induct) (auto simp: js_split_append)

lemma js_split_no_sep: "x \<in> set (js_split d s) \<Longrightarrow> d \<notin> set x"
  by (induction s arbitrary: x) (auto split: list.splits if_splits)

text \<open>Trimming the lines of a joined block gives the trimmed lines back.\<close>

lemma dropWhile_self: "s \<noteq> [] \<Longrightarrow> \<not> P (hd s) \<Longrightarrow> dropWhile P s = s"
  by (cases s) auto

lemma js_trim_split: "\<exists>a b. s = a @ js_trim s @ b"
proof -
  let ?d = "dropWhile js_whitespace s"
  have "s = takeWhile js_whitespace s @ ?d" by simp
  moreover have "rev ?d = takeWhile js_whitespace (rev ?d) @ dropWhile js_whitespace (rev ?d)" by simp
  then have "?d = js_trim s @ rev (takeWhile js_whitespace (rev ?d))"
    unfolding js_trim_def by (metis rev_append rev_rev_ident)
  ultimately show ?thesis by metis
qed

lemma js_trim_ends:
  assumes "js_trim s \<noteq> []"
  shows "\<not> js_whitespace (hd (js_trim s)) \<and> \<not> js_whitespace (last (js_trim s))"
proof -
  let ?d = "dropWhile js_whitespace s"
  let ?e = "dropWhile js_whitespace (rev ?d)"
  have e: "js_trim s = rev ?e" by (simp add: js_trim_def)
  with assms have ne: "?e \<noteq> []" by auto
  then have "\<not> js_whitespace (hd ?e)" by (rule hd_dropWhile)
  moreover obtain p where "rev ?d = p @ ?e" by (metis takeWhile_dropWhile_id)
  then have d: "?d = rev ?e @ rev p" by (metis rev_append rev_rev_ident)
  with ne have "?d \<noteq> []" by (metis append_is_Nil_conv rev_is_Nil_conv)
  then have "\<not> js_whitespace (hd ?d)" by (rule hd_dropWhile)
  moreover have "hd ?d = hd (rev ?e)" using d ne by (metis hd_append2 rev_is_Nil_conv)
  ultimately show ?thesis using e ne by (simp add: last_rev)
qed

lemma js_trim_id: "s \<noteq> [] \<Longrightarrow> \<not> js_whitespace (hd s) \<Longrightarrow> \<not> js_whitespace (last s) \<Longrightarrow> js_trim s = s"
  by (simp add: js_trim_def dropWhile_self hd_rev)

lemma js_trim_fixed_iff:
  "js_trim s = s \<longleftrightarrow> (s \<noteq> [] \<longrightarrow> \<not> js_whitespace (hd s) \<and> \<not> js_whitespace (last s))"
  using js_trim_id [of s] js_trim_ends [of s] by (cases "s = []") auto

text \<open>A label before a trimmed value keeps the line trimmed.\<close>

lemma js_trim_labelled:
  "l \<noteq> [] \<Longrightarrow> \<not> js_whitespace (hd l) \<Longrightarrow> v \<noteq> [] \<Longrightarrow> js_trim v = v \<Longrightarrow> js_trim (l @ v) = l @ v"
  by (rule js_trim_id) (auto simp: js_trim_fixed_iff)

lemma js_trim_space_before [simp]: "js_whitespace c \<Longrightarrow> js_trim (c # s) = js_trim s"
  by (simp add: js_trim_def)

text \<open>Lines that carry no line break survive joining and splitting.\<close>

lemma js_split_lines_join:
  assumes "xs \<noteq> []" and no: "\<forall>x \<in> set xs. NEWLINE \<notin> set x \<and> RETURN \<notin> set x"
  shows "js_split_lines (js_join [NEWLINE] xs) = xs"
proof -
  have "map dropReturn (butlast xs) = butlast xs"
    using no by (intro map_idI) (auto simp: dropReturn_def dest!: in_set_butlastD last_in_set)
  then show ?thesis using assms by (simp add: js_split_lines_def js_split_join)
qed

text \<open>The last occurrence of a marker that does not occur again behind it.\<close>

lemma afterLast_None_iff: "afterLast m s = None \<longleftrightarrow> \<not> sublist m s"
proof (induction s)
  case Nil
  then show ?case by simp
next
  case (Cons c s)
  then show ?case by (auto simp: sublist_Cons_right split: option.splits)
qed

lemma afterLast_append:
  assumes m: "m \<noteq> []" "hd m \<notin> set (tl m)" and rest: "\<not> sublist m rest"
  shows "afterLast m (pre @ m @ rest) = Some rest"
proof -
  obtain c cs where mc: "m = c # cs" using m by (cases m) auto
  have tail: "\<not> sublist m (ds @ rest)" if "c \<notin> set ds" for ds
    using that
  proof (induction ds)
    case (Cons d ds)
    then show ?case using mc by (auto simp: sublist_Cons_right)
  qed (simp add: rest)
  have "afterLast m (m @ rest) = Some rest"
    using tail [of cs] m mc afterLast_None_iff [of m "cs @ rest"] by simp
  then show ?thesis by (induction pre) simp_all
qed

end
