(* ===== verification/Prompt_Metadata.thy ===== *)
theory Prompt_Metadata
  imports Js_Text Queue_Task
begin

text \<open>
  The prompt-pack metadata of a Queue task, \<open>workbench/promptPack/queuePromptPackMetadata.ts\<close>: the
  Queue has no field for where an imported task comes from, so the importer writes a block of lines
  into the prompt and into the description, and this reader recovers it from the task.

  The reader is a loop over the lines that follow the last marker with one piece of state besides
  the metadata, the list that \<open>- \<close> lines go to. The lemmas describe one round on each shape of line;
  the writer and the round trip are in \<open>Prompt_Materialization\<close>.
\<close>

section \<open>Model\<close>

record QueuePromptPackImportMetadata =
  ppm_allowedScope :: "string list"
  ppm_blockId :: "string option"
  ppm_dependencies :: "string list"
  ppm_expectedCommitTitle :: "string option"
  ppm_forbiddenScope :: "string list"
  ppm_packId :: "string option"
  ppm_packName :: "string option"
  ppm_validationCommands :: "string list"

datatype MetadataList = ListAllowedScope | ListForbiddenScope | ListValidationCommands

definition PROMPT_METADATA_MARKER :: string where
  "PROMPT_METADATA_MARKER = ''Prompt pack materialization metadata''"

definition LIST_SECTION_LABELS :: "string list" where
  "LIST_SECTION_LABELS = [''Allowed scope'', ''Forbidden scope'', ''Validation commands'']"

definition listKeyForLabel :: "string \<Rightarrow> MetadataList" where
  "listKeyForLabel label =
     (if label = ''Allowed scope'' then ListAllowedScope
      else if label = ''Forbidden scope'' then ListForbiddenScope
      else ListValidationCommands)"

definition emptyPromptMetadata :: QueuePromptPackImportMetadata where
  "emptyPromptMetadata =
     \<lparr>ppm_allowedScope = [], ppm_blockId = None, ppm_dependencies = [],
      ppm_expectedCommitTitle = None, ppm_forbiddenScope = [], ppm_packId = None,
      ppm_packName = None, ppm_validationCommands = []\<rparr>"

text \<open>\<open>s.trim() || null\<close>.\<close>

definition textOrNull :: "string \<Rightarrow> string option" where
  "textOrNull s = (if s = [] then None else Some s)"

text \<open>\<open>splitLabelValue\<close>: the label and the value around the first colon.\<close>

definition splitLabelValue :: "string \<Rightarrow> string option \<times> string" where
  "splitLabelValue line =
     (if CHR '':'' \<notin> set line then (None, [])
      else (Some (js_trim (takeWhile (\<lambda>c. c \<noteq> CHR '':'') line)),
            js_trim (tl (dropWhile (\<lambda>c. c \<noteq> CHR '':'') line))))"

definition splitCsv :: "string \<Rightarrow> string list" where
  "splitCsv s = filter (\<lambda>x. x \<noteq> []) (map js_trim (js_split (CHR '','') s))"

text \<open>
  \<open>/^(.*)\s+\(([^()]+)\)$/\<close>: the text ends with a parenthesis that holds no other one, at least one
  space stands before it, and the text before that space is on one line.
\<close>

definition parenChar :: "char \<Rightarrow> bool" where
  "parenChar c \<longleftrightarrow> c = CHR ''('' \<or> c = CHR '')''"

definition matchPackLine :: "string \<Rightarrow> (string \<times> string) option" where
  "matchPackLine s =
     (if s = [] \<or> last s \<noteq> CHR '')'' then None
      else let r = rev (butlast s);
               i = rev (takeWhile (\<lambda>c. \<not> parenChar c) r);
               before = dropWhile (\<lambda>c. \<not> parenChar c) r
           in if i = [] \<or> before = [] \<or> hd before \<noteq> CHR ''('' then None
              else let spaced = rev (tl before); name = js_trim_end spaced
                   in if length name < length spaced \<and> list_all (\<lambda>c. \<not> lineTerminator c) name
                      then Some (name, i) else None)"

definition parsePackLine :: "string \<Rightarrow> string option \<times> string option" where
  "parsePackLine value =
     (case matchPackLine value of
        None \<Rightarrow> (textOrNull value, None)
      | Some (name, i) \<Rightarrow> (textOrNull (js_trim name), textOrNull (js_trim i)))"

text \<open>
  \<open>/^([^:\s][^:]*):\s+.+$/\<close>: the text before the first colon, when it starts with no space and the
  colon is followed by space and then by text that stays on one line to the end.
\<close>

definition matchTitleBlockId :: "string \<Rightarrow> string option" where
  "matchTitleBlockId title =
     (let label = takeWhile (\<lambda>c. c \<noteq> CHR '':'') title;
          behind = dropWhile (\<lambda>c. c \<noteq> CHR '':'') title
      in if label = [] \<or> js_whitespace (hd label) \<or> behind = [] then None
         else let v = tl behind;
                  oneLine = length (takeWhile (\<lambda>c. \<not> lineTerminator c) (rev v));
                  spaces = max 1 (length v - oneLine)
              in if spaces < length v \<and> list_all js_whitespace (take spaces v) then Some label else None)"

definition parseTitleBlockId :: "string \<Rightarrow> string option" where
  "parseTitleBlockId title =
     (case matchTitleBlockId title of None \<Rightarrow> None | Some label \<Rightarrow> textOrNull (js_trim label))"

fun pushMetadata :: "MetadataList \<Rightarrow> string \<Rightarrow> QueuePromptPackImportMetadata
    \<Rightarrow> QueuePromptPackImportMetadata" where
  "pushMetadata ListAllowedScope v m = m\<lparr>ppm_allowedScope := ppm_allowedScope m @ [v]\<rparr>"
| "pushMetadata ListForbiddenScope v m = m\<lparr>ppm_forbiddenScope := ppm_forbiddenScope m @ [v]\<rparr>"
| "pushMetadata ListValidationCommands v m =
     m\<lparr>ppm_validationCommands := ppm_validationCommands m @ [v]\<rparr>"

definition metadataField :: "string \<Rightarrow> string \<Rightarrow> QueuePromptPackImportMetadata
    \<Rightarrow> QueuePromptPackImportMetadata" where
  "metadataField label value m =
     (if label = ''Block id'' then m\<lparr>ppm_blockId := textOrNull value\<rparr>
      else if label = ''Expected commit title'' then m\<lparr>ppm_expectedCommitTitle := textOrNull value\<rparr>
      else if label = ''Pack''
        then m\<lparr>ppm_packName := fst (parsePackLine value), ppm_packId := snd (parsePackLine value)\<rparr>
      else if label = ''Prompt-pack dependencies'' then m\<lparr>ppm_dependencies := splitCsv value\<rparr>
      else m)"

type_synonym metadata_state = "QueuePromptPackImportMetadata \<times> MetadataList option"

text \<open>One round of the loop over the trimmed lines.\<close>

definition metadataLine :: "metadata_state \<Rightarrow> string \<Rightarrow> metadata_state" where
  "metadataLine st line =
     (case st of (m, active) \<Rightarrow>
        if line = [] then st
        else case (if prefix ''- '' line then active else None) of
          Some key \<Rightarrow> (pushMetadata key (js_trim (drop 2 line)) m, active)
        | None \<Rightarrow>
            if line \<in> set LIST_SECTION_LABELS then (m, Some (listKeyForLabel line))
            else case splitLabelValue line of (label, value) \<Rightarrow>
              case label of
                None \<Rightarrow> (m, None)
              | Some l \<Rightarrow>
                  if l = [] then (m, None)
                  else if l \<in> set LIST_SECTION_LABELS
                  then (if value = [] then m else pushMetadata (listKeyForLabel l) value m,
                        Some (listKeyForLabel l))
                  else (metadataField l value m, None))"

definition parsePromptMetadata :: "string \<Rightarrow> bool \<times> QueuePromptPackImportMetadata" where
  "parsePromptMetadata prompt =
     (case afterLast PROMPT_METADATA_MARKER prompt of
        None \<Rightarrow> (False, emptyPromptMetadata)
      | Some rest \<Rightarrow>
          (True, fst (foldl metadataLine (emptyPromptMetadata, None)
                        (map js_trim (js_split_lines rest)))))"

record DescriptionMetadata =
  dm_blockId :: "string option"
  dm_found :: bool
  dm_packId :: "string option"
  dm_packName :: "string option"

definition descriptionLine :: "DescriptionMetadata \<Rightarrow> string \<Rightarrow> DescriptionMetadata" where
  "descriptionLine m line =
     (case splitLabelValue line of (label, value) \<Rightarrow>
        let m' = (if label = Some ''Prompt pack''
                  then m\<lparr>dm_found := True, dm_packName := fst (parsePackLine value),
                         dm_packId := snd (parsePackLine value)\<rparr> else m)
        in if label = Some ''Prompt item''
           then m'\<lparr>dm_found := True, dm_blockId := textOrNull value\<rparr> else m')"

definition parseDescriptionMetadata :: "string \<Rightarrow> DescriptionMetadata" where
  "parseDescriptionMetadata description =
     foldl descriptionLine \<lparr>dm_blockId = None, dm_found = False, dm_packId = None, dm_packName = None\<rparr>
       (map js_trim (js_split_lines description))"

text \<open>The reader takes the three texts of the task it looks at.\<close>

definition getQueuePromptPackImportMetadata ::
    "string \<Rightarrow> string \<Rightarrow> string \<Rightarrow> QueuePromptPackImportMetadata option" where
  "getQueuePromptPackImportMetadata prompt description title =
     (let (found, pm) = parsePromptMetadata prompt;
          dm = parseDescriptionMetadata description;
          titleBlockId = parseTitleBlockId title
      in if \<not> found \<and> \<not> dm_found dm \<and> \<not> js_truthy_str titleBlockId then None
         else Some (pm\<lparr>ppm_blockId := js_coalesce (js_coalesce (ppm_blockId pm) (dm_blockId dm)) titleBlockId,
                       ppm_packId := js_coalesce (ppm_packId pm) (dm_packId dm),
                       ppm_packName := js_coalesce (ppm_packName pm) (dm_packName dm)\<rparr>))"

section \<open>One line of the block\<close>

lemma textOrNull_simps [simp]: "textOrNull [] = None" "s \<noteq> [] \<Longrightarrow> textOrNull s = Some s"
  by (simp_all add: textOrNull_def)

text \<open>A value that survives on a line of its own: trimmed, not empty, and on one line.\<close>

definition lineText :: "string \<Rightarrow> bool" where
  "lineText v \<longleftrightarrow> v \<noteq> [] \<and> js_trim v = v \<and> list_all (\<lambda>c. \<not> lineTerminator c) v"

lemma splitLabelValue_labelled:
  assumes "CHR '':'' \<notin> set l" "js_trim l = l" "js_trim v = v"
  shows "splitLabelValue (l @ '': '' @ v) = (Some l, v)"
proof -
  have "js_whitespace (CHR '' '')" by code_simp
  then show ?thesis using assms
    by (simp add: splitLabelValue_def takeWhile_append dropWhile_append del: js_trim_Nil)
qed

lemma list_labels_facts:
  "l \<in> set LIST_SECTION_LABELS \<Longrightarrow> CHR '':'' \<notin> set l \<and> l \<noteq> [] \<and> \<not> prefix ''- '' l"
  by (auto simp: LIST_SECTION_LABELS_def)

lemma metadataLine_field:
  assumes l: "CHR '':'' \<notin> set l" "js_trim l = l" "l \<noteq> []" "hd l \<noteq> CHR ''-''"
    and new: "l \<notin> set LIST_SECTION_LABELS" and v: "js_trim v = v"
  shows "metadataLine (m, a) (l @ '': '' @ v) = (metadataField l v m, None)"
proof -
  have "l @ '': '' @ v \<notin> set LIST_SECTION_LABELS"
    using list_labels_facts [of "l @ '': '' @ v"] by auto
  moreover have "\<not> prefix ''- '' (l @ '': '' @ v)" using l(3,4) by (cases l) auto
  ultimately show ?thesis
    using splitLabelValue_labelled [OF l(1,2) v] l(3) new by (simp add: metadataLine_def)
qed

lemma metadataLine_title:
  "t \<in> set LIST_SECTION_LABELS \<Longrightarrow> metadataLine (m, a) t = (m, Some (listKeyForLabel t))"
  using list_labels_facts [of t] by (simp add: metadataLine_def)

lemma metadataLine_item:
  "js_trim v = v \<Longrightarrow> metadataLine (m, Some k) (''- '' @ v) = (pushMetadata k v m, Some k)"
  by (simp add: metadataLine_def)

lemma metadataLine_prose:
  assumes "CHR '':'' \<notin> set l" "l \<noteq> []" "\<not> prefix ''- '' l" "l \<notin> set LIST_SECTION_LABELS"
  shows "metadataLine (m, a) l = (m, None)"
  using assms by (simp add: metadataLine_def splitLabelValue_def)

text \<open>A list of values under its title.\<close>

definition sectionLines :: "string \<Rightarrow> string list \<Rightarrow> string list" where
  "sectionLines title values = (if values = [] then [] else title # map (\<lambda>v. ''- '' @ v) values)"

lemma metadataLine_items:
  "\<forall>v \<in> set vs. js_trim v = v \<Longrightarrow>
   foldl metadataLine (m, Some k) (map (\<lambda>v. ''- '' @ v) vs)
     = (foldl (\<lambda>m v. pushMetadata k v m) m vs, Some k)"
  using metadataLine_item by (induction vs arbitrary: m) auto

lemma metadataLine_section:
  assumes "t \<in> set LIST_SECTION_LABELS" "\<forall>v \<in> set vs. js_trim v = v"
  shows "foldl metadataLine (m, a) (sectionLines t vs)
           = (foldl (\<lambda>m v. pushMetadata (listKeyForLabel t) v m) m vs,
              if vs = [] then a else Some (listKeyForLabel t))"
  using assms by (simp add: sectionLines_def metadataLine_title metadataLine_items)

lemma pushMetadata_all:
  "foldl (\<lambda>m v. pushMetadata ListAllowedScope v m) m vs
     = m\<lparr>ppm_allowedScope := ppm_allowedScope m @ vs\<rparr>"
  "foldl (\<lambda>m v. pushMetadata ListForbiddenScope v m) m vs
     = m\<lparr>ppm_forbiddenScope := ppm_forbiddenScope m @ vs\<rparr>"
  "foldl (\<lambda>m v. pushMetadata ListValidationCommands v m) m vs
     = m\<lparr>ppm_validationCommands := ppm_validationCommands m @ vs\<rparr>"
  by (induction vs arbitrary: m) simp_all

text \<open>The pack line is read back as the name and the id it was written from.\<close>

lemma js_trim_end_spaced: "v \<noteq> [] \<Longrightarrow> \<not> js_whitespace (last v) \<Longrightarrow> js_trim_end (v @ '' '') = v"
proof -
  assume v: "v \<noteq> []" "\<not> js_whitespace (last v)"
  have "js_whitespace (CHR '' '')" by code_simp
  then show ?thesis using v by (simp add: js_trim_end_def dropWhile_self hd_rev)
qed

lemma parsePackLine_written:
  assumes name: "lineText name" and i: "lineText i" "list_all (\<lambda>c. \<not> parenChar c) i"
  shows "parsePackLine (name @ '' ('' @ i @ '')'') = (Some name, Some i)"
proof -
  let ?r = "rev i @ CHR ''('' # CHR '' '' # rev name"
  have paren: "parenChar (CHR ''('')" by (simp add: parenChar_def)
  have np: "\<forall>c \<in> set (rev i). \<not> parenChar c" using i(2) by (simp add: list_all_iff)
  have tw: "takeWhile (\<lambda>c. \<not> parenChar c) ?r = rev i" "dropWhile (\<lambda>c. \<not> parenChar c) ?r
      = CHR ''('' # CHR '' '' # rev name"
    using np paren by (simp_all add: takeWhile_append dropWhile_append)
  have r: "rev (butlast (name @ '' ('' @ i @ '')'')) = ?r" by (simp add: butlast_append)
  have "js_trim_end (name @ '' '') = name"
    using name js_trim_fixed_iff [of name] by (intro js_trim_end_spaced) (auto simp: lineText_def)
  then have "matchPackLine (name @ '' ('' @ i @ '')'') = Some (name, i)"
    using i name unfolding matchPackLine_def r tw Let_def by (auto simp: lineText_def)
  then show ?thesis using name i by (simp add: parsePackLine_def lineText_def)
qed

text \<open>A joined list of dependencies.\<close>

lemma splitCsv_join:
  assumes "\<forall>d \<in> set ds. d \<noteq> [] \<and> js_trim d = d \<and> CHR '','' \<notin> set d"
  shows "splitCsv (js_join '', '' ds) = ds"
proof (cases "ds = []")
  case True
  then show ?thesis by (simp add: splitCsv_def)
next
  case False
  have sp: "js_whitespace (CHR '' '')" by code_simp
  have "map js_trim (js_split (CHR '','') (js_join '', '' ds)) = ds"
    using assms False
  proof (induction "'', ''" ds rule: js_join.induct)
    case (3 x y ys)
    have head: "js_split (CHR '','') (CHR '' '' # z) = (CHR '' '' # hd (js_split (CHR '','') z)) # tl (js_split (CHR '','') z)"
      for z by (cases "js_split (CHR '','') z") auto
    have "js_trim (hd (js_split (CHR '','') (js_join '', '' (y # ys)))) # map js_trim (tl (js_split (CHR '','') (js_join '', '' (y # ys)))) = y # ys"
      using 3 by (metis list.exhaust_sel list.map(2) list.set_intros(2) js_split_ne list.distinct(1))
    then show ?case using 3(2) sp by (simp add: js_split_append head del: js_split.simps)
  qed auto
  then show ?thesis using assms by (simp add: splitCsv_def filter_True)
qed

end
