(* ===== verification/Diff_Review.thy ===== *)
theory Diff_Review
  imports Prompt_Metadata
begin

text \<open>
  Diff Review, \<open>workbench/diffReview/diffReviewModel.ts\<close>: the checklist of a review request, the
  findings about missing evidence, and the recommendation that the coordinator reads.

  \<open>validateDiffReviewRequest\<close> is modelled whole; of the evidence records only the fields it reads are
  kept. The text of the prompt for the reviewer (\<open>buildDiffReviewPromptBody\<close>) is not modelled.
\<close>

section \<open>Model\<close>

datatype DiffReviewSeverity = DrInfo | DrWarning | DrError | DrBlocker

datatype DiffReviewRecommendation =
    RecAcceptReady | RecRequestChanges | RecValidationRequired
  | RecBlocked | RecRollbackRequired | RecManualReviewRequired

datatype DiffReviewState = DrsDraft | DrsReady | DrsReviewing | DrsReported | DrsBlocked

datatype DiffReviewChecklistItemId =
    ChkReportMatchesActualDiff
  | ChkAllowedScopeRespected
  | ChkForbiddenFilesNotChanged
  | ChkProjectContractsRespected
  | ChkValidationEvidence
  | ChkTestsAddedOrUpdated
  | ChkPromptPackMetadataPreserved
  | ChkExpectedCommitTitle
  | ChkNoHiddenCommitPushFinalize
  | ChkDependentTasksUnblockState

datatype DiffReviewChecklistItemStatus =
  ChkUnchecked | ChkPass | ChkFail | ChkNotApplicable | ChkNeedsManualReview

record DiffReviewFinding =
  drf_id :: string
  drf_severity :: DiffReviewSeverity
  drf_title :: string
  drf_detail :: string
  drf_checklistItemId :: "DiffReviewChecklistItemId option"

record DiffReviewChecklistItem =
  chk_id :: DiffReviewChecklistItemId
  chk_label :: string
  chk_required :: bool
  chk_status :: DiffReviewChecklistItemStatus
  chk_guidance :: string
  chk_findingIds :: "string list"

record DiffReviewSourceTaskRef =
  drt_queueItemId :: string
  drt_title :: string
  drt_expectedCommitTitle :: "string option"
  drt_promptPackBlockId :: "string option"

record DiffReviewInputSnapshot =
  drs_actualDiffSummary :: "string option"
  drs_reportSummary :: "string option"
  drs_validationEvidenceStatus :: "string option"
  drs_validationResult :: "string option"
  drs_promptPackMetadata :: "QueuePromptPackImportMetadata option"
  drs_dependentTaskIds :: "string list option"
  drs_dependentTasksCanBeUnblocked :: "bool option"
  drs_unsupportedStates :: "string list option"

record DiffReviewRequest =
  drr_requestId :: string
  drr_sourceTask :: DiffReviewSourceTaskRef
  drr_inputSnapshot :: DiffReviewInputSnapshot
  drr_state :: DiffReviewState
  drr_recommendation :: "DiffReviewRecommendation option"
  drr_readonlyByDefault :: bool

record DiffReviewChecklistResult =
  crs_requestId :: string
  crs_checklist :: "DiffReviewChecklistItem list"
  crs_findings :: "DiffReviewFinding list"
  crs_recommendation :: DiffReviewRecommendation
  crs_summary :: string
  crs_state :: DiffReviewState

definition checklistItem :: "DiffReviewChecklistItemId \<Rightarrow> string \<Rightarrow> string \<Rightarrow> DiffReviewChecklistItem" where
  "checklistItem i label guidance =
     \<lparr>chk_id = i, chk_label = label, chk_required = True, chk_status = ChkUnchecked,
      chk_guidance = guidance, chk_findingIds = []\<rparr>"

definition buildDefaultDiffReviewChecklist :: "DiffReviewChecklistItem list" where
  "buildDefaultDiffReviewChecklist =
     [checklistItem ChkReportMatchesActualDiff ''Report matches actual diff''
        ''Compare the worker report to the visible read-only diff before coordinator acceptance.'',
      checklistItem ChkAllowedScopeRespected ''Allowed scope respected''
        ''Verify every changed area is inside the declared allowed scope.'',
      checklistItem ChkForbiddenFilesNotChanged ''Forbidden files not changed''
        ''Confirm forbidden paths, files, and behaviors are untouched.'',
      checklistItem ChkProjectContractsRespected ''Project contracts respected''
        ''Check AGENTS.md and task-specific Hobit contracts for violations.'',
      checklistItem ChkValidationEvidence ''Validation evidence exists and is passed or explicit''
        ''Require passed validation evidence or an explicit visible reason validation is unavailable.'',
      checklistItem ChkTestsAddedOrUpdated ''Tests added or updated where required''
        ''Confirm test coverage changed when the implementation risk or contract requires it.'',
      checklistItem ChkPromptPackMetadataPreserved ''Prompt-pack metadata preserved''
        ''Confirm prompt-pack id, block id, scope, dependencies, validation commands, and title metadata are preserved when present.'',
      checklistItem ChkExpectedCommitTitle ''Expected commit title available and correct''
        ''Check the expected commit title is visible and matches the intended final change.'',
      checklistItem ChkNoHiddenCommitPushFinalize ''No hidden commit, push, or finalize''
        ''Verify the source task was not auto-finalized and no hidden commit, push, rollback, or dependency unblock occurred.'',
      checklistItem ChkDependentTasksUnblockState ''Dependent tasks can or cannot be unblocked''
        ''State whether dependent tasks remain blocked or can be explicitly unblocked by the operator.'']"

definition finding :: "string \<Rightarrow> DiffReviewSeverity \<Rightarrow> string \<Rightarrow> string
    \<Rightarrow> DiffReviewChecklistItemId option \<Rightarrow> DiffReviewFinding" where
  "finding i severity title detail item =
     \<lparr>drf_id = i, drf_severity = severity, drf_title = title, drf_detail = detail,
      drf_checklistItemId = item\<rparr>"

definition validationPassed :: "DiffReviewInputSnapshot \<Rightarrow> bool" where
  "validationPassed s \<longleftrightarrow>
     drs_validationEvidenceStatus s = Some ''passed'' \<or> drs_validationResult s = Some ''passed''"

definition metadataBlockId :: "DiffReviewInputSnapshot \<Rightarrow> string option" where
  "metadataBlockId s = Option.bind (drs_promptPackMetadata s) ppm_blockId"

definition metadataCommitTitle :: "DiffReviewInputSnapshot \<Rightarrow> string option" where
  "metadataCommitTitle s = Option.bind (drs_promptPackMetadata s) ppm_expectedCommitTitle"

definition unsupportedFinding :: "string \<Rightarrow> nat \<Rightarrow> DiffReviewFinding" where
  "unsupportedFinding unsupportedState index =
     finding (''unsupported_state_'' @ js_nat_string index) DrInfo ''Unsupported review input''
       unsupportedState None"

definition buildRequestFindings :: "DiffReviewRequest \<Rightarrow> DiffReviewFinding list" where
  "buildRequestFindings request =
     (let s = drr_inputSnapshot request; t = drr_sourceTask request in
      (if \<not> js_has_text (drs_actualDiffSummary s)
       then [finding ''missing_actual_diff'' DrWarning ''Actual diff summary missing''
               ''diff unavailable, manual diff required'' (Some ChkReportMatchesActualDiff)] else [])
      @ (if \<not> js_has_text (drs_reportSummary s)
         then [finding ''missing_worker_report'' DrWarning ''Worker report missing''
                 ''No worker report summary is present, so the reviewer must treat report-vs-diff comparison as a manual review gap.''
                 (Some ChkReportMatchesActualDiff)] else [])
      @ (if \<not> validationPassed s
         then [finding ''missing_or_unpassed_validation'' DrError
                 ''Validation evidence missing or not passed''
                 ''Validation must be passed or explicitly documented before coordinator acceptance.''
                 (Some ChkValidationEvidence)] else [])
      @ (if \<not> drr_readonlyByDefault request
         then [finding ''review_not_readonly'' DrBlocker ''Diff Review is not read-only by default''
                 ''Diff Review items must not edit code, commit, push, finalize, rollback, or unblock dependents by default.''
                 (Some ChkNoHiddenCommitPushFinalize)] else [])
      @ (if (drs_promptPackMetadata s \<noteq> None \<or> js_truthy_str (drt_promptPackBlockId t))
            \<and> \<not> (js_truthy_str (metadataBlockId s) \<or> js_truthy_str (drt_promptPackBlockId t))
         then [finding ''prompt_pack_block_missing'' DrWarning ''Prompt-pack block id missing''
                 ''Prompt-pack metadata appears present but no block id is available.''
                 (Some ChkPromptPackMetadataPreserved)] else [])
      @ (if \<not> js_truthy_str (drt_expectedCommitTitle t) \<and> \<not> js_truthy_str (metadataCommitTitle s)
         then [finding ''expected_commit_title_missing'' DrWarning ''Expected commit title missing''
                 ''The expected commit title is not visible for final acceptance review.''
                 (Some ChkExpectedCommitTitle)] else [])
      @ (if js_default [] (drs_dependentTaskIds s) \<noteq> [] \<and> drs_dependentTasksCanBeUnblocked s = None
         then [finding ''dependent_unblock_state_missing'' DrWarning ''Dependent unblock state missing''
                 ''Dependent tasks exist, but the request does not state whether they can be unblocked.''
                 (Some ChkDependentTasksUnblockState)] else [])
      @ mapWithIndex unsupportedFinding (js_default [] (drs_unsupportedStates s)))"

definition recommendationForFindings :: "DiffReviewFinding list \<Rightarrow> DiffReviewRecommendation" where
  "recommendationForFindings fs =
     (if list_ex (\<lambda>f. drf_severity f = DrBlocker) fs then RecBlocked
      else if list_ex (\<lambda>f. drf_id f = ''missing_or_unpassed_validation'') fs then RecValidationRequired
      else if list_ex (\<lambda>f. drf_severity f = DrError) fs then RecRequestChanges
      else if list_ex (\<lambda>f. drf_severity f = DrWarning) fs then RecManualReviewRequired
      else RecAcceptReady)"

definition checklistStatusForFindings :: "DiffReviewFinding list \<Rightarrow> DiffReviewChecklistItemStatus" where
  "checklistStatusForFindings fs =
     (if list_ex (\<lambda>f. drf_severity f = DrBlocker \<or> drf_severity f = DrError) fs then ChkFail
      else if list_ex (\<lambda>f. drf_severity f = DrWarning) fs then ChkNeedsManualReview
      else ChkUnchecked)"

fun summarizeDiffReviewRecommendation :: "DiffReviewRecommendation \<Rightarrow> string" where
  "summarizeDiffReviewRecommendation RecAcceptReady =
     ''Accept ready: checklist evidence supports coordinator acceptance.''"
| "summarizeDiffReviewRecommendation RecRequestChanges =
     ''Request changes: findings require implementation follow-up.''"
| "summarizeDiffReviewRecommendation RecValidationRequired =
     ''Validation required: acceptance is blocked until validation evidence is explicit.''"
| "summarizeDiffReviewRecommendation RecBlocked =
     ''Blocked: required review inputs or source context are unavailable.''"
| "summarizeDiffReviewRecommendation RecRollbackRequired =
     ''Rollback required: changes appear unsafe enough to require operator rollback discussion.''"
| "summarizeDiffReviewRecommendation RecManualReviewRequired =
     ''Manual review required: a human reviewer must inspect unresolved scope, diff, or metadata gaps.''"

definition validateDiffReviewRequest :: "DiffReviewRequest \<Rightarrow> DiffReviewChecklistResult" where
  "validateDiffReviewRequest request =
     (let findings = buildRequestFindings request;
          checklist = map (\<lambda>item.
              let matching = filter (\<lambda>f. drf_checklistItemId f = Some (chk_id item)) findings
              in item\<lparr>chk_findingIds := map drf_id matching,
                      chk_status := checklistStatusForFindings matching\<rparr>)
            buildDefaultDiffReviewChecklist;
          recommendation = js_default (recommendationForFindings findings) (drr_recommendation request)
      in \<lparr>crs_requestId = drr_requestId request, crs_checklist = checklist, crs_findings = findings,
          crs_recommendation = recommendation,
          crs_summary = summarizeDiffReviewRecommendation recommendation,
          crs_state = (if list_ex (\<lambda>f. drf_severity f = DrBlocker) findings then DrsBlocked
                       else drr_state request)\<rparr>)"

section \<open>What a recommendation means\<close>

text \<open>The evidence of a review that needs nobody: what the request has to bring.\<close>

definition reviewEvidenceComplete :: "DiffReviewRequest \<Rightarrow> bool" where
  "reviewEvidenceComplete request \<longleftrightarrow>
     (let s = drr_inputSnapshot request; t = drr_sourceTask request in
      drr_readonlyByDefault request \<and> validationPassed s
      \<and> js_has_text (drs_actualDiffSummary s) \<and> js_has_text (drs_reportSummary s)
      \<and> (drs_promptPackMetadata s = None \<or> js_truthy_str (metadataBlockId s)
         \<or> js_truthy_str (drt_promptPackBlockId t))
      \<and> (js_truthy_str (drt_expectedCommitTitle t) \<or> js_truthy_str (metadataCommitTitle s))
      \<and> (js_default [] (drs_dependentTaskIds s) = [] \<or> drs_dependentTasksCanBeUnblocked s \<noteq> None))"

lemma finding_simps [simp]:
  "drf_id (finding i sv t d c) = i" "drf_severity (finding i sv t d c) = sv"
  "drf_checklistItemId (finding i sv t d c) = c"
  by (simp_all add: finding_def)

lemma unsupported_findings [simp]:
  "sv \<noteq> DrInfo \<Longrightarrow> \<not> list_ex (\<lambda>f. drf_severity f = sv) (mapWithIndex unsupportedFinding us)"
  "\<not> list_ex (\<lambda>f. drf_id f = ''missing_or_unpassed_validation'') (mapWithIndex unsupportedFinding us)"
  by (auto simp: list_ex_iff set_mapWithIndex unsupportedFinding_def)

lemma list_ex_if_one: "list_ex P (if b then [x] else []) \<longleftrightarrow> b \<and> P x"
  by simp

lemmas findings_simps =
  buildRequestFindings_def Let_def list_ex_append list_ex_if_one finding_simps

lemma findings_blocker_iff:
  "list_ex (\<lambda>f. drf_severity f = DrBlocker) (buildRequestFindings request) \<longleftrightarrow> \<not> drr_readonlyByDefault request"
  unfolding findings_simps by simp

lemma findings_validation_iff:
  "list_ex (\<lambda>f. drf_id f = ''missing_or_unpassed_validation'') (buildRequestFindings request)
     \<longleftrightarrow> \<not> validationPassed (drr_inputSnapshot request)"
  unfolding findings_simps by simp

lemma findings_error_iff:
  "list_ex (\<lambda>f. drf_severity f = DrError) (buildRequestFindings request)
     \<longleftrightarrow> \<not> validationPassed (drr_inputSnapshot request)"
  unfolding findings_simps by simp

lemma findings_warning_iff:
  "list_ex (\<lambda>f. drf_severity f = DrWarning) (buildRequestFindings request)
     \<or> \<not> drr_readonlyByDefault request \<or> \<not> validationPassed (drr_inputSnapshot request)
     \<longleftrightarrow> \<not> reviewEvidenceComplete request"
  unfolding findings_simps reviewEvidenceComplete_def by simp blast

lemma recommendation_computed:
  "recommendationForFindings (buildRequestFindings request) =
     (if \<not> drr_readonlyByDefault request then RecBlocked
      else if \<not> validationPassed (drr_inputSnapshot request) then RecValidationRequired
      else if \<not> reviewEvidenceComplete request then RecManualReviewRequired
      else RecAcceptReady)"
  using findings_warning_iff [of request]
  by (auto simp: recommendationForFindings_def findings_blocker_iff findings_validation_iff
      findings_error_iff)

lemma recommendation_of_request:
  "drr_recommendation request = None \<Longrightarrow>
   crs_recommendation (validateDiffReviewRequest request) =
     recommendationForFindings (buildRequestFindings request)"
  by (simp add: validateDiffReviewRequest_def Let_def js_default_def)

text \<open>
  What Diff Review recommends. A request that carries no recommendation of its own gets the one
  its evidence supports: blocked when the review is not read-only, else validation required when no
  validation passed, else manual review when any other evidence is missing, and accept ready exactly
  when nothing is missing. A recommendation the request carries is kept whatever the evidence says.
\<close>

theorem validateDiffReviewRequest_recommends:
  "crs_recommendation (validateDiffReviewRequest request) =
     (case drr_recommendation request of
        Some r \<Rightarrow> r
      | None \<Rightarrow>
          if \<not> drr_readonlyByDefault request then RecBlocked
          else if \<not> validationPassed (drr_inputSnapshot request) then RecValidationRequired
          else if \<not> reviewEvidenceComplete request then RecManualReviewRequired
          else RecAcceptReady)"
  by (simp add: validateDiffReviewRequest_def Let_def js_default_def recommendation_computed
      split: option.splits)

text \<open>
  Two consequences. No item of the checklist is ever marked as passed, so a request is accept ready
  while all ten required items are unchecked. And a review that is blocked because it is not
  read-only keeps a recommendation to accept that was stored with it.
\<close>

lemma checklistStatus_range:
  "checklistStatusForFindings fs \<in> {ChkUnchecked, ChkFail, ChkNeedsManualReview}"
  by (simp add: checklistStatusForFindings_def)

lemma checklist_never_passes:
  "item \<in> set (crs_checklist (validateDiffReviewRequest request)) \<Longrightarrow>
   chk_status item \<in> {ChkUnchecked, ChkFail, ChkNeedsManualReview}"
  using checklistStatus_range by (fastforce simp: validateDiffReviewRequest_def Let_def)

lemma blocked_review_keeps_acceptance:
  assumes "drr_recommendation request = Some RecAcceptReady" "\<not> drr_readonlyByDefault request"
  shows "crs_state (validateDiffReviewRequest request) = DrsBlocked
    \<and> crs_recommendation (validateDiffReviewRequest request) = RecAcceptReady"
  using assms
  by (simp add: validateDiffReviewRequest_def Let_def js_default_def findings_blocker_iff)

end
