(* ===== verification/Finalization.thy ===== *)
theory Finalization
  imports Diff_Review
begin

text \<open>
  The coordinator's final decision on a task, \<open>workbench/coordinator/coordinatorFinalizationModel.ts\<close>:
  the checks of the commit, of the fields a decision needs and of the evidence, the state and the
  next action that follow, and whether the dependents may be unblocked.

  \<open>dependentsMayStart\<close> is the contract, stated over the request alone; the theorem shows that the
  validator, with its three lists of issues and its early return, decides exactly that.
\<close>

section \<open>Model\<close>

datatype FinalDecision =
    FinAcceptWithoutCommit | FinAcceptWithCommit | FinRequestChanges | FinCreateFollowUp
  | FinMarkBlocked | FinMarkFailed | FinRollbackRequired | FinManualReviewRequired

datatype FinalSeverity = FinWarning | FinError

datatype FinalState =
    FsBlocked | FsChangesRequested | FsFailed | FsFinalized | FsFollowUpRequired
  | FsManualReviewRequired | FsReadyForFinalization | FsRollbackRequired

datatype FinalNextAction =
    FnCreateDiffReview | FnCreateFollowUp | FnFinalize | FnManualReview | FnRecordBlocker
  | FnRecordFailure | FnRecordRollbackRequired | FnRequestChanges | FnResolveCommit | FnRunValidation

datatype CommitHashFormat = HashMissing | HashShortSha | HashFullSha | HashInvalid

datatype CommitTitleStatus =
  TitleGeneric | TitleMatch | TitleMissing | TitleMismatch | TitleProjectPrefixed | TitleUnchecked

record CoordinatorCommitInfo =
  ci_hash :: "string option"
  ci_missingHashReason :: "string option"
  ci_title :: "string option"

record CommitValidation =
  cv_errors :: "string list"
  cv_expectedTitle :: "string option"
  cv_hashFormat :: CommitHashFormat
  cv_normalizedHash :: "string option"
  cv_titleStatus :: CommitTitleStatus
  cv_valid :: bool
  cv_warnings :: "string list"

record ValidationEvidenceRef =
  ve_explicitOverrideReason :: "string option"
  ve_status :: "string option"

record DiffReviewRef =
  dr_explicitOverrideReason :: "string option"
  dr_recommendation :: "DiffReviewRecommendation option"
  dr_reportId :: "string option"
  dr_taskId :: "string option"

record SourceQueueTaskRef =
  src_id :: string
  src_title :: string

record CoordinatorDependencyGate =
  gate_dependentTaskIds :: "string list"
  gate_readyToUnblock :: bool
  gate_reason :: string

record CoordinatorPromptPackMetadataRef = QueuePromptPackImportMetadata +
  pmr_projectName :: "string option"

record FinalizationRequest =
  fr_commit :: "CoordinatorCommitInfo option"
  fr_decision :: FinalDecision
  fr_dependencyGate :: "CoordinatorDependencyGate option"
  fr_diffReview :: "DiffReviewRef option"
  fr_operatorNote :: "string option"
  fr_promptPackMetadata :: "CoordinatorPromptPackMetadataRef option"
  fr_sourceQueueTask :: SourceQueueTaskRef
  fr_validationEvidence :: "ValidationEvidenceRef option"

record FinalizationIssue =
  fi_code :: string
  fi_message :: string
  fi_severity :: FinalSeverity

record FinalizationResult =
  fz_commitValidation :: CommitValidation
  fz_decision :: FinalDecision
  fz_errors :: "FinalizationIssue list"
  fz_nextAction :: FinalNextAction
  fz_ok :: bool
  fz_shouldUnblockDependents :: bool
  fz_sourceQueueTaskId :: string
  fz_state :: FinalState
  fz_summary :: string
  fz_warnings :: "FinalizationIssue list"

definition ACCEPT_DECISIONS :: "FinalDecision list" where
  "ACCEPT_DECISIONS = [FinAcceptWithoutCommit, FinAcceptWithCommit]"

definition GENERIC_COMMIT_TITLES :: "string list" where
  "GENERIC_COMMIT_TITLES =
     [''bug fix'', ''changes'', ''cleanup'', ''done'', ''fix'', ''fixes'', ''implementation'',
      ''initial commit'', ''misc'', ''misc changes'', ''refactor'', ''task'', ''update'', ''updates'',
      ''wip'', ''work in progress'']"

definition issue :: "string \<Rightarrow> string \<Rightarrow> FinalSeverity \<Rightarrow> FinalizationIssue" where
  "issue code message severity = \<lparr>fi_code = code, fi_message = message, fi_severity = severity\<rparr>"

definition emptyCommitValidation :: CommitValidation where
  "emptyCommitValidation =
     \<lparr>cv_errors = [], cv_expectedTitle = None, cv_hashFormat = HashMissing, cv_normalizedHash = None,
      cv_titleStatus = TitleUnchecked, cv_valid = True, cv_warnings = []\<rparr>"

definition lowerHexDigit :: "char \<Rightarrow> bool" where
  "lowerHexDigit c \<longleftrightarrow> (let n = of_char c in (48::nat) \<le> n \<and> n \<le> 57 \<or> 97 \<le> n \<and> n \<le> 102)"

definition validateCommitHashFormat :: "string option \<Rightarrow> CommitValidation" where
  "validateCommitHashFormat hash =
     (let h = js_lower (js_trim (js_default [] hash)) in
      if h = [] then emptyCommitValidation\<lparr>cv_hashFormat := HashMissing, cv_valid := False\<rparr>
      else if list_all lowerHexDigit h \<and> length h = 40
      then emptyCommitValidation\<lparr>cv_hashFormat := HashFullSha, cv_normalizedHash := Some h\<rparr>
      else if list_all lowerHexDigit h \<and> 7 \<le> length h \<and> length h \<le> 39
      then emptyCommitValidation\<lparr>cv_hashFormat := HashShortSha, cv_normalizedHash := Some h\<rparr>
      else emptyCommitValidation
             \<lparr>cv_errors := [''Commit hash must be a 7-40 character hexadecimal SHA.''],
              cv_hashFormat := HashInvalid, cv_normalizedHash := Some h, cv_valid := False\<rparr>)"

definition buildExpectedCommitTitleFromMetadata ::
    "CoordinatorPromptPackMetadataRef option \<Rightarrow> string option" where
  "buildExpectedCommitTitleFromMetadata metadata =
     textOrNull (js_trim (js_default [] (Option.bind metadata ppm_expectedCommitTitle)))"

definition normalizeTitle :: "string \<Rightarrow> string" where
  "normalizeTitle title = js_collapse_spaces (js_lower (js_trim title))"

definition isGenericCommitTitle :: "string \<Rightarrow> bool" where
  "isGenericCommitTitle title \<longleftrightarrow> normalizeTitle title \<in> set GENERIC_COMMIT_TITLES"

text \<open>\<open>^(?:\[p\]|p)\s*(?::|-|/)\s+\<close> with the flag \<open>i\<close>, the project escaped.\<close>

definition delimiterFollows :: "string \<Rightarrow> bool" where
  "delimiterFollows s =
     (case dropWhile js_whitespace s of
        [] \<Rightarrow> False
      | c # cs \<Rightarrow> c \<in> {CHR '':'', CHR ''-'', CHR ''/''} \<and> cs \<noteq> [] \<and> js_whitespace (hd cs))"

definition hasProjectNamePrefix :: "string \<Rightarrow> string option \<Rightarrow> bool" where
  "hasProjectNamePrefix title projectName \<longleftrightarrow>
     (let project = js_lower (js_trim (js_default [] projectName)); t = js_lower (js_trim title) in
      project \<noteq> []
      \<and> list_ex (\<lambda>p. prefix p t \<and> delimiterFollows (drop (length p) t))
           [''['' @ project @ '']'', project])"

definition validateExpectedCommitTitle ::
    "string option \<Rightarrow> string option \<Rightarrow> string option \<Rightarrow> bool \<Rightarrow> CommitValidation" where
  "validateExpectedCommitTitle actualTitle expectedTitle projectName requireExpected =
     (let title = js_trim (js_default [] actualTitle);
          expected = textOrNull (js_trim (js_default [] expectedTitle));
          (status, errors, warnings) =
            (if title = []
             then (TitleMissing, [''Commit title is required when commit metadata is supplied.''], [])
             else if isGenericCommitTitle title
             then (TitleGeneric, [''Generic commit titles are not valid coordinator evidence.''], [])
             else if hasProjectNamePrefix title projectName
             then (TitleProjectPrefixed,
                   [''Project names belong in reports, not repository commit titles.''], [])
             else case expected of
               Some e \<Rightarrow>
                 (if title = e then (TitleMatch, [], [])
                  else (TitleMismatch,
                        [''Commit title does not match prompt-pack expected commit title.''], []))
             | None \<Rightarrow>
                 (TitleUnchecked, [],
                  if requireExpected then [''Prompt-pack expected commit title is missing.''] else []))
      in emptyCommitValidation
           \<lparr>cv_errors := errors, cv_expectedTitle := expected, cv_titleStatus := status,
            cv_valid := errors = [], cv_warnings := warnings\<rparr>)"

fun summarizeCoordinatorFinalizationState :: "FinalState \<Rightarrow> string" where
  "summarizeCoordinatorFinalizationState FsBlocked =
     ''Blocked: required finalization evidence or fields are missing.''"
| "summarizeCoordinatorFinalizationState FsChangesRequested =
     ''Changes requested: dependents remain blocked until reviewed again.''"
| "summarizeCoordinatorFinalizationState FsFailed =
     ''Failed: work is rejected or failed and dependents remain blocked.''"
| "summarizeCoordinatorFinalizationState FsFinalized =
     ''Finalized: accepted coordinator decision can unblock dependents explicitly.''"
| "summarizeCoordinatorFinalizationState FsFollowUpRequired =
     ''Follow-up required: create or review follow-up work before unblocking.''"
| "summarizeCoordinatorFinalizationState FsManualReviewRequired =
     ''Manual review required: a human review decision is still needed.''"
| "summarizeCoordinatorFinalizationState FsReadyForFinalization =
     ''Ready for finalization: evidence is recorded for explicit closure.''"
| "summarizeCoordinatorFinalizationState FsRollbackRequired =
     ''Rollback required: rollback is recorded as a review outcome only.''"

definition shouldUnblockDependents :: "FinalDecision \<Rightarrow> FinalState \<Rightarrow> bool" where
  "shouldUnblockDependents decision state \<longleftrightarrow>
     state = FsFinalized \<and> decision \<in> set ACCEPT_DECISIONS"

definition commitHash :: "CoordinatorCommitInfo option \<Rightarrow> string option" where
  "commitHash commit = Option.bind commit ci_hash"

definition validateCommitInfo ::
    "CoordinatorCommitInfo option \<Rightarrow> FinalDecision \<Rightarrow> string option \<Rightarrow> string option \<Rightarrow> CommitValidation" where
  "validateCommitInfo commit decision expectedTitle projectName =
     (let hashValidation = validateCommitHashFormat (commitHash commit);
          titleValidation = validateExpectedCommitTitle (Option.bind commit ci_title) expectedTitle
            projectName (decision = FinAcceptWithCommit);
          hasHash = js_has_text (commitHash commit);
          errors = cv_errors hashValidation
            @ (if decision = FinAcceptWithCommit \<and> \<not> cv_valid hashValidation
               then [''Accept with commit requires a valid commit hash.''] else [])
            @ (if decision \<noteq> FinAcceptWithoutCommit \<and> \<not> hasHash
               then [''Missing commit hash is allowed only for accept_without_commit.''] else [])
            @ (if decision = FinAcceptWithoutCommit \<and> \<not> hasHash
                  \<and> \<not> js_has_text (Option.bind commit ci_missingHashReason)
               then [''Accept without commit requires an explicit missing-hash reason.''] else [])
            @ (if hasHash then cv_errors titleValidation else [])
      in \<lparr>cv_errors = js_unique errors, cv_expectedTitle = expectedTitle,
          cv_hashFormat = cv_hashFormat hashValidation,
          cv_normalizedHash = cv_normalizedHash hashValidation,
          cv_titleStatus = (if hasHash then cv_titleStatus titleValidation else TitleUnchecked),
          cv_valid = errors = [], cv_warnings = js_unique (cv_warnings titleValidation)\<rparr>)"

definition decisionFieldIssues :: "FinalizationRequest \<Rightarrow> FinalizationIssue list" where
  "decisionFieldIssues request =
     (let noNote = (\<not> js_has_text (fr_operatorNote request)) in
      (if fr_decision request = FinCreateFollowUp
          \<and> js_default [] (map_option gate_dependentTaskIds (fr_dependencyGate request)) = [] \<and> noNote
       then [issue ''follow_up_reference_missing''
               ''Create follow-up requires a follow-up/dependency reference or operator note.'' FinError]
       else [])
      @ (if fr_decision request \<in> {FinRequestChanges, FinMarkBlocked, FinMarkFailed,
               FinRollbackRequired, FinManualReviewRequired} \<and> noNote
         then [issue ''operator_note_missing''
                 ''This coordinator decision requires an operator note.'' FinError]
         else []))"

definition evidenceIssues :: "FinalizationRequest \<Rightarrow> FinalizationIssue list" where
  "evidenceIssues request =
     (let decision = fr_decision request;
          onAccept = (if decision \<in> set ACCEPT_DECISIONS then FinError else FinWarning);
          validationStatus = Option.bind (fr_validationEvidence request) ve_status;
          hasValidationOverride =
            js_has_text (Option.bind (fr_validationEvidence request) ve_explicitOverrideReason);
          diff = fr_diffReview request;
          hasDiffOverride = js_has_text (Option.bind diff dr_explicitOverrideReason)
      in (if \<not> js_truthy_str validationStatus
          then [issue ''validation_evidence_missing'' ''Validation evidence is missing.'' onAccept]
          else if validationStatus \<noteq> Some ''passed'' \<and> \<not> hasValidationOverride
          then [issue ''validation_not_passed''
                  ''Validation must be passed or have an explicit override reason.'' onAccept]
          else [])
         @ (if \<not> js_truthy_str (Option.bind diff dr_taskId)
               \<and> \<not> js_truthy_str (Option.bind diff dr_reportId)
            then [issue ''diff_review_missing'' ''Diff Review reference is missing.''
                    (if decision = FinAcceptWithCommit then FinError else FinWarning)]
            else if decision = FinAcceptWithCommit
                 \<and> Option.bind diff dr_recommendation \<noteq> Some RecAcceptReady \<and> \<not> hasDiffOverride
            then [issue ''diff_review_not_accept_ready''
                    ''Accept with commit requires accept-ready Diff Review or an explicit override.''
                    FinError]
            else []))"

fun stateForDecision :: "FinalDecision \<Rightarrow> FinalState" where
  "stateForDecision FinAcceptWithoutCommit = FsFinalized"
| "stateForDecision FinAcceptWithCommit = FsFinalized"
| "stateForDecision FinRequestChanges = FsChangesRequested"
| "stateForDecision FinCreateFollowUp = FsFollowUpRequired"
| "stateForDecision FinMarkBlocked = FsBlocked"
| "stateForDecision FinMarkFailed = FsFailed"
| "stateForDecision FinRollbackRequired = FsRollbackRequired"
| "stateForDecision FinManualReviewRequired = FsManualReviewRequired"

fun actionForDecision :: "FinalDecision \<Rightarrow> FinalNextAction" where
  "actionForDecision FinAcceptWithoutCommit = FnFinalize"
| "actionForDecision FinAcceptWithCommit = FnFinalize"
| "actionForDecision FinRequestChanges = FnRequestChanges"
| "actionForDecision FinCreateFollowUp = FnCreateFollowUp"
| "actionForDecision FinMarkBlocked = FnRecordBlocker"
| "actionForDecision FinMarkFailed = FnRecordFailure"
| "actionForDecision FinRollbackRequired = FnRecordRollbackRequired"
| "actionForDecision FinManualReviewRequired = FnManualReview"

definition nextActionForRequest :: "FinalizationRequest \<Rightarrow> FinalizationIssue list \<Rightarrow> FinalNextAction" where
  "nextActionForRequest request errors =
     (if list_ex (\<lambda>e. prefix ''commit_'' (fi_code e)) errors then FnResolveCommit
      else if list_ex (\<lambda>e. prefix ''validation_'' (fi_code e)) errors then FnRunValidation
      else if list_ex (\<lambda>e. prefix ''diff_review_'' (fi_code e)) errors then FnCreateDiffReview
      else actionForDecision (fr_decision request))"

definition validateCoordinatorDecisionRequest :: "FinalizationRequest \<Rightarrow> FinalizationResult" where
  "validateCoordinatorDecisionRequest request =
     (let expectedTitle = buildExpectedCommitTitleFromMetadata (fr_promptPackMetadata request);
          commitValidation = validateCommitInfo (fr_commit request) (fr_decision request)
            expectedTitle (Option.bind (fr_promptPackMetadata request) pmr_projectName);
          issues = map (\<lambda>e. issue ''commit_invalid'' e FinError) (cv_errors commitValidation)
            @ map (\<lambda>w. issue ''commit_warning'' w FinWarning) (cv_warnings commitValidation)
            @ (if js_blank (src_id (fr_sourceQueueTask request))
               then [issue ''source_queue_task_id_missing'' ''Source Queue task id is required.'' FinError]
               else [])
            @ (if js_blank (src_title (fr_sourceQueueTask request))
               then [issue ''source_queue_task_title_missing''
                       ''Source Queue task title is required.'' FinError]
               else [])
            @ decisionFieldIssues request @ evidenceIssues request;
          errors = filter (\<lambda>i. fi_severity i = FinError) issues;
          state = (if errors = [] then stateForDecision (fr_decision request) else FsBlocked)
      in \<lparr>fz_commitValidation = commitValidation, fz_decision = fr_decision request,
          fz_errors = errors, fz_nextAction = nextActionForRequest request errors,
          fz_ok = errors = [],
          fz_shouldUnblockDependents = shouldUnblockDependents (fr_decision request) state,
          fz_sourceQueueTaskId = src_id (fr_sourceQueueTask request), fz_state = state,
          fz_summary = summarizeCoordinatorFinalizationState state,
          fz_warnings = filter (\<lambda>i. fi_severity i = FinWarning) issues\<rparr>)"

section \<open>The contract\<close>

definition titleAcceptable :: "FinalizationRequest \<Rightarrow> bool" where
  "titleAcceptable r \<longleftrightarrow>
     (let title = js_trim (js_default [] (Option.bind (fr_commit r) ci_title));
          expected = js_trim (js_default [] (Option.bind (fr_promptPackMetadata r) ppm_expectedCommitTitle))
      in title \<noteq> [] \<and> \<not> isGenericCommitTitle title
         \<and> \<not> hasProjectNamePrefix title (Option.bind (fr_promptPackMetadata r) pmr_projectName)
         \<and> (expected = [] \<or> expected = title))"

text \<open>A commit that is named is a hexadecimal SHA with a proper title; one that is not is explained.\<close>

definition commitAcceptable :: "FinalizationRequest \<Rightarrow> bool" where
  "commitAcceptable r \<longleftrightarrow>
     (if js_has_text (commitHash (fr_commit r))
      then (let h = js_lower (js_trim (js_default [] (commitHash (fr_commit r)))) in
            list_all lowerHexDigit h \<and> 7 \<le> length h \<and> length h \<le> 40) \<and> titleAcceptable r
      else fr_decision r = FinAcceptWithoutCommit
           \<and> js_has_text (Option.bind (fr_commit r) ci_missingHashReason))"

definition validationAcceptable :: "FinalizationRequest \<Rightarrow> bool" where
  "validationAcceptable r \<longleftrightarrow>
     (let status = Option.bind (fr_validationEvidence r) ve_status in
      js_truthy_str status
      \<and> (status = Some ''passed''
         \<or> js_has_text (Option.bind (fr_validationEvidence r) ve_explicitOverrideReason)))"

definition reviewAcceptable :: "FinalizationRequest \<Rightarrow> bool" where
  "reviewAcceptable r \<longleftrightarrow>
     (js_truthy_str (Option.bind (fr_diffReview r) dr_taskId)
      \<or> js_truthy_str (Option.bind (fr_diffReview r) dr_reportId))
     \<and> (Option.bind (fr_diffReview r) dr_recommendation = Some RecAcceptReady
        \<or> js_has_text (Option.bind (fr_diffReview r) dr_explicitOverrideReason))"

definition dependentsMayStart :: "FinalizationRequest \<Rightarrow> bool" where
  "dependentsMayStart r \<longleftrightarrow>
     fr_decision r \<in> {FinAcceptWithoutCommit, FinAcceptWithCommit}
     \<and> \<not> js_blank (src_id (fr_sourceQueueTask r)) \<and> \<not> js_blank (src_title (fr_sourceQueueTask r))
     \<and> commitAcceptable r \<and> validationAcceptable r
     \<and> (fr_decision r = FinAcceptWithoutCommit \<or> reviewAcceptable r)"

section \<open>Correctness\<close>

lemma issue_simps [simp]: "fi_code (issue c m s) = c" "fi_severity (issue c m s) = s"
  by (simp_all add: issue_def)

lemma emptyCommitValidation_simps [simp]:
  "cv_errors emptyCommitValidation = []" "cv_valid emptyCommitValidation"
  "cv_warnings emptyCommitValidation = []"
  by (simp_all add: emptyCommitValidation_def)

lemma js_unique_Nil_iff: "js_unique xs = [] \<longleftrightarrow> xs = []"
  using set_js_unique [of xs] by (metis set_empty)

lemma js_lower_Nil [simp]: "js_lower [] = []" "js_lower s = [] \<longleftrightarrow> s = []"
  by (simp_all add: js_lower_def)

lemma js_has_text_default: "js_has_text v \<longleftrightarrow> js_trim (js_default [] v) \<noteq> []"
  by (cases v) (simp_all add: js_has_text_def js_blank_def js_default_def)

lemma hash_format:
  "cv_valid (validateCommitHashFormat hash) \<longleftrightarrow>
     (let h = js_lower (js_trim (js_default [] hash)) in
      list_all lowerHexDigit h \<and> 7 \<le> length h \<and> length h \<le> 40)"
  "cv_errors (validateCommitHashFormat hash) = [] \<longleftrightarrow>
     \<not> js_has_text hash \<or> cv_valid (validateCommitHashFormat hash)"
  by (auto simp: validateCommitHashFormat_def Let_def js_has_text_default)

lemma title_errors:
  "cv_errors (validateExpectedCommitTitle (Option.bind (fr_commit r) ci_title)
       (buildExpectedCommitTitleFromMetadata (fr_promptPackMetadata r))
       (Option.bind (fr_promptPackMetadata r) pmr_projectName) req) = [] \<longleftrightarrow> titleAcceptable r"
  by (auto simp: validateExpectedCommitTitle_def titleAcceptable_def Let_def js_default_def
      buildExpectedCommitTitleFromMetadata_def textOrNull_def split: option.splits)

lemma commit_errors:
  "cv_errors (validateCommitInfo (fr_commit r) (fr_decision r)
       (buildExpectedCommitTitleFromMetadata (fr_promptPackMetadata r))
       (Option.bind (fr_promptPackMetadata r) pmr_projectName)) = [] \<longleftrightarrow> commitAcceptable r"
proof -
  have "\<not> js_has_text h \<Longrightarrow> \<not> cv_valid (validateCommitHashFormat h)" for h
    by (simp add: validateCommitHashFormat_def js_has_text_default Let_def)
  then show ?thesis
    by (auto simp: validateCommitInfo_def commitAcceptable_def Let_def js_unique_Nil_iff
        hash_format(2) hash_format(1) [unfolded Let_def] title_errors)
qed

lemma filter_if_one: "filter P (if b then [x] else []) = [] \<longleftrightarrow> (b \<longrightarrow> \<not> P x)"
  by (cases b) simp_all

lemma filter_if_two:
  "filter P (if a then [x] else if b then [y] else []) = [] \<longleftrightarrow>
     (a \<longrightarrow> \<not> P x) \<and> (\<not> a \<longrightarrow> b \<longrightarrow> \<not> P y)"
  by (cases a; cases b) simp_all

lemma evidence_errors:
  "filter (\<lambda>i. fi_severity i = FinError) (evidenceIssues r) = [] \<longleftrightarrow>
     (fr_decision r \<in> set ACCEPT_DECISIONS \<longrightarrow> validationAcceptable r)
     \<and> (fr_decision r = FinAcceptWithCommit \<longrightarrow> reviewAcceptable r)"
proof -
  have sev: "(if b then FinError else FinWarning) = FinError \<longleftrightarrow> b" for b by (cases b) simp_all
  show ?thesis
    unfolding evidenceIssues_def validationAcceptable_def reviewAcceptable_def Let_def
      filter_append append_is_Nil_conv filter_if_two issue_simps sev
    by blast
qed

lemma fields_errors:
  "filter (\<lambda>i. fi_severity i = FinError) (decisionFieldIssues r) = decisionFieldIssues r"
  by (simp add: decisionFieldIssues_def Let_def)

lemma accept_fields: "fr_decision r \<in> set ACCEPT_DECISIONS \<Longrightarrow> decisionFieldIssues r = []"
  by (auto simp: decisionFieldIssues_def ACCEPT_DECISIONS_def)

lemma accept_decisions: "set ACCEPT_DECISIONS = {FinAcceptWithoutCommit, FinAcceptWithCommit}"
  by (simp add: ACCEPT_DECISIONS_def)

text \<open>The errors of a request, by the group that raises them.\<close>

lemma filter_map_issue:
  "filter (\<lambda>i. fi_severity i = FinError) (map (\<lambda>m. issue c m FinError) ms) = map (\<lambda>m. issue c m FinError) ms"
  "filter (\<lambda>i. fi_severity i = FinError) (map (\<lambda>m. issue c m FinWarning) ms) = []"
  by (induction ms) simp_all

lemma filter_if_error:
  "filter (\<lambda>i. fi_severity i = FinError) (if b then [issue c m FinError] else [])
     = (if b then [issue c m FinError] else [])"
  by (cases b) simp_all

definition taskErrors :: "FinalizationRequest \<Rightarrow> FinalizationIssue list" where
  "taskErrors r =
     (if js_blank (src_id (fr_sourceQueueTask r))
      then [issue ''source_queue_task_id_missing'' ''Source Queue task id is required.'' FinError] else [])
     @ (if js_blank (src_title (fr_sourceQueueTask r))
        then [issue ''source_queue_task_title_missing'' ''Source Queue task title is required.'' FinError]
        else [])"

definition commitErrors :: "FinalizationRequest \<Rightarrow> string list" where
  "commitErrors r =
     cv_errors (validateCommitInfo (fr_commit r) (fr_decision r)
       (buildExpectedCommitTitleFromMetadata (fr_promptPackMetadata r))
       (Option.bind (fr_promptPackMetadata r) pmr_projectName))"

lemma errors_of_request:
  "fz_errors (validateCoordinatorDecisionRequest r) =
     map (\<lambda>e. issue ''commit_invalid'' e FinError) (commitErrors r)
     @ taskErrors r @ decisionFieldIssues r
     @ filter (\<lambda>i. fi_severity i = FinError) (evidenceIssues r)"
  by (simp only: validateCoordinatorDecisionRequest_def Let_def FinalizationResult.simps filter_append
      filter_map_issue filter_if_error fields_errors taskErrors_def commitErrors_def append_assoc
      append_Nil)

lemma validate_facts:
  "fz_ok (validateCoordinatorDecisionRequest r)
     \<longleftrightarrow> fz_errors (validateCoordinatorDecisionRequest r) = []"
  "fz_state (validateCoordinatorDecisionRequest r) =
     (if fz_errors (validateCoordinatorDecisionRequest r) = []
      then stateForDecision (fr_decision r) else FsBlocked)"
  "fz_nextAction (validateCoordinatorDecisionRequest r) =
     nextActionForRequest r (fz_errors (validateCoordinatorDecisionRequest r))"
  "fz_shouldUnblockDependents (validateCoordinatorDecisionRequest r)
     \<longleftrightarrow> shouldUnblockDependents (fr_decision r) (fz_state (validateCoordinatorDecisionRequest r))"
  by (simp_all only: validateCoordinatorDecisionRequest_def Let_def FinalizationResult.simps)

lemma taskErrors_Nil_iff:
  "taskErrors r = [] \<longleftrightarrow>
     \<not> js_blank (src_id (fr_sourceQueueTask r)) \<and> \<not> js_blank (src_title (fr_sourceQueueTask r))"
  by (simp add: taskErrors_def)

lemma unblocks_iff:
  "fz_shouldUnblockDependents (validateCoordinatorDecisionRequest r) \<longleftrightarrow> dependentsMayStart r"
proof (cases "fr_decision r \<in> set ACCEPT_DECISIONS")
  case True
  then have "stateForDecision (fr_decision r) = FsFinalized" by (auto simp: accept_decisions)
  with True have "fz_shouldUnblockDependents (validateCoordinatorDecisionRequest r)
      \<longleftrightarrow> fz_errors (validateCoordinatorDecisionRequest r) = []"
    by (simp add: validate_facts shouldUnblockDependents_def)
  also have "\<dots> \<longleftrightarrow> commitAcceptable r \<and> taskErrors r = [] \<and> validationAcceptable r
      \<and> (fr_decision r = FinAcceptWithCommit \<longrightarrow> reviewAcceptable r)"
    using True by (simp add: errors_of_request accept_fields evidence_errors commitErrors_def commit_errors)
  finally show ?thesis
    using True by (auto simp: dependentsMayStart_def taskErrors_Nil_iff accept_decisions)
next
  case False
  then show ?thesis
    by (auto simp: validate_facts shouldUnblockDependents_def dependentsMayStart_def accept_decisions)
qed

text \<open>
  C11. When the dependents of a task may be unblocked. The validator says so exactly for the two
  accepting decisions, on a task with an id and a title, when the commit is a hexadecimal SHA of 7 to
  40 digits whose title is given, not generic, not prefixed with the project and the expected one
  (or, accepting without a commit, is absent with a reason), when the validation passed or was
  overridden with a reason, and, accepting with a commit, when a referenced Diff Review is accept
  ready or was overridden with a reason.
\<close>

theorem finalization_unblocks_iff:
  "fz_shouldUnblockDependents (validateCoordinatorDecisionRequest r) \<longleftrightarrow>
     fr_decision r \<in> {FinAcceptWithoutCommit, FinAcceptWithCommit}
     \<and> \<not> js_blank (src_id (fr_sourceQueueTask r)) \<and> \<not> js_blank (src_title (fr_sourceQueueTask r))
     \<and> commitAcceptable r \<and> validationAcceptable r
     \<and> (fr_decision r = FinAcceptWithoutCommit \<or> reviewAcceptable r)"
  by (simp add: unblocks_iff dependentsMayStart_def)

lemma codes_of_other_errors:
  "e \<in> set (taskErrors r @ decisionFieldIssues r) \<Longrightarrow>
   \<not> prefix ''commit_'' (fi_code e) \<and> \<not> prefix ''validation_'' (fi_code e)
   \<and> \<not> prefix ''diff_review_'' (fi_code e)"
  by (auto simp: taskErrors_def decisionFieldIssues_def Let_def split: if_splits)

lemma list_ex_filter_if_two:
  "list_ex Q (filter P (if a then [x] else if b then [y] else [])) \<longleftrightarrow>
     (a \<and> P x \<and> Q x) \<or> (\<not> a \<and> b \<and> P y \<and> Q y)"
  by (cases a; cases b) simp_all

lemma evidence_codes:
  "list_ex (\<lambda>e. prefix ''commit_'' (fi_code e)) (filter (\<lambda>i. fi_severity i = FinError) (evidenceIssues r))
     \<longleftrightarrow> False"
  "list_ex (\<lambda>e. prefix ''validation_'' (fi_code e)) (filter (\<lambda>i. fi_severity i = FinError) (evidenceIssues r))
     \<longleftrightarrow> fr_decision r \<in> set ACCEPT_DECISIONS \<and> \<not> validationAcceptable r"
  "list_ex (\<lambda>e. prefix ''diff_review_'' (fi_code e)) (filter (\<lambda>i. fi_severity i = FinError) (evidenceIssues r))
     \<longleftrightarrow> fr_decision r = FinAcceptWithCommit \<and> \<not> reviewAcceptable r"
proof -
  have sev: "(if b then FinError else FinWarning) = FinError \<longleftrightarrow> b" for b by (cases b) simp_all
  have codes:
    "\<not> prefix ''commit_'' ''validation_evidence_missing''" "\<not> prefix ''commit_'' ''validation_not_passed''"
    "\<not> prefix ''commit_'' ''diff_review_missing''" "\<not> prefix ''commit_'' ''diff_review_not_accept_ready''"
    "prefix ''validation_'' ''validation_evidence_missing''" "prefix ''validation_'' ''validation_not_passed''"
    "\<not> prefix ''validation_'' ''diff_review_missing''" "\<not> prefix ''validation_'' ''diff_review_not_accept_ready''"
    "\<not> prefix ''diff_review_'' ''validation_evidence_missing''" "\<not> prefix ''diff_review_'' ''validation_not_passed''"
    "prefix ''diff_review_'' ''diff_review_missing''" "prefix ''diff_review_'' ''diff_review_not_accept_ready''"
    by simp_all
  note unfolded = evidenceIssues_def validationAcceptable_def reviewAcceptable_def Let_def filter_append
    list_ex_append list_ex_filter_if_two issue_simps sev
  show "list_ex (\<lambda>e. prefix ''commit_'' (fi_code e))
      (filter (\<lambda>i. fi_severity i = FinError) (evidenceIssues r)) \<longleftrightarrow> False"
    using codes unfolding unfolded by blast
  show "list_ex (\<lambda>e. prefix ''validation_'' (fi_code e))
      (filter (\<lambda>i. fi_severity i = FinError) (evidenceIssues r))
      \<longleftrightarrow> fr_decision r \<in> set ACCEPT_DECISIONS \<and> \<not> validationAcceptable r"
    using codes unfolding unfolded by blast
  show "list_ex (\<lambda>e. prefix ''diff_review_'' (fi_code e))
      (filter (\<lambda>i. fi_severity i = FinError) (evidenceIssues r))
      \<longleftrightarrow> fr_decision r = FinAcceptWithCommit \<and> \<not> reviewAcceptable r"
    using codes unfolding unfolded by blast
qed

lemma no_code_in_other_errors:
  "\<not> list_ex (\<lambda>e. prefix ''commit_'' (fi_code e)) (taskErrors r @ decisionFieldIssues r)"
  "\<not> list_ex (\<lambda>e. prefix ''validation_'' (fi_code e)) (taskErrors r @ decisionFieldIssues r)"
  "\<not> list_ex (\<lambda>e. prefix ''diff_review_'' (fi_code e)) (taskErrors r @ decisionFieldIssues r)"
  using codes_of_other_errors [of _ r] unfolding list_ex_iff by blast+

lemma no_code_in_commit_errors:
  "list_ex (\<lambda>e. prefix ''commit_'' (fi_code e)) (map (\<lambda>e. issue ''commit_invalid'' e FinError) es) \<longleftrightarrow> es \<noteq> []"
  "\<not> list_ex (\<lambda>e. prefix ''validation_'' (fi_code e)) (map (\<lambda>e. issue ''commit_invalid'' e FinError) es)"
  "\<not> list_ex (\<lambda>e. prefix ''diff_review_'' (fi_code e)) (map (\<lambda>e. issue ''commit_invalid'' e FinError) es)"
  by (cases es; auto simp: list_ex_iff)+

text \<open>
  What the coordinator is told to do next. The evidence is asked for in a fixed order: a commit
  that is not acceptable first, whatever the decision; then, on the accepting decisions, a validation
  that is not acceptable; then, accepting with a commit, a Diff Review that is not; and otherwise
  the action is the one of the decision, also when other errors (a blank id, a missing note) remain.
\<close>

theorem finalization_next_action:
  "fz_nextAction (validateCoordinatorDecisionRequest r) =
     (if \<not> commitAcceptable r then FnResolveCommit
      else if fr_decision r \<in> {FinAcceptWithoutCommit, FinAcceptWithCommit} \<and> \<not> validationAcceptable r
      then FnRunValidation
      else if fr_decision r = FinAcceptWithCommit \<and> \<not> reviewAcceptable r then FnCreateDiffReview
      else actionForDecision (fr_decision r))"
proof -
  have "commitErrors r = [] \<longleftrightarrow> commitAcceptable r" by (simp add: commitErrors_def commit_errors)
  then show ?thesis
    using no_code_in_other_errors [of r]
    by (simp add: validate_facts nextActionForRequest_def errors_of_request evidence_codes
        no_code_in_commit_errors accept_decisions)
qed

text \<open>A request that brings everything, for the witness and the observations below.\<close>

definition exampleReview :: DiffReviewRequest where
  "exampleReview =
     \<lparr>drr_requestId = ''diff-review-1'',
      drr_sourceTask = \<lparr>drt_queueItemId = ''queue-1'', drt_title = ''Add model'',
         drt_expectedCommitTitle = Some ''frontend: add model'', drt_promptPackBlockId = None\<rparr>,
      drr_inputSnapshot = \<lparr>drs_actualDiffSummary = Some ''1 file changed'',
         drs_reportSummary = Some ''Added the model.'', drs_validationEvidenceStatus = Some ''passed'',
         drs_validationResult = None, drs_promptPackMetadata = None, drs_dependentTaskIds = None,
         drs_dependentTasksCanBeUnblocked = None, drs_unsupportedStates = None\<rparr>,
      drr_state = DrsDraft, drr_recommendation = None, drr_readonlyByDefault = True\<rparr>"

definition exampleDiffReview :: DiffReviewRef where
  "exampleDiffReview =
     \<lparr>dr_explicitOverrideReason = None, dr_recommendation = Some RecAcceptReady,
      dr_reportId = Some ''diff-review-1'', dr_taskId = None\<rparr>"

definition exampleRequest :: "FinalDecision \<Rightarrow> string \<Rightarrow> FinalizationRequest" where
  "exampleRequest decision title =
     \<lparr>fr_commit = Some \<lparr>ci_hash = Some ''abc1234'', ci_missingHashReason = None,
        ci_title = Some ''frontend: add model''\<rparr>,
      fr_decision = decision, fr_dependencyGate = None, fr_diffReview = Some exampleDiffReview,
      fr_operatorNote = Some ''checked'', fr_promptPackMetadata = None,
      fr_sourceQueueTask = \<lparr>src_id = ''queue-1'', src_title = title\<rparr>,
      fr_validationEvidence = Some \<lparr>ve_explicitOverrideReason = None, ve_status = Some ''passed''\<rparr>\<rparr>"

lemma accepted_request_reviewed:
  assumes "dependentsMayStart r" "fr_decision r = FinAcceptWithCommit" "fr_diffReview r = Some d"
    and "\<not> js_has_text (dr_explicitOverrideReason d)"
  shows "dr_recommendation d = Some RecAcceptReady"
  using assms by (simp add: dependentsMayStart_def reviewAcceptable_def)

text \<open>
  C16. Accepted work was reviewed. When a decision to accept with a commit unblocks the dependents,
  the request quotes the recommendation that Diff Review computed, and no override is given, then
  that review was read-only, saw a passed validation, a diff and a worker report, knew the expected
  commit title, and had the state of the dependents whenever there are any.
\<close>

theorem accepted_commit_was_reviewed:
  assumes unblocks: "fz_shouldUnblockDependents (validateCoordinatorDecisionRequest r)"
    and decision: "fr_decision r = FinAcceptWithCommit"
    and quotes: "fr_diffReview r = Some d"
      "dr_recommendation d = Some (crs_recommendation (validateDiffReviewRequest rv))"
    and no_override: "\<not> js_has_text (dr_explicitOverrideReason d)" "drr_recommendation rv = None"
  shows "reviewEvidenceComplete rv \<and> drr_readonlyByDefault rv
    \<and> validationPassed (drr_inputSnapshot rv)
    \<and> js_has_text (drs_actualDiffSummary (drr_inputSnapshot rv))
    \<and> js_has_text (drs_reportSummary (drr_inputSnapshot rv))"
proof -
  have "dependentsMayStart r"
    using unblocks by (simp add: unblocks_iff)
  then have "crs_recommendation (validateDiffReviewRequest rv) = RecAcceptReady"
    using accepted_request_reviewed [OF _ decision quotes(1) no_override(1)] quotes(2) by simp
  then have "reviewEvidenceComplete rv"
    using no_override(2)
    by (simp add: recommendation_of_request recommendation_computed split: if_splits)
  then show ?thesis by (simp add: reviewEvidenceComplete_def Let_def)
qed

theorem accepted_commit_was_reviewed_witness:
  "reviewEvidenceComplete exampleReview \<and> drr_readonlyByDefault exampleReview
    \<and> validationPassed (drr_inputSnapshot exampleReview)
    \<and> js_has_text (drs_actualDiffSummary (drr_inputSnapshot exampleReview))
    \<and> js_has_text (drs_reportSummary (drr_inputSnapshot exampleReview))"
proof (rule accepted_commit_was_reviewed [where r = "exampleRequest FinAcceptWithCommit ''Add model''"])
  show "fz_shouldUnblockDependents
      (validateCoordinatorDecisionRequest (exampleRequest FinAcceptWithCommit ''Add model''))"
    by code_simp
  show "fr_decision (exampleRequest FinAcceptWithCommit ''Add model'') = FinAcceptWithCommit"
    "fr_diffReview (exampleRequest FinAcceptWithCommit ''Add model'') = Some exampleDiffReview"
    "\<not> js_has_text (dr_explicitOverrideReason exampleDiffReview)"
    "drr_recommendation exampleReview = None"
    by (simp_all add: exampleRequest_def exampleDiffReview_def exampleReview_def)
  show "dr_recommendation exampleDiffReview =
      Some (crs_recommendation (validateDiffReviewRequest exampleReview))"
    by code_simp
qed

text \<open>
  Two observations. An acceptance of a task whose title is blank is refused, yet the next action it
  reports is to finalize. A decision to mark a task as blocked that brings everything is accepted,
  yet its summary says that evidence or fields are missing.
\<close>

lemma refused_acceptance_says_finalize:
  "\<not> fz_ok (validateCoordinatorDecisionRequest (exampleRequest FinAcceptWithCommit []))
   \<and> fz_nextAction (validateCoordinatorDecisionRequest (exampleRequest FinAcceptWithCommit [])) = FnFinalize"
  by code_simp

lemma accepted_blocker_says_missing:
  "fz_ok (validateCoordinatorDecisionRequest (exampleRequest FinMarkBlocked ''Add model''))
   \<and> fz_summary (validateCoordinatorDecisionRequest (exampleRequest FinMarkBlocked ''Add model''))
     = ''Blocked: required finalization evidence or fields are missing.''"
  by code_simp

end
