(* ===== verification/Finalization_Service.thy ===== *)
theory Finalization_Service
  imports Finalization Workers
begin

text \<open>
  The service that carries out a coordinator's decision on a Queue item,
  \<open>workbench/queue/queueCoordinatorFinalizationService.ts\<close> and \<open>queueCoordinatorFinalizationReport.ts\<close>:
  the state a decision leads to, the readiness of the dependents, the report and the update sent to
  the Queue.

  The Queue is a parameter: an update call, and a create call where there is one, on a state of its
  own. An awaited call may throw; nothing here catches it, so the service returns the exception. The task
  record has no closure state, so the copy of the task that the gate is computed from carries the other
  three fields of the decision; the gate reads no others.
\<close>

section \<open>Data\<close>

datatype ServiceDecision =
    SdAcceptedWithCommit | SdAcceptedWithoutCommit | SdRequestChanges | SdFollowUpRequired
  | SdBlocked | SdFailed | SdRollbackRequired | SdManualReviewRequired

fun serviceDecisionName :: "ServiceDecision \<Rightarrow> string" where
  "serviceDecisionName SdAcceptedWithCommit = ''accepted_with_commit''"
| "serviceDecisionName SdAcceptedWithoutCommit = ''accepted_without_commit''"
| "serviceDecisionName SdRequestChanges = ''request_changes''"
| "serviceDecisionName SdFollowUpRequired = ''follow_up_required''"
| "serviceDecisionName SdBlocked = ''blocked''"
| "serviceDecisionName SdFailed = ''failed''"
| "serviceDecisionName SdRollbackRequired = ''rollback_required''"
| "serviceDecisionName SdManualReviewRequired = ''manual_review_required''"

record ServiceEvidenceRef =
  qer_kind :: string
  qer_refId :: string
  qer_status :: string
  qer_summary :: "string option"

record ServiceCommit =
  qcm_commitHash :: "string option"
  qcm_commitTitle :: "string option"
  qcm_expectedCommitTitle :: "string option"
  qcm_noCommitReason :: "string option"
  qcm_verificationStatus :: "string option"

record ServiceDiffReview =
  sdr_itemId :: "string option"
  sdr_recommendation :: "string option"
  sdr_reportId :: "string option"
  sdr_reviewStatus :: "string option"

datatype GateBlockReason = GbMissing | GbNotCompleted | GbNotFinalized | GbSelf

record GateBlocker =
  gb_queueItemId :: string
  gb_reason :: GateBlockReason
  gb_title :: string

record QueueDependentGateState =
  gs_blockedBy :: "GateBlocker list"
  gs_dependentItemId :: string
  gs_ready :: bool
  gs_summary :: string

record QueueDependencyGateResult =
  gr_dependents :: "QueueDependentGateState list"
  gr_sourceItemId :: string
  gr_sourceSatisfiesDependency :: bool
  gr_summary :: string

datatype ServiceWarningCode =
    FwAcceptCommitHashMissing | FwCommitHashInvalid | FwCommitHashUnverified
  | FwFirstClassFieldsUnsupported | FwQueueCreateFailed | FwQueueReportMetadataUnavailable
  | FwQueueUpdateFailed

record ServiceWarning =
  fw_code :: ServiceWarningCode
  fw_message :: string

datatype QueueClosureState =
    ClClosureRequired | ClCommitRequired | ClCommitCreated | ClNoChangeAccepted
  | ClFollowUpCreated | ClClosureBlocked

fun closureStateName :: "QueueClosureState \<Rightarrow> string" where
  "closureStateName ClClosureRequired = ''closure_required''"
| "closureStateName ClCommitRequired = ''commit_required''"
| "closureStateName ClCommitCreated = ''commit_created''"
| "closureStateName ClNoChangeAccepted = ''no_change_accepted''"
| "closureStateName ClFollowUpCreated = ''follow_up_created''"
| "closureStateName ClClosureBlocked = ''closure_blocked''"

record QueueCoordinatorDecisionState =
  ds_closureState :: QueueClosureState
  ds_coordinatorStatus :: QueueCoordinatorStatus
  ds_status :: QueueTaskStatus
  ds_validationStatus :: QueueValidationStatus

text \<open>The report of a finalisation is a worker report with one field more.\<close>

record FinalizationReport = AgentQueueWorkerExecutionReport +
  report_finalGitStatus :: "string option"

text \<open>The update and the creation the service asks the Queue for, and what the awaited calls give.\<close>

record FinalizationUpdate =
  fu_actor :: string
  fu_itemId :: string
  fu_report :: FinalizationReport
  fu_description :: string
  fu_status :: QueueTaskStatus
  fu_validationStatus :: QueueValidationStatus
  fu_reason :: string
  fu_workspaceId :: string

record FollowUpCreate =
  fc_actor :: string
  fc_approvalPolicy :: "string option"
  fc_codexExecutable :: "string option"
  fc_dependencies :: "string list"
  fc_description :: string
  fc_executionPolicy :: QueueExecutionPolicy
  fc_executionWorkspace :: "string option"
  fc_itemType :: QueueItemType
  fc_priority :: js_number
  fc_prompt :: string
  fc_queueTag :: QueueTag
  fc_sandbox :: "string option"
  fc_status :: QueueTaskStatus
  fc_title :: string
  fc_workspaceId :: string

record UpdateAnswer =
  ua_ok :: bool
  ua_errorMessage :: "string option"
  ua_reportSummaryStatus :: "string option"

record CreateAnswer =
  ca_ok :: bool
  ca_errorMessage :: "string option"
  ca_itemId :: "string option"

record ('s, 'e) FinalizationApi =
  fa_updateItem :: "FinalizationUpdate \<Rightarrow> 's \<Rightarrow> ('e + UpdateAnswer) \<times> 's"
  fa_createItem :: "(FollowUpCreate \<Rightarrow> 's \<Rightarrow> ('e + CreateAnswer) \<times> 's) option"

record FinalizationInput =
  si_commit :: "ServiceCommit option"
  si_diffReview :: "ServiceDiffReview option"
  si_evidenceRefs :: "ServiceEvidenceRef list"
  si_operatorNote :: "string option"
  si_queueItemId :: string
  si_task :: AgentQueueTask
  si_tasks :: "AgentQueueTask list"
  si_timestamp :: string
  si_workspaceId :: string

record LocalTaskPatch =
  lp_closureState :: QueueClosureState
  lp_coordinatorStatus :: QueueCoordinatorStatus
  lp_validationStatus :: QueueValidationStatus

record ServiceResult =
  sr_decisionState :: QueueCoordinatorDecisionState
  sr_dependencyGate :: QueueDependencyGateResult
  sr_localTaskPatch :: LocalTaskPatch
  sr_message :: string
  sr_report :: FinalizationReport
  sr_updateResult :: UpdateAnswer
  sr_warnings :: "ServiceWarning list"

record FollowUpResult = ServiceResult +
  sr_createResult :: "CreateAnswer option"

section \<open>The state a decision leads to\<close>

definition commitField :: "(ServiceCommit \<Rightarrow> string option) \<Rightarrow> ServiceCommit option \<Rightarrow> string option" where
  "commitField field commit = Option.bind commit field"

definition hasValidCommitHash :: "ServiceCommit option \<Rightarrow> bool" where
  "hasValidCommitHash commit = cv_valid (validateCommitHashFormat (commitField qcm_commitHash commit))"

definition blockedDecision :: "QueueCoordinatorStatus \<Rightarrow> QueueCoordinatorDecisionState" where
  "blockedDecision coordinatorStatus =
     \<lparr>ds_closureState = ClClosureBlocked, ds_coordinatorStatus = coordinatorStatus,
      ds_status = StReviewNeeded, ds_validationStatus = ValNeedsReview\<rparr>"

fun decisionStateForCoordinatorDecision ::
    "ServiceCommit option \<Rightarrow> ServiceDecision \<Rightarrow> QueueCoordinatorDecisionState" where
  "decisionStateForCoordinatorDecision commit SdAcceptedWithCommit =
     (let valid = hasValidCommitHash commit in
      \<lparr>ds_closureState = (if valid then ClCommitCreated else ClCommitRequired),
       ds_coordinatorStatus = (if valid then CoFinalized else CoReadyForFinalization),
       ds_status = (if valid then StCompleted else StReviewNeeded),
       ds_validationStatus = (if valid then ValPassed else ValNeedsReview)\<rparr>)"
| "decisionStateForCoordinatorDecision commit SdAcceptedWithoutCommit =
     \<lparr>ds_closureState = ClNoChangeAccepted, ds_coordinatorStatus = CoFinalized,
      ds_status = StCompleted, ds_validationStatus = ValPassed\<rparr>"
| "decisionStateForCoordinatorDecision commit SdRequestChanges = blockedDecision CoNeedsChanges"
| "decisionStateForCoordinatorDecision commit SdFollowUpRequired = blockedDecision CoFollowUpRequired"
| "decisionStateForCoordinatorDecision commit SdBlocked = blockedDecision CoBlocked"
| "decisionStateForCoordinatorDecision commit SdManualReviewRequired = blockedDecision CoBlocked"
| "decisionStateForCoordinatorDecision commit SdFailed =
     \<lparr>ds_closureState = ClClosureBlocked, ds_coordinatorStatus = CoFailed,
      ds_status = StFailed, ds_validationStatus = ValFailed\<rparr>"
| "decisionStateForCoordinatorDecision commit SdRollbackRequired = blockedDecision CoRollbackRequired"

definition serviceWarning :: "ServiceWarningCode \<Rightarrow> string \<Rightarrow> ServiceWarning" where
  "serviceWarning code message = \<lparr>fw_code = code, fw_message = message\<rparr>"

definition finalizationWarnings :: "ServiceCommit option \<Rightarrow> ServiceDecision \<Rightarrow> ServiceWarning list" where
  "finalizationWarnings commit decision =
     (let hash = commitField qcm_commitHash commit; withCommit = (decision = SdAcceptedWithCommit) in
      [serviceWarning FwFirstClassFieldsUnsupported
         ''Current Queue update DTO does not persist first-class coordinator finalization, closure, commit title, Diff Review, or dependency gate fields; metadata was stored in the visible Queue description/report section where supported.'']
      @ (if withCommit \<and> \<not> js_truthy_str hash
         then [serviceWarning FwAcceptCommitHashMissing
                 ''Accepted-with-commit decision did not include a commit hash, so the task remains ready for finalization.'']
         else [])
      @ (if withCommit \<and> js_truthy_str hash \<and> \<not> cv_valid (validateCommitHashFormat hash)
         then [serviceWarning FwCommitHashInvalid
                 ''Accept with commit requires a valid 7-40 character hexadecimal commit hash.'']
         else [])
      @ (if withCommit \<and> js_truthy_str hash \<and> hasValidCommitHash commit
            \<and> commitField qcm_verificationStatus commit \<noteq> Some ''verified''
         then [serviceWarning FwCommitHashUnverified
                 ''Commit hash/title verification is unsupported by this frontend-only service; recorded commit metadata is unverified.'']
         else []))"

section \<open>The dependents\<close>

definition gateBlocker :: "string \<Rightarrow> GateBlockReason \<Rightarrow> string \<Rightarrow> GateBlocker" where
  "gateBlocker i reason title = \<lparr>gb_queueItemId = i, gb_reason = reason, gb_title = title\<rparr>"

definition titleOrId :: "AgentQueueTask \<Rightarrow> string" where
  "titleOrId task = js_or_str (js_trim (task_title task)) (task_queueItemId task)"

definition gateBlockersOf :: "AgentQueueTask \<Rightarrow> AgentQueueTask list \<Rightarrow> string \<Rightarrow> GateBlocker list" where
  "gateBlockersOf task tasks dependencyId =
     (if dependencyId = task_queueItemId task
      then [gateBlocker dependencyId GbSelf (titleOrId task)]
      else case tasksById tasks dependencyId of
        None \<Rightarrow> [gateBlocker dependencyId GbMissing dependencyId]
      | Some dependency \<Rightarrow>
          if task_status dependency \<noteq> ''completed''
          then [gateBlocker dependencyId GbNotCompleted (titleOrId dependency)]
          else if task_coordinatorStatus dependency \<noteq> Some ''finalized''
          then [gateBlocker dependencyId GbNotFinalized (titleOrId dependency)]
          else [])"

definition dependencyGateStateForTask ::
    "AgentQueueTask \<Rightarrow> AgentQueueTask list \<Rightarrow> QueueDependentGateState" where
  "dependencyGateStateForTask task tasks =
     (let blockers = concat (map (gateBlockersOf task tasks)
            (normalizeTaskDependencies (task_dependsOn task)))
      in \<lparr>gs_blockedBy = blockers, gs_dependentItemId = task_queueItemId task,
          gs_ready = blockers = [],
          gs_summary = (if blockers = [] then ''All prerequisites accepted/finalized.''
            else ''Blocked by '' @ js_join '', '' (map gb_title blockers) @ ''.'')\<rparr>)"

definition explainDependencyGateState :: "QueueDependentGateState list \<Rightarrow> bool \<Rightarrow> string" where
  "explainDependencyGateState dependents sourceSatisfiesDependency =
     (if dependents = []
      then if sourceSatisfiesDependency then ''No dependent Queue items reference this item.''
           else ''This decision does not satisfy dependency gates.''
      else let readyCount = length (filter gs_ready dependents) in
        js_nat_string readyCount @ '' of '' @ js_nat_string (length dependents)
        @ '' dependent Queue item'' @ (if length dependents = 1 then '''' else ''s'')
        @ '' '' @ (if readyCount = 1 then ''is'' else ''are'')
        @ '' dependency-ready; no dependent task was started.'')"

definition recomputeDependentReadinessAfterFinalization ::
    "AgentQueueTask \<Rightarrow> AgentQueueTask list \<Rightarrow> QueueDependencyGateResult" where
  "recomputeDependentReadinessAfterFinalization finalizedTask tasks =
     (let nextTasks = map (\<lambda>task. if task_queueItemId task = task_queueItemId finalizedTask
            then finalizedTask else task) tasks;
          dependents = map (\<lambda>dependent. dependencyGateStateForTask dependent nextTasks)
            (filter (\<lambda>task. task_queueItemId finalizedTask
               \<in> set (normalizeTaskDependencies (task_dependsOn task))) nextTasks);
          satisfied = (task_status finalizedTask = ''completed''
            \<and> task_coordinatorStatus finalizedTask = Some ''finalized'')
      in \<lparr>gr_dependents = dependents, gr_sourceItemId = task_queueItemId finalizedTask,
          gr_sourceSatisfiesDependency = satisfied,
          gr_summary = explainDependencyGateState dependents satisfied\<rparr>)"

section \<open>The report\<close>

definition latestReportForTask :: "AgentQueueTask \<Rightarrow> AgentQueueWorkerExecutionReport option" where
  "latestReportForTask task =
     (case task_workerExecutionReports task of
        Some reports \<Rightarrow> if reports = [] then None else Some (last reports) | None \<Rightarrow> None)"

fun decisionSummary :: "ServiceDecision \<Rightarrow> ServiceCommit option \<Rightarrow> string" where
  "decisionSummary SdAcceptedWithCommit commit =
     (if js_truthy_str (commitField qcm_commitHash commit)
      then ''Accepted with existing commit '' @ the (commitField qcm_commitHash commit) @ ''.''
      else ''Accepted-with-commit requested, but commit hash is missing.'')"
| "decisionSummary SdAcceptedWithoutCommit commit =
     ''Accepted without commit. Reason: ''
     @ js_default ''no commit required'' (commitField qcm_noCommitReason commit) @ ''.''"
| "decisionSummary SdRequestChanges commit = ''Requested changes; dependency gates remain blocked.''"
| "decisionSummary SdFollowUpRequired commit =
     ''Marked follow-up required; no follow-up was run automatically.''"
| "decisionSummary SdBlocked commit = ''Marked blocked by coordinator.''"
| "decisionSummary SdFailed commit = ''Marked failed/rejected by coordinator.''"
| "decisionSummary SdRollbackRequired commit =
     ''Marked rollback required as a coordinator decision marker only.''"
| "decisionSummary SdManualReviewRequired commit = ''Marked manual review required.''"

text \<open>A line of the metadata block, left out when its value is falsy.\<close>

definition fieldLine :: "string \<Rightarrow> string option \<Rightarrow> string list" where
  "fieldLine name value = (if js_truthy_str value then [name @ '': '' @ the value] else [])"

definition coordinatorFinalizationMetadataBlock :: "FinalizationInput \<Rightarrow> QueueDependencyGateResult
    \<Rightarrow> ServiceDecision \<Rightarrow> QueueCoordinatorDecisionState \<Rightarrow> string \<Rightarrow> string" where
  "coordinatorFinalizationMetadataBlock input gate decision decisionState reportId =
     (let commit = si_commit input; review = (\<lambda>field. Option.bind (si_diffReview input) field) in
      js_join [CHR 0x0A]
        ([''[Coordinator finalization]'', ''report_id: '' @ reportId,
          ''recorded_at: '' @ si_timestamp input,
          ''queue_item_id: '' @ task_queueItemId (si_task input),
          ''decision: '' @ serviceDecisionName decision,
          ''queue_status: '' @ taskStatusName (ds_status decisionState),
          ''coordinator_status: '' @ coordinatorStatusName (ds_coordinatorStatus decisionState),
          ''closure_state: '' @ closureStateName (ds_closureState decisionState),
          ''validation_status: '' @ validationStatusName (ds_validationStatus decisionState)]
         @ fieldLine ''commit_hash'' (commitField qcm_commitHash commit)
         @ fieldLine ''commit_title'' (commitField qcm_commitTitle commit)
         @ fieldLine ''expected_commit_title'' (commitField qcm_expectedCommitTitle commit)
         @ fieldLine ''no_commit_reason'' (commitField qcm_noCommitReason commit)
         @ fieldLine ''commit_verification_status'' (commitField qcm_verificationStatus commit)
         @ fieldLine ''diff_review_item_id'' (review sdr_itemId)
         @ fieldLine ''diff_review_report_id'' (review sdr_reportId)
         @ fieldLine ''diff_review_status'' (review sdr_reviewStatus)
         @ fieldLine ''diff_review_recommendation'' (review sdr_recommendation)
         @ [if si_evidenceRefs input = [] then ''evidence_refs: none''
            else ''evidence_refs: '' @ js_join '', '' (map (\<lambda>ref.
              qer_kind ref @ '':'' @ qer_refId ref @ '':'' @ qer_status ref) (si_evidenceRefs input)),
            ''dependency_gate: '' @ gr_summary gate]
         @ fieldLine ''operator_note'' (si_operatorNote input)
         @ [''effects: no_run, no_autorun, no_commit, no_push, no_rollback'',
            ''[/Coordinator finalization]'']))"

definition buildCoordinatorFinalizationReport :: "FinalizationInput \<Rightarrow> QueueDependencyGateResult
    \<Rightarrow> ServiceDecision \<Rightarrow> QueueCoordinatorDecisionState \<Rightarrow> ServiceWarning list \<Rightarrow> FinalizationReport" where
  "buildCoordinatorFinalizationReport input gate decision decisionState warnings =
     (let commit = si_commit input; task = si_task input;
          reportId = ''coordinator-finalization-'' @ task_queueItemId task @ ''-''
            @ filter asciiAlnum (si_timestamp input)
      in \<lparr>report_reportId = reportId, report_itemId = task_queueItemId task,
          report_workerId = ''queue-coordinator'', report_createdAt = si_timestamp input,
          report_reportStatus = (if ds_coordinatorStatus decisionState = CoFinalized then ''completed''
            else if ds_coordinatorStatus decisionState = CoFailed then ''failed''
            else ''needs_follow_up''),
          report_summary = decisionSummary decision commit,
          report_changedFiles = js_default [] (map_option report_changedFiles (latestReportForTask task)),
          report_commandsRun = [], report_validationCommandsSuggested = [],
          report_validationCommandsRun = None,
          report_validationResult = Some (if ds_validationStatus decisionState = ValPassed then ''passed''
            else if ds_validationStatus decisionState = ValFailed then ''failed'' else ''partial''),
          report_commitHash = commitField qcm_commitHash commit,
          report_warnings = map fw_message warnings, report_errors = [],
          report_rawReportPreview =
            Some (coordinatorFinalizationMetadataBlock input gate decision decisionState reportId),
          report_finalGitStatus = (if js_truthy_str (commitField qcm_commitHash commit)
            then Some (''commit_metadata_''
              @ js_default ''unverified'' (commitField qcm_verificationStatus commit)) else None)\<rparr>)"

definition appendCoordinatorFinalizationMetadata :: "string \<Rightarrow> string option \<Rightarrow> string" where
  "appendCoordinatorFinalizationMetadata description rawReportPreview =
     (let block = js_trim (js_default [] rawReportPreview) in
      if block = [] then description
      else js_trim (js_trim description @ [CHR 0x0A, CHR 0x0A] @ block))"

section \<open>The service\<close>

definition taskAfterDecision :: "AgentQueueTask \<Rightarrow> QueueCoordinatorDecisionState \<Rightarrow> AgentQueueTask" where
  "taskAfterDecision task decisionState =
     task\<lparr>task_coordinatorStatus := Some (coordinatorStatusName (ds_coordinatorStatus decisionState)),
          task_status := taskStatusName (ds_status decisionState),
          task_validationStatus := Some (validationStatusName (ds_validationStatus decisionState))\<rparr>"

text \<open>The update a decision sends, with the gate, the state and the warnings it is made from.\<close>

definition serviceGate :: "FinalizationInput \<Rightarrow> ServiceDecision \<Rightarrow> QueueDependencyGateResult" where
  "serviceGate input decision =
     recomputeDependentReadinessAfterFinalization
       (taskAfterDecision (si_task input) (decisionStateForCoordinatorDecision (si_commit input) decision))
       (si_tasks input)"

definition serviceReport :: "FinalizationInput \<Rightarrow> ServiceDecision \<Rightarrow> FinalizationReport" where
  "serviceReport input decision =
     buildCoordinatorFinalizationReport input (serviceGate input decision) decision
       (decisionStateForCoordinatorDecision (si_commit input) decision)
       (finalizationWarnings (si_commit input) decision)"

definition serviceUpdate :: "FinalizationInput \<Rightarrow> ServiceDecision \<Rightarrow> FinalizationUpdate" where
  "serviceUpdate input decision =
     (let decisionState = decisionStateForCoordinatorDecision (si_commit input) decision;
          report = serviceReport input decision
      in \<lparr>fu_actor = ''operator'', fu_itemId = si_queueItemId input, fu_report = report,
          fu_description = appendCoordinatorFinalizationMetadata (task_description (si_task input))
            (report_rawReportPreview report),
          fu_status = ds_status decisionState, fu_validationStatus = ds_validationStatus decisionState,
          fu_reason = ''Explicit coordinator finalization decision.'',
          fu_workspaceId = si_workspaceId input\<rparr>)"

definition updateWarnings :: "UpdateAnswer \<Rightarrow> ServiceWarning list" where
  "updateWarnings updateResult =
     (if \<not> ua_ok updateResult
      then [serviceWarning FwQueueUpdateFailed (js_default
              ''Queue update failed; coordinator finalization metadata was not stored.''
              (ua_errorMessage updateResult))]
      else if ua_reportSummaryStatus updateResult \<noteq> Some ''report_ready''
      then [serviceWarning FwQueueReportMetadataUnavailable
              ''Queue update path accepted the decision, but attached coordinator report metadata was not returned by the current Queue DTO.'']
      else [])"

definition localTaskPatch :: "QueueCoordinatorDecisionState \<Rightarrow> LocalTaskPatch" where
  "localTaskPatch decisionState =
     \<lparr>lp_closureState = ds_closureState decisionState,
      lp_coordinatorStatus = ds_coordinatorStatus decisionState,
      lp_validationStatus = ds_validationStatus decisionState\<rparr>"

definition finalizeQueueItemWithCoordinatorDecision :: "('s, 'e) FinalizationApi \<Rightarrow> FinalizationInput
    \<Rightarrow> ServiceDecision \<Rightarrow> 's \<Rightarrow> ('e + ServiceResult) \<times> 's" where
  "finalizeQueueItemWithCoordinatorDecision api input decision q =
     (case fa_updateItem api (serviceUpdate input decision) q of
        (Inl thrown, q') \<Rightarrow> (Inl thrown, q')
      | (Inr updateResult, q') \<Rightarrow>
          (Inr \<lparr>sr_decisionState = decisionStateForCoordinatorDecision (si_commit input) decision,
                sr_dependencyGate = serviceGate input decision,
                sr_localTaskPatch = localTaskPatch
                  (decisionStateForCoordinatorDecision (si_commit input) decision),
                sr_message = decisionSummary decision (si_commit input) @ '' ''
                  @ gr_summary (serviceGate input decision)
                  @ '' No Queue run, Autorun, Git commit, push, or rollback was started.'',
                sr_report = serviceReport input decision, sr_updateResult = updateResult,
                sr_warnings = finalizationWarnings (si_commit input) decision
                  @ updateWarnings updateResult\<rparr>, q'))"

definition requestQueueItemChanges :: "('s, 'e) FinalizationApi \<Rightarrow> FinalizationInput
    \<Rightarrow> 's \<Rightarrow> ('e + ServiceResult) \<times> 's" where
  "requestQueueItemChanges api input =
     finalizeQueueItemWithCoordinatorDecision api input SdRequestChanges"

definition markQueueItemBlockedByCoordinator :: "('s, 'e) FinalizationApi \<Rightarrow> FinalizationInput
    \<Rightarrow> 's \<Rightarrow> ('e + ServiceResult) \<times> 's" where
  "markQueueItemBlockedByCoordinator api input =
     finalizeQueueItemWithCoordinatorDecision api input SdBlocked"

definition markQueueItemRollbackRequired :: "('s, 'e) FinalizationApi \<Rightarrow> FinalizationInput
    \<Rightarrow> 's \<Rightarrow> ('e + ServiceResult) \<times> 's" where
  "markQueueItemRollbackRequired api input =
     finalizeQueueItemWithCoordinatorDecision api input SdRollbackRequired"

text \<open>A follow-up: the item is created first, if the Queue can create items, and then the decision recorded.\<close>

definition followUpRequest :: "FinalizationInput \<Rightarrow> string option \<Rightarrow> string option \<Rightarrow> FollowUpCreate" where
  "followUpRequest input followUpPrompt followUpTitle =
     (let task = si_task input; sourceTitle = js_or_str (js_trim (task_title task)) DEFAULT_TASK_TITLE;
          nl = [CHR 0x0A]
      in \<lparr>fc_actor = ''operator'', fc_approvalPolicy = task_approvalPolicy task, fc_codexExecutable = task_codexExecutable task,
          fc_dependencies = [],
          fc_description = ''Explicit coordinator follow-up for '' @ sourceTitle @ ''.'',
          fc_executionPolicy = PolManual, fc_executionWorkspace = task_executionWorkspace task,
          fc_itemType = ItFollowUp, fc_priority = task_priority task,
          fc_prompt = js_default (''Follow-up for Queue item '' @ task_queueItemId task @ ''.'' @ nl @ nl
            @ ''Source: '' @ sourceTitle @ nl @ ''Coordinator decision: follow-up required.'' @ nl @ nl
            @ ''Do not run automatically.'') followUpPrompt,
          fc_queueTag = normalizeQueueTag task, fc_sandbox = task_sandbox task, fc_status = StQueued,
          fc_title = js_default (''Follow-up: '' @ sourceTitle) followUpTitle,
          fc_workspaceId = si_workspaceId input\<rparr>)"

definition withNote :: "string \<Rightarrow> FinalizationInput \<Rightarrow> FinalizationInput" where
  "withNote note input = input\<lparr>si_operatorNote := Some (js_default note (si_operatorNote input))\<rparr>"

definition followUpResult :: "CreateAnswer option \<Rightarrow> ServiceWarning list \<Rightarrow> ServiceResult \<Rightarrow> FollowUpResult" where
  "followUpResult createResult warnings r =
     ServiceResult.extend (r\<lparr>sr_warnings := sr_warnings r @ warnings\<rparr>)
       (FollowUpResult.fields createResult)"

definition createCoordinatorFollowUp :: "('s, 'e) FinalizationApi \<Rightarrow> FinalizationInput
    \<Rightarrow> string option \<Rightarrow> string option \<Rightarrow> 's \<Rightarrow> ('e + FollowUpResult) \<times> 's" where
  "createCoordinatorFollowUp api input followUpPrompt followUpTitle q =
     (case fa_createItem api of
        None \<Rightarrow>
          (case finalizeQueueItemWithCoordinatorDecision api
              (withNote ''Follow-up creation was requested, but Queue create action is unavailable.'' input)
              SdFollowUpRequired q of
             (Inl thrown, q') \<Rightarrow> (Inl thrown, q')
           | (Inr r, q') \<Rightarrow> (Inr (followUpResult None [serviceWarning FwQueueCreateFailed
                 ''Queue create action is unavailable; no follow-up item was created or run.''] r), q'))
      | Some createItem \<Rightarrow>
          (case createItem (followUpRequest input followUpPrompt followUpTitle) q of
             (Inl thrown, q') \<Rightarrow> (Inl thrown, q')
           | (Inr createResult, q') \<Rightarrow>
               (let note = (case (if ca_ok createResult then ca_itemId createResult else None) of
                      Some i \<Rightarrow> ''Created follow-up '' @ i @ ''.''
                    | None \<Rightarrow> ''Follow-up creation failed.'')
                in case finalizeQueueItemWithCoordinatorDecision api (withNote note input) SdFollowUpRequired q' of
                     (Inl thrown, q'') \<Rightarrow> (Inl thrown, q'')
                   | (Inr r, q'') \<Rightarrow>
                       (Inr (followUpResult (Some createResult)
                          (if ca_ok createResult then []
                           else [serviceWarning FwQueueCreateFailed (js_default
                                   ''Follow-up Queue item could not be created.''
                                   (ca_errorMessage createResult))]) r), q''))))"

section \<open>The gate\<close>

text \<open>What a dependency must be like to satisfy the gate of the service.\<close>

definition gateSatisfied :: "AgentQueueTask \<Rightarrow> AgentQueueTask list \<Rightarrow> string \<Rightarrow> bool" where
  "gateSatisfied task tasks d \<longleftrightarrow>
     d \<noteq> task_queueItemId task \<and>
     (\<exists>u. tasksById tasks d = Some u \<and> task_status u = ''completed''
        \<and> task_coordinatorStatus u = Some ''finalized'')"

lemma gateBlockersOf_empty_iff: "gateBlockersOf task tasks d = [] \<longleftrightarrow> gateSatisfied task tasks d"
  by (auto simp: gateBlockersOf_def gateSatisfied_def split: option.splits)

lemma gs_ready_iff:
  "gs_ready (dependencyGateStateForTask task tasks) \<longleftrightarrow>
     (\<forall>d \<in> set (normalizeTaskDependencies (task_dependsOn task)). gateSatisfied task tasks d)"
  by (auto simp: dependencyGateStateForTask_def Let_def gateBlockersOf_empty_iff)

lemma dependencySatisfied_gate:
  "dependencySatisfied task tasks d \<longleftrightarrow> gateSatisfied task tasks d
     \<and> \<not> reachesCycle (dependencyGraphFor task tasks) (task_queueItemId task)"
  by (auto simp: dependencySatisfied_def gateSatisfied_def)

lemma tasksById_SomeD: "tasksById tasks d = Some u \<Longrightarrow> u \<in> set tasks \<and> task_queueItemId u = d"
  by (auto simp: tasksById_def map_of_js_map_of_entries dest!: map_of_SomeD)

text \<open>The queue with the finalised task in place of the old one.\<close>

definition withTask :: "AgentQueueTask \<Rightarrow> AgentQueueTask list \<Rightarrow> AgentQueueTask list" where
  "withTask f tasks = map (\<lambda>t. if task_queueItemId t = task_queueItemId f then f else t) tasks"

lemma tasksById_withTask: "tasksById (withTask f tasks) (task_queueItemId f) = Some u \<Longrightarrow> u = f"
  by (drule tasksById_SomeD) (auto simp: withTask_def split: if_splits)

lemma not_accepted_blocks:
  "\<lbrakk>\<not> (task_status f = ''completed'' \<and> task_coordinatorStatus f = Some ''finalized'');
    task_queueItemId f \<in> set (normalizeTaskDependencies (task_dependsOn t))\<rbrakk> \<Longrightarrow>
   \<not> gs_ready (dependencyGateStateForTask t (withTask f tasks))"
  by (auto simp: gs_ready_iff gateSatisfied_def dest!: bspec tasksById_withTask)

lemma gate_dependents:
  "gr_dependents (recomputeDependentReadinessAfterFinalization f tasks) =
     map (\<lambda>t. dependencyGateStateForTask t (withTask f tasks))
       (filter (\<lambda>t. task_queueItemId f \<in> set (normalizeTaskDependencies (task_dependsOn t)))
          (withTask f tasks))"
  by (simp add: recomputeDependentReadinessAfterFinalization_def withTask_def Let_def)

lemma gate_satisfied:
  "gr_sourceSatisfiesDependency (recomputeDependentReadinessAfterFinalization f tasks) \<longleftrightarrow>
     task_status f = ''completed'' \<and> task_coordinatorStatus f = Some ''finalized''"
  by (simp add: recomputeDependentReadinessAfterFinalization_def Let_def)

lemma gate_not_satisfied:
  "\<not> gr_sourceSatisfiesDependency (recomputeDependentReadinessAfterFinalization f tasks) \<Longrightarrow>
     list_all (\<lambda>g. \<not> gs_ready g) (gr_dependents (recomputeDependentReadinessAfterFinalization f tasks))"
  by (auto simp: gate_satisfied gate_dependents list_all_iff not_accepted_blocks)

text \<open>
  C13. Two gates, one answer, up to cycles. A task is ready by the dependency state that the Queue runs
  on exactly when it is ready by the gate of the finalisation service and no dependency cycle is reached
  from it; the service does not search for cycles. Both read a Map of the tasks by id, in which the last
  of several tasks with one id counts.
\<close>

theorem gate_agrees_with_dependency_state:
  "dep_status (getQueueTaskDependencyState task tasks) = DepReady \<longleftrightarrow>
     gs_ready (dependencyGateStateForTask task tasks)
     \<and> \<not> (normalizeTaskDependencies (task_dependsOn task) \<noteq> []
          \<and> hasQueueDependencyCycle (dependencyGraphFor task tasks) (task_queueItemId task))"
  by (cases "normalizeTaskDependencies (task_dependsOn task)")
    (auto simp: dep_status_ready_iff gs_ready_iff dependencySatisfied_gate hasQueueDependencyCycle_iff_reaches)

text \<open>Two finalised tasks that depend on each other: ready for the service, invalid for the Queue.\<close>

lemma gate_ready_on_cycle:
  "let a = fakeQueueTask\<lparr>task_queueItemId := ''a'', task_status := ''completed'',
         task_coordinatorStatus := Some ''finalized'', task_dependsOn := Some [''b'']\<rparr>;
       b = a\<lparr>task_queueItemId := ''b'', task_dependsOn := Some [''a'']\<rparr>
   in gs_ready (dependencyGateStateForTask b [a, b])
     \<and> dep_status (getQueueTaskDependencyState b [a, b]) = DepInvalid"
  by code_simp

section \<open>A decision and what it sends\<close>

text \<open>The decisions that accept the work.\<close>

definition acceptsWork :: "ServiceCommit option \<Rightarrow> ServiceDecision \<Rightarrow> bool" where
  "acceptsWork commit decision \<longleftrightarrow>
     decision = SdAcceptedWithoutCommit \<or> decision = SdAcceptedWithCommit \<and> hasValidCommitHash commit"

lemma decisionState_accepts:
  "acceptsWork commit decision \<Longrightarrow>
     ds_status (decisionStateForCoordinatorDecision commit decision) = StCompleted
     \<and> ds_coordinatorStatus (decisionStateForCoordinatorDecision commit decision) = CoFinalized
     \<and> ds_validationStatus (decisionStateForCoordinatorDecision commit decision) = ValPassed"
  by (cases decision) (simp_all add: acceptsWork_def Let_def)

lemma decisionState_refuses:
  "\<not> acceptsWork commit decision \<Longrightarrow>
     ds_status (decisionStateForCoordinatorDecision commit decision)
       = (if decision = SdFailed then StFailed else StReviewNeeded)
     \<and> ds_coordinatorStatus (decisionStateForCoordinatorDecision commit decision) \<noteq> CoFinalized
     \<and> (ds_coordinatorStatus (decisionStateForCoordinatorDecision commit decision) = CoFailed
          \<longleftrightarrow> decision = SdFailed)
     \<and> ds_validationStatus (decisionStateForCoordinatorDecision commit decision)
       = (if decision = SdFailed then ValFailed else ValNeedsReview)"
  by (cases decision) (simp_all add: acceptsWork_def Let_def blockedDecision_def)

lemmas service_defs = serviceUpdate_def serviceReport_def buildCoordinatorFinalizationReport_def Let_def

lemma service_report_fields:
  "report_reportStatus (serviceReport input decision) =
     (let st = ds_coordinatorStatus (decisionStateForCoordinatorDecision (si_commit input) decision) in
      if st = CoFinalized then ''completed'' else if st = CoFailed then ''failed'' else ''needs_follow_up'')"
  by (simp add: service_defs)

lemma serviceUpdate_fields:
  "fu_status (serviceUpdate input decision) =
     ds_status (decisionStateForCoordinatorDecision (si_commit input) decision)"
  "fu_validationStatus (serviceUpdate input decision) =
     ds_validationStatus (decisionStateForCoordinatorDecision (si_commit input) decision)"
  "fu_report (serviceUpdate input decision) = serviceReport input decision"
  by (simp_all add: serviceUpdate_def Let_def)

lemma service_gate_satisfied:
  "gr_sourceSatisfiesDependency (serviceGate input decision) \<longleftrightarrow> acceptsWork (si_commit input) decision"
  using decisionState_accepts [of "si_commit input" decision] decisionState_refuses [of "si_commit input" decision]
  by (cases "acceptsWork (si_commit input) decision")
    (auto simp: serviceGate_def gate_satisfied taskAfterDecision_def split: if_splits)

lemma service_gate_blocks:
  "\<not> acceptsWork (si_commit input) decision \<Longrightarrow>
     list_all (\<lambda>g. \<not> gs_ready g) (gr_dependents (serviceGate input decision))"
  unfolding service_gate_satisfied [symmetric] unfolding serviceGate_def by (rule gate_not_satisfied)

text \<open>
  C12. One decision, told the same way everywhere. Whether the coordinator's decision accepts the work
  (without a commit, or with one whose hash is well formed) is what the status and the validation of the
  update, the status of the attached report and the answer about the dependency say, each of them; and
  when the work is not accepted, no dependent is reported ready, whatever else it depends on.
\<close>

theorem coordinator_decision_consistent:
  "let accepted = acceptsWork (si_commit input) decision; update = serviceUpdate input decision;
       gate = serviceGate input decision
   in fu_status update
        = (if accepted then StCompleted else if decision = SdFailed then StFailed else StReviewNeeded)
    \<and> fu_validationStatus update
        = (if accepted then ValPassed else if decision = SdFailed then ValFailed else ValNeedsReview)
    \<and> report_reportStatus (fu_report update)
        = (if accepted then ''completed'' else if decision = SdFailed then ''failed'' else ''needs_follow_up'')
    \<and> gr_sourceSatisfiesDependency gate = accepted
    \<and> list_all (\<lambda>g. \<not> (gs_ready g \<and> \<not> accepted)) (gr_dependents gate)"
proof (cases "acceptsWork (si_commit input) decision")
  case True
  with decisionState_accepts [OF True] show ?thesis
    by (simp add: serviceUpdate_fields service_report_fields service_gate_satisfied Let_def list_all_iff)
next
  case False
  with decisionState_refuses [OF False] service_gate_blocks [OF False] show ?thesis
    by (simp add: serviceUpdate_fields service_report_fields service_gate_satisfied Let_def)
qed

text \<open>
  The service asks for no reason when it accepts without a commit; the validator of \<open>Finalization\<close> does.
\<close>

lemma accepted_without_reason:
  "acceptsWork None SdAcceptedWithoutCommit"
  "map fw_code (finalizationWarnings None SdAcceptedWithoutCommit) = [FwFirstClassFieldsUnsupported]"
  by (simp_all add: acceptsWork_def finalizationWarnings_def serviceWarning_def Let_def)

section \<open>A follow-up\<close>

lemma follow_up_refuses: "\<not> acceptsWork commit SdFollowUpRequired"
  by (simp add: acceptsWork_def)

text \<open>The answer of a finalisation, when the Queue answers at all.\<close>

lemma finalize_Inr:
  "finalizeQueueItemWithCoordinatorDecision api input decision q = (Inr r, q') \<Longrightarrow>
     sr_decisionState r = decisionStateForCoordinatorDecision (si_commit input) decision
     \<and> sr_dependencyGate r = serviceGate input decision
     \<and> sr_warnings r = finalizationWarnings (si_commit input) decision @ updateWarnings (sr_updateResult r)
     \<and> fa_updateItem api (serviceUpdate input decision) q = (Inr (sr_updateResult r), q')"
  by (auto simp: finalizeQueueItemWithCoordinatorDecision_def split: prod.splits sum.splits)

lemma withNote_fields [simp]: "si_commit (withNote n input) = si_commit input"
  by (simp add: withNote_def)

text \<open>No warning of a finalisation is about a creation.\<close>

lemma warnings_not_create:
  "FwQueueCreateFailed \<notin> fw_code ` set (finalizationWarnings commit decision @ updateWarnings u)"
  by (auto simp: finalizationWarnings_def updateWarnings_def serviceWarning_def Let_def)

lemma followUpResult_fields [simp]:
  "sr_decisionState (followUpResult c ws r) = sr_decisionState r"
  "sr_dependencyGate (followUpResult c ws r) = sr_dependencyGate r"
  "sr_warnings (followUpResult c ws r) = sr_warnings r @ ws"
  "sr_createResult (followUpResult c ws r) = c"
  by (simp_all add: followUpResult_def ServiceResult.defs FollowUpResult.defs)

text \<open>
  What a follow-up leaves, given the answer of the decision it records and the answer of the creation:
  the task waits for review, its dependents wait, and a failed creation is a warning.
\<close>

definition followUpOutcome :: "FollowUpResult \<Rightarrow> bool" where
  "followUpOutcome r \<longleftrightarrow>
     ds_status (sr_decisionState r) = StReviewNeeded
     \<and> ds_coordinatorStatus (sr_decisionState r) = CoFollowUpRequired
     \<and> \<not> gr_sourceSatisfiesDependency (sr_dependencyGate r)
     \<and> list_all (\<lambda>g. \<not> gs_ready g) (gr_dependents (sr_dependencyGate r))
     \<and> (FwQueueCreateFailed \<in> fw_code ` set (sr_warnings r)
          \<longleftrightarrow> (case sr_createResult r of None \<Rightarrow> True | Some c \<Rightarrow> \<not> ca_ok c))"

lemma followUpOutcome_result:
  assumes "finalizeQueueItemWithCoordinatorDecision api (withNote n input) SdFollowUpRequired q = (Inr r, q')"
    and "FwQueueCreateFailed \<in> fw_code ` set ws \<longleftrightarrow> (case c of None \<Rightarrow> True | Some c \<Rightarrow> \<not> ca_ok c)"
  shows "followUpOutcome (followUpResult c ws r)"
  using finalize_Inr [OF assms(1)] assms(2) follow_up_refuses service_gate_blocks [OF follow_up_refuses]
    warnings_not_create [of "si_commit input" SdFollowUpRequired "sr_updateResult r"]
  by (simp add: followUpOutcome_def service_gate_satisfied blockedDecision_def image_Un)

text \<open>
  C15. A follow-up runs nothing and releases nothing. The item the coordinator asks the Queue to create
  is queued for manual execution and has no dependencies. When the service answers, the source waits for
  review as follow-up required, no dependent of it is ready, and there is a warning about the creation
  exactly when the Queue cannot create items or says that it could not; when the creation throws, the
  exception is the answer and no decision is recorded.
\<close>

theorem createCoordinatorFollowUp_releases_nothing:
  "(case createCoordinatorFollowUp api input p t q of
      (Inr r, _) \<Rightarrow> followUpOutcome r \<and> (sr_createResult r = None) = (fa_createItem api = None)
    | (Inl e, q') \<Rightarrow>
        (case fa_createItem api of
           None \<Rightarrow> True
         | Some createItem \<Rightarrow>
             (case createItem (followUpRequest input p t) q of
                (Inl e', q1) \<Rightarrow> (e, q') = (e', q1)
              | (Inr c, _) \<Rightarrow> True)))
   \<and> fc_executionPolicy (followUpRequest input p t) = PolManual
   \<and> fc_status (followUpRequest input p t) = StQueued \<and> fc_dependencies (followUpRequest input p t) = []"
proof -
  have "fc_executionPolicy (followUpRequest input p t) = PolManual
      \<and> fc_status (followUpRequest input p t) = StQueued \<and> fc_dependencies (followUpRequest input p t) = []"
    by (simp add: followUpRequest_def Let_def)
  then show ?thesis
    by (auto simp: createCoordinatorFollowUp_def Let_def serviceWarning_def intro!: followUpOutcome_result
        split: option.split prod.split sum.split)
qed

text \<open>An answer without an item is noted as a failure, but there is no warning about it.\<close>

lemma follow_up_note_without_warning:
  "\<lbrakk>fa_createItem api = Some createItem; ca_ok c; ca_itemId c = None; si_operatorNote input = None;
    createItem (followUpRequest input p t) q = (Inr c, q1)\<rbrakk> \<Longrightarrow>
   createCoordinatorFollowUp api input p t q =
     (case finalizeQueueItemWithCoordinatorDecision api
        (input\<lparr>si_operatorNote := Some ''Follow-up creation failed.''\<rparr>) SdFollowUpRequired q1 of
        (Inl thrown, q2) \<Rightarrow> (Inl thrown, q2)
      | (Inr r, q2) \<Rightarrow> (Inr (followUpResult (Some c) [] r), q2))"
  by (simp add: createCoordinatorFollowUp_def withNote_def js_default_def)

end
