(* ===== verification/Stuck_Decision.thy ===== *)
theory Stuck_Decision
  imports Smart_Queue
begin

text \<open>
  What the Queue Coordinator proposes when a worker reports that it is stuck,
  \<open>workbench/queue/queueCoordinatorDecisionModel.ts\<close>: a decision from a report, a proposed retry, and a
  decision from the answer of the Workspace Agent to a request for assistance.

  The property is that no decision made from a report alone starts another attempt, and that whatever
  changes or ends the work of a task needs an approval.
\<close>

section \<open>Data\<close>

datatype WorkerStuckReportKind =
    SkValidationFailure | SkExecFailure | SkMissingConfig | SkMissingPrompt | SkMissingContext
  | SkDirtyWorktree | SkDependencyFailed | SkDependencyBlocked

datatype CoordinatorAction =
    QaRetrySame | QaRetryWithModifiedPrompt | QaMoveBlocked | QaMarkFailed | QaRequestHumanInput
  | QaRequestWorkspaceAgentAssistance | QaRollbackAttempt | QaSplitFollowupTask
  | QaAcceptDependencyAnyway

fun coordinatorActionName :: "CoordinatorAction \<Rightarrow> string" where
  "coordinatorActionName QaRetrySame = ''retry_same''"
| "coordinatorActionName QaRetryWithModifiedPrompt = ''retry_with_modified_prompt''"
| "coordinatorActionName QaMoveBlocked = ''move_blocked''"
| "coordinatorActionName QaMarkFailed = ''mark_failed''"
| "coordinatorActionName QaRequestHumanInput = ''request_human_input''"
| "coordinatorActionName QaRequestWorkspaceAgentAssistance = ''request_workspace_agent_assistance''"
| "coordinatorActionName QaRollbackAttempt = ''rollback_attempt''"
| "coordinatorActionName QaSplitFollowupTask = ''split_followup_task''"
| "coordinatorActionName QaAcceptDependencyAnyway = ''accept_dependency_anyway''"

datatype CoordinatorDecisionStatus = QsNeedsDecision | QsBlocked | QsFailed | QsAssistanceRequested

fun decisionStatusName :: "CoordinatorDecisionStatus \<Rightarrow> string" where
  "decisionStatusName QsNeedsDecision = ''needs_decision''"
| "decisionStatusName QsBlocked = ''blocked''"
| "decisionStatusName QsFailed = ''failed''"
| "decisionStatusName QsAssistanceRequested = ''assistance_requested''"

fun blockerKindName :: "SmartQueueBlockerKind \<Rightarrow> string" where
  "blockerKindName BkDependencyFailed = ''dependency_failed''"
| "blockerKindName BkDependencyBlocked = ''dependency_blocked''"
| "blockerKindName BkMissingConfig = ''missing_config''"
| "blockerKindName BkValidationRequiresDecision = ''validation_requires_decision''"
| "blockerKindName BkWorkerUnavailable = ''worker_unavailable''"
| "blockerKindName BkDirtyWorktree = ''dirty_worktree''"
| "blockerKindName BkMissingPrompt = ''missing_prompt''"
| "blockerKindName BkRequiresHumanInput = ''requires_human_input''"

datatype CoordinatorDecisionKind =
    QkStartTask | QkRetryTask | QkRequestReview | QkRequestValidation | QkRequestAssistance
  | QkBlockTask | QkFailTask | QkCloseTask | QkCancelTask | QkPauseQueue | QkDrainQueue | QkStopQueue

text \<open>The flags are optional booleans, absent ones being false; the record of flags itself too.\<close>

record WorkerStuckReportFlags =
  wf_canRetrySame :: bool
  wf_hasPromptModificationSuggestion :: bool
  wf_needsWorkspaceAgentAssistance :: bool
  wf_needsHumanInput :: bool
  wf_environmentOrToolIssue :: bool
  wf_retryCountExceeded :: bool
  wf_hasRollbackRecommendation :: bool

record WorkerStuckReport =
  wr_reportId :: string
  wr_attemptId :: "string option"
  wr_workspaceId :: string
  wr_queueId :: string
  wr_batchId :: "string option"
  wr_taskId :: string
  wr_workerId :: "string option"
  wr_kind :: WorkerStuckReportKind
  wr_summary :: string
  wr_retryCount :: js_number
  wr_maxRetryCount :: js_number
  wr_dependencyTaskIds :: "string list option"
  wr_validationSummary :: "string option"
  wr_evidence :: "string list option"
  wr_createdAt :: string
  wr_flags :: "WorkerStuckReportFlags option"

datatype AssistanceResponseKind = RkExplanation | RkOptions | RkDraftPrompt | RkDecisionRecommendation

record AssistanceVisibleContext =
  vc_taskTitle :: "string option"
  vc_taskPromptPreview :: "string option"
  vc_blockerSummary :: "string option"
  vc_dependencyTaskIds :: "string list option"
  vc_evidence :: "string list option"
  vc_validationSummary :: "string option"
  vc_workerReportPreview :: "string option"

datatype DecisionActor = ByQueueCoordinator | ByHumanOperator
datatype AssistanceTarget = AtWorkspaceAgent | AtHumanOperator

record QueueAssistanceRequest =
  qar_requestId :: string
  qar_workspaceId :: string
  qar_queueId :: string
  qar_batchId :: "string option"
  qar_taskId :: "string option"
  qar_attemptId :: "string option"
  qar_requestedBy :: DecisionActor
  qar_target :: AssistanceTarget
  qar_reason :: SmartQueueBlockerKind
  qar_question :: string
  qar_visibleContext :: AssistanceVisibleContext
  qar_allowedResponseKinds :: "AssistanceResponseKind list"
  qar_availableActions :: "CoordinatorAction list"
  qar_createdAt :: string

record QueueCoordinatorDecision =
  qcd_decisionId :: string
  qcd_workspaceId :: string
  qcd_queueId :: string
  qcd_batchId :: "string option"
  qcd_taskId :: "string option"
  qcd_action :: CoordinatorAction
  qcd_status :: CoordinatorDecisionStatus
  qcd_reason :: string
  qcd_blockerKind :: "SmartQueueBlockerKind option"
  qcd_assistanceRequest :: "QueueAssistanceRequest option"
  qcd_sourceReportId :: "string option"
  qcd_sourceAttemptId :: "string option"
  qcd_proposedPrompt :: "string option"
  qcd_retryCount :: js_number
  qcd_maxRetryCount :: js_number
  qcd_createdAt :: string
  qcd_decidedBy :: DecisionActor
  qcd_requiresApproval :: bool
  qcd_approvedBy :: "string option"

record QueueAssistanceResponse =
  qas_responseId :: string
  qas_requestId :: string
  qas_responder :: AssistanceTarget
  qas_responseKind :: AssistanceResponseKind
  qas_summary :: string
  qas_recommendedDecision :: "CoordinatorDecisionKind option"
  qas_proposedPrompt :: "string option"
  qas_warnings :: "string list"
  qas_createdAt :: string

record DecisionInput =
  qdi_report :: WorkerStuckReport
  qdi_decisionId :: string
  qdi_createdAt :: string
  qdi_assistanceRequestId :: "string option"

section \<open>A decision from a report\<close>

definition reportFlag :: "(WorkerStuckReportFlags \<Rightarrow> bool) \<Rightarrow> WorkerStuckReport \<Rightarrow> bool" where
  "reportFlag flag report = (case wr_flags report of Some flags \<Rightarrow> flag flags | None \<Rightarrow> False)"

text \<open>\<open>a >= b\<close> on numbers: false when either is not a number.\<close>

fun js_ge :: "js_number \<Rightarrow> js_number \<Rightarrow> bool" where
  "js_ge NaN b = False"
| "js_ge a NaN = False"
| "js_ge PosInf b = True"
| "js_ge a NegInf = True"
| "js_ge NegInf b = False"
| "js_ge a PosInf = False"
| "js_ge (Fin a) (Fin b) = (a \<ge> b)"

definition retryLimitExceeded :: "WorkerStuckReport \<Rightarrow> bool" where
  "retryLimitExceeded report \<longleftrightarrow>
     reportFlag wf_retryCountExceeded report \<or> js_ge (wr_retryCount report) (wr_maxRetryCount report)"

record StuckDecisionValues =
  dv_action :: CoordinatorAction
  dv_status :: CoordinatorDecisionStatus
  dv_reason :: string
  dv_blockerKind :: "SmartQueueBlockerKind option"
  dv_requiresApproval :: bool
  dv_assistanceRequest :: "QueueAssistanceRequest option"
  dv_proposedPrompt :: "string option"

definition createDecision :: "DecisionInput \<Rightarrow> StuckDecisionValues \<Rightarrow> QueueCoordinatorDecision" where
  "createDecision input given =
     (let report = qdi_report input in
      \<lparr>qcd_decisionId = qdi_decisionId input, qcd_workspaceId = wr_workspaceId report,
       qcd_queueId = wr_queueId report, qcd_batchId = wr_batchId report,
       qcd_taskId = Some (wr_taskId report), qcd_action = dv_action given,
       qcd_status = dv_status given, qcd_reason = dv_reason given,
       qcd_blockerKind = dv_blockerKind given, qcd_assistanceRequest = dv_assistanceRequest given,
       qcd_sourceReportId = Some (wr_reportId report), qcd_sourceAttemptId = wr_attemptId report,
       qcd_proposedPrompt = dv_proposedPrompt given, qcd_retryCount = wr_retryCount report,
       qcd_maxRetryCount = wr_maxRetryCount report, qcd_createdAt = qdi_createdAt input,
       qcd_decidedBy = ByQueueCoordinator, qcd_requiresApproval = dv_requiresApproval given,
       qcd_approvedBy = None\<rparr>)"

definition decisionValues :: "CoordinatorAction \<Rightarrow> CoordinatorDecisionStatus \<Rightarrow> SmartQueueBlockerKind option
    \<Rightarrow> bool \<Rightarrow> string \<Rightarrow> StuckDecisionValues" where
  "decisionValues action status blockerKind requiresApproval reason =
     \<lparr>dv_action = action, dv_status = status, dv_reason = reason, dv_blockerKind = blockerKind,
      dv_requiresApproval = requiresApproval, dv_assistanceRequest = None, dv_proposedPrompt = None\<rparr>"

definition createAssistanceRequest ::
    "DecisionInput \<Rightarrow> SmartQueueBlockerKind \<Rightarrow> string \<Rightarrow> QueueAssistanceRequest" where
  "createAssistanceRequest input reason question =
     (let report = qdi_report input in
      \<lparr>qar_requestId = js_default (qdi_decisionId input @ '':assistance'') (qdi_assistanceRequestId input),
       qar_workspaceId = wr_workspaceId report, qar_queueId = wr_queueId report,
       qar_batchId = wr_batchId report, qar_taskId = Some (wr_taskId report),
       qar_attemptId = wr_attemptId report, qar_requestedBy = ByQueueCoordinator,
       qar_target = AtWorkspaceAgent, qar_reason = reason, qar_question = question,
       qar_visibleContext =
         \<lparr>vc_taskTitle = None, vc_taskPromptPreview = None, vc_blockerSummary = Some (wr_summary report),
          vc_dependencyTaskIds = wr_dependencyTaskIds report, vc_evidence = wr_evidence report,
          vc_validationSummary = wr_validationSummary report,
          vc_workerReportPreview = Some (wr_summary report)\<rparr>,
       qar_allowedResponseKinds = [RkExplanation, RkOptions, RkDraftPrompt, RkDecisionRecommendation],
       qar_availableActions = [QaRetrySame, QaRetryWithModifiedPrompt, QaMoveBlocked, QaMarkFailed,
         QaRequestHumanInput, QaRollbackAttempt, QaSplitFollowupTask, QaAcceptDependencyAnyway],
       qar_createdAt = qdi_createdAt input\<rparr>)"

definition workspaceAgentAssistanceDecision ::
    "DecisionInput \<Rightarrow> SmartQueueBlockerKind \<Rightarrow> string \<Rightarrow> QueueCoordinatorDecision" where
  "workspaceAgentAssistanceDecision input reason question =
     createDecision input
       ((decisionValues QaRequestWorkspaceAgentAssistance QsAssistanceRequested (Some reason) False
          ''Workspace Agent assistance requested as a typed request; no Queue task is created by default.'')
        \<lparr>dv_assistanceRequest := Some (createAssistanceRequest input reason question)\<rparr>)"

definition decideQueueCoordinatorAction :: "DecisionInput \<Rightarrow> QueueCoordinatorDecision" where
  "decideQueueCoordinatorAction input =
     (let report = qdi_report input; make = createDecision input;
          human = reportFlag wf_needsHumanInput report
      in if retryLimitExceeded report
         then make (if human
           then decisionValues QaRequestHumanInput QsNeedsDecision (Some BkRequiresHumanInput) True
                  ''Retry limit reached. Human input is required before another attempt.''
           else decisionValues QaMarkFailed QsFailed None True
                  ''Retry limit reached. Marking failed prevents an infinite retry loop.'')
         else case wr_kind report of
           SkValidationFailure \<Rightarrow>
             if reportFlag wf_needsWorkspaceAgentAssistance report
             then workspaceAgentAssistanceDecision input BkValidationRequiresDecision
                    ''Ask Workspace Agent to explain the validation failure and draft options from visible context.''
             else make (decisionValues
                    (if reportFlag wf_hasRollbackRecommendation report then QaRollbackAttempt
                     else QaRequestHumanInput)
                    QsNeedsDecision (Some BkValidationRequiresDecision) True
                    ''Validation failed. Queue Coordinator needs an explicit decision before continuing.'')
         | SkExecFailure \<Rightarrow>
             if reportFlag wf_environmentOrToolIssue report
             then make (decisionValues QaMoveBlocked QsBlocked (Some BkWorkerUnavailable) False
                    ''Blocked: exec failure from environment or tool issue.'')
             else make (decisionValues QaRequestHumanInput QsNeedsDecision None True
                    ''Worker execution failed. Queue Coordinator needs an explicit retry, block, or fail decision.'')
         | SkMissingContext \<Rightarrow>
             if reportFlag wf_needsWorkspaceAgentAssistance report
             then workspaceAgentAssistanceDecision input BkRequiresHumanInput
                    ''Ask Workspace Agent to identify options for the missing context from visible task details.''
             else make (decisionValues QaRequestHumanInput QsNeedsDecision (Some BkRequiresHumanInput) True
                    ''Missing context requires human input before the worker can continue.'')
         | SkMissingConfig \<Rightarrow> make (decisionValues QaMoveBlocked QsBlocked (Some BkMissingConfig) False
                    ''Blocked: missing run configuration.'')
         | SkMissingPrompt \<Rightarrow> make (decisionValues QaMoveBlocked QsBlocked (Some BkMissingPrompt) False
                    ''Blocked: missing task prompt.'')
         | SkDirtyWorktree \<Rightarrow> make (decisionValues QaMoveBlocked QsBlocked (Some BkDirtyWorktree) False
                    ''Blocked: dirty workspace. Review or clean local changes before continuing.'')
         | SkDependencyFailed \<Rightarrow> make (decisionValues QaMoveBlocked QsBlocked (Some BkDependencyFailed) False
                    ''Blocked: upstream dependency failed.'')
         | SkDependencyBlocked \<Rightarrow> make (decisionValues QaMoveBlocked QsBlocked (Some BkDependencyBlocked) False
                    ''Blocked: upstream dependency is blocked.''))"

section \<open>Proposals\<close>

definition proposeQueueCoordinatorRetryDecision ::
    "DecisionInput \<Rightarrow> string option \<Rightarrow> QueueCoordinatorDecision" where
  "proposeQueueCoordinatorRetryDecision input modifiedPrompt =
     createDecision input
       ((decisionValues (if js_truthy_str modifiedPrompt then QaRetryWithModifiedPrompt else QaRetrySame)
          QsNeedsDecision None True
          (if js_truthy_str modifiedPrompt
           then ''Retry with a modified prompt was proposed. Previous worker report remains attached as evidence.''
           else ''Retry was proposed. Previous worker report remains attached as evidence.''))
        \<lparr>dv_proposedPrompt := modifiedPrompt\<rparr>)"

fun mappedAction :: "CoordinatorDecisionKind \<Rightarrow> CoordinatorAction option" where
  "mappedAction QkBlockTask = Some QaMoveBlocked"
| "mappedAction QkCancelTask = Some QaMarkFailed"
| "mappedAction QkCloseTask = Some QaRequestHumanInput"
| "mappedAction QkDrainQueue = Some QaRequestHumanInput"
| "mappedAction QkFailTask = Some QaMarkFailed"
| "mappedAction QkPauseQueue = Some QaRequestHumanInput"
| "mappedAction QkRequestReview = Some QaRequestHumanInput"
| "mappedAction QkRequestValidation = Some QaRequestHumanInput"
| "mappedAction QkRetryTask = Some QaRetrySame"
| "mappedAction QkStopQueue = Some QaRequestHumanInput"
| "mappedAction QkStartTask = None"
| "mappedAction QkRequestAssistance = None"

definition actionFromRecommendedDecision :: "CoordinatorDecisionKind option \<Rightarrow> CoordinatorAction" where
  "actionFromRecommendedDecision decision =
     js_default QaRequestHumanInput (Option.bind decision mappedAction)"

definition proposeCoordinatorDecisionFromAssistanceResponse ::
    "QueueAssistanceRequest \<Rightarrow> QueueAssistanceResponse \<Rightarrow> string \<Rightarrow> string \<Rightarrow> QueueCoordinatorDecision" where
  "proposeCoordinatorDecisionFromAssistanceResponse request response decisionId createdAt =
     (let action = actionFromRecommendedDecision (qas_recommendedDecision response) in
      \<lparr>qcd_decisionId = decisionId, qcd_workspaceId = qar_workspaceId request,
       qcd_queueId = qar_queueId request, qcd_batchId = qar_batchId request,
       qcd_taskId = qar_taskId request, qcd_action = action,
       qcd_status = (if action = QaMoveBlocked then QsBlocked else QsNeedsDecision),
       qcd_reason = ''Workspace Agent assistance proposed '' @ coordinatorActionName action
         @ ''. Queue Coordinator decision is still required. '' @ qas_summary response,
       qcd_blockerKind = Some (qar_reason request), qcd_assistanceRequest = Some request,
       qcd_sourceReportId = None, qcd_sourceAttemptId = None,
       qcd_proposedPrompt = qas_proposedPrompt response, qcd_retryCount = Fin 0,
       qcd_maxRetryCount = Fin 0, qcd_createdAt = createdAt, qcd_decidedBy = ByQueueCoordinator,
       qcd_requiresApproval = True, qcd_approvedBy = None\<rparr>)"

definition describeQueueCoordinatorDecision :: "QueueCoordinatorDecision \<Rightarrow> string" where
  "describeQueueCoordinatorDecision decision =
     (let target = (if js_truthy_str (qcd_taskId decision)
            then ''Task '' @ the (qcd_taskId decision) else ''Queue'');
          blocker = (case qcd_blockerKind decision of
            Some k \<Rightarrow> '' Blocker: '' @ blockerKindName k @ ''.'' | None \<Rightarrow> '''');
          approval = (if qcd_requiresApproval decision then '' Approval required.'' else '''')
      in target @ '': '' @ decisionStatusName (qcd_status decision) @ '' via ''
         @ coordinatorActionName (qcd_action decision) @ ''. '' @ qcd_reason decision @ blocker @ approval)"

section \<open>What a decision may do\<close>

lemma createDecision_fields [simp]:
  "qcd_action (createDecision input given) = dv_action given"
  "qcd_status (createDecision input given) = dv_status given"
  "qcd_requiresApproval (createDecision input given) = dv_requiresApproval given"
  "qcd_assistanceRequest (createDecision input given) = dv_assistanceRequest given"
  "qcd_blockerKind (createDecision input given) = dv_blockerKind given"
  "qcd_taskId (createDecision input given) = Some (wr_taskId (qdi_report input))"
  "qcd_queueId (createDecision input given) = wr_queueId (qdi_report input)"
  "qcd_workspaceId (createDecision input given) = wr_workspaceId (qdi_report input)"
  "qcd_sourceReportId (createDecision input given) = Some (wr_reportId (qdi_report input))"
  "qcd_retryCount (createDecision input given) = wr_retryCount (qdi_report input)"
  "qcd_maxRetryCount (createDecision input given) = wr_maxRetryCount (qdi_report input)"
  by (simp_all add: createDecision_def Let_def)

lemma decisionValues_fields [simp]:
  "dv_action (decisionValues action status kind approval reason) = action"
  "dv_status (decisionValues action status kind approval reason) = status"
  "dv_blockerKind (decisionValues action status kind approval reason) = kind"
  "dv_requiresApproval (decisionValues action status kind approval reason) = approval"
  "dv_assistanceRequest (decisionValues action status kind approval reason) = None"
  by (simp_all add: decisionValues_def)

lemmas decision_defs = decideQueueCoordinatorAction_def workspaceAgentAssistanceDecision_def Let_def

lemma decided_shape:
  "(qcd_action d, qcd_status d, qcd_requiresApproval d, qcd_assistanceRequest d = None, qcd_blockerKind d = None)
     \<in> {(QaRequestHumanInput, QsNeedsDecision, True, True, False),
        (QaRequestHumanInput, QsNeedsDecision, True, True, True),
        (QaMarkFailed, QsFailed, True, True, True), (QaRollbackAttempt, QsNeedsDecision, True, True, False),
        (QaMoveBlocked, QsBlocked, False, True, False),
        (QaRequestWorkspaceAgentAssistance, QsAssistanceRequested, False, False, False)}"
  if "d = decideQueueCoordinatorAction input"
  by (cases "wr_kind (qdi_report input)") (simp_all add: that decision_defs)

text \<open>
  C22. What the coordinator may do by itself when a worker is stuck. A decision made from a report never
  retries, splits a task or accepts a failed dependency. It goes without approval exactly when it moves
  the task to blocked, naming a blocker, or asks the Workspace Agent; marking failed happens only at the
  retry limit, and a request for assistance is attached exactly to the decision that asks for it. The
  decision keeps the ids and the counts of the report.
\<close>

theorem decideQueueCoordinatorAction_bounded:
  "let d = decideQueueCoordinatorAction input; report = qdi_report input in
     qcd_action d \<in> {QaMoveBlocked, QaMarkFailed, QaRequestHumanInput,
       QaRequestWorkspaceAgentAssistance, QaRollbackAttempt}
     \<and> (qcd_requiresApproval d \<longleftrightarrow> qcd_action d \<notin> {QaMoveBlocked, QaRequestWorkspaceAgentAssistance})
     \<and> (qcd_status d = QsBlocked \<longleftrightarrow> qcd_action d = QaMoveBlocked)
     \<and> (qcd_assistanceRequest d \<noteq> None \<longleftrightarrow> qcd_action d = QaRequestWorkspaceAgentAssistance)
     \<and> (qcd_action d = QaMarkFailed
          \<longleftrightarrow> retryLimitExceeded report \<and> \<not> reportFlag wf_needsHumanInput report)
     \<and> \<not> (qcd_action d = QaMoveBlocked \<and> qcd_blockerKind d = None)
     \<and> (qcd_taskId d, qcd_queueId d, qcd_workspaceId d, qcd_sourceReportId d)
         = (Some (wr_taskId report), wr_queueId report, wr_workspaceId report, Some (wr_reportId report))
     \<and> (qcd_retryCount d, qcd_maxRetryCount d) = (wr_retryCount report, wr_maxRetryCount report)"
proof -
  let ?d = "decideQueueCoordinatorAction input" and ?r = "qdi_report input"
  have "(qcd_taskId ?d, qcd_queueId ?d, qcd_workspaceId ?d, qcd_sourceReportId ?d)
      = (Some (wr_taskId ?r), wr_queueId ?r, wr_workspaceId ?r, Some (wr_reportId ?r))
    \<and> (qcd_retryCount ?d, qcd_maxRetryCount ?d) = (wr_retryCount ?r, wr_maxRetryCount ?r)"
    by (cases "wr_kind ?r") (simp_all add: decision_defs)
  moreover have "qcd_action ?d = QaMarkFailed
      \<longleftrightarrow> retryLimitExceeded ?r \<and> \<not> reportFlag wf_needsHumanInput ?r"
    by (cases "wr_kind ?r") (simp_all add: decision_defs)
  ultimately show ?thesis unfolding Let_def using decided_shape [OF refl, of input] by auto
qed

text \<open>What comes from a proposal always needs an approval.\<close>

lemma proposals_need_approval:
  "qcd_requiresApproval (proposeQueueCoordinatorRetryDecision input modifiedPrompt)"
  "qcd_requiresApproval (proposeCoordinatorDecisionFromAssistanceResponse request response i t)"
  by (simp_all add: proposeQueueCoordinatorRetryDecision_def Let_def
      proposeCoordinatorDecisionFromAssistanceResponse_def)

text \<open>
  The limit that stops the retries from a report does not bind a proposal: a retry is proposed for a
  report at its limit too, and an answer of the Workspace Agent resets both counts to zero.
\<close>

lemma proposal_ignores_limit:
  "qcd_action (proposeQueueCoordinatorRetryDecision input None) = QaRetrySame"
  "qcd_retryCount (proposeCoordinatorDecisionFromAssistanceResponse request response i t) = Fin 0"
  by (simp_all add: proposeQueueCoordinatorRetryDecision_def Let_def
      proposeCoordinatorDecisionFromAssistanceResponse_def)

end
