(* ===== verification/Prompt_Plan.thy ===== *)
theory Prompt_Plan
  imports Js_Text Dependencies Workers
begin

text \<open>
  The import plan of a prompt pack, \<open>workbench/promptPack/promptPackParser.ts\<close> from the drafts on:
  the items with their ids, dependencies and Queue drafts, the diagnostics, and the check of the
  dependency graph.

  \<open>normalizeItems\<close> threads the ids already used; its diagnostics and items are computed by one
  recursion over the sorted drafts. The cycle search is the one of this file, a second version of
  the search in \<open>Dependencies\<close>; \<open>packVisit_agrees\<close> relates the two, so what is proved of the
  first (fuel, soundness, completeness) carries over.
\<close>

section \<open>Model\<close>

datatype PromptPackSeverity = PpError | PpWarning

datatype PromptPackDiagnosticCode =
    DuplicateItemId | EmptyInput | InvalidJson | MissingBody | MissingItemId
  | NumericDependencySuggestion | NoSelectedItems | PackMetadataMissing | UnselectedDependency
  | UnsupportedFile | UnresolvedDependency | DependencyCycle

datatype PromptPackDependencyPolicy = ExplicitOnly | SuggestNumericOrder | HardNumericOrder

record PromptPackDiagnostic =
  ppd_code :: PromptPackDiagnosticCode
  ppd_itemId :: "string option"
  ppd_message :: string
  ppd_path :: "string option"
  ppd_severity :: PromptPackSeverity

record PromptPackMetadata =
  ppk_description :: "string option"
  ppk_id :: string
  ppk_name :: string
  ppk_sourcePaths :: "string list"

record ItemDraft =
  idr_allowedScope :: "string list"
  idr_dependencies :: "string list"
  idr_executionWorkspace :: "string option"
  idr_expectedCommitTitle :: "string option"
  idr_forbiddenScope :: "string list"
  idr_id :: "string option"
  idr_modelProfile :: "string option"
  idr_numericOrder :: "rat option"
  idr_path :: "string option"
  idr_priority :: int
  idr_promptBody :: string
  idr_reasoningEffort :: "string option"
  idr_tags :: "string list"
  idr_title :: "string option"
  idr_validationCommands :: "string list"
  idr_validatorProfile :: "string option"

record PromptPackQueueDraft =
  qdr_dependencies :: "string list"
  qdr_description :: string
  qdr_executionPolicy :: QueueExecutionPolicy
  qdr_executionWorkspace :: "string option"
  qdr_itemType :: QueueItemType
  qdr_priority :: int
  qdr_prompt :: string
  qdr_queueTagName :: "string option"
  qdr_title :: string

record PromptPackImportItem =
  ppi_allowedScope :: "string list"
  ppi_dependencies :: "string list"
  ppi_executionWorkspace :: "string option"
  ppi_expectedCommitTitle :: "string option"
  ppi_forbiddenScope :: "string list"
  ppi_id :: string
  ppi_itemType :: QueueItemType
  ppi_modelProfile :: "string option"
  ppi_numericOrder :: "rat option"
  ppi_priority :: int
  ppi_promptBody :: string
  ppi_queueDraft :: PromptPackQueueDraft
  ppi_reasoningEffort :: "string option"
  ppi_sourcePath :: "string option"
  ppi_suggestedDependencyIds :: "string list"
  ppi_tags :: "string list"
  ppi_title :: string
  ppi_validationCommands :: "string list"
  ppi_validatorProfile :: "string option"

record PromptPackImportPlan =
  ppl_dependencyPolicy :: PromptPackDependencyPolicy
  ppl_diagnostics :: "PromptPackDiagnostic list"
  ppl_errors :: "PromptPackDiagnostic list"
  ppl_items :: "PromptPackImportItem list"
  ppl_pack :: PromptPackMetadata
  ppl_warnings :: "PromptPackDiagnostic list"

text \<open>\<open>slugify\<close>, \<open>humanizeSlug\<close> and \<open>toFixed(3)\<close> with the \<open>.000\<close> removed.\<close>

definition asciiLower :: "char \<Rightarrow> bool" where
  "asciiLower c \<longleftrightarrow> (let n = of_char c in (97::nat) \<le> n \<and> n \<le> 122)"

definition asciiWordChar :: "char \<Rightarrow> bool" where
  "asciiWordChar c \<longleftrightarrow> (let n = of_char c in
     (97::nat) \<le> n \<and> n \<le> 122 \<or> 65 \<le> n \<and> n \<le> 90 \<or> 48 \<le> n \<and> n \<le> 57 \<or> n = 95)"

definition slugChar :: "char \<Rightarrow> bool" where
  "slugChar c \<longleftrightarrow> (let n = of_char c in
     (97::nat) \<le> n \<and> n \<le> 122 \<or> 48 \<le> n \<and> n \<le> 57 \<or> n = 46)"

definition slugify :: "string \<Rightarrow> string" where
  "slugify value =
     js_strip (CHR ''-'') (js_collapse_runs (\<lambda>c. \<not> slugChar c) (CHR ''-'') (js_lower (js_trim value)))"

definition upperWordChar :: "char \<Rightarrow> char" where
  "upperWordChar c = (if asciiLower c then char_of (of_char c - 32 :: nat) else c)"

fun capitalizeWords :: "bool \<Rightarrow> string \<Rightarrow> string" where
  "capitalizeWords inWord [] = []"
| "capitalizeWords inWord (c # cs) =
     (if asciiWordChar c \<and> \<not> inWord then upperWordChar c else c) # capitalizeWords (asciiWordChar c) cs"

definition dropExtension :: "string \<Rightarrow> string" where
  "dropExtension value =
     (let ext = takeWhile (\<lambda>c. c \<noteq> CHR ''.'') (rev value) in
      if ext = [] \<or> length ext = length value then value
      else take (length value - length ext - 1) value)"

definition humanizeSlug :: "string \<Rightarrow> string" where
  "humanizeSlug value =
     capitalizeWords False
       (js_trim (js_collapse_spaces
         (js_collapse_runs (\<lambda>c. c = CHR ''-'' \<or> c = CHR ''_'') (CHR '' '') (dropExtension value))))"

definition orderText :: "rat \<Rightarrow> string" where
  "orderText x =
     (let n = nat \<lfloor>\<bar>x\<bar> * 1000 + 1 / 2\<rfloor>;
          whole = (if x < 0 then ''-'' else []) @ js_nat_string (n div 1000);
          frac = js_pad_start 3 (CHR ''0'') (js_nat_string (n mod 1000))
      in if frac = ''000'' then whole else whole @ ''.'' @ frac)"

definition sectionLinesText :: "string \<Rightarrow> string list \<Rightarrow> string list" where
  "sectionLinesText title values =
     (if values = [] then [] else title # map (\<lambda>v. ''- '' @ v) values)"

definition optionalLine :: "string \<Rightarrow> string option \<Rightarrow> string list" where
  "optionalLine label v = (if js_truthy_str v then [label @ '': '' @ the v] else [])"

definition promptPackMetadataSection :: "string \<Rightarrow> string \<Rightarrow> ItemDraft \<Rightarrow> string list \<Rightarrow> string" where
  "promptPackMetadataSection packId itemId draft dependencies =
     (let lines = ['''', '''', ''Prompt pack metadata'', ''Pack id: '' @ packId, ''Item id: '' @ itemId]
        @ (if dependencies = [] then [] else [''Dependencies: '' @ js_join '', '' dependencies])
        @ optionalLine ''Execution workspace'' (idr_executionWorkspace draft)
        @ optionalLine ''Expected commit title'' (idr_expectedCommitTitle draft)
        @ sectionLinesText ''Validation'' (idr_validationCommands draft)
        @ sectionLinesText ''Allowed scope'' (idr_allowedScope draft)
        @ sectionLinesText ''Forbidden scope'' (idr_forbiddenScope draft)
        @ [''Do not auto-finalize, auto-commit, auto-push, or run dependent tasks.'']
      in if length lines > 4 then js_join [NEWLINE] lines else [])"

definition diagnostic :: "PromptPackDiagnosticCode \<Rightarrow> string option \<Rightarrow> string \<Rightarrow> string option
    \<Rightarrow> PromptPackSeverity \<Rightarrow> PromptPackDiagnostic" where
  "diagnostic code itemId message path severity =
     \<lparr>ppd_code = code, ppd_itemId = itemId, ppd_message = message, ppd_path = path,
      ppd_severity = severity\<rparr>"

text \<open>The id of the item at an index, and the dependency that the numeric order suggests.\<close>

definition itemId :: "ItemDraft \<Rightarrow> nat \<Rightarrow> string" where
  "itemId draft index =
     (let fallbackId = (case idr_numericOrder draft of
            Some n \<Rightarrow> if n \<noteq> 0 then orderText n else ''item-'' @ js_nat_string (index + 1)
          | None \<Rightarrow> ''item-'' @ js_nat_string (index + 1))
      in slugify (js_default fallbackId (idr_id draft)))"

definition suggestedDependencyIds :: "ItemDraft option \<Rightarrow> ItemDraft \<Rightarrow> string list" where
  "suggestedDependencyIds previous draft =
     (let previousId = (case previous of None \<Rightarrow> [] | Some p \<Rightarrow> slugify (js_default [] (idr_id p)))
      in if idr_dependencies draft = [] \<and> previousId \<noteq> [] then [previousId] else [])"

definition itemDependencies ::
    "PromptPackDependencyPolicy \<Rightarrow> ItemDraft option \<Rightarrow> ItemDraft \<Rightarrow> string list" where
  "itemDependencies policy previous draft =
     (let suggested = suggestedDependencyIds previous draft in
      if policy = HardNumericOrder \<and> suggested \<noteq> [] then suggested
      else filter (\<lambda>d. d \<noteq> []) (map slugify (idr_dependencies draft)))"

definition itemOfDraft :: "PromptPackMetadata \<Rightarrow> PromptPackDependencyPolicy \<Rightarrow> ItemDraft option
    \<Rightarrow> ItemDraft \<Rightarrow> nat \<Rightarrow> PromptPackImportItem" where
  "itemOfDraft pack policy previous draft index =
     (let i = itemId draft index;
          dependencies = itemDependencies policy previous draft;
          title = (let t = js_trim (js_default [] (idr_title draft)) in
                   if t = [] then humanizeSlug i else t);
          description = js_join [NEWLINE]
            ([''Prompt pack: '' @ ppk_name pack @ '' ('' @ ppk_id pack @ '')'', ''Prompt item: '' @ i]
             @ (if idr_tags draft = [] then [] else [''Tags: '' @ js_join '', '' (idr_tags draft)])
             @ optionalLine ''Model profile'' (idr_modelProfile draft)
             @ optionalLine ''Reasoning effort'' (idr_reasoningEffort draft)
             @ optionalLine ''Validator profile'' (idr_validatorProfile draft))
      in \<lparr>ppi_allowedScope = idr_allowedScope draft, ppi_dependencies = dependencies,
          ppi_executionWorkspace = idr_executionWorkspace draft,
          ppi_expectedCommitTitle = idr_expectedCommitTitle draft,
          ppi_forbiddenScope = idr_forbiddenScope draft, ppi_id = i, ppi_itemType = ItImplementation,
          ppi_modelProfile = idr_modelProfile draft, ppi_numericOrder = idr_numericOrder draft,
          ppi_priority = idr_priority draft, ppi_promptBody = idr_promptBody draft,
          ppi_queueDraft =
            \<lparr>qdr_dependencies = dependencies, qdr_description = description,
             qdr_executionPolicy = PolManual, qdr_executionWorkspace = idr_executionWorkspace draft,
             qdr_itemType = ItImplementation, qdr_priority = idr_priority draft,
             qdr_prompt = idr_promptBody draft
               @ promptPackMetadataSection (ppk_id pack) i draft dependencies,
             qdr_queueTagName = js_first (idr_tags draft), qdr_title = title\<rparr>,
          ppi_reasoningEffort = idr_reasoningEffort draft, ppi_sourcePath = idr_path draft,
          ppi_suggestedDependencyIds = suggestedDependencyIds previous draft,
          ppi_tags = idr_tags draft, ppi_title = title,
          ppi_validationCommands = idr_validationCommands draft,
          ppi_validatorProfile = idr_validatorProfile draft\<rparr>)"

definition quoted :: "string \<Rightarrow> string" where
  "quoted s = [CHR 0x22] @ s @ [CHR 0x22]"

definition itemDiagnostics :: "PromptPackDependencyPolicy \<Rightarrow> string list \<Rightarrow> ItemDraft option
    \<Rightarrow> ItemDraft \<Rightarrow> nat \<Rightarrow> PromptPackDiagnostic list" where
  "itemDiagnostics policy usedIds previous draft index =
     (let i = itemId draft index; suggested = suggestedDependencyIds previous draft in
      (if i = []
       then [diagnostic MissingItemId None
               ''Prompt pack item is missing an id and no stable fallback could be inferred.''
               (idr_path draft) PpError] else [])
      @ (if i \<in> set usedIds
         then [diagnostic DuplicateItemId (Some i)
                 (''Prompt pack item id '' @ quoted i @ '' is duplicated.'') (idr_path draft) PpError]
         else [])
      @ (if js_blank (idr_promptBody draft)
         then [diagnostic MissingBody (Some i)
                 (''Prompt pack item '' @ quoted i @ '' has no prompt body.'') (idr_path draft) PpError]
         else [])
      @ (if policy = SuggestNumericOrder \<and> suggested \<noteq> []
         then [diagnostic NumericDependencySuggestion (Some i)
                 (''Item '' @ quoted i @ '' follows '' @ quoted (hd suggested)
                  @ '' numerically; treat that as a suggested dependency only unless the operator confirms it.'')
                 (idr_path draft) PpWarning]
         else []))"

text \<open>The \<open>map\<close> over the sorted drafts, with the ids used so far and the draft before.\<close>

fun normalizeDrafts :: "PromptPackMetadata \<Rightarrow> PromptPackDependencyPolicy \<Rightarrow> string list
    \<Rightarrow> ItemDraft option \<Rightarrow> nat \<Rightarrow> ItemDraft list
    \<Rightarrow> PromptPackImportItem list \<times> PromptPackDiagnostic list" where
  "normalizeDrafts pack policy usedIds previous index [] = ([], [])"
| "normalizeDrafts pack policy usedIds previous index (draft # drafts) =
     (let i = itemId draft index;
          (items, diagnostics) =
            normalizeDrafts pack policy (js_set_add i usedIds) (Some draft) (index + 1) drafts
      in (itemOfDraft pack policy previous draft index # items,
          itemDiagnostics policy usedIds previous draft index @ diagnostics))"

definition MAX_SAFE_INTEGER :: rat where
  "MAX_SAFE_INTEGER = 9007199254740991"

definition compareNumericOrder :: "rat option \<Rightarrow> rat option \<Rightarrow> js_number" where
  "compareNumericOrder left right =
     subtract_numbers (js_default MAX_SAFE_INTEGER left) (js_default MAX_SAFE_INTEGER right)"

definition sortedDrafts :: "ItemDraft list \<Rightarrow> ItemDraft list" where
  "sortedDrafts drafts =
     js_sort (\<lambda>left right. compareNumericOrder (idr_numericOrder left) (idr_numericOrder right)) drafts"

definition normalizeItems :: "ItemDraft list \<Rightarrow> PromptPackMetadata \<Rightarrow> PromptPackDependencyPolicy
    \<Rightarrow> PromptPackImportItem list \<times> PromptPackDiagnostic list" where
  "normalizeItems drafts pack policy = normalizeDrafts pack policy [] None 0 (sortedDrafts drafts)"

text \<open>The cycle search, with fuel for its depth.\<close>

definition packDeps :: "PromptPackImportItem list \<Rightarrow> string \<Rightarrow> string list" where
  "packDeps items i =
     (case List.find (\<lambda>item. ppi_id item = i) items of None \<Rightarrow> [] | Some item \<Rightarrow> ppi_dependencies item)"

fun packVisit :: "nat \<Rightarrow> PromptPackImportItem list \<Rightarrow> string set \<Rightarrow> string set \<Rightarrow> string
       \<Rightarrow> (bool \<times> string set \<times> string set) option"
  and packVisits :: "nat \<Rightarrow> PromptPackImportItem list \<Rightarrow> string set \<Rightarrow> string set \<Rightarrow> string list
       \<Rightarrow> (bool \<times> string set \<times> string set) option" where
  "packVisit 0 items visiting visited i = None"
| "packVisit (Suc fuel) items visiting visited i =
     (if i \<in> visiting then Some (True, visiting, visited)
      else if i \<in> visited then Some (False, visiting, visited)
      else case packVisits fuel items (insert i visiting) visited (packDeps items i) of
             None \<Rightarrow> None
           | Some (found, visiting', visited') \<Rightarrow> Some (found, visiting' - {i}, insert i visited'))"
| "packVisits fuel items visiting visited [] = Some (False, visiting, visited)"
| "packVisits fuel items visiting visited (d # ds) =
     (case packVisit fuel items visiting visited d of
        None \<Rightarrow> None
      | Some (found, visiting', visited') \<Rightarrow>
          if found then Some (True, visiting', visited')
          else packVisits fuel items visiting' visited' ds)"

definition hasDependencyCycle :: "string \<Rightarrow> PromptPackImportItem list \<Rightarrow> bool" where
  "hasDependencyCycle i items =
     (case packVisit (Suc (length items)) items {} {} i of None \<Rightarrow> False | Some (found, _, _) \<Rightarrow> found)"

definition validateDependencies :: "PromptPackImportItem list \<Rightarrow> PromptPackDiagnostic list" where
  "validateDependencies items =
     concat (map (\<lambda>item. concat (map (\<lambda>d.
         if d \<in> ppi_id ` set items then []
         else [diagnostic UnresolvedDependency (Some (ppi_id item))
                 (''Item '' @ quoted (ppi_id item) @ '' depends on missing item '' @ quoted d @ ''.'')
                 (ppi_sourcePath item) PpError]) (ppi_dependencies item))) items)
     @ concat (map (\<lambda>item.
         if hasDependencyCycle (ppi_id item) items
         then [diagnostic DependencyCycle (Some (ppi_id item))
                 (''Item '' @ quoted (ppi_id item) @ '' is part of a dependency cycle.'')
                 (ppi_sourcePath item) PpError]
         else []) items)"

definition isError :: "PromptPackDiagnostic \<Rightarrow> bool" where
  "isError d \<longleftrightarrow> ppd_severity d = PpError"

text \<open>The end of \<open>parsePromptPackImportPlan\<close>, from the drafts and the diagnostics made before.\<close>

definition planOfDrafts :: "PromptPackDiagnostic list \<Rightarrow> ItemDraft list \<Rightarrow> PromptPackMetadata
    \<Rightarrow> PromptPackDependencyPolicy \<Rightarrow> PromptPackImportPlan" where
  "planOfDrafts before drafts pack policy =
     (let (items, itemDiagnostics) = normalizeItems drafts pack policy;
          diagnostics = before @ itemDiagnostics @ validateDependencies items
      in \<lparr>ppl_dependencyPolicy = policy, ppl_diagnostics = diagnostics,
          ppl_errors = filter isError diagnostics, ppl_items = items, ppl_pack = pack,
          ppl_warnings = filter (\<lambda>d. ppd_severity d = PpWarning) diagnostics\<rparr>)"

section \<open>The two cycle searches\<close>

definition packGraph :: "PromptPackImportItem list \<Rightarrow> dependency_graph" where
  "packGraph items = map (\<lambda>item. (ppi_id item, ppi_dependencies item)) items"

lemma graphDeps_packGraph: "graphDeps (packGraph items) i = packDeps items i"
  by (induction items) (auto simp: graphDeps_def packGraph_def packDeps_def)

text \<open>
  The searches differ in what they do to the sets on the way out of a found cycle; nothing reads the
  sets after that.
\<close>

fun sameSearch :: "(bool \<times> string set \<times> string set) option
    \<Rightarrow> (bool \<times> string set \<times> string set) option \<Rightarrow> bool" where
  "sameSearch None None = True"
| "sameSearch (Some (f, vi, vd)) (Some (f', vi', vd')) =
     (f = f' \<and> (f \<or> vi = vi' \<and> vd = vd'))"
| "sameSearch _ _ = False"

lemma sameSearch_iff:
  "sameSearch a b \<longleftrightarrow>
     (a = None \<and> b = None)
     \<or> (\<exists>vi vd vi' vd'. a = Some (True, vi, vd) \<and> b = Some (True, vi', vd'))
     \<or> (\<exists>vi vd. a = Some (False, vi, vd) \<and> b = a)"
  by (cases "(a, b)" rule: sameSearch.cases) auto

lemma packVisit_agrees:
  "sameSearch (packVisit fuel items visiting visited i)
     (visitDep fuel (packGraph items) visiting visited i)"
  "sameSearch (packVisits fuel items visiting visited ds)
     (visitDeps fuel (packGraph items) visiting visited ds)"
proof (induction fuel items visiting visited i and fuel items visiting visited ds
    rule: packVisit_packVisits.induct)
  case (2 fuel items visiting visited i)
  then show ?case by (auto simp: visitDep.simps graphDeps_packGraph sameSearch_iff)
next
  case (4 fuel items visiting visited d ds)
  show ?case
  proof (cases "\<exists>vi vd. packVisit fuel items visiting visited d = Some (False, vi, vd)")
    case True
    then obtain vi vd where first: "packVisit fuel items visiting visited d = Some (False, vi, vd)"
      by blast
    with "4.IH"(1) have "visitDep fuel (packGraph items) visiting visited d = Some (False, vi, vd)"
      by (auto simp: sameSearch_iff)
    with first "4.IH"(2) [OF first refl refl] show ?thesis by (simp add: visitDeps.simps)
  next
    case False
    with "4.IH"(1) show ?thesis by (auto simp: visitDeps.simps sameSearch_iff)
  qed
qed simp_all

lemma hasDependencyCycle_iff: "hasDependencyCycle i items \<longleftrightarrow> reachesCycle (packGraph items) i"
proof -
  have "hasDependencyCycle i items = hasQueueDependencyCycle (packGraph items) i"
    using packVisit_agrees(1) [of "Suc (length items)" items "{}" "{}" i]
    by (auto simp: hasDependencyCycle_def hasQueueDependencyCycle_def packGraph_def sameSearch_iff)
  then show ?thesis by (simp add: hasQueueDependencyCycle_iff_reaches)
qed

section \<open>What a plan without errors is\<close>

lemma diagnostic_simps [simp]:
  "ppd_code (diagnostic c i m p s) = c" "ppd_severity (diagnostic c i m p s) = s"
  "isError (diagnostic c i m p s) \<longleftrightarrow> s = PpError"
  by (simp_all add: diagnostic_def isError_def)

lemma itemOfDraft_simps [simp]:
  "ppi_id (itemOfDraft pack policy previous draft index) = itemId draft index"
  "ppi_promptBody (itemOfDraft pack policy previous draft index) = idr_promptBody draft"
  "ppi_dependencies (itemOfDraft pack policy previous draft index) = itemDependencies policy previous draft"
  by (simp_all add: itemOfDraft_def Let_def)

lemma itemDiagnostics_errors:
  "filter isError (itemDiagnostics policy usedIds previous draft index) = [] \<longleftrightarrow>
     itemId draft index \<noteq> [] \<and> itemId draft index \<notin> set usedIds \<and> \<not> js_blank (idr_promptBody draft)"
  by (simp add: itemDiagnostics_def Let_def)

lemma normalizeDrafts_errors:
  "filter isError (snd (normalizeDrafts pack policy usedIds previous index drafts)) = [] \<longleftrightarrow>
     (let items = fst (normalizeDrafts pack policy usedIds previous index drafts) in
      distinct (map ppi_id items) \<and> set usedIds \<inter> set (map ppi_id items) = {}
      \<and> [] \<notin> set (map ppi_id items) \<and> (\<forall>item \<in> set items. \<not> js_blank (ppi_promptBody item)))"
proof (induction drafts arbitrary: usedIds previous index)
  case Nil
  then show ?case by simp
next
  case (Cons draft drafts)
  let ?i = "itemId draft index"
  have "filter isError (snd (normalizeDrafts pack policy usedIds previous index (draft # drafts))) = []
      \<longleftrightarrow> filter isError (itemDiagnostics policy usedIds previous draft index) = []
        \<and> filter isError (snd (normalizeDrafts pack policy (js_set_add ?i usedIds) (Some draft)
             (index + 1) drafts)) = []"
    by (simp add: Let_def case_prod_beta)
  then show ?case
    unfolding Cons.IH itemDiagnostics_errors by (auto simp: Let_def case_prod_beta set_js_set_add)
qed

lemma validateDependencies_errors:
  "filter isError (validateDependencies items) = validateDependencies items"
  by (rule filter_True) (auto simp: validateDependencies_def)

text \<open>The dependency graph of the items has no cycle, as a property of the relation.\<close>

definition packEdges :: "PromptPackImportItem list \<Rightarrow> (string \<times> string) set" where
  "packEdges items = {(x, y). y \<in> set (packDeps items x)}"

lemma packEdges_graph: "packEdges items = graphEdges (packGraph items)"
  by (simp add: packEdges_def graphEdges_def graphDeps_packGraph)

lemma packDeps_known: "y \<in> set (packDeps items x) \<Longrightarrow> x \<in> ppi_id ` set items"
proof -
  assume "y \<in> set (packDeps items x)"
  then obtain item where "List.find (\<lambda>item. ppi_id item = x) items = Some item"
    by (cases "List.find (\<lambda>item. ppi_id item = x) items") (simp_all add: packDeps_def)
  then have "item \<in> set items \<and> ppi_id item = x" by (rule find_Some_iff_mem)
  then show ?thesis by blast
qed

lemma no_cycle_reached_iff:
  "(\<forall>item \<in> set items. \<not> reachesCycle (packGraph items) (ppi_id item)) \<longleftrightarrow> acyclic (packEdges items)"
proof
  assume none: "\<forall>item \<in> set items. \<not> reachesCycle (packGraph items) (ppi_id item)"
  show "acyclic (packEdges items)"
  proof (rule acyclicI, intro allI notI)
    fix z assume cyc: "(z, z) \<in> (packEdges items)\<^sup>+"
    then obtain y where "(z, y) \<in> packEdges items" by (meson tranclD)
    then have "z \<in> ppi_id ` set items" by (auto simp: packEdges_def dest: packDeps_known)
    moreover from cyc have "reachesCycle (packGraph items) z"
      by (auto simp: reachesCycle_def packEdges_graph)
    ultimately show False using none by blast
  qed
next
  assume "acyclic (packEdges items)"
  then show "\<forall>item \<in> set items. \<not> reachesCycle (packGraph items) (ppi_id item)"
    by (auto simp: acyclic_def reachesCycle_def packEdges_graph)
qed

lemma concat_map_Nil_iff: "concat (map f xs) = [] \<longleftrightarrow> (\<forall>x \<in> set xs. f x = [])"
  by (induction xs) auto

lemma validateDependencies_Nil_iff:
  "validateDependencies items = [] \<longleftrightarrow>
     (\<forall>item \<in> set items. set (ppi_dependencies item) \<subseteq> ppi_id ` set items) \<and> acyclic (packEdges items)"
proof -
  have one: "(if b then [] else [x]) = [] \<longleftrightarrow> b" "(if b then [x] else []) = [] \<longleftrightarrow> \<not> b"
    for b and x :: PromptPackDiagnostic by (cases b; simp)+
  show ?thesis
    unfolding validateDependencies_def append_is_Nil_conv concat_map_Nil_iff one
      no_cycle_reached_iff [symmetric] hasDependencyCycle_iff
    by blast
qed

text \<open>The contract of a plan that may be imported.\<close>

definition packOk :: "PromptPackImportItem list \<Rightarrow> bool" where
  "packOk items \<longleftrightarrow>
     distinct (map ppi_id items) \<and> [] \<notin> ppi_id ` set items
     \<and> (\<forall>item \<in> set items. \<not> js_blank (ppi_promptBody item)
          \<and> set (ppi_dependencies item) \<subseteq> ppi_id ` set items)
     \<and> acyclic (packEdges items)"

lemma planOfDrafts_errors:
  "ppl_errors (planOfDrafts before drafts pack policy) = [] \<longleftrightarrow>
     (\<forall>d \<in> set before. \<not> isError d) \<and> packOk (ppl_items (planOfDrafts before drafts pack policy))"
proof -
  let ?n = "normalizeItems drafts pack policy"
  have items: "ppl_items (planOfDrafts before drafts pack policy) = fst ?n"
    and "ppl_errors (planOfDrafts before drafts pack policy)
      = filter isError before @ filter isError (snd ?n) @ validateDependencies (fst ?n)"
    by (simp_all add: planOfDrafts_def case_prod_beta Let_def validateDependencies_errors)
  then have "ppl_errors (planOfDrafts before drafts pack policy) = [] \<longleftrightarrow>
      filter isError before = [] \<and> filter isError (snd ?n) = [] \<and> validateDependencies (fst ?n) = []"
    by simp
  moreover have "filter isError (snd ?n) = [] \<longleftrightarrow>
      distinct (map ppi_id (fst ?n)) \<and> [] \<notin> set (map ppi_id (fst ?n))
      \<and> (\<forall>item \<in> set (fst ?n). \<not> js_blank (ppi_promptBody item))"
    unfolding normalizeItems_def normalizeDrafts_errors by (simp add: Let_def)
  ultimately show ?thesis
    unfolding items packOk_def validateDependencies_Nil_iff by (auto simp: filter_empty_conv)
qed

text \<open>The ids of a plan are slugs: no space at either end.\<close>

lemma slugify_chars: "c \<in> set (slugify value) \<Longrightarrow> slugChar c \<or> c = CHR ''-''"
  using set_collapse by (fastforce simp: slugify_def js_strip_def dest!: set_dropWhileD)

lemma slugChar_not_space: "slugChar c \<or> c = CHR ''-'' \<Longrightarrow> \<not> js_whitespace c"
  by (auto simp: slugChar_def js_whitespace_def Let_def)

lemma slugify_trimmed [simp]: "js_trim (slugify value) = slugify value"
proof (cases "slugify value = []")
  case False
  then show ?thesis
    using slugify_chars slugChar_not_space by (intro js_trim_id) (meson hd_in_set last_in_set)+
qed simp

lemma normalizeDrafts_ids:
  "item \<in> set (fst (normalizeDrafts pack policy usedIds previous index drafts)) \<Longrightarrow>
   js_trim (ppi_id item) = ppi_id item"
  by (induction drafts arbitrary: usedIds previous index)
     (auto simp: Let_def case_prod_beta itemId_def)

lemma plan_ids_trimmed:
  "item \<in> set (ppl_items (planOfDrafts before drafts pack policy)) \<Longrightarrow> js_trim (ppi_id item) = ppi_id item"
  by (auto simp: planOfDrafts_def normalizeItems_def Let_def case_prod_beta dest!: normalizeDrafts_ids)

text \<open>
  C25. A plan has no error exactly when nothing went wrong before its items and the items are a
  dependency graph that can be imported: every item has an id, the ids are distinct, every prompt has
  text, every dependency names an item of the pack, and no chain of dependencies leads back to its
  start. The two searches of the file, the loop over the dependencies and the fuel cost nothing.
\<close>

theorem plan_without_errors_iff:
  "ppl_errors (planOfDrafts before drafts pack policy) = [] \<longleftrightarrow>
     (let items = ppl_items (planOfDrafts before drafts pack policy) in
      list_all (\<lambda>d. \<not> isError d) before
      \<and> distinct (map ppi_id items) \<and> [] \<notin> ppi_id ` set items
      \<and> list_all (\<lambda>item. \<not> js_blank (ppi_promptBody item)
           \<and> set (ppi_dependencies item) \<subseteq> ppi_id ` set items) items
      \<and> acyclic (packEdges items))"
  unfolding Let_def using planOfDrafts_errors by (simp add: packOk_def list_all_iff)

end
