(* ===== verification/Circular_Search.thy ===== *)
theory Circular_Search
  imports Dependencies
begin

text \<open>
  The search for circular tasks of \<open>workbench/queue/smartQueuePromptPackMaterialization.ts\<close>
  (\<open>circularTaskIds\<close>), on a graph of upstream ids: a depth-first search that keeps its path as a set
  and as a stack and collects what lies between a node and its return to the path.

  The state of the closure is a record threaded through the visits; the depth is bounded by fuel,
  and \<open>circularVisits_enough\<close> shows that one unit more than the number of entries is enough. The
  nodes it collects lie on cycles, and it collects none only when no cycle can be reached. It does
  not collect every node on a cycle: a node whose edge leads to a finished node is left out.
\<close>

section \<open>Model\<close>

record circular_search =
  cs_visiting :: "string set"
  cs_visited :: "string set"
  cs_affected :: "string list"
  cs_stack :: "string list"

definition closeCycle :: "string \<Rightarrow> circular_search \<Rightarrow> circular_search" where
  "closeCycle taskId st =
     st\<lparr>cs_affected := js_set_add taskId
          (fold js_set_add (dropWhile (\<lambda>t. t \<noteq> taskId) (cs_stack st)) (cs_affected st))\<rparr>"

definition pushTask :: "string \<Rightarrow> circular_search \<Rightarrow> circular_search" where
  "pushTask taskId st =
     st\<lparr>cs_visiting := insert taskId (cs_visiting st), cs_stack := cs_stack st @ [taskId]\<rparr>"

definition popTask :: "string \<Rightarrow> circular_search \<Rightarrow> circular_search" where
  "popTask taskId st =
     st\<lparr>cs_stack := butlast (cs_stack st), cs_visiting := cs_visiting st - {taskId},
        cs_visited := insert taskId (cs_visited st)\<rparr>"

fun circularVisit :: "nat \<Rightarrow> dependency_graph \<Rightarrow> circular_search \<Rightarrow> string \<Rightarrow> circular_search option"
  and circularVisits :: "nat \<Rightarrow> dependency_graph \<Rightarrow> circular_search \<Rightarrow> string list
       \<Rightarrow> circular_search option" where
  "circularVisit 0 g st taskId = None"
| "circularVisit (Suc fuel) g st taskId =
     (if taskId \<in> cs_visiting st then Some (closeCycle taskId st)
      else if taskId \<in> cs_visited st then Some st
      else map_option (popTask taskId) (circularVisits fuel g (pushTask taskId st) (graphDeps g taskId)))"
| "circularVisits fuel g st [] = Some st"
| "circularVisits fuel g st (t # ts) =
     (case circularVisit fuel g st t of None \<Rightarrow> None | Some st' \<Rightarrow> circularVisits fuel g st' ts)"

definition noSearch :: circular_search where
  "noSearch = \<lparr>cs_visiting = {}, cs_visited = {}, cs_affected = [], cs_stack = []\<rparr>"

section \<open>Correctness of the search for circular tasks\<close>

lemma closeCycle_simps [simp]:
  "cs_visiting (closeCycle t st) = cs_visiting st" "cs_visited (closeCycle t st) = cs_visited st"
  "cs_stack (closeCycle t st) = cs_stack st"
  "set (cs_affected (closeCycle t st)) =
     insert t (set (cs_affected st) \<union> set (dropWhile (\<lambda>x. x \<noteq> t) (cs_stack st)))"
  by (simp_all add: closeCycle_def set_js_set_add fold_js_set_add)

lemma pushTask_simps [simp]:
  "cs_visiting (pushTask t st) = insert t (cs_visiting st)" "cs_visited (pushTask t st) = cs_visited st"
  "cs_stack (pushTask t st) = cs_stack st @ [t]" "cs_affected (pushTask t st) = cs_affected st"
  by (simp_all add: pushTask_def)

lemma popTask_simps [simp]:
  "cs_visiting (popTask t st) = cs_visiting st - {t}" "cs_visited (popTask t st) = insert t (cs_visited st)"
  "cs_stack (popTask t st) = butlast (cs_stack st)" "cs_affected (popTask t st) = cs_affected st"
  by (simp_all add: popTask_def)

text \<open>A visit leaves the path as it found it, and only adds to what it collects.\<close>

definition searchKeeps :: "circular_search \<Rightarrow> circular_search \<Rightarrow> bool" where
  "searchKeeps st st' \<longleftrightarrow>
     cs_visiting st' = cs_visiting st \<and> cs_stack st' = cs_stack st
     \<and> set (cs_affected st) \<subseteq> set (cs_affected st')"

lemma circularVisit_keeps:
  "circularVisit fuel g st t = Some st' \<Longrightarrow> searchKeeps st st'"
  "circularVisits fuel g st ts = Some st' \<Longrightarrow> searchKeeps st st'"
proof (induction fuel g st t and fuel g st ts arbitrary: st' and st' rule: circularVisit_circularVisits.induct)
  case (2 fuel g st t)
  show ?case
  proof (cases "t \<in> cs_visiting st \<or> t \<in> cs_visited st")
    case True
    with "2.prems" show ?thesis by (auto simp: searchKeeps_def split: if_splits)
  next
    case False
    with "2.prems" obtain st1 where c: "circularVisits fuel g (pushTask t st) (graphDeps g t) = Some st1"
      and st': "st' = popTask t st1" by auto
    have "searchKeeps (pushTask t st) st1" using "2.IH" False c by blast
    with st' False show ?thesis by (simp add: searchKeeps_def)
  qed
next
  case (4 fuel g st t ts)
  from "4.prems" obtain st1 where "circularVisit fuel g st t = Some st1"
    "circularVisits fuel g st1 ts = Some st'" by (auto split: option.splits)
  then have "searchKeeps st st1" "searchKeeps st1 st'" using "4.IH" by blast+
  then show ?case by (auto simp: searchKeeps_def)
qed (auto simp: searchKeeps_def)

lemma circularVisit_enough:
  "card (graphKeys g - cs_visiting st) < fuel \<Longrightarrow> circularVisit fuel g st t \<noteq> None"
proof (induction fuel arbitrary: st t)
  case 0
  then show ?case by simp
next
  case (Suc fuel)
  have children: "circularVisits fuel g st1 ts \<noteq> None"
    if "card (graphKeys g - cs_visiting st1) < fuel" for st1 ts
    using that
  proof (induction ts arbitrary: st1)
    case Nil
    then show ?case by simp
  next
    case (Cons t1 ts)
    then obtain st2 where v: "circularVisit fuel g st1 t1 = Some st2" using Suc.IH by blast
    then have "cs_visiting st2 = cs_visiting st1"
      using circularVisit_keeps(1) [OF v] by (simp add: searchKeeps_def)
    with v Cons show ?case by simp
  qed
  show ?case
  proof (cases "t \<in> graphKeys g - cs_visiting st")
    case True
    then have "card (graphKeys g - insert t (cs_visiting st)) < card (graphKeys g - cs_visiting st)"
      by (intro psubset_card_mono) auto
    then have "circularVisits fuel g (pushTask t st) (graphDeps g t) \<noteq> None"
      using Suc.prems by (intro children) simp
    then show ?thesis by auto
  next
    case False
    show ?thesis
    proof (cases "t \<in> cs_visiting st")
      case False
      with \<open>t \<notin> graphKeys g - cs_visiting st\<close> have "graphDeps g t = []" by (simp add: graphDeps_nokey)
      then show ?thesis by simp
    qed simp
  qed
qed

lemma circularVisits_enough:
  "card (graphKeys g - cs_visiting st) < fuel \<Longrightarrow> circularVisits fuel g st ts \<noteq> None"
proof (induction ts arbitrary: st)
  case (Cons t ts)
  then obtain st1 where v: "circularVisit fuel g st t = Some st1" using circularVisit_enough by blast
  then have "cs_visiting st1 = cs_visiting st"
    using circularVisit_keeps(1) [OF v] by (simp add: searchKeeps_def)
  with v Cons show ?case by simp
qed simp

text \<open>Soundness: the stack is a path of the graph, so what lies between a node and its return is a cycle.\<close>

definition onPath :: "dependency_graph \<Rightarrow> circular_search \<Rightarrow> bool" where
  "onPath g st \<longleftrightarrow>
     successively (\<lambda>x y. (x, y) \<in> graphEdges g) (cs_stack st) \<and> cs_visiting st = set (cs_stack st)
     \<and> (\<forall>x \<in> set (cs_affected st). (x, x) \<in> (graphEdges g)\<^sup>+)"

definition mayFollow :: "dependency_graph \<Rightarrow> circular_search \<Rightarrow> string \<Rightarrow> bool" where
  "mayFollow g st t \<longleftrightarrow> cs_stack st = [] \<or> (last (cs_stack st), t) \<in> graphEdges g"

lemma path_between:
  "successively (\<lambda>x y. (x, y) \<in> E) (x # xs) \<Longrightarrow> y \<in> set (x # xs) \<Longrightarrow>
   (x, y) \<in> E\<^sup>* \<and> (y, last (x # xs)) \<in> E\<^sup>*"
proof (induction xs arbitrary: x y)
  case (Cons z zs)
  then have e: "(x, z) \<in> E" and s: "successively (\<lambda>x y. (x, y) \<in> E) (z # zs)" by simp_all
  have "(z, last (z # zs)) \<in> E\<^sup>*" using Cons.IH [OF s] by simp
  with e have l: "(x, last (x # z # zs)) \<in> E\<^sup>*" by (simp add: converse_rtrancl_into_rtrancl)
  show ?case
  proof (cases "y = x")
    case True
    with l show ?thesis by simp
  next
    case False
    with Cons.prems have "y \<in> set (z # zs)" by simp
    from Cons.IH [OF s this] e show ?thesis by (simp add: converse_rtrancl_into_rtrancl)
  qed
qed simp

lemma closed_path_is_cycle:
  assumes st: "onPath g st" and t: "t \<in> set (cs_stack st)" and f: "mayFollow g st t"
    and x: "x \<in> set (dropWhile (\<lambda>y. y \<noteq> t) (cs_stack st))"
  shows "(x, x) \<in> (graphEdges g)\<^sup>+"
proof -
  let ?d = "dropWhile (\<lambda>y. y \<noteq> t) (cs_stack st)"
  obtain xs where d: "?d = t # xs"
    using t by (metis (mono_tags, lifting) dropWhile_eq_Nil_conv hd_dropWhile list.exhaust_sel)
  have app: "cs_stack st = takeWhile (\<lambda>y. y \<noteq> t) (cs_stack st) @ t # xs" using d by (metis takeWhile_dropWhile_id)
  have "successively (\<lambda>x y. (x, y) \<in> graphEdges g) (takeWhile (\<lambda>y. y \<noteq> t) (cs_stack st) @ t # xs)"
    using st unfolding onPath_def app [symmetric] by blast
  then have s: "successively (\<lambda>x y. (x, y) \<in> graphEdges g) (t # xs)"
    by (simp add: successively_append_iff)
  have "last (cs_stack st) = last (t # xs)" by (subst app) simp
  then have e: "(last (t # xs), t) \<in> graphEdges g" using f t by (auto simp: mayFollow_def)
  from path_between [OF s, of x] x d have "(t, x) \<in> (graphEdges g)\<^sup>*" "(x, last (t # xs)) \<in> (graphEdges g)\<^sup>*"
    by auto
  with e show ?thesis by (meson rtrancl_into_trancl1 trancl_rtrancl_trancl)
qed

lemma dropWhile_reaches: "t \<in> set xs \<Longrightarrow> t \<in> set (dropWhile (\<lambda>y. y \<noteq> t) xs)"
  by (induction xs) auto

lemma circularVisit_sound:
  "circularVisit fuel g st t = Some st' \<Longrightarrow> onPath g st \<Longrightarrow> mayFollow g st t \<Longrightarrow> onPath g st'"
  "circularVisits fuel g st ts = Some st' \<Longrightarrow> onPath g st \<Longrightarrow> \<forall>t \<in> set ts. mayFollow g st t \<Longrightarrow> onPath g st'"
proof (induction fuel g st t and fuel g st ts arbitrary: st' and st' rule: circularVisit_circularVisits.induct)
  case (2 fuel g st t)
  consider (closes) "t \<in> cs_visiting st" | (finished) "t \<notin> cs_visiting st" "t \<in> cs_visited st"
    | (deeper) "t \<notin> cs_visiting st" "t \<notin> cs_visited st" by blast
  then show ?case
  proof cases
    case closes
    with "2.prems" have st': "st' = closeCycle t st" and t: "t \<in> set (cs_stack st)"
      by (simp_all add: onPath_def)
    note cyc = closed_path_is_cycle [OF "2.prems"(2) t "2.prems"(3)]
    have "(t, t) \<in> (graphEdges g)\<^sup>+" using cyc [OF dropWhile_reaches [OF t]] .
    with cyc "2.prems"(2) show ?thesis unfolding st' onPath_def by auto
  next
    case finished
    with "2.prems" show ?thesis by simp
  next
    case deeper
    with "2.prems"(1) obtain st1 where c: "circularVisits fuel g (pushTask t st) (graphDeps g t) = Some st1"
      and st': "st' = popTask t st1" by auto
    have "onPath g (pushTask t st)"
      using "2.prems"(2,3) by (auto simp: onPath_def mayFollow_def successively_append_iff)
    moreover have "\<forall>d \<in> set (graphDeps g t). mayFollow g (pushTask t st) d"
      by (simp add: mayFollow_def graphEdges_def)
    ultimately have p: "onPath g st1" using "2.IH" deeper c by blast
    have k: "cs_stack st1 = cs_stack st @ [t]" "cs_visiting st1 = insert t (cs_visiting st)"
      using circularVisit_keeps(2) [OF c] by (simp_all add: searchKeeps_def)
    have "cs_visiting st = set (cs_stack st)"
      "successively (\<lambda>x y. (x, y) \<in> graphEdges g) (cs_stack st)"
      using "2.prems"(2) by (simp_all add: onPath_def)
    then show ?thesis using p k deeper(1) unfolding st' onPath_def by simp
  qed
next
  case (4 fuel g st t ts)
  from "4.prems"(1) obtain st1 where c: "circularVisit fuel g st t = Some st1"
    "circularVisits fuel g st1 ts = Some st'" by (auto split: option.splits)
  have "onPath g st1" using "4.IH"(1) c(1) "4.prems"(2,3) by simp
  moreover have "\<forall>t \<in> set ts. mayFollow g st1 t"
    using circularVisit_keeps(1) [OF c(1)] "4.prems"(3) by (auto simp: mayFollow_def searchKeeps_def)
  ultimately show ?case using "4.IH"(2) c by blast
qed simp_all

text \<open>Completeness: a search that collects nothing is the search of \<open>Dependencies\<close>.\<close>

lemma circularVisit_nothing:
  "circularVisit fuel g st t = Some st' \<Longrightarrow> cs_affected st' = [] \<Longrightarrow>
     visitDep fuel g (cs_visiting st) (cs_visited st) t = Some (False, cs_visiting st', cs_visited st')"
  "circularVisits fuel g st ts = Some st' \<Longrightarrow> cs_affected st' = [] \<Longrightarrow>
     visitDeps fuel g (cs_visiting st) (cs_visited st) ts = Some (False, cs_visiting st', cs_visited st')"
proof (induction fuel g st t and fuel g st ts arbitrary: st' and st' rule: circularVisit_circularVisits.induct)
  case (2 fuel g st t)
  have "t \<notin> cs_visiting st"
  proof
    assume t: "t \<in> cs_visiting st"
    with "2.prems"(1) have "st' = closeCycle t st" by simp
    then have "t \<in> set (cs_affected st')" by simp
    with "2.prems"(2) show False by simp
  qed
  with 2 show ?case by (auto simp: visitDep.simps)
next
  case (4 fuel g st t ts)
  from "4.prems"(1) obtain st1 where c: "circularVisit fuel g st t = Some st1"
    "circularVisits fuel g st1 ts = Some st'" by (auto split: option.splits)
  moreover have "cs_affected st1 = []"
    using circularVisit_keeps(2) [OF c(2)] "4.prems"(2) by (simp add: searchKeeps_def)
  ultimately show ?case using 4 by (simp add: visitDeps.simps)
qed simp_all

lemma circular_search_answers:
  obtains st where "circularVisits (Suc (length g)) g noSearch ts = Some st"
proof -
  have "card (graphKeys g - cs_visiting noSearch) < Suc (length g)"
    using card_graphKeys [of g] by (simp add: noSearch_def less_Suc_eq_le)
  then show ?thesis using circularVisits_enough that by blast
qed

lemma circular_search_sound:
  assumes "circularVisits fuel g noSearch ts = Some st" "x \<in> set (cs_affected st)"
  shows "(x, x) \<in> (graphEdges g)\<^sup>+"
proof -
  have "onPath g noSearch" "\<forall>t \<in> set ts. mayFollow g noSearch t"
    by (simp_all add: onPath_def noSearch_def mayFollow_def)
  then have "onPath g st" by (rule circularVisit_sound(2) [OF assms(1)])
  with assms(2) show ?thesis by (simp add: onPath_def)
qed

lemma circular_search_complete:
  assumes "circularVisits fuel g noSearch ts = Some st" "cs_affected st = []" "t \<in> set ts"
  shows "(t, t) \<notin> (graphEdges g)\<^sup>+"
proof -
  have "visitDeps fuel g {} {} ts = Some (False, cs_visiting st, cs_visited st)"
    using circularVisit_nothing(2) [OF assms(1,2)] by (simp add: noSearch_def)
  then have "finishedOk g (cs_visited st)" "set ts \<subseteq> cs_visited st"
    using visit_complete(2) visit_restores(2) by (fastforce simp: finishedOk_def)+
  with assms(3) show ?thesis by (auto simp: finishedOk_def)
qed

text \<open>Over starting points that include every node with an edge, nothing collected means no cycle.\<close>

lemma circular_search_acyclic:
  assumes run: "circularVisits fuel g noSearch ts = Some st" and keys: "graphKeys g \<subseteq> set ts"
  shows "cs_affected st = [] \<longleftrightarrow> acyclic (graphEdges g)"
proof
  assume none: "cs_affected st = []"
  show "acyclic (graphEdges g)"
  proof (rule acyclicI, intro allI notI)
    fix z assume c: "(z, z) \<in> (graphEdges g)\<^sup>+"
    then obtain y where "(z, y) \<in> graphEdges g" by (meson tranclD)
    then have "z \<in> graphKeys g" using graphDeps_nokey by (fastforce simp: graphEdges_def)
    then show False using circular_search_complete [OF run none] keys c by blast
  qed
next
  assume "acyclic (graphEdges g)"
  then show "cs_affected st = []"
    using circular_search_sound [OF run] by (fastforce simp: acyclic_def intro: last_in_set)
qed

text \<open>The search is incomplete: here \<open>c\<close> lies on the cycle a, c, b but is not collected.\<close>

lemma circular_task_missed:
  "map_option cs_affected (circularVisits 4 [(''a'', [''b'', ''c'']), (''b'', [''a'']), (''c'', [''b''])]
       noSearch [''a'', ''b'', ''c'']) = Some [''a'', ''b'']
   \<and> (''c'', ''c'') \<in> (graphEdges [(''a'', [''b'', ''c'']), (''b'', [''a'']), (''c'', [''b''])])\<^sup>+"
proof
  let ?g = "[(''a'', [''b'', ''c'']), (''b'', [''a'']), (''c'', [''b''])]"
  show "map_option cs_affected (circularVisits 4 ?g noSearch [''a'', ''b'', ''c'']) = Some [''a'', ''b'']"
    by code_simp
  have "(''c'', ''b'') \<in> graphEdges ?g" "(''b'', ''a'') \<in> graphEdges ?g" "(''a'', ''c'') \<in> graphEdges ?g"
    by (simp_all add: graphEdges_def graphDeps_def)
  then show "(''c'', ''c'') \<in> (graphEdges ?g)\<^sup>+" by (meson trancl.intros)
qed

end
