(* ===== verification/Prompt_Queue.thy ===== *)
theory Prompt_Queue
  imports Smart_Queue Json Js_Text Circular_Search
begin

text \<open>
  From a prompt pack to the graph of the smart queue,
  \<open>workbench/queue/smartQueuePromptPackMaterialization.ts\<close>: the records of the prompts, the map from
  dependency references to tasks, the validation blockers, the dependencies, the search for circular
  tasks, and the gate and human status of every task.

  A setting is a JSON value and \<open>String(value)\<close> is \<open>jsText\<close>. A prompt number is a rational number;
  \<open>numberText\<close> prints it with up to three decimals, which is what the numbers of prompt files have.
  The mutable map of blockers is a list of pairs in insertion order, threaded through the rounds.
\<close>

section \<open>Data\<close>

type_synonym pack_settings = "(string \<times> json) list"

datatype PromptDependencyReference =
    RefText string
  | RefNumber rat
  | RefPrompt "string option" "rat option"

record SmartQueuePromptInput =
  spi_promptId :: "string option"
  spi_promptNumber :: "rat option"
  spi_title :: string
  spi_body :: string
  spi_dependencies :: "PromptDependencyReference list option"
  spi_requiredSettings :: "string list option"
  spi_settings :: "pack_settings option"
  spi_sourceName :: "string option"
  spi_sourcePath :: "string option"

record SmartQueuePromptPackInput =
  spp_sourcePackId :: "string option"
  spp_sourceName :: "string option"
  spp_sourcePath :: "string option"
  spp_defaultSettings :: "pack_settings option"
  spp_prompts :: "SmartQueuePromptInput list"
  spp_requiredSettings :: "string list option"

record MaterializedDependency =
  md_dependencyId :: string
  md_downstreamTaskId :: string
  md_sourceDependencyReference :: string
  md_sourceDownstreamPromptId :: string
  md_upstreamTaskId :: string

datatype MaterializationIssueCode =
  IssCircularDependency | IssMissingConfig | IssMissingDependency | IssMissingPrompt

record MaterializationIssue =
  mi_affectedTaskIds :: "string list"
  mi_code :: MaterializationIssueCode
  mi_message :: string
  mi_reason :: string
  mi_sourcePromptId :: "string option"

record MaterializedSource =
  ms_packId :: string
  ms_packName :: "string option"
  ms_packPath :: "string option"
  ms_promptId :: string
  ms_promptNumber :: rat
  ms_sourceName :: "string option"
  ms_sourcePath :: "string option"

record MaterializedTask =
  mt_blockedReason :: "string option"
  mt_blockers :: "SmartQueueBlocker list"
  mt_dependencyGate :: SmartQueueDependencyGate
  mt_humanStatus :: SmartQueueHumanStatus
  mt_lifecycle :: SmartQueueTaskLifecycle
  mt_order :: nat
  mt_prompt :: string
  mt_requestedDependencyReferences :: "string list"
  mt_settings :: pack_settings
  mt_source :: MaterializedSource
  mt_taskId :: string
  mt_title :: string
  mt_upstreamTaskIds :: "string list"

record MaterializationSummary =
  sm_blockedTaskCount :: nat
  sm_dependencyCount :: nat
  sm_readyTaskCount :: nat
  sm_taskCount :: nat
  sm_waitingDependencyCount :: nat

record MaterializationPreview =
  mp_dependencies :: "MaterializedDependency list"
  mp_issues :: "MaterializationIssue list"
  mp_queueId :: string
  mp_summary :: MaterializationSummary
  mp_tasks :: "MaterializedTask list"

record PromptRecord =
  pr_input :: SmartQueuePromptInput
  pr_order :: nat
  pr_sourcePromptId :: string
  pr_sourcePromptNumber :: rat
  pr_taskId :: string

record ValidationBlocker =
  vb_kind :: SmartQueueBlockerKind
  vb_reason :: string

definition SMART_QUEUE_WORKSPACE_QUEUE_ID :: string where
  "SMART_QUEUE_WORKSPACE_QUEUE_ID = ''workspace-queue''"

section \<open>Text of numbers and settings\<close>

definition numberText :: "rat \<Rightarrow> string" where
  "numberText x =
     (let n = nat \<lfloor>\<bar>x\<bar> * 1000 + 1 / 2\<rfloor>;
          whole = (if x < 0 then ''-'' else []) @ js_nat_string (n div 1000);
          frac = rev (dropWhile (\<lambda>c. c = CHR ''0'')
            (rev (js_pad_start 3 (CHR ''0'') (js_nat_string (n mod 1000)))))
      in if frac = [] then whole else whole @ ''.'' @ frac)"

definition padPromptNumber :: "rat \<Rightarrow> string" where
  "padPromptNumber n = js_pad_start 3 (CHR ''0'') (numberText n)"

fun jsText :: "json \<Rightarrow> string" where
  "jsText JNull = ''null''"
| "jsText (JBool b) = (if b then ''true'' else ''false'')"
| "jsText (JNum n) = jsonInt n"
| "jsText (JStr s) = s"
| "jsText (JArr xs) = js_join '','' (map (\<lambda>x. if x = JNull then [] else jsText x) xs)"
| "jsText (JObj _) = ''[object Object]''"

definition slugText :: "string \<Rightarrow> string" where
  "slugText value =
     js_strip (CHR ''-'') (js_collapse_runs (\<lambda>c. \<not> tagIdChar c) (CHR ''-'') (js_lower (js_trim value)))"

definition queueTaskId :: "string \<Rightarrow> string \<Rightarrow> string" where
  "queueTaskId packId sourcePromptId = ''queue-task-'' @ slugText packId @ ''-'' @ slugText sourcePromptId"

section \<open>Records and references\<close>

definition promptRecord :: "string \<Rightarrow> SmartQueuePromptInput \<Rightarrow> nat \<Rightarrow> PromptRecord" where
  "promptRecord packId prompt index =
     (let number = js_default (of_nat (index + 1)) (spi_promptNumber prompt);
          promptId = js_or_str (js_trim (js_default [] (spi_promptId prompt))) (padPromptNumber number)
      in \<lparr>pr_input = prompt, pr_order = index + 1, pr_sourcePromptId = promptId,
          pr_sourcePromptNumber = number, pr_taskId = queueTaskId packId promptId\<rparr>)"

definition promptReferenceMap :: "PromptRecord list \<Rightarrow> (string \<times> string) list" where
  "promptReferenceMap records =
     fold (\<lambda>r refs.
         AList.update (padPromptNumber (pr_sourcePromptNumber r)) (pr_taskId r)
           (AList.update (numberText (pr_sourcePromptNumber r)) (pr_taskId r)
             (AList.update (pr_sourcePromptId r) (pr_taskId r) refs))) records []"

fun formatDependencyReference :: "PromptDependencyReference \<Rightarrow> string" where
  "formatDependencyReference (RefNumber n) = numberText n"
| "formatDependencyReference (RefText s) = s"
| "formatDependencyReference (RefPrompt promptId promptNumber) =
     (if js_has_text promptId then js_trim (the promptId)
      else case promptNumber of Some n \<Rightarrow> numberText n | None \<Rightarrow> [])"

definition dependencyReferences :: "SmartQueuePromptInput \<Rightarrow> string list" where
  "dependencyReferences prompt = map formatDependencyReference (js_default [] (spi_dependencies prompt))"

definition mergeSettings :: "pack_settings option \<Rightarrow> pack_settings option \<Rightarrow> pack_settings" where
  "mergeSettings defaults overrides =
     fold (\<lambda>(key, value) merged. AList.update key value merged)
       (js_default [] overrides) (js_default [] defaults)"

definition requiredSettings :: "SmartQueuePromptPackInput \<Rightarrow> PromptRecord \<Rightarrow> string list" where
  "requiredSettings pack r =
     js_default [] (spp_requiredSettings pack) @ js_default [] (spi_requiredSettings (pr_input r))"

definition hasSetting :: "pack_settings \<Rightarrow> string \<Rightarrow> bool" where
  "hasSetting settings settingName \<longleftrightarrow>
     (case map_of settings settingName of
        None \<Rightarrow> False
      | Some value \<Rightarrow> value \<noteq> JNull \<and> js_trim (jsText value) \<noteq> [])"

section \<open>Validation\<close>

type_synonym blocker_map = "(string \<times> ValidationBlocker list) list"

definition addValidationBlocker :: "string \<Rightarrow> ValidationBlocker \<Rightarrow> blocker_map \<Rightarrow> blocker_map" where
  "addValidationBlocker taskId blocker blockersByTaskId =
     (let blockers = js_default [] (map_of blockersByTaskId taskId) in
      AList.update taskId (if blocker \<in> set blockers then blockers else blockers @ [blocker])
        blockersByTaskId)"

type_synonym validation_state = "blocker_map \<times> MaterializationIssue list"

definition report :: "string \<Rightarrow> ValidationBlocker \<Rightarrow> MaterializationIssue
    \<Rightarrow> validation_state \<Rightarrow> validation_state" where
  "report taskId blocker iss st =
     (case st of (blockers, issues) \<Rightarrow> (addValidationBlocker taskId blocker blockers, issues @ [iss]))"

definition inQuotes :: "string \<Rightarrow> string" where
  "inQuotes s = [CHR 0x22] @ s @ [CHR 0x22]"

definition addPromptValidationIssues :: "SmartQueuePromptPackInput \<Rightarrow> (string \<times> string) list
    \<Rightarrow> PromptRecord \<Rightarrow> validation_state \<Rightarrow> validation_state" where
  "addPromptValidationIssues pack promptRefToTaskId r st =
     (let taskId = pr_taskId r; promptId = pr_sourcePromptId r;
          settings = mergeSettings (spp_defaultSettings pack) (spi_settings (pr_input r));
          st1 = (if js_blank (spi_body (pr_input r))
            then report taskId \<lparr>vb_kind = BkMissingPrompt, vb_reason = ''missing prompt''\<rparr>
              \<lparr>mi_affectedTaskIds = [taskId], mi_code = IssMissingPrompt,
               mi_message = ''Prompt '' @ inQuotes promptId @ '' is missing prompt text.'',
               mi_reason = ''Blocked: missing prompt'', mi_sourcePromptId = Some promptId\<rparr> st
            else st);
          st2 = (case List.find (\<lambda>name. \<not> hasSetting settings name) (requiredSettings pack r) of
              None \<Rightarrow> st1
            | Some missing \<Rightarrow> if missing = [] then st1 else
                report taskId \<lparr>vb_kind = BkMissingConfig, vb_reason = ''missing config''\<rparr>
                  \<lparr>mi_affectedTaskIds = [taskId], mi_code = IssMissingConfig,
                   mi_message = ''Prompt '' @ inQuotes promptId
                     @ '' is missing required Queue setting '' @ inQuotes missing @ ''.'',
                   mi_reason = ''Blocked: missing config'', mi_sourcePromptId = Some promptId\<rparr> st1)
      in case List.find (\<lambda>ref. map_of promptRefToTaskId ref = None) (dependencyReferences (pr_input r)) of
           None \<Rightarrow> st2
         | Some missing \<Rightarrow>
             report taskId \<lparr>vb_kind = BkMissingConfig, vb_reason = ''missing dependency''\<rparr>
               \<lparr>mi_affectedTaskIds = [taskId], mi_code = IssMissingDependency,
                mi_message = ''Prompt '' @ inQuotes promptId @ '' depends on missing prompt ''
                  @ inQuotes missing @ ''.'',
                mi_reason = ''Blocked: missing dependency'', mi_sourcePromptId = Some promptId\<rparr> st2)"

definition materializedDependencies ::
    "PromptRecord list \<Rightarrow> (string \<times> string) list \<Rightarrow> MaterializedDependency list" where
  "materializedDependencies records promptRefToTaskId =
     concat (map (\<lambda>r. concat (map (\<lambda>ref.
         case map_of promptRefToTaskId ref of
           None \<Rightarrow> []
         | Some upstreamTaskId \<Rightarrow>
             if upstreamTaskId = [] then []
             else [\<lparr>md_dependencyId = upstreamTaskId @ ''->'' @ pr_taskId r,
                    md_downstreamTaskId = pr_taskId r, md_sourceDependencyReference = ref,
                    md_sourceDownstreamPromptId = pr_sourcePromptId r,
                    md_upstreamTaskId = upstreamTaskId\<rparr>])
         (dependencyReferences (pr_input r)))) records)"

section \<open>Circular tasks\<close>

definition upstreamGraph :: "MaterializedDependency list \<Rightarrow> dependency_graph" where
  "upstreamGraph dependencies =
     fold (\<lambda>d ups. AList.update (md_downstreamTaskId d)
         (js_default [] (map_of ups (md_downstreamTaskId d)) @ [md_upstreamTaskId d]) ups)
       dependencies []"

definition circularTaskIds :: "string list \<Rightarrow> MaterializedDependency list \<Rightarrow> string list" where
  "circularTaskIds taskIds dependencies =
     (let g = upstreamGraph dependencies in
      case circularVisits (Suc (length g)) g noSearch taskIds of
        None \<Rightarrow> [] | Some st \<Rightarrow> cs_affected st)"

section \<open>Materialisation\<close>

definition blockedHumanStatus :: "string option \<Rightarrow> SmartQueueHumanStatus" where
  "blockedHumanStatus reason =
     (let r = js_default ''needs intervention'' reason in
      \<lparr>hs_status = HsBlocked, hs_label = ''Blocked: '' @ r, hs_reason = None,
       hs_text = ''Blocked: '' @ r\<rparr>)"

definition circularIssue :: "PromptRecord list \<Rightarrow> string \<Rightarrow> validation_state \<Rightarrow> validation_state" where
  "circularIssue records taskId st =
     (let r = List.find (\<lambda>c. pr_taskId c = taskId) records in
      report taskId \<lparr>vb_kind = BkMissingConfig, vb_reason = ''circular dependency''\<rparr>
        \<lparr>mi_affectedTaskIds = [taskId], mi_code = IssCircularDependency,
         mi_message = ''Prompt '' @ inQuotes (js_default taskId (map_option pr_sourcePromptId r))
           @ '' is part of a circular dependency.'',
         mi_reason = ''Blocked: circular dependency'',
         mi_sourcePromptId = map_option pr_sourcePromptId r\<rparr> st)"

definition blockersFor :: "blocker_map \<Rightarrow> string \<Rightarrow> ValidationBlocker list" where
  "blockersFor blockers taskId = js_default [] (map_of blockers taskId)"

definition eligibilityTask :: "blocker_map \<Rightarrow> PromptRecord \<Rightarrow> SmartQueueTaskInput" where
  "eligibilityTask blockers r =
     (let vbs = blockersFor blockers (pr_taskId r) in
      \<lparr>sq_taskId = pr_taskId r, sq_title = Some (spi_title (pr_input r)),
       sq_lifecycle = (if vbs = [] then LcReady else LcBlocked),
       sq_blockers = Some (map (\<lambda>b. \<lparr>sb_kind = vb_kind b, sb_reason = vb_reason b,
          sb_taskId = Some (pr_taskId r), sb_upstreamTaskId = None, sb_rootCauseTaskIds = None\<rparr>) vbs)\<rparr>)"

definition eligibilityDependency :: "MaterializedDependency \<Rightarrow> SmartQueueDependency" where
  "eligibilityDependency d =
     \<lparr>sd_upstreamTaskId = md_upstreamTaskId d, sd_downstreamTaskId = md_downstreamTaskId d,
      sd_kind = ''blocks_start''\<rparr>"

definition materializedTask :: "SmartQueuePromptPackInput \<Rightarrow> string \<Rightarrow> blocker_map
    \<Rightarrow> SmartQueueTaskInput list \<Rightarrow> MaterializedDependency list \<Rightarrow> PromptRecord
    \<Rightarrow> MaterializedTask option" where
  "materializedTask pack packId blockers tasks dependencies r =
     (case sqTasksById tasks (pr_taskId r) of
        None \<Rightarrow> None
      | Some task \<Rightarrow>
          let dependencyGate = computeDependencyGate task tasks (map eligibilityDependency dependencies);
              vbs = blockersFor blockers (pr_taskId r);
              hs = (if vbs \<noteq> [] then blockedHumanStatus (map_option vb_reason (js_first vbs))
                    else computeHumanQueueStatus task dependencyGate)
          in Some
            \<lparr>mt_blockedReason = (if hs_status hs = HsBlocked then Some (hs_text hs) else None),
             mt_blockers = js_default [] (sq_blockers task), mt_dependencyGate = dependencyGate,
             mt_humanStatus = hs, mt_lifecycle = sq_lifecycle task, mt_order = pr_order r,
             mt_prompt = spi_body (pr_input r),
             mt_requestedDependencyReferences = dependencyReferences (pr_input r),
             mt_settings = mergeSettings (spp_defaultSettings pack) (spi_settings (pr_input r)),
             mt_source = \<lparr>ms_packId = packId, ms_packName = spp_sourceName pack,
               ms_packPath = spp_sourcePath pack, ms_promptId = pr_sourcePromptId r,
               ms_promptNumber = pr_sourcePromptNumber r, ms_sourceName = spi_sourceName (pr_input r),
               ms_sourcePath = spi_sourcePath (pr_input r)\<rparr>,
             mt_taskId = pr_taskId r, mt_title = spi_title (pr_input r),
             mt_upstreamTaskIds = map md_upstreamTaskId
               (filter (\<lambda>d. md_downstreamTaskId d = pr_taskId r) dependencies)\<rparr>)"

definition summarize :: "MaterializedTask list \<Rightarrow> MaterializedDependency list \<Rightarrow> MaterializationSummary" where
  "summarize tasks dependencies =
     (let count = (\<lambda>s. length (filter (\<lambda>t. hs_status (mt_humanStatus t) = s) tasks)) in
      \<lparr>sm_blockedTaskCount = count HsBlocked, sm_dependencyCount = length dependencies,
       sm_readyTaskCount = count HsReady, sm_taskCount = length tasks,
       sm_waitingDependencyCount = count HsWaitingDependency\<rparr>)"

text \<open>\<open>None\<close> is the error thrown for a record without a task.\<close>

fun allSome :: "'a option list \<Rightarrow> 'a list option" where
  "allSome [] = Some []"
| "allSome (None # xs) = None"
| "allSome (Some x # xs) = map_option ((#) x) (allSome xs)"

definition packIdOf :: "SmartQueuePromptPackInput \<Rightarrow> string" where
  "packIdOf pack = js_or_str (js_trim (js_default [] (spp_sourcePackId pack))) ''prompt-pack''"

definition promptRecords :: "SmartQueuePromptPackInput \<Rightarrow> PromptRecord list" where
  "promptRecords pack = mapWithIndex (promptRecord (packIdOf pack)) (spp_prompts pack)"

definition packDependencies :: "SmartQueuePromptPackInput \<Rightarrow> MaterializedDependency list" where
  "packDependencies pack =
     materializedDependencies (promptRecords pack) (promptReferenceMap (promptRecords pack))"

definition validatePack :: "SmartQueuePromptPackInput \<Rightarrow> validation_state" where
  "validatePack pack =
     (let records = promptRecords pack; refs = promptReferenceMap records in
      fold (circularIssue records)
        (circularTaskIds (map pr_taskId records) (packDependencies pack))
        (fold (addPromptValidationIssues pack refs) records ([], [])))"

definition materializeSmartQueuePromptPack ::
    "SmartQueuePromptPackInput \<Rightarrow> MaterializationPreview option" where
  "materializeSmartQueuePromptPack pack =
     (let records = promptRecords pack; dependencies = packDependencies pack;
          (blockers, issues) = validatePack pack;
          tasks = map (eligibilityTask blockers) records
      in map_option (\<lambda>ts. \<lparr>mp_dependencies = dependencies, mp_issues = issues,
             mp_queueId = SMART_QUEUE_WORKSPACE_QUEUE_ID, mp_summary = summarize ts dependencies,
             mp_tasks = ts\<rparr>)
           (allSome (map (materializedTask pack (packIdOf pack) blockers tasks dependencies) records)))"

section \<open>The dependencies and the references\<close>

lemma upstreamGraph_fold:
  "graphDeps (fold (\<lambda>d ups. AList.update (md_downstreamTaskId d)
       (js_default [] (map_of ups (md_downstreamTaskId d)) @ [md_upstreamTaskId d]) ups) ds ups) x
     = graphDeps ups x @ map md_upstreamTaskId (filter (\<lambda>d. md_downstreamTaskId d = x) ds)"
  by (induction ds arbitrary: ups) (auto simp: graphDeps_def update_conv')

lemma graphDeps_upstreamGraph:
  "graphDeps (upstreamGraph ds) x = map md_upstreamTaskId (filter (\<lambda>d. md_downstreamTaskId d = x) ds)"
  by (simp add: upstreamGraph_def upstreamGraph_fold) (simp add: graphDeps_def)

lemma keys_upstreamGraph_fold:
  "graphKeys (fold (\<lambda>d ups. AList.update (md_downstreamTaskId d)
       (js_default [] (map_of ups (md_downstreamTaskId d)) @ [md_upstreamTaskId d]) ups) ds ups)
     = graphKeys ups \<union> md_downstreamTaskId ` set ds"
proof (induction ds arbitrary: ups)
  case (Cons d ds)
  have "graphKeys (AList.update k v ups) = insert k (graphKeys ups)" for k v and ups :: dependency_graph
    using dom_update [of k v ups] by (simp add: graphKeys_def dom_map_of_conv_image_fst)
  with Cons show ?case by simp
qed simp

definition dependencyEdges :: "MaterializedDependency list \<Rightarrow> (string \<times> string) set" where
  "dependencyEdges ds = {(md_downstreamTaskId d, md_upstreamTaskId d) |d. d \<in> set ds}"

lemma edges_upstreamGraph: "graphEdges (upstreamGraph ds) = dependencyEdges ds"
  by (auto simp: graphEdges_def dependencyEdges_def graphDeps_upstreamGraph)

lemma circularTaskIds_spec:
  assumes "md_downstreamTaskId ` set ds \<subseteq> set ts"
  shows "circularTaskIds ts ds = [] \<longleftrightarrow> acyclic (dependencyEdges ds)"
    and "x \<in> set (circularTaskIds ts ds) \<Longrightarrow> (x, x) \<in> (dependencyEdges ds)\<^sup>+"
proof -
  let ?g = "upstreamGraph ds"
  obtain st where run: "circularVisits (Suc (length ?g)) ?g noSearch ts = Some st"
    using circular_search_answers .
  then have c: "circularTaskIds ts ds = cs_affected st" by (simp add: circularTaskIds_def Let_def)
  have "graphKeys ?g \<subseteq> set ts"
    using assms keys_upstreamGraph_fold [of ds "[]"] by (simp add: upstreamGraph_def graphKeys_def)
  from circular_search_acyclic [OF run this] c
  show "circularTaskIds ts ds = [] \<longleftrightarrow> acyclic (dependencyEdges ds)"
    by (simp add: edges_upstreamGraph)
  show "(x, x) \<in> (dependencyEdges ds)\<^sup>+" if "x \<in> set (circularTaskIds ts ds)"
    using circular_search_sound [OF run] that c by (simp add: edges_upstreamGraph)
qed

definition referencesOf :: "PromptRecord \<Rightarrow> string set" where
  "referencesOf r =
     {pr_sourcePromptId r, numberText (pr_sourcePromptNumber r), padPromptNumber (pr_sourcePromptNumber r)}"

lemma promptReferenceMap_fold:
  "map_of (fold (\<lambda>r refs.
       AList.update (padPromptNumber (pr_sourcePromptNumber r)) (pr_taskId r)
         (AList.update (numberText (pr_sourcePromptNumber r)) (pr_taskId r)
           (AList.update (pr_sourcePromptId r) (pr_taskId r) refs))) rs refs) k
     = (case List.find (\<lambda>r. k \<in> referencesOf r) (rev rs) of
          Some r \<Rightarrow> Some (pr_taskId r) | None \<Rightarrow> map_of refs k)"
proof (induction rs rule: rev_induct)
  case (snoc r rs)
  then show ?case by (auto simp: referencesOf_def update_conv')
qed simp

lemma promptReferenceMap_lookup:
  "map_of (promptReferenceMap rs) k =
     map_option pr_taskId (List.find (\<lambda>r. k \<in> referencesOf r) (rev rs))"
  by (simp add: promptReferenceMap_def promptReferenceMap_fold split: option.split)

lemma promptReferenceMap_None_iff:
  "map_of (promptReferenceMap rs) k = None \<longleftrightarrow> (\<forall>r \<in> set rs. k \<notin> referencesOf r)"
  by (auto simp: promptReferenceMap_lookup find_None_iff)

lemma promptReferenceMap_SomeD:
  "map_of (promptReferenceMap rs) k = Some t \<Longrightarrow> \<exists>r \<in> set rs. t = pr_taskId r \<and> k \<in> referencesOf r"
  by (auto simp: promptReferenceMap_lookup dest!: find_Some_iff_mem)

lemma pr_taskId_nonempty: "r \<in> set (promptRecords pack) \<Longrightarrow> pr_taskId r \<noteq> []"
  by (auto simp: promptRecords_def set_mapWithIndex promptRecord_def Let_def queueTaskId_def)

lemma materializedDependencies_mem:
  "d \<in> set (materializedDependencies rs refs) \<longleftrightarrow>
     (\<exists>r \<in> set rs. \<exists>ref \<in> set (dependencyReferences (pr_input r)). \<exists>t. map_of refs ref = Some t \<and> t \<noteq> []
        \<and> d = \<lparr>md_dependencyId = t @ ''->'' @ pr_taskId r, md_downstreamTaskId = pr_taskId r,
               md_sourceDependencyReference = ref, md_sourceDownstreamPromptId = pr_sourcePromptId r,
               md_upstreamTaskId = t\<rparr>)"
  unfolding materializedDependencies_def
  by (auto split: option.splits if_splits) (force split: option.splits)+

lemma packDependencies_ends:
  assumes "d \<in> set (packDependencies pack)"
  shows "md_downstreamTaskId d \<in> pr_taskId ` set (promptRecords pack)"
    and "md_upstreamTaskId d \<in> pr_taskId ` set (promptRecords pack)"
  using assms promptReferenceMap_SomeD unfolding packDependencies_def materializedDependencies_mem
  by fastforce+

text \<open>
  C26. The search for circular tasks: it reports nothing exactly when the dependencies of the pack
  have no cycle, and every task it reports lies on a cycle. Its fuel is always enough.
\<close>

theorem circularTaskIds_correct:
  "(circularTaskIds (map pr_taskId (promptRecords pack)) (packDependencies pack) = []
     \<longleftrightarrow> acyclic {(md_downstreamTaskId d, md_upstreamTaskId d) |d. d \<in> set (packDependencies pack)})
   \<and> set (circularTaskIds (map pr_taskId (promptRecords pack)) (packDependencies pack))
       \<subseteq> {t. (t, t) \<in> {(md_downstreamTaskId d, md_upstreamTaskId d) |d. d \<in> set (packDependencies pack)}\<^sup>+}"
proof -
  have ends: "md_downstreamTaskId ` set (packDependencies pack) \<subseteq> set (map pr_taskId (promptRecords pack))"
    using packDependencies_ends(1) by auto
  show ?thesis
    using circularTaskIds_spec(1) [OF ends] circularTaskIds_spec(2) [OF ends]
    unfolding dependencyEdges_def by blast
qed

section \<open>The validation\<close>

text \<open>A task has a validation blocker exactly when an issue names it.\<close>

definition issueNames :: "MaterializationIssue list \<Rightarrow> string \<Rightarrow> bool" where
  "issueNames issues t \<longleftrightarrow> (\<exists>i \<in> set issues. t \<in> set (mi_affectedTaskIds i))"

definition validationOk :: "validation_state \<Rightarrow> bool" where
  "validationOk st \<longleftrightarrow> (\<forall>t. blockersFor (fst st) t \<noteq> [] \<longleftrightarrow> issueNames (snd st) t)"

lemma blockersFor_add:
  "blockersFor (addValidationBlocker taskId b blockers) t \<noteq> [] \<longleftrightarrow> t = taskId \<or> blockersFor blockers t \<noteq> []"
  by (auto simp: blockersFor_def addValidationBlocker_def Let_def update_conv')

lemma validationOk_report:
  "validationOk st \<Longrightarrow> mi_affectedTaskIds iss = [taskId] \<Longrightarrow> validationOk (report taskId b iss st)"
  by (cases st) (auto simp: validationOk_def report_def issueNames_def blockersFor_add)

lemma snd_report: "snd (report taskId b iss st) = snd st @ [iss]"
  by (cases st) (simp add: report_def)

lemma validationOk_prompt:
  "validationOk st \<Longrightarrow> validationOk (addPromptValidationIssues pack refs r st)"
  by (auto simp: addPromptValidationIssues_def Let_def intro!: validationOk_report split: option.splits)

lemma validationOk_circular: "validationOk st \<Longrightarrow> validationOk (circularIssue records t st)"
  by (auto simp: circularIssue_def Let_def intro!: validationOk_report)

lemma validationOk_prompts:
  "validationOk st \<Longrightarrow> validationOk (fold (addPromptValidationIssues pack refs) rs st)"
  by (induction rs arbitrary: st) (simp_all add: validationOk_prompt)

lemma validationOk_circulars: "validationOk st \<Longrightarrow> validationOk (fold (circularIssue records) ts st)"
  by (induction ts arbitrary: st) (simp_all add: validationOk_circular)

lemma validationOk_pack: "validationOk (validatePack pack)"
  unfolding validatePack_def Let_def
  by (intro validationOk_circulars validationOk_prompts) (simp add: validationOk_def blockersFor_def issueNames_def)

text \<open>What one prompt must be like to raise no issue.\<close>

definition promptValid :: "SmartQueuePromptPackInput \<Rightarrow> (string \<times> string) list \<Rightarrow> PromptRecord \<Rightarrow> bool" where
  "promptValid pack refs r \<longleftrightarrow>
     \<not> js_blank (spi_body (pr_input r))
     \<and> (\<forall>name. List.find (\<lambda>n. \<not> hasSetting
            (mergeSettings (spp_defaultSettings pack) (spi_settings (pr_input r))) n)
          (requiredSettings pack r) = Some name \<longrightarrow> name = [])
     \<and> (\<forall>ref \<in> set (dependencyReferences (pr_input r)). map_of refs ref \<noteq> None)"

lemma snd_prompt_Nil_iff:
  "snd (addPromptValidationIssues pack refs r st) = [] \<longleftrightarrow> snd st = [] \<and> promptValid pack refs r"
proof -
  have "List.find (\<lambda>ref. map_of refs ref = None) (dependencyReferences (pr_input r)) = None \<longleftrightarrow>
      (\<forall>ref \<in> set (dependencyReferences (pr_input r)). map_of refs ref \<noteq> None)"
    by (auto simp: find_None_iff)
  then show ?thesis
    by (auto simp: addPromptValidationIssues_def promptValid_def Let_def snd_report split: option.splits)
qed

lemma snd_prompts_Nil_iff:
  "snd (fold (addPromptValidationIssues pack refs) rs st) = [] \<longleftrightarrow>
     snd st = [] \<and> (\<forall>r \<in> set rs. promptValid pack refs r)"
  by (induction rs arbitrary: st) (auto simp: snd_prompt_Nil_iff)

lemma snd_circular_Nil_iff: "snd (fold (circularIssue records) ts st) = [] \<longleftrightarrow> snd st = [] \<and> ts = []"
  by (induction ts arbitrary: st) (auto simp: circularIssue_def Let_def snd_report)

lemma validatePack_Nil_iff:
  "snd (validatePack pack) = [] \<longleftrightarrow>
     (\<forall>r \<in> set (promptRecords pack). promptValid pack (promptReferenceMap (promptRecords pack)) r)
     \<and> acyclic (dependencyEdges (packDependencies pack))"
proof -
  have "md_downstreamTaskId ` set (packDependencies pack) \<subseteq> set (map pr_taskId (promptRecords pack))"
    using packDependencies_ends(1) by auto
  from circularTaskIds_spec(1) [OF this] show ?thesis
    by (simp add: validatePack_def Let_def snd_circular_Nil_iff snd_prompts_Nil_iff)
qed

section \<open>The tasks\<close>

lemma allSome_map: "\<forall>x \<in> set xs. f x \<noteq> None \<Longrightarrow> allSome (map f xs) = Some (map (\<lambda>x. the (f x)) xs)"
  by (induction xs) auto

lemma eligibility_lookup:
  assumes "r \<in> set records"
  shows "\<exists>r' \<in> set records. pr_taskId r' = pr_taskId r
    \<and> sqTasksById (map (eligibilityTask blockers) records) (pr_taskId r) = Some (eligibilityTask blockers r')"
proof -
  have "sqTasksById (map (eligibilityTask blockers) records) (pr_taskId r) \<noteq> None"
    using assms by (auto simp: sqTasksById_def map_of_js_map_of_entries map_of_eq_None_iff
        eligibilityTask_def Let_def image_iff)
  then obtain t where t: "sqTasksById (map (eligibilityTask blockers) records) (pr_taskId r) = Some t" by blast
  from sqTasksById_Some [OF t] obtain r' where r': "r' \<in> set records" "t = eligibilityTask blockers r'"
    by auto
  moreover have "pr_taskId r' = pr_taskId r"
    using sqTasksById_Some [OF t] r'(2) by (simp add: eligibilityTask_def Let_def)
  ultimately show ?thesis using t by blast
qed

lemma eligibilityDependency_simps [simp]:
  "sd_upstreamTaskId (eligibilityDependency d) = md_upstreamTaskId d"
  "sd_downstreamTaskId (eligibilityDependency d) = md_downstreamTaskId d"
  "sd_kind (eligibilityDependency d) = ''blocks_start''"
  by (simp_all add: eligibilityDependency_def)

lemma startBlockers_eligibility:
  "startBlockersOf (map eligibilityDependency ds) i =
     {md_upstreamTaskId d |d. d \<in> set ds \<and> md_downstreamTaskId d = i}"
  unfolding startBlockersOf_def by force

text \<open>The gate of a task, in a pack without issues: every task is ready, so the roots are free.\<close>

lemma clear_of_ready:
  assumes acyclic: "acyclic (dependencyEdges ds)"
    and known: "\<And>d. d \<in> set ds \<Longrightarrow> \<exists>t. sqTasksById tasks (md_upstreamTaskId d) = Some t"
    and ready: "\<And>t. t \<in> set tasks \<Longrightarrow> sq_lifecycle t = LcReady"
    and i: "sqTasksById tasks i = Some t"
  shows "clear tasks (dependencyMap (map eligibilityDependency ds)) i"
proof -
  let ?E = "(dependencyEdges ds)\<inverse>"
  have fin: "finite ?E"
    by (simp add: dependencyEdges_def setcompr_eq_image)
  have wf: "wf ?E" using fin acyclic by (simp add: finite_acyclic_wf)
  have start: "startBlockersOf (map eligibilityDependency ds) i = {u. (i, u) \<in> dependencyEdges ds}" for i
    by (auto simp: startBlockers_eligibility dependencyEdges_def)
  have "sqTasksById tasks i = Some t \<longrightarrow> clear tasks (dependencyMap (map eligibilityDependency ds)) i" for i t
  proof (induction i arbitrary: t rule: wf_induct_rule [OF wf])
    case (1 i)
    show ?case
    proof
      assume t: "sqTasksById tasks i = Some t"
      then have "sq_lifecycle t = LcReady" using ready sqTasksById_Some [OF t] by blast
      then have o: "openLifecycle (sq_lifecycle t)" by (simp add: openLifecycle_def)
      show "clear tasks (dependencyMap (map eligibilityDependency ds)) i"
      proof (rule clear_open [OF t o])
        fix u assume "u \<in> set (upstreamIds (dependencyMap (map eligibilityDependency ds)) i)"
        then have e: "(i, u) \<in> dependencyEdges ds" by (simp add: start)
        then obtain d where "d \<in> set ds" "md_upstreamTaskId d = u" by (auto simp: dependencyEdges_def)
        then obtain t' where "sqTasksById tasks u = Some t'" using known by blast
        with 1 e show "clear tasks (dependencyMap (map eligibilityDependency ds)) u" by blast
      qed
    qed
  qed
  with i show ?thesis by blast
qed

lemma ready_gate:
  assumes "acyclic (dependencyEdges ds)"
    and known: "\<And>d. d \<in> set ds \<Longrightarrow> \<exists>t. sqTasksById tasks (md_upstreamTaskId d) = Some t"
    and ready: "\<And>t. t \<in> set tasks \<Longrightarrow> sq_lifecycle t = LcReady"
  shows "gate_gate (computeDependencyGate task tasks (map eligibilityDependency ds)) =
     (if \<exists>d \<in> set ds. md_downstreamTaskId d = sq_taskId task then GateWaiting else GateNone)"
proof -
  let ?deps = "map eligibilityDependency ds"
  let ?us = "startBlockersOf ?deps (sq_taskId task)"
  have us: "?us = {md_upstreamTaskId d |d. d \<in> set ds \<and> md_downstreamTaskId d = sq_taskId task}"
    by (rule startBlockers_eligibility)
  have clear: "?us \<subseteq> {u. clear tasks (dependencyMap ?deps) u}"
    using clear_of_ready [OF assms] known unfolding us by blast
  have not_closed: "\<not> hasLifecycle tasks {LcClosed} u" for u
    using ready sqTasksById_Some by (fastforce simp: hasLifecycle_def)
  have "gate_gate (computeDependencyGate task tasks ?deps) \<notin> {GateFailed, GateBlocked}"
    using clear gate_stops_iff [of task tasks ?deps] by blast
  moreover have "gate_gate (computeDependencyGate task tasks ?deps) \<in> {GateNone, GateSatisfied} \<longleftrightarrow> ?us = {}"
    using gate_passes_iff [of task tasks ?deps] not_closed by auto
  moreover have "?us = {} \<Longrightarrow> gate_gate (computeDependencyGate task tasks ?deps) = GateNone"
    unfolding computeDependencyGate_eq gate_gate_map set_upstreamIds_dependencyMap by simp
  ultimately show ?thesis
    unfolding us by (cases "gate_gate (computeDependencyGate task tasks ?deps)") (auto split: if_splits)
qed

section \<open>What materialisation returns\<close>

lemma materializedTask_Some:
  assumes "r \<in> set records" "tasks = map (eligibilityTask blockers) records"
  shows "\<exists>t. materializedTask pack packId blockers tasks dependencies r = Some t"
  using eligibility_lookup [OF assms(1), of blockers] assms(2)
  by (auto simp: materializedTask_def Let_def)

lemma materialize_eq:
  "\<exists>ts. materializeSmartQueuePromptPack pack =
       Some \<lparr>mp_dependencies = packDependencies pack, mp_issues = snd (validatePack pack),
             mp_queueId = SMART_QUEUE_WORKSPACE_QUEUE_ID,
             mp_summary = summarize ts (packDependencies pack), mp_tasks = ts\<rparr>
     \<and> (let tasks = map (eligibilityTask (fst (validatePack pack))) (promptRecords pack) in
        ts = map (\<lambda>r. the (materializedTask pack (packIdOf pack) (fst (validatePack pack)) tasks
               (packDependencies pack) r)) (promptRecords pack))"
proof -
  let ?tasks = "map (eligibilityTask (fst (validatePack pack))) (promptRecords pack)"
  have "\<forall>r \<in> set (promptRecords pack). materializedTask pack (packIdOf pack) (fst (validatePack pack))
      ?tasks (packDependencies pack) r \<noteq> None"
    using materializedTask_Some [OF _ refl] by fastforce
  from allSome_map [OF this] show ?thesis
    by (simp add: materializeSmartQueuePromptPack_def Let_def case_prod_beta)
qed

lemma no_issue_no_blocker: "snd (validatePack pack) = [] \<Longrightarrow> blockersFor (fst (validatePack pack)) t = []"
  using validationOk_pack [of pack] by (auto simp: validationOk_def issueNames_def)

text \<open>The human status of a task of a pack without issues.\<close>

lemma status_without_issues:
  assumes none: "snd (validatePack pack) = []" and r: "r \<in> set (promptRecords pack)"
    and t: "materializedTask pack packId (fst (validatePack pack))
        (map (eligibilityTask (fst (validatePack pack))) (promptRecords pack)) (packDependencies pack) r = Some t"
  shows "hs_status (mt_humanStatus t) = (if mt_upstreamTaskIds t = [] then HsReady else HsWaitingDependency)
    \<and> mt_blockers t = [] \<and> mt_lifecycle t = LcReady"
proof -
  let ?tasks = "map (eligibilityTask (fst (validatePack pack))) (promptRecords pack)"
  let ?ds = "packDependencies pack"
  have ready: "sq_lifecycle t = LcReady" if "t \<in> set ?tasks" for t
    using that no_issue_no_blocker [OF none] by (auto simp: eligibilityTask_def Let_def)
  have known: "\<exists>t. sqTasksById ?tasks (md_upstreamTaskId d) = Some t" if d: "d \<in> set ?ds" for d
  proof -
    obtain r where "r \<in> set (promptRecords pack)" "pr_taskId r = md_upstreamTaskId d"
      using packDependencies_ends(2) [OF d] by auto
    with eligibility_lookup [of r "promptRecords pack"] show ?thesis by metis
  qed
  have acyc: "acyclic (dependencyEdges ?ds)" using none validatePack_Nil_iff by blast
  obtain r' where r': "pr_taskId r' = pr_taskId r" "sqTasksById ?tasks (pr_taskId r)
      = Some (eligibilityTask (fst (validatePack pack)) r')"
    using eligibility_lookup [OF r] by blast
  let ?task = "eligibilityTask (fst (validatePack pack)) r'"
  have task: "sq_taskId ?task = pr_taskId r" "sq_lifecycle ?task = LcReady" "sq_blockers ?task = Some []"
    using r'(1) no_issue_no_blocker [OF none] by (simp_all add: eligibilityTask_def Let_def)
  have gate: "gate_gate (computeDependencyGate ?task ?tasks (map eligibilityDependency ?ds)) =
      (if \<exists>d \<in> set ?ds. md_downstreamTaskId d = pr_taskId r then GateWaiting else GateNone)"
    using ready_gate [OF acyc known ready, where task = ?task] task(1) by simp
  have up: "mt_upstreamTaskIds t = [] \<longleftrightarrow> \<not> (\<exists>d \<in> set ?ds. md_downstreamTaskId d = pr_taskId r)"
    using t r'(2) by (auto simp: materializedTask_def Let_def filter_empty_conv)
  have hs: "mt_humanStatus t = computeHumanQueueStatus ?task
      (computeDependencyGate ?task ?tasks (map eligibilityDependency ?ds))"
    "mt_blockers t = js_default [] (sq_blockers ?task)" "mt_lifecycle t = sq_lifecycle ?task"
    using t r'(2) no_issue_no_blocker [OF none] by (auto simp: materializedTask_def Let_def)
  show ?thesis
    unfolding hs up using task gate
    by (auto simp: computeHumanQueueStatus_def humanStatus_def js_first_def)
qed

text \<open>
  C24. Materialising a pack always returns a preview, with one task per prompt in the order of the
  pack, and it reports no issue exactly when every prompt has text, its required settings and only
  references that some prompt of the pack answers to, and the dependencies have no cycle.
\<close>

theorem materialize_issues_iff:
  "\<exists>p. materializeSmartQueuePromptPack pack = Some p
     \<and> length (mp_tasks p) = length (spp_prompts pack)
     \<and> (mp_issues p = [] \<longleftrightarrow>
          list_all (promptValid pack (promptReferenceMap (promptRecords pack))) (promptRecords pack)
          \<and> acyclic {(md_downstreamTaskId d, md_upstreamTaskId d) |d. d \<in> set (packDependencies pack)})"
  using materialize_eq [of pack] validatePack_Nil_iff [of pack]
  by (auto simp: dependencyEdges_def promptRecords_def Let_def list_all_iff)

text \<open>
  A reference that is meant as an id can be read as a number. Of two prompts with the ids 2 and 1, in
  this order and numbered by position, the second depends on the first by its id; the reference 2
  leads to the second prompt itself, which is then reported as circular.
\<close>

definition examplePrompt :: "string \<Rightarrow> string list \<Rightarrow> SmartQueuePromptInput" where
  "examplePrompt i dependencies =
     \<lparr>spi_promptId = Some i, spi_promptNumber = None, spi_title = i, spi_body = ''Do it.'',
      spi_dependencies = Some (map RefText dependencies), spi_requiredSettings = None,
      spi_settings = None, spi_sourceName = None, spi_sourcePath = None\<rparr>"

definition exampleInput :: "SmartQueuePromptInput list \<Rightarrow> SmartQueuePromptPackInput" where
  "exampleInput prompts =
     \<lparr>spp_sourcePackId = Some ''pack'', spp_sourceName = None, spp_sourcePath = None,
      spp_defaultSettings = None, spp_prompts = prompts, spp_requiredSettings = None\<rparr>"

lemma number_shadows_id:
  "map (\<lambda>d. (md_downstreamTaskId d, md_sourceDependencyReference d, md_upstreamTaskId d))
     (packDependencies (exampleInput [examplePrompt ''2'' [], examplePrompt ''1'' [''2'']]))
   = [(''queue-task-pack-1'', ''2'', ''queue-task-pack-1'')]"
  by code_simp

end
