(* ===== verification/Prompt_Preview.thy ===== *)
theory Prompt_Preview
  imports Prompt_Plan Prompt_Queue
begin

text \<open>
  The import preview of a prompt pack, \<open>workbench/promptPack/promptPackImportPreview.ts\<close>, and its
  adapter to the smart queue, \<open>workbench/queue/smartQueuePromptPackPreviewAdapter.ts\<close>: the selected
  items, what blocks the import, the summary of the dependency graph, and the pack handed to
  \<open>Prompt_Queue\<close>.

  The last theorem composes the parts: the graph the parser accepted reaches the smart queue
  unchanged, provided that no two ids have one slugText and no number reads like the id of another item.
\<close>

section \<open>Model\<close>

record DependencyGraphSummary =
  dgs_blockedSelectedItemCount :: nat
  dgs_edgeCount :: nat
  dgs_hasCycles :: bool
  dgs_leafItemCount :: nat
  dgs_maxDepth :: nat
  dgs_rootItemCount :: nat
  dgs_selectedItemCount :: nat
  dgs_totalItemCount :: nat
  dgs_unresolvedDependencyCount :: nat

record PromptPackModelRoute =
  mr_itemIds :: "string list"
  mr_modelProfile :: string
  mr_reasoningEffort :: string
  mr_validatorProfile :: string

record PromptPackImportValidation =
  piv_blockingErrors :: "PromptPackDiagnostic list"
  piv_canImport :: bool
  piv_warnings :: "PromptPackDiagnostic list"

record PromptPackImportPreview =
  pip_dependencyGraphSummary :: DependencyGraphSummary
  pip_errors :: "PromptPackDiagnostic list"
  pip_expectedCommitTitles :: "string list"
  pip_importAvailable :: bool
  pip_itemCount :: nat
  pip_modelRouting :: "PromptPackModelRoute list"
  pip_pack :: PromptPackMetadata
  pip_selectedItemIds :: "string list"
  pip_selectedItems :: "PromptPackImportItem list"
  pip_smartQueueMaterialization :: "MaterializationPreview option"
  pip_unselectedItems :: "PromptPackImportItem list"
  pip_unresolvedDependencies :: "PromptPackDiagnostic list"
  pip_validationCommands :: "string list"
  pip_warnings :: "PromptPackDiagnostic list"

text \<open>\<open>lc\<close> is the collation of the host, as in the prelude.\<close>

definition stablePromptPackItems ::
    "(string \<Rightarrow> string \<Rightarrow> int) \<Rightarrow> PromptPackImportItem list \<Rightarrow> PromptPackImportItem list" where
  "stablePromptPackItems lc items =
     js_sort (\<lambda>left right.
         js_or (compareNumericOrder (ppi_numericOrder left) (ppi_numericOrder right))
           (localeCompare lc (ppi_id left) (ppi_id right))) items"

fun diagnosticCodeName :: "PromptPackDiagnosticCode \<Rightarrow> string" where
  "diagnosticCodeName DuplicateItemId = ''duplicate_item_id''"
| "diagnosticCodeName EmptyInput = ''empty_input''"
| "diagnosticCodeName InvalidJson = ''invalid_json''"
| "diagnosticCodeName MissingBody = ''missing_body''"
| "diagnosticCodeName MissingItemId = ''missing_item_id''"
| "diagnosticCodeName NumericDependencySuggestion = ''numeric_dependency_suggestion''"
| "diagnosticCodeName NoSelectedItems = ''no_selected_items''"
| "diagnosticCodeName PackMetadataMissing = ''pack_metadata_missing''"
| "diagnosticCodeName UnselectedDependency = ''unselected_dependency''"
| "diagnosticCodeName UnsupportedFile = ''unsupported_file''"
| "diagnosticCodeName UnresolvedDependency = ''unresolved_dependency''"
| "diagnosticCodeName DependencyCycle = ''dependency_cycle''"

definition severityRank :: "PromptPackSeverity \<Rightarrow> rat" where
  "severityRank s = (if s = PpError then 0 else 1)"

definition sortDiagnostics ::
    "(string \<Rightarrow> string \<Rightarrow> int) \<Rightarrow> PromptPackDiagnostic list \<Rightarrow> PromptPackDiagnostic list" where
  "sortDiagnostics lc diagnostics =
     js_sort (\<lambda>left right.
         js_or (subtract_numbers (severityRank (ppd_severity left)) (severityRank (ppd_severity right)))
         (js_or (localeCompare lc (js_default [] (ppd_path left)) (js_default [] (ppd_path right)))
         (js_or (localeCompare lc (js_default [] (ppd_itemId left)) (js_default [] (ppd_itemId right)))
         (js_or (localeCompare lc (diagnosticCodeName (ppd_code left)) (diagnosticCodeName (ppd_code right)))
           (localeCompare lc (ppd_message left) (ppd_message right)))))) diagnostics"

definition selectedIds :: "PromptPackImportItem list \<Rightarrow> string list option \<Rightarrow> string list" where
  "selectedIds orderedItems selectedItemIds = js_default (map ppi_id orderedItems) selectedItemIds"

definition unselectedDependencies ::
    "PromptPackImportItem list \<Rightarrow> string list \<Rightarrow> PromptPackDiagnostic list" where
  "unselectedDependencies orderedItems selected =
     concat (map (\<lambda>item. concat (map (\<lambda>d.
         if d \<notin> ppi_id ` set orderedItems then []
         else if d \<notin> set selected
         then [diagnostic UnselectedDependency (Some (ppi_id item))
                 (''Selected item '' @ quoted (ppi_id item) @ '' depends on unselected item '' @ quoted d @ ''.'')
                 (ppi_sourcePath item) PpError]
         else []) (ppi_dependencies item)))
       (filter (\<lambda>item. ppi_id item \<in> set selected) orderedItems))"

definition validatePromptPackImportPlan :: "(string \<Rightarrow> string \<Rightarrow> int) \<Rightarrow> PromptPackImportPlan
    \<Rightarrow> string list option \<Rightarrow> PromptPackImportValidation" where
  "validatePromptPackImportPlan lc plan selectedItemIds =
     (let orderedItems = stablePromptPackItems lc (ppl_items plan);
          selected = selectedIds orderedItems selectedItemIds;
          selectedItems = filter (\<lambda>item. ppi_id item \<in> set selected) orderedItems;
          blockingErrors = ppl_errors plan
            @ (if orderedItems \<noteq> [] \<and> selectedItems = []
               then [diagnostic NoSelectedItems None
                       ''Select at least one prompt-pack item before importing.'' None PpError]
               else [])
            @ unselectedDependencies orderedItems selected
      in \<lparr>piv_blockingErrors = sortDiagnostics lc blockingErrors, piv_canImport = blockingErrors = [],
          piv_warnings = sortDiagnostics lc (ppl_warnings plan)\<rparr>)"

text \<open>\<open>dependencyDepth\<close>: \<open>seen\<close> is the path, which grows within the ids of the items.\<close>

lemma find_item_known: "List.find (\<lambda>c. ppi_id c = i) items = Some item \<Longrightarrow> i \<in> ppi_id ` set items"
  by (auto dest!: find_Some_iff_mem)

function dependencyDepth :: "PromptPackImportItem list \<Rightarrow> string set \<Rightarrow> string \<Rightarrow> nat" where
  "dependencyDepth items seen i =
     (if i \<in> seen then 0
      else case List.find (\<lambda>c. ppi_id c = i) items of
        None \<Rightarrow> 0
      | Some item \<Rightarrow>
          if ppi_dependencies item = [] then 1
          else 1 + foldr max (map (dependencyDepth items (insert i seen)) (ppi_dependencies item)) 0)"
  by pat_completeness auto
termination
proof (relation "measure (\<lambda>(items, seen, i). card (ppi_id ` set items - seen))", goal_cases)
  case (2 items seen i item d)
  then have "i \<in> ppi_id ` set items - seen" by (simp add: find_item_known)
  then have "ppi_id ` set items - insert i seen \<subset> ppi_id ` set items - seen" by auto
  then show ?case by (simp add: psubset_card_mono)
qed simp

declare dependencyDepth.simps [simp del]

definition hasCycle :: "string \<Rightarrow> PromptPackImportItem list \<Rightarrow> bool" where
  "hasCycle i items =
     (case packVisit (Suc (length items)) items {} {} i of None \<Rightarrow> False | Some (cycle, _, _) \<Rightarrow> cycle)"

definition buildDependencyGraphSummary ::
    "PromptPackImportItem list \<Rightarrow> string list \<Rightarrow> DependencyGraphSummary" where
  "buildDependencyGraphSummary items selectedItemIds =
     (let ids = ppi_id ` set items;
          selectedItems = filter (\<lambda>item. ppi_id item \<in> set selectedItemIds) items;
          dependedOn = concat (map ppi_dependencies items)
      in \<lparr>dgs_blockedSelectedItemCount =
            length (filter (\<lambda>item. list_ex (\<lambda>d. d \<notin> set selectedItemIds) (ppi_dependencies item)) selectedItems),
          dgs_edgeCount = sum_list (map (\<lambda>item. length (filter (\<lambda>d. d \<in> ids) (ppi_dependencies item))) items),
          dgs_hasCycles = list_ex (\<lambda>item. hasCycle (ppi_id item) items) items,
          dgs_leafItemCount = length (filter (\<lambda>item. ppi_id item \<notin> set dependedOn) items),
          dgs_maxDepth = foldl (\<lambda>m item. max m (dependencyDepth items {} (ppi_id item))) 0 items,
          dgs_rootItemCount = length (filter (\<lambda>item. ppi_dependencies item = []) items),
          dgs_selectedItemCount = length selectedItems,
          dgs_totalItemCount = length items,
          dgs_unresolvedDependencyCount =
            sum_list (map (\<lambda>item. length (filter (\<lambda>d. d \<notin> ids) (ppi_dependencies item))) items)\<rparr>)"

definition routeLabel :: "PromptPackModelRoute \<Rightarrow> string" where
  "routeLabel r = mr_modelProfile r @ ''/'' @ mr_reasoningEffort r @ ''/'' @ mr_validatorProfile r"

definition buildModelRouting ::
    "(string \<Rightarrow> string \<Rightarrow> int) \<Rightarrow> PromptPackImportItem list \<Rightarrow> PromptPackModelRoute list" where
  "buildModelRouting lc selectedItems =
     (let routes = fold (\<lambda>item routes.
            let model = js_default ''default'' (ppi_modelProfile item);
                effort = js_default ''default'' (ppi_reasoningEffort item);
                validator = js_default ''default'' (ppi_validatorProfile item);
                key = model @ [CHR 0x00] @ effort @ [CHR 0x00] @ validator;
                route = js_default \<lparr>mr_itemIds = [], mr_modelProfile = model,
                          mr_reasoningEffort = effort, mr_validatorProfile = validator\<rparr>
                        (map_of routes key)
            in AList.update key (route\<lparr>mr_itemIds := mr_itemIds route @ [ppi_id item]\<rparr>) routes)
          selectedItems []
      in js_sort (\<lambda>left right. localeCompare lc (routeLabel left) (routeLabel right)) (map snd routes))"

definition uniqueSorted :: "(string \<Rightarrow> string \<Rightarrow> int) \<Rightarrow> string list \<Rightarrow> string list" where
  "uniqueSorted lc values =
     js_sort (localeCompare lc) (js_unique (filter (\<lambda>v. v \<noteq> []) (map js_trim values)))"

section \<open>The adapter\<close>

definition basename :: "string \<Rightarrow> string" where
  "basename path = last (js_split (CHR ''/'') path)"

text \<open>The settings whose value is \<open>undefined\<close> are left out.\<close>

definition promptPackItemSettings :: "PromptPackImportItem \<Rightarrow> pack_settings" where
  "promptPackItemSettings item =
     (let strings = (\<lambda>vs. JArr (map JStr vs)); text = map_option JStr in
      List.map_filter (\<lambda>(key, v). map_option (Pair key) v)
       [(''allowedScope'', Some (strings (ppi_allowedScope item))),
        (''commitPolicy'',
         if js_truthy_str (ppi_expectedCommitTitle item)
         then Some (JObj [(''expectedCommitTitle'', JStr (the (ppi_expectedCommitTitle item))),
                          (''mode'', JStr ''operator_review'')])
         else None),
        (''executionPolicy'', Some (JStr (executionPolicyName (qdr_executionPolicy (ppi_queueDraft item))))),
        (''executionWorkspace'', text (ppi_executionWorkspace item)),
        (''forbiddenScope'', Some (strings (ppi_forbiddenScope item))),
        (''itemType'', Some (JStr (itemTypeName (ppi_itemType item)))),
        (''model'', text (ppi_modelProfile item)),
        (''priority'', Some (JNum (ppi_priority item))),
        (''reasoning'', text (ppi_reasoningEffort item)),
        (''tags'', Some (strings (ppi_tags item))),
        (''validationPolicy'',
         if ppi_validationCommands item \<noteq> [] \<or> js_truthy_str (ppi_validatorProfile item)
         then Some (JObj [(''commands'', strings (ppi_validationCommands item)),
                          (''profile'', js_default JNull (text (ppi_validatorProfile item)))])
         else None)])"

definition promptPackItemToSmartQueuePrompt :: "PromptPackImportItem \<Rightarrow> nat \<Rightarrow> SmartQueuePromptInput" where
  "promptPackItemToSmartQueuePrompt item index =
     \<lparr>spi_promptId = Some (ppi_id item),
      spi_promptNumber = Some (js_default (of_nat (index + 1)) (ppi_numericOrder item)),
      spi_title = ppi_title item, spi_body = ppi_promptBody item,
      spi_dependencies = Some (map RefText (ppi_dependencies item)), spi_requiredSettings = None,
      spi_settings = Some (promptPackItemSettings item),
      spi_sourceName = (if js_truthy_str (ppi_sourcePath item)
                        then Some (basename (the (ppi_sourcePath item))) else None),
      spi_sourcePath = ppi_sourcePath item\<rparr>"

definition promptPackPreviewToSmartQueuePromptPackInput :: "pack_settings option \<Rightarrow> PromptPackMetadata
    \<Rightarrow> PromptPackImportItem list \<Rightarrow> SmartQueuePromptPackInput" where
  "promptPackPreviewToSmartQueuePromptPackInput defaultSettings pack selectedItems =
     \<lparr>spp_sourcePackId = Some (ppk_id pack), spp_sourceName = Some (ppk_name pack),
      spp_sourcePath = js_first (ppk_sourcePaths pack), spp_defaultSettings = defaultSettings,
      spp_prompts = mapWithIndex promptPackItemToSmartQueuePrompt selectedItems,
      spp_requiredSettings = None\<rparr>"

definition buildSmartQueueMaterialization ::
    "PromptPackMetadata \<Rightarrow> PromptPackImportItem list \<Rightarrow> MaterializationPreview option" where
  "buildSmartQueueMaterialization pack selectedItems =
     materializeSmartQueuePromptPack
       (promptPackPreviewToSmartQueuePromptPackInput None pack selectedItems)"

definition buildPromptPackImportPreview :: "(string \<Rightarrow> string \<Rightarrow> int) \<Rightarrow> PromptPackImportPlan
    \<Rightarrow> string list option \<Rightarrow> PromptPackImportPreview" where
  "buildPromptPackImportPreview lc plan selectedItemIds =
     (let orderedItems = stablePromptPackItems lc (ppl_items plan);
          selected = selectedIds orderedItems selectedItemIds;
          selectedItems = filter (\<lambda>item. ppi_id item \<in> set selected) orderedItems;
          validation = validatePromptPackImportPlan lc plan (Some (map ppi_id selectedItems))
      in \<lparr>pip_dependencyGraphSummary =
            buildDependencyGraphSummary orderedItems (map ppi_id selectedItems),
          pip_errors = piv_blockingErrors validation,
          pip_expectedCommitTitles =
            uniqueSorted lc (map the (filter js_has_text (map ppi_expectedCommitTitle selectedItems))),
          pip_importAvailable = piv_canImport validation,
          pip_itemCount = length orderedItems,
          pip_modelRouting = buildModelRouting lc selectedItems,
          pip_pack = ppl_pack plan,
          pip_selectedItemIds = map ppi_id selectedItems,
          pip_selectedItems = selectedItems,
          pip_smartQueueMaterialization = buildSmartQueueMaterialization (ppl_pack plan) selectedItems,
          pip_unselectedItems = filter (\<lambda>item. ppi_id item \<notin> set selected) orderedItems,
          pip_unresolvedDependencies =
            filter (\<lambda>d. ppd_code d = UnresolvedDependency \<or> ppd_code d = UnselectedDependency)
              (piv_blockingErrors validation),
          pip_validationCommands = uniqueSorted lc (concat (map ppi_validationCommands selectedItems)),
          pip_warnings = piv_warnings validation\<rparr>)"

section \<open>When the import is available\<close>

lemma set_stable [simp]: "set (stablePromptPackItems lc items) = set items"
  by (simp add: stablePromptPackItems_def)

lemma stable_Nil_iff [simp]: "stablePromptPackItems lc items = [] \<longleftrightarrow> items = []"
  using set_stable [of lc items] by (metis set_empty)

lemma unselectedDependencies_Nil_iff:
  "unselectedDependencies items selected = [] \<longleftrightarrow>
     (\<forall>item \<in> set items. ppi_id item \<in> set selected \<longrightarrow>
        set (ppi_dependencies item) \<inter> ppi_id ` set items \<subseteq> set selected)"
proof -
  have two: "(if a then [] else if b then [x] else []) = [] \<longleftrightarrow> (a \<or> \<not> b)"
    for a b and x :: PromptPackDiagnostic by (cases a; cases b; simp)
  show ?thesis
    unfolding unselectedDependencies_def concat_map_Nil_iff two by auto
qed

text \<open>The items a preview selects: those of the plan whose id was asked for.\<close>

lemma preview_items:
  "set (pip_selectedItems (buildPromptPackImportPreview lc plan selection)) =
     {item \<in> set (ppl_items plan). case selection of None \<Rightarrow> True | Some ids \<Rightarrow> ppi_id item \<in> set ids}"
  by (auto simp: buildPromptPackImportPreview_def Let_def selectedIds_def js_default_def split: option.splits)

lemma preview_available:
  "pip_importAvailable (buildPromptPackImportPreview lc plan selection) \<longleftrightarrow>
     ppl_errors plan = []
     \<and> (let items = ppl_items plan;
            chosen = set (pip_selectedItems (buildPromptPackImportPreview lc plan selection))
        in (items = [] \<or> chosen \<noteq> {})
           \<and> (\<forall>item \<in> chosen. set (ppi_dependencies item) \<inter> ppi_id ` set items \<subseteq> ppi_id ` chosen))"
proof -
  let ?ordered = "stablePromptPackItems lc (ppl_items plan)"
  let ?chosen = "filter (\<lambda>item. ppi_id item \<in> set (selectedIds ?ordered selection)) ?ordered"
  have "pip_importAvailable (buildPromptPackImportPreview lc plan selection)
      = piv_canImport (validatePromptPackImportPlan lc plan (Some (map ppi_id ?chosen)))"
    and sel: "pip_selectedItems (buildPromptPackImportPreview lc plan selection) = ?chosen"
    by (simp_all add: buildPromptPackImportPreview_def Let_def)
  moreover have again: "filter (\<lambda>item. ppi_id item \<in> set (map ppi_id ?chosen)) ?ordered = ?chosen"
    by (rule filter_cong) auto
  have one: "(if b then [x] else []) = [] \<longleftrightarrow> \<not> b" for b and x :: PromptPackDiagnostic by (cases b; simp)
  have "piv_canImport (validatePromptPackImportPlan lc plan (Some (map ppi_id ?chosen))) \<longleftrightarrow>
      ppl_errors plan = [] \<and> (?ordered = [] \<or> ?chosen \<noteq> [])
      \<and> unselectedDependencies ?ordered (map ppi_id ?chosen) = []"
    using again
    by (simp only: validatePromptPackImportPlan_def Let_def selectedIds_def js_default_simps
        PromptPackImportValidation.simps append_is_Nil_conv one) blast
  moreover have "unselectedDependencies ?ordered (map ppi_id ?chosen) = [] \<longleftrightarrow>
      (\<forall>item \<in> set ?chosen.
         set (ppi_dependencies item) \<inter> ppi_id ` set (ppl_items plan) \<subseteq> ppi_id ` set ?chosen)"
  proof -
    define chosen where "chosen = ?chosen"
    have "item \<in> set ?ordered \<and> ppi_id item \<in> set (map ppi_id chosen) \<longleftrightarrow> item \<in> set chosen" for item
      unfolding chosen_def by auto
    then show ?thesis
      unfolding unselectedDependencies_Nil_iff chosen_def [symmetric] set_stable set_map by blast
  qed
  ultimately show ?thesis
    unfolding sel Let_def set_empty stable_Nil_iff by blast
qed

text \<open>
  When a prompt pack can be imported: the plan has no error, something is selected unless the
  pack is empty, and every dependency of a selected item that is in the pack is selected too.
\<close>

theorem importAvailable_iff:
  "pip_importAvailable (buildPromptPackImportPreview lc plan selection) \<longleftrightarrow>
     ppl_errors plan = []
     \<and> (let chosen = {item \<in> set (ppl_items plan).
               case selection of None \<Rightarrow> True | Some ids \<Rightarrow> ppi_id item \<in> set ids}
        in \<not> (ppl_items plan \<noteq> [] \<and> chosen = {})
           \<and> (\<Union>item \<in> chosen. set (ppi_dependencies item)) \<inter> ppi_id ` set (ppl_items plan) \<subseteq> ppi_id ` chosen)"
  unfolding preview_available preview_items Let_def by blast

section \<open>From the plan to the smart queue\<close>

abbreviation adapted :: "PromptPackMetadata \<Rightarrow> PromptPackImportItem list \<Rightarrow> SmartQueuePromptPackInput" where
  "adapted pack items \<equiv> promptPackPreviewToSmartQueuePromptPackInput None pack items"

definition itemNumber :: "PromptPackImportItem list \<Rightarrow> nat \<Rightarrow> rat" where
  "itemNumber items index = js_default (of_nat (index + 1)) (ppi_numericOrder (items ! index))"

text \<open>
  The ids a pack can be addressed by: no two have one slug, and the number of one item, printed or
  padded, is not the id of another.
\<close>

definition addressable :: "PromptPackImportItem list \<Rightarrow> bool" where
  "addressable items \<longleftrightarrow>
     distinct (map (slugText \<circ> ppi_id) items)
     \<and> (\<forall>i < length items. \<forall>j < length items. i \<noteq> j \<longrightarrow>
          ppi_id (items ! i) \<noteq> numberText (itemNumber items j)
          \<and> ppi_id (items ! i) \<noteq> padPromptNumber (itemNumber items j))"

definition itemIdOk :: "PromptPackImportItem \<Rightarrow> bool" where
  "itemIdOk item \<longleftrightarrow> ppi_id item \<noteq> [] \<and> js_trim (ppi_id item) = ppi_id item"

lemma adapted_records:
  assumes "\<forall>item \<in> set items. itemIdOk item"
  shows "length (promptRecords (adapted pack items)) = length items"
    and "index < length items \<Longrightarrow> promptRecords (adapted pack items) ! index =
      \<lparr>pr_input = promptPackItemToSmartQueuePrompt (items ! index) index, pr_order = index + 1,
       pr_sourcePromptId = ppi_id (items ! index), pr_sourcePromptNumber = itemNumber items index,
       pr_taskId = queueTaskId (packIdOf (adapted pack items)) (ppi_id (items ! index))\<rparr>"
proof -
  show "length (promptRecords (adapted pack items)) = length items"
    by (simp add: promptRecords_def promptPackPreviewToSmartQueuePromptPackInput_def)
  assume i: "index < length items"
  then have ok: "itemIdOk (items ! index)" using assms by simp
  show "promptRecords (adapted pack items) ! index =
      \<lparr>pr_input = promptPackItemToSmartQueuePrompt (items ! index) index, pr_order = index + 1,
       pr_sourcePromptId = ppi_id (items ! index), pr_sourcePromptNumber = itemNumber items index,
       pr_taskId = queueTaskId (packIdOf (adapted pack items)) (ppi_id (items ! index))\<rparr>"
    using i ok
    by (simp add: promptRecords_def promptPackPreviewToSmartQueuePromptPackInput_def nth_mapWithIndex
        promptRecord_def promptPackItemToSmartQueuePrompt_def Let_def itemIdOk_def itemNumber_def js_or_str_def)
qed

lemma adapted_references:
  "dependencyReferences (promptPackItemToSmartQueuePrompt item index) = ppi_dependencies item"
  by (simp add: dependencyReferences_def promptPackItemToSmartQueuePrompt_def comp_def)

text \<open>A reference that is the id of an item leads to the task of that item.\<close>

lemma adapted_lookup:
  assumes ids: "\<forall>item \<in> set items. itemIdOk item" and addr: "addressable items" and i: "i < length items"
  shows "map_of (promptReferenceMap (promptRecords (adapted pack items))) (ppi_id (items ! i))
    = Some (queueTaskId (packIdOf (adapted pack items)) (ppi_id (items ! i)))"
proof -
  let ?rs = "promptRecords (adapted pack items)"
  note recs = adapted_records [OF ids]
  have "?rs ! i \<in> set ?rs" using recs(1) i by (metis nth_mem)
  moreover have "ppi_id (items ! i) \<in> referencesOf (?rs ! i)"
    using recs(2) i by (simp add: referencesOf_def)
  ultimately have "map_of (promptReferenceMap ?rs) (ppi_id (items ! i)) \<noteq> None"
    unfolding promptReferenceMap_None_iff by blast
  then obtain t where t: "map_of (promptReferenceMap ?rs) (ppi_id (items ! i)) = Some t" by blast
  then obtain r where r: "r \<in> set ?rs" "t = pr_taskId r" "ppi_id (items ! i) \<in> referencesOf r"
    using promptReferenceMap_SomeD by blast
  then obtain j where j: "j < length items" "r = ?rs ! j" by (auto simp: in_set_conv_nth recs(1))
  have "ppi_id (items ! i) = ppi_id (items ! j)"
    using addr r(3) i j recs(2) [OF j(1)] by (cases "i = j") (auto simp: addressable_def referencesOf_def)
  then show ?thesis using t r(2) j(2) recs(2) [OF j(1)] by simp
qed

lemma dependencyEnds:
  "(x, y) \<in> {(md_downstreamTaskId d, md_upstreamTaskId d) |d. d \<in> set (materializedDependencies rs refs)} \<longleftrightarrow>
     (\<exists>r \<in> set rs. \<exists>ref \<in> set (dependencyReferences (pr_input r)). \<exists>t. map_of refs ref = Some t \<and> t \<noteq> []
        \<and> x = pr_taskId r \<and> y = t)"
  unfolding mem_Collect_eq materializedDependencies_mem by force

lemma adapted_edges:
  assumes ids: "\<forall>item \<in> set items. itemIdOk item" and addr: "addressable items"
    and closed: "\<forall>item \<in> set items. set (ppi_dependencies item) \<subseteq> ppi_id ` set items"
  shows "dependencyEdges (packDependencies (adapted pack items)) =
    {(queueTaskId (packIdOf (adapted pack items)) (ppi_id item),
      queueTaskId (packIdOf (adapted pack items)) d) |item d. item \<in> set items \<and> d \<in> set (ppi_dependencies item)}"
    (is "?L = ?R")
proof -
  let ?rs = "promptRecords (adapted pack items)" and ?q = "queueTaskId (packIdOf (adapted pack items))"
  note recs = adapted_records [OF ids]
  have look: "map_of (promptReferenceMap ?rs) d = Some (?q d)" if d: "d \<in> ppi_id ` set items" for d
    using d adapted_lookup [OF ids addr] by (auto simp: in_set_conv_nth)
  have q: "?q d \<noteq> []" for d by (simp add: queueTaskId_def)
  have ex: "(\<exists>r \<in> set ?rs. P r) \<longleftrightarrow> (\<exists>i < length items. P (?rs ! i))" for P
    by (metis in_set_conv_nth recs(1))
  have at: "dependencyReferences (pr_input (?rs ! i)) = ppi_dependencies (items ! i)"
    "pr_taskId (?rs ! i) = ?q (ppi_id (items ! i))" if "i < length items" for i
    using recs(2) [OF that] by (simp_all add: adapted_references)
  have step: "(x, y) \<in> ?L \<longleftrightarrow> (\<exists>i < length items. \<exists>d \<in> set (ppi_dependencies (items ! i)).
      x = ?q (ppi_id (items ! i)) \<and> y = ?q d)" for x y
  proof -
    have "(x, y) \<in> ?L \<longleftrightarrow> (\<exists>r \<in> set ?rs. \<exists>ref \<in> set (dependencyReferences (pr_input r)). \<exists>t.
        map_of (promptReferenceMap ?rs) ref = Some t \<and> t \<noteq> [] \<and> x = pr_taskId r \<and> y = t)"
      unfolding dependencyEdges_def packDependencies_def dependencyEnds by blast
    also have "\<dots> \<longleftrightarrow> (\<exists>i < length items. \<exists>d \<in> set (ppi_dependencies (items ! i)). \<exists>t.
        map_of (promptReferenceMap ?rs) d = Some t \<and> t \<noteq> [] \<and> x = ?q (ppi_id (items ! i)) \<and> y = t)"
      unfolding ex by (rule ex_cong1) (auto simp: at)
    also have "\<dots> \<longleftrightarrow> (\<exists>i < length items. \<exists>d \<in> set (ppi_dependencies (items ! i)).
        x = ?q (ppi_id (items ! i)) \<and> y = ?q d)"
      using closed look q nth_mem by (metis (no_types, lifting) option.inject subsetD)
    finally show ?thesis .
  qed
  show ?thesis
  proof (rule set_eqI)
    fix e :: "string \<times> string"
    obtain x y where e: "e = (x, y)" by (cases e)
    have "(x, y) \<in> ?R \<longleftrightarrow> (\<exists>item \<in> set items. \<exists>d \<in> set (ppi_dependencies item).
        x = ?q (ppi_id item) \<and> y = ?q d)" by blast
    also have "\<dots> \<longleftrightarrow> (x, y) \<in> ?L" unfolding step by (metis in_set_conv_nth)
    finally show "e \<in> ?L \<longleftrightarrow> e \<in> ?R" unfolding e by (rule sym)
  qed
qed

lemma acyclic_image:
  assumes ac: "acyclic E" and inj: "inj_on f S" and sub: "\<And>x y. (x, y) \<in> E \<Longrightarrow> x \<in> S \<and> y \<in> S"
  shows "acyclic {(f x, f y) |x y. (x, y) \<in> E}"
proof -
  let ?I = "{(f x, f y) |x y. (x, y) \<in> E}"
  have path: "\<exists>x y. a = f x \<and> b = f y \<and> (x, y) \<in> E\<^sup>+" if "(a, b) \<in> ?I\<^sup>+" for a b
    using that
  proof (induction rule: trancl_induct)
    case (base b)
    then show ?case by blast
  next
    case (step b c)
    then obtain x y u v where e: "a = f x" "b = f y" "(x, y) \<in> E\<^sup>+" "b = f u" "c = f v" "(u, v) \<in> E" by blast
    then have "y \<in> S" "u \<in> S" using sub by (meson tranclD2)+
    with e(2,4) inj have "y = u" by (meson inj_onD)
    with e have "(x, v) \<in> E\<^sup>+" by (metis trancl.trancl_into_trancl)
    with e(1,5) show ?case by blast
  qed
  show ?thesis
  proof (rule acyclicI, intro allI notI)
    fix a assume "(a, a) \<in> ?I\<^sup>+"
    from path [OF this] obtain x y where e: "f x = f y" "(x, y) \<in> E\<^sup>+" by metis
    then have "x \<in> S" "y \<in> S" using sub by (meson tranclD tranclD2)+
    with e inj have "x = y" by (meson inj_onD)
    with e(2) ac show False by (simp add: acyclic_def)
  qed
qed

lemma queueTaskId_inj: "queueTaskId p a = queueTaskId p b \<longleftrightarrow> slugText a = slugText b"
  by (simp add: queueTaskId_def)

lemma item_edges:
  assumes "distinct (map ppi_id items)" "item \<in> set items"
  shows "packDeps items (ppi_id item) = ppi_dependencies item"
proof -
  have "List.find (\<lambda>c. ppi_id c = ppi_id item) items \<noteq> None"
    using assms(2) by (auto simp: find_None_iff)
  then obtain c where c: "List.find (\<lambda>c. ppi_id c = ppi_id item) items = Some c" by blast
  then have "c = item" using assms find_Some_iff_mem [OF c] by (meson distinct_map inj_onD)
  with c show ?thesis by (simp add: packDeps_def)
qed

text \<open>What a chosen part of a good plan is: good itself, when it is closed under dependencies.\<close>

definition chosenOk :: "PromptPackImportItem list \<Rightarrow> bool" where
  "chosenOk items \<longleftrightarrow>
     (\<forall>item \<in> set items. itemIdOk item \<and> \<not> js_blank (ppi_promptBody item)
        \<and> set (ppi_dependencies item) \<subseteq> ppi_id ` set items)
     \<and> acyclic {(ppi_id item, d) |item d. item \<in> set items \<and> d \<in> set (ppi_dependencies item)}"

lemma adapted_valid:
  assumes ok: "chosenOk items" and addr: "addressable items"
  shows "snd (validatePack (adapted pack items)) = []"
proof -
  let ?rs = "promptRecords (adapted pack items)"
  let ?E = "{(ppi_id item, d) |item d. item \<in> set items \<and> d \<in> set (ppi_dependencies item)}"
  have ids: "\<forall>item \<in> set items. itemIdOk item"
    and closed: "\<forall>item \<in> set items. set (ppi_dependencies item) \<subseteq> ppi_id ` set items"
    using ok by (simp_all add: chosenOk_def)
  have "promptValid (adapted pack items) (promptReferenceMap ?rs) r" if r: "r \<in> set ?rs" for r
  proof -
    obtain i where i: "i < length items" "r = ?rs ! i"
      using r by (auto simp: in_set_conv_nth adapted_records(1) [OF ids])
    then have input: "pr_input r = promptPackItemToSmartQueuePrompt (items ! i) i"
      using adapted_records(2) [OF ids i(1)] by simp
    have item: "items ! i \<in> set items" using i(1) by simp
    have "map_of (promptReferenceMap ?rs) ref \<noteq> None" if "ref \<in> set (ppi_dependencies (items ! i))" for ref
    proof -
      have "ref \<in> ppi_id ` set items" using that closed item by blast
      then show ?thesis using adapted_lookup [OF ids addr] by (auto simp: in_set_conv_nth)
    qed
    moreover have "\<not> js_blank (ppi_promptBody (items ! i))" using ok item by (simp add: chosenOk_def)
    ultimately show ?thesis
      unfolding promptValid_def input adapted_references
      by (simp add: promptPackItemToSmartQueuePrompt_def requiredSettings_def input
          promptPackPreviewToSmartQueuePromptPackInput_def)
  qed
  moreover have "acyclic (dependencyEdges (packDependencies (adapted pack items)))"
  proof -
    let ?q = "queueTaskId (packIdOf (adapted pack items))"
    have "distinct (map slugText (map ppi_id items))" using addr by (simp add: addressable_def)
    then have "inj_on ?q (ppi_id ` set items)"
      by (auto simp: inj_on_def queueTaskId_inj distinct_map)
    moreover have "x \<in> ppi_id ` set items \<and> y \<in> ppi_id ` set items" if "(x, y) \<in> ?E" for x y
      using that closed by blast
    moreover have "acyclic ?E" using ok by (simp add: chosenOk_def)
    ultimately have "acyclic {(?q x, ?q y) |x y. (x, y) \<in> ?E}" by (rule acyclic_image [rotated])
    moreover have "dependencyEdges (packDependencies (adapted pack items)) = {(?q x, ?q y) |x y. (x, y) \<in> ?E}"
      unfolding adapted_edges [OF ids addr closed] by blast
    ultimately show ?thesis by simp
  qed
  ultimately show ?thesis using validatePack_Nil_iff by blast
qed

lemma chosen_of_plan:
  assumes plan: "plan = planOfDrafts before drafts pack policy"
    and available: "pip_importAvailable (buildPromptPackImportPreview lc plan selection)"
  shows "chosenOk (pip_selectedItems (buildPromptPackImportPreview lc plan selection))"
proof -
  let ?items = "ppl_items plan"
  let ?chosen = "pip_selectedItems (buildPromptPackImportPreview lc plan selection)"
  have sub: "set ?chosen \<subseteq> set ?items" by (auto simp: preview_items)
  have ok: "packOk ?items"
    using available preview_available planOfDrafts_errors plan by blast
  have closed: "set (ppi_dependencies item) \<subseteq> ppi_id ` set ?chosen" if "item \<in> set ?chosen" for item
  proof -
    have "set (ppi_dependencies item) \<subseteq> ppi_id ` set ?items" using ok sub that by (auto simp: packOk_def)
    then show ?thesis using available that unfolding preview_available Let_def by blast
  qed
  have "(ppi_id item, d) \<in> packEdges ?items" if "item \<in> set ?chosen" "d \<in> set (ppi_dependencies item)" for item d
    using item_edges [of ?items item] ok sub that by (auto simp: packOk_def packEdges_def)
  then have "{(ppi_id item, d) |item d. item \<in> set ?chosen \<and> d \<in> set (ppi_dependencies item)} \<subseteq> packEdges ?items"
    by blast
  moreover have "acyclic (packEdges ?items)" using ok by (simp add: packOk_def)
  ultimately have "acyclic {(ppi_id item, d) |item d. item \<in> set ?chosen \<and> d \<in> set (ppi_dependencies item)}"
    by (rule acyclic_subset [rotated])
  moreover have "itemIdOk item \<and> \<not> js_blank (ppi_promptBody item)" if "item \<in> set ?chosen" for item
  proof -
    have item: "item \<in> set ?items" using sub that by blast
    then have "js_trim (ppi_id item) = ppi_id item" unfolding plan by (rule plan_ids_trimmed)
    moreover have "ppi_id item \<noteq> []" using ok item by (metis packOk_def imageI)
    ultimately show ?thesis using ok item by (simp add: packOk_def itemIdOk_def)
  qed
  ultimately show ?thesis using closed by (auto simp: chosenOk_def)
qed

text \<open>The tasks of a valid pack, read off its items.\<close>

lemma materializedTask_fields:
  assumes "materializedTask pack packId blockers tasks ds r = Some t"
  shows "mt_prompt t = spi_body (pr_input r)" "ms_promptId (mt_source t) = pr_sourcePromptId r"
    "mt_taskId t = pr_taskId r"
    "mt_upstreamTaskIds t = map md_upstreamTaskId (filter (\<lambda>d. md_downstreamTaskId d = pr_taskId r) ds)"
    "mt_settings t = mergeSettings (spp_defaultSettings pack) (spi_settings (pr_input r))"
  using assms by (auto simp: materializedTask_def Let_def split: option.splits)

lemma map_of_mergeSettings:
  "map_of (mergeSettings defaults overrides) =
     map_of (js_default [] defaults) ++ map_of (rev (js_default [] overrides))"
proof -
  have "map_of (fold (\<lambda>(key, value) merged. AList.update key value merged) xs m) = map_of m ++ map_of (rev xs)" for xs m
    by (induction xs arbitrary: m) (auto simp: update_conv' map_add_def fun_eq_iff split: option.split)
  then show ?thesis by (simp add: mergeSettings_def)
qed

text \<open>The workspace of an item reaches the settings of its task as text, or not at all.\<close>

lemma settings_workspace:
  "map_of (mergeSettings None (Some (promptPackItemSettings item))) ''executionWorkspace'' =
     map_option JStr (ppi_executionWorkspace item)"
  unfolding map_of_mergeSettings
  by (cases "ppi_executionWorkspace item"; cases "ppi_modelProfile item"; cases "ppi_reasoningEffort item")
     (simp_all add: promptPackItemSettings_def Let_def List.map_filter_def)

definition taskOfItem :: "MaterializedTask \<Rightarrow> string \<Rightarrow> PromptPackImportItem \<Rightarrow> bool" where
  "taskOfItem t packId item \<longleftrightarrow>
     ms_promptId (mt_source t) = ppi_id item \<and> mt_prompt t = ppi_promptBody item
     \<and> mt_taskId t = queueTaskId packId (ppi_id item)
     \<and> set (mt_upstreamTaskIds t) = queueTaskId packId ` set (ppi_dependencies item)
     \<and> hs_status (mt_humanStatus t) = (if ppi_dependencies item = [] then HsReady else HsWaitingDependency)
     \<and> map_of (mt_settings t) ''executionWorkspace'' = map_option JStr (ppi_executionWorkspace item)"

lemma adapted_upstream:
  assumes ok: "chosenOk items" and addr: "addressable items" and i: "i < length items"
  shows "{u. (queueTaskId (packIdOf (adapted pack items)) (ppi_id (items ! i)), u)
      \<in> dependencyEdges (packDependencies (adapted pack items))}
    = queueTaskId (packIdOf (adapted pack items)) ` set (ppi_dependencies (items ! i))"
proof -
  let ?q = "queueTaskId (packIdOf (adapted pack items))"
  have ids: "\<forall>item \<in> set items. itemIdOk item"
    and closed: "\<forall>item \<in> set items. set (ppi_dependencies item) \<subseteq> ppi_id ` set items"
    using ok by (simp_all add: chosenOk_def)
  have "distinct (map (slugText \<circ> ppi_id) items)" using addr by (simp add: addressable_def)
  then have "item = items ! i" if "item \<in> set items" "?q (ppi_id item) = ?q (ppi_id (items ! i))" for item
    using that i by (simp add: queueTaskId_inj distinct_map inj_on_def)
  then show ?thesis
    unfolding adapted_edges [OF ids addr closed] using nth_mem [OF i] by auto
qed

lemma adapted_tasks:
  assumes ok: "chosenOk items" and addr: "addressable items"
  shows "\<exists>p. buildSmartQueueMaterialization pack items = Some p \<and> mp_issues p = []
    \<and> list_all2 (\<lambda>t item. taskOfItem t (packIdOf (adapted pack items)) item) (mp_tasks p) items"
proof -
  let ?a = "adapted pack items"
  let ?P = "packIdOf ?a" and ?rs = "promptRecords ?a" and ?ds = "packDependencies ?a"
  let ?b = "fst (validatePack ?a)"
  let ?tasks = "map (eligibilityTask ?b) ?rs"
  note valid = adapted_valid [OF ok addr]
  have ids: "\<forall>item \<in> set items. itemIdOk item" using ok by (simp add: chosenOk_def)
  note recs = adapted_records [OF ids]
  obtain p where p: "materializeSmartQueuePromptPack ?a = Some p" "mp_issues p = snd (validatePack ?a)"
    "mp_tasks p = map (\<lambda>r. the (materializedTask ?a ?P ?b ?tasks ?ds r)) ?rs"
    using materialize_eq [of ?a] by (force simp: Let_def)
  have "taskOfItem (mp_tasks p ! i) ?P (items ! i)" if i: "i < length items" for i
  proof -
    let ?r = "?rs ! i"
    have r: "?r \<in> set ?rs" using recs(1) i by (metis nth_mem)
    obtain t where t: "materializedTask ?a ?P ?b ?tasks ?ds ?r = Some t"
      using materializedTask_Some [OF r refl] by blast
    then have ti: "mp_tasks p ! i = t" using p(3) i recs(1) by simp
    note f = materializedTask_fields [OF t]
    have "set (mt_upstreamTaskIds t) = {u. (pr_taskId ?r, u) \<in> dependencyEdges ?ds}"
      unfolding f(4) dependencyEdges_def by force
    then have up: "set (mt_upstreamTaskIds t) = queueTaskId ?P ` set (ppi_dependencies (items ! i))"
      using adapted_upstream [OF ok addr i] recs(2) [OF i] by simp
    then have "mt_upstreamTaskIds t = [] \<longleftrightarrow> ppi_dependencies (items ! i) = []"
      by (metis image_is_empty set_empty)
    then show ?thesis
      using status_without_issues [OF valid r t] up f(1,2,3,5) recs(2) [OF i] settings_workspace [of "items ! i"]
      by (simp add: ti taskOfItem_def promptPackItemToSmartQueuePrompt_def
          promptPackPreviewToSmartQueuePromptPackInput_def)
  qed
  moreover have "length (mp_tasks p) = length items" using p(3) recs(1) by simp
  ultimately have "list_all2 (\<lambda>t item. taskOfItem t ?P item) (mp_tasks p) items"
    by (simp add: list_all2_conv_all_nth)
  with p valid show ?thesis by (auto simp: buildSmartQueueMaterialization_def)
qed

text \<open>
  An importable pack reaches the smart queue unchanged. When a preview of a parsed plan can be
  imported and its ids are addressable, the materialisation reports no issue and makes one task per
  selected item, in order, with the prompt of the item, the tasks of exactly its dependencies
  upstream, and the status ready when it has none and waiting for them otherwise.
\<close>

theorem imported_pack_materializes:
  assumes "plan = planOfDrafts before drafts pack policy"
    and "preview = buildPromptPackImportPreview lc plan selection"
    and "pip_importAvailable preview" and "addressable (pip_selectedItems preview)"
  shows "\<exists>p packId. pip_smartQueueMaterialization preview = Some p \<and> mp_issues p = []
    \<and> list_all2 (\<lambda>t item.
          ms_promptId (mt_source t) = ppi_id item \<and> mt_prompt t = ppi_promptBody item
          \<and> mt_taskId t = queueTaskId packId (ppi_id item)
          \<and> set (mt_upstreamTaskIds t) = queueTaskId packId ` set (ppi_dependencies item)
          \<and> hs_status (mt_humanStatus t)
              = (if ppi_dependencies item = [] then HsReady else HsWaitingDependency))
        (mp_tasks p) (pip_selectedItems preview)"
proof -
  have "chosenOk (pip_selectedItems preview)"
    using chosen_of_plan [OF assms(1)] assms(2,3) by blast
  moreover have "pip_smartQueueMaterialization preview =
      buildSmartQueueMaterialization (ppl_pack plan) (pip_selectedItems preview)"
    unfolding assms(2) by (simp add: buildPromptPackImportPreview_def Let_def)
  ultimately obtain p where "pip_smartQueueMaterialization preview = Some p" "mp_issues p = []"
    and "list_all2 (\<lambda>t item. taskOfItem t
        (packIdOf (adapted (ppl_pack plan) (pip_selectedItems preview))) item)
      (mp_tasks p) (pip_selectedItems preview)"
    using adapted_tasks [OF _ assms(4)] by metis
  then show ?thesis unfolding taskOfItem_def by (intro exI conjI) (auto elim!: list_all2_mono)
qed

text \<open>A pack of two prompts, by their ids and dependencies.\<close>

definition exampleDraft :: "string \<Rightarrow> string list \<Rightarrow> ItemDraft" where
  "exampleDraft i dependencies =
     \<lparr>idr_allowedScope = [], idr_dependencies = dependencies, idr_executionWorkspace = None,
      idr_expectedCommitTitle = None, idr_forbiddenScope = [], idr_id = Some i,
      idr_modelProfile = None, idr_numericOrder = None, idr_path = None, idr_priority = 3,
      idr_promptBody = ''Do it.'', idr_reasoningEffort = None, idr_tags = [], idr_title = Some i,
      idr_validationCommands = [], idr_validatorProfile = None\<rparr>"

definition examplePack :: PromptPackMetadata where
  "examplePack = \<lparr>ppk_description = None, ppk_id = ''pack'', ppk_name = ''Pack'', ppk_sourcePaths = []\<rparr>"

definition examplePlan :: PromptPackImportPlan where
  "examplePlan =
     planOfDrafts [] [exampleDraft ''a'' [], exampleDraft ''b'' [''a'']] examplePack ExplicitOnly"

definition exampleA :: PromptPackImportItem where
  "exampleA = itemOfDraft examplePack ExplicitOnly None (exampleDraft ''a'' []) 0"

definition exampleB :: PromptPackImportItem where
  "exampleB =
     itemOfDraft examplePack ExplicitOnly (Some (exampleDraft ''a'' [])) (exampleDraft ''b'' [''a'']) 1"

lemma slugify_letters: "slugify ''a'' = ''a''" "slugify ''b'' = ''b''" "slugText ''a'' = ''a''" "slugText ''b'' = ''b''"
  by code_simp+

lemma example_items: "ppl_items examplePlan = [exampleA, exampleB]"
  by (simp add: examplePlan_def planOfDrafts_def normalizeItems_def sortedDrafts_def exampleA_def
      exampleB_def compareNumericOrder_def subtract_numbers_def exampleDraft_def Let_def)

lemma example_item_facts [simp]:
  "ppi_id exampleA = ''a''" "ppi_id exampleB = ''b''"
  "ppi_dependencies exampleA = []" "ppi_dependencies exampleB = [''a'']"
  "ppi_promptBody exampleA = ''Do it.''" "ppi_promptBody exampleB = ''Do it.''"
  "ppi_numericOrder exampleA = None" "ppi_numericOrder exampleB = None"
  by (simp_all add: exampleA_def exampleB_def itemId_def itemDependencies_def
      suggestedDependencyIds_def exampleDraft_def slugify_letters itemOfDraft_def Let_def)

lemma example_stable: "stablePromptPackItems codeUnitCompare [exampleA, exampleB] = [exampleA, exampleB]"
  by (simp add: stablePromptPackItems_def compareNumericOrder_def subtract_numbers_def
      js_or_def localeCompare_def)

lemma example_numbers: "numberText 1 = ''1''" "numberText 2 = ''2''"
    "padPromptNumber 1 = ''001''" "padPromptNumber 2 = ''002''"
  by code_simp+

lemma example_ok: "packOk [exampleA, exampleB]"
proof -
  have "packEdges [exampleA, exampleB] = {(''b'', ''a'')}"
    by (auto simp: packEdges_def packDeps_def split: if_splits)
  then have "acyclic (packEdges [exampleA, exampleB])" by (auto simp: acyclic_def dest: tranclD tranclD2)
  moreover have "\<not> js_blank ''Do it.''" by code_simp
  ultimately show ?thesis by (simp add: packOk_def)
qed

lemma preview_all_items:
  "pip_selectedItems (buildPromptPackImportPreview lc plan None) = stablePromptPackItems lc (ppl_items plan)"
  by (simp add: buildPromptPackImportPreview_def Let_def selectedIds_def filter_True)

theorem imported_pack_materializes_witness:
  "\<exists>p packId. pip_smartQueueMaterialization
        (buildPromptPackImportPreview codeUnitCompare examplePlan None) = Some p
      \<and> mp_issues p = []
      \<and> list_all2 (\<lambda>t item.
          ms_promptId (mt_source t) = ppi_id item \<and> mt_prompt t = ppi_promptBody item
          \<and> mt_taskId t = queueTaskId packId (ppi_id item)
          \<and> set (mt_upstreamTaskIds t) = queueTaskId packId ` set (ppi_dependencies item)
          \<and> hs_status (mt_humanStatus t)
              = (if ppi_dependencies item = [] then HsReady else HsWaitingDependency))
        (mp_tasks p)
        (pip_selectedItems (buildPromptPackImportPreview codeUnitCompare examplePlan None))"
proof (rule imported_pack_materializes [OF examplePlan_def refl])
  have "ppl_errors examplePlan = []"
    unfolding examplePlan_def planOfDrafts_errors
    using example_ok example_items by (simp add: examplePlan_def)
  then show "pip_importAvailable (buildPromptPackImportPreview codeUnitCompare examplePlan None)"
    unfolding preview_available preview_all_items Let_def set_stable example_items by auto
  have less2: "i < Suc (Suc 0) \<longleftrightarrow> i = 0 \<or> i = Suc 0" for i by auto
  show "addressable (pip_selectedItems (buildPromptPackImportPreview codeUnitCompare examplePlan None))"
    unfolding preview_all_items example_items example_stable addressable_def
    by (auto simp: less2 itemNumber_def slugify_letters example_numbers)
qed

end
