(* ===== verification/Prompt_Materialization.thy ===== *)
theory Prompt_Materialization
  imports Prompt_Preview Prompt_Metadata
begin

text \<open>
  The data of an import and the texts it writes, from
  \<open>workbench/promptPack/promptPackMaterialization.ts\<close>; the import loops are in \<open>Prompt_Import\<close>.

  The bridge to the Queue is a parameter: two functions on a state of their own, which return what
  the awaited calls return or throw. The texts written for a task are the writer of the metadata
  that \<open>Prompt_Metadata\<close> reads, and the theorem of this theory is that round trip.
\<close>

section \<open>Data\<close>

datatype MaterializationDiagnosticCode =
    PmDependencyLinkFailed | PmDependencyLinkSkipped | PmImportBlocked | PmItemCreateFailed
  | PmMetadataPreservedInPrompt | PmQueueBlockedStatusUnsupported | PmQueueMetadataFieldUnsupported

record MaterializationDiagnostic =
  pmd_code :: MaterializationDiagnosticCode
  pmd_dependencyItemId :: "string option"
  pmd_itemId :: "string option"
  pmd_message :: string

record CreatedQueueTask =
  ct_itemId :: string
  ct_queueItemId :: string
  ct_title :: string

datatype LinkStatus = LinkCreated | LinkSkipped

record DependencyLink =
  dl_dependencyItemId :: string
  dl_dependencyQueueItemId :: "string option"
  dl_dependentItemId :: string
  dl_dependentQueueItemId :: "string option"
  dl_message :: "string option"
  dl_status :: LinkStatus

record MaterializationResult =
  mres_createdTasks :: "CreatedQueueTask list"
  mres_dependencyLinksCreated :: "DependencyLink list"
  mres_dependencyLinksSkipped :: "DependencyLink list"
  mres_errors :: "MaterializationDiagnostic list"
  mres_ok :: bool
  mres_warnings :: "MaterializationDiagnostic list"

record RunSettingsDefaults =
  rsd_approvalPolicy :: "string option"
  rsd_codexExecutable :: "string option"
  rsd_executionWorkspace :: "string option"
  rsd_sandbox :: "string option"

record QueueCreateInput =
  qci_approvalPolicy :: "string option"
  qci_codexExecutable :: "string option"
  qci_dependencies :: "string list"
  qci_description :: string
  qci_executionPolicy :: string
  qci_executionWorkspace :: "string option"
  qci_itemType :: string
  qci_priority :: int
  qci_prompt :: string
  qci_queueTagName :: "string option"
  qci_sandbox :: "string option"
  qci_status :: string
  qci_title :: string

text \<open>What an awaited call of the bridge gives: a result, or the message of what it threw.\<close>

datatype CreateOutcome =
    CreateReturned bool "(string \<times> string) option" "string option" "string option"
  | CreateThrew "string option"

datatype UpdateOutcome =
    UpdateReturned bool "string option" "string option"
  | UpdateThrew "string option"

record 's QueueBridge =
  qb_createItem :: "QueueCreateInput \<Rightarrow> 's \<Rightarrow> CreateOutcome \<times> 's"
  qb_updateItem :: "string \<Rightarrow> string list \<Rightarrow> 's \<Rightarrow> UpdateOutcome \<times> 's"
  qb_runSettingsDefaults :: "RunSettingsDefaults option"

section \<open>Settings and texts\<close>

definition stringSetting :: "json option \<Rightarrow> string option" where
  "stringSetting v =
     (case v of Some (JStr s) \<Rightarrow> if js_blank s then None else Some (js_trim s) | _ \<Rightarrow> None)"

definition numberSetting :: "json option \<Rightarrow> int option" where
  "numberSetting v = (case v of Some (JNum n) \<Rightarrow> Some n | _ \<Rightarrow> None)"

definition listSetting :: "json option \<Rightarrow> string list" where
  "listSetting v =
     (case v of Some (JArr xs) \<Rightarrow> filter (\<lambda>s. s \<noteq> []) (map (\<lambda>x. js_trim (jsText x)) xs) | _ \<Rightarrow> [])"

fun jsTruthy :: "json option \<Rightarrow> bool" where
  "jsTruthy None = False"
| "jsTruthy (Some JNull) = False"
| "jsTruthy (Some (JBool b)) = b"
| "jsTruthy (Some (JNum n)) = (n \<noteq> 0)"
| "jsTruthy (Some (JStr s)) = (s \<noteq> [])"
| "jsTruthy (Some (JArr _)) = True"
| "jsTruthy (Some (JObj _)) = True"

definition validationPolicySetting :: "pack_settings \<Rightarrow> (string list \<times> string option) option" where
  "validationPolicySetting settings =
     (case map_of settings ''validationPolicy'' of
        Some (JObj r) \<Rightarrow> Some (listSetting (map_of r ''commands''), stringSetting (map_of r ''profile''))
      | _ \<Rightarrow> None)"

definition validationCommandsOf :: "pack_settings \<Rightarrow> string list" where
  "validationCommandsOf settings = js_default [] (map_option fst (validationPolicySetting settings))"

definition validationProfile :: "pack_settings \<Rightarrow> string option" where
  "validationProfile settings = Option.bind (validationPolicySetting settings) snd"

definition expectedCommitTitleOf :: "pack_settings \<Rightarrow> string option" where
  "expectedCommitTitleOf settings =
     (case map_of settings ''commitPolicy'' of
        Some (JObj r) \<Rightarrow> stringSetting (map_of r ''expectedCommitTitle'') | _ \<Rightarrow> None)"

definition setting :: "MaterializedTask \<Rightarrow> string \<Rightarrow> json option" where
  "setting task name = map_of (mt_settings task) name"

definition firstTag :: "json option \<Rightarrow> string option" where
  "firstTag v = js_first (listSetting v)"

definition normalizeExecutionPolicy :: "json option \<Rightarrow> string" where
  "normalizeExecutionPolicy v =
     (case stringSetting v of
        Some s \<Rightarrow> if s \<in> {''auto'', ''after_previous_success''} then s else ''manual''
      | None \<Rightarrow> ''manual'')"

definition normalizeItemTypeSetting :: "json option \<Rightarrow> string" where
  "normalizeItemTypeSetting v =
     (case stringSetting v of
        Some s \<Rightarrow> if s \<in> {''diff_review'', ''follow_up'', ''validation''} then s else ''implementation''
      | None \<Rightarrow> ''implementation'')"

definition underscored :: "string \<Rightarrow> string" where
  "underscored s = map (\<lambda>c. if c = CHR ''-'' then CHR ''_'' else c) s"

definition normalizeApprovalPolicy :: "json option \<Rightarrow> string option" where
  "normalizeApprovalPolicy v =
     (case map_option underscored (stringSetting v) of
        Some s \<Rightarrow> if s \<in> {''never'', ''on_request'', ''untrusted''} then Some s else None
      | None \<Rightarrow> None)"

definition normalizeSandbox :: "json option \<Rightarrow> string option" where
  "normalizeSandbox v =
     (case map_option underscored (stringSetting v) of
        Some s \<Rightarrow> if s \<in> {''danger_full_access'', ''read_only'', ''workspace_write''} then Some s else None
      | None \<Rightarrow> None)"

definition normalizedExecutionWorkspace :: "string option \<Rightarrow> string option" where
  "normalizedExecutionWorkspace v =
     (let t = js_trim (js_default [] v) in if t = [] \<or> t = ''~'' \<or> t = ''.'' then None else Some t)"

text \<open>
  The same on a setting: \<open>value?.trim()\<close> of a JSON value that is neither text nor \<open>null\<close> throws, which
  is \<open>None\<close> here.
\<close>

definition workspaceSetting :: "json option \<Rightarrow> string option option" where
  "workspaceSetting v =
     (case v of
        None \<Rightarrow> Some (normalizedExecutionWorkspace None)
      | Some JNull \<Rightarrow> Some (normalizedExecutionWorkspace None)
      | Some (JStr s) \<Rightarrow> Some (normalizedExecutionWorkspace (Some s))
      | Some _ \<Rightarrow> None)"

definition materializedTitle :: "MaterializedTask \<Rightarrow> string" where
  "materializedTitle task = js_trim (ms_promptId (mt_source task) @ '': '' @ mt_title task)"

definition packLine :: "MaterializedTask \<Rightarrow> string" where
  "packLine task =
     js_default ''Prompt Pack'' (ms_packName (mt_source task)) @ '' ('' @ ms_packId (mt_source task) @ '')''"

definition labelled :: "string \<Rightarrow> string \<Rightarrow> string" where
  "labelled label v = label @ '': '' @ v"

definition lineIf :: "bool \<Rightarrow> string \<Rightarrow> string \<Rightarrow> string list" where
  "lineIf b label v = (if b then [labelled label v] else [])"

definition settingLine :: "MaterializedTask \<Rightarrow> string \<Rightarrow> string \<Rightarrow> string list" where
  "settingLine task name label =
     lineIf (jsTruthy (setting task name)) label (jsText (js_default JNull (setting task name)))"

definition materializedDescription :: "MaterializedTask \<Rightarrow> string" where
  "materializedDescription task =
     (let tags = listSetting (setting task ''tags'') in
      js_join [NEWLINE] (filter (\<lambda>l. l \<noteq> [])
        ([labelled ''Prompt pack'' (packLine task),
          labelled ''Prompt item'' (ms_promptId (mt_source task)),
          labelled ''Prompt number'' (numberText (ms_promptNumber (mt_source task)))]
         @ lineIf (js_truthy_str (ms_sourcePath (mt_source task))) ''Source path''
             (js_default [] (ms_sourcePath (mt_source task)))
         @ lineIf (tags \<noteq> []) ''Tags'' (js_join '', '' tags)
         @ settingLine task ''model'' ''Model profile''
         @ settingLine task ''reasoning'' ''Reasoning effort''
         @ lineIf (js_truthy_str (validationProfile (mt_settings task))) ''Validator profile''
             (js_default [] (validationProfile (mt_settings task))))))"

fun gateName :: "DependencyGateValue \<Rightarrow> string" where
  "gateName GateNone = ''none''"
| "gateName GateWaiting = ''waiting''"
| "gateName GateSatisfied = ''satisfied''"
| "gateName GateFailed = ''failed''"
| "gateName GateBlocked = ''blocked''"

text \<open>The lines behind the marker.\<close>

definition metadataLines :: "MaterializedTask \<Rightarrow> string option \<Rightarrow> string list" where
  "metadataLines task executionWorkspace =
     (let tags = listSetting (setting task ''tags'');
          dependencies = mt_requestedDependencyReferences task;
          profile = validationProfile (mt_settings task);
          expected = expectedCommitTitleOf (mt_settings task)
      in [labelled ''Pack'' (packLine task),
          labelled ''Block id'' (ms_promptId (mt_source task)),
          labelled ''Prompt number'' (numberText (ms_promptNumber (mt_source task)))]
         @ lineIf (js_truthy_str (ms_sourcePath (mt_source task))) ''Source path''
             (js_default [] (ms_sourcePath (mt_source task)))
         @ [labelled ''Priority'' (jsonInt (js_default 3 (numberSetting (setting task ''priority''))))]
         @ lineIf (tags \<noteq> []) ''Tags'' (js_join '', '' tags)
         @ lineIf (js_truthy_str executionWorkspace) ''Execution workspace'' (js_default [] executionWorkspace)
         @ settingLine task ''model'' ''Model profile''
         @ settingLine task ''reasoning'' ''Reasoning effort''
         @ lineIf (js_truthy_str profile) ''Validator profile'' (js_default [] profile)
         @ lineIf (dependencies \<noteq> []) ''Prompt-pack dependencies'' (js_join '', '' dependencies)
         @ lineIf (js_truthy_str expected) ''Expected commit title'' (js_default [] expected)
         @ sectionLines ''Validation commands'' (validationCommandsOf (mt_settings task))
         @ sectionLines ''Allowed scope'' (listSetting (setting task ''allowedScope''))
         @ sectionLines ''Forbidden scope'' (listSetting (setting task ''forbiddenScope''))
         @ [labelled ''Smart Queue task id'' (mt_taskId task),
            labelled ''Smart Queue human status'' (hs_label (mt_humanStatus task)),
            labelled ''Smart Queue dependency gate'' (gateName (gate_gate (mt_dependencyGate task))),
            ''Queue dependency links are created from the Smart Queue materialized graph after all selected prompt-pack items are created. Imported Queue items must not auto-run.'',
            ''Do not auto-finalize, auto-commit, auto-push, or run dependent tasks.''])"

definition materializedPrompt :: "MaterializedTask \<Rightarrow> string option \<Rightarrow> string" where
  "materializedPrompt task executionWorkspace =
     mt_prompt task
     @ js_join [NEWLINE] ([] # [] # PROMPT_METADATA_MARKER # metadataLines task executionWorkspace)"

section \<open>The metadata is read back\<close>

lemma dropWhile_all: "\<forall>c \<in> set a. P c \<Longrightarrow> dropWhile P (a @ s) = dropWhile P s"
  by (induction a) auto

lemma js_trim_wrap:
  assumes "\<forall>c \<in> set a. js_whitespace c" "\<forall>c \<in> set b. js_whitespace c"
    and u: "js_trim u = u"
  shows "js_trim (a @ u @ b) = u"
proof (cases "u = []")
  case True
  have "dropWhile js_whitespace (a @ b) = []" using assms(1,2) by (auto simp: dropWhile_eq_Nil_conv)
  then have "js_trim (a @ b) = []" unfolding js_trim_def by (simp only: rev.simps dropWhile.simps)
  then show ?thesis using True by simp
next
  case False
  then have "\<not> js_whitespace (hd u)" "\<not> js_whitespace (last u)" using u js_trim_fixed_iff by blast+
  then show ?thesis
    using assms(1,2) False by (simp add: js_trim_def dropWhile_all dropWhile_self hd_rev)
qed

lemma js_trim_end_split: "\<exists>b. s = js_trim_end s @ b \<and> (\<forall>c \<in> set b. js_whitespace c)"
proof -
  have "rev s = takeWhile js_whitespace (rev s) @ dropWhile js_whitespace (rev s)" by simp
  then have "s = js_trim_end s @ rev (takeWhile js_whitespace (rev s))"
    unfolding js_trim_end_def by (metis rev_append rev_rev_ident)
  then show ?thesis by (metis set_rev set_takeWhileD)
qed

lemma js_trim_spaces: "\<exists>a b. s = a @ js_trim s @ b \<and> (\<forall>c \<in> set a \<union> set b. js_whitespace c)"
proof -
  let ?d = "dropWhile js_whitespace s"
  obtain b where b: "?d = js_trim_end ?d @ b" "\<forall>c \<in> set b. js_whitespace c" using js_trim_end_split by blast
  have t: "js_trim s = js_trim_end ?d" by (simp add: js_trim_def js_trim_end_def)
  have "s = takeWhile js_whitespace s @ js_trim s @ b" using b(1) t by (metis takeWhile_dropWhile_id)
  moreover have "\<forall>c \<in> set (takeWhile js_whitespace s) \<union> set b. js_whitespace c"
    using b(2) set_takeWhileD by fastforce
  ultimately show ?thesis by blast
qed

lemma js_trim_trim_end [simp]: "js_trim (js_trim_end s) = js_trim s"
proof -
  obtain b where b: "s = js_trim_end s @ b" "\<forall>c \<in> set b. js_whitespace c" using js_trim_end_split by blast
  obtain a b' where ab: "js_trim_end s = a @ js_trim (js_trim_end s) @ b'"
    "\<forall>c \<in> set a \<union> set b'. js_whitespace c" using js_trim_spaces by blast
  have "s = a @ js_trim (js_trim_end s) @ (b' @ b)" using b(1) ab(1) by (metis append.assoc)
  moreover have "js_trim (a @ js_trim (js_trim_end s) @ (b' @ b)) = js_trim (js_trim_end s)"
    using b(2) ab(2) by (intro js_trim_wrap) auto
  ultimately show ?thesis by metis
qed

lemma js_trim_after:
  assumes "l \<noteq> []" "\<not> js_whitespace (hd l)" "\<not> js_whitespace c"
  shows "js_trim (l @ c # w) = l @ c # js_trim_end w"
proof -
  have "dropWhile js_whitespace (l @ c # w) = l @ c # w" using assms(1,2) by (simp add: dropWhile_self)
  moreover have "dropWhile js_whitespace (rev w @ c # rev l) = dropWhile js_whitespace (rev w) @ c # rev l"
    using assms(3) by (simp add: dropWhile_append3 dropWhile_append)
  ultimately show ?thesis by (simp add: js_trim_def js_trim_end_def)
qed

text \<open>A label the reader may meet at the start of a line.\<close>

definition plainLabel :: "string \<Rightarrow> bool" where
  "plainLabel l \<longleftrightarrow>
     l \<noteq> [] \<and> CHR '':'' \<notin> set l \<and> \<not> js_whitespace (hd l) \<and> \<not> js_whitespace (last l)
     \<and> hd l \<noteq> CHR ''-'' \<and> l \<notin> set LIST_SECTION_LABELS"

lemma metadataLine_labelled:
  assumes "plainLabel l"
  shows "metadataLine (m, a) (js_trim (labelled l v)) = (metadataField l (js_trim v) m, None)"
proof -
  have c: "\<not> js_whitespace (CHR '':'')" and sp: "js_whitespace (CHR '' '')" by code_simp+
  have l: "l \<noteq> []" "CHR '':'' \<notin> set l" "js_trim l = l" "hd l \<noteq> CHR ''-''" "\<not> js_whitespace (hd l)"
    using assms by (auto simp: plainLabel_def js_trim_fixed_iff)
  let ?w = "js_trim_end (CHR '' '' # v)"
  have t: "js_trim (labelled l v) = l @ CHR '':'' # ?w"
    using js_trim_after [OF l(1,5) c] by (simp add: labelled_def)
  have w: "js_trim ?w = js_trim v" using sp by simp
  have "splitLabelValue (l @ CHR '':'' # ?w) = (Some l, js_trim ?w)"
    using l(2,3) by (simp add: splitLabelValue_def takeWhile_append dropWhile_append del: js_trim_trim_end)
  moreover have "l @ CHR '':'' # ?w \<notin> set LIST_SECTION_LABELS"
    using list_labels_facts [of "l @ CHR '':'' # ?w"] by auto
  moreover have "\<not> prefix ''- '' (l @ CHR '':'' # ?w)" using l(1,4) by (cases l) auto
  ultimately show ?thesis
    unfolding t metadataLine_def using l(1) assms w by (simp add: plainLabel_def del: js_trim_trim_end)
qed

lemma foldl_lineIf:
  assumes "plainLabel l"
  shows "foldl metadataLine (m, None) (map js_trim (lineIf b l v))
    = (if b then metadataField l (js_trim v) m else m, None)"
  using metadataLine_labelled [OF assms] by (simp add: lineIf_def)

lemma section_trimmed:
  assumes "t \<in> set LIST_SECTION_LABELS" "\<forall>v \<in> set vs. v \<noteq> [] \<and> js_trim v = v"
  shows "map js_trim (sectionLines t vs) = sectionLines t vs"
proof -
  have "js_trim t = t" using assms(1) by (auto simp: LIST_SECTION_LABELS_def js_trim_fixed_iff js_whitespace_def)
  moreover have "js_trim (''- '' @ v) = ''- '' @ v" if "v \<in> set vs" for v
    using assms(2) that by (intro js_trim_labelled) (auto simp: js_whitespace_def)
  ultimately show ?thesis by (auto simp: sectionLines_def)
qed

lemma listSetting_trimmed: "v \<in> set (listSetting s) \<Longrightarrow> v \<noteq> [] \<and> js_trim v = v"
  by (auto simp: listSetting_def split: option.splits json.splits)

lemma stringSetting_trimmed: "stringSetting s = Some v \<Longrightarrow> v \<noteq> [] \<and> js_trim v = v"
  by (auto simp: stringSetting_def js_blank_def split: option.splits json.splits if_splits)

lemma validationCommands_trimmed: "v \<in> set (validationCommandsOf settings) \<Longrightarrow> v \<noteq> [] \<and> js_trim v = v"
  by (auto simp: validationCommandsOf_def validationPolicySetting_def dest: listSetting_trimmed
      split: option.splits json.splits)

lemma expectedTitle_trimmed: "expectedCommitTitleOf settings = Some v \<Longrightarrow> v \<noteq> [] \<and> js_trim v = v"
  by (auto simp: expectedCommitTitleOf_def dest: stringSetting_trimmed split: option.splits json.splits)

lemma sublist_at_break:
  assumes "NEWLINE \<notin> set m" "m \<noteq> []" "sublist m (x @ NEWLINE # r)"
  shows "sublist m x \<or> sublist m r"
proof -
  from assms(3) consider "sublist m x" | "sublist m (NEWLINE # r)"
    | xs1 xs2 where "m = xs1 @ xs2" "suffix xs1 x" "prefix xs2 (NEWLINE # r)"
    unfolding sublist_append by blast
  then show ?thesis
  proof cases
    case 2
    then show ?thesis using assms(1,2) by (cases m) (auto simp: sublist_Cons_right)
  next
    case 3
    then have "xs2 = []" using assms(1) by (cases xs2) auto
    with 3 show ?thesis by (metis append_Nil2 suffix_imp_sublist)
  qed simp
qed

lemma sublist_join_lines:
  assumes "NEWLINE \<notin> set m" "m \<noteq> []"
  shows "sublist m (js_join [NEWLINE] ls) \<Longrightarrow> \<exists>l \<in> set ls. sublist m l"
proof (induction "[NEWLINE]" ls rule: js_join.induct)
  case (3 x y ys)
  then have "sublist m x \<or> sublist m (js_join [NEWLINE] (y # ys))"
    using sublist_at_break [OF assms] by simp
  with 3 show ?case by (metis list.set_intros)
qed (use assms in auto)

text \<open>What the texts of a task must be like for its metadata to survive the trip.\<close>

definition metadataWritable :: "MaterializedTask \<Rightarrow> string option \<Rightarrow> bool" where
  "metadataWritable task executionWorkspace \<longleftrightarrow>
     list_all (\<lambda>l. list_all (\<lambda>c. \<not> lineTerminator c) l \<and> \<not> sublist PROMPT_METADATA_MARKER l)
       (metadataLines task executionWorkspace)
     \<and> lineText (ms_promptId (mt_source task)) \<and> lineText (ms_packId (mt_source task))
     \<and> list_all (\<lambda>c. \<not> parenChar c) (ms_packId (mt_source task))
     \<and> lineText (js_default ''Prompt Pack'' (ms_packName (mt_source task)))
     \<and> list_all (\<lambda>d. d \<noteq> [] \<and> js_trim d = d \<and> CHR '','' \<notin> set d) (mt_requestedDependencyReferences task)"

definition writtenMetadata :: "MaterializedTask \<Rightarrow> QueuePromptPackImportMetadata" where
  "writtenMetadata task =
     \<lparr>ppm_allowedScope = listSetting (setting task ''allowedScope''),
      ppm_blockId = Some (ms_promptId (mt_source task)),
      ppm_dependencies = mt_requestedDependencyReferences task,
      ppm_expectedCommitTitle = expectedCommitTitleOf (mt_settings task),
      ppm_forbiddenScope = listSetting (setting task ''forbiddenScope''),
      ppm_packId = Some (ms_packId (mt_source task)),
      ppm_packName = Some (js_default ''Prompt Pack'' (ms_packName (mt_source task))),
      ppm_validationCommands = validationCommandsOf (mt_settings task)\<rparr>"

lemma plain_labels:
  "plainLabel ''Pack''" "plainLabel ''Block id''" "plainLabel ''Prompt number''"
  "plainLabel ''Source path''" "plainLabel ''Priority''" "plainLabel ''Tags''"
  "plainLabel ''Execution workspace''" "plainLabel ''Model profile''" "plainLabel ''Reasoning effort''"
  "plainLabel ''Validator profile''" "plainLabel ''Prompt-pack dependencies''"
  "plainLabel ''Expected commit title''" "plainLabel ''Smart Queue task id''"
  "plainLabel ''Smart Queue human status''" "plainLabel ''Smart Queue dependency gate''"
  by (simp_all add: plainLabel_def LIST_SECTION_LABELS_def js_whitespace_def)

lemma ignored_labels:
  "metadataField ''Prompt number'' v m = m" "metadataField ''Source path'' v m = m"
  "metadataField ''Priority'' v m = m" "metadataField ''Tags'' v m = m"
  "metadataField ''Execution workspace'' v m = m" "metadataField ''Model profile'' v m = m"
  "metadataField ''Reasoning effort'' v m = m" "metadataField ''Validator profile'' v m = m"
  "metadataField ''Smart Queue task id'' v m = m" "metadataField ''Smart Queue human status'' v m = m"
  "metadataField ''Smart Queue dependency gate'' v m = m"
  by (simp_all add: metadataField_def)

lemma read_labels:
  "metadataField ''Pack'' v m = m\<lparr>ppm_packName := fst (parsePackLine v), ppm_packId := snd (parsePackLine v)\<rparr>"
  "metadataField ''Block id'' v m = m\<lparr>ppm_blockId := textOrNull v\<rparr>"
  "metadataField ''Prompt-pack dependencies'' v m = m\<lparr>ppm_dependencies := splitCsv v\<rparr>"
  "metadataField ''Expected commit title'' v m = m\<lparr>ppm_expectedCommitTitle := textOrNull v\<rparr>"
  by (simp_all add: metadataField_def)

lemma foldl_ignored:
  assumes "plainLabel l" "\<And>v m. metadataField l v m = m"
  shows "foldl metadataLine (m, None) (map js_trim (lineIf b l v)) = (m, None)"
  using foldl_lineIf [OF assms(1)] assms(2) by simp

lemma foldl_prose:
  "foldl metadataLine (m, a) (map js_trim
     [''Queue dependency links are created from the Smart Queue materialized graph after all selected prompt-pack items are created. Imported Queue items must not auto-run.'',
      ''Do not auto-finalize, auto-commit, auto-push, or run dependent tasks.'']) = (m, None)"
proof -
  have t: "js_trim l = l" if "l \<noteq> []" "\<not> js_whitespace (hd l)" "\<not> js_whitespace (last l)" for l
    using that by (rule js_trim_id)
  show ?thesis
    by (simp add: t js_whitespace_def metadataLine_prose LIST_SECTION_LABELS_def)
qed

lemma foldl_dependencies:
  assumes "list_all (\<lambda>d. d \<noteq> [] \<and> js_trim d = d \<and> CHR '','' \<notin> set d) ds" "ppm_dependencies m = []"
  shows "foldl metadataLine (m, None)
      (map js_trim (lineIf (ds \<noteq> []) ''Prompt-pack dependencies'' (js_join '', '' ds)))
    = (m\<lparr>ppm_dependencies := ds\<rparr>, None)"
proof (cases "ds = []")
  case True
  then show ?thesis using assms(2) by (simp add: lineIf_def)
next
  case False
  have "\<exists>x. js_join '', '' ds = x @ last ds"
    using False by (induction "'', ''" ds rule: js_join.induct) auto
  then obtain x where j: "js_join '', '' ds = x @ last ds" by blast
  have ok: "last ds \<noteq> []" "js_trim (last ds) = last ds" "hd ds \<noteq> []" "js_trim (hd ds) = hd ds"
    using assms(1) False by (simp_all add: list_all_iff)
  have "\<not> js_whitespace (last (js_join '', '' ds))" using j ok(1,2) by (simp add: js_trim_fixed_iff)
  moreover have "hd (js_join '', '' ds) = hd (hd ds)"
    using ok(3) False by (cases "('', '', ds)" rule: js_join.cases) auto
  then have "\<not> js_whitespace (hd (js_join '', '' ds))" using ok(3,4) by (simp add: js_trim_fixed_iff)
  moreover have "js_join '', '' ds \<noteq> []" using j ok(1) by simp
  ultimately have t: "js_trim (js_join '', '' ds) = js_join '', '' ds" by (intro js_trim_id)
  have "splitCsv (js_join '', '' ds) = ds"
    using assms(1) by (intro splitCsv_join) (simp add: list_all_iff)
  then show ?thesis
    using False by (simp add: foldl_lineIf [OF plain_labels(11)] read_labels t)
qed

lemma foldl_expected:
  assumes "\<And>v. e = Some v \<Longrightarrow> v \<noteq> [] \<and> js_trim v = v" "ppm_expectedCommitTitle m = None"
  shows "foldl metadataLine (m, None)
      (map js_trim (lineIf (js_truthy_str e) ''Expected commit title'' (js_default [] e)))
    = (m\<lparr>ppm_expectedCommitTitle := e\<rparr>, None)"
  using assms by (cases e) (simp_all add: foldl_lineIf [OF plain_labels(12)] read_labels)

lemma foldl_section:
  assumes "t \<in> set LIST_SECTION_LABELS" "\<And>v. v \<in> set vs \<Longrightarrow> v \<noteq> [] \<and> js_trim v = v"
  shows "\<exists>a'. foldl metadataLine (m, a) (map js_trim (sectionLines t vs))
    = (foldl (\<lambda>m v. pushMetadata (listKeyForLabel t) v m) m vs, a')"
  using assms by (simp add: section_trimmed metadataLine_section)

lemma packLine_read:
  assumes "lineText i" "list_all (\<lambda>c. \<not> parenChar c) i" "lineText name"
  shows "parsePackLine (js_trim (name @ '' ('' @ i @ '')'')) = (Some name, Some i)"
proof -
  have "js_trim (name @ '' ('' @ i @ '')'') = name @ '' ('' @ i @ '')''"
    using assms(3) by (intro js_trim_id) (auto simp: lineText_def js_trim_fixed_iff js_whitespace_def)
  then show ?thesis using parsePackLine_written [OF assms(3,1,2)] by simp
qed

lemma section_labels:
  "''Validation commands'' \<in> set LIST_SECTION_LABELS" "''Allowed scope'' \<in> set LIST_SECTION_LABELS"
  "''Forbidden scope'' \<in> set LIST_SECTION_LABELS"
  "listKeyForLabel ''Validation commands'' = ListValidationCommands"
  "listKeyForLabel ''Allowed scope'' = ListAllowedScope"
  "listKeyForLabel ''Forbidden scope'' = ListForbiddenScope"
  by (simp_all add: LIST_SECTION_LABELS_def listKeyForLabel_def)

lemma lineIf_True: "[labelled l v] = lineIf True l v"
  by (simp add: lineIf_def)

lemma metadataLines_pieces:
  "metadataLines task ws =
     lineIf True ''Pack'' (packLine task)
     @ lineIf True ''Block id'' (ms_promptId (mt_source task))
     @ lineIf True ''Prompt number'' (numberText (ms_promptNumber (mt_source task)))
     @ lineIf (js_truthy_str (ms_sourcePath (mt_source task))) ''Source path''
         (js_default [] (ms_sourcePath (mt_source task)))
     @ lineIf True ''Priority'' (jsonInt (js_default 3 (numberSetting (setting task ''priority''))))
     @ lineIf (listSetting (setting task ''tags'') \<noteq> []) ''Tags''
         (js_join '', '' (listSetting (setting task ''tags'')))
     @ lineIf (js_truthy_str ws) ''Execution workspace'' (js_default [] ws)
     @ settingLine task ''model'' ''Model profile''
     @ settingLine task ''reasoning'' ''Reasoning effort''
     @ lineIf (js_truthy_str (validationProfile (mt_settings task))) ''Validator profile''
         (js_default [] (validationProfile (mt_settings task)))
     @ lineIf (mt_requestedDependencyReferences task \<noteq> []) ''Prompt-pack dependencies''
         (js_join '', '' (mt_requestedDependencyReferences task))
     @ lineIf (js_truthy_str (expectedCommitTitleOf (mt_settings task))) ''Expected commit title''
         (js_default [] (expectedCommitTitleOf (mt_settings task)))
     @ sectionLines ''Validation commands'' (validationCommandsOf (mt_settings task))
     @ sectionLines ''Allowed scope'' (listSetting (setting task ''allowedScope''))
     @ sectionLines ''Forbidden scope'' (listSetting (setting task ''forbiddenScope''))
     @ lineIf True ''Smart Queue task id'' (mt_taskId task)
     @ lineIf True ''Smart Queue human status'' (hs_label (mt_humanStatus task))
     @ lineIf True ''Smart Queue dependency gate'' (gateName (gate_gate (mt_dependencyGate task)))
     @ [''Queue dependency links are created from the Smart Queue materialized graph after all selected prompt-pack items are created. Imported Queue items must not auto-run.'',
        ''Do not auto-finalize, auto-commit, auto-push, or run dependent tasks.'']"
  by (simp only: metadataLines_def Let_def lineIf_True [symmetric] append_assoc append_Cons append_Nil)

lemma foldl_first_label:
  "plainLabel l \<Longrightarrow> foldl metadataLine (m, a) (map js_trim (lineIf True l v)) = (metadataField l (js_trim v) m, None)"
  using metadataLine_labelled [of l m a v] by (simp add: lineIf_def)

text \<open>The loop over the whole block.\<close>

lemma foldl_metadataLines:
  assumes w: "metadataWritable task ws"
  shows "fst (foldl metadataLine (emptyPromptMetadata, None) (map js_trim (metadataLines task ws)))
    = writtenMetadata task"
proof -
  let ?s = "mt_settings task" and ?src = "mt_source task"
  have pack: "parsePackLine (js_trim (packLine task)) =
      (Some (js_default ''Prompt Pack'' (ms_packName ?src)), Some (ms_packId ?src))"
    unfolding packLine_def using w by (intro packLine_read) (simp_all add: metadataWritable_def)
  have block: "js_trim (ms_promptId ?src) = ms_promptId ?src" "ms_promptId ?src \<noteq> []"
    using w by (simp_all add: metadataWritable_def lineText_def)
  have deps: "list_all (\<lambda>d. d \<noteq> [] \<and> js_trim d = d \<and> CHR '','' \<notin> set d) (mt_requestedDependencyReferences task)"
    using w by (simp add: metadataWritable_def)
  let ?m0 = "emptyPromptMetadata
    \<lparr>ppm_packName := Some (js_default ''Prompt Pack'' (ms_packName ?src)), ppm_packId := Some (ms_packId ?src)\<rparr>"
  let ?m1 = "?m0\<lparr>ppm_blockId := Some (ms_promptId ?src)\<rparr>"
  let ?m2 = "?m1\<lparr>ppm_dependencies := mt_requestedDependencyReferences task\<rparr>"
  let ?m3 = "?m2\<lparr>ppm_expectedCommitTitle := expectedCommitTitleOf ?s\<rparr>"
  have d: "foldl metadataLine (?m1, None) (map js_trim (lineIf (mt_requestedDependencyReferences task \<noteq> [])
      ''Prompt-pack dependencies'' (js_join '', '' (mt_requestedDependencyReferences task)))) = (?m2, None)"
    by (rule foldl_dependencies [OF deps]) (simp add: emptyPromptMetadata_def)
  have e: "foldl metadataLine (?m2, None) (map js_trim (lineIf (js_truthy_str (expectedCommitTitleOf ?s))
      ''Expected commit title'' (js_default [] (expectedCommitTitleOf ?s)))) = (?m3, None)"
    by (rule foldl_expected [OF expectedTitle_trimmed]) (simp_all add: emptyPromptMetadata_def)
  let ?m4 = "foldl (\<lambda>m v. pushMetadata ListValidationCommands v m) ?m3 (validationCommandsOf ?s)"
  let ?m5 = "foldl (\<lambda>m v. pushMetadata ListAllowedScope v m) ?m4 (listSetting (setting task ''allowedScope''))"
  let ?m6 = "foldl (\<lambda>m v. pushMetadata ListForbiddenScope v m) ?m5 (listSetting (setting task ''forbiddenScope''))"
  obtain a4 where s4: "foldl metadataLine (?m3, None)
      (map js_trim (sectionLines ''Validation commands'' (validationCommandsOf ?s))) = (?m4, a4)"
    using foldl_section [of _ "validationCommandsOf ?s", OF section_labels(1) validationCommands_trimmed [where settings = ?s]] unfolding section_labels by blast
  obtain a5 where s5: "foldl metadataLine (?m4, a4)
      (map js_trim (sectionLines ''Allowed scope'' (listSetting (setting task ''allowedScope'')))) = (?m5, a5)"
    using foldl_section [of _ "listSetting (setting task ''allowedScope'')", OF section_labels(2) listSetting_trimmed [where s = "setting task ''allowedScope''"]]
    unfolding section_labels by blast
  obtain a6 where s6: "foldl metadataLine (?m5, a5)
      (map js_trim (sectionLines ''Forbidden scope'' (listSetting (setting task ''forbiddenScope'')))) = (?m6, a6)"
    using foldl_section [of _ "listSetting (setting task ''forbiddenScope'')", OF section_labels(3) listSetting_trimmed [where s = "setting task ''forbiddenScope''"]]
    unfolding section_labels by blast
  have "foldl metadataLine (emptyPromptMetadata, None) (map js_trim (metadataLines task ws)) = (?m6, None)"
    unfolding metadataLines_pieces map_append foldl_append settingLine_def
      foldl_first_label [OF plain_labels(1)] foldl_first_label [OF plain_labels(2)]
      foldl_first_label [OF plain_labels(3)] foldl_first_label [OF plain_labels(5)]
      ignored_labels read_labels pack fst_conv snd_conv block textOrNull_simps(2) [OF block(2)]
      foldl_ignored [OF plain_labels(4) ignored_labels(2)] foldl_ignored [OF plain_labels(6) ignored_labels(4)]
      foldl_ignored [OF plain_labels(7) ignored_labels(5)] foldl_ignored [OF plain_labels(8) ignored_labels(6)]
      foldl_ignored [OF plain_labels(9) ignored_labels(7)] foldl_ignored [OF plain_labels(10) ignored_labels(8)]
      d e s4 s5 s6 foldl_first_label [OF plain_labels(13)] foldl_first_label [OF plain_labels(14)]
      foldl_first_label [OF plain_labels(15)] foldl_prose
    by (rule refl)
  then show ?thesis
    unfolding pushMetadata_all by (simp add: writtenMetadata_def emptyPromptMetadata_def)
qed

lemma parse_materializedPrompt:
  assumes w: "metadataWritable task ws"
  shows "parsePromptMetadata (materializedPrompt task ws) = (True, writtenMetadata task)"
proof -
  let ?ls = "metadataLines task ws" and ?M = PROMPT_METADATA_MARKER
  have ne: "?ls \<noteq> []" by (simp add: metadataLines_def Let_def)
  have m: "?M \<noteq> []" "hd ?M \<notin> set (tl ?M)" "NEWLINE \<notin> set ?M"
    by (simp_all add: PROMPT_METADATA_MARKER_def)
  have lines: "\<forall>l \<in> set ?ls. list_all (\<lambda>c. \<not> lineTerminator c) l \<and> \<not> sublist ?M l"
    using w by (simp add: metadataWritable_def list_all_iff)
  let ?rest = "NEWLINE # js_join [NEWLINE] ?ls"
  have written: "materializedPrompt task ws = (mt_prompt task @ [NEWLINE, NEWLINE]) @ ?M @ ?rest"
    using ne by (cases ?ls) (simp_all add: materializedPrompt_def)
  have "\<not> sublist ?M (js_join [NEWLINE] ?ls)" using sublist_join_lines [OF m(3,1)] lines by blast
  then have "\<not> sublist ?M ?rest" using sublist_at_break [OF m(3,1), of "[]" "js_join [NEWLINE] ?ls"] m(1) by auto
  then have found: "afterLast ?M (materializedPrompt task ws) = Some ?rest"
    unfolding written by (rule afterLast_append [OF m(1,2)])
  have rest: "?rest = js_join [NEWLINE] ([] # ?ls)" using ne by (cases ?ls) simp_all
  have "js_split_lines ?rest = [] # ?ls"
    unfolding rest using lines by (intro js_split_lines_join) (auto simp: list_all_iff lineTerminator_def)
  moreover have skip_empty: "metadataLine st [] = st" for st by (simp add: metadataLine_def split: prod.split)
  ultimately have "fst (foldl metadataLine (emptyPromptMetadata, None) (map js_trim (js_split_lines ?rest)))
      = fst (foldl metadataLine (emptyPromptMetadata, None) (map js_trim ?ls))"
    by (simp add: skip_empty)
  then show ?thesis using found foldl_metadataLines [OF w] by (simp add: parsePromptMetadata_def)
qed

text \<open>
  C10. The metadata of an imported task survives the trip through its prompt: whatever the description
  and the title of the Queue task have become, the reader recovers from the prompt the block id, the
  pack, the dependencies, the expected commit title, the scopes and the validation commands that the
  importer wrote, provided every written line is one line without the marker, the pack id holds no
  parenthesis, and the references hold no comma.
\<close>

theorem metadata_read_back:
  assumes "metadataWritable task ws"
  shows "getQueuePromptPackImportMetadata (materializedPrompt task ws) description title =
    Some \<lparr>ppm_allowedScope = listSetting (setting task ''allowedScope''),
          ppm_blockId = Some (ms_promptId (mt_source task)),
          ppm_dependencies = mt_requestedDependencyReferences task,
          ppm_expectedCommitTitle = expectedCommitTitleOf (mt_settings task),
          ppm_forbiddenScope = listSetting (setting task ''forbiddenScope''),
          ppm_packId = Some (ms_packId (mt_source task)),
          ppm_packName = Some (js_default ''Prompt Pack'' (ms_packName (mt_source task))),
          ppm_validationCommands = validationCommandsOf (mt_settings task)\<rparr>"
  using parse_materializedPrompt [OF assms]
  by (simp add: getQueuePromptPackImportMetadata_def Let_def writtenMetadata_def)


definition exampleSettings :: pack_settings where
  "exampleSettings =
     [(''allowedScope'', JArr [JStr ''src'']),
      (''validationPolicy'', JObj [(''commands'', JArr [JStr ''test''])])]"

definition exampleTask :: MaterializedTask where
  "exampleTask =
     \<lparr>mt_blockedReason = None, mt_blockers = [],
      mt_dependencyGate = \<lparr>gate_gate = GateWaiting, gate_upstreamTaskIds = [''a''],
        gate_waitingTaskIds = [''a''], gate_satisfiedTaskIds = [], gate_failedTaskIds = [],
        gate_blockedTaskIds = [], gate_missingTaskIds = [], gate_rootFailedTaskIds = [], gate_rootBlockedTaskIds = []\<rparr>,
      mt_humanStatus = \<lparr>hs_status = HsWaitingDependency, hs_label = ''Waiting'', hs_reason = None,
        hs_text = ''Waiting''\<rparr>, mt_lifecycle = LcDraft, mt_order = 2, mt_prompt = ''Do it.'',
      mt_requestedDependencyReferences = [''a''], mt_settings = exampleSettings,
      mt_source = \<lparr>ms_packId = ''pack'', ms_packName = None, ms_packPath = None, ms_promptId = ''b'',
        ms_promptNumber = 2, ms_sourceName = None, ms_sourcePath = None\<rparr>,
      mt_taskId = ''b'', mt_title = ''b'', mt_upstreamTaskIds = []\<rparr>"


lemma example_writable: "metadataWritable exampleTask None"
  by code_simp

theorem metadata_read_back_witness:
  "getQueuePromptPackImportMetadata (materializedPrompt exampleTask None) ''Edited.'' ''b'' =
    Some \<lparr>ppm_allowedScope = [''src''], ppm_blockId = Some ''b'', ppm_dependencies = [''a''],
          ppm_expectedCommitTitle = None, ppm_forbiddenScope = [], ppm_packId = Some ''pack'',
          ppm_packName = Some ''Prompt Pack'', ppm_validationCommands = [''test'']\<rparr>"
proof -
  have "js_trim ''src'' = ''src''" "js_trim ''test'' = ''test''" by code_simp+
  then show ?thesis
    unfolding metadata_read_back [OF example_writable]
    by (simp add: exampleTask_def exampleSettings_def setting_def listSetting_def
      validationCommandsOf_def validationPolicySetting_def expectedCommitTitleOf_def stringSetting_def)
qed

end
