(* ===== verification/Prompt_Import.thy ===== *)
theory Prompt_Import
  imports Prompt_Materialization
begin

text \<open>
  The import loops of \<open>workbench/promptPack/promptPackMaterialization.ts\<close>
  (\<open>materializePromptPackPreviewToQueue\<close>): the guards that refuse before anything is created, one
  creation per task in order, and one dependency update per edge of the graph.

  The calls are awaited one after the other, so the state of the Queue is threaded through them; a
  call that throws is caught per item. The last theorem takes a bridge that does what it promises
  and states what the Queue holds afterwards.
\<close>

section \<open>Guards\<close>

definition diag :: "MaterializationDiagnosticCode \<Rightarrow> string option \<Rightarrow> string option \<Rightarrow> string
    \<Rightarrow> MaterializationDiagnostic" where
  "diag code dependencyId forItem message =
     \<lparr>pmd_code = code, pmd_dependencyItemId = dependencyId, pmd_itemId = forItem,
      pmd_message = message\<rparr>"

definition blockingMaterializationIssue :: "MaterializationPreview \<Rightarrow> MaterializationIssue option" where
  "blockingMaterializationIssue m =
     List.find (\<lambda>i. mi_code i \<in> {IssCircularDependency, IssMissingConfig, IssMissingDependency,
       IssMissingPrompt}) (mp_issues m)"

fun issueShortReason :: "MaterializationIssueCode \<Rightarrow> string" where
  "issueShortReason IssCircularDependency = ''circular dependency''"
| "issueShortReason IssMissingConfig = ''missing required settings''"
| "issueShortReason IssMissingDependency = ''missing dependency''"
| "issueShortReason IssMissingPrompt = ''missing prompt''"

definition cannotCreateMessage :: "string \<Rightarrow> string" where
  "cannotCreateMessage reason =
     (let t = js_trim reason; p = ''Cannot create Queue items:'' in
      p @ '' '' @ (if prefix (js_lower p) (js_lower t)
                   then dropWhile js_whitespace (drop (length p) t) else t))"

definition hasTask :: "MaterializationPreview \<Rightarrow> string \<Rightarrow> bool" where
  "hasTask m taskId \<longleftrightarrow> taskId \<in> mt_taskId ` set (mp_tasks m)"

definition materializationTaskById :: "MaterializationPreview \<Rightarrow> string \<Rightarrow> MaterializedTask option" where
  "materializationTaskById m = map_of (js_map_of_entries (map (\<lambda>t. (mt_taskId t, t)) (mp_tasks m)))"

text \<open>The first guard that refuses, as the diagnostic it pushes.\<close>

definition importRefusal :: "bool \<Rightarrow> PromptPackImportPreview \<Rightarrow> MaterializationPreview \<Rightarrow> bool
    \<Rightarrow> MaterializationDiagnostic option" where
  "importRefusal confirmed preview m hasBridge =
     (if \<not> confirmed
      then Some (diag PmImportBlocked None None
        ''Prompt-pack materialization requires an explicit confirmed preview. No Queue items were created.'')
      else if mp_queueId m \<noteq> SMART_QUEUE_WORKSPACE_QUEUE_ID
      then Some (diag PmImportBlocked None None
        ''Cannot create Queue items: prompt-pack import must target the singleton Workspace Queue.'')
      else if \<not> pip_importAvailable preview
      then Some (diag PmImportBlocked None None (cannotCreateMessage
        (js_default ''Prompt-pack preview has blocking errors.''
          (map_option ppd_message (js_first (pip_errors preview))))))
      else case blockingMaterializationIssue m of
        Some iss \<Rightarrow> Some (diag PmImportBlocked None (mi_sourcePromptId iss)
          (cannotCreateMessage (issueShortReason (mi_code iss))))
      | None \<Rightarrow>
          (case List.find (\<lambda>d. \<not> hasTask m (md_upstreamTaskId d) \<or> \<not> hasTask m (md_downstreamTaskId d))
                  (mp_dependencies m) of
             Some d \<Rightarrow> Some (diag PmImportBlocked None (Some (md_sourceDownstreamPromptId d))
               (cannotCreateMessage ''dependency graph cannot be represented''))
           | None \<Rightarrow>
               if \<not> hasBridge
               then Some (diag PmImportBlocked None None
                 ''Workspace Agent Queue bridge is unavailable. No Queue items were created.'')
               else None))"

section \<open>Creating the items\<close>

definition unsupportedMetadataWarnings :: "MaterializedTask \<Rightarrow> MaterializationDiagnostic list" where
  "unsupportedMetadataWarnings task =
     (let field = (\<lambda>b name. if b then [name] else []);
          fields = field (listSetting (setting task ''allowedScope'') \<noteq> []) ''allowed scope''
            @ field (js_truthy_str (expectedCommitTitleOf (mt_settings task))) ''expected commit title''
            @ field (listSetting (setting task ''forbiddenScope'') \<noteq> []) ''forbidden scope''
            @ field (jsTruthy (setting task ''model'')) ''model profile''
            @ field (ms_promptNumber (mt_source task) \<noteq> 0) ''numeric order''
            @ field (jsTruthy (setting task ''reasoning'')) ''reasoning effort''
            @ field (js_truthy_str (ms_sourcePath (mt_source task))) ''source path''
            @ field (length (listSetting (setting task ''tags'')) > 1) ''additional tags''
            @ field (validationCommandsOf (mt_settings task) \<noteq> []) ''validation commands''
            @ field (js_truthy_str (validationProfile (mt_settings task))) ''validator profile''
      in if fields = [] then []
         else [diag PmQueueMetadataFieldUnsupported None (Some (ms_promptId (mt_source task)))
           (''Queue has no first-class field for '' @ js_join '', '' fields @ '' on prompt-pack item ''
            @ inQuotes (ms_promptId (mt_source task))
            @ ''; Smart Queue materialization preserved this metadata in the Queue prompt body.'')])"

text \<open>The workspace of an item; \<open>None\<close> when reading the setting throws.\<close>

definition executionWorkspaceFor :: "MaterializedTask \<Rightarrow> string option \<Rightarrow> RunSettingsDefaults option
    \<Rightarrow> string option option" where
  "executionWorkspaceFor task currentWorkspaceRoot defaults =
     map_option (\<lambda>executionWorkspace. js_coalesce (js_coalesce executionWorkspace
         (normalizedExecutionWorkspace currentWorkspaceRoot))
         (normalizedExecutionWorkspace (Option.bind defaults rsd_executionWorkspace)))
       (workspaceSetting (setting task ''executionWorkspace''))"

definition createInput :: "MaterializedTask \<Rightarrow> string option \<Rightarrow> RunSettingsDefaults option
    \<Rightarrow> QueueCreateInput" where
  "createInput task executionWorkspace defaults =
     (let tag = firstTag (setting task ''tags'')
      in \<lparr>qci_approvalPolicy = js_coalesce (normalizeApprovalPolicy (setting task ''approvalPolicy''))
            (Option.bind defaults rsd_approvalPolicy),
          qci_codexExecutable = js_coalesce (stringSetting (setting task ''codexExecutable''))
            (Option.bind defaults rsd_codexExecutable),
          qci_dependencies = [], qci_description = materializedDescription task,
          qci_executionPolicy = normalizeExecutionPolicy (setting task ''executionPolicy''),
          qci_executionWorkspace = executionWorkspace,
          qci_itemType = normalizeItemTypeSetting (setting task ''itemType''),
          qci_priority = js_default 3 (numberSetting (setting task ''priority'')),
          qci_prompt = materializedPrompt task executionWorkspace,
          qci_queueTagName = tag,
          qci_sandbox = js_coalesce (normalizeSandbox (setting task ''sandbox''))
            (Option.bind defaults rsd_sandbox),
          qci_status = (if hs_status (mt_humanStatus task) = HsReady then ''queued'' else ''draft''),
          qci_title = materializedTitle task\<rparr>)"

definition importErrorMessage :: "string option \<Rightarrow> string \<Rightarrow> string" where
  "importErrorMessage thrown fallback = (if js_has_text thrown then the thrown else fallback)"

text \<open>What the loops carry: the arrays, the map of created records, and the state of the Queue.\<close>

record 's ImportState =
  im_createdTasks :: "CreatedQueueTask list"
  im_createdByItemId :: "(string \<times> CreatedQueueTask) list"
  im_linksCreated :: "DependencyLink list"
  im_linksSkipped :: "DependencyLink list"
  im_warnings :: "MaterializationDiagnostic list"
  im_errors :: "MaterializationDiagnostic list"
  im_queue :: 's

definition createFailed :: "string \<Rightarrow> string" where
  "createFailed promptId = ''Queue item creation failed for prompt-pack item '' @ inQuotes promptId @ ''.''"

definition createStep :: "'s QueueBridge \<Rightarrow> string option \<Rightarrow> MaterializedTask \<Rightarrow> 's ImportState
    \<Rightarrow> 's ImportState" where
  "createStep bridge executionWorkspace task st =
     (let promptId = ms_promptId (mt_source task);
          st1 = st\<lparr>im_warnings := im_warnings st @ unsupportedMetadataWarnings task\<rparr>;
          (outcome, q) = qb_createItem bridge
            (createInput task executionWorkspace (qb_runSettingsDefaults bridge)) (im_queue st);
          failed = (\<lambda>message. st1\<lparr>im_queue := q,
            im_errors := im_errors st1 @ [diag PmItemCreateFailed None (Some promptId) message]\<rparr>)
      in case outcome of
           CreateThrew thrown \<Rightarrow> failed (importErrorMessage thrown (createFailed promptId))
         | CreateReturned ok item errorMessage message \<Rightarrow>
             (case (if ok then item else None) of
                None \<Rightarrow> failed (js_default (createFailed promptId) (js_coalesce errorMessage message))
              | Some (queueItemId, title) \<Rightarrow>
                  let created = \<lparr>ct_itemId = promptId, ct_queueItemId = queueItemId, ct_title = title\<rparr>
                  in st1\<lparr>im_queue := q, im_createdTasks := im_createdTasks st1 @ [created],
                         im_createdByItemId := AList.update promptId created (im_createdByItemId st1)\<rparr>))"

text \<open>
  The loop over the tasks. The workspace is read before the \<open>try\<close>, so when that throws the loop ends and
  the whole import is rejected: \<open>False\<close>.
\<close>

fun createTasks :: "'s QueueBridge \<Rightarrow> string option \<Rightarrow> MaterializedTask list \<Rightarrow> 's ImportState
    \<Rightarrow> bool \<times> 's ImportState" where
  "createTasks bridge currentWorkspaceRoot [] st = (True, st)"
| "createTasks bridge currentWorkspaceRoot (task # tasks) st =
     (case executionWorkspaceFor task currentWorkspaceRoot (qb_runSettingsDefaults bridge) of
        None \<Rightarrow> (False, st)
      | Some executionWorkspace \<Rightarrow>
          createTasks bridge currentWorkspaceRoot tasks (createStep bridge executionWorkspace task st))"

text \<open>
  C36. What the import asks the Queue to create is well typed, whatever JSON the settings of a task
  hold: either the workspace setting is neither text nor \<open>null\<close>, and reading it throws; or the status, the
  policy and the type of the input are names of the Queue's enumerations, the approval policy and the
  sandbox are known names or the defaults of the Queue, the workspace is never blank nor a placeholder,
  the tag is never blank, and no dependency is set yet.
\<close>

theorem createInput_well_typed:
  "case executionWorkspaceFor task currentWorkspaceRoot defaults of
     None \<Rightarrow> (case setting task ''executionWorkspace'' of
       Some (JBool b) \<Rightarrow> True | Some (JNum n) \<Rightarrow> True | Some (JArr vs) \<Rightarrow> True | Some (JObj ms) \<Rightarrow> True
     | _ \<Rightarrow> False)
   | Some executionWorkspace \<Rightarrow>
     (let i = createInput task executionWorkspace defaults in
       qci_status i \<in> {''queued'', ''draft''}
       \<and> qci_executionPolicy i \<in> range executionPolicyName \<and> qci_itemType i \<in> range itemTypeName
       \<and> set_option (qci_approvalPolicy i)
           \<subseteq> {''never'', ''on_request'', ''untrusted''} \<union> set_option (Option.bind defaults rsd_approvalPolicy)
       \<and> set_option (qci_sandbox i)
           \<subseteq> {''danger_full_access'', ''read_only'', ''workspace_write''} \<union> set_option (Option.bind defaults rsd_sandbox)
       \<and> set_option (qci_executionWorkspace i) \<inter> {[], ''~'', ''.''} = {}
       \<and> [] \<notin> set_option (qci_queueTagName i) \<and> qci_dependencies i = [])"
proof (cases "executionWorkspaceFor task currentWorkspaceRoot defaults")
  case None
  then show ?thesis
    by (auto simp: executionWorkspaceFor_def workspaceSetting_def split: option.splits json.splits)
next
  case (Some executionWorkspace)
  let ?i = "createInput task executionWorkspace defaults"
  have "qci_status ?i \<in> {''queued'', ''draft''} \<and> qci_dependencies ?i = []"
    by (simp add: createInput_def Let_def)
  moreover have "qci_executionPolicy ?i \<in> executionPolicyName ` {PolAuto, PolAfterPreviousSuccess, PolManual}"
    by (simp add: createInput_def Let_def normalizeExecutionPolicy_def split: option.split)
  moreover have "qci_itemType ?i \<in> itemTypeName ` {ItDiffReview, ItFollowUp, ItValidation, ItImplementation}"
    by (simp add: createInput_def Let_def normalizeItemTypeSetting_def split: option.split)
  moreover have "set_option (qci_approvalPolicy ?i)
      \<subseteq> {''never'', ''on_request'', ''untrusted''} \<union> set_option (Option.bind defaults rsd_approvalPolicy)"
    by (auto simp: createInput_def Let_def normalizeApprovalPolicy_def js_coalesce_def split: option.splits if_splits)
  moreover have "set_option (qci_sandbox ?i)
      \<subseteq> {''danger_full_access'', ''read_only'', ''workspace_write''} \<union> set_option (Option.bind defaults rsd_sandbox)"
    by (auto simp: createInput_def Let_def normalizeSandbox_def js_coalesce_def split: option.splits if_splits)
  moreover have n: "w \<notin> {[], ''~'', ''.''}" if "normalizedExecutionWorkspace v = Some w" for v w
    using that by (auto simp: normalizedExecutionWorkspace_def Let_def split: if_splits)
  have "w \<notin> {[], ''~'', ''.''}" if "workspaceSetting v = Some (Some w)" for v w
    using that n by (auto simp: workspaceSetting_def split: option.splits json.splits)
  then have "w \<notin> {[], ''~'', ''.''}" if "executionWorkspace = Some w" for w
    using that Some n by (fastforce simp: executionWorkspaceFor_def js_coalesce_def split: option.splits)
  then have "set_option (qci_executionWorkspace ?i) \<inter> {[], ''~'', ''.''} = {}"
    by (simp add: createInput_def Let_def) (metis disjoint_iff elem_set)
  moreover have "[] \<notin> set_option (qci_queueTagName ?i)"
  proof -
    have "[] \<notin> set (listSetting v)" for v using listSetting_trimmed [of "[]" v] by blast
    then have "firstTag v \<noteq> Some []" for v
      unfolding firstTag_def js_first_Some_iff by (metis list.set_intros(1))
    then show ?thesis by (simp add: createInput_def Let_def elem_set)
  qed
  ultimately show ?thesis unfolding Some Let_def option.case by (simp only: image_iff) blast
qed

section \<open>Linking the items\<close>

definition linkFailed :: "string \<Rightarrow> string" where
  "linkFailed promptId = ''Queue dependency update failed for prompt-pack item '' @ inQuotes promptId @ ''.''"

definition linkStep :: "'s QueueBridge \<Rightarrow> MaterializationPreview \<Rightarrow> MaterializedDependency
    \<Rightarrow> 's ImportState \<Rightarrow> 's ImportState" where
  "linkStep bridge m dependency st =
     (case (materializationTaskById m (md_upstreamTaskId dependency), materializationTaskById m (md_downstreamTaskId dependency)) of
        (Some upstreamTask, Some downstreamTask) \<Rightarrow>
          (let up = ms_promptId (mt_source upstreamTask); down = ms_promptId (mt_source downstreamTask) in
           case map_of (im_createdByItemId st) down of
             None \<Rightarrow> st
           | Some dependentRecord \<Rightarrow>
             (case map_of (im_createdByItemId st) up of
                None \<Rightarrow>
                  let message = ''Dependency '' @ inQuotes up @ '' for prompt-pack item '' @ inQuotes down
                        @ '' was not created, so no Queue dependency link was added.''
                  in st\<lparr>im_warnings := im_warnings st
                          @ [diag PmDependencyLinkSkipped (Some up) (Some down) message,
                             diag PmQueueBlockedStatusUnsupported (Some up) (Some down)
                               ''Current Queue create/update actions do not support setting a blocked task state during prompt-pack materialization; the unresolved dependency is reported here instead.''],
                        im_linksSkipped := im_linksSkipped st
                          @ [\<lparr>dl_dependencyItemId = up, dl_dependencyQueueItemId = None,
                              dl_dependentItemId = down,
                              dl_dependentQueueItemId = Some (ct_queueItemId dependentRecord),
                              dl_message = Some message, dl_status = LinkSkipped\<rparr>]\<rparr>
              | Some upstream \<Rightarrow>
                  let existing = filter (\<lambda>i. i \<noteq> []) (List.map_filter dl_dependencyQueueItemId
                        (filter (\<lambda>l. dl_dependentItemId l = down) (im_linksCreated st)));
                      linked = existing @ [ct_queueItemId upstream];
                      (outcome, q) = qb_updateItem bridge (ct_queueItemId dependentRecord) linked (im_queue st);
                      link = \<lparr>dl_dependencyItemId = ct_itemId upstream,
                              dl_dependencyQueueItemId = Some (ct_queueItemId upstream),
                              dl_dependentItemId = down,
                              dl_dependentQueueItemId = Some (ct_queueItemId dependentRecord),
                              dl_message = None, dl_status = LinkCreated\<rparr>;
                      failed = (\<lambda>message. st\<lparr>im_queue := q,
                        im_errors := im_errors st @ [diag PmDependencyLinkFailed None (Some down) message],
                        im_linksSkipped := im_linksSkipped st
                          @ [link\<lparr>dl_message := Some message, dl_status := LinkSkipped\<rparr>]\<rparr>)
                  in (case outcome of
                        UpdateThrew thrown \<Rightarrow> failed (importErrorMessage thrown (linkFailed down))
                      | UpdateReturned ok errorMessage message \<Rightarrow>
                          if \<not> ok then failed (js_default (linkFailed down) (js_coalesce errorMessage message))
                          else st\<lparr>im_queue := q, im_linksCreated := im_linksCreated st @ [link]\<rparr>)))
      | _ \<Rightarrow> st)"

section \<open>The import\<close>

definition tasksInOrder :: "MaterializationPreview \<Rightarrow> MaterializedTask list" where
  "tasksInOrder m =
     js_sort (\<lambda>left right. subtract_numbers (of_nat (mt_order left)) (of_nat (mt_order right))) (mp_tasks m)"

definition resultOf :: "'s ImportState \<Rightarrow> MaterializationResult" where
  "resultOf st =
     \<lparr>mres_createdTasks = im_createdTasks st, mres_dependencyLinksCreated = im_linksCreated st,
      mres_dependencyLinksSkipped = im_linksSkipped st, mres_errors = im_errors st,
      mres_ok = im_errors st = [], mres_warnings = im_warnings st\<rparr>"

definition noImport :: "'s \<Rightarrow> 's ImportState" where
  "noImport q =
     \<lparr>im_createdTasks = [], im_createdByItemId = [], im_linksCreated = [], im_linksSkipped = [],
      im_warnings = [], im_errors = [], im_queue = q\<rparr>"

text \<open>
  \<open>m\<close> is the materialisation the preview carries; the bridge is absent or present. The result is \<open>None\<close>
  when the import is rejected with an error; what the Queue holds then stays.
\<close>

definition materializePromptPackPreviewToQueue :: "'s QueueBridge option \<Rightarrow> bool \<Rightarrow> string option
    \<Rightarrow> PromptPackImportPreview \<Rightarrow> MaterializationPreview \<Rightarrow> 's \<Rightarrow> MaterializationResult option \<times> 's" where
  "materializePromptPackPreviewToQueue bridge confirmed currentWorkspaceRoot preview m q =
     (case importRefusal confirmed preview m (bridge \<noteq> None) of
        Some refusal \<Rightarrow> (Some (resultOf ((noImport q)\<lparr>im_errors := [refusal]\<rparr>)), q)
      | None \<Rightarrow>
          let b = the bridge;
              (returned, st1) = createTasks b currentWorkspaceRoot (tasksInOrder m) (noImport q)
          in if \<not> returned then (None, im_queue st1)
             else let st2 = fold (linkStep b m) (mp_dependencies m) st1
               in (Some (resultOf st2), im_queue st2))"

section \<open>What a step does\<close>

abbreviation promptIdOf :: "MaterializedTask \<Rightarrow> string" where
  "promptIdOf task \<equiv> ms_promptId (mt_source task)"

text \<open>The edge of a dependency as the pair of prompts it joins: the upstream one first.\<close>

definition edgePrompts :: "MaterializationPreview \<Rightarrow> MaterializedDependency \<Rightarrow> (string \<times> string) option" where
  "edgePrompts m d =
     (case (materializationTaskById m (md_upstreamTaskId d), materializationTaskById m (md_downstreamTaskId d)) of
        (Some up, Some down) \<Rightarrow> Some (promptIdOf up, promptIdOf down) | _ \<Rightarrow> None)"

lemma createStep_cases:
  obtains (created) ws c q where
    "createStep b dir task st = st\<lparr>im_warnings := ws, im_queue := q,
       im_createdTasks := im_createdTasks st @ [c],
       im_createdByItemId := AList.update (promptIdOf task) c (im_createdByItemId st)\<rparr>"
    "ct_itemId c = promptIdOf task"
  | (failed) ws e q where
    "createStep b dir task st = st\<lparr>im_warnings := ws, im_queue := q, im_errors := im_errors st @ [e]\<rparr>"
proof -
  obtain oc q where o: "qb_createItem b (createInput task dir (qb_runSettingsDefaults b)) (im_queue st) = (oc, q)"
    by fastforce
  show thesis
  proof (cases oc)
    case (CreateReturned ok item em msg)
    show thesis
    proof (cases "if ok then item else None")
      case None
      then show thesis using o CreateReturned by (intro failed) (simp add: createStep_def Let_def)
    next
      case (Some p)
      obtain i t where "p = (i, t)" by fastforce
      with Some show thesis using o CreateReturned
        by (intro created [where c = "\<lparr>ct_itemId = promptIdOf task, ct_queueItemId = i, ct_title = t\<rparr>"])
          (simp_all add: createStep_def Let_def)
    qed
  next
    case (CreateThrew e)
    then show thesis using o by (intro failed) (simp add: createStep_def Let_def)
  qed
qed

text \<open>The loop when reading the workspace never throws: \<open>dir\<close> gives the workspace of each task.\<close>

definition createPhase where
  "createPhase b dir ts q = fold (\<lambda>t. createStep b (dir t) t) ts (noImport q)"

lemma createPhase_snoc:
  "createPhase b dir (ts @ [t]) q = createStep b (dir t) t (createPhase b dir ts q)"
  by (simp add: createPhase_def)

definition typedWorkspace :: "MaterializedTask \<Rightarrow> bool" where
  "typedWorkspace t \<longleftrightarrow> workspaceSetting (setting t ''executionWorkspace'') \<noteq> None"

definition workspaceOf :: "'s QueueBridge \<Rightarrow> string option \<Rightarrow> MaterializedTask \<Rightarrow> string option" where
  "workspaceOf b dir t = the (executionWorkspaceFor t dir (qb_runSettingsDefaults b))"

lemma createTasks_eq:
  "list_all typedWorkspace ts \<Longrightarrow>
     createTasks b dir ts st = (True, fold (\<lambda>t. createStep b (workspaceOf b dir t) t) ts st)"
  by (induction ts arbitrary: st) (auto simp: typedWorkspace_def executionWorkspaceFor_def workspaceOf_def)

lemma createTasks_returns: "fst (createTasks b dir ts st) \<longleftrightarrow> list_all typedWorkspace ts"
  by (induction ts arbitrary: st) (auto simp: typedWorkspace_def executionWorkspaceFor_def split: option.split)

lemma dom_map_of_update: "dom (map_of (AList.update k v al)) = insert k (dom (map_of al))"
  by (auto simp: update_conv' split: if_splits)

lemma createPhase_counts:
  "length (im_createdTasks (createPhase b dir ts q)) + length (im_errors (createPhase b dir ts q)) = length ts
   \<and> im_linksCreated (createPhase b dir ts q) = [] \<and> im_linksSkipped (createPhase b dir ts q) = []
   \<and> (im_errors (createPhase b dir ts q) = [] \<longrightarrow>
        map ct_itemId (im_createdTasks (createPhase b dir ts q)) = map promptIdOf ts
        \<and> dom (map_of (im_createdByItemId (createPhase b dir ts q))) = promptIdOf ` set ts)"
proof (induction ts rule: rev_induct)
  case Nil
  then show ?case by (simp add: createPhase_def noImport_def)
next
  case (snoc t ts)
  show ?case
    by (cases rule: createStep_cases [of b "dir t" t "createPhase b dir ts q"])
      (use snoc in \<open>simp_all add: createPhase_snoc dom_map_of_update\<close>)
qed

lemma createPhase_keys:
  "map_of (im_createdByItemId (createPhase b dir ts q)) i = Some c \<Longrightarrow> ct_itemId c = i"
proof (induction ts arbitrary: i c rule: rev_induct)
  case Nil
  then show ?case by (simp add: createPhase_def noImport_def)
next
  case (snoc t ts)
  show ?case
    by (cases rule: createStep_cases [of b "dir t" t "createPhase b dir ts q"])
      (use snoc in \<open>auto simp: createPhase_snoc update_conv' split: if_splits\<close>)
qed

lemma linkStep_cases:
  assumes "edgePrompts m d = Some (up, down)"
    "up \<in> dom (map_of (im_createdByItemId st))" "down \<in> dom (map_of (im_createdByItemId st))"
  obtains (linked) l q where
    "linkStep b m d st = st\<lparr>im_queue := q, im_linksCreated := im_linksCreated st @ [l]\<rparr>"
    "dl_dependencyItemId l = ct_itemId (the (map_of (im_createdByItemId st) up))"
    "dl_dependentItemId l = down"
  | (failed) e s q where
    "linkStep b m d st = st\<lparr>im_queue := q, im_errors := im_errors st @ [e], im_linksSkipped := s\<rparr>"
proof -
  obtain u n where t: "materializationTaskById m (md_upstreamTaskId d) = Some u" "materializationTaskById m (md_downstreamTaskId d) = Some n"
      "up = promptIdOf u" "down = promptIdOf n"
    using assms(1) by (auto simp: edgePrompts_def split: option.splits)
  obtain cu cn where c: "map_of (im_createdByItemId st) up = Some cu" "map_of (im_createdByItemId st) down = Some cn"
    using assms(2,3) by auto
  let ?linked = "filter (\<lambda>i. i \<noteq> []) (List.map_filter dl_dependencyQueueItemId
      (filter (\<lambda>l. dl_dependentItemId l = down) (im_linksCreated st))) @ [ct_queueItemId cu]"
  obtain oc q where o: "qb_updateItem b (ct_queueItemId cn) ?linked (im_queue st) = (oc, q)" by fastforce
  show thesis
  proof (cases oc)
    case (UpdateReturned ok em msg)
    show thesis
    proof (cases ok)
      case True
      then show thesis using o UpdateReturned t c
        by (intro linked [where l = "\<lparr>dl_dependencyItemId = ct_itemId cu,
              dl_dependencyQueueItemId = Some (ct_queueItemId cu), dl_dependentItemId = down,
              dl_dependentQueueItemId = Some (ct_queueItemId cn), dl_message = None, dl_status = LinkCreated\<rparr>"])
          (simp_all add: linkStep_def Let_def)
    next
      case False
      then show thesis using o UpdateReturned t c by (intro failed) (simp add: linkStep_def Let_def)
    qed
  next
    case (UpdateThrew e)
    then show thesis using o t c by (intro failed) (simp add: linkStep_def Let_def)
  qed
qed


definition linkPhase where
  "linkPhase b m ds st = fold (linkStep b m) ds st"

definition linkEdge :: "DependencyLink \<Rightarrow> string \<times> string" where
  "linkEdge l = (dl_dependencyItemId l, dl_dependentItemId l)"

text \<open>Every edge of the graph joins two created tasks.\<close>

definition edgesCreated where
  "edgesCreated m ds st \<longleftrightarrow>
     (\<forall>d \<in> set ds. \<exists>up down. edgePrompts m d = Some (up, down)
        \<and> up \<in> dom (map_of (im_createdByItemId st)) \<and> down \<in> dom (map_of (im_createdByItemId st)))
     \<and> (\<forall>i c. map_of (im_createdByItemId st) i = Some c \<longrightarrow> ct_itemId c = i)"

lemma linkPhase_counts:
  assumes "edgesCreated m ds st"
  shows "im_createdTasks (linkPhase b m ds st) = im_createdTasks st
   \<and> im_createdByItemId (linkPhase b m ds st) = im_createdByItemId st
   \<and> length (im_linksCreated (linkPhase b m ds st)) + length (im_errors (linkPhase b m ds st))
       = length (im_linksCreated st) + length (im_errors st) + length ds
   \<and> (im_errors (linkPhase b m ds st) = im_errors st \<longrightarrow>
        im_linksSkipped (linkPhase b m ds st) = im_linksSkipped st
        \<and> map (\<lambda>l. Some (linkEdge l)) (im_linksCreated (linkPhase b m ds st))
            = map (\<lambda>l. Some (linkEdge l)) (im_linksCreated st) @ map (edgePrompts m) ds)
   \<and> prefix (im_errors st) (im_errors (linkPhase b m ds st))"
  using assms
proof (induction ds rule: rev_induct)
  case Nil
  then show ?case by (simp add: linkPhase_def)
next
  case (snoc d ds)
  let ?p = "linkPhase b m ds st"
  have IH: "im_createdTasks ?p = im_createdTasks st" "im_createdByItemId ?p = im_createdByItemId st"
    "length (im_linksCreated ?p) + length (im_errors ?p)
       = length (im_linksCreated st) + length (im_errors st) + length ds"
    "im_errors ?p = im_errors st \<Longrightarrow> im_linksSkipped ?p = im_linksSkipped st
        \<and> map (\<lambda>l. Some (linkEdge l)) (im_linksCreated ?p)
            = map (\<lambda>l. Some (linkEdge l)) (im_linksCreated st) @ map (edgePrompts m) ds"
    "prefix (im_errors st) (im_errors ?p)"
    using snoc by (simp_all add: edgesCreated_def)
  obtain up down where e: "edgePrompts m d = Some (up, down)"
    and c: "up \<in> dom (map_of (im_createdByItemId ?p))" "down \<in> dom (map_of (im_createdByItemId ?p))"
    and key: "\<forall>i c. map_of (im_createdByItemId ?p) i = Some c \<longrightarrow> ct_itemId c = i"
    using snoc.prems unfolding IH(2) by (auto simp: edgesCreated_def)
  have s: "linkPhase b m (ds @ [d]) st = linkStep b m d ?p" by (simp add: linkPhase_def)
  show ?case
  proof (cases rule: linkStep_cases [OF e c, of b, case_names linked failed])
    case (linked l q)
    moreover have "ct_itemId (the (map_of (im_createdByItemId ?p) up)) = up" using c(1) key by auto
    ultimately show ?thesis using IH e by (simp add: s linkEdge_def)
  next
    case (failed er sk q)
    have "im_errors ?p @ [er] \<noteq> im_errors st" using IH(5) by (auto simp: prefix_def)
    then show ?thesis using IH failed by (simp add: s prefix_append)
  qed
qed

section \<open>An import that reports success is complete\<close>


lemma materializationTaskById_some: "hasTask m i \<Longrightarrow> \<exists>t. materializationTaskById m i = Some t \<and> t \<in> set (mp_tasks m) \<and> mt_taskId t = i"
proof -
  assume "hasTask m i"
  then have "map_of (rev (map (\<lambda>t. (mt_taskId t, t)) (mp_tasks m))) i \<noteq> None"
    by (auto simp: hasTask_def map_of_eq_None_iff image_iff)
  then obtain t where "map_of (rev (map (\<lambda>t. (mt_taskId t, t)) (mp_tasks m))) i = Some t" by blast
  moreover from map_of_SomeD [OF this] have "t \<in> set (mp_tasks m)" "mt_taskId t = i" by auto
  ultimately show ?thesis unfolding materializationTaskById_def map_of_js_map_of_entries by blast
qed

lemma importRefusal_edges:
  assumes "importRefusal confirmed preview m hasBridge = None" "d \<in> set (mp_dependencies m)"
  shows "\<exists>u n. materializationTaskById m (md_upstreamTaskId d) = Some u \<and> materializationTaskById m (md_downstreamTaskId d) = Some n
    \<and> u \<in> set (mp_tasks m) \<and> n \<in> set (mp_tasks m)"
proof -
  have "hasTask m (md_upstreamTaskId d) \<and> hasTask m (md_downstreamTaskId d)"
    using assms by (auto simp: importRefusal_def find_None_iff split: if_splits option.splits)
  then show ?thesis using materializationTaskById_some by blast
qed

lemma set_tasksInOrder [simp]: "set (tasksInOrder m) = set (mp_tasks m)"
  by (simp add: tasksInOrder_def)

definition importState where
  "importState b dir m q =
     linkPhase b m (mp_dependencies m) (createPhase b (workspaceOf b dir) (tasksInOrder m) q)"

lemma materialize_unfold:
  "materializePromptPackPreviewToQueue (Some b) confirmed dir preview m q =
     (case importRefusal confirmed preview m True of
        Some r \<Rightarrow> (Some (resultOf ((noImport q)\<lparr>im_errors := [r]\<rparr>)), q)
      | None \<Rightarrow>
          if list_all typedWorkspace (mp_tasks m)
          then (Some (resultOf (importState b dir m q)), im_queue (importState b dir m q))
          else (None, im_queue (snd (createTasks b dir (tasksInOrder m) (noImport q)))))"
proof -
  have ts: "list_all typedWorkspace (tasksInOrder m) \<longleftrightarrow> list_all typedWorkspace (mp_tasks m)"
    by (simp add: list_all_iff)
  show ?thesis
  proof (cases "list_all typedWorkspace (mp_tasks m)")
    case True
    then show ?thesis
      using createTasks_eq [of "tasksInOrder m" b dir "noImport q"]
      by (simp add: ts materializePromptPackPreviewToQueue_def importState_def linkPhase_def createPhase_def Let_def
          split: option.split)
  next
    case False
    then show ?thesis
      using createTasks_returns [of b dir "tasksInOrder m" "noImport q"]
      by (simp add: ts materializePromptPackPreviewToQueue_def Let_def case_prod_beta split: option.split)
  qed
qed

lemma importState_edges:
  assumes "importRefusal confirmed preview m True = None"
    "im_errors (createPhase b dir (tasksInOrder m) q) = []"
  shows "edgesCreated m (mp_dependencies m) (createPhase b dir (tasksInOrder m) q)"
proof -
  have dom: "dom (map_of (im_createdByItemId (createPhase b dir (tasksInOrder m) q)))
      = promptIdOf ` set (mp_tasks m)"
    using createPhase_counts [of b dir "tasksInOrder m" q] assms(2) by simp
  show ?thesis unfolding edgesCreated_def dom
    using importRefusal_edges [OF assms(1)] createPhase_keys [of b dir "tasksInOrder m" q]
    by (fastforce simp: edgePrompts_def)
qed


lemma linkStep_keeps:
  "im_createdTasks (linkStep b m d st) = im_createdTasks st \<and> prefix (im_errors st) (im_errors (linkStep b m d st))"
  by (simp add: linkStep_def Let_def split: option.split prod.split UpdateOutcome.split)

lemma linkPhase_keeps:
  "im_createdTasks (linkPhase b m ds st) = im_createdTasks st \<and> prefix (im_errors st) (im_errors (linkPhase b m ds st))"
proof (induction ds arbitrary: st)
  case Nil
  then show ?case by (simp add: linkPhase_def)
next
  case (Cons d ds)
  have "linkPhase b m (d # ds) st = linkPhase b m ds (linkStep b m d st)" by (simp add: linkPhase_def)
  then show ?case using Cons [of "linkStep b m d st"] linkStep_keeps [of b m d st]
    by (metis prefix_order.order_trans)
qed

lemma import_ok_parts:
  assumes r: "importRefusal confirmed preview m True = None" and st_def: "st = importState b dir m q"
  shows "im_errors st = [] \<longleftrightarrow>
    map ct_itemId (im_createdTasks st) = map promptIdOf (tasksInOrder m)
    \<and> map (\<lambda>l. Some (linkEdge l)) (im_linksCreated st) = map (edgePrompts m) (mp_dependencies m)
    \<and> im_linksSkipped st = []"
    (is "_ \<longleftrightarrow> ?complete")
proof -
  let ?c = "createPhase b (workspaceOf b dir) (tasksInOrder m) q"
  have st: "st = linkPhase b m (mp_dependencies m) ?c" by (simp add: st_def importState_def)
  note C = createPhase_counts [of b "workspaceOf b dir" "tasksInOrder m" q]
  show ?thesis
  proof (cases "im_errors ?c = []")
    case True
    note L = linkPhase_counts [OF importState_edges [OF r True], of b, folded st]
    show ?thesis
    proof
      assume "im_errors st = []"
      then show ?complete using C L True by simp
    next
      assume ?complete
      then have "length (im_linksCreated st) = length (mp_dependencies m)" by (metis length_map)
      then show "im_errors st = []" using C L True by simp
    qed
  next
    case False
    have K: "im_createdTasks st = im_createdTasks ?c" "prefix (im_errors ?c) (im_errors st)"
      using linkPhase_keeps [of b m "mp_dependencies m" ?c] unfolding st by simp_all
    have "length (im_createdTasks ?c) < length (tasksInOrder m)" using C False
      by (metis add.right_neutral length_greater_0_conv less_add_same_cancel1)
    then have "map ct_itemId (im_createdTasks st) \<noteq> map promptIdOf (tasksInOrder m)"
      using K(1) by (metis length_map nat_neq_iff)
    moreover have "im_errors st \<noteq> []" using K(2) False by auto
    ultimately show ?thesis by blast
  qed
qed

text \<open>
  C8. Whatever the bridge does, an import reports success exactly when nothing refused it, every task
  of the graph was created in order, and every edge of the graph was linked, in the order of the
  edges, with none skipped; a call that fails or throws anywhere makes the import report failure. Only an
  ill-typed workspace setting, in an import that nothing refused, makes the import itself throw.
\<close>

theorem import_ok_iff_complete:
  "case fst (materializePromptPackPreviewToQueue (Some b) confirmed dir preview m q) of
     None \<Rightarrow> importRefusal confirmed preview m True = None
       \<and> list_ex (\<lambda>t. workspaceSetting (setting t ''executionWorkspace'') = None) (mp_tasks m)
   | Some r \<Rightarrow> mres_ok r =
       (importRefusal confirmed preview m True = None
        \<and> map ct_itemId (mres_createdTasks r) = map (\<lambda>t. ms_promptId (mt_source t)) (tasksInOrder m)
        \<and> map (\<lambda>l. Some (dl_dependencyItemId l, dl_dependentItemId l)) (mres_dependencyLinksCreated r)
            = map (edgePrompts m) (mp_dependencies m)
        \<and> mres_dependencyLinksSkipped r = [])"
proof (cases "importRefusal confirmed preview m True")
  case None
  then show ?thesis
    using import_ok_parts [OF None refl, of b dir q]
    by (auto simp: materialize_unfold resultOf_def linkEdge_def list_all_iff list_ex_iff typedWorkspace_def)
next
  case (Some r)
  then show ?thesis by (simp add: materialize_unfold resultOf_def Let_def)
qed


section \<open>What the Queue holds after an import\<close>

text \<open>
  The promise of a bridge, over a view of its state that gives each Queue item its dependencies: a
  creation succeeds with a new id, an update of an item it holds succeeds and sets its dependencies,
  and neither touches another item.
\<close>

definition bridgePromises :: "'s QueueBridge \<Rightarrow> ('s \<Rightarrow> string \<rightharpoonup> string list) \<Rightarrow> bool" where
  "bridgePromises b view \<longleftrightarrow>
     (\<forall>input s. \<exists>i title em msg s'. qb_createItem b input s = (CreateReturned True (Some (i, title)) em msg, s')
        \<and> i \<noteq> [] \<and> i \<notin> dom (view s) \<and> view s' = (view s)(i \<mapsto> qci_dependencies input))
     \<and> (\<forall>i ds s. i \<in> dom (view s) \<longrightarrow>
        (\<exists>em msg s'. qb_updateItem b i ds s = (UpdateReturned True em msg, s') \<and> view s' = (view s)(i \<mapsto> ds)))"

text \<open>The upstream prompts of a prompt, in the order of the edges.\<close>

definition upstreamPrompts :: "MaterializationPreview \<Rightarrow> MaterializedDependency list \<Rightarrow> string \<Rightarrow> string list" where
  "upstreamPrompts m ds i = map fst (filter (\<lambda>e. snd e = i) (map (\<lambda>d. the (edgePrompts m d)) ds))"

definition createdOnly where
  "createdOnly view q0 st \<longleftrightarrow>
     im_errors st = [] \<and> im_linksCreated st = []
     \<and> map_of (im_createdByItemId st) = map_of (map (\<lambda>c. (ct_itemId c, c)) (im_createdTasks st))
     \<and> distinct (map ct_queueItemId (im_createdTasks st))
     \<and> (\<forall>c \<in> set (im_createdTasks st). ct_queueItemId c \<noteq> [] \<and> ct_queueItemId c \<notin> dom (view q0)
          \<and> view (im_queue st) (ct_queueItemId c) = Some [])
     \<and> (\<forall>i. i \<notin> ct_queueItemId ` set (im_createdTasks st) \<longrightarrow> view (im_queue st) i = view q0 i)"

lemma createStep_promised:
  assumes b: "bridgePromises b view" and st: "createdOnly view q0 st"
    and new: "promptIdOf t \<notin> ct_itemId ` set (im_createdTasks st)"
  shows "createdOnly view q0 (createStep b dir t st)
    \<and> map ct_itemId (im_createdTasks (createStep b dir t st)) = map ct_itemId (im_createdTasks st) @ [promptIdOf t]"
proof -
  let ?in = "createInput t dir (qb_runSettingsDefaults b)"
  obtain i title em msg s' where c: "qb_createItem b ?in (im_queue st) = (CreateReturned True (Some (i, title)) em msg, s')"
    and i: "i \<noteq> []" "i \<notin> dom (view (im_queue st))" and v: "view s' = (view (im_queue st))(i \<mapsto> qci_dependencies ?in)"
    using b unfolding bridgePromises_def by meson
  let ?c = "\<lparr>ct_itemId = promptIdOf t, ct_queueItemId = i, ct_title = title\<rparr>"
  have step: "createStep b dir t st = st\<lparr>im_warnings := im_warnings st @ unsupportedMetadataWarnings t,
      im_queue := s', im_createdTasks := im_createdTasks st @ [?c],
      im_createdByItemId := AList.update (promptIdOf t) ?c (im_createdByItemId st)\<rparr>"
    using c by (simp add: createStep_def Let_def)
  have none: "qci_dependencies ?in = []" by (simp add: createInput_def Let_def)
  have held: "\<forall>c \<in> set (im_createdTasks st). view (im_queue st) (ct_queueItemId c) = Some []"
    and same: "\<forall>i. i \<notin> ct_queueItemId ` set (im_createdTasks st) \<longrightarrow> view (im_queue st) i = view q0 i"
    using st unfolding createdOnly_def by blast+
  have fresh1: "i \<notin> ct_queueItemId ` set (im_createdTasks st)" using held i(2) by auto
  then have fresh: "i \<notin> ct_queueItemId ` set (im_createdTasks st)" "i \<notin> dom (view q0)"
    using same i(2) by (simp_all add: domIff)
  have keys: "map_of (AList.update (promptIdOf t) ?c (im_createdByItemId st))
      = map_of (map (\<lambda>c. (ct_itemId c, c)) (im_createdTasks st @ [?c]))"
  proof -
    have "promptIdOf t \<notin> fst ` set (map (\<lambda>c. (ct_itemId c, c)) (im_createdTasks st))"
      using new by force
    then have "map_of (map (\<lambda>c. (ct_itemId c, c)) (im_createdTasks st)) (promptIdOf t) = None"
      by (rule iffD2 [OF map_of_eq_None_iff])
    then show ?thesis using st unfolding createdOnly_def update_conv'
      by (auto simp: map_add_def fun_eq_iff split: option.split)
  qed
  note S = st [unfolded createdOnly_def]
  have "\<forall>c \<in> set (im_createdTasks st @ [?c]). ct_queueItemId c \<noteq> [] \<and> ct_queueItemId c \<notin> dom (view q0)
      \<and> view s' (ct_queueItemId c) = Some []"
  proof
    fix c assume "c \<in> set (im_createdTasks st @ [?c])"
    then show "ct_queueItemId c \<noteq> [] \<and> ct_queueItemId c \<notin> dom (view q0) \<and> view s' (ct_queueItemId c) = Some []"
      using S fresh i(1) by (cases "c = ?c") (simp_all add: v none)
  qed
  moreover have "\<forall>j. j \<notin> ct_queueItemId ` set (im_createdTasks st @ [?c]) \<longrightarrow> view s' j = view q0 j"
    using S by (simp add: v)
  moreover have "distinct (map ct_queueItemId (im_createdTasks st @ [?c]))" using S fresh by simp
  ultimately show ?thesis
    using S keys unfolding step createdOnly_def by simp
qed

lemma createPhase_promised:
  assumes b: "bridgePromises b view" and "distinct (map promptIdOf ts)"
  shows "createdOnly view q (createPhase b dir ts q)
    \<and> map ct_itemId (im_createdTasks (createPhase b dir ts q)) = map promptIdOf ts"
  using assms(2)
proof (induction ts rule: rev_induct)
  case Nil
  then show ?case by (simp add: createPhase_def noImport_def createdOnly_def)
next
  case (snoc t ts)
  let ?st = "createPhase b dir ts q"
  have IH: "createdOnly view q ?st" "map ct_itemId (im_createdTasks ?st) = map promptIdOf ts"
    using snoc by simp_all
  have "ct_itemId ` set (im_createdTasks ?st) = promptIdOf ` set ts" using IH(2) by (metis set_map)
  then have "promptIdOf t \<notin> ct_itemId ` set (im_createdTasks ?st)" using snoc.prems by simp
  then show ?case using createStep_promised [OF b IH(1), of t "dir t"] IH(2) by (simp add: createPhase_snoc)
qed


text \<open>The link an edge becomes.\<close>

definition linkOf :: "MaterializationPreview \<Rightarrow> (string \<Rightarrow> CreatedQueueTask option) \<Rightarrow> MaterializedDependency \<Rightarrow> DependencyLink" where
  "linkOf m created d =
     (let (up, down) = the (edgePrompts m d) in
      \<lparr>dl_dependencyItemId = ct_itemId (the (created up)),
       dl_dependencyQueueItemId = Some (ct_queueItemId (the (created up))), dl_dependentItemId = down,
       dl_dependentQueueItemId = Some (ct_queueItemId (the (created down))), dl_message = None,
       dl_status = LinkCreated\<rparr>)"

definition upstreamIds where
  "upstreamIds m created ds i = map (\<lambda>u. ct_queueItemId (the (created u))) (upstreamPrompts m ds i)"

lemma links_of_dependent:
  assumes "\<forall>d \<in> set ds. ct_queueItemId (the (created (fst (the (edgePrompts m d))))) \<noteq> []"
  shows "filter (\<lambda>i. i \<noteq> []) (List.map_filter dl_dependencyQueueItemId
      (filter (\<lambda>l. dl_dependentItemId l = i) (map (linkOf m created) ds))) = upstreamIds m created ds i"
  using assms
  by (induction ds)
    (simp_all add: upstreamIds_def upstreamPrompts_def List.map_filter_def linkOf_def Let_def case_prod_beta)

definition linkedOnly where
  "linkedOnly view q0 m ds c0 st \<longleftrightarrow>
     im_errors st = [] \<and> im_createdTasks st = im_createdTasks c0
     \<and> im_createdByItemId st = im_createdByItemId c0
     \<and> im_linksCreated st = map (linkOf m (map_of (im_createdByItemId c0))) ds
     \<and> (\<forall>c \<in> set (im_createdTasks c0). view (im_queue st) (ct_queueItemId c)
          = Some (upstreamIds m (map_of (im_createdByItemId c0)) ds (ct_itemId c)))
     \<and> (\<forall>i. i \<notin> ct_queueItemId ` set (im_createdTasks c0) \<longrightarrow> view (im_queue st) i = view q0 i)"

lemma linkPhase_promised:
  assumes b: "bridgePromises b view" and c0: "createdOnly view q0 c0"
    and e: "edgesCreated m ds c0" and d: "distinct (map ct_itemId (im_createdTasks c0))"
  shows "linkedOnly view q0 m ds c0 (linkPhase b m ds c0)"
  using e
proof (induction ds rule: rev_induct)
  case Nil
  then show ?case using c0
    by (simp add: linkPhase_def linkedOnly_def createdOnly_def upstreamIds_def upstreamPrompts_def)
next
  case (snoc x ds)
  let ?st = "linkPhase b m ds c0" and ?created = "map_of (im_createdByItemId c0)"
  have IH: "linkedOnly view q0 m ds c0 ?st" using snoc by (simp add: edgesCreated_def)
  note L = IH [unfolded linkedOnly_def] and C = c0 [unfolded createdOnly_def]
  have keys: "?created = map_of (map (\<lambda>c. (ct_itemId c, c)) (im_createdTasks c0))" using C by blast
  have rec: "c \<in> set (im_createdTasks c0) \<and> ct_itemId c = i" if "?created i = Some c" for i c
    using map_of_SomeD [OF that [unfolded keys]] by auto
  obtain up down cu cn where p: "edgePrompts m x = Some (up, down)" "?created up = Some cu" "?created down = Some cn"
    using snoc.prems by (auto simp: edgesCreated_def)
  obtain tu tn where t: "materializationTaskById m (md_upstreamTaskId x) = Some tu" "materializationTaskById m (md_downstreamTaskId x) = Some tn"
    "up = promptIdOf tu" "down = promptIdOf tn"
    using p(1) by (auto simp: edgePrompts_def split: option.splits)
  have ne: "\<forall>d \<in> set ds. ct_queueItemId (the (?created (fst (the (edgePrompts m d))))) \<noteq> []"
  proof
    fix d assume "d \<in> set ds"
    then obtain u n c where "edgePrompts m d = Some (u, n)" "?created u = Some c"
      using snoc.prems unfolding edgesCreated_def domIff by force
    then show "ct_queueItemId (the (?created (fst (the (edgePrompts m d))))) \<noteq> []"
      using rec [of u c] C by simp
  qed
  let ?ids = "upstreamIds m ?created ds down @ [ct_queueItemId cu]"
  have cn: "cn \<in> set (im_createdTasks c0)" "ct_itemId cn = down" using rec [OF p(3)] by simp_all
  have "ct_queueItemId cn \<in> dom (view (im_queue ?st))" using L cn by auto
  then obtain em msg s' where u: "qb_updateItem b (ct_queueItemId cn) ?ids (im_queue ?st) = (UpdateReturned True em msg, s')"
      and v: "view s' = (view (im_queue ?st))(ct_queueItemId cn \<mapsto> ?ids)"
    using b unfolding bridgePromises_def by meson
  have step: "linkPhase b m (ds @ [x]) c0 =
      ?st\<lparr>im_queue := s', im_linksCreated := im_linksCreated ?st @ [linkOf m ?created x]\<rparr>"
  proof -
    have "linkPhase b m (ds @ [x]) c0 = linkStep b m x ?st" by (simp add: linkPhase_def)
    then show ?thesis using t p u L links_of_dependent [OF ne, of down]
      by (simp add: linkStep_def Let_def linkOf_def)
  qed
  have ups: "upstreamIds m ?created (ds @ [x]) i =
      upstreamIds m ?created ds i @ (if i = down then [ct_queueItemId cu] else [])" for i
    using p by (simp add: upstreamIds_def upstreamPrompts_def)
  have "\<forall>c \<in> set (im_createdTasks c0). view s' (ct_queueItemId c)
      = Some (upstreamIds m ?created (ds @ [x]) (ct_itemId c))"
  proof
    fix c assume c: "c \<in> set (im_createdTasks c0)"
    show "view s' (ct_queueItemId c) = Some (upstreamIds m ?created (ds @ [x]) (ct_itemId c))"
    proof (cases "c = cn")
      case True
      then show ?thesis using cn by (simp add: v ups)
    next
      case False
      then have "ct_queueItemId c \<noteq> ct_queueItemId cn" using C c cn(1) by (auto simp: distinct_map inj_on_def)
      moreover have "ct_itemId c \<noteq> down" using d c cn False by (auto simp: distinct_map inj_on_def)
      ultimately show ?thesis using L c by (simp add: v ups)
    qed
  qed
  moreover have "\<forall>i. i \<notin> ct_queueItemId ` set (im_createdTasks c0) \<longrightarrow> view s' i = view q0 i"
    using L cn(1) by (auto simp: v)
  ultimately show ?case using L unfolding step linkedOnly_def by simp
qed


section \<open>From the pack to the Queue\<close>

lemma promised_import:
  assumes b: "bridgePromises b view" and r: "importRefusal confirmed preview m True = None"
    and d: "distinct (map promptIdOf (mp_tasks m))"
    and st_def: "st = importState b dir m q"
  obtains created where "im_errors st = []"
    "\<And>i c. created i = Some c \<longleftrightarrow> c \<in> set (im_createdTasks st) \<and> ct_itemId c = i"
    "dom created = promptIdOf ` set (mp_tasks m)"
    "distinct (map ct_queueItemId (im_createdTasks st))"
    "\<And>c. c \<in> set (im_createdTasks st) \<Longrightarrow> ct_queueItemId c \<notin> dom (view q)"
    "\<And>c. c \<in> set (im_createdTasks st) \<Longrightarrow> view (im_queue st) (ct_queueItemId c)
        = Some (upstreamIds m created (mp_dependencies m) (ct_itemId c))"
    "\<And>i. i \<notin> ct_queueItemId ` set (im_createdTasks st) \<Longrightarrow> view (im_queue st) i = view q i"
proof -
  let ?ts = "tasksInOrder m"
  let ?c = "createPhase b (workspaceOf b dir) ?ts q"
  have "mset (map promptIdOf ?ts) = mset (map promptIdOf (mp_tasks m))"
    by (simp add: tasksInOrder_def mset_js_sort)
  then have dt: "distinct (map promptIdOf ?ts)" using d mset_eq_imp_distinct_iff by blast
  from createPhase_promised [OF b this]
  have c: "createdOnly view q ?c" and ids: "map ct_itemId (im_createdTasks ?c) = map promptIdOf ?ts" by blast+
  have e: "edgesCreated m (mp_dependencies m) ?c"
    by (rule importState_edges [OF r]) (use c in \<open>simp add: createdOnly_def\<close>)
  have di: "distinct (map ct_itemId (im_createdTasks ?c))" using dt ids by simp
  from linkPhase_promised [OF b c e di]
  have l: "linkedOnly view q m (mp_dependencies m) ?c st" by (simp add: st_def importState_def)
  have ct: "im_createdTasks st = im_createdTasks ?c" using l by (simp add: linkedOnly_def)
  let ?created = "map_of (im_createdByItemId ?c)"
  have keys: "?created = map_of (map (\<lambda>c. (ct_itemId c, c)) (im_createdTasks ?c))"
    using c by (simp add: createdOnly_def)
  show thesis
  proof (rule that [of ?created])
    have "distinct (map fst (map (\<lambda>c. (ct_itemId c, c)) (im_createdTasks ?c)))" using di by (simp add: comp_def)
    then show "?created i = Some c \<longleftrightarrow> c \<in> set (im_createdTasks st) \<and> ct_itemId c = i" for i c
      unfolding keys ct using map_of_eq_Some_iff by force
    have "ct_itemId ` set (im_createdTasks ?c) = promptIdOf ` set (mp_tasks m)"
      using ids by (metis set_map set_tasksInOrder)
    then show "dom ?created = promptIdOf ` set (mp_tasks m)"
      unfolding keys dom_map_of_conv_image_fst by (simp add: image_image)
    show "im_errors st = []" using l by (simp add: linkedOnly_def)
    show "distinct (map ct_queueItemId (im_createdTasks st))"
      using c unfolding ct by (simp add: createdOnly_def)
    show "ct_queueItemId c \<notin> dom (view q)" if "c \<in> set (im_createdTasks st)" for c
      using c that unfolding ct by (simp add: createdOnly_def)
    show "view (im_queue st) (ct_queueItemId c) = Some (upstreamIds m ?created (mp_dependencies m) (ct_itemId c))"
      if "c \<in> set (im_createdTasks st)" for c
      using l that unfolding ct by (simp add: linkedOnly_def)
    show "view (im_queue st) i = view q i" if "i \<notin> ct_queueItemId ` set (im_createdTasks st)" for i
      using l that unfolding ct by (simp add: linkedOnly_def)
  qed
qed

text \<open>The materialisation of an importable pack, as the import sees it.\<close>

lemma imported_tasks:
  assumes ok: "chosenOk items" and addr: "addressable items"
    and m: "buildSmartQueueMaterialization pack items = Some m"
  shows "mp_issues m = []" and "mp_queueId m = SMART_QUEUE_WORKSPACE_QUEUE_ID"
    and "list_all2 (\<lambda>t item. taskOfItem t (packIdOf (adapted pack items)) item) (mp_tasks m) items"
    and "mp_dependencies m = packDependencies (adapted pack items)"
  using adapted_tasks [OF ok addr, of pack] materialize_eq [of "adapted pack items"] m
  by (auto simp: buildSmartQueueMaterialization_def)


lemma task_of_prompt:
  assumes "list_all2 (\<lambda>t item. taskOfItem t packId item) tasks items"
  shows "map promptIdOf tasks = map ppi_id items"
    and "map mt_taskId tasks = map (\<lambda>item. queueTaskId packId (ppi_id item)) items"
    and "t \<in> set tasks \<Longrightarrow> mt_taskId t = queueTaskId packId (promptIdOf t)"
  using assms by (induction rule: list_all2_induct) (auto simp: taskOfItem_def)

lemma imported_workspaces:
  "list_all2 (\<lambda>t item. taskOfItem t packId item) tasks items \<Longrightarrow> t \<in> set tasks \<Longrightarrow>
     workspaceSetting (map_of (mt_settings t) ''executionWorkspace'') \<noteq> None"
proof (induction rule: list_all2_induct)
  case (Cons t' tasks item items)
  then show ?case
    by (cases "ppi_executionWorkspace item") (auto simp: taskOfItem_def workspaceSetting_def)
qed simp

lemma addressable_slug:
  assumes "addressable items" "a \<in> ppi_id ` set items" "b \<in> ppi_id ` set items" "slugText a = slugText b"
  shows "a = b"
proof -
  have "inj_on (slugText \<circ> ppi_id) (set items)" using assms(1) by (simp add: addressable_def distinct_map)
  moreover obtain u v where "u \<in> set items" "v \<in> set items" "a = ppi_id u" "b = ppi_id v" using assms(2,3) by blast
  ultimately show ?thesis using assms(4) by (metis comp_apply inj_onD)
qed

lemma addressable_id:
  assumes "addressable items" "a \<in> set items" "b \<in> set items" "ppi_id a = ppi_id b"
  shows "a = b"
proof -
  have "inj_on (slugText \<circ> ppi_id) (set items)" using assms(1) by (simp add: addressable_def distinct_map)
  then show ?thesis using assms by (metis comp_apply inj_onD)
qed

lemma imported_edge:
  assumes ok: "chosenOk items" and addr: "addressable items"
    and m: "buildSmartQueueMaterialization pack items = Some m"
    and i: "item \<in> set items" and x: "x \<in> ppi_id ` set items"
    and d: "md_downstreamTaskId d = queueTaskId (packIdOf (adapted pack items)) (ppi_id item)"
      "md_upstreamTaskId d = queueTaskId (packIdOf (adapted pack items)) x"
  shows "edgePrompts m d = Some (x, ppi_id item)"
proof -
  note T = task_of_prompt [OF imported_tasks(3) [OF ok addr m]]
  have inj: "slugText a = slugText b \<Longrightarrow> a = b" if "a \<in> ppi_id ` set items" "b \<in> ppi_id ` set items" for a b
    by (rule addressable_slug [OF addr that])
  have ids: "promptIdOf ` set (mp_tasks m) = ppi_id ` set items" using T(1) by (metis set_map)
  have at: "\<exists>t. materializationTaskById m (queueTaskId (packIdOf (adapted pack items)) y) = Some t \<and> promptIdOf t = y"
    if y: "y \<in> ppi_id ` set items" for y
  proof -
    have "mt_taskId ` set (mp_tasks m) = set (map mt_taskId (mp_tasks m))" by simp
    also have "\<dots> = queueTaskId (packIdOf (adapted pack items)) ` ppi_id ` set items"
      unfolding T(2) by (simp add: image_image)
    finally have "hasTask m (queueTaskId (packIdOf (adapted pack items)) y)"
      unfolding hasTask_def using y by blast
    then obtain t where t: "materializationTaskById m (queueTaskId (packIdOf (adapted pack items)) y) = Some t"
      "t \<in> set (mp_tasks m)" "mt_taskId t = queueTaskId (packIdOf (adapted pack items)) y"
      using materializationTaskById_some by blast
    then have "slugText (promptIdOf t) = slugText y" using T(3) queueTaskId_inj by metis
    then show ?thesis using t(1,2) inj [OF _ y] ids by blast
  qed
  show ?thesis using at [OF x] at [of "ppi_id item"] i d by (auto simp: edgePrompts_def)
qed

lemma imported_upstream:
  assumes ok: "chosenOk items" and addr: "addressable items"
    and m: "buildSmartQueueMaterialization pack items = Some m" and i: "item \<in> set items"
  shows "set (upstreamPrompts m (mp_dependencies m) (ppi_id item)) = set (ppi_dependencies item)"
proof -
  let ?q = "queueTaskId (packIdOf (adapted pack items))" and ?ds = "packDependencies (adapted pack items)"
  have ids: "\<forall>item \<in> set items. itemIdOk item"
    and closed: "\<forall>item \<in> set items. set (ppi_dependencies item) \<subseteq> ppi_id ` set items"
    using ok by (simp_all add: chosenOk_def)
  have same: "a = b" if "a \<in> set items" "b \<in> set items" "ppi_id a = ppi_id b" for a b
    by (rule addressable_id [OF addr that])
  have ends: "(md_downstreamTaskId d, md_upstreamTaskId d) \<in> dependencyEdges ?ds" if "d \<in> set ?ds" for d
    using that by (auto simp: dependencyEdges_def)
  have edge: "\<exists>it x. it \<in> set items \<and> x \<in> set (ppi_dependencies it) \<and> edgePrompts m d = Some (x, ppi_id it)"
    if d: "d \<in> set ?ds" for d
  proof -
    obtain it x where e: "it \<in> set items" "x \<in> set (ppi_dependencies it)"
      "md_downstreamTaskId d = ?q (ppi_id it)" "md_upstreamTaskId d = ?q x"
      using ends [OF d] unfolding adapted_edges [OF ids addr closed] by blast
    then have "x \<in> ppi_id ` set items" using closed by blast
    from imported_edge [OF ok addr m e(1) this e(3,4)] show ?thesis using e(1,2) by blast
  qed
  have "set (upstreamPrompts m ?ds (ppi_id item)) \<subseteq> set (ppi_dependencies item)"
  proof
    fix x assume "x \<in> set (upstreamPrompts m ?ds (ppi_id item))"
    then obtain d where d: "d \<in> set ?ds" "x = fst (the (edgePrompts m d))" "snd (the (edgePrompts m d)) = ppi_id item"
      by (auto simp: upstreamPrompts_def)
    obtain it y where e: "it \<in> set items" "y \<in> set (ppi_dependencies it)" "edgePrompts m d = Some (y, ppi_id it)"
      using edge [OF d(1)] by blast
    then have "it = item" using same [OF e(1) i] d(3) by simp
    then show "x \<in> set (ppi_dependencies item)" using e d(2) by simp
  qed
  moreover have "x \<in> set (upstreamPrompts m ?ds (ppi_id item))" if x: "x \<in> set (ppi_dependencies item)" for x
  proof -
    have "(?q (ppi_id item), ?q x) \<in> dependencyEdges ?ds"
      unfolding adapted_edges [OF ids addr closed] using i x by blast
    then obtain d where d: "d \<in> set ?ds" "md_downstreamTaskId d = ?q (ppi_id item)" "md_upstreamTaskId d = ?q x"
      by (auto simp: dependencyEdges_def)
    have "x \<in> ppi_id ` set items" using closed i x by blast
    from imported_edge [OF ok addr m i this d(2,3)] have "edgePrompts m d = Some (x, ppi_id item)" .
    then show ?thesis using d(1) by (force simp: upstreamPrompts_def)
  qed
  ultimately show ?thesis unfolding imported_tasks(4) [OF ok addr m] by blast
qed


text \<open>An importable pack is not refused.\<close>

lemma imported_not_refused:
  assumes ok: "chosenOk items" and addr: "addressable items"
    and m: "buildSmartQueueMaterialization pack items = Some m" and av: "pip_importAvailable preview"
  shows "importRefusal True preview m True = None"
proof -
  let ?q = "queueTaskId (packIdOf (adapted pack items))" and ?ds = "packDependencies (adapted pack items)"
  note I = imported_tasks [OF ok addr m]
  have ids: "\<forall>item \<in> set items. itemIdOk item"
    and closed: "\<forall>item \<in> set items. set (ppi_dependencies item) \<subseteq> ppi_id ` set items"
    using ok by (simp_all add: chosenOk_def)
  have "set (map mt_taskId (mp_tasks m)) = ?q ` ppi_id ` set items"
    unfolding task_of_prompt(2) [OF I(3)] by (simp add: image_image)
  then have has: "hasTask m (?q y)" if "y \<in> ppi_id ` set items" for y
    unfolding hasTask_def using that by (simp only: set_map) blast
  have "hasTask m (md_upstreamTaskId d) \<and> hasTask m (md_downstreamTaskId d)" if "d \<in> set (mp_dependencies m)" for d
  proof -
    have "(md_downstreamTaskId d, md_upstreamTaskId d) \<in> dependencyEdges ?ds"
      using that unfolding I(4) by (auto simp: dependencyEdges_def)
    then obtain it x where "it \<in> set items" "x \<in> set (ppi_dependencies it)"
      "md_downstreamTaskId d = ?q (ppi_id it)" "md_upstreamTaskId d = ?q x"
      unfolding adapted_edges [OF ids addr closed] by blast
    moreover from this have "x \<in> ppi_id ` set items" using closed by blast
    ultimately show ?thesis using has by auto
  qed
  then have "List.find (\<lambda>d. \<not> hasTask m (md_upstreamTaskId d) \<or> \<not> hasTask m (md_downstreamTaskId d))
      (mp_dependencies m) = None"
    by (auto simp: find_None_iff)
  then show ?thesis using I(1,2) av by (simp add: importRefusal_def blockingMaterializationIssue_def)
qed

text \<open>
  C3. The whole trip of a prompt pack. When a preview of a parsed plan can be imported, its ids are
  addressable, and the bridge to the Queue keeps its promises, a confirmed import succeeds: there is
  a new Queue item for each selected item of the pack, two items never share one, the dependencies of
  each new Queue item are exactly the Queue items of its dependencies in the pack, and no other item
  of the Queue has changed.
\<close>

theorem imported_pack_reaches_queue:
  assumes "plan = planOfDrafts before drafts pack policy"
    and "preview = buildPromptPackImportPreview lc plan selection"
    and "pip_importAvailable preview" and "addressable (pip_selectedItems preview)"
    and "pip_smartQueueMaterialization preview = Some m"
    and "bridgePromises b view"
    and "materializePromptPackPreviewToQueue (Some b) True dir preview m q = (r, q')"
  shows "\<exists>queueId result. r = Some result \<and> mres_ok result \<and> inj_on queueId (ppi_id ` set (pip_selectedItems preview))
    \<and> (\<forall>item \<in> set (pip_selectedItems preview).
          queueId (ppi_id item) \<notin> dom (view q)
          \<and> (\<exists>ds. view q' (queueId (ppi_id item)) = Some ds
               \<and> set ds = queueId ` set (ppi_dependencies item)))
    \<and> (\<forall>i. i \<notin> queueId ` ppi_id ` set (pip_selectedItems preview) \<longrightarrow> view q' i = view q i)"
proof -
  let ?items = "pip_selectedItems preview"
  have ok: "chosenOk ?items" using chosen_of_plan [OF assms(1)] assms(2,3) by blast
  have m: "buildSmartQueueMaterialization (ppl_pack plan) ?items = Some m"
    using assms(5) unfolding assms(2) by (simp add: buildPromptPackImportPreview_def Let_def)
  have none: "importRefusal True preview m True = None"
    by (rule imported_not_refused [OF ok assms(4) m assms(3)])
  note T = task_of_prompt(1) [OF imported_tasks(3) [OF ok assms(4) m]]
  have prompts: "promptIdOf ` set (mp_tasks m) = ppi_id ` set ?items" using T by (metis set_map)
  have d: "distinct (map promptIdOf (mp_tasks m))"
    unfolding T using assms(4) by (auto simp: addressable_def distinct_map inj_on_def)
  obtain created where P: "im_errors (importState b dir m q) = []"
    "\<And>i c. created i = Some c \<longleftrightarrow> c \<in> set (im_createdTasks (importState b dir m q)) \<and> ct_itemId c = i"
    "dom created = promptIdOf ` set (mp_tasks m)"
    "distinct (map ct_queueItemId (im_createdTasks (importState b dir m q)))"
    "\<And>c. c \<in> set (im_createdTasks (importState b dir m q)) \<Longrightarrow> ct_queueItemId c \<notin> dom (view q)"
    "\<And>c. c \<in> set (im_createdTasks (importState b dir m q)) \<Longrightarrow>
       view (im_queue (importState b dir m q)) (ct_queueItemId c)
         = Some (upstreamIds m created (mp_dependencies m) (ct_itemId c))"
    "\<And>i. i \<notin> ct_queueItemId ` set (im_createdTasks (importState b dir m q)) \<Longrightarrow>
       view (im_queue (importState b dir m q)) i = view q i"
    by (rule promised_import [OF assms(6) none d refl, where dir = dir and q = q], rule that)
  let ?st = "importState b dir m q"
  have "list_all typedWorkspace (mp_tasks m)"
    unfolding list_all_iff typedWorkspace_def setting_def
    using imported_tasks(3) [OF ok assms(4) m] imported_workspaces by blast
  then have rq: "r = Some (resultOf ?st)" "q' = im_queue ?st"
    using assms(7) none by (simp_all add: materialize_unfold)
  let ?qid = "\<lambda>i. ct_queueItemId (the (created i))"
  have held: "\<exists>c. created i = Some c \<and> c \<in> set (im_createdTasks ?st) \<and> ct_itemId c = i"
    if "i \<in> ppi_id ` set ?items" for i
    using that P(2,3) prompts by (metis domD)
  have inj: "inj_on ?qid (ppi_id ` set ?items)"
  proof (rule inj_onI)
    fix x y assume xy: "x \<in> ppi_id ` set ?items" "y \<in> ppi_id ` set ?items" "?qid x = ?qid y"
    obtain c e where "created x = Some c" "c \<in> set (im_createdTasks ?st)" "ct_itemId c = x"
      "created y = Some e" "e \<in> set (im_createdTasks ?st)" "ct_itemId e = y"
      using held xy(1,2) by meson
    moreover from this xy(3) have "c = e" using P(4) by (simp add: distinct_map inj_on_def)
    ultimately show "x = y" by simp
  qed
  have items: "?qid (ppi_id item) \<notin> dom (view q) \<and> (\<exists>ds. view q' (?qid (ppi_id item)) = Some ds
      \<and> set ds = ?qid ` set (ppi_dependencies item))" if i: "item \<in> set ?items" for item
  proof -
    obtain c where c: "created (ppi_id item) = Some c" "c \<in> set (im_createdTasks ?st)" "ct_itemId c = ppi_id item"
      using held i by blast
    have "set (upstreamIds m created (mp_dependencies m) (ppi_id item)) = ?qid ` set (ppi_dependencies item)"
      unfolding upstreamIds_def set_map imported_upstream [OF ok assms(4) m i] by (rule refl)
    then show ?thesis using P(5,6) [OF c(2)] c(1,3) rq(2) by simp
  qed
  have "ct_queueItemId ` set (im_createdTasks ?st) \<subseteq> ?qid ` ppi_id ` set ?items"
  proof
    fix j assume "j \<in> ct_queueItemId ` set (im_createdTasks ?st)"
    then obtain c where c: "c \<in> set (im_createdTasks ?st)" "j = ct_queueItemId c" by blast
    then have e: "created (ct_itemId c) = Some c" using P(2) by blast
    then have "ct_itemId c \<in> ppi_id ` set ?items" using P(3) prompts by blast
    moreover have "j = ?qid (ct_itemId c)" using c e by simp
    ultimately show "j \<in> ?qid ` ppi_id ` set ?items" by blast
  qed
  then have "view q' i = view q i" if "i \<notin> ?qid ` ppi_id ` set ?items" for i
    using P(7) that rq(2) by blast
  moreover have "mres_ok (resultOf ?st)" using P(1) by (simp add: resultOf_def)
  ultimately show ?thesis using inj items rq(1) by blast
qed


text \<open>A Queue kept as a list of ids with their dependencies, whose new ids are longer than the old ones.\<close>

definition listBridge :: "(string \<times> string list) list QueueBridge" where
  "listBridge =
     \<lparr>qb_createItem = (\<lambda>input s. let i = CHR ''q'' # concat (map fst s) in
        (CreateReturned True (Some (i, qci_title input)) None None, (i, qci_dependencies input) # s)),
      qb_updateItem = (\<lambda>i ds s. (UpdateReturned True None None, AList.update i ds s)),
      qb_runSettingsDefaults = None\<rparr>"

lemma listBridge_promises: "bridgePromises listBridge map_of"
proof -
  have "\<forall>x \<in> fst ` set s. length x \<le> length (concat (map fst s))" for s :: "(string \<times> string list) list"
    by (induction s) (auto intro: trans_le_add2)
  then have fresh: "CHR ''q'' # concat (map fst s) \<notin> fst ` set s" for s :: "(string \<times> string list) list"
    by fastforce
  show ?thesis
    using fresh by (simp add: bridgePromises_def listBridge_def Let_def dom_map_of_conv_image_fst update_conv')
qed

lemma example_available: "pip_importAvailable (buildPromptPackImportPreview codeUnitCompare examplePlan None)"
proof -
  have "ppl_errors examplePlan = []"
    unfolding examplePlan_def planOfDrafts_errors
    using example_ok example_items by (simp add: examplePlan_def)
  then show ?thesis
    unfolding preview_available preview_all_items Let_def set_stable example_items by auto
qed

lemma example_addressable:
  "addressable (pip_selectedItems (buildPromptPackImportPreview codeUnitCompare examplePlan None))"
proof -
  have less2: "i < Suc (Suc 0) \<longleftrightarrow> i = 0 \<or> i = Suc 0" for i by auto
  show ?thesis
    unfolding preview_all_items example_items example_stable addressable_def
    by (auto simp: less2 itemNumber_def slugify_letters example_numbers)
qed

theorem imported_pack_reaches_queue_witness:
  "\<exists>m r q' queueId.
     pip_smartQueueMaterialization (buildPromptPackImportPreview codeUnitCompare examplePlan None) = Some m
     \<and> materializePromptPackPreviewToQueue (Some listBridge) True None
         (buildPromptPackImportPreview codeUnitCompare examplePlan None) m [(''old'', [])] = (Some r, q')
     \<and> mres_ok r \<and> map_of q' ''old'' = Some []
     \<and> map_of q' (queueId ''a'') = Some [] \<and> map_of q' (queueId ''b'') \<noteq> Some []"
proof -
  let ?p = "buildPromptPackImportPreview codeUnitCompare examplePlan None"
  have items: "pip_selectedItems ?p = [exampleA, exampleB]"
    unfolding preview_all_items example_items example_stable by (rule refl)
  have "chosenOk (pip_selectedItems ?p)"
    by (rule chosen_of_plan [OF examplePlan_def example_available])
  from adapted_tasks [OF this example_addressable, of "ppl_pack examplePlan"]
  obtain m where m: "pip_smartQueueMaterialization ?p = Some m"
    by (auto simp: buildPromptPackImportPreview_def Let_def)
  obtain r q' where rq: "materializePromptPackPreviewToQueue (Some listBridge) True None ?p m [(''old'', [])] = (r, q')"
    by fastforce
  from imported_pack_reaches_queue [OF examplePlan_def refl example_available example_addressable m
      listBridge_promises rq]
  obtain queueId result where c: "r = Some result \<and> mres_ok result"
      "\<forall>item \<in> set [exampleA, exampleB]. queueId (ppi_id item) \<notin> dom (map_of [(''old'', [] :: string list)])
        \<and> (\<exists>ds. map_of q' (queueId (ppi_id item)) = Some ds \<and> set ds = queueId ` set (ppi_dependencies item))"
      "\<forall>i. i \<notin> queueId ` ppi_id ` set [exampleA, exampleB] \<longrightarrow> map_of q' i = map_of [(''old'', [])] i"
    unfolding items by blast
  have a: "queueId ''a'' \<notin> dom (map_of [(''old'', [] :: string list)])"
      "\<exists>ds. map_of q' (queueId ''a'') = Some ds \<and> set ds = {}"
    using c(2) by simp_all
  have b: "queueId ''b'' \<notin> dom (map_of [(''old'', [] :: string list)])"
      "\<exists>ds. map_of q' (queueId ''b'') = Some ds \<and> set ds = {queueId ''a''}"
    using c(2) by simp_all
  have "''old'' \<notin> queueId ` ppi_id ` set [exampleA, exampleB]" using a(1) b(1) by auto
  with c(3) have "map_of q' ''old'' = Some []" by simp
  moreover have "map_of q' (queueId ''a'') = Some []" using a(2) by simp
  moreover have "map_of q' (queueId ''b'') \<noteq> Some []" using b(2) by force
  ultimately show ?thesis using m rq c(1) by blast
qed

end
