(* ===== verification/Workspace_Store.thy ===== *)
theory Workspace_Store
  imports Json
begin

text \<open>
  The workspaces kept in memory when the desktop shell is not there, \<open>workspace/memoryWorkspaceApi.ts\<close>,
  with the repair of duplicate Queue views of \<open>workbench/workspaceSingletonWidgets.ts\<close> on the widgets of
  a workspace (their visibility is always set, and they carry neither a creation time nor a layout object).

  The summary of a workspace is one object that two collections refer to, the list of workspaces and the
  state of its workbench, and the code mutates it through either. The model keeps the objects in a list
  of cells; a reference is a position. Objects handed out are copies in the code and values here. What
  \<open>JSON.parse\<close> accepts is a parameter, and the text of its error is shortened to the error's name; the sharing and the counters are what the invariant is about.
\<close>

section \<open>Data\<close>

record WorkspaceSummary =
  wss_id :: string
  wss_title :: string
  wss_description :: "string option"
  wss_rootPath :: "string option"
  wss_status :: string
  wss_createdAt :: string
  wss_updatedAt :: string
  wss_lastOpenedAt :: "string option"
  wss_widgetCount :: nat
  wss_workspaceAgentCount :: nat
  wss_noteCount :: nat
  wss_skillCount :: nat
  wss_knowledgeDocumentCount :: nat
  wss_queueTaskCount :: nat
  wss_workbenchId :: "string option"

record WorkbenchSummary =
  wbs_id :: string
  wbs_workspaceId :: string
  wbs_presetOriginId :: "string option"

record WidgetLayoutUpdate =
  wl_layoutMode :: string
  wl_dockX :: "js_number option"
  wl_dockY :: "js_number option"
  wl_dockWidth :: "js_number option"
  wl_dockHeight :: "js_number option"
  wl_popoutX :: "js_number option"
  wl_popoutY :: "js_number option"
  wl_popoutWidth :: "js_number option"
  wl_popoutHeight :: "js_number option"
  wl_alwaysOnTop :: bool
  wl_isVisible :: bool

text \<open>The layout fields of a widget are the fields of a layout update.\<close>

record WidgetSummary =
  wgi_id :: string
  wgi_definitionId :: string
  wgi_title :: string
  wgi_category :: string
  wgi_layout :: WidgetLayoutUpdate
  wgi_config :: "string option"
  wgi_state :: "string option"

record SharedStateObjectSummary =
  sso_id :: string
  sso_key :: string
  sso_value :: string
  sso_valueKind :: string

record WorkspaceEvent =
  wev_createdAt :: string
  wev_id :: string
  wev_kind :: string
  wev_summary :: string

text \<open>The state of a workbench as it is kept (with a reference) and as it is handed out.\<close>

record 'w WorkbenchStateOf =
  wst_workspace :: 'w
  wst_workbench :: "WorkbenchSummary option"
  wst_widgetInstances :: "WidgetSummary list"
  wst_sharedStateObjects :: "SharedStateObjectSummary list"
  wst_recentEvents :: "WorkspaceEvent list"

type_synonym StoredWorkbench = "nat WorkbenchStateOf"
type_synonym WorkspaceWorkbenchState = "WorkspaceSummary WorkbenchStateOf"

record WorkspaceSession =
  wsn_id :: string
  wsn_workspaceId :: string
  wsn_status :: string
  wsn_activeWidgetId :: "string option"

record MemoryStore =
  ms_objects :: "WorkspaceSummary list"
  ms_workspaces :: "nat list"
  ms_states :: "(string \<times> StoredWorkbench) list"
  ms_fallbackId :: nat

definition emptyStore :: MemoryStore where
  "emptyStore = \<lparr>ms_objects = [], ms_workspaces = [], ms_states = [], ms_fallbackId = 1\<rparr>"

record CreateWorkspaceRequest =
  cwr_title :: string
  cwr_description :: "string option"
  cwr_rootPath :: "string option"

record AddWidgetRequest =
  awr_workspaceId :: string
  awr_workbenchId :: string
  awr_definitionId :: string
  awr_title :: string
  awr_category :: string

section \<open>Duplicate Queue views\<close>

definition isQueueWidgetDefinition :: "string \<Rightarrow> bool" where
  "isQueueWidgetDefinition definitionId \<longleftrightarrow> definitionId = ''agent-queue''"

definition identifyQueueViews :: "WidgetSummary list \<Rightarrow> WidgetSummary list" where
  "identifyQueueViews = filter (\<lambda>w. isQueueWidgetDefinition (wgi_definitionId w))"

definition compareBooleans :: "bool \<Rightarrow> bool \<Rightarrow> js_number" where
  "compareBooleans left right = (if left = right then Fin 0 else if left then Fin (-1) else Fin 1)"

definition compareNumbers :: "js_number \<Rightarrow> js_number \<Rightarrow> js_number" where
  "compareNumbers left right = (if left = right \<and> left \<noteq> NaN then Fin 0 else js_sub left right)"

fun finiteNumberOrInfinity :: "js_number option \<Rightarrow> js_number" where
  "finiteNumberOrInfinity (Some (Fin x)) = Fin x"
| "finiteNumberOrInfinity _ = PosInf"

text \<open>
  A widget with its position. The ranks of creation time and layout order are infinite for every widget
  of a workspace, so they compare as equal.
\<close>

definition compareQueueViewRank :: "(string \<Rightarrow> string \<Rightarrow> int)
    \<Rightarrow> WidgetSummary \<times> nat \<Rightarrow> WidgetSummary \<times> nat \<Rightarrow> js_number" where
  "compareQueueViewRank lc left right =
     (let l = wgi_layout (fst left); r = wgi_layout (fst right) in
      js_or (compareBooleans (wl_isVisible l) (wl_isVisible r))
       (js_or (compareNumbers PosInf PosInf)
        (js_or (compareNumbers PosInf PosInf)
         (js_or (compareNumbers (finiteNumberOrInfinity (wl_dockY l)) (finiteNumberOrInfinity (wl_dockY r)))
          (js_or (compareNumbers (finiteNumberOrInfinity (wl_dockX l)) (finiteNumberOrInfinity (wl_dockX r)))
           (js_or (localeCompare lc (wgi_id (fst left)) (wgi_id (fst right)))
             (subtract_numbers (of_nat (snd left)) (of_nat (snd right)))))))))"

definition selectCanonicalQueueView ::
    "(string \<Rightarrow> string \<Rightarrow> int) \<Rightarrow> WidgetSummary list \<Rightarrow> WidgetSummary option" where
  "selectCanonicalQueueView lc widgets =
     (let queueViews = identifyQueueViews widgets in
      if queueViews = [] then None
      else map_option fst (js_first (js_sort (compareQueueViewRank lc)
             (mapWithIndex (\<lambda>w i. (w, i)) queueViews))))"

definition setQueueViewVisibility :: "WidgetSummary \<Rightarrow> bool \<Rightarrow> WidgetSummary" where
  "setQueueViewVisibility widget visible =
     widget\<lparr>wgi_layout := (wgi_layout widget)\<lparr>wl_isVisible := visible\<rparr>\<rparr>"

definition repairedWidgets :: "(string \<Rightarrow> string \<Rightarrow> int) \<Rightarrow> WidgetSummary list \<Rightarrow> WidgetSummary list" where
  "repairedWidgets lc widgets =
     (let queueViews = identifyQueueViews widgets in
      case selectCanonicalQueueView lc widgets of
        None \<Rightarrow> widgets
      | Some canonical \<Rightarrow>
          if length queueViews \<le> 1 then widgets
          else let duplicateIds = map wgi_id (filter (\<lambda>w. wgi_id w \<noteq> wgi_id canonical) queueViews) in
            map (\<lambda>w. if wgi_id w = wgi_id canonical then setQueueViewVisibility w True
                     else if wgi_id w \<in> set duplicateIds then setQueueViewVisibility w False
                     else w) widgets)"

section \<open>Helpers\<close>

definition requiredValue :: "string \<Rightarrow> string \<Rightarrow> string + string" where
  "requiredValue given label =
     (let trimmedValue = js_trim given in
      if trimmedValue = [] then Inl (label @ '' must not be empty'') else Inr trimmedValue)"

definition normalizeWorkspaceRoot :: "string option \<Rightarrow> string option" where
  "normalizeWorkspaceRoot given =
     (let trimmed = js_trim (js_default [] given) in
      if trimmed = [] \<or> trimmed = ''~'' \<or> trimmed = ''.'' then None else Some trimmed)"

text \<open>\<open>value <= 0\<close> and \<open>value > 16384\<close> are both false for \<open>NaN\<close>.\<close>

definition validateDimension :: "js_number option \<Rightarrow> string \<Rightarrow> string option" where
  "validateDimension given label =
     (case given of
        None \<Rightarrow> None
      | Some n \<Rightarrow>
          if n \<noteq> NaN \<and> \<not> js_pos n then Some (label @ '' must be positive'')
          else if js_pos (js_sub n (Fin 16384)) then Some (label @ '' must be no greater than 16384'')
          else None)"

definition validateWidgetLayout :: "WidgetLayoutUpdate \<Rightarrow> string option" where
  "validateWidgetLayout layout =
     (if wl_layoutMode layout \<notin> {''docked'', ''popped_out'', ''minimized''}
      then Some (''unsupported widget layout mode: '' @ wl_layoutMode layout)
      else js_coalesce (validateDimension (wl_dockWidth layout) ''dock width'')
       (js_coalesce (validateDimension (wl_dockHeight layout) ''dock height'')
        (js_coalesce (validateDimension (wl_popoutWidth layout) ''popout width'')
         (js_coalesce (validateDimension (wl_popoutHeight layout) ''popout height'')
          (if wl_dockWidth layout = None \<or> wl_dockHeight layout = None
           then Some ''dock dimensions are required''
           else if wl_layoutMode layout = ''popped_out''
              \<and> (wl_popoutWidth layout = None \<or> wl_popoutHeight layout = None)
           then Some ''popout dimensions are required for popped_out layout''
           else if wl_alwaysOnTop layout \<and> wl_layoutMode layout \<noteq> ''popped_out''
           then Some ''always_on_top is only valid for popped_out layout'' else None)))))"

definition RECENT_EVENT_LIMIT :: nat where "RECENT_EVENT_LIMIT = 100"

text \<open>The id of an object: a fixed start and the counter.\<close>

definition fallbackName :: "string \<Rightarrow> nat \<Rightarrow> string" where
  "fallbackName start n = start @ js_nat_string n"

definition appendRecentEvent ::
    "nat \<Rightarrow> string \<Rightarrow> string \<Rightarrow> string \<Rightarrow> StoredWorkbench \<Rightarrow> StoredWorkbench" where
  "appendRecentEvent n time kind summary st =
     st\<lparr>wst_recentEvents := js_slice_last RECENT_EVENT_LIMIT (wst_recentEvents st
       @ [\<lparr>wev_createdAt = time, wev_id = fallbackName ''fallback_evt_'' n, wev_kind = kind,
           wev_summary = summary\<rparr>])\<rparr>"

definition isAgentWidget :: "WidgetSummary \<Rightarrow> bool" where
  "isAgentWidget w \<longleftrightarrow> wgi_definitionId w = ''interactive-agent''"

definition syncWorkspaceStats :: "StoredWorkbench \<Rightarrow> WorkspaceSummary \<Rightarrow> WorkspaceSummary" where
  "syncWorkspaceStats st workspace =
     workspace\<lparr>wss_widgetCount := length (wst_widgetInstances st),
               wss_workspaceAgentCount := length (filter isAgentWidget (wst_widgetInstances st))\<rparr>"

definition findWorkspace :: "MemoryStore \<Rightarrow> string \<Rightarrow> nat option" where
  "findWorkspace s workspaceId =
     List.find (\<lambda>r. wss_id (ms_objects s ! r) = workspaceId) (ms_workspaces s)"

definition cloneWorkspaceWorkbenchState ::
    "(string \<Rightarrow> string \<Rightarrow> int) \<Rightarrow> MemoryStore \<Rightarrow> StoredWorkbench \<Rightarrow> WorkspaceWorkbenchState" where
  "cloneWorkspaceWorkbenchState lc s st =
     \<lparr>wst_workspace = ms_objects s ! wst_workspace st, wst_workbench = wst_workbench st,
      wst_widgetInstances = repairedWidgets lc (wst_widgetInstances st),
      wst_sharedStateObjects = wst_sharedStateObjects st, wst_recentEvents = wst_recentEvents st\<rparr>"

text \<open>An object and the state of a workbench written back, and the counter moved on.\<close>

definition writeBack :: "WorkspaceSummary \<Rightarrow> string \<Rightarrow> StoredWorkbench \<Rightarrow> nat \<Rightarrow> MemoryStore \<Rightarrow> MemoryStore" where
  "writeBack w workspaceId st n s =
     s\<lparr>ms_objects := (ms_objects s)[wst_workspace st := w],
       ms_states := AList.update workspaceId st (ms_states s), ms_fallbackId := n\<rparr>"

section \<open>Operations\<close>

definition createWorkspace :: "string \<Rightarrow> string \<Rightarrow> CreateWorkspaceRequest \<Rightarrow> MemoryStore
    \<Rightarrow> (string + WorkspaceSummary) \<times> MemoryStore" where
  "createWorkspace now eventTime request s =
     (let title = js_trim (cwr_title request);
          rootPath = normalizeWorkspaceRoot (cwr_rootPath request);
          n = ms_fallbackId s; i = fallbackName ''fallback_ws_'' n;
          workbenchId = fallbackName ''fallback_wb_'' (Suc n)
      in if title = [] then (Inl ''workspace title must not be empty'', s)
         else
           let workspace = \<lparr>wss_id = i, wss_title = title, wss_description = cwr_description request,
                  wss_rootPath = rootPath, wss_status = ''active'', wss_createdAt = now,
                  wss_updatedAt = now, wss_lastOpenedAt = None, wss_widgetCount = 0,
                  wss_workspaceAgentCount = 0, wss_noteCount = 0, wss_skillCount = 0,
                  wss_knowledgeDocumentCount = 0, wss_queueTaskCount = 0,
                  wss_workbenchId = Some workbenchId\<rparr>;
               r = length (ms_objects s);
               st = \<lparr>wst_workspace = r,
                  wst_workbench = Some \<lparr>wbs_id = workbenchId, wbs_workspaceId = i, wbs_presetOriginId = None\<rparr>,
                  wst_widgetInstances = [], wst_sharedStateObjects = [], wst_recentEvents = []\<rparr>
           in (Inr workspace,
               s\<lparr>ms_objects := ms_objects s @ [workspace], ms_workspaces := r # ms_workspaces s,
                 ms_states := AList.update i
                   (appendRecentEvent (n + 2) eventTime ''workspace_created'' ''Workspace created'' st)
                   (ms_states s),
                 ms_fallbackId := n + 3\<rparr>))"

definition listWorkspaces :: "MemoryStore \<Rightarrow> WorkspaceSummary list" where
  "listWorkspaces s = map (\<lambda>r. ms_objects s ! r) (ms_workspaces s)"

definition updateWorkspace :: "string \<Rightarrow> string \<Rightarrow> string \<Rightarrow> string \<Rightarrow> MemoryStore
    \<Rightarrow> (string + WorkspaceSummary option) \<times> MemoryStore" where
  "updateWorkspace now eventTime workspaceId title s =
     (case findWorkspace s workspaceId of
        None \<Rightarrow> (Inr None, s)
      | Some r \<Rightarrow>
          (case requiredValue title ''workspace title'' of
             Inl message \<Rightarrow> (Inl message, s)
           | Inr t \<Rightarrow>
               let w = (ms_objects s ! r)\<lparr>wss_title := t, wss_updatedAt := now\<rparr>; n = ms_fallbackId s in
               (Inr (Some w),
                case map_of (ms_states s) (wss_id w) of
                  None \<Rightarrow> s\<lparr>ms_objects := (ms_objects s)[r := w]\<rparr>
                | Some st \<Rightarrow>
                    writeBack w (wss_id w) (appendRecentEvent n eventTime ''workspace_renamed''
                      ''Workspace renamed'' (st\<lparr>wst_workspace := r\<rparr>)) (Suc n) s)))"

definition getWorkspaceSummary :: "string \<Rightarrow> MemoryStore \<Rightarrow> WorkspaceSummary option" where
  "getWorkspaceSummary workspaceId s = map_option (\<lambda>r. ms_objects s ! r) (findWorkspace s workspaceId)"

definition openWorkspace :: "string \<Rightarrow> string \<Rightarrow> string \<Rightarrow> MemoryStore
    \<Rightarrow> WorkspaceSession option \<times> MemoryStore" where
  "openWorkspace openedAt eventTime workspaceId s =
     (case findWorkspace s workspaceId of
        None \<Rightarrow> (None, s)
      | Some r \<Rightarrow>
          let w = ms_objects s ! r; n = ms_fallbackId s;
              s' = (case map_of (ms_states s) (wss_id w) of
                 None \<Rightarrow> s
               | Some st \<Rightarrow>
                   let opened = (ms_objects s)[r := syncWorkspaceStats st
                         (w\<lparr>wss_lastOpenedAt := Some openedAt, wss_updatedAt := openedAt\<rparr>)];
                       st' = appendRecentEvent n eventTime ''workspace_opened'' ''Workspace opened'' st
                   in s\<lparr>ms_objects := opened,
                        ms_states := AList.update (wss_id w) st' (ms_states s), ms_fallbackId := Suc n\<rparr>)
          in (Some \<lparr>wsn_id = fallbackName ''fallback_wss_'' (ms_fallbackId s'), wsn_workspaceId = wss_id w,
                    wsn_status = ''open'', wsn_activeWidgetId = None\<rparr>,
              s'\<lparr>ms_fallbackId := Suc (ms_fallbackId s')\<rparr>))"

definition getWorkspaceWorkbenchState :: "(string \<Rightarrow> string \<Rightarrow> int) \<Rightarrow> string \<Rightarrow> MemoryStore
    \<Rightarrow> WorkspaceWorkbenchState option" where
  "getWorkspaceWorkbenchState lc workspaceId s =
     map_option (cloneWorkspaceWorkbenchState lc s) (map_of (ms_states s) workspaceId)"

text \<open>The workbench a widget request addresses.\<close>

definition workbenchFor :: "string \<Rightarrow> string \<Rightarrow> MemoryStore \<Rightarrow> StoredWorkbench option" where
  "workbenchFor workspaceId workbenchId s =
     (case map_of (ms_states s) workspaceId of
        None \<Rightarrow> None
      | Some st \<Rightarrow> if map_option wbs_id (wst_workbench st) = Some workbenchId then Some st else None)"

definition newWidget :: "nat \<Rightarrow> string \<Rightarrow> string \<Rightarrow> string \<Rightarrow> nat \<Rightarrow> WidgetSummary" where
  "newWidget n definitionId title category existingWidgetCount =
     \<lparr>wgi_id = fallbackName ''fallback_wid_'' n, wgi_definitionId = definitionId, wgi_title = title,
      wgi_category = category,
      wgi_layout = \<lparr>wl_layoutMode = ''docked'', wl_dockX = Some (Fin 0),
        wl_dockY = Some (Fin (of_nat existingWidgetCount * (240 + 16))), wl_dockWidth = Some (Fin 360),
        wl_dockHeight = Some (Fin 240), wl_popoutX = None, wl_popoutY = None, wl_popoutWidth = None,
        wl_popoutHeight = None, wl_alwaysOnTop = False, wl_isVisible = True\<rparr>,
      wgi_config = Some ''{}'', wgi_state = Some ''{}''\<rparr>"

definition addWidgetInstanceToWorkbench :: "(string \<Rightarrow> string \<Rightarrow> int) \<Rightarrow> string \<Rightarrow> AddWidgetRequest
    \<Rightarrow> MemoryStore \<Rightarrow> (string + WorkspaceWorkbenchState option) \<times> MemoryStore" where
  "addWidgetInstanceToWorkbench lc eventTime request s =
     (case workbenchFor (awr_workspaceId request) (awr_workbenchId request) s of
        None \<Rightarrow> (Inr None, s)
      | Some st \<Rightarrow>
          (case requiredValue (awr_definitionId request) ''widget definition id'' of
             Inl message \<Rightarrow> (Inl message, s)
           | Inr definitionId \<Rightarrow>
          (case requiredValue (awr_title request) ''widget title'' of
             Inl message \<Rightarrow> (Inl message, s)
           | Inr title \<Rightarrow>
          (case requiredValue (awr_category request) ''widget category'' of
             Inl message \<Rightarrow> (Inl message, s)
           | Inr category \<Rightarrow>
               if definitionId = ''agent-queue''
                  \<and> list_ex (\<lambda>w. wgi_definitionId w = ''agent-queue'') (wst_widgetInstances st)
               then (Inl ''Agent Queue already exists in this workspace.'', s)
               else
                 let n = ms_fallbackId s; existing = wst_widgetInstances st;
                     st1 = st\<lparr>wst_widgetInstances :=
                       existing @ [newWidget n definitionId title category (length existing)]\<rparr>;
                     w = syncWorkspaceStats st1 (ms_objects s ! wst_workspace st);
                     st2 = appendRecentEvent (Suc n) eventTime ''widget_instance_added''
                       ''Widget instance added'' st1;
                     s' = writeBack w (awr_workspaceId request) st2 (n + 2) s
                 in (Inr (Some (cloneWorkspaceWorkbenchState lc s' st2)), s')))))"

text \<open>The first widget with the id replaced, if there is one.\<close>

definition replaceWidget :: "string \<Rightarrow> (WidgetSummary \<Rightarrow> WidgetSummary) \<Rightarrow> WidgetSummary list
    \<Rightarrow> WidgetSummary list option" where
  "replaceWidget widgetId f widgets =
     (if list_ex (\<lambda>w. wgi_id w = widgetId) widgets
      then let widgetIndex = length (takeWhile (\<lambda>w. wgi_id w \<noteq> widgetId) widgets) in
        Some (mapWithIndex (\<lambda>w i. if i = widgetIndex then f w else w) widgets)
      else None)"

definition changeWidget :: "(string \<Rightarrow> string \<Rightarrow> int) \<Rightarrow> string \<Rightarrow> string \<Rightarrow> StoredWorkbench
    \<Rightarrow> WidgetSummary list \<Rightarrow> string \<Rightarrow> string \<Rightarrow> MemoryStore \<Rightarrow> WorkspaceWorkbenchState \<times> MemoryStore" where
  "changeWidget lc eventTime workspaceId st widgets kind summary s =
     (let n = ms_fallbackId s;
          st' = appendRecentEvent n eventTime kind summary (st\<lparr>wst_widgetInstances := widgets\<rparr>);
          s' = writeBack (ms_objects s ! wst_workspace st) workspaceId st' (Suc n) s
      in (cloneWorkspaceWorkbenchState lc s' st', s'))"

definition updateWidgetInstanceState :: "(string \<Rightarrow> bool) \<Rightarrow> (string \<Rightarrow> string \<Rightarrow> int) \<Rightarrow> string \<Rightarrow> string
    \<Rightarrow> string \<Rightarrow> string \<Rightarrow> string \<Rightarrow> MemoryStore \<Rightarrow> (string + WorkspaceWorkbenchState option) \<times> MemoryStore" where
  "updateWidgetInstanceState parses lc eventTime workspaceId workbenchId widgetId newState s =
     (case workbenchFor workspaceId workbenchId s of
        None \<Rightarrow> (Inr None, s)
      | Some st \<Rightarrow>
          if \<not> parses newState then (Inl ''SyntaxError'', s)
          else (case replaceWidget widgetId (\<lambda>w. w\<lparr>wgi_state := Some newState\<rparr>) (wst_widgetInstances st) of
            None \<Rightarrow> (Inr None, s)
          | Some widgets \<Rightarrow>
              map_prod (Inr \<circ> Some) id (changeWidget lc eventTime workspaceId st widgets
                ''widget_state_updated'' ''Widget state updated'' s)))"

definition updateWidgetInstanceLayout :: "(string \<Rightarrow> string \<Rightarrow> int) \<Rightarrow> string \<Rightarrow> string \<Rightarrow> string
    \<Rightarrow> string \<Rightarrow> WidgetLayoutUpdate \<Rightarrow> MemoryStore \<Rightarrow> (string + WorkspaceWorkbenchState option) \<times> MemoryStore" where
  "updateWidgetInstanceLayout lc eventTime workspaceId workbenchId widgetId layout s =
     (case workbenchFor workspaceId workbenchId s of
        None \<Rightarrow> (Inr None, s)
      | Some st \<Rightarrow>
          (case validateWidgetLayout layout of
             Some message \<Rightarrow> (Inl message, s)
           | None \<Rightarrow>
               (case replaceWidget widgetId (\<lambda>w. w\<lparr>wgi_layout := layout\<rparr>) (wst_widgetInstances st) of
                  None \<Rightarrow> (Inr None, s)
                | Some widgets \<Rightarrow>
                    map_prod (Inr \<circ> Some) id (changeWidget lc eventTime workspaceId st widgets
                      ''widget_layout_updated'' ''Widget layout updated'' s))))"

section \<open>Lemmas on the helpers\<close>

lemma fallbackName_inj [simp]: "fallbackName p m = fallbackName p n \<longleftrightarrow> m = n"
  by (metis append_same_eq digitsValue_nat_string fallbackName_def same_append_eq)

lemma appendRecentEvent_fields [simp]:
  "wst_workspace (appendRecentEvent n t k m st) = wst_workspace st"
  "wst_workbench (appendRecentEvent n t k m st) = wst_workbench st"
  "wst_widgetInstances (appendRecentEvent n t k m st) = wst_widgetInstances st"
  "length (wst_recentEvents (appendRecentEvent n t k m st)) \<le> RECENT_EVENT_LIMIT"
  by (simp_all add: appendRecentEvent_def js_slice_last_def)

lemma syncWorkspaceStats_fields [simp]:
  "wss_id (syncWorkspaceStats st w) = wss_id w"
  "wss_workbenchId (syncWorkspaceStats st w) = wss_workbenchId w"
  "wss_widgetCount (syncWorkspaceStats st w) = length (wst_widgetInstances st)"
  "wss_workspaceAgentCount (syncWorkspaceStats st w)
     = length (filter isAgentWidget (wst_widgetInstances st))"
  by (simp_all add: syncWorkspaceStats_def)

lemma update_known:
  "distinct (map fst al) \<Longrightarrow> map_of al k = Some v \<Longrightarrow>
     AList.update k v' al = map (\<lambda>(a, b). if a = k then (a, v') else (a, b)) al"
proof (induction al)
  case (Cons p al)
  have "map (\<lambda>(a, b). if a = k then (a, v') else (a, b)) al = al" if "k \<notin> fst ` set al"
    by (rule map_idI) (use that in force)
  with Cons show ?case by (cases p) auto
qed simp

lemma update_fresh: "k \<notin> fst ` set al \<Longrightarrow> AList.update k v al = al @ [(k, v)]"
  by (induction al) auto

section \<open>The invariant\<close>

text \<open>
  One workspace, its workbench and the counter: the counts are those of the widgets, there is one Queue
  view at most, the log is bounded, and the ids of the widgets are different.
\<close>

definition layoutOk :: "WidgetLayoutUpdate \<Rightarrow> bool" where
  "layoutOk l \<longleftrightarrow> validateWidgetLayout l = None"

definition workbenchOk :: "nat \<Rightarrow> string \<Rightarrow> WorkspaceSummary \<Rightarrow> StoredWorkbench \<Rightarrow> bool" where
  "workbenchOk n k w st \<longleftrightarrow>
     wss_id w = k
     \<and> map_option wbs_id (wst_workbench st) = wss_workbenchId w
     \<and> wss_widgetCount w = length (wst_widgetInstances st)
     \<and> wss_workspaceAgentCount w = length (filter isAgentWidget (wst_widgetInstances st))
     \<and> length (identifyQueueViews (wst_widgetInstances st)) \<le> 1
     \<and> distinct (map wgi_id (wst_widgetInstances st))
     \<and> list_all (\<lambda>x. \<exists>m < n. wgi_id x = fallbackName ''fallback_wid_'' m) (wst_widgetInstances st)
     \<and> list_all (\<lambda>x. layoutOk (wgi_layout x)) (wst_widgetInstances st)
     \<and> length (wst_recentEvents st) \<le> RECENT_EVENT_LIMIT"

text \<open>
  The store: both collections refer to the same objects, under their ids, each once; ids are below the
  counter, so that the next one is new.
\<close>

definition references :: "MemoryStore \<Rightarrow> (string \<times> nat) list" where
  "references s = map (\<lambda>r. (wss_id (ms_objects s ! r), r)) (ms_workspaces s)"

definition storeOk :: "MemoryStore \<Rightarrow> bool" where
  "storeOk s \<longleftrightarrow>
     map (\<lambda>(k, st). (k, wst_workspace st)) (ms_states s) = rev (references s)
     \<and> list_all (\<lambda>r. r < length (ms_objects s)) (ms_workspaces s) \<and> distinct (ms_workspaces s)
     \<and> distinct (map fst (ms_states s))
     \<and> list_all (\<lambda>(k, st). \<exists>m < ms_fallbackId s. k = fallbackName ''fallback_ws_'' m) (ms_states s)
     \<and> list_all (\<lambda>(k, st). workbenchOk (ms_fallbackId s) k (ms_objects s ! wst_workspace st) st)
         (ms_states s)"

lemma storeOkD:
  assumes "storeOk s"
  shows "map (\<lambda>(k, st). (k, wst_workspace st)) (ms_states s) = rev (references s)"
    and "\<And>r. r \<in> set (ms_workspaces s) \<Longrightarrow> r < length (ms_objects s)" and "distinct (ms_workspaces s)"
    and "distinct (map fst (ms_states s))"
    and "\<And>k st. (k, st) \<in> set (ms_states s) \<Longrightarrow> \<exists>m < ms_fallbackId s. k = fallbackName ''fallback_ws_'' m"
    and "\<And>k st. (k, st) \<in> set (ms_states s) \<Longrightarrow>
      workbenchOk (ms_fallbackId s) k (ms_objects s ! wst_workspace st) st"
  using assms by (auto simp: storeOk_def list_all_iff)

lemma storeOkI:
  assumes "map (\<lambda>(k, st). (k, wst_workspace st)) (ms_states s) = rev (references s)"
    and "\<And>r. r \<in> set (ms_workspaces s) \<Longrightarrow> r < length (ms_objects s)" and "distinct (ms_workspaces s)"
    and "distinct (map fst (ms_states s))"
    and "\<And>k st. (k, st) \<in> set (ms_states s) \<Longrightarrow> \<exists>m < ms_fallbackId s. k = fallbackName ''fallback_ws_'' m"
    and "\<And>k st. (k, st) \<in> set (ms_states s) \<Longrightarrow>
      workbenchOk (ms_fallbackId s) k (ms_objects s ! wst_workspace st) st"
  shows "storeOk s"
  unfolding storeOk_def list_all_iff using assms by (intro conjI) blast+

lemma workbenchOk_mono: "workbenchOk n k w st \<Longrightarrow> n \<le> n' \<Longrightarrow> workbenchOk n' k w st"
  by (fastforce simp: workbenchOk_def list_all_iff)

lemma states_refs:
  assumes "storeOk s"
  shows "set (ms_workspaces s) = wst_workspace ` snd ` set (ms_states s)"
    and "distinct (map (wst_workspace \<circ> snd) (ms_states s))"
proof -
  have "map snd (map (\<lambda>(k, st). (k, wst_workspace st)) (ms_states s)) = map snd (rev (references s))"
    using storeOkD(1) [OF assms] by simp
  then have *: "map (wst_workspace \<circ> snd) (ms_states s) = rev (ms_workspaces s)"
    by (simp add: references_def rev_map o_def split_def)
  show "distinct (map (wst_workspace \<circ> snd) (ms_states s))" unfolding * using storeOkD(3) [OF assms] by simp
  have "set (map (wst_workspace \<circ> snd) (ms_states s)) = set (ms_workspaces s)" unfolding * by simp
  then show "set (ms_workspaces s) = wst_workspace ` snd ` set (ms_states s)" by (auto simp: image_image)
qed

lemma same_ref:
  assumes "storeOk s" "(k, st) \<in> set (ms_states s)" "(k', st') \<in> set (ms_states s)"
    "wst_workspace st = wst_workspace st'"
  shows "(k, st) = (k', st')"
proof -
  have "inj_on (wst_workspace \<circ> snd) (set (ms_states s))"
    using states_refs(2) [OF assms(1)] by (simp add: distinct_map)
  from inj_onD [OF this _ assms(2,3)] assms(4) show ?thesis by simp
qed

text \<open>Writing back one workbench keeps the invariant, when that workbench satisfies its part.\<close>

lemma storeOk_writeBack:
  assumes ok: "storeOk s" and st: "map_of (ms_states s) k = Some st"
    and ref: "wst_workspace st' = wst_workspace st" and n: "ms_fallbackId s \<le> n"
    and new: "workbenchOk n k w st'"
  shows "storeOk (writeBack w k st' n s)"
proof -
  note d = storeOkD [OF ok]
  have mem: "(k, st) \<in> set (ms_states s)" using st by (rule map_of_SomeD)
  have range: "wst_workspace st < length (ms_objects s)"
    using d(2) states_refs(1) [OF ok] mem by force
  have idk: "wss_id (ms_objects s ! wst_workspace st) = k" "wss_id w = k"
    using d(6) [OF mem] new by (auto simp: workbenchOk_def)
  let ?f = "\<lambda>(a, b). if a = k then (a, st') else (a, b)"
  let ?s = "writeBack w k st' n s"
  have stateq: "ms_states ?s = map ?f (ms_states s)"
    unfolding writeBack_def by (simp add: update_known [OF d(4) st])
  have uniq: "b = st" if "(k, b) \<in> set (ms_states s)" for b
    using that d(4) st by (metis map_of_is_SomeI option.inject)
  have refs: "references ?s = references s"
    using idk by (auto simp: references_def writeBack_def ref nth_list_update range)
  have "map (\<lambda>(k, st). (k, wst_workspace st)) (map ?f (ms_states s))
      = map (\<lambda>(k, st). (k, wst_workspace st)) (ms_states s)"
    using uniq by (auto simp: ref)
  moreover have "map fst (map ?f (ms_states s)) = map fst (ms_states s)" by auto
  moreover have "workbenchOk n a ((ms_objects s)[wst_workspace st := w] ! wst_workspace b') b'"
    if "(a, b') \<in> set (map ?f (ms_states s))" for a b'
  proof -
    from that obtain b where b: "(a, b) \<in> set (ms_states s)" and b': "b' = (if a = k then st' else b)"
      by (auto split: if_splits)
    show ?thesis
    proof (cases "a = k")
      case True
      then show ?thesis using b' new range ref by simp
    next
      case False
      then have "wst_workspace b \<noteq> wst_workspace st" using same_ref [OF ok b mem] by auto
      then show ?thesis using False b' workbenchOk_mono [OF d(6) [OF b] n] by simp
    qed
  qed
  moreover have "\<exists>m < n. a = fallbackName ''fallback_ws_'' m"
    if "(a, b') \<in> set (map ?f (ms_states s))" for a b'
  proof -
    from that obtain b where "(a, b) \<in> set (ms_states s)" by (auto split: if_splits)
    from d(5) [OF this] n show ?thesis by (auto intro: order_less_le_trans)
  qed
  ultimately have states: "map (\<lambda>(k, st). (k, wst_workspace st)) (ms_states ?s) = rev (references s)"
      "map fst (ms_states ?s) = map fst (ms_states s)"
    and each: "\<And>a b'. (a, b') \<in> set (ms_states ?s) \<Longrightarrow>
        workbenchOk n a ((ms_objects s)[wst_workspace st := w] ! wst_workspace b') b'"
      "\<And>a b'. (a, b') \<in> set (ms_states ?s) \<Longrightarrow> \<exists>m < n. a = fallbackName ''fallback_ws_'' m"
    using d(1) unfolding stateq by simp_all
  have rest: "ms_workspaces ?s = ms_workspaces s" "ms_fallbackId ?s = n"
    "ms_objects ?s = (ms_objects s)[wst_workspace st := w]"
    by (simp_all add: writeBack_def ref)
  show ?thesis by (rule storeOkI) (simp_all add: refs rest states each d(2,3,4))
qed

lemma find_known:
  assumes ok: "storeOk s" and r: "findWorkspace s i = Some r"
  obtains st where "map_of (ms_states s) i = Some st" "wst_workspace st = r"
    "wss_id (ms_objects s ! r) = i" "(i, st) \<in> set (ms_states s)"
proof -
  have "r \<in> set (ms_workspaces s)" "wss_id (ms_objects s ! r) = i"
    using find_Some_iff_mem [OF r [unfolded findWorkspace_def]] by auto
  moreover from this obtain k st where m: "(k, st) \<in> set (ms_states s)" "wst_workspace st = r"
    using states_refs(1) [OF ok] by auto
  moreover have "k = i" using storeOkD(6) [OF ok m(1)] m(2) \<open>wss_id _ = i\<close> by (simp add: workbenchOk_def)
  ultimately show thesis using that [of st] storeOkD(4) [OF ok] by auto
qed

lemma find_unknown:
  assumes ok: "storeOk s"
  shows "findWorkspace s i = None \<longleftrightarrow> map_of (ms_states s) i = None"
proof
  assume none: "findWorkspace s i = None"
  show "map_of (ms_states s) i = None"
  proof (rule ccontr)
    assume "map_of (ms_states s) i \<noteq> None"
    then obtain st where "(i, st) \<in> set (ms_states s)" by (auto dest: map_of_SomeD)
    then have "wst_workspace st \<in> set (ms_workspaces s)" "wss_id (ms_objects s ! wst_workspace st) = i"
      using states_refs(1) [OF ok] storeOkD(6) [OF ok] by (force simp: workbenchOk_def)+
    with none show False by (auto simp: findWorkspace_def find_None_iff)
  qed
next
  assume "map_of (ms_states s) i = None"
  then show "findWorkspace s i = None" by (cases "findWorkspace s i") (auto elim: find_known [OF ok])
qed

lemma workbenchFor_known:
  "workbenchFor k b s = Some st \<Longrightarrow> map_of (ms_states s) k = Some st"
  by (auto simp: workbenchFor_def split: option.splits if_splits)

section \<open>The operations keep the invariant\<close>

lemma storeOk_empty: "storeOk emptyStore"
  by (simp add: storeOk_def emptyStore_def references_def)

lemma workbench_of:
  "storeOk s \<Longrightarrow> map_of (ms_states s) k = Some st \<Longrightarrow>
     workbenchOk (ms_fallbackId s) k (ms_objects s ! wst_workspace st) st"
  by (rule storeOkD(6)) (auto dest: map_of_SomeD)

lemma storeOk_create:
  assumes ok: "storeOk s" shows "storeOk (snd (createWorkspace now t request s))"
proof (cases "js_trim (cwr_title request) = []")
  case True
  then show ?thesis using ok by (simp add: createWorkspace_def Let_def)
next
  case False
  let ?s = "snd (createWorkspace now t request s)" and ?n = "ms_fallbackId s"
  let ?i = "fallbackName ''fallback_ws_'' ?n" and ?r = "length (ms_objects s)"
  note d = storeOkD [OF ok]
  obtain w st where obj: "ms_objects ?s = ms_objects s @ [w]" and ws: "ms_workspaces ?s = ?r # ms_workspaces s"
    and st: "ms_states ?s = AList.update ?i st (ms_states s)" and n: "ms_fallbackId ?s = ?n + 3"
    and new: "workbenchOk (?n + 3) ?i w st" and r: "wst_workspace st = ?r"
    using False that
    by (simp add: createWorkspace_def Let_def workbenchOk_def identifyQueueViews_def)
  have fresh: "?i \<notin> fst ` set (ms_states s)" using d(5) by fastforce
  have st': "ms_states ?s = ms_states s @ [(?i, st)]" unfolding st by (rule update_fresh [OF fresh])
  have old: "wst_workspace b < ?r" if "(a, b) \<in> set (ms_states s)" for a b
    using d(2) states_refs(1) [OF ok] that by force
  have refs: "references ?s = (?i, ?r) # references s"
    using new d(2) by (auto simp: references_def obj ws nth_append workbenchOk_def)
  have "?r \<notin> set (ms_workspaces s)" using d(2) by auto
  moreover have "workbenchOk (?n + 3) a ((ms_objects s @ [w]) ! wst_workspace b) b"
    if "(a, b) \<in> set (ms_states s)" for a b
    using workbenchOk_mono [OF d(6) [OF that]] old [OF that] by (simp add: nth_append)
  moreover have "\<exists>m < ?n + 3. a = fallbackName ''fallback_ws_'' m"
    if "(a, b) \<in> set (ms_states s)" for a b
    using d(5) [OF that] by (auto intro: trans_less_add1)
  ultimately show ?thesis
    using new r fresh less_imp_add_positive
    by (intro storeOkI) (auto simp: refs obj ws st' n d(1,3,4) intro: less_SucI dest: d(2))
qed

lemma workbenchOk_event:
  "workbenchOk n k w st \<Longrightarrow> n \<le> n' \<Longrightarrow> wss_id w' = wss_id w \<Longrightarrow> wss_workbenchId w' = wss_workbenchId w \<Longrightarrow>
   wss_widgetCount w' = wss_widgetCount w \<Longrightarrow> wss_workspaceAgentCount w' = wss_workspaceAgentCount w \<Longrightarrow>
   workbenchOk n' k w' (appendRecentEvent m t e e' st)"
  using workbenchOk_mono [of n k w st n'] by (simp add: workbenchOk_def)

lemma storeOk_rename:
  assumes ok: "storeOk s" shows "storeOk (snd (updateWorkspace now t i title s))"
proof (cases "findWorkspace s i")
  case None
  then show ?thesis using ok by (simp add: updateWorkspace_def)
next
  case (Some r)
  then obtain st where st: "map_of (ms_states s) i = Some st" "wst_workspace st = r"
    "wss_id (ms_objects s ! r) = i" by (rule find_known [OF ok])
  then have same: "st\<lparr>wst_workspace := r\<rparr> = st" by simp
  have "storeOk (writeBack ((ms_objects s ! r)\<lparr>wss_title := title', wss_updatedAt := now\<rparr>) i
      (appendRecentEvent (ms_fallbackId s) t ''workspace_renamed'' ''Workspace renamed'' st)
      (Suc (ms_fallbackId s)) s)" for title'
    by (rule storeOk_writeBack [OF ok st(1)])
      (use workbench_of [OF ok st(1)] st(2) in \<open>auto intro: workbenchOk_event\<close>)
  then show ?thesis using ok Some st same
    by (auto simp: updateWorkspace_def Let_def split: sum.split)
qed

lemma storeOk_counter: "storeOk s \<Longrightarrow> storeOk (s\<lparr>ms_fallbackId := Suc (ms_fallbackId s)\<rparr>)"
  using workbenchOk_mono [of "ms_fallbackId s" _ _ _ "Suc (ms_fallbackId s)"]
  by (fastforce simp: storeOk_def references_def list_all_iff less_Suc_eq)

lemma storeOk_open:
  assumes ok: "storeOk s" shows "storeOk (snd (openWorkspace now t i s))"
proof (cases "findWorkspace s i")
  case None
  then show ?thesis using ok by (simp add: openWorkspace_def)
next
  case (Some r)
  then obtain st where st: "map_of (ms_states s) i = Some st" "wst_workspace st = r"
    "wss_id (ms_objects s ! r) = i" by (rule find_known [OF ok])
  let ?w = "syncWorkspaceStats st ((ms_objects s ! r)\<lparr>wss_lastOpenedAt := Some now, wss_updatedAt := now\<rparr>)"
  let ?st = "appendRecentEvent (ms_fallbackId s) t ''workspace_opened'' ''Workspace opened'' st"
  have "workbenchOk (Suc (ms_fallbackId s)) i ?w ?st"
    by (rule workbenchOk_event [OF workbench_of [OF ok st(1)]])
      (use workbench_of [OF ok st(1)] st(2) in \<open>simp_all add: workbenchOk_def\<close>)
  then have "storeOk (writeBack ?w i ?st (Suc (ms_fallbackId s)) s)"
    by (intro storeOk_writeBack [OF ok st(1)]) simp_all
  from storeOk_counter [OF this] show ?thesis
    using Some st by (simp add: openWorkspace_def Let_def writeBack_def)
qed

lemma newWidget_fields [simp]:
  "wgi_id (newWidget n d t c k) = fallbackName ''fallback_wid_'' n"
  "wgi_definitionId (newWidget n d t c k) = d"
  "layoutOk (wgi_layout (newWidget n d t c k))"
  by (simp_all add: newWidget_def layoutOk_def validateWidgetLayout_def validateDimension_def)

lemma storeOk_add:
  assumes ok: "storeOk s" shows "storeOk (snd (addWidgetInstanceToWorkbench lc t request s))"
proof (cases "workbenchFor (awr_workspaceId request) (awr_workbenchId request) s")
  case None
  then show ?thesis using ok by (simp add: addWidgetInstanceToWorkbench_def)
next
  case (Some st)
  let ?k = "awr_workspaceId request" and ?n = "ms_fallbackId s"
  have st: "map_of (ms_states s) ?k = Some st" using Some by (rule workbenchFor_known)
  note old = workbench_of [OF ok st]
  have "storeOk (writeBack (syncWorkspaceStats st1 (ms_objects s ! wst_workspace st)) ?k
      (appendRecentEvent (Suc ?n) t e e' st1) (?n + 2) s)"
    if st1: "st1 = st\<lparr>wst_widgetInstances := wst_widgetInstances st @ [newWidget ?n d ti c m]\<rparr>"
      and single: "\<not> (d = ''agent-queue''
        \<and> list_ex (\<lambda>w. wgi_definitionId w = ''agent-queue'') (wst_widgetInstances st))" for st1 d ti c m e e'
  proof (rule storeOk_writeBack [OF ok st])
    have "length (identifyQueueViews (wst_widgetInstances st1)) \<le> 1"
      using old single
      by (auto simp: st1 workbenchOk_def identifyQueueViews_def isQueueWidgetDefinition_def list_ex_iff
          filter_empty_conv)
    moreover have "fallbackName ''fallback_wid_'' ?n \<notin> wgi_id ` set (wst_widgetInstances st)"
      using old by (fastforce simp: workbenchOk_def list_all_iff)
    moreover have "list_all (\<lambda>x. \<exists>m < ?n + 2. wgi_id x = fallbackName ''fallback_wid_'' m)
        (wst_widgetInstances st)"
      using workbenchOk_mono [OF old, of "?n + 2"] by (simp add: workbenchOk_def)
    ultimately show "workbenchOk (?n + 2) ?k (syncWorkspaceStats st1 (ms_objects s ! wst_workspace st))
        (appendRecentEvent (Suc ?n) t e e' st1)"
      using old by (auto simp: st1 workbenchOk_def)
  qed (simp_all add: st1)
  then show ?thesis using Some ok
    by (auto simp: addWidgetInstanceToWorkbench_def Let_def split: sum.split)
qed

lemma replaceWidget_map:
  assumes "replaceWidget i f ws = Some ws'" and "\<And>w. g (f w) = g w"
  shows "map g ws' = map g ws"
  using assms by (auto simp: replaceWidget_def Let_def map_mapWithIndex mapWithIndex_def split: if_splits
      intro!: nth_equalityI)

lemma replaceWidget_set:
  "replaceWidget i f ws = Some ws' \<Longrightarrow> x \<in> set ws' \<Longrightarrow> x \<in> set ws \<or> (\<exists>w \<in> set ws. x = f w)"
  by (auto simp: replaceWidget_def Let_def set_mapWithIndex split: if_splits) (metis nth_mem)+

lemma length_filter_map_eq:
  assumes "map g xs = map g ys" shows "length (filter (\<lambda>x. P (g x)) xs) = length (filter (\<lambda>x. P (g x)) ys)"
proof -
  have "map g (filter (\<lambda>x. P (g x)) zs) = filter P (map g zs)" for zs by (induction zs) auto
  then show ?thesis using assms by (metis length_map)
qed

lemma storeOk_change:
  assumes ok: "storeOk s" and st: "map_of (ms_states s) k = Some st"
    and new: "replaceWidget i f (wst_widgetInstances st) = Some widgets"
    and f: "\<And>w. wgi_id (f w) = wgi_id w" "\<And>w. wgi_definitionId (f w) = wgi_definitionId w"
      "\<And>w. layoutOk (wgi_layout w) \<Longrightarrow> layoutOk (wgi_layout (f w))"
  shows "storeOk (snd (changeWidget lc t k st widgets e e' s))"
proof -
  note old = workbench_of [OF ok st]
  have ids: "map wgi_id widgets = map wgi_id (wst_widgetInstances st)"
    and defs: "map wgi_definitionId widgets = map wgi_definitionId (wst_widgetInstances st)"
    using replaceWidget_map [OF new] f(1,2) by blast+
  have "length (identifyQueueViews widgets) = length (identifyQueueViews (wst_widgetInstances st))"
    "length (filter isAgentWidget widgets) = length (filter isAgentWidget (wst_widgetInstances st))"
    using length_filter_map_eq [OF defs] by (simp_all add: identifyQueueViews_def isAgentWidget_def [abs_def])
  moreover have "list_all (\<lambda>x. layoutOk (wgi_layout x)) widgets"
    unfolding list_all_iff
  proof
    fix x
    assume "x \<in> set widgets"
    from replaceWidget_set [OF new this] old f(3) show "layoutOk (wgi_layout x)"
      unfolding workbenchOk_def list_all_iff by metis
  qed
  moreover have "list_all (\<lambda>x. \<exists>m < ms_fallbackId s. wgi_id x = fallbackName ''fallback_wid_'' m) widgets"
  proof -
    have "list_all P (map wgi_id widgets) \<longleftrightarrow> list_all P (map wgi_id (wst_widgetInstances st))" for P
      by (simp add: ids)
    from this [of "\<lambda>x. \<exists>m < ms_fallbackId s. x = fallbackName ''fallback_wid_'' m"] show ?thesis
      using old by (simp add: workbenchOk_def list_all_iff)
  qed
  moreover have "length widgets = length (wst_widgetInstances st)" using ids by (metis length_map)
  ultimately have "workbenchOk (ms_fallbackId s) k (ms_objects s ! wst_workspace st)
      (st\<lparr>wst_widgetInstances := widgets\<rparr>)"
    using old by (simp add: workbenchOk_def ids)
  then show ?thesis unfolding changeWidget_def Let_def snd_conv
    by (intro storeOk_writeBack [OF ok st]) (auto intro: workbenchOk_event)
qed

lemma storeOk_setState:
  "storeOk s \<Longrightarrow> storeOk (snd (updateWidgetInstanceState parses lc t k b i j s))"
  using storeOk_change [where f = "\<lambda>w. w\<lparr>wgi_state := Some j\<rparr>"] workbenchFor_known
  by (auto simp: updateWidgetInstanceState_def split: option.splits)

lemma storeOk_setLayout:
  "storeOk s \<Longrightarrow> storeOk (snd (updateWidgetInstanceLayout lc t k b i l s))"
  using storeOk_change [where f = "\<lambda>w. w\<lparr>wgi_layout := l\<rparr>"] workbenchFor_known
  by (auto simp: updateWidgetInstanceLayout_def layoutOk_def split: option.splits)

section \<open>Sequences of operations\<close>

datatype StoreOp =
    OpCreate string string CreateWorkspaceRequest
  | OpRename string string string string
  | OpOpen string string string
  | OpAddWidget string AddWidgetRequest
  | OpSetState string string string string string
  | OpSetLayout string string string string WidgetLayoutUpdate

text \<open>Whether an operation was carried out, that is, neither threw nor answered \<open>null\<close>, and the new store.\<close>

fun carriedOut :: "string + 'a option \<Rightarrow> bool" where
  "carriedOut (Inr (Some x)) = True"
| "carriedOut y = False"

fun perform :: "(string \<Rightarrow> bool) \<Rightarrow> (string \<Rightarrow> string \<Rightarrow> int) \<Rightarrow> StoreOp \<Rightarrow> MemoryStore \<Rightarrow> bool \<times> MemoryStore" where
  "perform parses lc (OpCreate now t request) s =
     map_prod (\<lambda>r. carriedOut (map_sum id Some r)) id (createWorkspace now t request s)"
| "perform parses lc (OpRename now t i title) s = map_prod carriedOut id (updateWorkspace now t i title s)"
| "perform parses lc (OpOpen now t i) s = map_prod (\<lambda>r. carriedOut (Inr r)) id (openWorkspace now t i s)"
| "perform parses lc (OpAddWidget t request) s =
     map_prod carriedOut id (addWidgetInstanceToWorkbench lc t request s)"
| "perform parses lc (OpSetState t k b i j) s =
     map_prod carriedOut id (updateWidgetInstanceState parses lc t k b i j s)"
| "perform parses lc (OpSetLayout t k b i l) s =
     map_prod carriedOut id (updateWidgetInstanceLayout lc t k b i l s)"

lemma carriedOut_change [simp]: "map_prod carriedOut id (map_prod (Inr \<circ> Some) id p) = (True, snd p)"
  by (cases p) simp

definition performAll :: "(string \<Rightarrow> bool) \<Rightarrow> (string \<Rightarrow> string \<Rightarrow> int) \<Rightarrow> StoreOp list \<Rightarrow> MemoryStore" where
  "performAll parses lc ops = foldl (\<lambda>s oper. snd (perform parses lc oper s)) emptyStore ops"

lemma storeOk_perform: "storeOk s \<Longrightarrow> storeOk (snd (perform parses lc oper s))"
  by (cases oper) (simp_all add: storeOk_create storeOk_rename storeOk_open storeOk_add storeOk_setState
      storeOk_setLayout)

lemma storeOk_performAll: "storeOk (performAll parses lc ops)"
proof -
  have "storeOk s \<Longrightarrow> storeOk (foldl (\<lambda>s oper. snd (perform parses lc oper s)) s ops)" for s
    by (induction ops arbitrary: s) (simp_all add: storeOk_perform)
  then show ?thesis by (simp add: performAll_def storeOk_empty)
qed

text \<open>A Queue view that is alone is left as it is.\<close>

lemma repairedWidgets_single: "length (identifyQueueViews ws) \<le> 1 \<Longrightarrow> repairedWidgets lc ws = ws"
  by (simp add: repairedWidgets_def Let_def split: option.split)

section \<open>Properties\<close>

text \<open>
  C9. The two collections never drift apart. After any sequence of operations, the list of workspaces and
  the states of the workbenches have the same workspaces; the summary in the list is the summary inside
  the workbench state, renamed, opened and counted together; its counts are those of the widgets, of
  which one at most is a Queue view, all with ids of their own and a valid layout, and the log of recent
  events has 100 entries at most.
\<close>

theorem workspace_views_agree:
  "let s = performAll parses lc ops in
   (case getWorkspaceWorkbenchState lc i s of
      None \<Rightarrow> getWorkspaceSummary i s = None
    | Some v \<Rightarrow>
        getWorkspaceSummary i s = Some (wst_workspace v)
        \<and> wss_id (wst_workspace v) = i
        \<and> map_option wbs_id (wst_workbench v) = wss_workbenchId (wst_workspace v)
        \<and> wss_widgetCount (wst_workspace v) = length (wst_widgetInstances v)
        \<and> wss_workspaceAgentCount (wst_workspace v) = length (filter isAgentWidget (wst_widgetInstances v))
        \<and> length (identifyQueueViews (wst_widgetInstances v)) \<le> 1
        \<and> distinct (map wgi_id (wst_widgetInstances v))
        \<and> list_all (\<lambda>w. validateWidgetLayout (wgi_layout w) = None) (wst_widgetInstances v)
        \<and> length (wst_recentEvents v) \<le> 100)"
proof -
  let ?s = "performAll parses lc ops"
  have ok: "storeOk ?s" by (rule storeOk_performAll)
  show ?thesis
  proof (cases "map_of (ms_states ?s) i")
    case None
    with find_unknown [OF ok] show ?thesis
      by (simp add: getWorkspaceWorkbenchState_def getWorkspaceSummary_def)
  next
    case (Some st)
    then obtain r where r: "findWorkspace ?s i = Some r" using find_unknown [OF ok] by fastforce
    then have "wst_workspace st = r" using Some by (auto elim: find_known [OF ok])
    with r Some workbench_of [OF ok Some] show ?thesis
      by (simp add: getWorkspaceWorkbenchState_def getWorkspaceSummary_def cloneWorkspaceWorkbenchState_def
          workbenchOk_def repairedWidgets_single layoutOk_def RECENT_EVENT_LIMIT_def Let_def)
  qed
qed

text \<open>
  C31. A refused operation leaves no trace. Whatever the store, an operation that throws or answers
  \<open>null\<close> leaves it as it was: no object, no event, no id is used up.
\<close>

theorem refused_operation_changes_nothing:
  "(let (accepted, s') = perform parses lc oper s in if accepted then True else s' = s)"
  by (cases oper) (auto simp: createWorkspace_def updateWorkspace_def openWorkspace_def
      addWidgetInstanceToWorkbench_def updateWidgetInstanceState_def updateWidgetInstanceLayout_def
      Let_def split: option.splits sum.splits)

section \<open>Duplicate Queue views\<close>

lemma compareBooleans_comparator: "js_comparator compareBooleans"
  by unfold_locales (auto simp: compareBooleans_def split: if_splits)

lemma compareNumbers_comparator:
  "js_comparator (\<lambda>a b. compareNumbers (finiteNumberOrInfinity a) (finiteNumberOrInfinity b))"
proof -
  have cases: "(\<exists>x. finiteNumberOrInfinity a = Fin x) \<or> finiteNumberOrInfinity a = PosInf" for a
    by (cases a rule: finiteNumberOrInfinity.cases) auto
  show ?thesis
  proof
    fix a b
    show "js_pos (compareNumbers (finiteNumberOrInfinity a) (finiteNumberOrInfinity b))
      \<longleftrightarrow> js_neg (compareNumbers (finiteNumberOrInfinity b) (finiteNumberOrInfinity a))"
      using cases [of a] cases [of b] by (auto simp: compareNumbers_def)
  next
    fix a b c
    assume "\<not> js_pos (compareNumbers (finiteNumberOrInfinity a) (finiteNumberOrInfinity b))"
      and "\<not> js_pos (compareNumbers (finiteNumberOrInfinity b) (finiteNumberOrInfinity c))"
    then show "\<not> js_pos (compareNumbers (finiteNumberOrInfinity a) (finiteNumberOrInfinity c))"
      using cases [of a] cases [of b] cases [of c] by (auto simp: compareNumbers_def split: if_splits)
  qed
qed

lemma constant_comparator: "js_comparator (\<lambda>x y. compareNumbers PosInf PosInf)"
  by unfold_locales (simp_all add: compareNumbers_def)

lemma compareQueueViewRank_comparator:
  assumes "js_comparator (localeCompare lc)" shows "js_comparator (compareQueueViewRank lc)"
  unfolding compareQueueViewRank_def [abs_def] Let_def
  by (intro js_comparator_lex constant_comparator
      js_comparator_on [OF compareBooleans_comparator, where f = "\<lambda>x. wl_isVisible (wgi_layout (fst x))"]
      js_comparator_on [OF compareNumbers_comparator, where f = "\<lambda>x. wl_dockY (wgi_layout (fst x))"]
      js_comparator_on [OF compareNumbers_comparator, where f = "\<lambda>x. wl_dockX (wgi_layout (fst x))"]
      js_comparator_on [OF assms, where f = "\<lambda>x. wgi_id (fst x)"]
      js_comparator_on [OF js_comparator_subtract, where f = "\<lambda>x. of_nat (snd x)"])

lemma canonical_first:
  assumes "selectCanonicalQueueView lc ws = Some c"
  obtains n rest where "js_sort (compareQueueViewRank lc) (mapWithIndex (\<lambda>w i. (w, i)) (identifyQueueViews ws))
      = (c, n) # rest"
  using assms by (auto simp: selectCanonicalQueueView_def Let_def js_first_Some_iff split: if_splits)

lemma canonical_mem:
  assumes "selectCanonicalQueueView lc ws = Some c" shows "c \<in> set (identifyQueueViews ws)"
proof -
  obtain n rest where "js_sort (compareQueueViewRank lc)
      (mapWithIndex (\<lambda>w i. (w, i)) (identifyQueueViews ws)) = (c, n) # rest"
    by (rule canonical_first [OF assms])
  then have "(c, n) \<in> set (mapWithIndex (\<lambda>w i. (w, i)) (identifyQueueViews ws))"
    by (metis list.set_intros(1) set_js_sort)
  then show ?thesis by (auto simp: set_mapWithIndex)
qed

lemma canonical_visible:
  assumes cmp: "js_comparator (localeCompare lc)" and c: "selectCanonicalQueueView lc ws = Some c"
    and x: "x \<in> set (identifyQueueViews ws)" "wl_isVisible (wgi_layout x)"
  shows "wl_isVisible (wgi_layout c)"
proof (rule ccontr)
  assume "\<not> wl_isVisible (wgi_layout c)"
  then have pos: "js_pos (compareQueueViewRank lc (c, n) (x, m))" for n m
    using x(2) by (simp add: compareQueueViewRank_def Let_def js_pos_or compareBooleans_def)
  obtain m where "(x, m) \<in> set (mapWithIndex (\<lambda>w i. (w, i)) (identifyQueueViews ws))"
    using x(1) by (auto simp: set_mapWithIndex in_set_conv_nth)
  moreover obtain n rest where "js_sort (compareQueueViewRank lc)
      (mapWithIndex (\<lambda>w i. (w, i)) (identifyQueueViews ws)) = (c, n) # rest"
    by (rule canonical_first [OF c])
  ultimately show False
    using js_comparator.hd_sort_least [OF compareQueueViewRank_comparator [OF cmp]] pos by blast
qed

text \<open>The change the repair makes to one widget, once the canonical view is known.\<close>

definition repairOne :: "WidgetSummary list \<Rightarrow> WidgetSummary \<Rightarrow> WidgetSummary \<Rightarrow> WidgetSummary" where
  "repairOne ws c w =
     (if wgi_id w = wgi_id c then setQueueViewVisibility w True
      else if w \<in> set (identifyQueueViews ws) then setQueueViewVisibility w False else w)"

lemma setQueueViewVisibility_fields [simp]:
  "wgi_id (setQueueViewVisibility w v) = wgi_id w"
  "wgi_definitionId (setQueueViewVisibility w v) = wgi_definitionId w"
  "wl_isVisible (wgi_layout (setQueueViewVisibility w v)) = v"
  by (simp_all add: setQueueViewVisibility_def)

lemma repairOne_fields [simp]:
  "wgi_id (repairOne ws c w) = wgi_id w" "wgi_definitionId (repairOne ws c w) = wgi_definitionId w"
  by (simp_all add: repairOne_def)

lemma repaired_map:
  assumes "distinct (map wgi_id ws)" "selectCanonicalQueueView lc ws = Some c"
    "2 \<le> length (identifyQueueViews ws)"
  shows "repairedWidgets lc ws = map (repairOne ws c) ws"
proof -
  have "wgi_id w \<in> set (map wgi_id (filter (\<lambda>w. wgi_id w \<noteq> wgi_id c) (identifyQueueViews ws)))
      \<longleftrightarrow> w \<in> set (identifyQueueViews ws)" if "w \<in> set ws" "wgi_id w \<noteq> wgi_id c" for w
    using that assms(1) by (auto simp: identifyQueueViews_def distinct_map inj_on_def)
  then show ?thesis using assms(2,3) by (auto simp: repairedWidgets_def Let_def repairOne_def)
qed

text \<open>
  C30. The repair of duplicate Queue views. When a workspace has several, exactly one is visible after the
  repair: one that was visible, if any was. Nothing but the visibility of Queue views changes: the widgets
  keep their order, every other widget is as before, and a Queue view keeps every field but \<open>isVisible\<close>.
  (The ids of the widgets are different; the collation of the host is a consistent comparator.)
\<close>

theorem repair_shows_one_queue_view:
  assumes "js_comparator (localeCompare lc)" and ids: "distinct (map wgi_id ws)"
    and many: "2 \<le> length (identifyQueueViews ws)"
  shows "\<exists>c. c \<in> set ws \<and> wgi_definitionId c = ''agent-queue''
     \<and> (wl_isVisible (wgi_layout c) \<longleftrightarrow>
          list_ex (\<lambda>w. wgi_definitionId w = ''agent-queue'' \<and> wl_isVisible (wgi_layout w)) ws)
     \<and> repairedWidgets lc ws =
         map (\<lambda>w. if wgi_definitionId w = ''agent-queue''
                  then w\<lparr>wgi_layout := (wgi_layout w)\<lparr>wl_isVisible := (w = c)\<rparr>\<rparr> else w) ws"
proof -
  have "mapWithIndex (\<lambda>w i. (w, i)) (identifyQueueViews ws) \<noteq> []"
    using many by (metis length_mapWithIndex list.size(3) not_numeral_le_zero)
  then obtain c where c: "selectCanonicalQueueView lc ws = Some c"
    using many by (cases "selectCanonicalQueueView lc ws") (auto simp: selectCanonicalQueueView_def Let_def split: if_splits)
  from canonical_mem [OF c] have mem: "c \<in> set ws" "wgi_definitionId c = ''agent-queue''"
    by (simp_all add: identifyQueueViews_def isQueueWidgetDefinition_def)
  have "repairOne ws c w = (if wgi_definitionId w = ''agent-queue''
      then w\<lparr>wgi_layout := (wgi_layout w)\<lparr>wl_isVisible := (w = c)\<rparr>\<rparr> else w)" if "w \<in> set ws" for w
  proof (cases "w = c")
    case True
    with mem show ?thesis by (simp add: repairOne_def setQueueViewVisibility_def)
  next
    case False
    with that mem ids have "wgi_id w \<noteq> wgi_id c" by (auto simp: distinct_map inj_on_def)
    with False that show ?thesis
      by (simp add: repairOne_def identifyQueueViews_def isQueueWidgetDefinition_def setQueueViewVisibility_def)
  qed
  then have "repairedWidgets lc ws = map (\<lambda>w. if wgi_definitionId w = ''agent-queue''
      then w\<lparr>wgi_layout := (wgi_layout w)\<lparr>wl_isVisible := (w = c)\<rparr>\<rparr> else w) ws"
    unfolding repaired_map [OF ids c many] by simp
  moreover have "wl_isVisible (wgi_layout c) \<longleftrightarrow>
      list_ex (\<lambda>w. wgi_definitionId w = ''agent-queue'' \<and> wl_isVisible (wgi_layout w)) ws"
    using canonical_visible [OF assms(1) c] mem
    by (auto simp: list_ex_iff identifyQueueViews_def isQueueWidgetDefinition_def)
  ultimately show ?thesis using mem by blast
qed

text \<open>Two Queue views, the second of which is the visible one.\<close>

definition exampleWidgets :: "WidgetSummary list" where
  "exampleWidgets =
     [setQueueViewVisibility (newWidget 3 ''agent-queue'' ''Queue'' ''workflow'' 0) False,
      newWidget 5 ''notes'' ''Notes'' ''workflow'' 1,
      newWidget 7 ''agent-queue'' ''Queue'' ''workflow'' 2]"

theorem repair_shows_one_queue_view_witness:
  "map (\<lambda>w. (wgi_id w, wl_isVisible (wgi_layout w))) (repairedWidgets codeUnitCompare exampleWidgets) =
     [(fallbackName ''fallback_wid_'' 3, False), (fallbackName ''fallback_wid_'' 5, True),
      (fallbackName ''fallback_wid_'' 7, True)]"
proof -
  have ids: "map wgi_id exampleWidgets = map (fallbackName ''fallback_wid_'') [3, 5, 7]"
    by (simp add: exampleWidgets_def)
  then have d: "distinct (map wgi_id exampleWidgets)" by simp
  have "2 \<le> length (identifyQueueViews exampleWidgets)"
    by (simp add: exampleWidgets_def identifyQueueViews_def isQueueWidgetDefinition_def)
  note repaired = repair_shows_one_queue_view [OF codeUnitCompare_comparator d this]
  have visible: "wl_isVisible (wgi_layout (newWidget n i t k m))" for n i t k m by (simp add: newWidget_def)
  then have "list_ex (\<lambda>w. wgi_definitionId w = ''agent-queue'' \<and> wl_isVisible (wgi_layout w)) exampleWidgets"
    by (simp add: exampleWidgets_def)
  with repaired obtain c where c: "c \<in> set exampleWidgets" "wgi_definitionId c = ''agent-queue''"
      "wl_isVisible (wgi_layout c)"
    and r: "repairedWidgets codeUnitCompare exampleWidgets = map (\<lambda>w. if wgi_definitionId w = ''agent-queue''
         then w\<lparr>wgi_layout := (wgi_layout w)\<lparr>wl_isVisible := (w = c)\<rparr>\<rparr> else w) exampleWidgets"
    by blast
  have c7: "c = newWidget 7 ''agent-queue'' ''Queue'' ''workflow'' 2"
    using c by (auto simp: exampleWidgets_def)
  have "setQueueViewVisibility (newWidget 3 i t k m) False \<noteq> newWidget 7 i' t' k' m'" for i t k m i' t' k' m'
    by (metis visible setQueueViewVisibility_fields(3))
  then show ?thesis unfolding r unfolding c7 exampleWidgets_def by (simp add: visible)
qed

text \<open>A dimension that is not a number passes the validation of a layout, which only compares.\<close>

lemma nan_dimension_accepted: "validateDimension (Some NaN) label = None"
  by (simp add: validateDimension_def)

end
