(* ===== verification/Memory_Tables.thy ===== *)
theory Memory_Tables
  imports Workspace_Store Workers
begin

text \<open>
  The tables that the in-memory workspace API keeps per workspace: notes, skills, Queue workers and the
  decisions on knowledge drafts (\<open>workspace/memoryWorkspaceNotesApi.ts\<close>, \<open>memoryWorkspaceSkillsApi.ts\<close>,
  \<open>memoryAgentQueueWorkersApi.ts\<close>, \<open>memoryKnowledgeDraftReviewApi.ts\<close>). Each is a Map from workspace ids
  to an array of rows, and each changes its arrays in another way.

  The locale \<open>workspace_table\<close> is what the four have in common, a finite map from keys to rows: its client
  is whoever reads a row, and its laws are discharged for each table by an interpretation.
\<close>

section \<open>Tables\<close>

record 'r Table =
  tb_rows :: "(string \<times> 'r list) list"
  tb_next :: nat

definition emptyTable :: "'r Table" where
  "emptyTable = \<lparr>tb_rows = [], tb_next = 1\<rparr>"

definition tableRows :: "'r Table \<Rightarrow> string \<Rightarrow> 'r list" where
  "tableRows t workspaceId = js_default [] (map_of (tb_rows t) workspaceId)"

definition setRows :: "string \<Rightarrow> 'r list \<Rightarrow> 'r Table \<Rightarrow> 'r Table" where
  "setRows workspaceId rows t = t\<lparr>tb_rows := AList.update workspaceId rows (tb_rows t)\<rparr>"

text \<open>\<open>findIndex\<close>, and the array in which the element at that index is replaced.\<close>

definition updateFirst :: "('r \<Rightarrow> bool) \<Rightarrow> ('r \<Rightarrow> 'r) \<Rightarrow> 'r list \<Rightarrow> ('r \<times> 'r list) option" where
  "updateFirst p f rows =
     (if list_ex p rows
      then let k = length (takeWhile (\<lambda>r. \<not> p r) rows); updated = f (rows ! k) in
        Some (updated, mapWithIndex (\<lambda>r i. if i = k then updated else r) rows)
      else None)"

section \<open>Notes\<close>

record WorkspaceNote =
  wn_noteId :: string
  wn_workspaceId :: string
  wn_title :: string
  wn_body :: string
  wn_pinned :: bool
  wn_archived :: bool
  wn_createdAt :: string
  wn_updatedAt :: string

definition createWorkspaceNote :: "string \<Rightarrow> string \<Rightarrow> string \<Rightarrow> string \<Rightarrow> bool
    \<Rightarrow> WorkspaceNote Table \<Rightarrow> WorkspaceNote \<times> WorkspaceNote Table" where
  "createWorkspaceNote now workspaceId title body pinned t =
     (let note = \<lparr>wn_noteId = fallbackName ''dev_memory_note_'' (tb_next t), wn_workspaceId = workspaceId,
            wn_title = title, wn_body = body, wn_pinned = pinned, wn_archived = False,
            wn_createdAt = now, wn_updatedAt = now\<rparr>
      in (note, setRows workspaceId (note # tableRows t workspaceId) (t\<lparr>tb_next := Suc (tb_next t)\<rparr>)))"

definition compareWorkspaceNotes :: "(string \<Rightarrow> string \<Rightarrow> int) \<Rightarrow> WorkspaceNote \<Rightarrow> WorkspaceNote \<Rightarrow> js_number" where
  "compareWorkspaceNotes lc left right =
     (if wn_pinned left \<noteq> wn_pinned right then (if wn_pinned left then Fin (-1) else Fin 1)
      else localeCompare lc (wn_updatedAt right) (wn_updatedAt left))"

definition listWorkspaceNotes :: "(string \<Rightarrow> string \<Rightarrow> int) \<Rightarrow> string \<Rightarrow> WorkspaceNote Table \<Rightarrow> WorkspaceNote list" where
  "listWorkspaceNotes lc workspaceId t = js_sort (compareWorkspaceNotes lc) (tableRows t workspaceId)"

definition getWorkspaceNote :: "string \<Rightarrow> string \<Rightarrow> WorkspaceNote Table \<Rightarrow> WorkspaceNote option" where
  "getWorkspaceNote workspaceId noteId t =
     List.find (\<lambda>n. wn_noteId n = noteId) (tableRows t workspaceId)"

definition updateWorkspaceNote :: "string \<Rightarrow> string \<Rightarrow> string \<Rightarrow> string \<Rightarrow> string \<Rightarrow> bool
    \<Rightarrow> WorkspaceNote Table \<Rightarrow> WorkspaceNote option \<times> WorkspaceNote Table" where
  "updateWorkspaceNote now workspaceId noteId title body pinned t =
     (case updateFirst (\<lambda>n. wn_noteId n = noteId)
        (\<lambda>n. n\<lparr>wn_title := title, wn_body := body, wn_pinned := pinned, wn_updatedAt := now\<rparr>)
        (tableRows t workspaceId) of
        None \<Rightarrow> (None, t)
      | Some (updated, rows) \<Rightarrow> (Some updated, setRows workspaceId rows t))"

section \<open>Skills\<close>

record SkillContent =
  sk_title :: string
  sk_whenToUse :: string
  sk_prerequisites :: string
  sk_steps :: string
  sk_validation :: string
  sk_risks :: string
  sk_tags :: string
  sk_reviewStatus :: string

text \<open>A skill: its content, which is what a request carries, and what the table adds.\<close>

record Skill =
  skill_skillId :: string
  skill_workspaceId :: string
  skill_content :: SkillContent
  skill_createdAt :: string
  skill_updatedAt :: string

definition createSkill :: "string \<Rightarrow> string \<Rightarrow> SkillContent \<Rightarrow> Skill Table \<Rightarrow> Skill \<times> Skill Table" where
  "createSkill now workspaceId content t =
     (let skill = \<lparr>skill_skillId = fallbackName ''dev_memory_skill_'' (tb_next t),
            skill_workspaceId = workspaceId, skill_content = content, skill_createdAt = now,
            skill_updatedAt = now\<rparr>
      in (skill, setRows workspaceId (skill # tableRows t workspaceId) (t\<lparr>tb_next := Suc (tb_next t)\<rparr>)))"

definition compareSkills :: "(string \<Rightarrow> string \<Rightarrow> int) \<Rightarrow> Skill \<Rightarrow> Skill \<Rightarrow> js_number" where
  "compareSkills lc left right = localeCompare lc (skill_updatedAt right) (skill_updatedAt left)"

definition listSkills :: "(string \<Rightarrow> string \<Rightarrow> int) \<Rightarrow> string \<Rightarrow> Skill Table \<Rightarrow> Skill list" where
  "listSkills lc workspaceId t = js_sort (compareSkills lc) (tableRows t workspaceId)"

definition getSkill :: "string \<Rightarrow> string \<Rightarrow> Skill Table \<Rightarrow> Skill option" where
  "getSkill workspaceId skillId t = List.find (\<lambda>s. skill_skillId s = skillId) (tableRows t workspaceId)"

definition updateSkill :: "string \<Rightarrow> string \<Rightarrow> string \<Rightarrow> SkillContent \<Rightarrow> Skill Table
    \<Rightarrow> Skill option \<times> Skill Table" where
  "updateSkill now workspaceId skillId content t =
     (case updateFirst (\<lambda>s. skill_skillId s = skillId)
        (\<lambda>s. s\<lparr>skill_content := content, skill_updatedAt := now\<rparr>) (tableRows t workspaceId) of
        None \<Rightarrow> (None, t)
      | Some (updated, rows) \<Rightarrow> (Some updated, setRows workspaceId rows t))"

definition deleteSkill :: "string \<Rightarrow> string \<Rightarrow> Skill Table \<Rightarrow> bool \<times> Skill Table" where
  "deleteSkill workspaceId skillId t =
     (let skills = tableRows t workspaceId; nextSkills = filter (\<lambda>s. skill_skillId s \<noteq> skillId) skills in
      if length nextSkills = length skills then (False, t) else (True, setRows workspaceId nextSkills t))"

section \<open>Queue workers\<close>

record WorkerRequest =
  wrq_workerId :: "string option"
  wrq_name :: string
  wrq_enabled :: bool
  wrq_scopeKind :: string
  wrq_queueTagId :: "string option"
  wrq_queueTagName :: "string option"
  wrq_displayOrder :: rat

text \<open>The fields of a worker that a request sets.\<close>

definition requestedWorker :: "WorkerRequest \<Rightarrow> string \<Rightarrow> AgentQueueWorkerConfig \<Rightarrow> AgentQueueWorkerConfig" where
  "requestedWorker request name worker =
     (let tagged = (wrq_scopeKind request = ''queue_tag'') in
      worker\<lparr>config_name := name, config_enabled := wrq_enabled request,
             config_scopeKind := (if tagged then ''queue_tag'' else ''all''),
             config_queueTagId := (if tagged then wrq_queueTagId request else None),
             config_queueTagName := (if tagged then wrq_queueTagName request else None),
             config_displayOrder := wrq_displayOrder request\<rparr>)"

text \<open>The id is made, and the counter moved on, before the name is checked.\<close>

definition createMemoryAgentQueueWorker :: "string \<Rightarrow> string \<Rightarrow> WorkerRequest
    \<Rightarrow> AgentQueueWorkerConfig Table \<Rightarrow> (string + AgentQueueWorkerConfig) \<times> AgentQueueWorkerConfig Table" where
  "createMemoryAgentQueueWorker now workspaceId request t =
     (let given = js_trim (js_default [] (wrq_workerId request));
          workerId = js_or_str given (fallbackName ''fallback_worker_'' (tb_next t));
          t' = (if given = [] then t\<lparr>tb_next := Suc (tb_next t)\<rparr> else t)
      in case requiredValue (wrq_name request) ''worker name'' of
           Inl message \<Rightarrow> (Inl message, t')
         | Inr name \<Rightarrow>
             let worker = requestedWorker request name
                   \<lparr>config_workerId = workerId, config_workspaceId = workspaceId, config_name = [],
                    config_enabled = False, config_scopeKind = [], config_queueTagId = None,
                    config_queueTagName = None, config_displayOrder = 0, config_createdAt = now,
                    config_updatedAt = now\<rparr>
             in (Inr worker, setRows workspaceId
                   (filter (\<lambda>c. config_workerId c \<noteq> workerId) (tableRows t' workspaceId) @ [worker]) t'))"

definition listMemoryAgentQueueWorkers :: "string \<Rightarrow> AgentQueueWorkerConfig Table \<Rightarrow> AgentQueueWorkerConfig list" where
  "listMemoryAgentQueueWorkers workspaceId t =
     js_sort (\<lambda>a b. subtract_numbers (config_displayOrder a) (config_displayOrder b))
       (tableRows t workspaceId)"

definition updateMemoryAgentQueueWorker :: "string \<Rightarrow> string \<Rightarrow> string \<Rightarrow> WorkerRequest
    \<Rightarrow> AgentQueueWorkerConfig Table
    \<Rightarrow> (string + AgentQueueWorkerConfig option) \<times> AgentQueueWorkerConfig Table" where
  "updateMemoryAgentQueueWorker now workspaceId workerId request t =
     (case List.find (\<lambda>w. config_workerId w = workerId) (tableRows t workspaceId) of
        None \<Rightarrow> (Inr None, t)
      | Some existing \<Rightarrow>
          (case requiredValue (wrq_name request) ''worker name'' of
             Inl message \<Rightarrow> (Inl message, t)
           | Inr name \<Rightarrow>
               let updated = (requestedWorker request name existing)\<lparr>config_updatedAt := now\<rparr> in
               (Inr (Some updated), setRows workspaceId
                  (map (\<lambda>w. if config_workerId w = workerId then updated else w) (tableRows t workspaceId)) t)))"

definition deleteMemoryAgentQueueWorker :: "string \<Rightarrow> string \<Rightarrow> AgentQueueWorkerConfig Table
    \<Rightarrow> bool \<times> AgentQueueWorkerConfig Table" where
  "deleteMemoryAgentQueueWorker workspaceId workerId t =
     (let workers = tableRows t workspaceId; nextWorkers = filter (\<lambda>w. config_workerId w \<noteq> workerId) workers
      in (length nextWorkers \<noteq> length workers, setRows workspaceId nextWorkers t))"

section \<open>Decisions on knowledge drafts\<close>

record KnowledgeDraftReviewDecision =
  kdr_reviewId :: string
  kdr_workspaceId :: string
  kdr_draftPackId :: string
  kdr_sourceFingerprint :: string
  kdr_sourceQueueItemId :: "string option"
  kdr_sourceRunId :: "string option"
  kdr_proposedItemId :: string
  kdr_proposedItemKey :: string
  kdr_action :: string
  kdr_reviewedAt :: string
  kdr_acceptedKnowledgeDocumentId :: "string option"
  kdr_acceptedSkillId :: "string option"
  kdr_rejectionReason :: "string option"
  kdr_createdAt :: string
  kdr_updatedAt :: string

record DraftReviewRequest =
  drq_draftPackId :: string
  drq_sourceFingerprint :: "string option"
  drq_sourceQueueItemId :: "string option"
  drq_sourceRunId :: "string option"
  drq_proposedItemId :: string
  drq_proposedItemKey :: "string option"
  drq_action :: string
  drq_reviewedAt :: "string option"
  drq_acceptedKnowledgeDocumentId :: "string option"
  drq_acceptedSkillId :: "string option"
  drq_rejectionReason :: "string option"

text \<open>\<open>value?.trim() || null\<close>.\<close>

definition trimmedOrNull :: "string option \<Rightarrow> string option" where
  "trimmedOrNull v = (let s = js_trim (js_default [] v) in if s = [] then None else Some s)"

definition recordKnowledgeDraftReview :: "string \<Rightarrow> string \<Rightarrow> DraftReviewRequest
    \<Rightarrow> KnowledgeDraftReviewDecision Table
    \<Rightarrow> KnowledgeDraftReviewDecision \<times> KnowledgeDraftReviewDecision Table" where
  "recordKnowledgeDraftReview now workspaceId request t =
     (let draftPackId = js_trim (drq_draftPackId request);
          proposedItemId = js_trim (drq_proposedItemId request);
          decision = \<lparr>kdr_reviewId = fallbackName ''dev_memory_kdr_'' (tb_next t),
            kdr_workspaceId = workspaceId, kdr_draftPackId = draftPackId,
            kdr_sourceFingerprint = js_or_str (js_trim (js_default [] (drq_sourceFingerprint request))) draftPackId,
            kdr_sourceQueueItemId = trimmedOrNull (drq_sourceQueueItemId request),
            kdr_sourceRunId = trimmedOrNull (drq_sourceRunId request),
            kdr_proposedItemId = proposedItemId,
            kdr_proposedItemKey = js_or_str (js_trim (js_default [] (drq_proposedItemKey request))) proposedItemId,
            kdr_action = drq_action request, kdr_reviewedAt = js_default now (drq_reviewedAt request),
            kdr_acceptedKnowledgeDocumentId = trimmedOrNull (drq_acceptedKnowledgeDocumentId request),
            kdr_acceptedSkillId = trimmedOrNull (drq_acceptedSkillId request),
            kdr_rejectionReason = trimmedOrNull (drq_rejectionReason request),
            kdr_createdAt = now, kdr_updatedAt = now\<rparr>
      in (decision, setRows workspaceId
            (decision # filter (\<lambda>c. kdr_draftPackId c \<noteq> draftPackId \<or> kdr_proposedItemId c \<noteq> proposedItemId)
               (tableRows t workspaceId)) (t\<lparr>tb_next := Suc (tb_next t)\<rparr>)))"

definition listKnowledgeDraftReviews :: "string \<Rightarrow> string \<Rightarrow> string option
    \<Rightarrow> KnowledgeDraftReviewDecision Table \<Rightarrow> KnowledgeDraftReviewDecision list" where
  "listKnowledgeDraftReviews workspaceId draftPackId sourceFingerprint t =
     (let fingerprint = js_or_str (js_trim (js_default [] sourceFingerprint)) (js_trim draftPackId) in
      filter (\<lambda>d. kdr_draftPackId d = draftPackId \<or> kdr_sourceFingerprint d = fingerprint)
        (tableRows t workspaceId))"

section \<open>The contract of a table\<close>

text \<open>What a command did: it wrote a row, erased the row of a key, or did neither.\<close>

datatype ('k, 'r) effect = Wrote 'r | Erased 'k | Untouched

text \<open>Writing a row replaces the row of the same key, wherever the new one is put.\<close>

definition stores :: "('r \<Rightarrow> 'k) \<Rightarrow> 'r \<Rightarrow> 'r list \<Rightarrow> 'r list \<Rightarrow> bool" where
  "stores key r rows rows' \<longleftrightarrow>
     distinct (map key rows') \<and> set rows' = insert r {x \<in> set rows. key x \<noteq> key r}"

fun runTable :: "('c \<Rightarrow> string \<Rightarrow> 's \<Rightarrow> 'e \<times> 's) \<Rightarrow> (string \<times> 'c) list \<Rightarrow> 's \<Rightarrow> (string \<times> 'e) list \<times> 's" where
  "runTable step [] s = ([], s)"
| "runTable step ((w, c) # cs) s =
     (let (e, s') = step c w s; (es, s'') = runTable step cs s' in ((w, e) # es, s''))"

text \<open>The specification: a finite map, and what an effect does to it.\<close>

fun applyEffect :: "('r \<Rightarrow> 'k) \<Rightarrow> (string \<times> 'k \<rightharpoonup> 'r) \<Rightarrow> string \<times> ('k, 'r) effect \<Rightarrow> (string \<times> 'k \<rightharpoonup> 'r)" where
  "applyEffect key m (w, Wrote r) = m((w, key r) \<mapsto> r)"
| "applyEffect key m (w, Erased k) = m((w, k) := None)"
| "applyEffect key m (w, Untouched) = m"

lemma find_stores:
  assumes "stores key r rows rows'" "distinct (map key rows)"
  shows "List.find (\<lambda>x. key x = k) rows' = (if k = key r then Some r else List.find (\<lambda>x. key x = k) rows)"
proof -
  have find: "List.find (\<lambda>x. key x = k) xs = Some x \<longleftrightarrow> x \<in> set xs \<and> key x = k"
    if "distinct (map key xs)" for xs x
    using that
  proof (induction xs)
    case (Cons y ys)
    then show ?case by (auto simp: image_iff)
  qed simp
  have "List.find (\<lambda>x. key x = k) rows' = Some x
      \<longleftrightarrow> (if k = key r then Some r else List.find (\<lambda>x. key x = k) rows) = Some x" for x
    using assms find [of rows' x] find [of rows x] by (auto simp: stores_def)
  then show ?thesis by (metis option.exhaust)
qed

lemma find_filter:
  "List.find (\<lambda>x. key x = k) (filter (\<lambda>x. key x \<noteq> i) rows)
     = (if k = i then None else List.find (\<lambda>x. key x = k) rows)"
  by (induction rows) auto

locale workspace_table =
  fixes rows :: "'s \<Rightarrow> string \<Rightarrow> 'r list" and key :: "'r \<Rightarrow> 'k" and ok :: "'s \<Rightarrow> bool"
    and step :: "'c \<Rightarrow> string \<Rightarrow> 's \<Rightarrow> ('k, 'r) effect \<times> 's"
  assumes keys: "ok s \<Longrightarrow> distinct (map key (rows s w))"
    and preserves: "ok s \<Longrightarrow> ok (snd (step c w s))"
    and frame: "w' \<noteq> w \<Longrightarrow> rows (snd (step c w s)) w' = rows s w'"
    and wrote: "ok s \<Longrightarrow> fst (step c w s) = Wrote r \<Longrightarrow>
      stores key r (rows s w) (rows (snd (step c w s)) w)"
    and erased: "ok s \<Longrightarrow> fst (step c w s) = Erased k \<Longrightarrow>
      rows (snd (step c w s)) w = filter (\<lambda>x. key x \<noteq> k) (rows s w)"
    and untouched: "ok s \<Longrightarrow> fst (step c w s) = Untouched \<Longrightarrow>
      rows (snd (step c w s)) w = rows s w"
begin

definition lookup :: "'s \<Rightarrow> string \<times> 'k \<Rightarrow> 'r option" where
  "lookup s = (\<lambda>(w, k). List.find (\<lambda>x. key x = k) (rows s w))"

lemma step_refines: "ok s \<Longrightarrow> lookup (snd (step c w s)) = applyEffect key (lookup s) (w, fst (step c w s))"
proof
  fix p :: "string \<times> 'k"
  assume ok: "ok s"
  obtain w' k where p: "p = (w', k)" by (cases p)
  show "lookup (snd (step c w s)) p = applyEffect key (lookup s) (w, fst (step c w s)) p"
  proof (cases "w' = w")
    case False
    then show ?thesis
      by (cases "fst (step c w s)") (simp_all add: p lookup_def frame)
  next
    case True
    then show ?thesis
      using find_stores [OF wrote [OF ok] keys [OF ok]] erased [OF ok] untouched [OF ok]
      by (cases "fst (step c w s)") (auto simp: p lookup_def find_filter)
  qed
qed

lemma run_refines:
  "ok s \<Longrightarrow> runTable step cs s = (es, s') \<Longrightarrow> lookup s' = foldl (applyEffect key) (lookup s) es"
proof (induction cs arbitrary: s es)
  case (Cons p cs)
  obtain w c where p: "p = (w, c)" by (cases p)
  from Cons.prems(2) obtain es' where es: "es = (w, fst (step c w s)) # es'"
    and rest: "runTable step cs (snd (step c w s)) = (es', s')"
    by (auto simp: p split: prod.splits)
  show ?case
    using Cons.IH [OF preserves [OF Cons.prems(1)] rest] step_refines [OF Cons.prems(1), of c w]
    by (simp add: es)
qed simp

lemma run_from_empty:
  assumes "ok s" and "\<And>w. rows s w = []" and "runTable step cs s = (es, s')"
  shows "List.find (\<lambda>x. key x = k) (rows s' w) = foldl (applyEffect key) Map.empty es (w, k)"
proof -
  have "lookup s = Map.empty" by (auto simp: lookup_def assms(2))
  with run_refines [OF assms(1,3)] have "lookup s' = foldl (applyEffect key) Map.empty es" by simp
  then show ?thesis by (metis lookup_def case_prod_conv)
qed

end

section \<open>What the operations do to a table\<close>

lemma tableRows_simps [simp]:
  "tableRows (setRows w rs t) w' = (if w' = w then rs else tableRows t w')"
  "tableRows (t\<lparr>tb_next := n\<rparr>) w = tableRows t w"
  "tb_next (setRows w rs t) = tb_next t"
  "tableRows emptyTable w = []"
  by (simp_all add: tableRows_def setRows_def update_conv' emptyTable_def)

lemma length_takeWhile_ex: "list_ex p xs \<Longrightarrow> length (takeWhile (\<lambda>x. \<not> p x) xs) < length xs"
  by (induction xs) auto

lemma updateFirst_stores:
  assumes u: "updateFirst (\<lambda>x. key x = i) f rows = Some (u, rows')"
    and d: "distinct (map key rows)" and f: "\<And>x. key (f x) = key x"
  shows "stores key u rows rows'" and "map key rows' = map key rows" and "key u = i"
proof -
  let ?k = "length (takeWhile (\<lambda>x. key x \<noteq> i) rows)"
  from u have ex: "list_ex (\<lambda>x. key x = i) rows" and u': "u = f (rows ! ?k)"
    and rows': "rows' = mapWithIndex (\<lambda>r j. if j = ?k then u else r) rows"
    by (auto simp: updateFirst_def Let_def split: if_splits)
  have k: "?k < length rows" using length_takeWhile_ex [OF ex] by simp
  have ki: "key (rows ! ?k) = i" using nth_length_takeWhile [OF k] by simp
  then show "key u = i" by (simp add: u' f)
  show keys: "map key rows' = map key rows"
    by (rule nth_equalityI) (auto simp: rows' u' f)
  have other: "key (rows ! j) \<noteq> i" if "j < length rows" "j \<noteq> ?k" for j
    using d k ki that by (auto simp: distinct_conv_nth)
  have "set rows' = insert u {x \<in> set rows. key x \<noteq> key u}"
    unfolding \<open>key u = i\<close> using k ki other
    by (auto simp: rows' set_mapWithIndex in_set_conv_nth) metis+
  then show "stores key u rows rows'" using d by (simp add: stores_def keys)
qed

text \<open>A table whose keys are made from the counter.\<close>

definition tableOk :: "('r \<Rightarrow> string) \<Rightarrow> string \<Rightarrow> 'r Table \<Rightarrow> bool" where
  "tableOk key start t \<longleftrightarrow> (\<forall>w. distinct (map key (tableRows t w))
     \<and> (\<forall>r \<in> set (tableRows t w). \<exists>m < tb_next t. key r = fallbackName start m))"

lemma tableOkD:
  "tableOk key start t \<Longrightarrow> distinct (map key (tableRows t w))"
  "tableOk key start t \<Longrightarrow> r \<in> set (tableRows t w) \<Longrightarrow> key r \<noteq> fallbackName start (tb_next t)"
proof -
  assume ok: "tableOk key start t"
  then show "distinct (map key (tableRows t w))" by (simp add: tableOk_def)
  assume "r \<in> set (tableRows t w)"
  with ok obtain m where "m < tb_next t" "key r = fallbackName start m" by (auto simp: tableOk_def)
  then show "key r \<noteq> fallbackName start (tb_next t)" by simp
qed

lemma tableOk_create:
  assumes ok: "tableOk key start t" and r: "key r = fallbackName start (tb_next t)"
  shows "tableOk key start (setRows w (r # tableRows t w) (t\<lparr>tb_next := Suc (tb_next t)\<rparr>))"
    and "stores key r (tableRows t w) (r # tableRows t w)"
proof -
  have fresh: "key x \<noteq> key r" if "x \<in> set (tableRows t w)" for x using tableOkD(2) [OF ok that] r by simp
  then show "stores key r (tableRows t w) (r # tableRows t w)"
    using tableOkD(1) [OF ok] by (fastforce simp: stores_def)
  show "tableOk key start (setRows w (r # tableRows t w) (t\<lparr>tb_next := Suc (tb_next t)\<rparr>))"
    using ok fresh r by (fastforce simp: tableOk_def less_Suc_eq)
qed

lemma tableOk_rows:
  assumes ok: "tableOk key start t" and d: "distinct (map key rs)"
    and sub: "key ` set rs \<subseteq> key ` set (tableRows t w)"
  shows "tableOk key start (setRows w rs t)"
proof -
  have "\<exists>m < tb_next t. key r = fallbackName start m" if "r \<in> set rs" for r
  proof -
    from that sub obtain r' where "r' \<in> set (tableRows t w)" "key r' = key r" by auto
    then show ?thesis using ok unfolding tableOk_def by metis
  qed
  then show ?thesis using ok d by (auto simp: tableOk_def)
qed

lemma tableOk_update:
  assumes ok: "tableOk key start t"
    and u: "updateFirst (\<lambda>x. key x = i) f (tableRows t w) = Some (u, rs)" and f: "\<And>x. key (f x) = key x"
  shows "tableOk key start (setRows w rs t)"
proof (rule tableOk_rows [OF ok])
  have keys: "map key rs = map key (tableRows t w)"
    using updateFirst_stores(2) [OF u tableOkD(1) [OF ok] f] .
  then show "distinct (map key rs)" using tableOkD(1) [OF ok] by simp
  show "key ` set rs \<subseteq> key ` set (tableRows t w)" using arg_cong [OF keys, of set] by simp
qed

section \<open>Each table refines a map\<close>

datatype NoteCommand =
    CreateNote string string string bool
  | UpdateNote string string string string bool

fun noteStep :: "NoteCommand \<Rightarrow> string \<Rightarrow> WorkspaceNote Table
    \<Rightarrow> (string, WorkspaceNote) effect \<times> WorkspaceNote Table" where
  "noteStep (CreateNote now title body pinned) w t =
     map_prod Wrote id (createWorkspaceNote now w title body pinned t)"
| "noteStep (UpdateNote now i title body pinned) w t =
     map_prod (case_option Untouched Wrote) id (updateWorkspaceNote now w i title body pinned t)"

abbreviation noteOk :: "WorkspaceNote Table \<Rightarrow> bool" where
  "noteOk \<equiv> tableOk wn_noteId ''dev_memory_note_''"

interpretation note_table: workspace_table tableRows wn_noteId noteOk noteStep
proof
  fix s :: "WorkspaceNote Table" and w c r
  show "noteOk s \<Longrightarrow> distinct (map wn_noteId (tableRows s w))" by (rule tableOkD)
  show "noteOk s \<Longrightarrow> noteOk (snd (noteStep c w s))"
    by (cases c) (auto simp: createWorkspaceNote_def updateWorkspaceNote_def Let_def split: option.split
        intro: tableOk_create(1) tableOk_update)
  show "tableRows (snd (noteStep c w s)) w' = tableRows s w'" if "w' \<noteq> w" for w'
    using that by (cases c) (auto simp: createWorkspaceNote_def updateWorkspaceNote_def Let_def split: option.split)
  show "noteOk s \<Longrightarrow> fst (noteStep c w s) = Wrote r \<Longrightarrow>
      stores wn_noteId r (tableRows s w) (tableRows (snd (noteStep c w s)) w)"
    by (cases c) (auto simp: createWorkspaceNote_def updateWorkspaceNote_def Let_def split: option.splits
        intro: tableOk_create(2) updateFirst_stores(1) tableOkD(1))
  show "noteOk s \<Longrightarrow> fst (noteStep c w s) = Erased k \<Longrightarrow>
      tableRows (snd (noteStep c w s)) w = filter (\<lambda>x. wn_noteId x \<noteq> k) (tableRows s w)" for k
    by (cases c) (auto split: option.splits simp: updateWorkspaceNote_def)
  show "noteOk s \<Longrightarrow> fst (noteStep c w s) = Untouched \<Longrightarrow>
      tableRows (snd (noteStep c w s)) w = tableRows s w"
    by (cases c) (auto simp: createWorkspaceNote_def updateWorkspaceNote_def Let_def split: option.splits)
qed

datatype SkillCommand =
    CreateSkill string SkillContent
  | UpdateSkill string string SkillContent
  | DeleteSkill string

fun skillStep :: "SkillCommand \<Rightarrow> string \<Rightarrow> Skill Table \<Rightarrow> (string, Skill) effect \<times> Skill Table" where
  "skillStep (CreateSkill now content) w t = map_prod Wrote id (createSkill now w content t)"
| "skillStep (UpdateSkill now i content) w t =
     map_prod (case_option Untouched Wrote) id (updateSkill now w i content t)"
| "skillStep (DeleteSkill i) w t =
     map_prod (\<lambda>deleted. if deleted then Erased i else Untouched) id (deleteSkill w i t)"

abbreviation skillOk :: "Skill Table \<Rightarrow> bool" where
  "skillOk \<equiv> tableOk skill_skillId ''dev_memory_skill_''"

lemma filter_same_length: "length (filter P xs) = length xs \<Longrightarrow> filter P xs = xs"
  by (metis filter_id_conv length_filter_less linorder_less_linear order_less_irrefl)

lemmas skill_defs = createSkill_def updateSkill_def deleteSkill_def Let_def

lemma skill_filter_ok: "skillOk t \<Longrightarrow> skillOk (setRows w (filter P (tableRows t w)) t)"
  by (rule tableOk_rows) (auto simp: distinct_map_filter tableOkD)

interpretation skill_table: workspace_table tableRows skill_skillId skillOk skillStep
proof
  fix s :: "Skill Table" and w c r
  show "skillOk s \<Longrightarrow> distinct (map skill_skillId (tableRows s w))" by (rule tableOkD)
  show "skillOk s \<Longrightarrow> skillOk (snd (skillStep c w s))"
    by (cases c) (auto simp: skill_defs split: option.split
        intro: tableOk_create(1) tableOk_update skill_filter_ok)
  show "tableRows (snd (skillStep c w s)) w' = tableRows s w'" if "w' \<noteq> w" for w'
    using that by (cases c) (auto simp: skill_defs split: option.split)
  show "skillOk s \<Longrightarrow> fst (skillStep c w s) = Wrote r \<Longrightarrow>
      stores skill_skillId r (tableRows s w) (tableRows (snd (skillStep c w s)) w)"
    by (cases c) (auto simp: skill_defs split: option.splits if_splits
        intro: tableOk_create(2) updateFirst_stores(1) tableOkD(1))
  show "skillOk s \<Longrightarrow> fst (skillStep c w s) = Erased k \<Longrightarrow>
      tableRows (snd (skillStep c w s)) w = filter (\<lambda>x. skill_skillId x \<noteq> k) (tableRows s w)" for k
    by (cases c) (auto simp: skill_defs split: option.splits if_splits)
  show "skillOk s \<Longrightarrow> fst (skillStep c w s) = Untouched \<Longrightarrow>
      tableRows (snd (skillStep c w s)) w = tableRows s w"
    by (cases c) (auto simp: skill_defs split: option.splits if_splits)
qed

datatype WorkerCommand =
    CreateWorker string WorkerRequest
  | UpdateWorker string string WorkerRequest
  | DeleteWorker string

fun workerStep :: "WorkerCommand \<Rightarrow> string \<Rightarrow> AgentQueueWorkerConfig Table
    \<Rightarrow> (string, AgentQueueWorkerConfig) effect \<times> AgentQueueWorkerConfig Table" where
  "workerStep (CreateWorker now request) w t =
     map_prod (case_sum (\<lambda>_. Untouched) Wrote) id (createMemoryAgentQueueWorker now w request t)"
| "workerStep (UpdateWorker now i request) w t =
     map_prod (case_sum (\<lambda>_. Untouched) (case_option Untouched Wrote)) id
       (updateMemoryAgentQueueWorker now w i request t)"
| "workerStep (DeleteWorker i) w t =
     map_prod (\<lambda>deleted. if deleted then Erased i else Untouched) id (deleteMemoryAgentQueueWorker w i t)"

definition distinctKeys :: "('r \<Rightarrow> 'k) \<Rightarrow> 'r Table \<Rightarrow> bool" where
  "distinctKeys key t \<longleftrightarrow> (\<forall>w. distinct (map key (tableRows t w)))"

lemma distinctKeys_simps:
  "distinctKeys key (t\<lparr>tb_next := n\<rparr>) \<longleftrightarrow> distinctKeys key t"
  "distinctKeys key t \<Longrightarrow> distinctKeys key (setRows w rs t) \<longleftrightarrow> distinct (map key rs)"
  "distinctKeys key t \<Longrightarrow> distinct (map key (tableRows t w))"
  by (auto simp: distinctKeys_def)

lemma stores_upsert:
  assumes "distinct (map key rows)"
  shows "stores key r rows (filter (\<lambda>x. key x \<noteq> key r) rows @ [r])"
    and "stores key r rows (r # filter (\<lambda>x. key x \<noteq> key r) rows)"
  using assms by (auto simp: stores_def distinct_map_filter)

lemma stores_append:
  "distinct (map key rows) \<Longrightarrow> key r = k \<Longrightarrow> stores key r rows (filter (\<lambda>x. key x \<noteq> k) rows @ [r])"
  by (drule stores_upsert(1) [where r = r]) simp

lemma stores_distinct: "stores key r rows rows' \<Longrightarrow> distinct (map key rows')"
  by (simp add: stores_def)

lemma stores_replace:
  assumes "distinct (map key rows)" "x \<in> set rows" "key x = key r"
  shows "stores key r rows (map (\<lambda>y. if key y = key r then r else y) rows)"
proof -
  have "map key (map (\<lambda>y. if key y = key r then r else y) rows) = map key rows" by simp
  then show ?thesis using assms by (auto simp: stores_def simp del: map_map)
qed

lemma requestedWorker_key [simp]: "config_workerId (requestedWorker request name x) = config_workerId x"
  by (simp add: requestedWorker_def Let_def)

lemma create_worker_stores:
  assumes "distinctKeys config_workerId t" "createMemoryAgentQueueWorker now w request t = (Inr r, t')"
  shows "stores config_workerId r (tableRows t w) (tableRows t' w)"
  using assms(2) distinctKeys_simps(3) [OF assms(1)]
  by (auto simp: createMemoryAgentQueueWorker_def Let_def split: sum.splits if_splits intro!: stores_append)

lemma update_worker_stores:
  assumes "distinctKeys config_workerId t"
    and u: "updateMemoryAgentQueueWorker now w i request t = (Inr (Some r), t')"
  shows "stores config_workerId r (tableRows t w) (tableRows t' w)"
proof -
  from u obtain x name where x: "List.find (\<lambda>w. config_workerId w = i) (tableRows t w) = Some x"
    and r: "r = (requestedWorker request name x)\<lparr>config_updatedAt := now\<rparr>"
    and t': "t' = setRows w (map (\<lambda>y. if config_workerId y = i then r else y) (tableRows t w)) t"
    by (auto simp: updateMemoryAgentQueueWorker_def Let_def split: option.splits sum.splits)
  have "x \<in> set (tableRows t w)" "config_workerId x = i" using find_Some_iff_mem [OF x] by auto
  then show ?thesis
    using stores_replace [of config_workerId "tableRows t w" x r] distinctKeys_simps(3) [OF assms(1), of w]
    by (simp add: t' r)
qed

lemma create_worker_rows:
  "w' \<noteq> w \<Longrightarrow> tableRows (snd (createMemoryAgentQueueWorker now w request t)) w' = tableRows t w'"
  "createMemoryAgentQueueWorker now w request t = (Inl m, t') \<Longrightarrow> tableRows t' w = tableRows t w"
  by (auto simp: createMemoryAgentQueueWorker_def Let_def split: sum.splits if_splits)

lemma update_worker_rows:
  "w' \<noteq> w \<Longrightarrow> tableRows (snd (updateMemoryAgentQueueWorker now w i request t)) w' = tableRows t w'"
  "updateMemoryAgentQueueWorker now w i request t = (Inl m, t') \<Longrightarrow> t' = t"
  "updateMemoryAgentQueueWorker now w i request t = (Inr None, t') \<Longrightarrow> t' = t"
  by (auto simp: updateMemoryAgentQueueWorker_def Let_def split: sum.splits option.splits)

text \<open>What a worker command did to the rows of its workspace.\<close>

lemma workerStep_rows:
  assumes ok: "distinctKeys config_workerId t"
  shows "case fst (workerStep c w t) of
      Wrote r \<Rightarrow> stores config_workerId r (tableRows t w) (tableRows (snd (workerStep c w t)) w)
    | Erased k \<Rightarrow> tableRows (snd (workerStep c w t)) w = filter (\<lambda>x. config_workerId x \<noteq> k) (tableRows t w)
    | Untouched \<Rightarrow> tableRows (snd (workerStep c w t)) w = tableRows t w"
proof (cases c)
  case (CreateWorker now request)
  obtain res t' where e: "createMemoryAgentQueueWorker now w request t = (res, t')" by fastforce
  then show ?thesis using create_worker_stores [OF ok] create_worker_rows(2)
    by (cases res) (auto simp: CreateWorker)
next
  case (UpdateWorker now i request)
  obtain res t' where e: "updateMemoryAgentQueueWorker now w i request t = (res, t')" by fastforce
  then show ?thesis using update_worker_stores [OF ok]
    by (cases res) (auto simp: UpdateWorker split: option.split dest: update_worker_rows(2,3))
next
  case (DeleteWorker i)
  then show ?thesis
    by (auto simp: deleteMemoryAgentQueueWorker_def Let_def dest: filter_same_length)
qed

lemma workerStep_frame: "w' \<noteq> w \<Longrightarrow> tableRows (snd (workerStep c w t)) w' = tableRows t w'"
  by (cases c) (simp_all add: create_worker_rows update_worker_rows deleteMemoryAgentQueueWorker_def Let_def)

lemma workerStep_ok:
  assumes ok: "distinctKeys config_workerId t" shows "distinctKeys config_workerId (snd (workerStep c w t))"
  unfolding distinctKeys_def
proof
  fix v
  show "distinct (map config_workerId (tableRows (snd (workerStep c w t)) v))"
    using workerStep_rows [OF ok, where c = c and w = w] workerStep_frame [where w' = v and w = w and c = c and t = t] distinctKeys_simps(3) [OF ok]
    by (cases "v = w") (auto simp: distinct_map_filter dest: stores_distinct split: effect.splits)
qed

interpretation worker_table: workspace_table tableRows config_workerId "distinctKeys config_workerId" workerStep
proof
  fix s :: "AgentQueueWorkerConfig Table" and w c r
  assume ok: "distinctKeys config_workerId s"
  show "distinct (map config_workerId (tableRows s w))" using ok by (rule distinctKeys_simps)
  show "distinctKeys config_workerId (snd (workerStep c w s))" using ok by (rule workerStep_ok)
  note rows = workerStep_rows [OF ok, where c = c and w = w]
  show "fst (workerStep c w s) = Wrote r \<Longrightarrow>
      stores config_workerId r (tableRows s w) (tableRows (snd (workerStep c w s)) w)"
    using rows by simp
  show "fst (workerStep c w s) = Erased k \<Longrightarrow>
      tableRows (snd (workerStep c w s)) w = filter (\<lambda>x. config_workerId x \<noteq> k) (tableRows s w)" for k
    using rows by simp
  show "fst (workerStep c w s) = Untouched \<Longrightarrow> tableRows (snd (workerStep c w s)) w = tableRows s w"
    using rows by simp
qed (rule workerStep_frame)

text \<open>The decision on an item of a draft pack; the newest replaces the one before.\<close>

definition decisionKey :: "KnowledgeDraftReviewDecision \<Rightarrow> string \<times> string" where
  "decisionKey d = (kdr_draftPackId d, kdr_proposedItemId d)"

definition reviewStep :: "string \<times> DraftReviewRequest \<Rightarrow> string \<Rightarrow> KnowledgeDraftReviewDecision Table
    \<Rightarrow> (string \<times> string, KnowledgeDraftReviewDecision) effect \<times> KnowledgeDraftReviewDecision Table" where
  "reviewStep c w t = map_prod Wrote id (recordKnowledgeDraftReview (fst c) w (snd c) t)"

lemma reviewStep_stores:
  assumes "distinctKeys decisionKey t"
  shows "\<exists>d t'. reviewStep c w t = (Wrote d, t') \<and> stores decisionKey d (tableRows t w) (tableRows t' w)
     \<and> (\<forall>v. v \<noteq> w \<longrightarrow> tableRows t' v = tableRows t v)"
proof -
  obtain d t' where e: "recordKnowledgeDraftReview (fst c) w (snd c) t = (d, t')" by fastforce
  have "tableRows t' w = d # filter (\<lambda>x. decisionKey x \<noteq> decisionKey d) (tableRows t w)"
    "\<And>v. v \<noteq> w \<Longrightarrow> tableRows t' v = tableRows t v"
    using e by (auto simp: recordKnowledgeDraftReview_def Let_def decisionKey_def)
  then show ?thesis
    using stores_upsert(2) [OF distinctKeys_simps(3) [OF assms], of d w] e by (auto simp: reviewStep_def)
qed

interpretation review_table: workspace_table tableRows decisionKey "distinctKeys decisionKey" reviewStep
proof
  fix s :: "KnowledgeDraftReviewDecision Table" and w c r
  show frame: "tableRows (snd (reviewStep c w s)) w' = tableRows s w'" if "w' \<noteq> w" for w'
    using that by (simp add: reviewStep_def recordKnowledgeDraftReview_def Let_def)
  assume ok: "distinctKeys decisionKey s"
  show d: "distinct (map decisionKey (tableRows s v))" for v using ok by (rule distinctKeys_simps)
  obtain d t' where e: "reviewStep c w s = (Wrote d, t')"
    "stores decisionKey d (tableRows s w) (tableRows t' w)" "\<And>v. v \<noteq> w \<Longrightarrow> tableRows t' v = tableRows s v"
    using reviewStep_stores [OF ok, where c = c and w = w] by blast
  show "distinctKeys decisionKey (snd (reviewStep c w s))"
    unfolding distinctKeys_def using e(3) d stores_distinct [OF e(2)] by (metis e(1) snd_conv)
  show "fst (reviewStep c w s) = Wrote r \<Longrightarrow>
      stores decisionKey r (tableRows s w) (tableRows (snd (reviewStep c w s)) w)" using e by simp
  show "fst (reviewStep c w s) = Erased k \<Longrightarrow>
      tableRows (snd (reviewStep c w s)) w = filter (\<lambda>x. decisionKey x \<noteq> k) (tableRows s w)" for k
    using e by simp
  show "fst (reviewStep c w s) = Untouched \<Longrightarrow> tableRows (snd (reviewStep c w s)) w = tableRows s w"
    using e by simp
qed

section \<open>Properties\<close>

lemma empty_ok: "tableOk key start emptyTable"
  by (simp add: tableOk_def)

lemma empty_distinctKeys: "distinctKeys key emptyTable"
  by (simp add: distinctKeys_def)

text \<open>
  C14. Four tables, one contract. Whatever commands are sent to them, for whichever workspaces, a table
  answers as a finite map from workspace and key to rows: what is read under a key is the row written
  last under it and not erased since, although one table puts new rows in front, one at the end, one
  replaces them in place and one moves them. (For the workers and the decisions, which have no operation
  that reads one row, the rows are searched.)
\<close>

theorem memory_tables_refine_maps:
  "(let (es, t) = runTable noteStep noteCommands emptyTable in
      getWorkspaceNote w i t = foldl (applyEffect wn_noteId) Map.empty es (w, i))
   \<and> (let (es, t) = runTable skillStep skillCommands emptyTable in
      getSkill w i t = foldl (applyEffect skill_skillId) Map.empty es (w, i))
   \<and> (let (es, t) = runTable workerStep workerCommands emptyTable in
      List.find (\<lambda>x. config_workerId x = i) (tableRows t w)
        = foldl (applyEffect config_workerId) Map.empty es (w, i))
   \<and> (let (es, t) = runTable reviewStep reviewCommands emptyTable in
      List.find (\<lambda>x. decisionKey x = k) (tableRows t w) = foldl (applyEffect decisionKey) Map.empty es (w, k))"
  by (auto simp: getWorkspaceNote_def getSkill_def split: prod.split
      dest: note_table.run_from_empty [OF empty_ok, where k = i and w = w, rotated]
        skill_table.run_from_empty [OF empty_ok, where k = i and w = w, rotated]
        worker_table.run_from_empty [OF empty_distinctKeys, where k = i and w = w, rotated]
        review_table.run_from_empty [OF empty_distinctKeys, where k = k and w = w, rotated])

text \<open>
  The lists: notes with pinned ones first and the newest first among equals, workers by their display
  order; both are rearrangements of the rows.
\<close>

lemma listWorkspaceNotes_sorted:
  assumes "js_comparator (localeCompare lc)"
  shows "mset (listWorkspaceNotes lc w t) = mset (tableRows t w)
     \<and> sorted_wrt (\<lambda>a b. wn_pinned b \<longrightarrow> wn_pinned a) (listWorkspaceNotes lc w t)"
proof -
  have "js_comparator (compareWorkspaceNotes lc)"
  proof
    fix a b
    show "js_pos (compareWorkspaceNotes lc a b) \<longleftrightarrow> js_neg (compareWorkspaceNotes lc b a)"
      using js_comparator.flip [OF assms] by (simp add: compareWorkspaceNotes_def)
  next
    fix a b c
    assume "\<not> js_pos (compareWorkspaceNotes lc a b)" "\<not> js_pos (compareWorkspaceNotes lc b c)"
    then show "\<not> js_pos (compareWorkspaceNotes lc a c)"
      using js_comparator.not_pos_trans [OF assms] by (auto simp: compareWorkspaceNotes_def split: if_splits)
  qed
  from js_comparator.sorted_sort [OF this, of "tableRows t w"] have
    "sorted_wrt (\<lambda>a b. wn_pinned b \<longrightarrow> wn_pinned a) (listWorkspaceNotes lc w t)"
    unfolding listWorkspaceNotes_def
    by (rule sorted_wrt_mono_rel [rotated]) (auto simp: compareWorkspaceNotes_def split: if_splits)
  then show ?thesis by (simp add: listWorkspaceNotes_def mset_js_sort)
qed

text \<open>A worker without a name is refused, but its id is used up.\<close>

lemma refused_worker_uses_id:
  "createMemoryAgentQueueWorker now w
     \<lparr>wrq_workerId = None, wrq_name = '' '', wrq_enabled = True, wrq_scopeKind = ''all'',
      wrq_queueTagId = None, wrq_queueTagName = None, wrq_displayOrder = 0\<rparr> emptyTable
   = (Inl ''worker name must not be empty'', emptyTable\<lparr>tb_next := 2\<rparr>)"
  by (simp add: createMemoryAgentQueueWorker_def requiredValue_def emptyTable_def js_defs)

text \<open>
  A generated worker id may be one that a caller chose; the worker that has it is then replaced.
\<close>

lemma generated_id_replaces_worker:
  assumes "js_trim name \<noteq> []" and "tb_next t = n"
    and "tableRows t w = [x]" and "config_workerId x = fallbackName ''fallback_worker_'' n"
    and "wrq_workerId request = None" and "wrq_name request = name"
  shows "\<exists>r t'. createMemoryAgentQueueWorker now w request t = (Inr r, t') \<and> tableRows t' w = [r]"
  using assms by (simp add: createMemoryAgentQueueWorker_def requiredValue_def js_or_str_def fallbackName_def Let_def)

text \<open>
  The id of a draft pack is trimmed when a decision is recorded but not when decisions are listed, so a
  decision with a fingerprint of its own is not found under the text it was recorded with.
\<close>

lemma padded_pack_id_not_listed:
  assumes "js_trim p \<noteq> p" and "js_trim f \<noteq> js_trim p" "js_trim f \<noteq> []" and "drq_draftPackId request = p"
    and "drq_sourceFingerprint request = Some f"
  shows "listKnowledgeDraftReviews w p None (snd (recordKnowledgeDraftReview now w request emptyTable)) = []"
  using assms by (simp add: listKnowledgeDraftReviews_def recordKnowledgeDraftReview_def Let_def js_or_str_def)

end
