(* ===== verification/Spec2Isabelle.thy ===== *)
theory Spec2Isabelle
  imports Scheduler Runner Lifecycle_Overlay Autonomous_Pass Eligibility Action_Broker Geometry Notes_Format Finalization_Service
    Stuck_Decision Prompt_Import Memory_Tables
begin

text \<open>
  \<^bold>\<open>Hobit: the task queue of the workbench.\<close> Hobit is a desktop workbench for AI-assisted work. Its core
  is a queue of tasks that workers (coding agents run by the desktop shell) execute and a coordinator
  reviews. The decisions about that queue are TypeScript functions over plain records, and this library
  models them: which task may start, where it runs, what becomes of its run, and who may call it done.
  Paths below are relative to \<open>apps/desktop/frontend/src/\<close>.

  \<^bold>\<open>Parts, theories, sources.\<close>

  \<^item> \<open>Prelude\<close>: the part of JavaScript the sources use (strings, optional values, numbers of comparators,
    stable sorting, maps and sets in insertion order). \<open>Json\<close>: \<open>JSON.stringify\<close> and \<open>JSON.parse\<close>.
  \<^item> \<open>Queue_Task\<close>: the task record of \<open>workspace/types/agentQueue.ts\<close> and the normalisers of
    \<open>workbench/agentQueueStatusLabels.ts\<close>. Raw fields stay strings, as they come from the database; the
    normalisers map them to enumerations.
  \<^item> \<open>Dependencies\<close> (\<open>workbench/agentQueueDependencyUi.ts\<close>), \<open>Workers\<close> (\<open>agentQueueWorkerUi.ts\<close>),
    \<open>Ordering\<close> (\<open>queue/agentQueueOrderingActions.ts\<close>), \<open>Routing\<close> (\<open>queue/agentQueueRoutingModel.ts\<close>,
    \<open>queueExecutionPolicy.ts\<close>), \<open>Scheduler\<close> (\<open>agentQueueSchedulerModel.ts\<close>): which worker may take which
    item, in which order, and the plan shown to the user.
  \<^item> \<open>Smart_Queue\<close> (\<open>queue/smartQueueDependencyPropagation.ts\<close>, \<open>smartQueueEligibility.ts\<close>,
    \<open>smartQueueExecutionGate.ts\<close>) and \<open>Eligibility\<close> (\<open>queueDependencyEligibilityModel.ts\<close>): two models of
    when a task may start automatically, related by \<open>eligibility_models_agree\<close>.
  \<^item> \<open>Runner\<close> (\<open>queue/queueRunner.ts\<close>): the decision of the sequential runner.
  \<^item> \<open>Lifecycle\<close>, \<open>Lifecycle_Machine\<close>, \<open>Lifecycle_Overlay\<close> (\<open>queue/smartQueueDogfoodLifecycle*.ts\<close>,
    \<open>queueV2LifecycleModel.ts\<close>): the life of an item from draft to done, as transitions on one record.
  \<^item> \<open>Attempts\<close>, \<open>Coordinator_Decision\<close>, \<open>Report_Payloads\<close>, \<open>Retry\<close> (\<open>queue/smartQueueAttemptModel.ts\<close>,
    \<open>smartQueueCoordinatorDecision.ts\<close>, \<open>smartQueueWorkerReportIntegration.ts\<close>,
    \<open>smartQueueRetrySameAction.ts\<close>): a failed run is decided upon, written into a worker report as JSON
    text, read back from it, and retried at most once.
  \<^item> \<open>Autonomous\<close> (\<open>queue/agentQueueAutonomousRunnerModel.ts\<close>, \<open>agentQueueAutonomousRunnerState.ts\<close>),
    \<open>Autonomous_Runner\<close>, \<open>Autonomous_Pass\<close> (\<open>queue/useAgentQueueAutonomousRunner.ts\<close>): the runner that works
    the queue off by itself. It composes the above: it orders tasks with \<open>Workers\<close>, checks them with
    \<open>Dependencies\<close> and \<open>Smart_Queue\<close>, and records failures with \<open>Retry\<close>.
  \<^item> \<open>Agent_Messaging\<close>, \<open>Agent_Capabilities\<close>, \<open>Agent_Runtime\<close>, \<open>Action_Broker\<close>
    (\<open>workbench/agents/messaging\<close>, \<open>capabilities\<close>, \<open>runtime\<close>, \<open>broker/hobitAgentActionBroker.ts\<close> with
    \<open>results.ts\<close> and \<open>hobitAgentTestActionHandlers.ts\<close>): the in-app agents send each other messages, live in
    a directory (the locale \<open>agent_directory\<close> is its contract), and act on the application only through a
    broker that checks every request against the policy of its capability.
  \<^item> \<open>Js_Text\<close>, \<open>Prompt_Plan\<close>, \<open>Prompt_Preview\<close>, \<open>Circular_Search\<close>, \<open>Prompt_Queue\<close>,
    \<open>Prompt_Materialization\<close>, \<open>Prompt_Import\<close>, \<open>Prompt_Metadata\<close> (\<open>workbench/promptPack\<close>,
    \<open>queue/smartQueuePromptPackPreviewAdapter.ts\<close>, \<open>smartQueuePromptPackMaterialization.ts\<close>): a pack of
    prompts becomes a plan, a preview, a graph of tasks and, once confirmed, items of the Queue, whose
    prompts carry metadata that is read back later.
  \<^item> \<open>Diff_Review\<close> (\<open>workbench/diffReview/diffReviewModel.ts\<close>) and \<open>Finalization\<close>
    (\<open>workbench/coordinator/coordinatorFinalizationModel.ts\<close>): the review of a diff, and the decision that
    closes a task and unblocks its dependents on the evidence of that review. \<open>Finalization_Service\<close>
    (\<open>queue/queueCoordinatorFinalizationService.ts\<close>, \<open>queueCoordinatorFinalizationReport.ts\<close>) carries such
    a decision out against the Queue, and \<open>Stuck_Decision\<close> (\<open>queue/queueCoordinatorDecisionModel.ts\<close>)
    proposes what to do when a worker reports that it is stuck.
  \<^item> \<open>Workspace_Store\<close> (\<open>workspace/memoryWorkspaceApi.ts\<close>, \<open>workbench/workspaceSingletonWidgets.ts\<close>) and
    \<open>Memory_Tables\<close> (\<open>workspace/memoryWorkspaceNotesApi.ts\<close>, \<open>memoryWorkspaceSkillsApi.ts\<close>,
    \<open>memoryAgentQueueWorkersApi.ts\<close>, \<open>memoryKnowledgeDraftReviewApi.ts\<close>): the store the workbench runs on
    without the desktop shell. Workspaces are objects two collections share, so they live in cells; the
    four tables have one contract, the locale \<open>workspace_table\<close>.
  \<^item> \<open>Geometry\<close> (\<open>workbench/workbenchLayoutGeometry.ts\<close>) and \<open>Notes_Format\<close>
    (\<open>workbench/notes/notesFormatters.ts\<close>): the grid of the workbench, and CSV and plain text of notes.

  \<^bold>\<open>State and operations.\<close> The decision functions are pure; their definitions have the names of the
  functions, and a definition that stands for a piece of one is mapped to these lines. Stateful code is
  explicit: a lifecycle item is the record \<open>SmartQueueDogfoodLifecycleItem\<close>, each transition a function to
  a result that holds the next item or an error; the runner's React state and refs are the record
  \<open>AutonomousState\<close>, each \<open>await\<close> an entry of \<open>ar_suspended\<close> that an event resumes, so the orders of events
  are the interleavings of the code. Objects the code copies are values. Times, random ids and the host's
  collation (\<open>localeCompare\<close>) are parameters; where an order matters, the collation is assumed to be a
  consistent comparator (\<open>js_comparator\<close>), which the witnesses instantiate with code-unit order.

  \<^bold>\<open>What the lemmas show.\<close> Per decision: an equivalence with its declarative reading (which tasks start,
  which worker may take what, what a gate says), on every branch. Per machine: an invariant by induction
  over its steps (\<open>lifecycle_invariant\<close>, \<open>workspace_views_agree\<close>, \<open>attempt_life\<close>, \<open>runner_invariant\<close>), what is reachable, for the
  runner the refinement of a specification by phases (\<open>runner_refines_contract\<close>), for the agent directory
  and the tables in memory that of a finite map (\<open>runtime_refines_map\<close>,
  \<open>memory_tables_refine_maps\<close>), and a bound on the moves of a pass
  (\<open>pass_starts_bounded\<close>). The runner's refinement, the bound and the second half of its invariant are
  about the histories in which the end of a run is never announced before the reload after its start is
  over (\<open>settledEvent\<close>); the code does not exclude the others, and \<open>completion_overtakes_reload\<close> shows what
  they do. Across components: an importable prompt pack arrives in the Queue as the graph
  it describes (its settings are typed, so the import does not throw), for every bridge that keeps the
  promises stated in \<open>bridgePromises\<close>
  (\<open>imported_pack_reaches_queue\<close>); whatever the bridge does, success means completeness
  (\<open>import_ok_iff_complete\<close>); accepted work was reviewed (\<open>accepted_commit_was_reviewed\<close>), and what
  the Queue is told of a decision is consistent (\<open>coordinator_decision_consistent\<close>). Two implementations of
  one idea are proved to agree (\<open>dependencyChecks_agree\<close>, \<open>eligibility_models_agree\<close>,
  \<open>invokeAsync_agrees\<close>, \<open>gate_agrees_with_dependency_state\<close> up to cycles). Writers and readers are inverse (\<open>parseCsv_serializeCsv\<close>,
  \<open>failure_recorded\<close>, \<open>metadata_read_back\<close>). Where the code does not keep its own contract, a lemma shows the case
  (\<open>completion_overtakes_reload\<close>, \<open>open_edit_fails_other_task\<close>, \<open>completed_task_autostarts\<close>,
  \<open>stale_acknowledgement_and_approval\<close>, \<open>refused_done_changes_item\<close>, \<open>failed_retry_not_current\<close>,
  \<open>reorder_mixed_tag_names_ineffective\<close>, \<open>runner_stops_before_startable\<close>, \<open>canStartTaskNow_draft\<close>,
  \<open>circular_task_missed\<close>, \<open>number_shadows_id\<close>, \<open>checklist_never_passes\<close>, \<open>blocked_review_keeps_acceptance\<close>,
  \<open>refused_acceptance_says_finalize\<close>, \<open>accepted_blocker_says_missing\<close>, \<open>gate_ready_on_cycle\<close>,
  \<open>follow_up_note_without_warning\<close>, \<open>accepted_without_reason\<close>, \<open>proposal_ignores_limit\<close>,
  \<open>nan_dimension_accepted\<close>, \<open>generated_id_replaces_worker\<close>, \<open>padded_pack_id_not_listed\<close>).

  \<^bold>\<open>Fuel.\<close> The depth-first search over dependencies (\<open>visitDep\<close>) has fuel one more than the number of
  nodes of the graph, and every level visits a new node, so it does not run out
  (\<open>hasQueueDependencyCycle_correct\<close> holds without a side condition); the searches over prompt packs
  (\<open>packVisit\<close>, \<open>circularVisit\<close>) have such fuel too. \<open>readValue\<close> of \<open>Json\<close> has fuel twice the
  length of the text plus two; every text that was written is read back (\<open>jsonParse_stringify\<close>). The other
  recursions are structural or have a measure.

  \<^bold>\<open>Not modelled.\<close> React components, hooks that only wire state to widgets, view models and styles; the
  workspace agent and the providers around the external language model; adapters, workflow modules,
  manifests and smoke tests of the in-app agents; the Rust shell and its SQLite store, which appear as
  answers of asynchronous calls; the JDBC sidecar, the event-runtime experiment and scripts. Within the
  modelled files: labels only widgets show, JSON formatting of notes, the reading of prompt-pack files
  into drafts, and the text of the prompt for a diff reviewer. The bridge between the import and the
  Queue is a parameter. Code units above 255 and numbers
  with a fraction in JSON are outside the model of strings and of JSON.
\<close>

end
